(* ===== verification/Prelude.thy ===== *)
theory Prelude
  imports Main "HOL-Library.Word"
begin

text \<open>
  Shared vocabulary of the development: the machine types of the firmware
  (AArch64 UEFI: \<open>UINTN\<close> and \<open>EFI_STATUS\<close> are 64 bits wide, \<open>int\<close> is 32), the
  \<open>EFI_STATUS\<close> codes of the UEFI specification, a small vocabulary for C function bodies
  with early returns, and the generic lemmas on words that the components share.

  The lemma collections are \<open>c_stmt\<close> (execution of C function bodies) and
  \<open>bitfield\<close> (insertion and extraction of bit fields).
\<close>

unbundle bit_operations_syntax

named_theorems c_stmt "execution of C statement blocks with early return"
named_theorems bitfield "insertion and extraction of bit fields in registers"

section \<open>Machine types\<close>

type_synonym u8 = "8 word"
type_synonym u16 = "16 word"
type_synonym u32 = "32 word"
type_synonym u64 = "64 word"
type_synonym efi_status = u64

text \<open>
  A C \<open>int\<close> is modelled as an \<^typ>\<open>int\<close> in the range of 32 bits. Conversions from the
  64-bit types keep the low 32 bits and read them as two's complement, as the
  compilers used for the package (GCC, AArch64) do; conversions to a wider unsigned
  type sign-extend, which is \<^term>\<open>word_of_int\<close>.
\<close>

definition to_int32 :: "u64 \<Rightarrow> int" where
  "to_int32 w = sint (ucast w :: u32)"

definition efi_of_int :: "int \<Rightarrow> efi_status" where
  "efi_of_int i = word_of_int i"

definition u8_of_int :: "int \<Rightarrow> u8" where
  "u8_of_int i = word_of_int i"

section \<open>Status codes of the UEFI specification\<close>

text \<open>
  Error codes have the top bit of the 64-bit status set; \<open>EFI_ERROR\<close> tests it.
\<close>

definition EFI_ENCODE_ERROR :: "u64 \<Rightarrow> efi_status" where
  "EFI_ENCODE_ERROR n = 0x8000000000000000 OR n"

definition EFI_SUCCESS :: efi_status where "EFI_SUCCESS = 0"
definition EFI_INVALID_PARAMETER :: efi_status where
  "EFI_INVALID_PARAMETER = EFI_ENCODE_ERROR 2"
definition EFI_UNSUPPORTED :: efi_status where "EFI_UNSUPPORTED = EFI_ENCODE_ERROR 3"
definition EFI_DEVICE_ERROR :: efi_status where "EFI_DEVICE_ERROR = EFI_ENCODE_ERROR 7"

definition EFI_ERROR :: "efi_status \<Rightarrow> bool" where
  "EFI_ERROR st \<longleftrightarrow> bit st 63"

lemmas efi_defs = EFI_ENCODE_ERROR_def EFI_SUCCESS_def EFI_INVALID_PARAMETER_def
  EFI_UNSUPPORTED_def EFI_DEVICE_ERROR_def EFI_ERROR_def

lemma efi_codes_nonzero [simp]:
  "EFI_DEVICE_ERROR \<noteq> 0" "EFI_UNSUPPORTED \<noteq> 0" "EFI_INVALID_PARAMETER \<noteq> 0"
  by (simp_all add: efi_defs)

lemma efi_of_int_simps [simp]:
  "efi_of_int 0 = 0" "efi_of_int (-1) = -1" "efi_of_int (-1) \<noteq> 0"
  by (simp_all add: efi_of_int_def)

lemma to_int32_codes [simp]:
  "to_int32 EFI_DEVICE_ERROR = 7" "to_int32 EFI_UNSUPPORTED = 3"
  "to_int32 EFI_INVALID_PARAMETER = 2" "to_int32 0 = 0" "to_int32 (-1) = -1"
  by code_simp+

lemma to_int32_of_int:
  assumes "- (2 ^ 31) \<le> i" and "i < 2 ^ 31"
  shows "to_int32 (efi_of_int i) = i"
proof -
  have "(ucast (word_of_int i :: u64) :: u32) = word_of_int i"
    by (rule bit_word_eqI) (simp add: bit_simps)
  then show ?thesis
    using assms
    by (simp add: to_int32_def efi_of_int_def signed_take_bit_int_eq_self_iff sint_sbintrunc')
qed

section \<open>C function bodies with early return\<close>

text \<open>
  A statement of a function that returns \<open>'r\<close> and works on the state \<open>'s\<close> either falls
  through (\<^term>\<open>None\<close>) or returns. A block runs its statements in order up to the first
  return; a function adds the value of its last \<open>return\<close>.
\<close>

type_synonym ('r, 's) stmt = "'s \<Rightarrow> 'r option \<times> 's"

definition c_skip :: "('r, 's) stmt" where
  "c_skip s = (None, s)"

definition c_return :: "'r \<Rightarrow> ('r, 's) stmt" where
  "c_return r s = (Some r, s)"

definition c_when :: "bool \<Rightarrow> ('r, 's) stmt \<Rightarrow> ('r, 's) stmt" where
  "c_when b st = (if b then st else c_skip)"

fun c_block :: "('r, 's) stmt list \<Rightarrow> ('r, 's) stmt" where
  "c_block [] s = (None, s)"
| "c_block (st # sts) s = (case st s of (Some r, s') \<Rightarrow> (Some r, s') | (None, s') \<Rightarrow> c_block sts s')"

definition c_fun :: "('r, 's) stmt \<Rightarrow> 'r \<Rightarrow> 's \<Rightarrow> 'r \<times> 's" where
  "c_fun body r s = (case body s of (Some x, s') \<Rightarrow> (x, s') | (None, s') \<Rightarrow> (r, s'))"

lemma c_fun_block1 [simp]: "c_fun (c_block [st]) r = c_fun st r"
  by (auto simp: c_fun_def fun_eq_iff split: prod.splits option.splits)

lemmas [c_stmt] = c_skip_def c_return_def c_when_def c_fun_def

text \<open>
  Renaming the returned values of a body, and the laws that push the renaming to its
  \<open>return\<close> statements (collection \<open>c_map\<close>).
\<close>

named_theorems c_map "renaming of the values returned by a C body"

definition map_ret :: "('r \<Rightarrow> 'q) \<Rightarrow> ('r, 's) stmt \<Rightarrow> ('q, 's) stmt" where
  "map_ret h st s = apfst (map_option h) (st s)"

lemma map_ret_skip [c_map]: "map_ret h c_skip = c_skip"
  by (simp add: map_ret_def c_skip_def fun_eq_iff)

lemma map_ret_return [c_map]: "map_ret h (c_return r) = c_return (h r)"
  by (simp add: map_ret_def c_return_def fun_eq_iff)

lemma map_ret_when [c_map]: "map_ret h (c_when b st) = c_when b (map_ret h st)"
  by (simp add: map_ret_def c_when_def c_skip_def fun_eq_iff)

lemma map_ret_if [c_map]: "map_ret h (if b then st else st') = (if b then map_ret h st else map_ret h st')"
  by simp

lemma map_ret_let [c_map]: "map_ret h (let x = a in k x) = (let x = a in map_ret h (k x))"
  by simp

lemma map_ret_block [c_map]: "map_ret h (c_block sts) = c_block (map (map_ret h) sts)"
proof (rule ext)
  show "map_ret h (c_block sts) s = c_block (map (map_ret h) sts) s" for s
    by (induction sts arbitrary: s) (auto simp: map_ret_def split: prod.splits option.splits)
qed

lemma apfst_c_fun [c_map]: "apfst h (c_fun body r s) = c_fun (map_ret h body) (h r) s"
  by (simp add: c_fun_def map_ret_def split: prod.splits option.splits)

section \<open>Bit fields\<close>

text \<open>
  Every register update of the drivers is ``clear a field, or the new value in''. For a
  field mask \<open>m\<close> the update touches the field and nothing else.
\<close>

lemma bitfield_read [bitfield]:
  fixes r x m :: "'a::len word"
  assumes "x AND m = x"
  shows "((r AND NOT m) OR x) AND m = x"
  using assms by (auto simp: bit_eq_iff bit_simps)

lemma bitfield_frame [bitfield]:
  fixes r x m m' :: "'a::len word"
  assumes "x AND m = x" and "m AND m' = 0"
  shows "((r AND NOT m) OR x) AND m' = r AND m'"
  using assms by (auto simp: bit_eq_iff bit_simps)

lemma bitfield_idem:
  fixes r x m :: "'a::len word"
  shows "(((r AND NOT m) OR x) AND NOT m) OR x = (r AND NOT m) OR x"
  by (auto simp: bit_eq_iff bit_simps)

lemma bitfield_set_bit:
  fixes r m :: "'a::len word"
  shows "r OR m = (r AND NOT m) OR m"
  by (auto simp: bit_eq_iff bit_simps)

lemma or_frame [bitfield]:
  fixes r m m' :: "'a::len word"
  shows "m AND m' = 0 \<Longrightarrow> (r OR m) AND m' = r AND m'"
  by (auto simp: bit_eq_iff bit_simps)

lemma clear_frame [bitfield]:
  fixes r m m' :: "'a::len word"
  shows "m AND m' = 0 \<Longrightarrow> (r AND NOT m) AND m' = r AND m'"
  by (auto simp: bit_eq_iff bit_simps)

lemma ucast_and_mask [bitfield]:
  "(ucast (s AND mask n :: 'b::len word) :: 'a::len word) AND mask n = ucast (s AND mask n)"
  by (auto simp: bit_eq_iff bit_simps)

lemma xor_cancel [simp]:
  fixes x y z :: "'a::len word"
  shows "x XOR z = y XOR z \<longleftrightarrow> x = y"
proof
  assume "x XOR z = y XOR z"
  then have "(x XOR z) XOR z = (y XOR z) XOR z" by simp
  then show "x = y" by (simp add: xor.assoc)
qed simp

lemma and_mask_small:
  assumes "0 \<le> i" and "i < 2 ^ n" and "n \<le> LENGTH('a)"
  shows "(word_of_int i :: 'a::len word) AND mask n = word_of_int i"
proof -
  have "take_bit n i = i"
    using assms(1,2) by (simp add: take_bit_int_eq_self_iff)
  then show ?thesis
    by (auto simp: bit_eq_iff bit_simps)
qed

lemma div_floor:
  fixes k x :: int
  assumes "0 < k"
  shows "k * (x div k) \<le> x" and "x - k * (x div k) < k"
  using assms pos_mod_sign [of k x] pos_mod_bound [of k x]
  by (simp_all add: minus_mod_eq_mult_div [symmetric])

lemma uint_of_small:
  assumes "0 \<le> i" and "i < 2 ^ LENGTH('a)"
  shows "uint (word_of_int i :: 'a::len word) = i"
  using assms by (simp add: take_bit_int_eq_self_iff uint_word_of_int_eq)

lemma bit_small_word:
  fixes x :: u32
  assumes "unat x < 2 ^ k" and "bit x n"
  shows "n < k"
proof (rule ccontr)
  assume "\<not> n < k"
  then have "(2 :: nat) ^ k \<le> 2 ^ n" by (intro power_increasing) simp_all
  with assms(1) have "unat x < 2 ^ n" by (rule order_less_le_trans)
  then have "unat x div 2 ^ n = 0" by (rule div_less)
  moreover have "odd (unat x div 2 ^ n)"
    using assms(2) bit_unsigned_iff [where 'a = nat, of x n] by (simp add: bit_iff_odd)
  ultimately show False by simp
qed

lemma unat_below: "unat (w :: 'a :: len word) < 2 ^ LENGTH('a)"
  by (rule unsigned_less)

lemma sint_small: "sint (w :: u32) = int (unat w)" if a: "unat w < 2 ^ 31"
proof -
  from a have "int (unat w) < int (2 ^ 31)" by (simp only: of_nat_less_iff)
  then have u: "uint w < 2 ^ 31" by (simp only: uint_nat of_nat_power of_nat_numeral)
  have "- (2 ^ 31) \<le> uint w" using unsigned_greater_eq [where 'a = int, of w] by (rule order_trans [rotated]) simp
  with u have s: "signed_take_bit 31 (uint w) = uint w" by (intro signed_take_bit_int_eq_self)
  have "sint w = signed_take_bit 31 (uint w)" by (simp add: sint_uint)
  then show ?thesis unfolding s by (simp only: uint_nat)
qed
section \<open>Search loops\<close>

lemma ucast_up_down_u32: "ucast (ucast (x :: u32) :: u64) = x"
  by (rule bit_word_eqI) (simp add: bit_simps)

lemma sint_small_word: "w < 0x80000000 \<Longrightarrow> sint (w :: u32) = uint w"
  by (simp add: sint_small word_less_nat_alt)

lemma find_append: "find P (xs @ ys) = (case find P xs of None \<Rightarrow> find P ys | Some x \<Rightarrow> Some x)"
  by (induction xs) auto

lemma find_agree: "(\<And>x. x \<in> set xs \<Longrightarrow> P x = Q x) \<Longrightarrow> find P xs = find Q xs"
  by (induction xs) auto

lemma find_filter: "find P xs = (case filter P xs of [] \<Rightarrow> None | x # _ \<Rightarrow> Some x)"
  by (induction xs) auto

lemma filter_upto_rest: "filter P [i..n] = j # js \<Longrightarrow> filter P [j + 1..n] = js"
proof (induction i n rule: upto.induct)
  case (1 i n)
  then show ?case by (cases "i \<le> n"; cases "P i") (auto simp: upto_rec1)
qed

lemma takeWhile_of_take: "takeWhile P (take k xs) = take k (takeWhile P xs)"
  by (induction xs arbitrary: k) (auto simp: take_Cons split: nat.splits)

lemma find_upt_Some: "find P [0..<n] = Some i \<longleftrightarrow> i < n \<and> P i \<and> (\<forall>j < i. \<not> P j)"
proof
  assume "i < n \<and> P i \<and> (\<forall>j < i. \<not> P j)"
  then show "find P [0..<n] = Some i" by (simp add: find_Some_iff) (intro exI [of _ i], simp)
qed (auto simp: find_Some_iff)

section \<open>Bytes and words\<close>

text \<open>Up to four bytes in a 32-bit word, least significant first, as the code builds and takes apart words.\<close>

fun pack_bytes :: "nat \<Rightarrow> u8 list \<Rightarrow> u32" where
  "pack_bytes i [] = 0"
| "pack_bytes i (b # bs) = push_bit (i * 8) (ucast b) OR pack_bytes (Suc i) bs"

definition unpack_byte :: "u32 \<Rightarrow> nat \<Rightarrow> u8" where
  "unpack_byte dat i = ucast (drop_bit (i * 8) dat AND 0xff)"

text \<open>Taking a word apart gives the bytes it was built from.\<close>

lemma pack_bytes_bit:
  "bit (pack_bytes i bs) n \<longleftrightarrow>
     n < 32 \<and> i * 8 \<le> n \<and> n div 8 - i < length bs \<and> bit (bs ! (n div 8 - i)) (n mod 8)"
proof (induction bs arbitrary: i)
  case (Cons b bs)
  have b: "bit b k \<Longrightarrow> k < 8" for k using bit_imp_le_length [of b k] by simp
  have le: "m * 8 \<le> n \<longleftrightarrow> m \<le> n div 8" for m by (simp add: less_eq_div_iff_mult_less_eq)
  have sh: "bit (push_bit (i * 8) (ucast b :: u32)) n \<longleftrightarrow> n < 32 \<and> i \<le> n div 8 \<and> bit b (n - i * 8)"
    using le [of i] by (auto simp: bit_simps dest: b)
  consider (below) "n div 8 < i" | (here) "n div 8 = i" | (above) "Suc i \<le> n div 8" by linarith
  then show ?case
  proof cases
    case below
    then show ?thesis using sh Cons.IH le [of i] le [of "Suc i"] by (simp add: bit_or_iff)
  next
    case here
    then have "n - i * 8 = n mod 8" using minus_div_mult_eq_mod [of n 8] by simp
    with here show ?thesis using sh Cons.IH le [of i] le [of "Suc i"] by (simp add: bit_or_iff)
  next
    case above
    then have "Suc i * 8 \<le> n" using le by blast
    then have "\<not> bit b (n - i * 8)" using b [of "n - i * 8"] by auto
    moreover have "n div 8 - i = Suc (n div 8 - Suc i)" using above by simp
    ultimately show ?thesis
      using above sh Cons.IH le [of i] le [of "Suc i"] by (simp add: bit_or_iff)
  qed
qed simp

lemma unpack_byte_bit: "bit (unpack_byte dat i) j \<longleftrightarrow> j < 8 \<and> bit dat (i * 8 + j)"
proof -
  have "unpack_byte dat i = ucast (drop_bit (i * 8) dat AND mask 8)"
    by (simp add: unpack_byte_def mask_eq_exp_minus_1)
  then show ?thesis by (auto simp: bit_simps)
qed

lemma unpack_pack:
  assumes "length bs \<le> 4"
  shows "map (unpack_byte (pack_bytes 0 bs)) [0..<length bs] = bs"
proof (rule nth_equalityI)
  fix i assume i: "i < length (map (unpack_byte (pack_bytes 0 bs)) [0..<length bs])"
  have "bit (unpack_byte (pack_bytes 0 bs) i) j = bit (bs ! i) j" if "j < 8" for j
    using assms i that by (simp add: unpack_byte_bit pack_bytes_bit)
  then show "map (unpack_byte (pack_bytes 0 bs)) [0..<length bs] ! i = bs ! i"
    using i by (auto intro!: bit_word_eqI)
qed simp

end
