(* ===== verification/Queue.thy ===== *)
theory Queue
  imports Prelude
begin

text \<open>
  The item queue of \<open>src/Library/SunxiQueueLib/SunxiQueueLib.c\<close>: a ring of
  \<open>MaxItermCount + 1\<close> slots in one allocated block, with \<open>UINTN\<close> (64-bit) head and
  tail indices. The C array of slot pointers \<open>Buffer\<close> is a list of offsets into the
  block \<open>Store\<close> that \<open>Buffer[0]\<close> points to, so that two slots could overlap in the
  model exactly as they could in memory.

  Shown: the invariant of the ring, that every operation keeps it, and that the ring
  refines a bounded first-in first-out list (locale \<open>bounded_fifo\<close>).
\<close>

section \<open>The structure and its operations\<close>

record queue =
  Store :: "u8 list"
  Buffer :: "nat list"
  Head :: u64
  Tail :: u64
  MaxItermCount :: u64
  ItemSize :: u64

text \<open>
  \<open>CopyMem\<close> into a block at an offset, and out of it. A failing \<open>ASSERT\<close> stops the
  firmware and is the result \<^term>\<open>None\<close>.
\<close>

definition copy_in :: "u8 list \<Rightarrow> nat \<Rightarrow> u8 list \<Rightarrow> u8 list" where
  "copy_in blk off bs = take off blk @ bs @ drop (off + length bs) blk"

definition copy_out :: "u8 list \<Rightarrow> nat \<Rightarrow> nat \<Rightarrow> u8 list" where
  "copy_out blk off n = take n (drop off blk)"

text \<open>
  \<open>AllocatePool\<close> belongs to EDK2 and is the parameter \<open>pool\<close>: given a byte count it
  returns \<^term>\<open>None\<close> for \<open>NULL\<close> or the (uninitialised) block.
\<close>

fun slot_offsets :: "nat \<Rightarrow> nat \<Rightarrow> nat list" where
  "slot_offsets isz 0 = [0]"
| "slot_offsets isz (Suc i) = slot_offsets isz i @ [last (slot_offsets isz i) + isz]"

definition InitQueue ::
  "(u64 \<Rightarrow> u8 list option) \<Rightarrow> u64 \<Rightarrow> u64 \<Rightarrow> (efi_status \<times> queue) option" where
  "InitQueue pool maxc isz =
     (case pool ((maxc + 1) * 8) of
        None \<Rightarrow> None
      | Some _ \<Rightarrow>
        (case pool ((maxc + 1) * isz) of
           None \<Rightarrow> None
         | Some blk \<Rightarrow>
             Some (EFI_SUCCESS,
               \<lparr>Store = blk, Buffer = slot_offsets (unat isz) (unat (maxc + 1) - 1),
                Head = 0, Tail = 0, MaxItermCount = maxc, ItemSize = isz\<rparr>)))"

definition IsQueueEmpty :: "queue \<Rightarrow> bool" where
  "IsQueueEmpty q \<longleftrightarrow> Head q = Tail q"

definition IsQueueFull :: "queue \<Rightarrow> bool" where
  "IsQueueFull q \<longleftrightarrow> (Tail q + 1) mod (MaxItermCount q + 1) = Head q"

definition Enqueue :: "queue \<Rightarrow> u8 list \<Rightarrow> u64 \<Rightarrow> (efi_status \<times> queue) option" where
  "Enqueue q item isz =
     (if isz \<noteq> ItemSize q then None
      else if IsQueueFull q then Some (EFI_DEVICE_ERROR, q)
      else Some (EFI_SUCCESS,
             q\<lparr>Store := copy_in (Store q) (Buffer q ! unat (Tail q)) (take (unat isz) item),
               Tail := (Tail q + 1) mod (MaxItermCount q + 1)\<rparr>))"

definition Dequeue :: "queue \<Rightarrow> u64 \<Rightarrow> (efi_status \<times> u8 list option \<times> queue) option" where
  "Dequeue q isz =
     (if ItemSize q \<noteq> isz then None
      else if IsQueueEmpty q then Some (EFI_DEVICE_ERROR, None, q)
      else Some (EFI_SUCCESS,
             Some (copy_out (Store q) (Buffer q ! unat (Head q)) (unat isz)),
             q\<lparr>Head := (Head q + 1) mod (MaxItermCount q + 1)\<rparr>))"

section \<open>Invariant and abstraction\<close>

definition slots :: "queue \<Rightarrow> nat" where
  "slots q = unat (MaxItermCount q) + 1"

definition queue_inv :: "queue \<Rightarrow> bool" where
  "queue_inv q \<longleftrightarrow>
     slots q < 2 ^ 64 \<and> unat (Head q) < slots q \<and> unat (Tail q) < slots q \<and>
     length (Buffer q) = slots q \<and>
     (\<forall>i < slots q. Buffer q ! i = i * unat (ItemSize q)) \<and>
     length (Store q) = slots q * unat (ItemSize q)"

definition slot :: "queue \<Rightarrow> nat \<Rightarrow> u8 list" where
  "slot q i = copy_out (Store q) (Buffer q ! i) (unat (ItemSize q))"

definition queue_count :: "queue \<Rightarrow> nat" where
  "queue_count q = (unat (Tail q) + slots q - unat (Head q)) mod slots q"

definition queue_list :: "queue \<Rightarrow> u8 list list" where
  "queue_list q = map (\<lambda>i. slot q ((unat (Head q) + i) mod slots q)) [0..<queue_count q]"

lemma length_queue_list [simp]: "length (queue_list q) = queue_count q"
  by (simp add: queue_list_def)

section \<open>Ring arithmetic\<close>

lemma unat_succ_mod:
  fixes t m :: u64
  assumes "unat m + 1 < 2 ^ 64" and "unat t < unat m + 1"
  shows "unat ((t + 1) mod (m + 1)) = (unat t + 1) mod (unat m + 1)"
proof -
  have "unat (t + 1) = unat t + 1" "unat (m + 1) = unat m + 1"
    using assms by (simp_all add: unat_word_ariths)
  then show ?thesis by (simp add: unat_mod_distrib)
qed

lemma ring_count:
  fixes h t n :: nat
  assumes "h < n" and "t < n"
  shows "(t + n - h) mod n = (if h \<le> t then t - h else t + n - h)"
  using assms by (auto simp: mod_if)

lemma ring_succ:
  fixes t n :: nat
  assumes "t < n"
  shows "(t + 1) mod n = (if t + 1 = n then 0 else t + 1)"
  using assms by auto

lemma ring_full:
  fixes h t n :: nat
  assumes "h < n" and "t < n"
  shows "(t + 1) mod n = h \<longleftrightarrow> (t + n - h) mod n = n - 1"
proof (cases "t + 1 = n")
  case True
  with assms show ?thesis by (auto simp: ring_count)
next
  case False
  with assms have "(t + 1) mod n = t + 1" by simp
  with False assms show ?thesis by (auto simp: ring_count)
qed

lemma queue_count_bound: "queue_inv q \<Longrightarrow> queue_count q \<le> slots q - 1"
  using mod_less_divisor [of "slots q" "unat (Tail q) + slots q - unat (Head q)"]
  by (simp add: queue_count_def queue_inv_def slots_def)

lemma IsQueueFull_iff: "queue_inv q \<Longrightarrow> IsQueueFull q \<longleftrightarrow> queue_count q = slots q - 1"
proof -
  assume inv: "queue_inv q"
  then have "IsQueueFull q \<longleftrightarrow> (unat (Tail q) + 1) mod slots q = unat (Head q)"
    unfolding IsQueueFull_def queue_inv_def slots_def
    by (subst unat_succ_mod [symmetric]) (simp_all add: word_unat_eq_iff)
  with inv ring_full [of "unat (Head q)" "slots q" "unat (Tail q)"] show ?thesis
    by (simp add: queue_count_def queue_inv_def)
qed

lemma IsQueueEmpty_iff: "queue_inv q \<Longrightarrow> IsQueueEmpty q \<longleftrightarrow> queue_count q = 0"
  by (auto simp: IsQueueEmpty_def queue_count_def queue_inv_def ring_count word_unat_eq_iff
      split: if_splits)

section \<open>Slots do not overlap\<close>

lemma copy_out_in_same:
  assumes "off + length bs \<le> length blk"
  shows "copy_out (copy_in blk off bs) off (length bs) = bs"
  using assms by (simp add: copy_out_def copy_in_def)

lemma copy_out_in_other:
  assumes "off + length bs \<le> length blk" and "off' + n \<le> off \<or> off + length bs \<le> off'"
  shows "copy_out (copy_in blk off bs) off' n = copy_out blk off' n"
  using assms by (auto simp: copy_out_def copy_in_def take_drop)

lemma length_copy_in [simp]:
  "off + length bs \<le> length blk \<Longrightarrow> length (copy_in blk off bs) = length blk"
  by (simp add: copy_in_def)

lemma slot_end:
  fixes i n k :: nat
  assumes "i < n"
  shows "i * k + k \<le> n * k"
  using mult_le_mono1 [of "Suc i" n k] assms by simp

lemma slot_after_copy:
  assumes inv: "queue_inv q" and i: "i < slots q" and t: "t < slots q"
    and bs: "length bs = unat (ItemSize q)"
  shows "slot (q\<lparr>Store := copy_in (Store q) (Buffer q ! t) bs, Tail := x\<rparr>) i
    = (if i = t then bs else slot q i)"
proof -
  have e: "Buffer q ! t + length bs \<le> length (Store q)"
    using inv t bs slot_end [of t "slots q" "unat (ItemSize q)"] by (simp add: queue_inv_def)
  show ?thesis
  proof (cases "i = t")
    case True
    then show ?thesis using e bs copy_out_in_same [of "Buffer q ! t" bs "Store q"]
      by (simp add: slot_def)
  next
    case False
    then have "i < t \<or> t < i" by auto
    then have "Buffer q ! i + unat (ItemSize q) \<le> Buffer q ! t
        \<or> Buffer q ! t + length bs \<le> Buffer q ! i"
      using inv i t bs slot_end [of i t "unat (ItemSize q)"] slot_end [of t i "unat (ItemSize q)"]
      by (auto simp: queue_inv_def)
    with False e show ?thesis by (simp add: slot_def copy_out_in_other)
  qed
qed

section \<open>Effect of the operations on the abstract list\<close>

lemma queue_tail_eq:
  assumes "queue_inv q"
  shows "unat (Tail q) = (unat (Head q) + queue_count q) mod slots q"
  using assms by (auto simp: queue_inv_def queue_count_def ring_count mod_if)

lemma ring_index_inj:
  fixes h i j n :: nat
  assumes "i < n" and "j < n" and "(h + i) mod n = (h + j) mod n"
  shows "i = j"
proof -
  have "i mod n = j mod n"
    using assms(3) nat_mod_eq_iff [of "h + i" n "h + j"] nat_mod_eq_iff [of i n j]
    by (metis add.assoc add_left_cancel)
  with assms(1,2) show ?thesis by simp
qed

lemma queue_inv_enqueue:
  assumes "queue_inv q" and "length bs = unat (ItemSize q)"
  shows "queue_inv (q\<lparr>Store := copy_in (Store q) (Buffer q ! unat (Tail q)) bs,
      Tail := (Tail q + 1) mod (MaxItermCount q + 1)\<rparr>)"
  using assms slot_end [of "unat (Tail q)" "slots q" "unat (ItemSize q)"]
    unat_succ_mod [of "MaxItermCount q" "Tail q"]
  by (simp add: queue_inv_def slots_def)

lemma queue_inv_dequeue:
  assumes "queue_inv q"
  shows "queue_inv (q\<lparr>Head := (Head q + 1) mod (MaxItermCount q + 1)\<rparr>)"
  using assms unat_succ_mod [of "MaxItermCount q" "Head q"]
  by (simp add: queue_inv_def slots_def)

lemma queue_count_enqueue:
  assumes "queue_inv q" and "queue_count q < slots q - 1"
  shows "queue_count (q\<lparr>Store := st, Tail := (Tail q + 1) mod (MaxItermCount q + 1)\<rparr>)
    = queue_count q + 1"
proof -
  have "unat ((Tail q + 1) mod (MaxItermCount q + 1)) = (unat (Tail q) + 1) mod slots q"
    using assms(1) unat_succ_mod by (simp add: queue_inv_def slots_def)
  with assms show ?thesis
    by (auto simp: queue_count_def queue_inv_def slots_def ring_count mod_if split: if_splits)
qed

lemma queue_count_dequeue:
  assumes "queue_inv q" and "0 < queue_count q"
  shows "queue_count (q\<lparr>Head := (Head q + 1) mod (MaxItermCount q + 1)\<rparr>) = queue_count q - 1"
proof -
  have "unat ((Head q + 1) mod (MaxItermCount q + 1)) = (unat (Head q) + 1) mod slots q"
    using assms(1) unat_succ_mod by (simp add: queue_inv_def slots_def)
  with assms show ?thesis
    by (auto simp: queue_count_def queue_inv_def slots_def ring_count mod_if split: if_splits)
qed

lemma queue_list_enqueue:
  assumes inv: "queue_inv q" and room: "queue_count q < slots q - 1"
    and bs: "length bs = unat (ItemSize q)"
  shows "queue_list (q\<lparr>Store := copy_in (Store q) (Buffer q ! unat (Tail q)) bs,
      Tail := (Tail q + 1) mod (MaxItermCount q + 1)\<rparr>) = queue_list q @ [bs]"
    (is "queue_list ?q' = _")
proof -
  have t: "unat (Tail q) = (unat (Head q) + queue_count q) mod slots q"
    by (rule queue_tail_eq [OF inv])
  have n: "slots ?q' = slots q" "Head ?q' = Head q" by (simp_all add: slots_def)
  have pos: "0 < slots q" and cn: "queue_count q < slots q" using room by (simp_all add: slots_def)
  have sl: "slot ?q' i = (if i = unat (Tail q) then bs else slot q i)" if "i < slots q" for i
    using slot_after_copy [OF inv that _ bs, of "unat (Tail q)"] inv
    by (simp add: queue_inv_def)
  have old: "slot ?q' ((unat (Head q) + i) mod slots q) = slot q ((unat (Head q) + i) mod slots q)"
    if "i < queue_count q" for i
  proof -
    have "(unat (Head q) + i) mod slots q \<noteq> unat (Tail q)"
      using ring_index_inj [of i "slots q" "queue_count q" "unat (Head q)"] t that cn by auto
    with sl [of "(unat (Head q) + i) mod slots q"] pos show ?thesis by simp
  qed
  have new: "slot ?q' ((unat (Head q) + queue_count q) mod slots q) = bs"
    using sl [of "unat (Tail q)"] t pos by simp
  show ?thesis
    unfolding queue_list_def queue_count_enqueue [OF inv room] n
    by (simp add: old new)
qed

lemma queue_list_dequeue:
  assumes inv: "queue_inv q" and ne: "0 < queue_count q"
  shows "queue_list q = slot q (unat (Head q))
    # queue_list (q\<lparr>Head := (Head q + 1) mod (MaxItermCount q + 1)\<rparr>)"
    (is "_ = _ # queue_list ?q'")
proof -
  have h: "unat (Head ?q') = (unat (Head q) + 1) mod slots q"
    using inv unat_succ_mod by (simp add: queue_inv_def slots_def)
  have sl: "slot ?q' i = slot q i" "slots ?q' = slots q" for i
    by (simp_all add: slot_def slots_def)
  have "[0..<queue_count q] = 0 # map Suc [0..<queue_count q - 1]"
    using ne by (simp add: map_Suc_upt upt_conv_Cons)
  then show ?thesis
    unfolding queue_list_def queue_count_dequeue [OF inv ne] sl h
    using inv by (simp add: queue_inv_def mod_add_left_eq o_def)
qed

lemma length_slot:
  assumes "queue_inv q" and "i < slots q"
  shows "length (slot q i) = unat (ItemSize q)"
  using assms slot_end [of i "slots q" "unat (ItemSize q)"]
  by (simp add: slot_def copy_out_def queue_inv_def)

lemma slot_offsets_eq: "slot_offsets k n = map (\<lambda>i. i * k) [0..<Suc n]"
  by (induction n) (simp_all add: last_map)

section \<open>The contract: a bounded first-in first-out list\<close>

fun enq_all :: "('q \<Rightarrow> 'a \<Rightarrow> 'q option) \<Rightarrow> 'q \<Rightarrow> 'a list \<Rightarrow> 'q option" where
  "enq_all enq q [] = Some q"
| "enq_all enq q (x # xs) = (case enq q x of None \<Rightarrow> None | Some q' \<Rightarrow> enq_all enq q' xs)"

fun deq_n :: "('q \<Rightarrow> ('a \<times> 'q) option) \<Rightarrow> 'q \<Rightarrow> nat \<Rightarrow> ('a list \<times> 'q) option" where
  "deq_n deq q 0 = Some ([], q)"
| "deq_n deq q (Suc n) =
     (case deq q of None \<Rightarrow> None
      | Some (x, q') \<Rightarrow> map_option (\<lambda>(xs, r). (x # xs, r)) (deq_n deq q' n))"

locale bounded_fifo =
  fixes enq :: "'q \<Rightarrow> 'a \<Rightarrow> 'q option"
    and deq :: "'q \<Rightarrow> ('a \<times> 'q) option"
    and items :: "'q \<Rightarrow> 'a list"
    and cap :: "'q \<Rightarrow> nat"
    and fits :: "'q \<Rightarrow> 'a \<Rightarrow> bool"
    and ok :: "'q \<Rightarrow> bool"
  assumes enq_room: "ok q \<Longrightarrow> fits q x \<Longrightarrow> length (items q) < cap q \<Longrightarrow>
      \<exists>q'. enq q x = Some q' \<and> ok q' \<and> items q' = items q @ [x] \<and> cap q' = cap q \<and> fits q' = fits q"
    and enq_full: "ok q \<Longrightarrow> fits q x \<Longrightarrow> cap q \<le> length (items q) \<Longrightarrow> enq q x = None"
    and deq_some: "ok q \<Longrightarrow> items q = y # ys \<Longrightarrow>
      \<exists>q'. deq q = Some (y, q') \<and> ok q' \<and> items q' = ys \<and> cap q' = cap q \<and> fits q' = fits q"
    and deq_none: "ok q \<Longrightarrow> items q = [] \<Longrightarrow> deq q = None"
begin

lemma enq_all_room:
  assumes "ok q" and "\<forall>x\<in>set xs. fits q x" and "length (items q) + length xs \<le> cap q"
  shows "\<exists>q'. enq_all enq q xs = Some q' \<and> ok q' \<and> items q' = items q @ xs"
  using assms
proof (induction xs arbitrary: q)
  case Nil
  then show ?case by simp
next
  case (Cons x xs)
  from Cons.prems enq_room [of q x] obtain q1 where q1: "enq q x = Some q1" "ok q1"
    "items q1 = items q @ [x]" "cap q1 = cap q" "fits q1 = fits q" by auto
  with Cons.prems Cons.IH [of q1] show ?case by auto
qed

lemma deq_n_items:
  assumes "ok q" and "items q = ys @ zs"
  shows "\<exists>q'. deq_n deq q (length ys) = Some (ys, q') \<and> ok q' \<and> items q' = zs"
  using assms
proof (induction ys arbitrary: q)
  case Nil
  then show ?case by simp
next
  case (Cons y ys)
  from Cons.prems deq_some [of q y "ys @ zs"] obtain q1 where q1: "deq q = Some (y, q1)" "ok q1"
    "items q1 = ys @ zs" by auto
  with Cons.IH [of q1] show ?case by auto
qed

lemma fifo:
  assumes "ok q" and "items q = []" and "\<forall>x\<in>set xs. fits q x" and "length xs \<le> cap q"
  shows "\<exists>q' q''. enq_all enq q xs = Some q' \<and> deq_n deq q' (length xs) = Some (xs, q'')
    \<and> deq q'' = None"
proof -
  from assms enq_all_room [of q xs] obtain q' where q': "enq_all enq q xs = Some q'" "ok q'"
    "items q' = xs" by auto
  with deq_n_items [of q' xs "[]"] obtain q'' where "deq_n deq q' (length xs) = Some (xs, q'')"
    "ok q''" "items q'' = []" by auto
  with q' deq_none show ?thesis by blast
qed

end

text \<open>
  The queue's own operations, called with the queue's item size, as partial operations
  (\<^term>\<open>None\<close> for a status other than success).
\<close>

definition enqueue_op :: "queue \<Rightarrow> u8 list \<Rightarrow> queue option" where
  "enqueue_op q x = (case Enqueue q x (ItemSize q) of
     Some (st, q') \<Rightarrow> if st = EFI_SUCCESS then Some q' else None | None \<Rightarrow> None)"

definition dequeue_op :: "queue \<Rightarrow> (u8 list \<times> queue) option" where
  "dequeue_op q = (case Dequeue q (ItemSize q) of
     Some (st, Some x, q') \<Rightarrow> if st = EFI_SUCCESS then Some (x, q') else None | _ \<Rightarrow> None)"

definition queue_cap :: "queue \<Rightarrow> nat" where
  "queue_cap q = unat (MaxItermCount q)"

definition item_fits :: "queue \<Rightarrow> u8 list \<Rightarrow> bool" where
  "item_fits q x \<longleftrightarrow> length x = unat (ItemSize q)"

lemma queue_list_Cons:
  assumes "queue_inv q" and "queue_list q = y # ys"
  shows "0 < queue_count q" and "y = slot q (unat (Head q))"
    and "queue_list (q\<lparr>Head := (Head q + 1) mod (MaxItermCount q + 1)\<rparr>) = ys"
proof -
  show ne: "0 < queue_count q"
    using length_queue_list [of q] unfolding assms(2) by simp
  show "y = slot q (unat (Head q))"
    "queue_list (q\<lparr>Head := (Head q + 1) mod (MaxItermCount q + 1)\<rparr>) = ys"
    using queue_list_dequeue [OF assms(1) ne] unfolding assms(2) by simp_all
qed

interpretation ring: bounded_fifo enqueue_op dequeue_op queue_list queue_cap item_fits queue_inv
proof unfold_locales
  fix q x assume q: "queue_inv q" "item_fits q x" "length (queue_list q) < queue_cap q"
  then have n: "queue_count q < slots q - 1" "\<not> IsQueueFull q"
    by (simp_all add: queue_cap_def slots_def IsQueueFull_iff)
  with q queue_list_enqueue [of q x] queue_inv_enqueue [of q x]
  show "\<exists>q'. enqueue_op q x = Some q' \<and> queue_inv q' \<and> queue_list q' = queue_list q @ [x]
      \<and> queue_cap q' = queue_cap q \<and> item_fits q' = item_fits q"
    by (auto simp: enqueue_op_def Enqueue_def item_fits_def queue_cap_def fun_eq_iff)
next
  fix q x assume q: "queue_inv q" "item_fits q x" "queue_cap q \<le> length (queue_list q)"
  then have "IsQueueFull q"
    using queue_count_bound [of q] by (simp add: queue_cap_def slots_def IsQueueFull_iff)
  then show "enqueue_op q x = None"
    by (simp add: enqueue_op_def Enqueue_def efi_defs)
next
  fix q y ys assume q: "queue_inv q" "queue_list q = y # ys"
  note l = queue_list_Cons [OF q]
  then have "\<not> IsQueueEmpty q" using q by (simp add: IsQueueEmpty_iff)
  with l queue_inv_dequeue [OF q(1)]
  show "\<exists>q'. dequeue_op q = Some (y, q') \<and> queue_inv q' \<and> queue_list q' = ys
      \<and> queue_cap q' = queue_cap q \<and> item_fits q' = item_fits q"
    by (auto simp: dequeue_op_def Dequeue_def slot_def queue_cap_def item_fits_def fun_eq_iff)
next
  fix q assume "queue_inv q" "queue_list q = []"
  then have "IsQueueEmpty q" using length_queue_list [of q] by (simp add: IsQueueEmpty_iff)
  then show "dequeue_op q = None"
    by (simp add: dequeue_op_def Dequeue_def efi_defs)
qed

section \<open>Properties\<close>

text \<open>
  Runs of the queue: initialisation with an allocator that returns blocks of the
  requested size, then any sequence of enqueue and dequeue calls, successful or not.
  The products of the allocation sizes must not wrap, as the C code does not check them.
\<close>

definition pool_exact :: "(u64 \<Rightarrow> u8 list option) \<Rightarrow> bool" where
  "pool_exact pool \<longleftrightarrow> (\<forall>n blk. pool n = Some blk \<longrightarrow> length blk = unat n)"

definition sizes_fit :: "u64 \<Rightarrow> u64 \<Rightarrow> bool" where
  "sizes_fit maxc isz \<longleftrightarrow>
     (unat maxc + 1) * 8 < 2 ^ 64 \<and> (unat maxc + 1) * unat isz < 2 ^ 64"

inductive queue_reach :: "(u64 \<Rightarrow> u8 list option) \<Rightarrow> u64 \<Rightarrow> u64 \<Rightarrow> queue \<Rightarrow> bool"
  for pool maxc isz where
  init: "InitQueue pool maxc isz = Some (st, q) \<Longrightarrow> queue_reach pool maxc isz q"
| enqueue: "queue_reach pool maxc isz q \<Longrightarrow> length item = unat isz \<Longrightarrow>
    Enqueue q item isz = Some (st, q') \<Longrightarrow> queue_reach pool maxc isz q'"
| dequeue: "queue_reach pool maxc isz q \<Longrightarrow> Dequeue q isz = Some (st, out, q') \<Longrightarrow>
    queue_reach pool maxc isz q'"

lemma InitQueue_inv:
  assumes "pool_exact pool" and "sizes_fit maxc isz" and "InitQueue pool maxc isz = Some (st, q)"
  shows "queue_inv q \<and> queue_list q = [] \<and> ItemSize q = isz \<and> MaxItermCount q = maxc"
proof -
  have m: "unat (maxc + 1) = unat maxc + 1"
    using assms(2) by (simp add: sizes_fit_def unat_word_ariths)
  have "unat ((maxc + 1) * isz) = (unat maxc + 1) * unat isz"
    using assms(2) m unat_mult_lem [of "maxc + 1" isz] by (simp add: sizes_fit_def)
  with assms m show ?thesis
    by (auto simp: InitQueue_def pool_exact_def sizes_fit_def queue_inv_def slots_def queue_list_def
        queue_count_def slot_offsets_eq simp del: upt_Suc split: option.splits)
qed

lemma Enqueue_list:
  assumes "queue_inv q" and "length item = unat (ItemSize q)"
    and "Enqueue q item (ItemSize q) = Some (st, q')"
  shows "queue_inv q' \<and> ItemSize q' = ItemSize q \<and> MaxItermCount q' = MaxItermCount q \<and>
    (if length (queue_list q) = queue_cap q then st = EFI_DEVICE_ERROR \<and> q' = q
     else st = EFI_SUCCESS \<and> queue_list q' = queue_list q @ [item])"
proof (cases "IsQueueFull q")
  case True
  with assms show ?thesis
    by (auto simp: Enqueue_def IsQueueFull_iff queue_cap_def slots_def)
next
  case False
  with assms(1) queue_count_bound [of q] have "queue_count q < slots q - 1"
    by (simp add: IsQueueFull_iff)
  with False assms queue_list_enqueue [of q item] queue_inv_enqueue [of q item] show ?thesis
    by (auto simp: Enqueue_def queue_cap_def slots_def)
qed

lemma Dequeue_list:
  assumes "queue_inv q" and "Dequeue q (ItemSize q) = Some (st, out, q')"
  shows "queue_inv q' \<and> ItemSize q' = ItemSize q \<and> MaxItermCount q' = MaxItermCount q \<and>
    (case queue_list q of [] \<Rightarrow> st = EFI_DEVICE_ERROR \<and> out = None \<and> q' = q
     | x # xs \<Rightarrow> st = EFI_SUCCESS \<and> out = Some x \<and> queue_list q' = xs)"
proof (cases "queue_list q")
  case Nil
  with assms length_queue_list [of q] show ?thesis
    by (auto simp: Dequeue_def IsQueueEmpty_iff)
next
  case (Cons x xs)
  note l = queue_list_Cons [OF assms(1) Cons]
  with assms queue_inv_dequeue [OF assms(1)] Cons show ?thesis
    by (auto simp: Dequeue_def IsQueueEmpty_iff slot_def)
qed

lemma queue_reach_inv:
  assumes "queue_reach pool maxc isz q" and "pool_exact pool" and "sizes_fit maxc isz"
  shows "queue_inv q \<and> ItemSize q = isz \<and> MaxItermCount q = maxc"
  using assms
proof (induction rule: queue_reach.induct)
  case (init st q)
  then show ?case using InitQueue_inv by blast
next
  case (enqueue q item st q')
  then show ?case using Enqueue_list [of q item st q'] by auto
next
  case (dequeue q st out q')
  then show ?case using Dequeue_list [of q st out q'] by auto
qed

text \<open>
  C35: in every reachable state of a queue created with \<open>InitQueue\<close>, an \<open>Enqueue\<close> never
  trips its \<open>ASSERT\<close>; it appends the item to the queue's list when fewer than
  \<open>MaxItermCount\<close> items are stored, and otherwise returns \<open>EFI_DEVICE_ERROR\<close> and leaves
  the queue as it was.
\<close>

theorem Enqueue_refines_append:
  assumes "queue_reach pool maxc isz q" and "pool_exact pool" and "sizes_fit maxc isz"
    and "length item = unat isz"
  shows "\<exists>st q'. Enqueue q item isz = Some (st, q') \<and>
    (if length (queue_list q) = unat maxc then st = EFI_DEVICE_ERROR \<and> q' = q
     else st = EFI_SUCCESS \<and> queue_list q' = queue_list q @ [item])"
proof -
  have inv: "queue_inv q" "ItemSize q = isz" "MaxItermCount q = maxc"
    using queue_reach_inv [OF assms(1-3)] by auto
  obtain st q' where e: "Enqueue q item isz = Some (st, q')"
    using inv by (cases "IsQueueFull q") (auto simp: Enqueue_def)
  with Enqueue_list [of q item st q'] inv assms(4) show ?thesis
    by (auto simp: queue_cap_def)
qed

text \<open>
  C36: in every reachable state, \<open>Dequeue\<close> returns the oldest item and removes it, or
  returns \<open>EFI_DEVICE_ERROR\<close> without writing the caller's buffer when the queue is empty.
\<close>

theorem Dequeue_refines_head:
  assumes "queue_reach pool maxc isz q" and "pool_exact pool" and "sizes_fit maxc isz"
  shows "\<exists>st out q'. Dequeue q isz = Some (st, out, q') \<and>
    (case queue_list q of [] \<Rightarrow> st = EFI_DEVICE_ERROR \<and> out = None \<and> q' = q
     | x # xs \<Rightarrow> st = EFI_SUCCESS \<and> out = Some x \<and> queue_list q' = xs)"
proof -
  have inv: "queue_inv q" "ItemSize q = isz"
    using queue_reach_inv [OF assms] by auto
  obtain st out q' where e: "Dequeue q isz = Some (st, out, q')"
    using inv by (cases "IsQueueEmpty q") (auto simp: Dequeue_def)
  with Dequeue_list [of q st out q'] inv show ?thesis by auto
qed

text \<open>
  C34: a queue created with room for \<open>MaxItermCount\<close> items accepts any list of at most that
  many items and gives them back in order, after which it is empty. This is the contract
  \<open>bounded_fifo\<close> interpreted on the ring.
\<close>

theorem queue_fifo_round_trip:
  assumes "pool_exact pool" and "sizes_fit maxc isz" and "InitQueue pool maxc isz = Some (st, q)"
    and "\<forall>x\<in>set xs. length x = unat isz" and "length xs \<le> unat maxc"
  shows "\<exists>q' q''. enq_all enqueue_op q xs = Some q' \<and>
    deq_n dequeue_op q' (length xs) = Some (xs, q'') \<and> dequeue_op q'' = None"
  using InitQueue_inv [OF assms(1-3)] assms(4,5)
  by (intro ring.fifo) (auto simp: item_fits_def queue_cap_def)

definition demo_pool :: "u64 \<Rightarrow> u8 list option" where
  "demo_pool n = Some (replicate (unat n) 0)"

lemma demo_pool_ok: "pool_exact demo_pool" "sizes_fit 2 1"
  by (auto simp: pool_exact_def demo_pool_def sizes_fit_def)

definition demo_queue :: queue where
  "demo_queue = \<lparr>Store = [0, 0, 0], Buffer = [0, 1, 2], Head = 0, Tail = 0,
     MaxItermCount = 2, ItemSize = 1\<rparr>"

lemma demo_init: "InitQueue demo_pool 2 1 = Some (EFI_SUCCESS, demo_queue)"
proof -
  have "replicate (unat (3 :: u64)) (0 :: u8) = [0, 0, 0]"
    "slot_offsets (unat (1 :: u64)) (unat (3 :: u64) - 1) = [0, 1, 2]"
    by code_simp+
  then show ?thesis by (simp add: InitQueue_def demo_pool_def demo_queue_def)
qed

theorem Enqueue_refines_append_witness:
  "\<exists>st q'. Enqueue demo_queue [7] 1 = Some (st, q') \<and>
    (if length (queue_list demo_queue) = unat (2 :: u64) then st = EFI_DEVICE_ERROR \<and> q' = demo_queue
     else st = EFI_SUCCESS \<and> queue_list q' = queue_list demo_queue @ [[7]])"
  by (rule Enqueue_refines_append [OF queue_reach.init [OF demo_init] demo_pool_ok]) simp

theorem Dequeue_refines_head_witness:
  "\<exists>st out q'. Dequeue demo_queue 1 = Some (st, out, q') \<and>
    (case queue_list demo_queue of [] \<Rightarrow> st = EFI_DEVICE_ERROR \<and> out = None \<and> q' = demo_queue
     | x # xs \<Rightarrow> st = EFI_SUCCESS \<and> out = Some x \<and> queue_list q' = xs)"
  by (rule Dequeue_refines_head [OF queue_reach.init [OF demo_init] demo_pool_ok])

theorem queue_fifo_round_trip_witness:
  "\<exists>q' q''. enq_all enqueue_op demo_queue [[7], [9]] = Some q' \<and>
    deq_n dequeue_op q' (length [[7], [9 :: u8]]) = Some ([[7], [9]], q'') \<and> dequeue_op q'' = None"
  by (rule queue_fifo_round_trip [OF demo_pool_ok demo_init]) simp_all

end
