(* ===== verification/PmBus.thy ===== *)
theory PmBus
  imports Prelude
begin

text \<open>
  The register bus of the AXP power chips and the reference behaviour of one supply rail.

  \<open>AXP_PM_BUS_OPS\<close> (\<open>src/Include/Protocol/AxpPower.h\<close>) is a table of two function
  pointers; it is a record of two functions over a device state \<open>'d\<close>, and every driver
  routine takes it as an argument. The locale \<open>register_bus\<close> is the contract of such a
  bus: what the drivers rely on when they read, modify and write back a register.

  \<open>rail_spec\<close> describes a supply rail (its voltage register, selector range and on/off
  field), \<open>rail_set\<close> is the reference program that programs one, and the locale shows its
  effect on the registers, failures of the bus included.
\<close>

section \<open>Bus operations and the statements that use them\<close>

record 'd axp_pm_bus_ops =
  bus_read :: "u8 \<Rightarrow> 'd \<Rightarrow> efi_status \<times> u8 \<times> 'd"
  bus_write :: "u8 \<Rightarrow> u8 \<Rightarrow> 'd \<Rightarrow> efi_status \<times> 'd"

definition AxpPmBusRead :: "'d axp_pm_bus_ops \<Rightarrow> u8 \<Rightarrow> u8 \<Rightarrow> 'd \<Rightarrow> efi_status \<times> u8 \<times> 'd" where
  "AxpPmBusRead ops chip addr = bus_read ops addr"

definition AxpPmBusWrite :: "'d axp_pm_bus_ops \<Rightarrow> u8 \<Rightarrow> u8 \<Rightarrow> u8 \<Rightarrow> 'd \<Rightarrow> efi_status \<times> 'd" where
  "AxpPmBusWrite ops chip addr data = bus_write ops addr data"

text \<open>
  The two idioms of every routine: \<open>if (AxpPmBusRead(..., &v)) return e;\<close> followed by the
  rest of the body with \<open>v\<close>, and \<open>if (AxpPmBusWrite(..., v)) return e;\<close>.
\<close>

definition pm_rd :: "'d axp_pm_bus_ops \<Rightarrow> u8 \<Rightarrow> u8 \<Rightarrow> 'r \<Rightarrow> (u8 \<Rightarrow> ('r, 'd) stmt) \<Rightarrow> ('r, 'd) stmt" where
  "pm_rd ops chip addr e k d =
     (case AxpPmBusRead ops chip addr d of (st, v, d') \<Rightarrow> if st \<noteq> 0 then (Some e, d') else k v d')"

definition pm_wr :: "'d axp_pm_bus_ops \<Rightarrow> u8 \<Rightarrow> u8 \<Rightarrow> u8 \<Rightarrow> 'r \<Rightarrow> ('r, 'd) stmt" where
  "pm_wr ops chip addr v e d =
     (case AxpPmBusWrite ops chip addr v d of (st, d') \<Rightarrow> if st \<noteq> 0 then (Some e, d') else (None, d'))"

lemmas [c_stmt] = pm_rd_def pm_wr_def AxpPmBusRead_def AxpPmBusWrite_def

text \<open>A block that starts with the update of a register and does not fail there.\<close>

lemma rmw_then:
  assumes "c_fun (c_block [pm_rd ops chip a e (\<lambda>r. pm_wr ops chip a (f r) e), s2]) okv d = (x, d')"
    and "x \<noteq> e"
  obtains d1 where "c_fun (pm_rd ops chip a e (\<lambda>r. pm_wr ops chip a (f r) e)) okv d = (okv, d1)"
    and "c_fun s2 okv d1 = (x, d')"
  using assms by (auto simp: c_stmt split: prod.splits if_splits option.splits)

lemma map_ret_rd [c_map]: "map_ret h (pm_rd ops chip a e k) = pm_rd ops chip a (h e) (\<lambda>v. map_ret h (k v))"
  by (auto simp: map_ret_def pm_rd_def fun_eq_iff split: prod.splits)

lemma map_ret_wr [c_map]: "map_ret h (pm_wr ops chip a v e) = pm_wr ops chip a v (h e)"
  by (auto simp: map_ret_def pm_wr_def fun_eq_iff split: prod.splits)

text \<open>
  Loops over consecutive registers: writing \<open>vals i\<close> to \<open>base + i\<close>, and reading into a buffer
  (the cell is overwritten by a failing read too, as the bus routines do).
\<close>

definition pm_wr_all ::
  "'d axp_pm_bus_ops \<Rightarrow> u8 \<Rightarrow> u8 \<Rightarrow> (nat \<Rightarrow> u8) \<Rightarrow> nat list \<Rightarrow> 'r \<Rightarrow> ('r, 'd) stmt" where
  "pm_wr_all ops chip base vals is e =
     c_block (map (\<lambda>i. pm_wr ops chip (base + of_nat i) (vals i) e) is)"

fun pm_rd_all ::
  "'d axp_pm_bus_ops \<Rightarrow> u8 \<Rightarrow> u8 \<Rightarrow> nat list \<Rightarrow> u8 list \<Rightarrow> 'd \<Rightarrow> bool \<times> u8 list \<times> 'd" where
  "pm_rd_all ops chip base [] buf d = (True, buf, d)"
| "pm_rd_all ops chip base (i # is) buf d =
     (case AxpPmBusRead ops chip (base + of_nat i) d of
        (st, v, d') \<Rightarrow> if st \<noteq> 0 then (False, buf[i := v], d')
                      else pm_rd_all ops chip base is (buf[i := v]) d')"

lemma pm_wr_all_result: "pm_wr_all ops chip base vals is e d = (r, d') \<Longrightarrow> r = None \<or> r = Some e"
  by (induction "is" arbitrary: d)
    (auto simp: pm_wr_all_def pm_wr_def split: prod.splits option.splits if_splits)

lemma pm_rd_all_length: "pm_rd_all ops chip base is buf d = (okf, buf', d') \<Longrightarrow> length buf' = length buf"
  by (induction "is" arbitrary: buf d) (auto split: prod.splits if_splits)

section \<open>Voltage selectors\<close>

text \<open>
  A rail has a range with one knee: steps of \<open>v_step\<close> from \<open>v_min\<close> to \<open>v_knee\<close>, and of
  \<open>v_step2\<close> from there to \<open>v_max\<close> (millivolts). A rail with uniform steps has its knee at
  the top.
\<close>

record vrange =
  v_min :: int
  v_knee :: int
  v_max :: int
  v_step :: int
  v_step2 :: int

definition c_clamp :: "int \<Rightarrow> int \<Rightarrow> int \<Rightarrow> int" where
  "c_clamp lo hi v = (if v < lo then lo else if v > hi then hi else v)"

definition knee_sel :: "vrange \<Rightarrow> int" where
  "knee_sel r = (v_knee r - v_min r) div v_step r"

definition v_sel :: "vrange \<Rightarrow> int \<Rightarrow> int" where
  "v_sel r v =
     (let c = c_clamp (v_min r) (v_max r) v
      in if c > v_knee r then knee_sel r + (c - v_knee r) div v_step2 r
         else (c - v_min r) div v_step r)"

definition v_of_sel :: "vrange \<Rightarrow> int \<Rightarrow> int" where
  "v_of_sel r s =
     (if s > knee_sel r then v_knee r + v_step2 r * (s - knee_sel r) else v_min r + v_step r * s)"

definition vrange_wf :: "nat \<Rightarrow> vrange \<Rightarrow> bool" where
  "vrange_wf w r \<longleftrightarrow>
     0 < v_step r \<and> 0 < v_step2 r \<and> v_min r \<le> v_knee r \<and> v_knee r \<le> v_max r \<and>
     (v_knee r - v_min r) mod v_step r = 0 \<and> v_sel r (v_max r) < 2 ^ w"

lemma c_clamp_bounds: "lo \<le> hi \<Longrightarrow> lo \<le> c_clamp lo hi v \<and> c_clamp lo hi v \<le> hi"
  by (simp add: c_clamp_def)

lemma knee_sel_mult: "vrange_wf w r \<Longrightarrow> v_step r * knee_sel r = v_knee r - v_min r"
  by (simp add: vrange_wf_def knee_sel_def mult_div_mod_eq [symmetric] minus_mod_eq_mult_div [symmetric])

lemma knee_sel_nonneg: "vrange_wf w r \<Longrightarrow> 0 \<le> knee_sel r"
  by (simp add: vrange_wf_def knee_sel_def pos_imp_zdiv_nonneg_iff)

lemma v_sel_bounds:
  assumes wf: "vrange_wf w r"
  shows "0 \<le> v_sel r v \<and> v_sel r v < 2 ^ w"
proof -
  let ?c = "c_clamp (v_min r) (v_max r) v"
  have c: "v_min r \<le> ?c" "?c \<le> v_max r"
    using wf c_clamp_bounds [of "v_min r" "v_max r" v] by (auto simp: vrange_wf_def)
  have "v_sel r v \<le> v_sel r (v_max r)"
  proof (cases "v_max r > v_knee r")
    case True
    then have "v_sel r (v_max r) = knee_sel r + (v_max r - v_knee r) div v_step2 r"
      using wf by (simp add: v_sel_def c_clamp_def vrange_wf_def Let_def)
    moreover have "(?c - v_knee r) div v_step2 r \<le> (v_max r - v_knee r) div v_step2 r"
      using c wf by (intro zdiv_mono1) (auto simp: vrange_wf_def)
    moreover have "(?c - v_min r) div v_step r \<le> knee_sel r" if "?c \<le> v_knee r"
      using that wf unfolding knee_sel_def by (intro zdiv_mono1) (auto simp: vrange_wf_def)
    moreover have "0 \<le> (v_max r - v_knee r) div v_step2 r"
      using True wf by (simp add: vrange_wf_def pos_imp_zdiv_nonneg_iff)
    ultimately show ?thesis by (auto simp: v_sel_def Let_def)
  next
    case False
    with wf have eq: "v_max r = v_knee r" by (simp add: vrange_wf_def)
    have "(?c - v_min r) div v_step r \<le> (v_knee r - v_min r) div v_step r"
      using c eq wf by (intro zdiv_mono1) (auto simp: vrange_wf_def)
    with c eq show ?thesis by (simp add: v_sel_def c_clamp_def Let_def split: if_splits)
  qed
  moreover have "0 \<le> v_sel r v"
    using c wf knee_sel_nonneg [OF wf]
    by (auto simp: v_sel_def Let_def vrange_wf_def pos_imp_zdiv_nonneg_iff)
  ultimately show ?thesis using wf by (simp add: vrange_wf_def)
qed

text \<open>The voltage a selector stands for is the requested one, clamped and rounded down.\<close>

lemma v_quant_bounds:
  fixes v :: int
  assumes wf: "vrange_wf w r"
  defines "c \<equiv> c_clamp (v_min r) (v_max r) v"
  shows "v_of_sel r (v_sel r v) \<le> c \<and> c - v_of_sel r (v_sel r v) < max (v_step r) (v_step2 r)"
proof (cases "c > v_knee r")
  case True
  let ?q = "(c - v_knee r) div v_step2 r"
  have s: "v_sel r v = knee_sel r + ?q" using True by (simp add: v_sel_def c_def Let_def)
  have q: "0 \<le> ?q" "v_step2 r * ?q \<le> c - v_knee r" "c - v_knee r - v_step2 r * ?q < v_step2 r"
    using True wf div_floor [of "v_step2 r" "c - v_knee r"]
    by (auto simp: vrange_wf_def pos_imp_zdiv_nonneg_iff)
  then show ?thesis
    using knee_sel_mult [OF wf] by (auto simp: s v_of_sel_def)
next
  case False
  let ?q = "(c - v_min r) div v_step r"
  have s: "v_sel r v = ?q" using False by (simp add: v_sel_def c_def Let_def)
  have "?q \<le> knee_sel r"
    using False wf unfolding knee_sel_def by (intro zdiv_mono1) (auto simp: vrange_wf_def)
  moreover have "v_step r * ?q \<le> c - v_min r" "c - v_min r - v_step r * ?q < v_step r"
    using wf div_floor [of "v_step r" "c - v_min r"] by (auto simp: vrange_wf_def)
  ultimately show ?thesis by (auto simp: s v_of_sel_def)
qed

section \<open>Supply rails: the reference program\<close>

record rail_spec =
  rs_vol :: u8
  rs_width :: nat
  rs_range :: vrange
  rs_ctl :: u8
  rs_mask :: u8
  rs_on :: u8
  rs_off :: u8

definition put_vol :: "rail_spec \<Rightarrow> int \<Rightarrow> u8 \<Rightarrow> u8" where
  "put_vol s v r = (r AND NOT (mask (rs_width s))) OR u8_of_int (v_sel (rs_range s) v)"

definition put_ctl :: "rail_spec \<Rightarrow> int \<Rightarrow> u8 \<Rightarrow> u8" where
  "put_ctl s onoff r = (r AND NOT (rs_mask s)) OR (if onoff = 0 then rs_off s else rs_on s)"

definition rail_set ::
  "'d axp_pm_bus_ops \<Rightarrow> u8 \<Rightarrow> rail_spec \<Rightarrow> int \<Rightarrow> int \<Rightarrow> 'd \<Rightarrow> bool \<times> 'd" where
  "rail_set ops chip s v onoff = c_fun (c_block
     [c_when (0 < v) (pm_rd ops chip (rs_vol s) False
        (\<lambda>r. pm_wr ops chip (rs_vol s) (put_vol s v r) False)),
      c_when (onoff < 0) (c_return True),
      pm_rd ops chip (rs_ctl s) False
        (\<lambda>r. pm_wr ops chip (rs_ctl s) (put_ctl s onoff r) False)]) True"

text \<open>The reference probe: 0 for a rail that is off, its voltage in millivolts otherwise.\<close>

definition rail_probe :: "'d axp_pm_bus_ops \<Rightarrow> u8 \<Rightarrow> rail_spec \<Rightarrow> 'd \<Rightarrow> int \<times> 'd" where
  "rail_probe ops chip s = c_fun
     (pm_rd ops chip (rs_ctl s) (-1) (\<lambda>c.
      if c AND rs_mask s = 0 then c_return 0
      else pm_rd ops chip (rs_vol s) (-1) (\<lambda>v.
        c_return (v_of_sel (rs_range s) (uint (v AND mask (rs_width s))))))) (-1)"

text \<open>What the registers say about a rail: whether it is on, and its voltage.\<close>

definition rail_on :: "rail_spec \<Rightarrow> (u8 \<Rightarrow> u8) \<Rightarrow> bool" where
  "rail_on s R \<longleftrightarrow> R (rs_ctl s) AND rs_mask s = rs_on s"

definition rail_mv :: "rail_spec \<Rightarrow> (u8 \<Rightarrow> u8) \<Rightarrow> int" where
  "rail_mv s R = v_of_sel (rs_range s) (uint (R (rs_vol s) AND mask (rs_width s)))"

definition rail_wf :: "rail_spec \<Rightarrow> bool" where
  "rail_wf s \<longleftrightarrow> vrange_wf (rs_width s) (rs_range s) \<and> rs_width s \<le> 8 \<and> rs_vol s \<noteq> rs_ctl s \<and>
     rs_on s AND rs_mask s = rs_on s \<and> rs_off s AND rs_mask s = rs_off s \<and> rs_on s \<noteq> rs_off s"

definition rail_sep :: "rail_spec \<Rightarrow> rail_spec \<Rightarrow> bool" where
  "rail_sep s t \<longleftrightarrow> rs_vol s \<noteq> rs_vol t \<and> rs_vol s \<noteq> rs_ctl t \<and> rs_ctl s \<noteq> rs_vol t \<and>
     (rs_ctl s = rs_ctl t \<longrightarrow> rs_mask s AND rs_mask t = 0)"

lemma put_vol_field:
  assumes "rail_wf s"
  shows "uint (put_vol s v r AND mask (rs_width s)) = v_sel (rs_range s) v"
proof -
  have b: "0 \<le> v_sel (rs_range s) v" "v_sel (rs_range s) v < 2 ^ rs_width s"
    and w: "rs_width s \<le> LENGTH(8)"
    using assms v_sel_bounds by (auto simp: rail_wf_def)
  then have "put_vol s v r AND mask (rs_width s) = word_of_int (v_sel (rs_range s) v)"
    unfolding put_vol_def u8_of_int_def by (intro bitfield_read and_mask_small)
  moreover have "v_sel (rs_range s) v < 2 ^ LENGTH(8)"
    using b w power_increasing [of "rs_width s" "LENGTH(8)" "2 :: int"] by (simp add: less_le_trans)
  ultimately show ?thesis using b uint_of_small [where 'a = 8] by simp
qed

lemma put_ctl_on: "rail_wf s \<Longrightarrow> (put_ctl s onoff r AND rs_mask s = rs_on s) \<longleftrightarrow> onoff \<noteq> 0"
  by (auto simp: rail_wf_def put_ctl_def bitfield_read)

lemma put_ctl_frame:
  "rail_wf s \<Longrightarrow> rs_mask s AND m = 0 \<Longrightarrow> put_ctl s onoff r AND m = r AND m"
  by (auto simp: rail_wf_def put_ctl_def bitfield_frame)

section \<open>The contract of the bus\<close>

text \<open>
  \<open>reg\<close> is the content of the registers of a device state; \<open>cfg\<close> are the registers that
  hold what was last written (status registers may be outside). A read changes no such
  register and, when it succeeds, returns the content. A write changes at most the
  addressed register; when it succeeds the register holds the written byte, and when it
  fails the byte has either arrived or not.
\<close>

locale register_bus =
  fixes ops :: "'d axp_pm_bus_ops"
    and reg :: "'d \<Rightarrow> u8 \<Rightarrow> u8"
    and cfg :: "u8 set"
  assumes read_keeps: "bus_read ops a d = (st, v, d') \<Longrightarrow> b \<in> cfg \<Longrightarrow> reg d' b = reg d b"
    and read_value: "bus_read ops a d = (0, v, d') \<Longrightarrow> a \<in> cfg \<Longrightarrow> v = reg d a"
    and write_frame: "bus_write ops a v d = (st, d') \<Longrightarrow> b \<in> cfg \<Longrightarrow> b \<noteq> a \<Longrightarrow> reg d' b = reg d b"
    and write_value: "bus_write ops a v d = (0, d') \<Longrightarrow> a \<in> cfg \<Longrightarrow> reg d' a = v"
    and write_failed: "bus_write ops a v d = (st, d') \<Longrightarrow> a \<in> cfg \<Longrightarrow> reg d' a \<in> {reg d a, v}"
begin

text \<open>Read, modify, write: the effect on every register, with or without failures.\<close>

lemma rmw:
  assumes "pm_rd ops chip a e (\<lambda>r. pm_wr ops chip a (f r) e') d = (res, d')" and "a \<in> cfg"
  shows "b \<in> cfg \<Longrightarrow> b \<noteq> a \<Longrightarrow> reg d' b = reg d b"
    and "reg d' a \<in> {reg d a, f (reg d a)}"
    and "res = None \<Longrightarrow> reg d' a = f (reg d a)"
proof -
  obtain st v d1 where r: "bus_read ops a d = (st, v, d1)" by (cases "bus_read ops a d") auto
  obtain st2 d2 where w: "bus_write ops a (f v) d1 = (st2, d2)" by (cases "bus_write ops a (f v) d1") auto
  have keep: "reg d1 b = reg d b" if "b \<in> cfg" for b using read_keeps [OF r that] .
  show "b \<in> cfg \<Longrightarrow> b \<noteq> a \<Longrightarrow> reg d' b = reg d b"
    using assms(1) r w keep write_frame [OF w] by (auto simp: c_stmt split: if_splits)
  show "reg d' a \<in> {reg d a, f (reg d a)}" "res = None \<Longrightarrow> reg d' a = f (reg d a)"
    using assms r w keep read_value write_failed [OF w] write_value
    by (auto simp: c_stmt split: if_splits)
qed

text \<open>
  Programming a rail: on success exactly the rail's two fields have the requested value,
  and whatever happens on the bus no other rail is disturbed.
\<close>

lemma rail_set_regs:
  assumes run: "rail_set ops chip s v onoff d = (okf, d')" and wf: "rail_wf s"
    and cfg: "rs_vol s \<in> cfg" "rs_ctl s \<in> cfg"
  shows "b \<in> cfg \<Longrightarrow> b \<noteq> rs_vol s \<Longrightarrow> b \<noteq> rs_ctl s \<Longrightarrow> reg d' b = reg d b"
    and "reg d' (rs_ctl s) \<in> {reg d (rs_ctl s), put_ctl s onoff (reg d (rs_ctl s))}"
    and "okf \<Longrightarrow> reg d' (rs_ctl s) =
      (if onoff < 0 then reg d (rs_ctl s) else put_ctl s onoff (reg d (rs_ctl s)))"
    and "okf \<Longrightarrow> reg d' (rs_vol s) = (if 0 < v then put_vol s v (reg d (rs_vol s)) else reg d (rs_vol s))"
proof -
  have ne: "rs_vol s \<noteq> rs_ctl s" using wf by (simp add: rail_wf_def)
  obtain r1 d1 where one: "c_when (0 < v) (pm_rd ops chip (rs_vol s) False
      (\<lambda>r. pm_wr ops chip (rs_vol s) (put_vol s v r) False)) d = (r1, d1)"
    by (cases "c_when (0 < v) (pm_rd ops chip (rs_vol s) False
      (\<lambda>r. pm_wr ops chip (rs_vol s) (put_vol s v r) False)) d") auto
  have d1: "(\<forall>b\<in>cfg. b \<noteq> rs_vol s \<longrightarrow> reg d1 b = reg d b) \<and> (r1 = None \<longrightarrow> reg d1 (rs_vol s) =
      (if 0 < v then put_vol s v (reg d (rs_vol s)) else reg d (rs_vol s)))"
  proof (cases "0 < v")
    case True
    with one have "pm_rd ops chip (rs_vol s) False
      (\<lambda>r. pm_wr ops chip (rs_vol s) (put_vol s v r) False) d = (r1, d1)" by (simp add: c_when_def)
    from rmw [OF this cfg(1)] True show ?thesis by simp
  next
    case False
    with one show ?thesis by (simp add: c_when_def c_skip_def)
  qed
  obtain r2 d2 where two: "pm_rd ops chip (rs_ctl s) False
      (\<lambda>r. pm_wr ops chip (rs_ctl s) (put_ctl s onoff r) False) d1 = (r2, d2)"
    by (cases "pm_rd ops chip (rs_ctl s) False
      (\<lambda>r. pm_wr ops chip (rs_ctl s) (put_ctl s onoff r) False) d1") auto
  note d2 = rmw [OF two cfg(2)]
  have res2: "r2 = None \<or> r2 = Some False"
    using two by (auto simp: c_stmt split: prod.splits if_splits)
  have res1: "r1 = None \<or> r1 = Some False"
    using one by (auto simp: c_stmt split: prod.splits if_splits)
  have cases: "(r1 = Some False \<and> okf = False \<and> d' = d1) \<or>
      (r1 = None \<and> onoff < 0 \<and> okf \<and> d' = d1) \<or>
      (r1 = None \<and> \<not> onoff < 0 \<and> okf = (r2 = None) \<and> d' = d2)"
    using run one two res1 res2
    by (auto simp: rail_set_def c_fun_def c_when_def c_skip_def c_return_def split: if_splits)
  show "b \<in> cfg \<Longrightarrow> b \<noteq> rs_vol s \<Longrightarrow> b \<noteq> rs_ctl s \<Longrightarrow> reg d' b = reg d b"
    using cases d1 d2 by auto
  show "reg d' (rs_ctl s) \<in> {reg d (rs_ctl s), put_ctl s onoff (reg d (rs_ctl s))}"
    using cases d1 d2 cfg ne by auto
  show "okf \<Longrightarrow> reg d' (rs_ctl s) =
      (if onoff < 0 then reg d (rs_ctl s) else put_ctl s onoff (reg d (rs_ctl s)))"
    using cases d1 d2 cfg ne by auto
  show "okf \<Longrightarrow> reg d' (rs_vol s) = (if 0 < v then put_vol s v (reg d (rs_vol s)) else reg d (rs_vol s))"
    using cases d1 d2 cfg ne by auto
qed

lemma rail_set_view:
  assumes run: "rail_set ops chip s v onoff d = (True, d')" and wf: "rail_wf s"
    and cfg: "rs_vol s \<in> cfg" "rs_ctl s \<in> cfg"
  shows "rail_on s (reg d') = (if onoff < 0 then rail_on s (reg d) else onoff \<noteq> 0)"
    and "rail_mv s (reg d') = (if 0 < v then v_of_sel (rs_range s) (v_sel (rs_range s) v) else rail_mv s (reg d))"
  using rail_set_regs [OF run wf cfg] put_ctl_on [OF wf] put_vol_field [OF wf]
  by (auto simp: rail_on_def rail_mv_def)

lemma rail_set_frame:
  assumes run: "rail_set ops chip s v onoff d = (okf, d')" and wf: "rail_wf s" and sep: "rail_sep s t"
    and cfg: "rs_vol s \<in> cfg" "rs_ctl s \<in> cfg" "rs_vol t \<in> cfg" "rs_ctl t \<in> cfg"
  shows "rail_on t (reg d') = rail_on t (reg d)" and "rail_mv t (reg d') = rail_mv t (reg d)"
proof -
  note regs = rail_set_regs [OF run wf cfg(1,2)]
  show "rail_mv t (reg d') = rail_mv t (reg d)"
    using regs(1) [OF cfg(3)] sep by (auto simp: rail_mv_def rail_sep_def)
  show "rail_on t (reg d') = rail_on t (reg d)"
  proof (cases "rs_ctl t = rs_ctl s")
    case True
    then have "reg d' (rs_ctl t) AND rs_mask t = reg d (rs_ctl t) AND rs_mask t"
      using regs(2) sep put_ctl_frame [OF wf, of "rs_mask t"] by (auto simp: rail_sep_def)
    then show ?thesis by (simp add: rail_on_def)
  next
    case False
    then show ?thesis
      using regs(1) [OF cfg(4)] sep by (auto simp: rail_on_def rail_sep_def)
  qed
qed

text \<open>The two common function bodies: update one register, and compute a result from one.\<close>

lemma rmw_fun:
  assumes run: "c_fun (pm_rd ops chip a e (\<lambda>r. pm_wr ops chip a (f r) e)) okv d = (st, d')"
    and a: "a \<in> cfg"
  shows "b \<in> cfg \<Longrightarrow> b \<noteq> a \<Longrightarrow> reg d' b = reg d b"
    and "st \<noteq> e \<Longrightarrow> reg d' a = f (reg d a)"
    and "reg d' a \<in> {reg d a, f (reg d a)}"
proof -
  obtain r1 where 1: "pm_rd ops chip a e (\<lambda>r. pm_wr ops chip a (f r) e) d = (r1, d')"
    and r1: "r1 = None \<or> r1 = Some e \<and> st = e"
    using run by (auto simp: c_stmt split: prod.splits if_splits option.splits)
  show "b \<in> cfg \<Longrightarrow> b \<noteq> a \<Longrightarrow> reg d' b = reg d b" "st \<noteq> e \<Longrightarrow> reg d' a = f (reg d a)"
    "reg d' a \<in> {reg d a, f (reg d a)}"
    using rmw [OF 1 a] r1 by auto
qed

lemma rd_fun:
  assumes run: "c_fun (pm_rd ops chip a e (\<lambda>r. c_return (g r))) okv d = (res, d')" and a: "a \<in> cfg"
  shows "b \<in> cfg \<Longrightarrow> reg d' b = reg d b" and "res \<noteq> e \<Longrightarrow> res = g (reg d a)"
proof -
  obtain st v where r: "bus_read ops a d = (st, v, d')"
    and res: "res = (if st \<noteq> 0 then e else g v)"
    using run by (auto simp: c_stmt split: prod.splits if_splits)
  show "b \<in> cfg \<Longrightarrow> reg d' b = reg d b" using read_keeps [OF r] .
  show "res \<noteq> e \<Longrightarrow> res = g (reg d a)" using res r read_value [OF _ a] by (auto split: if_splits)
qed

text \<open>Sequences of reads and of writes.\<close>

lemma wr_frame: "pm_wr ops chip a v e d = (res, d') \<Longrightarrow> b \<in> cfg \<Longrightarrow> b \<noteq> a \<Longrightarrow> reg d' b = reg d b"
  using write_frame by (auto simp: c_stmt split: prod.splits if_splits)

lemma wr_value: "pm_wr ops chip a v e d = (None, d') \<Longrightarrow> a \<in> cfg \<Longrightarrow> reg d' a = v"
  using write_value by (auto simp: c_stmt split: prod.splits if_splits)

lemma wr_all_frame:
  assumes "pm_wr_all ops chip base vals is e d = (res, d')"
    and "b \<in> cfg" and "\<forall>i\<in>set is. b \<noteq> base + of_nat i"
  shows "reg d' b = reg d b"
  using assms
proof (induction "is" arbitrary: d)
  case (Cons i "is")
  obtain r1 d1 where 1: "pm_wr ops chip (base + of_nat i) (vals i) e d = (r1, d1)"
    by (cases "pm_wr ops chip (base + of_nat i) (vals i) e d") auto
  have "reg d1 b = reg d b" using wr_frame [OF 1] Cons.prems by simp
  with 1 Cons show ?case
    by (auto simp: pm_wr_all_def split: option.splits)
qed (simp add: pm_wr_all_def)

lemma wr_all_value:
  assumes "pm_wr_all ops chip base vals is e d = (None, d')"
    and "\<forall>i\<in>set is. base + of_nat i \<in> cfg" and "distinct (map (\<lambda>i. base + of_nat i) is)" and "k \<in> set is"
  shows "reg d' (base + of_nat k) = vals k"
  using assms
proof (induction "is" arbitrary: d)
  case (Cons i "is")
  obtain d1 where 1: "pm_wr ops chip (base + of_nat i) (vals i) e d = (None, d1)"
    and rest: "pm_wr_all ops chip base vals is e d1 = (None, d')"
    using Cons.prems(1) by (auto simp: pm_wr_all_def split: prod.splits option.splits)
  show ?case
  proof (cases "k \<in> set is")
    case True
    with Cons rest show ?thesis by auto
  next
    case False
    then have "k = i" using Cons.prems by simp
    moreover have "\<forall>j\<in>set is. base + of_nat i \<noteq> base + of_nat j" using Cons.prems(3) by auto
    ultimately show ?thesis
      using wr_value [OF 1] wr_all_frame [OF rest] Cons.prems(2) by simp
  qed
qed simp

lemma rd_all_keeps:
  assumes "pm_rd_all ops chip base is buf d = (okf, buf', d')" and "b \<in> cfg"
  shows "reg d' b = reg d b"
  using assms(1)
proof (induction "is" arbitrary: buf d)
  case (Cons i "is")
  obtain st v d1 where 1: "bus_read ops (base + of_nat i) d = (st, v, d1)"
    by (cases "bus_read ops (base + of_nat i) d") auto
  then have "reg d1 b = reg d b" using read_keeps assms(2) by blast
  with 1 Cons show ?case by (auto simp: AxpPmBusRead_def split: if_splits)
qed simp

lemma rd_all_value:
  assumes "pm_rd_all ops chip base is buf d = (True, buf', d')" and "\<forall>i\<in>set is. base + of_nat i \<in> cfg"
    and "\<forall>i\<in>set is. i < length buf" and "distinct is"
  shows "k < length buf \<Longrightarrow> buf' ! k = (if k \<in> set is then reg d (base + of_nat k) else buf ! k)"
  using assms
proof (induction "is" arbitrary: buf d)
  case (Cons i "is")
  obtain v d1 where 1: "bus_read ops (base + of_nat i) d = (0, v, d1)"
    and rest: "pm_rd_all ops chip base is (buf[i := v]) d1 = (True, buf', d')"
    using Cons.prems(2) by (auto simp: AxpPmBusRead_def split: prod.splits if_splits)
  have v: "v = reg d (base + of_nat i)" using read_value [OF 1] Cons.prems(3) by simp
  have keep: "reg d1 b = reg d b" if "b \<in> cfg" for b using read_keeps [OF 1 that] .
  from Cons.IH [OF _ rest] Cons.prems v keep show ?case by auto
qed simp

text \<open>Without read failures the reference probe reports what the registers say and changes nothing.\<close>

lemma rail_probe_value:
  assumes ok: "\<forall>a e. fst (bus_read ops a e) = 0" and cfg: "rs_vol s \<in> cfg" "rs_ctl s \<in> cfg"
  shows "fst (rail_probe ops chip s d) = (if reg d (rs_ctl s) AND rs_mask s = 0 then 0 else rail_mv s (reg d))"
    and "b \<in> cfg \<Longrightarrow> reg (snd (rail_probe ops chip s d)) b = reg d b"
proof -
  have rd: "\<exists>e'. bus_read ops a e = (0, reg e a, e') \<and> (\<forall>b\<in>cfg. reg e' b = reg e b)" if "a \<in> cfg" for a e
    using ok that read_keeps read_value by (metis prod.collapse)
  obtain d1 where 1: "bus_read ops (rs_ctl s) d = (0, reg d (rs_ctl s), d1)" "\<forall>b\<in>cfg. reg d1 b = reg d b"
    using rd [OF cfg(2)] by blast
  obtain d2 where 2: "bus_read ops (rs_vol s) d1 = (0, reg d1 (rs_vol s), d2)" "\<forall>b\<in>cfg. reg d2 b = reg d1 b"
    using rd [OF cfg(1)] by blast
  show "fst (rail_probe ops chip s d) = (if reg d (rs_ctl s) AND rs_mask s = 0 then 0 else rail_mv s (reg d))"
    using 1 2 cfg by (simp add: rail_probe_def c_stmt rail_mv_def)
  show "b \<in> cfg \<Longrightarrow> reg (snd (rail_probe ops chip s d)) b = reg d b"
    using 1 2 by (simp add: rail_probe_def c_stmt)
qed

end

text \<open>An ideal chip: a register file that never fails.\<close>

definition mem_bus :: "(u8 \<Rightarrow> u8) axp_pm_bus_ops" where
  "mem_bus = \<lparr>bus_read = (\<lambda>a R. (0, R a, R)), bus_write = (\<lambda>a v R. (0, R(a := v)))\<rparr>"

interpretation mem: register_bus mem_bus id UNIV
  by unfold_locales (auto simp: mem_bus_def)

section \<open>Statements and observations\<close>

text \<open>An observation of the device that no bus transfer changes.\<close>

definition bus_keeps :: "'d axp_pm_bus_ops \<Rightarrow> ('d \<Rightarrow> 'x) \<Rightarrow> bool" where
  "bus_keeps ops f \<longleftrightarrow> (\<forall>a d. f (snd (snd (bus_read ops a d))) = f d) \<and> (\<forall>a v d. f (snd (bus_write ops a v d)) = f d)"

definition stmt_keeps :: "('d \<Rightarrow> 'x) \<Rightarrow> ('r, 'd) stmt \<Rightarrow> bool" where
  "stmt_keeps f S \<longleftrightarrow> (\<forall>d. f (snd (S d)) = f d)"

named_theorems keeps "statements that keep an observation of the device"

lemma keeps_rd [keeps]: "bus_keeps ops f \<Longrightarrow> (\<And>v. stmt_keeps f (k v)) \<Longrightarrow> stmt_keeps f (pm_rd ops chip a e k)"
  by (auto simp: bus_keeps_def stmt_keeps_def pm_rd_def AxpPmBusRead_def split: prod.splits) (metis snd_conv)+

lemma keeps_wr [keeps]: "bus_keeps ops f \<Longrightarrow> stmt_keeps f (pm_wr ops chip a v e)"
  by (auto simp: bus_keeps_def stmt_keeps_def pm_wr_def AxpPmBusWrite_def split: prod.splits) (metis snd_conv)+

lemma keeps_block [keeps]: "(\<And>S. S \<in> set Ss \<Longrightarrow> stmt_keeps f S) \<Longrightarrow> stmt_keeps f (c_block Ss)"
proof (induction Ss)
  case (Cons S Ss)
  then show ?case
    by (auto simp: stmt_keeps_def split: prod.splits option.splits) (metis snd_conv)+
qed (simp add: stmt_keeps_def)

lemma keeps_when [keeps]: "stmt_keeps f S \<Longrightarrow> stmt_keeps f (c_when b S)"
  by (simp add: stmt_keeps_def c_when_def c_skip_def)

lemma keeps_return [keeps]: "stmt_keeps f (c_return r)"
  by (simp add: stmt_keeps_def c_return_def)

lemma keeps_wr_all [keeps]: "bus_keeps ops f \<Longrightarrow> stmt_keeps f (pm_wr_all ops chip base vals is e)"
  unfolding pm_wr_all_def by (rule keeps_block) (auto intro!: keeps)

lemma keeps_fun: "stmt_keeps f S \<Longrightarrow> f (snd (c_fun S r d)) = f d"
  by (auto simp: stmt_keeps_def c_fun_def split: prod.splits option.splits) (metis snd_conv)+

lemma keeps_rd_all: "bus_keeps ops f \<Longrightarrow> f (snd (snd (pm_rd_all ops chip base is buf d))) = f d"
proof (induction "is" arbitrary: buf d)
  case (Cons i "is")
  then show ?case
    by (auto simp: AxpPmBusRead_def split: prod.splits) (metis bus_keeps_def snd_conv)+
qed simp

lemma rail_set_keeps: "bus_keeps ops f \<Longrightarrow> f (snd (rail_set ops chip s v onoff d)) = f d"
  unfolding rail_set_def by (rule keeps_fun, rule keeps_block) (auto intro!: keeps)

end
