(* ===== verification/Axp81xRegs.thy ===== *)
theory Axp81xRegs
  imports PmBus
begin

text \<open>
  Register map of the AXP81X (AXP803) power chip,
  \<open>src/Drivers/AxpPower/Axp81X/Axp81XReg.h\<close>, and the supply identifiers and masks of
  \<open>src/Include/Protocol/AxpPower.h\<close>.
\<close>

abbreviation AXP81X_ADDR :: u8 where "AXP81X_ADDR \<equiv> 0x11"

abbreviation (input) BOOT_POWER81X_STATUS :: u8 where "BOOT_POWER81X_STATUS \<equiv> 0x00"
abbreviation (input) BOOT_POWER81X_MODE_CHGSTATUS :: u8 where "BOOT_POWER81X_MODE_CHGSTATUS \<equiv> 0x01"
abbreviation (input) BOOT_POWER81X_OTG_STATUS :: u8 where "BOOT_POWER81X_OTG_STATUS \<equiv> 0x02"
abbreviation (input) BOOT_POWER81X_VERSION :: u8 where "BOOT_POWER81X_VERSION \<equiv> 0x03"
abbreviation (input) BOOT_POWER81X_DATA_BUFFER0 :: u8 where "BOOT_POWER81X_DATA_BUFFER0 \<equiv> 0x04"
abbreviation (input) BOOT_POWER81X_DATA_BUFFER1 :: u8 where "BOOT_POWER81X_DATA_BUFFER1 \<equiv> 0x05"
abbreviation (input) BOOT_POWER81X_DATA_BUFFER2 :: u8 where "BOOT_POWER81X_DATA_BUFFER2 \<equiv> 0x06"
abbreviation (input) BOOT_POWER81X_DATA_BUFFER3 :: u8 where "BOOT_POWER81X_DATA_BUFFER3 \<equiv> 0x07"
abbreviation (input) BOOT_POWER81X_DATA_BUFFER4 :: u8 where "BOOT_POWER81X_DATA_BUFFER4 \<equiv> 0x08"
abbreviation (input) BOOT_POWER81X_DATA_BUFFER5 :: u8 where "BOOT_POWER81X_DATA_BUFFER5 \<equiv> 0x09"
abbreviation (input) BOOT_POWER81X_DATA_BUFFER6 :: u8 where "BOOT_POWER81X_DATA_BUFFER6 \<equiv> 0x0a"
abbreviation (input) BOOT_POWER81X_DATA_BUFFER7 :: u8 where "BOOT_POWER81X_DATA_BUFFER7 \<equiv> 0x0b"
abbreviation (input) BOOT_POWER81X_DATA_BUFFER8 :: u8 where "BOOT_POWER81X_DATA_BUFFER8 \<equiv> 0x0c"
abbreviation (input) BOOT_POWER81X_DATA_BUFFER9 :: u8 where "BOOT_POWER81X_DATA_BUFFER9 \<equiv> 0x0d"
abbreviation (input) BOOT_POWER81X_DATA_BUFFER10 :: u8 where "BOOT_POWER81X_DATA_BUFFER10 \<equiv> 0x0e"
abbreviation (input) BOOT_POWER81X_DATA_BUFFER11 :: u8 where "BOOT_POWER81X_DATA_BUFFER11 \<equiv> 0x0f"
abbreviation (input) BOOT_POWER81X_OUTPUT_CTL1 :: u8 where "BOOT_POWER81X_OUTPUT_CTL1 \<equiv> 0x10"
abbreviation (input) BOOT_POWER81X_OUTPUT_CTL2 :: u8 where "BOOT_POWER81X_OUTPUT_CTL2 \<equiv> 0x12"
abbreviation (input) BOOT_POWER81X_ALDO_CTL :: u8 where "BOOT_POWER81X_ALDO_CTL \<equiv> 0x13"
abbreviation (input) BOOT_POWER81X_DLDO1_VOL :: u8 where "BOOT_POWER81X_DLDO1_VOL \<equiv> 0x15"
abbreviation (input) BOOT_POWER81X_DLDO2_VOL :: u8 where "BOOT_POWER81X_DLDO2_VOL \<equiv> 0x16"
abbreviation (input) BOOT_POWER81X_DLDO3_VOL :: u8 where "BOOT_POWER81X_DLDO3_VOL \<equiv> 0x17"
abbreviation (input) BOOT_POWER81X_DLDO4_VOL :: u8 where "BOOT_POWER81X_DLDO4_VOL \<equiv> 0x18"
abbreviation (input) BOOT_POWER81X_ELDO1_VOL :: u8 where "BOOT_POWER81X_ELDO1_VOL \<equiv> 0x19"
abbreviation (input) BOOT_POWER81X_ELDO2_VOL :: u8 where "BOOT_POWER81X_ELDO2_VOL \<equiv> 0x1a"
abbreviation (input) BOOT_POWER81X_ELDO3_VOL :: u8 where "BOOT_POWER81X_ELDO3_VOL \<equiv> 0x1b"
abbreviation (input) BOOT_POWER81X_FLDO1_VOL :: u8 where "BOOT_POWER81X_FLDO1_VOL \<equiv> 0x1c"
abbreviation (input) BOOT_POWER81X_FLDO2_VOL :: u8 where "BOOT_POWER81X_FLDO2_VOL \<equiv> 0x1d"
abbreviation (input) BOOT_POWER81X_DC1OUT_VOL :: u8 where "BOOT_POWER81X_DC1OUT_VOL \<equiv> 0x20"
abbreviation (input) BOOT_POWER81X_DC2OUT_VOL :: u8 where "BOOT_POWER81X_DC2OUT_VOL \<equiv> 0x21"
abbreviation (input) BOOT_POWER81X_DC3OUT_VOL :: u8 where "BOOT_POWER81X_DC3OUT_VOL \<equiv> 0x22"
abbreviation (input) BOOT_POWER81X_DC4OUT_VOL :: u8 where "BOOT_POWER81X_DC4OUT_VOL \<equiv> 0x23"
abbreviation (input) BOOT_POWER81X_DC5OUT_VOL :: u8 where "BOOT_POWER81X_DC5OUT_VOL \<equiv> 0x24"
abbreviation (input) BOOT_POWER81X_DC6OUT_VOL :: u8 where "BOOT_POWER81X_DC6OUT_VOL \<equiv> 0x25"
abbreviation (input) BOOT_POWER81X_DC23_DVM_CTL :: u8 where "BOOT_POWER81X_DC23_DVM_CTL \<equiv> 0x27"
abbreviation (input) BOOT_POWER81X_ALDO1OUT_VOL :: u8 where "BOOT_POWER81X_ALDO1OUT_VOL \<equiv> 0x28"
abbreviation (input) BOOT_POWER81X_ALDO2OUT_VOL :: u8 where "BOOT_POWER81X_ALDO2OUT_VOL \<equiv> 0x29"
abbreviation (input) BOOT_POWER81X_ALDO3OUT_VOL :: u8 where "BOOT_POWER81X_ALDO3OUT_VOL \<equiv> 0x2a"
abbreviation (input) BOOT_POWER81X_VBUS_SET :: u8 where "BOOT_POWER81X_VBUS_SET \<equiv> 0x30"
abbreviation (input) BOOT_POWER81X_VOFF_SET :: u8 where "BOOT_POWER81X_VOFF_SET \<equiv> 0x31"
abbreviation (input) BOOT_POWER81X_OFF_CTL :: u8 where "BOOT_POWER81X_OFF_CTL \<equiv> 0x32"
abbreviation (input) BOOT_POWER81X_CHARGE1 :: u8 where "BOOT_POWER81X_CHARGE1 \<equiv> 0x33"
abbreviation (input) BOOT_POWER81X_CHARGE2 :: u8 where "BOOT_POWER81X_CHARGE2 \<equiv> 0x34"
abbreviation (input) BOOT_POWER81X_CHARGE3 :: u8 where "BOOT_POWER81X_CHARGE3 \<equiv> 0x35"
abbreviation (input) BOOT_POWER81X_BAT_AVERVOL_H8 :: u8 where "BOOT_POWER81X_BAT_AVERVOL_H8 \<equiv> 0x50"
abbreviation (input) BOOT_POWER81X_BAT_AVERVOL_L4 :: u8 where "BOOT_POWER81X_BAT_AVERVOL_L4 \<equiv> 0x51"
abbreviation (input) BOOT_POWER81X_DCDC_MODESET :: u8 where "BOOT_POWER81X_DCDC_MODESET \<equiv> 0x80"
abbreviation (input) BOOT_POWER81X_VOUT_MONITOR :: u8 where "BOOT_POWER81X_VOUT_MONITOR \<equiv> 0x81"
abbreviation (input) BOOT_POWER81X_ADC_EN :: u8 where "BOOT_POWER81X_ADC_EN \<equiv> 0x82"
abbreviation (input) BOOT_POWER81X_ADC_SPEED_TS :: u8 where "BOOT_POWER81X_ADC_SPEED_TS \<equiv> 0x84"
abbreviation (input) BOOT_POWER81X_ADC_SPEED :: u8 where "BOOT_POWER81X_ADC_SPEED \<equiv> 0x85"
abbreviation (input) BOOT_POWER81X_TIMER_CTL :: u8 where "BOOT_POWER81X_TIMER_CTL \<equiv> 0x8a"
abbreviation (input) BOOT_POWER81X_HOTOVER_CTL :: u8 where "BOOT_POWER81X_HOTOVER_CTL \<equiv> 0x8f"
abbreviation (input) BOOT_POWER81X_GPIO0_CTL :: u8 where "BOOT_POWER81X_GPIO0_CTL \<equiv> 0x90"
abbreviation (input) BOOT_POWER81X_GPIO0_VOL :: u8 where "BOOT_POWER81X_GPIO0_VOL \<equiv> 0x91"
abbreviation (input) BOOT_POWER81X_GPIO1_CTL :: u8 where "BOOT_POWER81X_GPIO1_CTL \<equiv> 0x92"
abbreviation (input) BOOT_POWER81X_GPIO1_VOL :: u8 where "BOOT_POWER81X_GPIO1_VOL \<equiv> 0x93"
abbreviation (input) BOOT_POWER81X_GPIO012_SIGNAL :: u8 where "BOOT_POWER81X_GPIO012_SIGNAL \<equiv> 0x94"
abbreviation (input) BOOT_POWER81X_GPIO012_PDCTL :: u8 where "BOOT_POWER81X_GPIO012_PDCTL \<equiv> 0x97"
abbreviation (input) BOOT_POWER81X_INTEN1 :: u8 where "BOOT_POWER81X_INTEN1 \<equiv> 0x40"
abbreviation (input) BOOT_POWER81X_INTEN2 :: u8 where "BOOT_POWER81X_INTEN2 \<equiv> 0x41"
abbreviation (input) BOOT_POWER81X_INTEN3 :: u8 where "BOOT_POWER81X_INTEN3 \<equiv> 0x42"
abbreviation (input) BOOT_POWER81X_INTEN4 :: u8 where "BOOT_POWER81X_INTEN4 \<equiv> 0x43"
abbreviation (input) BOOT_POWER81X_INTEN5 :: u8 where "BOOT_POWER81X_INTEN5 \<equiv> 0x44"
abbreviation (input) BOOT_POWER81X_INTEN6 :: u8 where "BOOT_POWER81X_INTEN6 \<equiv> 0x45"
abbreviation (input) BOOT_POWER81X_INTSTS1 :: u8 where "BOOT_POWER81X_INTSTS1 \<equiv> 0x48"
abbreviation (input) BOOT_POWER81X_INTSTS2 :: u8 where "BOOT_POWER81X_INTSTS2 \<equiv> 0x49"
abbreviation (input) BOOT_POWER81X_INTSTS3 :: u8 where "BOOT_POWER81X_INTSTS3 \<equiv> 0x4a"
abbreviation (input) BOOT_POWER81X_INTSTS4 :: u8 where "BOOT_POWER81X_INTSTS4 \<equiv> 0x4b"
abbreviation (input) BOOT_POWER81X_INTSTS5 :: u8 where "BOOT_POWER81X_INTSTS5 \<equiv> 0x4c"
abbreviation (input) BOOT_POWER81X_INTSTS6 :: u8 where "BOOT_POWER81X_INTSTS6 \<equiv> 0x4d"
abbreviation (input) BOOT_POWER81X_FUEL_GAUGE_CTL :: u8 where "BOOT_POWER81X_FUEL_GAUGE_CTL \<equiv> 0xb8"
abbreviation (input) BOOT_POWER81X_BAT_PERCEN_CAL :: u8 where "BOOT_POWER81X_BAT_PERCEN_CAL \<equiv> 0xb9"
abbreviation (input) BOOT_POWER81X_RDC1 :: u8 where "BOOT_POWER81X_RDC1 \<equiv> 0xba"
abbreviation (input) BOOT_POWER81X_RDC0 :: u8 where "BOOT_POWER81X_RDC0 \<equiv> 0xbb"
abbreviation (input) BOOT_POWER81X_OCV1 :: u8 where "BOOT_POWER81X_OCV1 \<equiv> 0xbc"
abbreviation (input) BOOT_POWER81X_OCV0 :: u8 where "BOOT_POWER81X_OCV0 \<equiv> 0xbd"
abbreviation (input) BOOT_POWER81X_BAT_MAX_CAP1 :: u8 where "BOOT_POWER81X_BAT_MAX_CAP1 \<equiv> 0xe0"
abbreviation (input) BOOT_POWER81X_BAT_MAX_CAP0 :: u8 where "BOOT_POWER81X_BAT_MAX_CAP0 \<equiv> 0xe1"
abbreviation (input) BOOT_POWER81X_BAT_COULOMB_CNT1 :: u8 where "BOOT_POWER81X_BAT_COULOMB_CNT1 \<equiv> 0xe2"
abbreviation (input) BOOT_POWER81X_BAT_COULOMB_CNT0 :: u8 where "BOOT_POWER81X_BAT_COULOMB_CNT0 \<equiv> 0xe3"

abbreviation (input) PMU_SUPPLY_DCDC_TYPE :: int where "PMU_SUPPLY_DCDC_TYPE \<equiv> 0x00010000"
abbreviation (input) PMU_SUPPLY_ALDO_TYPE :: int where "PMU_SUPPLY_ALDO_TYPE \<equiv> 0x00020000"
abbreviation (input) PMU_SUPPLY_BLDO_TYPE :: int where "PMU_SUPPLY_BLDO_TYPE \<equiv> 0x00030000"
abbreviation (input) PMU_SUPPLY_CLDO_TYPE :: int where "PMU_SUPPLY_CLDO_TYPE \<equiv> 0x00040000"
abbreviation (input) PMU_SUPPLY_DLDO_TYPE :: int where "PMU_SUPPLY_DLDO_TYPE \<equiv> 0x00050000"
abbreviation (input) PMU_SUPPLY_ELDO_TYPE :: int where "PMU_SUPPLY_ELDO_TYPE \<equiv> 0x00060000"
abbreviation (input) PMU_SUPPLY_GPIOLDO_TYPE :: int where "PMU_SUPPLY_GPIOLDO_TYPE \<equiv> 0x00070000"
abbreviation (input) PMU_SUPPLY_MISC_TYPE :: int where "PMU_SUPPLY_MISC_TYPE \<equiv> 0x00080000"
abbreviation (input) PMU_SUPPLY_DC5LDO :: int where "PMU_SUPPLY_DC5LDO \<equiv> 0x00080001"
abbreviation (input) PMU_SUPPLY_DC1SW :: int where "PMU_SUPPLY_DC1SW \<equiv> 0x00080002"
abbreviation (input) PMU_SUPPLY_VBUSEN :: int where "PMU_SUPPLY_VBUSEN \<equiv> 0x00080003"
abbreviation (input) PMU_SUPPLY_GPIO_TYPE :: int where "PMU_SUPPLY_GPIO_TYPE \<equiv> 0x00090000"

abbreviation (input) AXP_INT_MASK_AC_REMOVE :: u64 where "AXP_INT_MASK_AC_REMOVE \<equiv> 0x00000001"
abbreviation (input) AXP_INT_MASK_AC_INSERT :: u64 where "AXP_INT_MASK_AC_INSERT \<equiv> 0x00000002"
abbreviation (input) AXP_INT_MASK_VBUS_REMOVE :: u64 where "AXP_INT_MASK_VBUS_REMOVE \<equiv> 0x00000004"
abbreviation (input) AXP_INT_MASK_VBUS_INSERT :: u64 where "AXP_INT_MASK_VBUS_INSERT \<equiv> 0x00000008"
abbreviation (input) AXP_INT_MASK_CHARGE_DONE :: u64 where "AXP_INT_MASK_CHARGE_DONE \<equiv> 0x00000010"
abbreviation (input) AXP_INT_MASK_LONG_KEY_PRESS :: u64 where "AXP_INT_MASK_LONG_KEY_PRESS \<equiv> 0x00000020"
abbreviation (input) AXP_INT_MASK_SHORT_KEY_PRESS :: u64 where "AXP_INT_MASK_SHORT_KEY_PRESS \<equiv> 0x00000040"
abbreviation (input) AXP_POWER_VBUS_EXIST :: u64 where "AXP_POWER_VBUS_EXIST \<equiv> 0x00000001"
abbreviation (input) AXP_POWER_AC_BUS_EXIST :: u64 where "AXP_POWER_AC_BUS_EXIST \<equiv> 0x00000002"

end
