(* ===== verification/Axp81xSupply.thy ===== *)
theory Axp81xSupply
  imports Axp81xRegs
begin

text \<open>
  The supply rails of the AXP81X, \<open>src/Drivers/AxpPower/Axp81X/Axp81XSupply.c\<close>: one
  definition per C function, with its constants, its error codes and the order of its bus
  transfers. A function that the C code declares \<open>int\<close> returns an \<^typ>\<open>int\<close>; callers that
  return it as \<open>EFI_STATUS\<close> (or the other way round) convert it as C does.

  Division is by a positive constant of a value clamped to be non-negative, so \<open>div\<close> is
  the truncating division of C. In the probe functions the value after the body is the
  one C would return past the last statement; every path of the body returns before it.
\<close>

section \<open>Switches without a voltage\<close>

definition axp81X_set_dc1sw :: "'d axp_pm_bus_ops \<Rightarrow> int \<Rightarrow> 'd \<Rightarrow> efi_status \<times> 'd" where
  "axp81X_set_dc1sw ops onoff = c_fun
     (pm_rd ops AXP81X_ADDR BOOT_POWER81X_OUTPUT_CTL2 EFI_DEVICE_ERROR (\<lambda>reg_value.
      pm_wr ops AXP81X_ADDR BOOT_POWER81X_OUTPUT_CTL2
        (if onoff \<noteq> 0 then reg_value OR push_bit 7 1 else reg_value AND NOT (push_bit 7 1))
        EFI_DEVICE_ERROR))
     EFI_SUCCESS"

definition axp81X_set_dc5ldo :: "'d axp_pm_bus_ops \<Rightarrow> int \<Rightarrow> 'd \<Rightarrow> efi_status \<times> 'd" where
  "axp81X_set_dc5ldo ops onoff = c_fun
     (pm_rd ops AXP81X_ADDR BOOT_POWER81X_OUTPUT_CTL1 EFI_DEVICE_ERROR (\<lambda>reg_value.
      pm_wr ops AXP81X_ADDR BOOT_POWER81X_OUTPUT_CTL1
        (if onoff \<noteq> 0 then reg_value OR push_bit 0 1 else reg_value AND NOT (push_bit 0 1))
        EFI_DEVICE_ERROR))
     EFI_SUCCESS"

section \<open>Setting a rail\<close>

definition axp81X_set_dcdc1 :: "'d axp_pm_bus_ops \<Rightarrow> int \<Rightarrow> int \<Rightarrow> 'd \<Rightarrow> efi_status \<times> 'd" where
  "axp81X_set_dcdc1 ops set_vol onoff = c_fun (c_block
     [c_when (set_vol > 0)
        (let set_vol = c_clamp 1600 3400 set_vol in
         pm_rd ops AXP81X_ADDR BOOT_POWER81X_DC1OUT_VOL EFI_DEVICE_ERROR (\<lambda>reg_value.
         pm_wr ops AXP81X_ADDR BOOT_POWER81X_DC1OUT_VOL
           ((reg_value AND 0xE0) OR
            u8_of_int ((set_vol - 1600) div 100)) EFI_DEVICE_ERROR)),
      c_when (onoff < 0) (c_return EFI_SUCCESS),
      pm_rd ops AXP81X_ADDR BOOT_POWER81X_OUTPUT_CTL1 EFI_DEVICE_ERROR (\<lambda>reg_value.
      pm_wr ops AXP81X_ADDR BOOT_POWER81X_OUTPUT_CTL1
        (if onoff = 0 then reg_value AND NOT (push_bit 0 1) else reg_value OR push_bit 0 1) EFI_DEVICE_ERROR)])
     EFI_SUCCESS"

definition axp81X_set_dcdc2 :: "'d axp_pm_bus_ops \<Rightarrow> int \<Rightarrow> int \<Rightarrow> 'd \<Rightarrow> efi_status \<times> 'd" where
  "axp81X_set_dcdc2 ops set_vol onoff = c_fun (c_block
     [c_when (set_vol > 0)
        (let set_vol = c_clamp 500 1300 set_vol in
         pm_rd ops AXP81X_ADDR BOOT_POWER81X_DC2OUT_VOL (-1) (\<lambda>reg_value.
         pm_wr ops AXP81X_ADDR BOOT_POWER81X_DC2OUT_VOL
           ((reg_value AND NOT 0x7f) OR
            (if set_vol > 1200 then u8_of_int (70 + (set_vol - 1200) div 20)
            else u8_of_int ((set_vol - 500) div 10))) (-1))),
      c_when (onoff < 0) (c_return 0),
      pm_rd ops AXP81X_ADDR BOOT_POWER81X_OUTPUT_CTL1 (-1) (\<lambda>reg_value.
      pm_wr ops AXP81X_ADDR BOOT_POWER81X_OUTPUT_CTL1
        (if onoff = 0 then reg_value AND NOT (push_bit 1 1) else reg_value OR push_bit 1 1) (-1))])
     EFI_SUCCESS"

definition axp81X_set_dcdc3 :: "'d axp_pm_bus_ops \<Rightarrow> int \<Rightarrow> int \<Rightarrow> 'd \<Rightarrow> efi_status \<times> 'd" where
  "axp81X_set_dcdc3 ops set_vol onoff = c_fun (c_block
     [c_when (set_vol > 0)
        (let set_vol = c_clamp 500 1300 set_vol in
         pm_rd ops AXP81X_ADDR BOOT_POWER81X_DC3OUT_VOL (-1) (\<lambda>reg_value.
         pm_wr ops AXP81X_ADDR BOOT_POWER81X_DC3OUT_VOL
           ((reg_value AND NOT 0x7f) OR
            (if set_vol > 1200 then u8_of_int (70 + (set_vol - 1200) div 20)
            else u8_of_int ((set_vol - 500) div 10))) (-1))),
      c_when (onoff < 0) (c_return 0),
      pm_rd ops AXP81X_ADDR BOOT_POWER81X_OUTPUT_CTL1 (-1) (\<lambda>reg_value.
      pm_wr ops AXP81X_ADDR BOOT_POWER81X_OUTPUT_CTL1
        (if onoff = 0 then reg_value AND NOT (push_bit 2 1) else reg_value OR push_bit 2 1) (-1))])
     EFI_SUCCESS"

definition axp81X_set_dcdc4 :: "'d axp_pm_bus_ops \<Rightarrow> int \<Rightarrow> int \<Rightarrow> 'd \<Rightarrow> efi_status \<times> 'd" where
  "axp81X_set_dcdc4 ops set_vol onoff = c_fun (c_block
     [c_when (set_vol > 0)
        (let set_vol = c_clamp 500 1300 set_vol in
         pm_rd ops AXP81X_ADDR BOOT_POWER81X_DC4OUT_VOL (-1) (\<lambda>reg_value.
         pm_wr ops AXP81X_ADDR BOOT_POWER81X_DC4OUT_VOL
           ((reg_value AND NOT 0x7f) OR
            (if set_vol > 1200 then u8_of_int (70 + (set_vol - 1200) div 20)
            else u8_of_int ((set_vol - 500) div 10))) (-1))),
      c_when (onoff < 0) (c_return 0),
      pm_rd ops AXP81X_ADDR BOOT_POWER81X_OUTPUT_CTL1 (-1) (\<lambda>reg_value.
      pm_wr ops AXP81X_ADDR BOOT_POWER81X_OUTPUT_CTL1
        (if onoff = 0 then reg_value AND NOT (push_bit 3 1) else reg_value OR push_bit 3 1) (-1))])
     EFI_SUCCESS"

definition axp81X_set_dcdc5 :: "'d axp_pm_bus_ops \<Rightarrow> int \<Rightarrow> int \<Rightarrow> 'd \<Rightarrow> efi_status \<times> 'd" where
  "axp81X_set_dcdc5 ops set_vol onoff = c_fun (c_block
     [c_when (set_vol > 0)
        (let set_vol = c_clamp 800 1840 set_vol in
         pm_rd ops AXP81X_ADDR BOOT_POWER81X_DC5OUT_VOL (-1) (\<lambda>reg_value.
         pm_wr ops AXP81X_ADDR BOOT_POWER81X_DC5OUT_VOL
           ((reg_value AND NOT 0x7f) OR
            (if set_vol > 1120 then u8_of_int (32 + (set_vol - 1120) div 20)
            else u8_of_int ((set_vol - 800) div 10))) (-1))),
      c_when (onoff < 0) (c_return 0),
      pm_rd ops AXP81X_ADDR BOOT_POWER81X_OUTPUT_CTL1 (-1) (\<lambda>reg_value.
      pm_wr ops AXP81X_ADDR BOOT_POWER81X_OUTPUT_CTL1
        (if onoff = 0 then reg_value AND NOT (push_bit 4 1) else reg_value OR push_bit 4 1) (-1))])
     EFI_SUCCESS"

definition axp81X_set_dcdc6 :: "'d axp_pm_bus_ops \<Rightarrow> int \<Rightarrow> int \<Rightarrow> 'd \<Rightarrow> int \<times> 'd" where
  "axp81X_set_dcdc6 ops set_vol onoff = c_fun (c_block
     [c_when (set_vol > 0)
        (let set_vol = c_clamp 600 1520 set_vol in
         pm_rd ops AXP81X_ADDR BOOT_POWER81X_DC6OUT_VOL (-1) (\<lambda>reg_value.
         pm_wr ops AXP81X_ADDR BOOT_POWER81X_DC6OUT_VOL
           ((reg_value AND NOT 0x7f) OR
            (if set_vol > 1100 then u8_of_int (50 + (set_vol - 1100) div 20)
            else u8_of_int ((set_vol - 600) div 10))) (-1))),
      c_when (onoff < 0) (c_return 0),
      pm_rd ops AXP81X_ADDR BOOT_POWER81X_OUTPUT_CTL1 (-1) (\<lambda>reg_value.
      pm_wr ops AXP81X_ADDR BOOT_POWER81X_OUTPUT_CTL1
        (if onoff = 0 then reg_value AND NOT (push_bit 5 1) else reg_value OR push_bit 5 1) (-1))])
     0"

definition axp81X_set_aldo1 :: "'d axp_pm_bus_ops \<Rightarrow> int \<Rightarrow> int \<Rightarrow> 'd \<Rightarrow> efi_status \<times> 'd" where
  "axp81X_set_aldo1 ops set_vol onoff = c_fun (c_block
     [c_when (set_vol > 0)
        (let set_vol = c_clamp 700 3300 set_vol in
         pm_rd ops AXP81X_ADDR BOOT_POWER81X_ALDO1OUT_VOL EFI_DEVICE_ERROR (\<lambda>reg_value.
         pm_wr ops AXP81X_ADDR BOOT_POWER81X_ALDO1OUT_VOL
           ((reg_value AND 0xE0) OR
            u8_of_int ((set_vol - 700) div 100)) EFI_DEVICE_ERROR)),
      c_when (onoff < 0) (c_return EFI_SUCCESS),
      pm_rd ops AXP81X_ADDR BOOT_POWER81X_ALDO_CTL EFI_DEVICE_ERROR (\<lambda>reg_value.
      pm_wr ops AXP81X_ADDR BOOT_POWER81X_ALDO_CTL
        (if onoff = 0 then reg_value AND NOT (push_bit 5 1) else reg_value OR push_bit 5 1) EFI_DEVICE_ERROR)])
     EFI_SUCCESS"

definition axp81X_set_aldo2 :: "'d axp_pm_bus_ops \<Rightarrow> int \<Rightarrow> int \<Rightarrow> 'd \<Rightarrow> efi_status \<times> 'd" where
  "axp81X_set_aldo2 ops set_vol onoff = c_fun (c_block
     [c_when (set_vol > 0)
        (let set_vol = c_clamp 700 3300 set_vol in
         pm_rd ops AXP81X_ADDR BOOT_POWER81X_ALDO2OUT_VOL EFI_DEVICE_ERROR (\<lambda>reg_value.
         pm_wr ops AXP81X_ADDR BOOT_POWER81X_ALDO2OUT_VOL
           ((reg_value AND 0xE0) OR
            u8_of_int ((set_vol - 700) div 100)) EFI_DEVICE_ERROR)),
      c_when (onoff < 0) (c_return EFI_SUCCESS),
      pm_rd ops AXP81X_ADDR BOOT_POWER81X_ALDO_CTL EFI_DEVICE_ERROR (\<lambda>reg_value.
      pm_wr ops AXP81X_ADDR BOOT_POWER81X_ALDO_CTL
        (if onoff = 0 then reg_value AND NOT (push_bit 6 1) else reg_value OR push_bit 6 1) EFI_DEVICE_ERROR)])
     EFI_SUCCESS"

definition axp81X_set_aldo3 :: "'d axp_pm_bus_ops \<Rightarrow> int \<Rightarrow> int \<Rightarrow> 'd \<Rightarrow> efi_status \<times> 'd" where
  "axp81X_set_aldo3 ops set_vol onoff = c_fun (c_block
     [c_when (set_vol > 0)
        (let set_vol = c_clamp 700 3300 set_vol in
         pm_rd ops AXP81X_ADDR BOOT_POWER81X_ALDO3OUT_VOL EFI_DEVICE_ERROR (\<lambda>reg_value.
         pm_wr ops AXP81X_ADDR BOOT_POWER81X_ALDO3OUT_VOL
           ((reg_value AND 0xE0) OR
            u8_of_int ((set_vol - 700) div 100)) EFI_DEVICE_ERROR)),
      c_when (onoff < 0) (c_return EFI_SUCCESS),
      pm_rd ops AXP81X_ADDR BOOT_POWER81X_ALDO_CTL (-1) (\<lambda>reg_value.
      pm_wr ops AXP81X_ADDR BOOT_POWER81X_ALDO_CTL
        (if onoff = 0 then reg_value AND NOT (push_bit 7 1) else reg_value OR push_bit 7 1) (-1))])
     0"

definition axp81X_set_dldo1 :: "'d axp_pm_bus_ops \<Rightarrow> int \<Rightarrow> int \<Rightarrow> 'd \<Rightarrow> int \<times> 'd" where
  "axp81X_set_dldo1 ops set_vol onoff = c_fun (c_block
     [c_when (set_vol > 0)
        (let set_vol = c_clamp 700 3300 set_vol in
         pm_rd ops AXP81X_ADDR BOOT_POWER81X_DLDO1_VOL (-1) (\<lambda>reg_value.
         pm_wr ops AXP81X_ADDR BOOT_POWER81X_DLDO1_VOL
           ((reg_value AND 0xE0) OR
            u8_of_int ((set_vol - 700) div 100)) (-1))),
      c_when (onoff < 0) (c_return 0),
      pm_rd ops AXP81X_ADDR BOOT_POWER81X_OUTPUT_CTL2 (-1) (\<lambda>reg_value.
      pm_wr ops AXP81X_ADDR BOOT_POWER81X_OUTPUT_CTL2
        (if onoff = 0 then reg_value AND NOT (push_bit 3 1) else reg_value OR push_bit 3 1) (-1))])
     0"

definition axp81X_set_dldo2 :: "'d axp_pm_bus_ops \<Rightarrow> int \<Rightarrow> int \<Rightarrow> 'd \<Rightarrow> int \<times> 'd" where
  "axp81X_set_dldo2 ops set_vol onoff = c_fun (c_block
     [c_when (set_vol > 0)
        (let set_vol = c_clamp 700 4200 set_vol in
         pm_rd ops AXP81X_ADDR BOOT_POWER81X_DLDO2_VOL (-1) (\<lambda>reg_value.
         pm_wr ops AXP81X_ADDR BOOT_POWER81X_DLDO2_VOL
           ((reg_value AND 0xE0) OR
            (if set_vol > 3400 then u8_of_int (27 + (set_vol - 3400) div 200)
            else u8_of_int ((set_vol - 700) div 100))) (-1))),
      c_when (onoff < 0) (c_return 0),
      pm_rd ops AXP81X_ADDR BOOT_POWER81X_OUTPUT_CTL2 (-1) (\<lambda>reg_value.
      pm_wr ops AXP81X_ADDR BOOT_POWER81X_OUTPUT_CTL2
        (if onoff = 0 then reg_value AND NOT (push_bit 4 1) else reg_value OR push_bit 4 1) (-1))])
     0"

definition axp81X_set_dldo3 :: "'d axp_pm_bus_ops \<Rightarrow> int \<Rightarrow> int \<Rightarrow> 'd \<Rightarrow> efi_status \<times> 'd" where
  "axp81X_set_dldo3 ops set_vol onoff = c_fun (c_block
     [c_when (set_vol > 0)
        (let set_vol = c_clamp 700 3300 set_vol in
         pm_rd ops AXP81X_ADDR BOOT_POWER81X_DLDO3_VOL (-1) (\<lambda>reg_value.
         pm_wr ops AXP81X_ADDR BOOT_POWER81X_DLDO3_VOL
           ((reg_value AND 0xE0) OR
            u8_of_int ((set_vol - 700) div 100)) (-1))),
      c_when (onoff < 0) (c_return 0),
      pm_rd ops AXP81X_ADDR BOOT_POWER81X_OUTPUT_CTL2 (-1) (\<lambda>reg_value.
      pm_wr ops AXP81X_ADDR BOOT_POWER81X_OUTPUT_CTL2
        (if onoff = 0 then reg_value AND NOT (push_bit 5 1) else reg_value OR push_bit 5 1) EFI_DEVICE_ERROR)])
     EFI_SUCCESS"

definition axp81X_set_dldo4 :: "'d axp_pm_bus_ops \<Rightarrow> int \<Rightarrow> int \<Rightarrow> 'd \<Rightarrow> int \<times> 'd" where
  "axp81X_set_dldo4 ops set_vol onoff = c_fun (c_block
     [c_when (set_vol > 0)
        (let set_vol = c_clamp 700 3300 set_vol in
         pm_rd ops AXP81X_ADDR BOOT_POWER81X_DLDO4_VOL (-1) (\<lambda>reg_value.
         pm_wr ops AXP81X_ADDR BOOT_POWER81X_DLDO4_VOL
           ((reg_value AND 0xE0) OR
            u8_of_int ((set_vol - 700) div 100)) (-1))),
      c_when (onoff < 0) (c_return 0),
      pm_rd ops AXP81X_ADDR BOOT_POWER81X_OUTPUT_CTL2 (-1) (\<lambda>reg_value.
      pm_wr ops AXP81X_ADDR BOOT_POWER81X_OUTPUT_CTL2
        (if onoff = 0 then reg_value AND NOT (push_bit 6 1) else reg_value OR push_bit 6 1) (-1))])
     0"

definition axp81X_set_eldo1 :: "'d axp_pm_bus_ops \<Rightarrow> int \<Rightarrow> int \<Rightarrow> 'd \<Rightarrow> int \<times> 'd" where
  "axp81X_set_eldo1 ops set_vol onoff = c_fun (c_block
     [c_when (set_vol > 0)
        (let set_vol = c_clamp 700 1900 set_vol in
         pm_rd ops AXP81X_ADDR BOOT_POWER81X_ELDO1_VOL (-1) (\<lambda>reg_value.
         pm_wr ops AXP81X_ADDR BOOT_POWER81X_ELDO1_VOL
           ((reg_value AND 0xE0) OR
            u8_of_int ((set_vol - 700) div 50)) (-1))),
      c_when (onoff < 0) (c_return 0),
      pm_rd ops AXP81X_ADDR BOOT_POWER81X_OUTPUT_CTL2 (-1) (\<lambda>reg_value.
      pm_wr ops AXP81X_ADDR BOOT_POWER81X_OUTPUT_CTL2
        (if onoff = 0 then reg_value AND NOT (push_bit 0 1) else reg_value OR push_bit 0 1) (-1))])
     0"

definition axp81X_set_eldo2 :: "'d axp_pm_bus_ops \<Rightarrow> int \<Rightarrow> int \<Rightarrow> 'd \<Rightarrow> int \<times> 'd" where
  "axp81X_set_eldo2 ops set_vol onoff = c_fun (c_block
     [c_when (set_vol > 0)
        (let set_vol = c_clamp 700 1900 set_vol in
         pm_rd ops AXP81X_ADDR BOOT_POWER81X_ELDO2_VOL (-1) (\<lambda>reg_value.
         pm_wr ops AXP81X_ADDR BOOT_POWER81X_ELDO2_VOL
           ((reg_value AND 0xE0) OR
            u8_of_int ((set_vol - 700) div 50)) (-1))),
      c_when (onoff < 0) (c_return 0),
      pm_rd ops AXP81X_ADDR BOOT_POWER81X_OUTPUT_CTL2 (-1) (\<lambda>reg_value.
      pm_wr ops AXP81X_ADDR BOOT_POWER81X_OUTPUT_CTL2
        (if onoff = 0 then reg_value AND NOT (push_bit 1 1) else reg_value OR push_bit 1 1) (-1))])
     0"

definition axp81X_set_eldo3 :: "'d axp_pm_bus_ops \<Rightarrow> int \<Rightarrow> int \<Rightarrow> 'd \<Rightarrow> int \<times> 'd" where
  "axp81X_set_eldo3 ops set_vol onoff = c_fun (c_block
     [c_when (set_vol > 0)
        (let set_vol = c_clamp 700 1900 set_vol in
         pm_rd ops AXP81X_ADDR BOOT_POWER81X_ELDO3_VOL (-1) (\<lambda>reg_value.
         pm_wr ops AXP81X_ADDR BOOT_POWER81X_ELDO3_VOL
           ((reg_value AND 0xE0) OR
            u8_of_int ((set_vol - 700) div 50)) (-1))),
      c_when (onoff < 0) (c_return 0),
      pm_rd ops AXP81X_ADDR BOOT_POWER81X_OUTPUT_CTL2 (-1) (\<lambda>reg_value.
      pm_wr ops AXP81X_ADDR BOOT_POWER81X_OUTPUT_CTL2
        (if onoff = 0 then reg_value AND NOT (push_bit 2 1) else reg_value OR push_bit 2 1) (-1))])
     0"

definition axp81X_set_fldo1 :: "'d axp_pm_bus_ops \<Rightarrow> int \<Rightarrow> int \<Rightarrow> 'd \<Rightarrow> int \<times> 'd" where
  "axp81X_set_fldo1 ops set_vol onoff = c_fun (c_block
     [c_when (set_vol > 0)
        (let set_vol = c_clamp 700 1450 set_vol in
         pm_rd ops AXP81X_ADDR BOOT_POWER81X_FLDO1_VOL (-1) (\<lambda>reg_value.
         pm_wr ops AXP81X_ADDR BOOT_POWER81X_FLDO1_VOL
           ((reg_value AND 0xF0) OR
            u8_of_int ((set_vol - 700) div 50)) (-1))),
      c_when (onoff < 0) (c_return 0),
      pm_rd ops AXP81X_ADDR BOOT_POWER81X_ALDO_CTL (-1) (\<lambda>reg_value.
      pm_wr ops AXP81X_ADDR BOOT_POWER81X_ALDO_CTL
        (if onoff = 0 then reg_value AND NOT (push_bit 2 1) else reg_value OR push_bit 2 1) (-1))])
     0"

definition axp81X_set_fldo2 :: "'d axp_pm_bus_ops \<Rightarrow> int \<Rightarrow> int \<Rightarrow> 'd \<Rightarrow> efi_status \<times> 'd" where
  "axp81X_set_fldo2 ops set_vol onoff = c_fun (c_block
     [c_when (set_vol > 0)
        (let set_vol = c_clamp 700 1450 set_vol in
         pm_rd ops AXP81X_ADDR BOOT_POWER81X_FLDO2_VOL (-1) (\<lambda>reg_value.
         pm_wr ops AXP81X_ADDR BOOT_POWER81X_FLDO2_VOL
           ((reg_value AND 0xF0) OR
            u8_of_int ((set_vol - 700) div 50)) (-1))),
      c_when (onoff < 0) (c_return 0),
      pm_rd ops AXP81X_ADDR BOOT_POWER81X_ALDO_CTL (-1) (\<lambda>reg_value.
      pm_wr ops AXP81X_ADDR BOOT_POWER81X_ALDO_CTL
        (if onoff = 0 then reg_value AND NOT (push_bit 3 1) else reg_value OR push_bit 3 1) EFI_DEVICE_ERROR)])
     EFI_SUCCESS"

definition axp81X_set_gpio0ldo :: "'d axp_pm_bus_ops \<Rightarrow> int \<Rightarrow> int \<Rightarrow> 'd \<Rightarrow> int \<times> 'd" where
  "axp81X_set_gpio0ldo ops set_vol onoff = c_fun (c_block
     [c_when (set_vol > 0)
        (let set_vol = c_clamp 700 3300 set_vol in
         pm_rd ops AXP81X_ADDR BOOT_POWER81X_GPIO0_VOL (-1) (\<lambda>reg_value.
         pm_wr ops AXP81X_ADDR BOOT_POWER81X_GPIO0_VOL
           ((reg_value AND 0xE0) OR
            u8_of_int ((set_vol - 700) div 100)) (-1))),
      c_when (onoff < 0) (c_return 0),
      pm_rd ops AXP81X_ADDR BOOT_POWER81X_GPIO0_CTL (-1) (\<lambda>reg_value.
      pm_wr ops AXP81X_ADDR BOOT_POWER81X_GPIO0_CTL
        (if onoff = 0 then (reg_value AND NOT (push_bit 0 7)) OR push_bit 0 4
         else (reg_value AND NOT (push_bit 0 7)) OR push_bit 0 3) (-1))])
     0"

definition axp81X_set_gpio1ldo :: "'d axp_pm_bus_ops \<Rightarrow> int \<Rightarrow> int \<Rightarrow> 'd \<Rightarrow> int \<times> 'd" where
  "axp81X_set_gpio1ldo ops set_vol onoff = c_fun (c_block
     [c_when (set_vol > 0)
        (let set_vol = c_clamp 700 3300 set_vol in
         pm_rd ops AXP81X_ADDR BOOT_POWER81X_GPIO1_VOL (-1) (\<lambda>reg_value.
         pm_wr ops AXP81X_ADDR BOOT_POWER81X_GPIO1_VOL
           ((reg_value AND 0xE0) OR
            u8_of_int ((set_vol - 700) div 100)) (-1))),
      c_when (onoff < 0) (c_return 0),
      pm_rd ops AXP81X_ADDR BOOT_POWER81X_GPIO1_CTL (-1) (\<lambda>reg_value.
      pm_wr ops AXP81X_ADDR BOOT_POWER81X_GPIO1_CTL
        (if onoff = 0 then (reg_value AND NOT (push_bit 0 7)) OR push_bit 0 4
         else (reg_value AND NOT (push_bit 0 7)) OR push_bit 0 3) (-1))])
     0"

section \<open>Probing a rail\<close>

definition axp81X_probe_dcdc1 :: "'d axp_pm_bus_ops \<Rightarrow> 'd \<Rightarrow> efi_status \<times> 'd" where
  "axp81X_probe_dcdc1 ops = c_fun
     (pm_rd ops AXP81X_ADDR BOOT_POWER81X_OUTPUT_CTL1 EFI_DEVICE_ERROR (\<lambda>reg_value.
      if reg_value AND push_bit 0 0x01 = 0 then c_return 0
      else pm_rd ops AXP81X_ADDR BOOT_POWER81X_DC1OUT_VOL EFI_DEVICE_ERROR (\<lambda>reg_value.
        let reg_value = reg_value AND 0x1f in
        c_return (efi_of_int (1600 + 100 * uint reg_value)))))
     EFI_DEVICE_ERROR"

definition axp81X_probe_dcdc2 :: "'d axp_pm_bus_ops \<Rightarrow> 'd \<Rightarrow> int \<times> 'd" where
  "axp81X_probe_dcdc2 ops = c_fun
     (pm_rd ops AXP81X_ADDR BOOT_POWER81X_OUTPUT_CTL1 (-1) (\<lambda>reg_value.
      if reg_value AND push_bit 1 0x01 = 0 then c_return 0
      else pm_rd ops AXP81X_ADDR BOOT_POWER81X_DC2OUT_VOL (-1) (\<lambda>reg_value.
        let reg_value = reg_value AND 0x7f in
        c_return (if reg_value > 70 then 1200 + 20 * (uint reg_value - 70) else 500 + 10 * uint reg_value))))
     (-1)"

definition axp81X_probe_dcdc3 :: "'d axp_pm_bus_ops \<Rightarrow> 'd \<Rightarrow> int \<times> 'd" where
  "axp81X_probe_dcdc3 ops = c_fun
     (pm_rd ops AXP81X_ADDR BOOT_POWER81X_OUTPUT_CTL1 (-1) (\<lambda>reg_value.
      if reg_value AND push_bit 2 0x01 = 0 then c_return 0
      else pm_rd ops AXP81X_ADDR BOOT_POWER81X_DC3OUT_VOL (-1) (\<lambda>reg_value.
        let reg_value = reg_value AND 0x7f in
        c_return (if reg_value > 70 then 1200 + 20 * (uint reg_value - 70) else 500 + 10 * uint reg_value))))
     (-1)"

definition axp81X_probe_dcdc4 :: "'d axp_pm_bus_ops \<Rightarrow> 'd \<Rightarrow> int \<times> 'd" where
  "axp81X_probe_dcdc4 ops = c_fun
     (pm_rd ops AXP81X_ADDR BOOT_POWER81X_OUTPUT_CTL1 (-1) (\<lambda>reg_value.
      if reg_value AND push_bit 3 0x01 = 0 then c_return 0
      else pm_rd ops AXP81X_ADDR BOOT_POWER81X_DC4OUT_VOL (-1) (\<lambda>reg_value.
        let reg_value = reg_value AND 0x7f in
        c_return (if reg_value > 70 then 1200 + 20 * (uint reg_value - 70) else 500 + 10 * uint reg_value))))
     (-1)"

definition axp81X_probe_dcdc5 :: "'d axp_pm_bus_ops \<Rightarrow> 'd \<Rightarrow> int \<times> 'd" where
  "axp81X_probe_dcdc5 ops = c_fun
     (pm_rd ops AXP81X_ADDR BOOT_POWER81X_OUTPUT_CTL1 (-1) (\<lambda>reg_value.
      if reg_value AND push_bit 4 0x01 = 0 then c_return 0
      else pm_rd ops AXP81X_ADDR BOOT_POWER81X_DC5OUT_VOL (-1) (\<lambda>reg_value.
        let reg_value = reg_value AND 0x7f in
        c_return (if reg_value > 32 then 1120 + 20 * (uint reg_value - 32) else 800 + 10 * uint reg_value))))
     (-1)"

definition axp81X_probe_dcdc6 :: "'d axp_pm_bus_ops \<Rightarrow> 'd \<Rightarrow> int \<times> 'd" where
  "axp81X_probe_dcdc6 ops = c_fun
     (pm_rd ops AXP81X_ADDR BOOT_POWER81X_OUTPUT_CTL1 (-1) (\<lambda>reg_value.
      if reg_value AND push_bit 0 0x05 = 0 then c_return 0
      else pm_rd ops AXP81X_ADDR BOOT_POWER81X_DC6OUT_VOL (-1) (\<lambda>reg_value.
        let reg_value = reg_value AND 0x7f in
        c_return (if reg_value > 50 then 1100 + 20 * (uint reg_value - 50) else 600 + 10 * uint reg_value))))
     (-1)"

definition axp81X_probe_aldo1 :: "'d axp_pm_bus_ops \<Rightarrow> 'd \<Rightarrow> int \<times> 'd" where
  "axp81X_probe_aldo1 ops = c_fun
     (pm_rd ops AXP81X_ADDR BOOT_POWER81X_ALDO_CTL (-1) (\<lambda>reg_value.
      if reg_value AND push_bit 5 0x01 = 0 then c_return 0
      else pm_rd ops AXP81X_ADDR BOOT_POWER81X_ALDO1OUT_VOL (-1) (\<lambda>reg_value.
        let reg_value = reg_value AND 0x1f in
        c_return (700 + 100 * uint reg_value))))
     (-1)"

definition axp81X_probe_aldo2 :: "'d axp_pm_bus_ops \<Rightarrow> 'd \<Rightarrow> int \<times> 'd" where
  "axp81X_probe_aldo2 ops = c_fun
     (pm_rd ops AXP81X_ADDR BOOT_POWER81X_ALDO_CTL (-1) (\<lambda>reg_value.
      if reg_value AND push_bit 6 0x01 = 0 then c_return 0
      else pm_rd ops AXP81X_ADDR BOOT_POWER81X_ALDO2OUT_VOL (-1) (\<lambda>reg_value.
        let reg_value = reg_value AND 0x1f in
        c_return (700 + 100 * uint reg_value))))
     (-1)"

definition axp81X_probe_aldo3 :: "'d axp_pm_bus_ops \<Rightarrow> 'd \<Rightarrow> int \<times> 'd" where
  "axp81X_probe_aldo3 ops = c_fun
     (pm_rd ops AXP81X_ADDR BOOT_POWER81X_ALDO_CTL (-1) (\<lambda>reg_value.
      if reg_value AND push_bit 7 0x01 = 0 then c_return 0
      else pm_rd ops AXP81X_ADDR BOOT_POWER81X_ALDO3OUT_VOL (-1) (\<lambda>reg_value.
        let reg_value = reg_value AND 0x1f in
        c_return (700 + 100 * uint reg_value))))
     (-1)"

definition axp81X_probe_dldo1 :: "'d axp_pm_bus_ops \<Rightarrow> 'd \<Rightarrow> int \<times> 'd" where
  "axp81X_probe_dldo1 ops = c_fun
     (pm_rd ops AXP81X_ADDR BOOT_POWER81X_OUTPUT_CTL2 (-1) (\<lambda>reg_value.
      if reg_value AND push_bit 3 0x01 = 0 then c_return 0
      else pm_rd ops AXP81X_ADDR BOOT_POWER81X_DLDO1_VOL (-1) (\<lambda>reg_value.
        let reg_value = reg_value AND 0x1f in
        c_return (700 + 100 * uint reg_value))))
     (-1)"

definition axp81X_probe_dldo2 :: "'d axp_pm_bus_ops \<Rightarrow> 'd \<Rightarrow> int \<times> 'd" where
  "axp81X_probe_dldo2 ops = c_fun
     (pm_rd ops AXP81X_ADDR BOOT_POWER81X_OUTPUT_CTL2 (-1) (\<lambda>reg_value.
      if reg_value AND push_bit 4 0x01 = 0 then c_return 0
      else pm_rd ops AXP81X_ADDR BOOT_POWER81X_DLDO2_VOL (-1) (\<lambda>reg_value.
        let reg_value = reg_value AND 0x1f in
        c_return (if reg_value > 27 then 3400 + (uint reg_value - 27) * 200 else 700 + 100 * uint reg_value))))
     (-1)"

definition axp81X_probe_dldo3 :: "'d axp_pm_bus_ops \<Rightarrow> 'd \<Rightarrow> int \<times> 'd" where
  "axp81X_probe_dldo3 ops = c_fun
     (pm_rd ops AXP81X_ADDR BOOT_POWER81X_OUTPUT_CTL2 (-1) (\<lambda>reg_value.
      if reg_value AND push_bit 5 0x01 = 0 then c_return 0
      else pm_rd ops AXP81X_ADDR BOOT_POWER81X_DLDO3_VOL (-1) (\<lambda>reg_value.
        let reg_value = reg_value AND 0x1f in
        c_return (700 + 100 * uint reg_value))))
     (-1)"

definition axp81X_probe_dldo4 :: "'d axp_pm_bus_ops \<Rightarrow> 'd \<Rightarrow> int \<times> 'd" where
  "axp81X_probe_dldo4 ops = c_fun
     (pm_rd ops AXP81X_ADDR BOOT_POWER81X_OUTPUT_CTL2 (-1) (\<lambda>reg_value.
      if reg_value AND push_bit 6 0x01 = 0 then c_return 0
      else pm_rd ops AXP81X_ADDR BOOT_POWER81X_DLDO4_VOL (-1) (\<lambda>reg_value.
        let reg_value = reg_value AND 0x1f in
        c_return (700 + 100 * uint reg_value))))
     (-1)"

definition axp81X_probe_eldo1 :: "'d axp_pm_bus_ops \<Rightarrow> 'd \<Rightarrow> int \<times> 'd" where
  "axp81X_probe_eldo1 ops = c_fun
     (pm_rd ops AXP81X_ADDR BOOT_POWER81X_OUTPUT_CTL2 (-1) (\<lambda>reg_value.
      if reg_value AND push_bit 0 0x01 = 0 then c_return 0
      else pm_rd ops AXP81X_ADDR BOOT_POWER81X_ELDO1_VOL (-1) (\<lambda>reg_value.
        let reg_value = reg_value AND 0x1f in
        c_return (700 + 50 * uint reg_value))))
     (-1)"

definition axp81X_probe_eldo2 :: "'d axp_pm_bus_ops \<Rightarrow> 'd \<Rightarrow> int \<times> 'd" where
  "axp81X_probe_eldo2 ops = c_fun
     (pm_rd ops AXP81X_ADDR BOOT_POWER81X_OUTPUT_CTL2 (-1) (\<lambda>reg_value.
      if reg_value AND push_bit 1 0x01 = 0 then c_return 0
      else pm_rd ops AXP81X_ADDR BOOT_POWER81X_ELDO2_VOL (-1) (\<lambda>reg_value.
        let reg_value = reg_value AND 0x1f in
        c_return (700 + 50 * uint reg_value))))
     (-1)"

definition axp81X_probe_eldo3 :: "'d axp_pm_bus_ops \<Rightarrow> 'd \<Rightarrow> int \<times> 'd" where
  "axp81X_probe_eldo3 ops = c_fun
     (pm_rd ops AXP81X_ADDR BOOT_POWER81X_OUTPUT_CTL2 (-1) (\<lambda>reg_value.
      if reg_value AND push_bit 2 0x01 = 0 then c_return 0
      else pm_rd ops AXP81X_ADDR BOOT_POWER81X_ELDO3_VOL (-1) (\<lambda>reg_value.
        let reg_value = reg_value AND 0x1f in
        c_return (700 + 50 * uint reg_value))))
     (-1)"

definition axp81X_probe_fldo1 :: "'d axp_pm_bus_ops \<Rightarrow> 'd \<Rightarrow> int \<times> 'd" where
  "axp81X_probe_fldo1 ops = c_fun
     (pm_rd ops AXP81X_ADDR BOOT_POWER81X_ALDO_CTL (-1) (\<lambda>reg_value.
      if reg_value AND push_bit 2 0x01 = 0 then c_return 0
      else pm_rd ops AXP81X_ADDR BOOT_POWER81X_FLDO1_VOL (-1) (\<lambda>reg_value.
        let reg_value = reg_value AND 0x0f in
        c_return (700 + 50 * uint reg_value))))
     (-1)"

definition axp81X_probe_fldo2 :: "'d axp_pm_bus_ops \<Rightarrow> 'd \<Rightarrow> int \<times> 'd" where
  "axp81X_probe_fldo2 ops = c_fun
     (pm_rd ops AXP81X_ADDR BOOT_POWER81X_ALDO_CTL (-1) (\<lambda>reg_value.
      if reg_value AND push_bit 3 0x01 = 0 then c_return 0
      else pm_rd ops AXP81X_ADDR BOOT_POWER81X_FLDO2_VOL (-1) (\<lambda>reg_value.
        let reg_value = reg_value AND 0x0f in
        c_return (700 + 50 * uint reg_value))))
     (-1)"

section \<open>GPIO rails and pins, USB supply switch\<close>

definition axp81X_probe_gpio0ldo :: "'d axp_pm_bus_ops \<Rightarrow> 'd \<Rightarrow> int \<times> 'd" where
  "axp81X_probe_gpio0ldo ops = c_fun
     (pm_rd ops AXP81X_ADDR BOOT_POWER81X_GPIO0_VOL (-1) (\<lambda>reg_value.
        let reg_value = reg_value AND 0x1f in
        c_return (700 + 100 * uint reg_value)))
     (-1)"

definition axp81X_probe_gpio1ldo :: "'d axp_pm_bus_ops \<Rightarrow> 'd \<Rightarrow> int \<times> 'd" where
  "axp81X_probe_gpio1ldo ops = c_fun
     (pm_rd ops AXP81X_ADDR BOOT_POWER81X_GPIO1_VOL (-1) (\<lambda>reg_value.
        let reg_value = reg_value AND 0x1f in
        c_return (700 + 100 * uint reg_value)))
     (-1)"

definition axp81X_set_gpio0 :: "'d axp_pm_bus_ops \<Rightarrow> int \<Rightarrow> 'd \<Rightarrow> int \<times> 'd" where
  "axp81X_set_gpio0 ops level = c_fun (c_block
     [c_when (level < 0 \<or> level > 1) (c_return 0),
      pm_rd ops AXP81X_ADDR BOOT_POWER81X_GPIO0_CTL (-1) (\<lambda>reg_value.
      pm_wr ops AXP81X_ADDR BOOT_POWER81X_GPIO0_CTL
        (if level = 0 then reg_value AND NOT (push_bit 0 7)
         else (reg_value AND NOT (push_bit 0 7)) OR push_bit 0 1) (-1))])
     0"

definition axp81X_set_gpio1 :: "'d axp_pm_bus_ops \<Rightarrow> int \<Rightarrow> 'd \<Rightarrow> int \<times> 'd" where
  "axp81X_set_gpio1 ops level = c_fun (c_block
     [c_when (level < 0 \<or> level > 1) (c_return 0),
      pm_rd ops AXP81X_ADDR BOOT_POWER81X_GPIO1_CTL (-1) (\<lambda>reg_value.
      pm_wr ops AXP81X_ADDR BOOT_POWER81X_GPIO1_CTL
        (if level = 0 then reg_value AND NOT (push_bit 0 7)
         else (reg_value AND NOT (push_bit 0 7)) OR push_bit 0 1) (-1))])
     0"

definition axp81X_set_vbusen :: "'d axp_pm_bus_ops \<Rightarrow> int \<Rightarrow> 'd \<Rightarrow> int \<times> 'd" where
  "axp81X_set_vbusen ops level = c_fun (c_block
     [c_when (level < 0 \<or> level > 1) (c_return 0),
      pm_rd ops AXP81X_ADDR BOOT_POWER81X_VBUS_SET (-1) (\<lambda>reg_value.
      pm_wr ops AXP81X_ADDR BOOT_POWER81X_VBUS_SET
        (if level = 0 then reg_value AND NOT (push_bit 2 1) else reg_value OR push_bit 2 1) (-1))])
     0"

definition axp81X_probe_gpio0 :: "'d axp_pm_bus_ops \<Rightarrow> 'd \<Rightarrow> int \<times> 'd" where
  "axp81X_probe_gpio0 ops = c_fun
     (pm_rd ops AXP81X_ADDR BOOT_POWER81X_GPIO0_CTL (-1) (\<lambda>reg_value.
        let reg_value = reg_value AND 0x07 in
        if reg_value = 0 \<or> reg_value = 1 then c_return (uint reg_value) else c_return (-1)))
     (-1)"

definition axp81X_probe_gpio1 :: "'d axp_pm_bus_ops \<Rightarrow> 'd \<Rightarrow> int \<times> 'd" where
  "axp81X_probe_gpio1 ops = c_fun
     (pm_rd ops AXP81X_ADDR BOOT_POWER81X_GPIO1_CTL (-1) (\<lambda>reg_value.
        let reg_value = reg_value AND 0x07 in
        if reg_value = 0 \<or> reg_value = 1 then c_return (uint reg_value) else c_return (-1)))
     (-1)"

section \<open>Dispatch on the supply index\<close>

definition axp81X_set_dcdc_output ::
  "'d axp_pm_bus_ops \<Rightarrow> int \<Rightarrow> int \<Rightarrow> int \<Rightarrow> 'd \<Rightarrow> efi_status \<times> 'd" where
  "axp81X_set_dcdc_output ops sppply_index vol_value onoff d =
     (if sppply_index = 1 then axp81X_set_dcdc1 ops vol_value onoff d
      else if sppply_index = 2 then axp81X_set_dcdc2 ops vol_value onoff d
      else if sppply_index = 3 then axp81X_set_dcdc3 ops vol_value onoff d
      else if sppply_index = 4 then axp81X_set_dcdc4 ops vol_value onoff d
      else if sppply_index = 5 then axp81X_set_dcdc5 ops vol_value onoff d
      else if sppply_index = 6 then apfst efi_of_int (axp81X_set_dcdc6 ops vol_value onoff d)
      else (EFI_UNSUPPORTED, d))"

definition axp81X_set_aldo_output ::
  "'d axp_pm_bus_ops \<Rightarrow> int \<Rightarrow> int \<Rightarrow> int \<Rightarrow> 'd \<Rightarrow> efi_status \<times> 'd" where
  "axp81X_set_aldo_output ops sppply_index vol_value onoff d =
     (if sppply_index = 1 then axp81X_set_aldo1 ops vol_value onoff d
      else if sppply_index = 2 then axp81X_set_aldo2 ops vol_value onoff d
      else if sppply_index = 3 then axp81X_set_aldo3 ops vol_value onoff d
      else (EFI_UNSUPPORTED, d))"

definition axp81X_set_dldo_output ::
  "'d axp_pm_bus_ops \<Rightarrow> int \<Rightarrow> int \<Rightarrow> int \<Rightarrow> 'd \<Rightarrow> efi_status \<times> 'd" where
  "axp81X_set_dldo_output ops sppply_index vol_value onoff d =
     (if sppply_index = 1 then apfst efi_of_int (axp81X_set_dldo1 ops vol_value onoff d)
      else if sppply_index = 2 then apfst efi_of_int (axp81X_set_dldo2 ops vol_value onoff d)
      else if sppply_index = 3 then axp81X_set_dldo3 ops vol_value onoff d
      else if sppply_index = 4 then apfst efi_of_int (axp81X_set_dldo4 ops vol_value onoff d)
      else (EFI_UNSUPPORTED, d))"

definition axp81X_set_eldo_output ::
  "'d axp_pm_bus_ops \<Rightarrow> int \<Rightarrow> int \<Rightarrow> int \<Rightarrow> 'd \<Rightarrow> efi_status \<times> 'd" where
  "axp81X_set_eldo_output ops sppply_index vol_value onoff d =
     (if sppply_index = 1 then apfst efi_of_int (axp81X_set_eldo1 ops vol_value onoff d)
      else if sppply_index = 2 then apfst efi_of_int (axp81X_set_eldo2 ops vol_value onoff d)
      else if sppply_index = 3 then apfst efi_of_int (axp81X_set_eldo3 ops vol_value onoff d)
      else (EFI_UNSUPPORTED, d))"

definition axp81X_set_fldo_output ::
  "'d axp_pm_bus_ops \<Rightarrow> int \<Rightarrow> int \<Rightarrow> int \<Rightarrow> 'd \<Rightarrow> int \<times> 'd" where
  "axp81X_set_fldo_output ops sppply_index vol_value onoff d =
     (if sppply_index = 1 then axp81X_set_fldo1 ops vol_value onoff d
      else if sppply_index = 2 then apfst to_int32 (axp81X_set_fldo2 ops vol_value onoff d)
      else (-1, d))"

definition axp81X_set_gpioldo_output ::
  "'d axp_pm_bus_ops \<Rightarrow> int \<Rightarrow> int \<Rightarrow> int \<Rightarrow> 'd \<Rightarrow> int \<times> 'd" where
  "axp81X_set_gpioldo_output ops sppply_index vol_value onoff d =
     (if sppply_index = 0 then axp81X_set_gpio0ldo ops vol_value onoff d
      else if sppply_index = 1 then axp81X_set_gpio1ldo ops vol_value onoff d
      else (-1, d))"

definition axp81X_set_gpio_output ::
  "'d axp_pm_bus_ops \<Rightarrow> int \<Rightarrow> int \<Rightarrow> 'd \<Rightarrow> int \<times> 'd" where
  "axp81X_set_gpio_output ops sppply_index level d =
     (if sppply_index = 0 then axp81X_set_gpio0 ops level d
      else if sppply_index = 1 then axp81X_set_gpio1 ops level d
      else (-1, d))"

definition axp81X_set_misc_output ::
  "'d axp_pm_bus_ops \<Rightarrow> int \<Rightarrow> int \<Rightarrow> int \<Rightarrow> 'd \<Rightarrow> efi_status \<times> 'd" where
  "axp81X_set_misc_output ops sppply_index vol_value onoff d =
     (if sppply_index = PMU_SUPPLY_DC5LDO then axp81X_set_dc5ldo ops onoff d
      else if sppply_index = PMU_SUPPLY_DC1SW then axp81X_set_dc1sw ops onoff d
      else if sppply_index = PMU_SUPPLY_VBUSEN then apfst efi_of_int (axp81X_set_vbusen ops onoff d)
      else (EFI_UNSUPPORTED, d))"

section \<open>Dispatch by index and by name\<close>

text \<open>
  Strings are NUL-terminated \<open>CHAR8\<close> arrays, modelled as lists without the terminator.
  \<open>AsciiStrnCmp\<close> with a literal of that length tests for a prefix. The character at an index
  past the end is the terminator. \<open>AsciiStrDecimalToUintn\<close> is EDK2's and is the parameter
  \<open>s2u\<close>.
\<close>

definition str_prefix :: "string \<Rightarrow> string \<Rightarrow> bool" where
  "str_prefix name lit \<longleftrightarrow> take (length lit) name = lit"

definition char_at :: "string \<Rightarrow> nat \<Rightarrow> int" where
  "char_at name i = (if i < length name then of_char (name ! i) else 0)"

definition Axp81XSetSupplyStatus ::
  "'d axp_pm_bus_ops \<Rightarrow> u64 \<Rightarrow> u64 \<Rightarrow> u64 \<Rightarrow> 'd \<Rightarrow> efi_status \<times> 'd" where
  "Axp81XSetSupplyStatus ops VoltageIndex Voltage OnOff d =
     (let supply_type = to_int32 (VoltageIndex AND 0xffff0000);
          sppply_index = to_int32 (VoltageIndex AND 0x0000ffff);
          vol = to_int32 Voltage; onoff = to_int32 OnOff
      in if supply_type = PMU_SUPPLY_DCDC_TYPE then axp81X_set_dcdc_output ops sppply_index vol onoff d
         else if supply_type = PMU_SUPPLY_ALDO_TYPE then axp81X_set_aldo_output ops sppply_index vol onoff d
         else if supply_type = PMU_SUPPLY_ELDO_TYPE then axp81X_set_eldo_output ops sppply_index vol onoff d
         else if supply_type = PMU_SUPPLY_DLDO_TYPE then axp81X_set_dldo_output ops sppply_index vol onoff d
         else if supply_type = PMU_SUPPLY_GPIOLDO_TYPE then
           apfst efi_of_int (axp81X_set_gpioldo_output ops sppply_index vol onoff d)
         else if supply_type = PMU_SUPPLY_MISC_TYPE then
           axp81X_set_misc_output ops (to_int32 VoltageIndex) vol onoff d
         else if supply_type = PMU_SUPPLY_GPIO_TYPE then
           apfst efi_of_int (axp81X_set_gpio_output ops sppply_index onoff d)
         else (EFI_UNSUPPORTED, d))"

definition Axp81XSetSupplyStatusByName ::
  "(string \<Rightarrow> u64) \<Rightarrow> 'd axp_pm_bus_ops \<Rightarrow> string \<Rightarrow> u64 \<Rightarrow> u64 \<Rightarrow> 'd \<Rightarrow> efi_status \<times> 'd" where
  "Axp81XSetSupplyStatusByName s2u ops VoltageName Voltage OnOff d =
     (let sppply_index = to_int32 (s2u (drop 4 VoltageName));
          vol = to_int32 Voltage; onoff = to_int32 OnOff
      in if str_prefix VoltageName ''dcdc'' then axp81X_set_dcdc_output ops sppply_index vol onoff d
         else if str_prefix VoltageName ''aldo'' then axp81X_set_aldo_output ops sppply_index vol onoff d
         else if str_prefix VoltageName ''eldo'' then axp81X_set_eldo_output ops sppply_index vol onoff d
         else if str_prefix VoltageName ''fldo'' then
           apfst efi_of_int (axp81X_set_fldo_output ops sppply_index vol onoff d)
         else if str_prefix VoltageName ''dldo'' then axp81X_set_dldo_output ops sppply_index vol onoff d
         else if str_prefix VoltageName ''gpio'' then
           apfst efi_of_int (axp81X_set_gpioldo_output ops sppply_index vol onoff d)
         else if str_prefix VoltageName ''dc5ldo'' then axp81X_set_dc5ldo ops onoff d
         else if str_prefix VoltageName ''dc1sw'' then axp81X_set_dc1sw ops onoff d
         else if str_prefix VoltageName ''power'' then
           apfst efi_of_int (axp81X_set_gpio_output ops (to_int32 (s2u (drop 5 VoltageName))) onoff d)
         else (EFI_UNSUPPORTED, d))"

definition Axp81XProbeSupplyStatus ::
  "u64 \<Rightarrow> 'd \<Rightarrow> efi_status \<times> 'd" where
  "Axp81XProbeSupplyStatus VoltageIndex d = (EFI_UNSUPPORTED, d)"

section \<open>Probing a rail by name\<close>

definition axp81X_probe_dcdc_output ::
  "'d axp_pm_bus_ops \<Rightarrow> int \<Rightarrow> 'd \<Rightarrow> efi_status \<times> 'd" where
  "axp81X_probe_dcdc_output ops sppply_index d =
     (if sppply_index = 1 then axp81X_probe_dcdc1 ops d
      else if sppply_index = 2 then apfst efi_of_int (axp81X_probe_dcdc2 ops d)
      else if sppply_index = 3 then apfst efi_of_int (axp81X_probe_dcdc3 ops d)
      else if sppply_index = 4 then apfst efi_of_int (axp81X_probe_dcdc4 ops d)
      else if sppply_index = 5 then apfst efi_of_int (axp81X_probe_dcdc5 ops d)
      else if sppply_index = 6 then apfst efi_of_int (axp81X_probe_dcdc6 ops d)
      else (EFI_UNSUPPORTED, d))"

definition axp81X_probe_aldo_output ::
  "'d axp_pm_bus_ops \<Rightarrow> int \<Rightarrow> 'd \<Rightarrow> efi_status \<times> 'd" where
  "axp81X_probe_aldo_output ops sppply_index d =
     (if sppply_index = 1 then apfst efi_of_int (axp81X_probe_aldo1 ops d)
      else if sppply_index = 2 then apfst efi_of_int (axp81X_probe_aldo2 ops d)
      else if sppply_index = 3 then apfst efi_of_int (axp81X_probe_aldo3 ops d)
      else (EFI_UNSUPPORTED, d))"

definition axp81X_probe_dldo_output ::
  "'d axp_pm_bus_ops \<Rightarrow> int \<Rightarrow> 'd \<Rightarrow> int \<times> 'd" where
  "axp81X_probe_dldo_output ops sppply_index d =
     (if sppply_index = 1 then axp81X_probe_dldo1 ops d
      else if sppply_index = 2 then axp81X_probe_dldo2 ops d
      else if sppply_index = 3 then axp81X_probe_dldo3 ops d
      else if sppply_index = 4 then axp81X_probe_dldo4 ops d
      else (-1, d))"

definition axp81X_probe_eldo_output ::
  "'d axp_pm_bus_ops \<Rightarrow> int \<Rightarrow> 'd \<Rightarrow> int \<times> 'd" where
  "axp81X_probe_eldo_output ops sppply_index d =
     (if sppply_index = 1 then axp81X_probe_eldo1 ops d
      else if sppply_index = 2 then axp81X_probe_eldo2 ops d
      else if sppply_index = 3 then axp81X_probe_eldo3 ops d
      else (-1, d))"

definition axp81X_probe_fldo_output ::
  "'d axp_pm_bus_ops \<Rightarrow> int \<Rightarrow> 'd \<Rightarrow> int \<times> 'd" where
  "axp81X_probe_fldo_output ops sppply_index d =
     (if sppply_index = 1 then axp81X_probe_fldo1 ops d
      else if sppply_index = 2 then axp81X_probe_fldo2 ops d
      else (-1, d))"

definition axp81X_probe_gpioldo_output ::
  "'d axp_pm_bus_ops \<Rightarrow> int \<Rightarrow> 'd \<Rightarrow> int \<times> 'd" where
  "axp81X_probe_gpioldo_output ops sppply_index d =
     (if sppply_index = 0 then axp81X_probe_gpio0ldo ops d
      else if sppply_index = 1 then axp81X_probe_gpio1ldo ops d
      else (-1, d))"

definition axp81X_probe_gpio_output ::
  "'d axp_pm_bus_ops \<Rightarrow> int \<Rightarrow> 'd \<Rightarrow> int \<times> 'd" where
  "axp81X_probe_gpio_output ops sppply_index d =
     (if sppply_index = 0 then axp81X_probe_gpio0 ops d
      else if sppply_index = 1 then axp81X_probe_gpio1 ops d
      else (-1, d))"

text \<open>
  The result is the status, the value stored through \<open>Vol\<close> and the device. \<open>ret\<close> is an
  \<open>INT32\<close>: a 64-bit status assigned to it loses its upper half.
\<close>

definition Axp81XProbeSupplyStatusByName ::
  "(string \<Rightarrow> u64) \<Rightarrow> 'd axp_pm_bus_ops \<Rightarrow> string \<Rightarrow> 'd \<Rightarrow> efi_status \<times> u64 \<times> 'd" where
  "Axp81XProbeSupplyStatusByName s2u ops vol_name d =
     (let Vol = 0; sppply_index = 1 + char_at vol_name 4 - of_char (CHR ''1'');
          (ret, d') =
            (if str_prefix vol_name ''dcdc'' then
               apfst (efi_of_int \<circ> to_int32) (axp81X_probe_dcdc_output ops sppply_index d)
             else if str_prefix vol_name ''aldo'' then
               apfst (efi_of_int \<circ> to_int32) (axp81X_probe_aldo_output ops sppply_index d)
             else if str_prefix vol_name ''dldo'' then
               apfst efi_of_int (axp81X_probe_dldo_output ops sppply_index d)
             else if str_prefix vol_name ''eldo'' then
               apfst efi_of_int (axp81X_probe_eldo_output ops sppply_index d)
             else if str_prefix vol_name ''fldo'' then
               apfst efi_of_int (axp81X_probe_fldo_output ops sppply_index d)
             else if str_prefix vol_name ''gpio'' then
               apfst efi_of_int (axp81X_probe_gpioldo_output ops sppply_index d)
             else if str_prefix vol_name ''power'' then
               apfst efi_of_int
                 (axp81X_probe_gpio_output ops (to_int32 (s2u (drop 5 vol_name))) d)
             else (EFI_SUCCESS, d))
      in (ret, Vol, d'))"

end
