(* ===== verification/Axp81xRails.thy ===== *)
theory Axp81xRails
  imports Axp81xSupply "HOL-Library.Char_ord"
begin

text \<open>
  The abstract view of the AXP81X supplies: twenty rails, each on or off at a voltage.
  \<open>rail_spec_of\<close> is the data sheet of the driver (registers, ranges, enable bits) in one
  table; the C routines are shown to implement the reference program \<open>rail_set\<close> of the
  table's entry, through the by-name and the by-index entry points.
\<close>

section \<open>The rails\<close>

datatype rail = DCDC1 | DCDC2 | DCDC3 | DCDC4 | DCDC5 | DCDC6 | ALDO1 | ALDO2 | ALDO3
  | DLDO1 | DLDO2 | DLDO3 | DLDO4 | ELDO1 | ELDO2 | ELDO3 | FLDO1 | FLDO2 | GPIO0LDO | GPIO1LDO

definition bit_rail :: "u8 \<Rightarrow> nat \<Rightarrow> vrange \<Rightarrow> u8 \<Rightarrow> nat \<Rightarrow> rail_spec" where
  "bit_rail vol w r ctl n =
     \<lparr>rs_vol = vol, rs_width = w, rs_range = r, rs_ctl = ctl, rs_mask = push_bit n 1,
      rs_on = push_bit n 1, rs_off = 0\<rparr>"

definition gpio_rail :: "u8 \<Rightarrow> u8 \<Rightarrow> vrange \<Rightarrow> rail_spec" where
  "gpio_rail vol ctl r =
     \<lparr>rs_vol = vol, rs_width = 5, rs_range = r, rs_ctl = ctl, rs_mask = 7, rs_on = 3, rs_off = 4\<rparr>"

definition uniform :: "int \<Rightarrow> int \<Rightarrow> int \<Rightarrow> vrange" where
  "uniform lo hi st = \<lparr>v_min = lo, v_knee = hi, v_max = hi, v_step = st, v_step2 = st\<rparr>"

definition two_step :: "int \<Rightarrow> int \<Rightarrow> int \<Rightarrow> int \<Rightarrow> int \<Rightarrow> vrange" where
  "two_step lo k hi st st2 = \<lparr>v_min = lo, v_knee = k, v_max = hi, v_step = st, v_step2 = st2\<rparr>"

fun rail_spec_of :: "rail \<Rightarrow> rail_spec" where
  "rail_spec_of DCDC1 = bit_rail BOOT_POWER81X_DC1OUT_VOL 5 (uniform 1600 3400 100) BOOT_POWER81X_OUTPUT_CTL1 0"
| "rail_spec_of DCDC2 = bit_rail BOOT_POWER81X_DC2OUT_VOL 7 (two_step 500 1200 1300 10 20) BOOT_POWER81X_OUTPUT_CTL1 1"
| "rail_spec_of DCDC3 = bit_rail BOOT_POWER81X_DC3OUT_VOL 7 (two_step 500 1200 1300 10 20) BOOT_POWER81X_OUTPUT_CTL1 2"
| "rail_spec_of DCDC4 = bit_rail BOOT_POWER81X_DC4OUT_VOL 7 (two_step 500 1200 1300 10 20) BOOT_POWER81X_OUTPUT_CTL1 3"
| "rail_spec_of DCDC5 = bit_rail BOOT_POWER81X_DC5OUT_VOL 7 (two_step 800 1120 1840 10 20) BOOT_POWER81X_OUTPUT_CTL1 4"
| "rail_spec_of DCDC6 = bit_rail BOOT_POWER81X_DC6OUT_VOL 7 (two_step 600 1100 1520 10 20) BOOT_POWER81X_OUTPUT_CTL1 5"
| "rail_spec_of ALDO1 = bit_rail BOOT_POWER81X_ALDO1OUT_VOL 5 (uniform 700 3300 100) BOOT_POWER81X_ALDO_CTL 5"
| "rail_spec_of ALDO2 = bit_rail BOOT_POWER81X_ALDO2OUT_VOL 5 (uniform 700 3300 100) BOOT_POWER81X_ALDO_CTL 6"
| "rail_spec_of ALDO3 = bit_rail BOOT_POWER81X_ALDO3OUT_VOL 5 (uniform 700 3300 100) BOOT_POWER81X_ALDO_CTL 7"
| "rail_spec_of DLDO1 = bit_rail BOOT_POWER81X_DLDO1_VOL 5 (uniform 700 3300 100) BOOT_POWER81X_OUTPUT_CTL2 3"
| "rail_spec_of DLDO2 = bit_rail BOOT_POWER81X_DLDO2_VOL 5 (two_step 700 3400 4200 100 200) BOOT_POWER81X_OUTPUT_CTL2 4"
| "rail_spec_of DLDO3 = bit_rail BOOT_POWER81X_DLDO3_VOL 5 (uniform 700 3300 100) BOOT_POWER81X_OUTPUT_CTL2 5"
| "rail_spec_of DLDO4 = bit_rail BOOT_POWER81X_DLDO4_VOL 5 (uniform 700 3300 100) BOOT_POWER81X_OUTPUT_CTL2 6"
| "rail_spec_of ELDO1 = bit_rail BOOT_POWER81X_ELDO1_VOL 5 (uniform 700 1900 50) BOOT_POWER81X_OUTPUT_CTL2 0"
| "rail_spec_of ELDO2 = bit_rail BOOT_POWER81X_ELDO2_VOL 5 (uniform 700 1900 50) BOOT_POWER81X_OUTPUT_CTL2 1"
| "rail_spec_of ELDO3 = bit_rail BOOT_POWER81X_ELDO3_VOL 5 (uniform 700 1900 50) BOOT_POWER81X_OUTPUT_CTL2 2"
| "rail_spec_of FLDO1 = bit_rail BOOT_POWER81X_FLDO1_VOL 4 (uniform 700 1450 50) BOOT_POWER81X_ALDO_CTL 2"
| "rail_spec_of FLDO2 = bit_rail BOOT_POWER81X_FLDO2_VOL 4 (uniform 700 1450 50) BOOT_POWER81X_ALDO_CTL 3"
| "rail_spec_of GPIO0LDO = gpio_rail BOOT_POWER81X_GPIO0_VOL BOOT_POWER81X_GPIO0_CTL (uniform 700 3300 100)"
| "rail_spec_of GPIO1LDO = gpio_rail BOOT_POWER81X_GPIO1_VOL BOOT_POWER81X_GPIO1_CTL (uniform 700 3300 100)"

lemmas rail_spec_defs = bit_rail_def gpio_rail_def uniform_def two_step_def

lemma rail_spec_wf: "rail_wf (rail_spec_of r)"
  by (cases r) (simp_all add: rail_spec_defs rail_wf_def vrange_wf_def v_sel_def c_clamp_def knee_sel_def)

lemma rail_spec_sep: "r \<noteq> t \<Longrightarrow> rail_sep (rail_spec_of r) (rail_spec_of t)"
  by (cases r; cases t; simp add: rail_spec_defs rail_sep_def)

declare rail_spec_of.simps [simp del]

section \<open>The C routines implement the reference program\<close>

lemma v_sel_uniform:
  "lo \<le> hi \<Longrightarrow> v_sel (uniform lo hi st) v = (c_clamp lo hi v - lo) div st"
  using c_clamp_bounds [of lo hi v] by (auto simp: uniform_def v_sel_def)

lemma v_sel_two_step:
  "v_sel (two_step lo k hi st st2) v =
     (if c_clamp lo hi v > k then (k - lo) div st + (c_clamp lo hi v - k) div st2
      else (c_clamp lo hi v - lo) div st)"
  by (simp add: two_step_def v_sel_def knee_sel_def Let_def)

lemma put_ctl_bit:
  "put_ctl (bit_rail vol w r ctl n) onoff x =
     (if onoff = 0 then x AND NOT (push_bit n 1) else x OR push_bit n 1)"
  using bitfield_set_bit [of x "push_bit n 1"] by (simp add: put_ctl_def bit_rail_def)

lemma put_ctl_gpio:
  "put_ctl (gpio_rail vol ctl r) onoff x =
     (if onoff = 0 then (x AND NOT (push_bit 0 7)) OR push_bit 0 4
      else (x AND NOT (push_bit 0 7)) OR push_bit 0 3)"
  by (simp add: put_ctl_def gpio_rail_def)

lemma clear_masks:
  "NOT (mask 4 :: u8) = 0xF0" "NOT (mask 5 :: u8) = 0xE0" "mask 7 = (0x7f :: u8)"
  by (simp_all add: mask_eq_exp_minus_1)

definition status_ok :: "'r::zero \<times> 'd \<Rightarrow> bool \<times> 'd" where
  "status_ok = apfst (\<lambda>st. st = 0)"

lemmas refine_set = rail_spec_of.simps rail_set_def status_ok_def c_map put_vol_def put_ctl_bit put_ctl_gpio
  v_sel_uniform v_sel_two_step clear_masks

named_theorems set_refines "the C routine of a rail implements the reference program"

lemma bit_rail_sel [simp]:
  "rs_vol (bit_rail vol w r ctl n) = vol" "rs_width (bit_rail vol w r ctl n) = w"
  "rs_range (bit_rail vol w r ctl n) = r" "rs_ctl (bit_rail vol w r ctl n) = ctl"
  "rs_mask (bit_rail vol w r ctl n) = push_bit n 1" "rs_on (bit_rail vol w r ctl n) = push_bit n 1"
  by (simp_all add: bit_rail_def)

lemma gpio_rail_sel [simp]:
  "rs_vol (gpio_rail vol ctl r) = vol" "rs_width (gpio_rail vol ctl r) = 5"
  "rs_range (gpio_rail vol ctl r) = r" "rs_ctl (gpio_rail vol ctl r) = ctl"
  by (simp_all add: gpio_rail_def)

lemma set_dcdc1_refines [set_refines]:
  "status_ok (axp81X_set_dcdc1 ops v onoff d) = rail_set ops AXP81X_ADDR (rail_spec_of DCDC1) v onoff d"
  by (simp add: axp81X_set_dcdc1_def refine_set efi_defs del: One_nat_def)

lemma set_dcdc2_refines [set_refines]:
  "status_ok (axp81X_set_dcdc2 ops v onoff d) = rail_set ops AXP81X_ADDR (rail_spec_of DCDC2) v onoff d"
  by (simp add: axp81X_set_dcdc2_def refine_set efi_defs del: One_nat_def)

lemma set_dcdc3_refines [set_refines]:
  "status_ok (axp81X_set_dcdc3 ops v onoff d) = rail_set ops AXP81X_ADDR (rail_spec_of DCDC3) v onoff d"
  by (simp add: axp81X_set_dcdc3_def refine_set efi_defs del: One_nat_def)

lemma set_dcdc4_refines [set_refines]:
  "status_ok (axp81X_set_dcdc4 ops v onoff d) = rail_set ops AXP81X_ADDR (rail_spec_of DCDC4) v onoff d"
  by (simp add: axp81X_set_dcdc4_def refine_set efi_defs del: One_nat_def)

lemma set_dcdc5_refines [set_refines]:
  "status_ok (axp81X_set_dcdc5 ops v onoff d) = rail_set ops AXP81X_ADDR (rail_spec_of DCDC5) v onoff d"
  by (simp add: axp81X_set_dcdc5_def refine_set efi_defs del: One_nat_def)

lemma set_dcdc6_refines [set_refines]:
  "status_ok (axp81X_set_dcdc6 ops v onoff d) = rail_set ops AXP81X_ADDR (rail_spec_of DCDC6) v onoff d"
  by (simp add: axp81X_set_dcdc6_def refine_set efi_defs del: One_nat_def)

lemma set_aldo1_refines [set_refines]:
  "status_ok (axp81X_set_aldo1 ops v onoff d) = rail_set ops AXP81X_ADDR (rail_spec_of ALDO1) v onoff d"
  by (simp add: axp81X_set_aldo1_def refine_set efi_defs del: One_nat_def)

lemma set_aldo2_refines [set_refines]:
  "status_ok (axp81X_set_aldo2 ops v onoff d) = rail_set ops AXP81X_ADDR (rail_spec_of ALDO2) v onoff d"
  by (simp add: axp81X_set_aldo2_def refine_set efi_defs del: One_nat_def)

lemma set_aldo3_refines [set_refines]:
  "status_ok (axp81X_set_aldo3 ops v onoff d) = rail_set ops AXP81X_ADDR (rail_spec_of ALDO3) v onoff d"
  by (simp add: axp81X_set_aldo3_def refine_set efi_defs del: One_nat_def)

lemma set_dldo1_refines [set_refines]:
  "status_ok (axp81X_set_dldo1 ops v onoff d) = rail_set ops AXP81X_ADDR (rail_spec_of DLDO1) v onoff d"
  by (simp add: axp81X_set_dldo1_def refine_set efi_defs del: One_nat_def)

lemma set_dldo2_refines [set_refines]:
  "status_ok (axp81X_set_dldo2 ops v onoff d) = rail_set ops AXP81X_ADDR (rail_spec_of DLDO2) v onoff d"
  by (simp add: axp81X_set_dldo2_def refine_set efi_defs del: One_nat_def)

lemma set_dldo3_refines [set_refines]:
  "status_ok (axp81X_set_dldo3 ops v onoff d) = rail_set ops AXP81X_ADDR (rail_spec_of DLDO3) v onoff d"
  by (simp add: axp81X_set_dldo3_def refine_set efi_defs del: One_nat_def)

lemma set_dldo4_refines [set_refines]:
  "status_ok (axp81X_set_dldo4 ops v onoff d) = rail_set ops AXP81X_ADDR (rail_spec_of DLDO4) v onoff d"
  by (simp add: axp81X_set_dldo4_def refine_set efi_defs del: One_nat_def)

lemma set_eldo1_refines [set_refines]:
  "status_ok (axp81X_set_eldo1 ops v onoff d) = rail_set ops AXP81X_ADDR (rail_spec_of ELDO1) v onoff d"
  by (simp add: axp81X_set_eldo1_def refine_set efi_defs del: One_nat_def)

lemma set_eldo2_refines [set_refines]:
  "status_ok (axp81X_set_eldo2 ops v onoff d) = rail_set ops AXP81X_ADDR (rail_spec_of ELDO2) v onoff d"
  by (simp add: axp81X_set_eldo2_def refine_set efi_defs del: One_nat_def)

lemma set_eldo3_refines [set_refines]:
  "status_ok (axp81X_set_eldo3 ops v onoff d) = rail_set ops AXP81X_ADDR (rail_spec_of ELDO3) v onoff d"
  by (simp add: axp81X_set_eldo3_def refine_set efi_defs del: One_nat_def)

lemma set_fldo1_refines [set_refines]:
  "status_ok (axp81X_set_fldo1 ops v onoff d) = rail_set ops AXP81X_ADDR (rail_spec_of FLDO1) v onoff d"
  by (simp add: axp81X_set_fldo1_def refine_set efi_defs del: One_nat_def)

lemma set_fldo2_refines [set_refines]:
  "status_ok (axp81X_set_fldo2 ops v onoff d) = rail_set ops AXP81X_ADDR (rail_spec_of FLDO2) v onoff d"
  by (simp add: axp81X_set_fldo2_def refine_set efi_defs del: One_nat_def)

lemma set_gpio0ldo_refines [set_refines]:
  "status_ok (axp81X_set_gpio0ldo ops v onoff d) = rail_set ops AXP81X_ADDR (rail_spec_of GPIO0LDO) v onoff d"
  by (simp add: axp81X_set_gpio0ldo_def refine_set efi_defs del: One_nat_def)

lemma set_gpio1ldo_refines [set_refines]:
  "status_ok (axp81X_set_gpio1ldo ops v onoff d) = rail_set ops AXP81X_ADDR (rail_spec_of GPIO1LDO) v onoff d"
  by (simp add: axp81X_set_gpio1ldo_def refine_set efi_defs del: One_nat_def)

lemma and_bit_cases:
  fixes c :: "'a::len word"
  assumes "n < LENGTH('a)"
  shows "c AND 2 ^ n \<noteq> 0 \<longleftrightarrow> c AND 2 ^ n = 2 ^ n"
proof -
  have "c AND 2 ^ n = (if bit c n then 2 ^ n else 0)"
    by (rule bit_word_eqI) (auto simp: bit_and_iff bit_exp_iff)
  with assms show ?thesis by auto
qed

lemma bit_rail_on:
  "n < 8 \<Longrightarrow> rail_on (bit_rail vol w rg ctl n) R \<longleftrightarrow> R ctl AND push_bit n 1 \<noteq> 0"
  using and_bit_cases [where 'a = 8] by (simp add: rail_on_def)

text \<open>The routines declared \<open>int\<close>, seen through the conversion to \<open>EFI_STATUS\<close>.\<close>

lemma apfst_comp2: "apfst f (apfst g x) = apfst (\<lambda>y. f (g y)) x"
  by (simp add: apfst_def map_prod_def split: prod.splits)

lemma set_dcdc6_efi_refines [set_refines]:
  "status_ok (apfst efi_of_int (axp81X_set_dcdc6 ops v onoff d)) =
     rail_set ops AXP81X_ADDR (rail_spec_of DCDC6) v onoff d"
  by (simp add: axp81X_set_dcdc6_def refine_set efi_defs del: One_nat_def)

lemma set_dldo1_efi_refines [set_refines]:
  "status_ok (apfst efi_of_int (axp81X_set_dldo1 ops v onoff d)) =
     rail_set ops AXP81X_ADDR (rail_spec_of DLDO1) v onoff d"
  by (simp add: axp81X_set_dldo1_def refine_set efi_defs del: One_nat_def)

lemma set_dldo2_efi_refines [set_refines]:
  "status_ok (apfst efi_of_int (axp81X_set_dldo2 ops v onoff d)) =
     rail_set ops AXP81X_ADDR (rail_spec_of DLDO2) v onoff d"
  by (simp add: axp81X_set_dldo2_def refine_set efi_defs del: One_nat_def)

lemma set_dldo4_efi_refines [set_refines]:
  "status_ok (apfst efi_of_int (axp81X_set_dldo4 ops v onoff d)) =
     rail_set ops AXP81X_ADDR (rail_spec_of DLDO4) v onoff d"
  by (simp add: axp81X_set_dldo4_def refine_set efi_defs del: One_nat_def)

lemma set_eldo1_efi_refines [set_refines]:
  "status_ok (apfst efi_of_int (axp81X_set_eldo1 ops v onoff d)) =
     rail_set ops AXP81X_ADDR (rail_spec_of ELDO1) v onoff d"
  by (simp add: axp81X_set_eldo1_def refine_set efi_defs del: One_nat_def)

lemma set_eldo2_efi_refines [set_refines]:
  "status_ok (apfst efi_of_int (axp81X_set_eldo2 ops v onoff d)) =
     rail_set ops AXP81X_ADDR (rail_spec_of ELDO2) v onoff d"
  by (simp add: axp81X_set_eldo2_def refine_set efi_defs del: One_nat_def)

lemma set_eldo3_efi_refines [set_refines]:
  "status_ok (apfst efi_of_int (axp81X_set_eldo3 ops v onoff d)) =
     rail_set ops AXP81X_ADDR (rail_spec_of ELDO3) v onoff d"
  by (simp add: axp81X_set_eldo3_def refine_set efi_defs del: One_nat_def)

lemma set_fldo1_efi_refines [set_refines]:
  "status_ok (apfst efi_of_int (axp81X_set_fldo1 ops v onoff d)) =
     rail_set ops AXP81X_ADDR (rail_spec_of FLDO1) v onoff d"
  by (simp add: axp81X_set_fldo1_def refine_set efi_defs del: One_nat_def)

lemma set_gpio0ldo_efi_refines [set_refines]:
  "status_ok (apfst efi_of_int (axp81X_set_gpio0ldo ops v onoff d)) =
     rail_set ops AXP81X_ADDR (rail_spec_of GPIO0LDO) v onoff d"
  by (simp add: axp81X_set_gpio0ldo_def refine_set efi_defs del: One_nat_def)

lemma set_gpio1ldo_efi_refines [set_refines]:
  "status_ok (apfst efi_of_int (axp81X_set_gpio1ldo ops v onoff d)) =
     rail_set ops AXP81X_ADDR (rail_spec_of GPIO1LDO) v onoff d"
  by (simp add: axp81X_set_gpio1ldo_def refine_set efi_defs del: One_nat_def)

lemma set_fldo2_efi_refines [set_refines]:
  "status_ok (apfst efi_of_int (apfst to_int32 (axp81X_set_fldo2 ops v onoff d))) =
     rail_set ops AXP81X_ADDR (rail_spec_of FLDO2) v onoff d"
  by (simp add: axp81X_set_fldo2_def refine_set efi_of_int_def EFI_SUCCESS_def del: One_nat_def)

section \<open>Entry points by name and by index\<close>

fun rail_name :: "rail \<Rightarrow> string" where
  "rail_name DCDC1 = ''dcdc1''" | "rail_name DCDC2 = ''dcdc2''" | "rail_name DCDC3 = ''dcdc3''"
| "rail_name DCDC4 = ''dcdc4''" | "rail_name DCDC5 = ''dcdc5''" | "rail_name DCDC6 = ''dcdc6''"
| "rail_name ALDO1 = ''aldo1''" | "rail_name ALDO2 = ''aldo2''" | "rail_name ALDO3 = ''aldo3''"
| "rail_name DLDO1 = ''dldo1''" | "rail_name DLDO2 = ''dldo2''" | "rail_name DLDO3 = ''dldo3''"
| "rail_name DLDO4 = ''dldo4''" | "rail_name ELDO1 = ''eldo1''" | "rail_name ELDO2 = ''eldo2''"
| "rail_name ELDO3 = ''eldo3''" | "rail_name FLDO1 = ''fldo1''" | "rail_name FLDO2 = ''fldo2''"
| "rail_name GPIO0LDO = ''gpio0ldo''" | "rail_name GPIO1LDO = ''gpio1ldo''"

fun rail_index :: "rail \<Rightarrow> u64 option" where
  "rail_index DCDC1 = Some 0x10001" | "rail_index DCDC2 = Some 0x10002" | "rail_index DCDC3 = Some 0x10003"
| "rail_index DCDC4 = Some 0x10004" | "rail_index DCDC5 = Some 0x10005" | "rail_index DCDC6 = Some 0x10006"
| "rail_index ALDO1 = Some 0x20001" | "rail_index ALDO2 = Some 0x20002" | "rail_index ALDO3 = Some 0x20003"
| "rail_index DLDO1 = Some 0x50001" | "rail_index DLDO2 = Some 0x50002" | "rail_index DLDO3 = Some 0x50003"
| "rail_index DLDO4 = Some 0x50004" | "rail_index ELDO1 = Some 0x60001" | "rail_index ELDO2 = Some 0x60002"
| "rail_index ELDO3 = Some 0x60003" | "rail_index FLDO1 = None" | "rail_index FLDO2 = None"
| "rail_index GPIO0LDO = Some 0x70000" | "rail_index GPIO1LDO = Some 0x70001"

text \<open>
  What the driver relies on of EDK2's \<open>AsciiStrDecimalToUintn\<close>: it converts the decimal
  digits at the start of the string and stops at the first other character. One digit is
  all the supply names need.
\<close>

definition decimal_law :: "(string \<Rightarrow> u64) \<Rightarrow> bool" where
  "decimal_law s2u \<longleftrightarrow>
     (\<forall>c rest. CHR ''0'' \<le> c \<and> c \<le> CHR ''9'' \<and>
        (rest = [] \<or> \<not> (CHR ''0'' \<le> hd rest \<and> hd rest \<le> CHR ''9'')) \<longrightarrow>
        s2u (c # rest) = of_nat (of_char c - 48))"

definition decimal_prefix :: "string \<Rightarrow> u64" where
  "decimal_prefix s =
     fold (\<lambda>c n. 10 * n + of_nat (of_char c - 48)) (takeWhile (\<lambda>c. CHR ''0'' \<le> c \<and> c \<le> CHR ''9'') s) 0"

lemma decimal_prefix_law: "decimal_law decimal_prefix"
  proof -
  have "takeWhile (\<lambda>c. CHR ''0'' \<le> c \<and> c \<le> CHR ''9'') rest = []"
    if "rest = [] \<or> \<not> (CHR ''0'' \<le> hd rest \<and> hd rest \<le> CHR ''9'')" for rest :: string
    using that by (cases rest) auto
  then show ?thesis
    by (simp add: decimal_law_def decimal_prefix_def)
qed


lemma decimal_digit:
  assumes "decimal_law s2u"
  shows "s2u ''0'' = 0" "s2u ''1'' = 1" "s2u ''2'' = 2" "s2u ''3'' = 3" "s2u ''4'' = 4" "s2u ''5'' = 5"
    "s2u ''6'' = 6" "s2u ''0ldo'' = 0" "s2u ''1ldo'' = 1"
  using assms unfolding decimal_law_def by (simp_all add: less_eq_char_def)

lemma to_int32_numeral_digit:
  "to_int32 1 = 1" "to_int32 2 = 2" "to_int32 3 = 3" "to_int32 4 = 4" "to_int32 5 = 5" "to_int32 6 = 6"
  by code_simp+

lemma to_int32_types:
  "to_int32 0x10000 = 0x10000" "to_int32 0x20000 = 0x20000" "to_int32 0x50000 = 0x50000"
  "to_int32 0x60000 = 0x60000" "to_int32 0x70000 = 0x70000"
  by code_simp+

lemmas set_dispatch = axp81X_set_dcdc_output_def axp81X_set_aldo_output_def axp81X_set_dldo_output_def
  axp81X_set_eldo_output_def axp81X_set_fldo_output_def axp81X_set_gpioldo_output_def

lemma set_by_name_refines_aux:
  assumes "decimal_law s2u"
  shows "status_ok (Axp81XSetSupplyStatusByName s2u ops (rail_name r) Voltage OnOff d) =
    rail_set ops AXP81X_ADDR (rail_spec_of r) (to_int32 Voltage) (to_int32 OnOff) d"
  by (cases r)
    (simp_all add: Axp81XSetSupplyStatusByName_def str_prefix_def set_dispatch decimal_digit [OF assms]
      to_int32_numeral_digit set_refines)

lemma set_by_index_refines_aux:
  assumes "rail_index r = Some i"
  shows "status_ok (Axp81XSetSupplyStatus ops i Voltage OnOff d) =
    rail_set ops AXP81X_ADDR (rail_spec_of r) (to_int32 Voltage) (to_int32 OnOff) d"
  using assms
  by (cases r)
    (simp_all add: Axp81XSetSupplyStatus_def set_dispatch to_int32_types
      to_int32_numeral_digit set_refines)

text \<open>
  C2: both entry points implement the reference program of the rail they address, for all
  twenty rails (by index, for every rail that has one): the same bus transfers in the same
  order, the same final device state, and status 0 exactly when the reference program
  succeeds.
\<close>

theorem set_supply_refines:
  assumes "decimal_law s2u"
  defines "ref \<equiv> (\<lambda>ops r Voltage OnOff.
    rail_set ops AXP81X_ADDR (rail_spec_of r) (to_int32 Voltage) (to_int32 OnOff))"
  shows "status_ok (Axp81XSetSupplyStatusByName s2u ops (rail_name r) Voltage OnOff d) =
      ref ops r Voltage OnOff d \<and>
    (\<forall>i. rail_index r = Some i \<longrightarrow>
      status_ok (Axp81XSetSupplyStatus ops i Voltage OnOff d) = ref ops r Voltage OnOff d)"
  using set_by_name_refines_aux [OF assms(1)] set_by_index_refines_aux by (auto simp: ref_def)

theorem set_supply_refines_witness:
  "decimal_law decimal_prefix \<and> rail_index DLDO2 = Some 0x50002 \<and>
   status_ok (Axp81XSetSupplyStatusByName decimal_prefix mem_bus (rail_name DLDO2) 3300 1 (\<lambda>_. 0)) =
   status_ok (Axp81XSetSupplyStatus mem_bus 0x50002 3300 1 (\<lambda>_. 0))"
  using decimal_prefix_law
    set_supply_refines [OF decimal_prefix_law, of mem_bus DLDO2 3300 1 "\<lambda>_. 0"]
  by (simp del: rail_name.simps)

section \<open>Effect on the chip\<close>

text \<open>The registers that hold the configuration of the rails.\<close>

definition rail_regs :: "u8 set" where
  "rail_regs = (\<Union>r. {rs_vol (rail_spec_of r), rs_ctl (rail_spec_of r)})"

lemma rail_regs_memb: "rail_regs \<subseteq> cfg \<Longrightarrow> rs_vol (rail_spec_of r) \<in> cfg \<and> rs_ctl (rail_spec_of r) \<in> cfg"
  by (auto simp: rail_regs_def)

text \<open>The interrupt status registers, 48 to 4d in hexadecimal, are not rail registers.\<close>

lemma rail_regs_arisc: "rail_regs \<subseteq> {a. \<not> (0x48 \<le> a \<and> a \<le> 0x4d)}"
proof -
  have "\<not> (0x48 \<le> rs_vol (rail_spec_of r) \<and> rs_vol (rail_spec_of r) \<le> 0x4d) \<and>
      \<not> (0x48 \<le> rs_ctl (rail_spec_of r) \<and> rs_ctl (rail_spec_of r) \<le> 0x4d)" for r
    by (cases r) (simp_all add: rail_spec_of.simps)
  then show ?thesis by (auto simp: rail_regs_def)
qed

lemma status_ok_pair: "f = (st, d') \<Longrightarrow> status_ok f = (st = 0, d')"
  by (simp add: status_ok_def)

text \<open>
  Over any bus that keeps the register contract, a call of
  \<open>Axp81XSetSupplyStatusByName\<close> that returns 0 leaves the named rail on or off as asked
  (a negative \<open>OnOff\<close> keeps it) and at the voltage of the selected step (0 or a negative
  voltage keeps it); whatever the call returns, no other rail changes its state or voltage.
\<close>

lemma set_by_name_effect:
  assumes bus: "register_bus ops reg cfg" and cfg: "rail_regs \<subseteq> cfg" and dec: "decimal_law s2u"
    and run: "Axp81XSetSupplyStatusByName s2u ops (rail_name r) Voltage OnOff d = (st, d')"
  defines "s \<equiv> rail_spec_of r" and "v \<equiv> to_int32 Voltage" and "onoff \<equiv> to_int32 OnOff"
  shows "(st = 0 \<longrightarrow>
       rail_on s (reg d') = (if onoff < 0 then rail_on s (reg d) else onoff \<noteq> 0) \<and>
       rail_mv s (reg d') = (if 0 < v then v_of_sel (rs_range s) (v_sel (rs_range s) v) else rail_mv s (reg d))) \<and>
     (\<forall>t. t \<noteq> r \<longrightarrow> rail_on (rail_spec_of t) (reg d') = rail_on (rail_spec_of t) (reg d) \<and>
       rail_mv (rail_spec_of t) (reg d') = rail_mv (rail_spec_of t) (reg d))"
proof -
  have ref: "rail_set ops AXP81X_ADDR s v onoff d = (st = 0, d')"
    using set_by_name_refines_aux [OF dec, of ops r Voltage OnOff d] status_ok_pair [OF run]
    by (simp add: s_def v_def onoff_def)
  have c: "rs_vol (rail_spec_of t) \<in> cfg" "rs_ctl (rail_spec_of t) \<in> cfg" for t
    using rail_regs_memb [OF cfg] by auto
  have wf: "rail_wf s" by (simp add: s_def rail_spec_wf)
  have "rail_on s (reg d') = (if onoff < 0 then rail_on s (reg d) else onoff \<noteq> 0) \<and>
      rail_mv s (reg d') = (if 0 < v then v_of_sel (rs_range s) (v_sel (rs_range s) v) else rail_mv s (reg d))"
    if "st = 0"
    using ref that register_bus.rail_set_view [OF bus _ wf] c [of r] by (simp add: s_def)
  moreover have "rail_on (rail_spec_of t) (reg d') = rail_on (rail_spec_of t) (reg d) \<and>
      rail_mv (rail_spec_of t) (reg d') = rail_mv (rail_spec_of t) (reg d)" if "t \<noteq> r" for t
    using register_bus.rail_set_frame [OF bus ref wf, of "rail_spec_of t"] rail_spec_sep [of r t] c that
    by (auto simp: s_def)
  ultimately show ?thesis by blast
qed

text \<open>
  After a successful call with a positive voltage, the rail's voltage never exceeds the
  request clamped to the rail's range, and is less than one step of the range below it.
\<close>

theorem set_by_name_quantised:
  assumes bus: "register_bus ops reg cfg" and cfg: "rail_regs \<subseteq> cfg" and dec: "decimal_law s2u"
    and run: "Axp81XSetSupplyStatusByName s2u ops (rail_name r) Voltage OnOff d = (0, d')"
    and pos: "0 < to_int32 Voltage"
  defines "rg \<equiv> rs_range (rail_spec_of r)"
  defines "want \<equiv> c_clamp (v_min rg) (v_max rg) (to_int32 Voltage)"
  shows "rail_mv (rail_spec_of r) (reg d') \<le> want \<and>
    want - rail_mv (rail_spec_of r) (reg d') < max (v_step rg) (v_step2 rg)"
proof -
  have "rail_set ops AXP81X_ADDR (rail_spec_of r) (to_int32 Voltage) (to_int32 OnOff) d = (True, d')"
    using set_by_name_refines_aux [OF dec, of ops r Voltage OnOff d] status_ok_pair [OF run] by simp
  then have "rail_mv (rail_spec_of r) (reg d') = v_of_sel rg (v_sel rg (to_int32 Voltage))"
    using register_bus.rail_set_view(2) [OF bus _ rail_spec_wf] rail_regs_memb [OF cfg] pos
    by (simp add: rg_def)
  then show ?thesis
    using v_quant_bounds [of "rs_width (rail_spec_of r)" rg "to_int32 Voltage"] rail_spec_wf [of r]
    by (simp add: rail_wf_def rg_def want_def)
qed

theorem set_by_name_quantised_witness:
  "fst (Axp81XSetSupplyStatusByName decimal_prefix mem_bus (rail_name DCDC2) 1255 1 (\<lambda>_. 0)) = 0 \<and>
   rail_mv (rail_spec_of DCDC2)
     (snd (Axp81XSetSupplyStatusByName decimal_prefix mem_bus (rail_name DCDC2) 1255 1 (\<lambda>_. 0))) \<in> {1236..1255}"
proof -
  let ?run = "Axp81XSetSupplyStatusByName decimal_prefix mem_bus (rail_name DCDC2) 1255 1 (\<lambda>_. 0)"
  have st: "fst ?run = 0" by code_simp
  then have run: "?run = (0, snd ?run)" by (metis prod.collapse)
  have v: "to_int32 1255 = 1255" by code_simp
  show ?thesis
    using set_by_name_quantised [OF mem.register_bus_axioms subset_UNIV decimal_prefix_law run] st v
    by (simp add: rail_spec_of.simps two_step_def c_clamp_def del: rail_name.simps)
qed

section \<open>Probing\<close>

lemma v_of_sel_uniform:
  "(hi - lo) mod st = 0 \<Longrightarrow> v_of_sel (uniform lo hi st) s = lo + st * s"
  by (auto simp: v_of_sel_def knee_sel_def uniform_def algebra_simps mod_eq_0_iff_dvd)

lemma v_of_sel_two_step:
  "v_of_sel (two_step lo k hi st st2) s =
     (if s > (k - lo) div st then k + st2 * (s - (k - lo) div st) else lo + st * s)"
  by (simp add: v_of_sel_def knee_sel_def two_step_def)

lemma read_masks: "mask 4 = (0x0f :: u8)" "mask 5 = (0x1f :: u8)" "mask 7 = (0x7f :: u8)"
  by (simp_all add: mask_eq_exp_minus_1)

named_theorems probe_refines "the C probe of a rail implements the reference probe"

lemmas refine_probe = rail_spec_of.simps rail_probe_def v_of_sel_uniform v_of_sel_two_step read_masks
  word_less_alt Let_def

lemma probe_dcdc2_refines [probe_refines]:
  "axp81X_probe_dcdc2 ops d = rail_probe ops AXP81X_ADDR (rail_spec_of DCDC2) d"
  by (simp add: axp81X_probe_dcdc2_def refine_probe del: One_nat_def cong: if_cong)

lemma probe_dcdc3_refines [probe_refines]:
  "axp81X_probe_dcdc3 ops d = rail_probe ops AXP81X_ADDR (rail_spec_of DCDC3) d"
  by (simp add: axp81X_probe_dcdc3_def refine_probe del: One_nat_def cong: if_cong)

lemma probe_dcdc4_refines [probe_refines]:
  "axp81X_probe_dcdc4 ops d = rail_probe ops AXP81X_ADDR (rail_spec_of DCDC4) d"
  by (simp add: axp81X_probe_dcdc4_def refine_probe del: One_nat_def cong: if_cong)

lemma probe_dcdc5_refines [probe_refines]:
  "axp81X_probe_dcdc5 ops d = rail_probe ops AXP81X_ADDR (rail_spec_of DCDC5) d"
  by (simp add: axp81X_probe_dcdc5_def refine_probe del: One_nat_def cong: if_cong)

lemma probe_aldo1_refines [probe_refines]:
  "axp81X_probe_aldo1 ops d = rail_probe ops AXP81X_ADDR (rail_spec_of ALDO1) d"
  by (simp add: axp81X_probe_aldo1_def refine_probe del: One_nat_def cong: if_cong)

lemma probe_aldo2_refines [probe_refines]:
  "axp81X_probe_aldo2 ops d = rail_probe ops AXP81X_ADDR (rail_spec_of ALDO2) d"
  by (simp add: axp81X_probe_aldo2_def refine_probe del: One_nat_def cong: if_cong)

lemma probe_aldo3_refines [probe_refines]:
  "axp81X_probe_aldo3 ops d = rail_probe ops AXP81X_ADDR (rail_spec_of ALDO3) d"
  by (simp add: axp81X_probe_aldo3_def refine_probe del: One_nat_def cong: if_cong)

lemma probe_dldo1_refines [probe_refines]:
  "axp81X_probe_dldo1 ops d = rail_probe ops AXP81X_ADDR (rail_spec_of DLDO1) d"
  by (simp add: axp81X_probe_dldo1_def refine_probe del: One_nat_def cong: if_cong)

lemma probe_dldo2_refines [probe_refines]:
  "axp81X_probe_dldo2 ops d = rail_probe ops AXP81X_ADDR (rail_spec_of DLDO2) d"
  by (simp add: axp81X_probe_dldo2_def refine_probe mult.commute [of _ "200 :: int"] del: One_nat_def cong: if_cong)

lemma probe_dldo3_refines [probe_refines]:
  "axp81X_probe_dldo3 ops d = rail_probe ops AXP81X_ADDR (rail_spec_of DLDO3) d"
  by (simp add: axp81X_probe_dldo3_def refine_probe del: One_nat_def cong: if_cong)

lemma probe_dldo4_refines [probe_refines]:
  "axp81X_probe_dldo4 ops d = rail_probe ops AXP81X_ADDR (rail_spec_of DLDO4) d"
  by (simp add: axp81X_probe_dldo4_def refine_probe del: One_nat_def cong: if_cong)

lemma probe_eldo1_refines [probe_refines]:
  "axp81X_probe_eldo1 ops d = rail_probe ops AXP81X_ADDR (rail_spec_of ELDO1) d"
  by (simp add: axp81X_probe_eldo1_def refine_probe del: One_nat_def cong: if_cong)

lemma probe_eldo2_refines [probe_refines]:
  "axp81X_probe_eldo2 ops d = rail_probe ops AXP81X_ADDR (rail_spec_of ELDO2) d"
  by (simp add: axp81X_probe_eldo2_def refine_probe del: One_nat_def cong: if_cong)

lemma probe_eldo3_refines [probe_refines]:
  "axp81X_probe_eldo3 ops d = rail_probe ops AXP81X_ADDR (rail_spec_of ELDO3) d"
  by (simp add: axp81X_probe_eldo3_def refine_probe del: One_nat_def cong: if_cong)

lemma probe_fldo1_refines [probe_refines]:
  "axp81X_probe_fldo1 ops d = rail_probe ops AXP81X_ADDR (rail_spec_of FLDO1) d"
  by (simp add: axp81X_probe_fldo1_def refine_probe del: One_nat_def cong: if_cong)

lemma probe_fldo2_refines [probe_refines]:
  "axp81X_probe_fldo2 ops d = rail_probe ops AXP81X_ADDR (rail_spec_of FLDO2) d"
  by (simp add: axp81X_probe_fldo2_def refine_probe del: One_nat_def cong: if_cong)

lemma probe_dcdc1_refines [probe_refines]:
  "axp81X_probe_dcdc1 ops d =
     apfst (\<lambda>v. if v = -1 then EFI_DEVICE_ERROR else efi_of_int v) (rail_probe ops AXP81X_ADDR (rail_spec_of DCDC1) d)"
proof -
  have "1600 + 100 * uint w \<noteq> -1" for w :: u8 using uint_ge_0 [of w] by linarith
  then show ?thesis
    by (simp add: axp81X_probe_dcdc1_def refine_probe c_map cong: if_cong)
qed

text \<open>A probe result fits an \<open>INT32\<close>, so the conversions on the way out keep it.\<close>

lemma v_of_sel_range:
  assumes "0 \<le> s" and "s < 256"
  shows "0 < v_of_sel (rs_range (rail_spec_of r)) s \<and> v_of_sel (rs_range (rail_spec_of r)) s < 2 ^ 31"
  using assms by (cases r) (auto simp: rail_spec_of.simps v_of_sel_uniform v_of_sel_two_step)

lemma rail_probe_range:
  "-1 \<le> fst (rail_probe ops chip (rail_spec_of r) d) \<and> fst (rail_probe ops chip (rail_spec_of r) d) < 2 ^ 31"
proof -
  have "uint (w :: u8) < 256" for w using uint_lt2p [of w] by simp
  then have "0 < v_of_sel (rs_range (rail_spec_of r)) (uint (w :: u8)) \<and>
      v_of_sel (rs_range (rail_spec_of r)) (uint w) < 2 ^ 31" for w
    by (intro v_of_sel_range) auto
  then show ?thesis
    by (auto simp: rail_probe_def c_stmt less_imp_le order_trans [of "-1" 0] split: prod.splits)
qed

lemma probe_through_int32:
  "to_int32 (efi_of_int (fst (rail_probe ops chip (rail_spec_of r) d))) =
     fst (rail_probe ops chip (rail_spec_of r) d)"
  using rail_probe_range [of ops chip r d] by (simp add: to_int32_of_int)

definition probed :: "rail \<Rightarrow> bool" where
  "probed r \<longleftrightarrow> r \<notin> {DCDC6, GPIO0LDO, GPIO1LDO}"

lemmas probe_dispatch = axp81X_probe_dcdc_output_def axp81X_probe_aldo_output_def
  axp81X_probe_dldo_output_def axp81X_probe_eldo_output_def axp81X_probe_fldo_output_def

lemma probe_by_name_aux:
  assumes "probed r"
  shows "Axp81XProbeSupplyStatusByName s2u ops (rail_name r) d =
    (let (v, d') = rail_probe ops AXP81X_ADDR (rail_spec_of r) d
     in (if v = -1 \<and> r = DCDC1 then 7 else efi_of_int v, 0, d'))"
proof (cases "r = DCDC1")
  case True
  then show ?thesis
    using rail_probe_range [of ops AXP81X_ADDR DCDC1 d] to_int32_of_int
    by (cases "rail_probe ops AXP81X_ADDR (rail_spec_of DCDC1) d")
      (simp add: Axp81XProbeSupplyStatusByName_def str_prefix_def char_at_def probe_dispatch probe_refines
        efi_of_int_def [of 7])
next
  case False
  with assms show ?thesis
    by (cases r)
      (simp_all add: Axp81XProbeSupplyStatusByName_def str_prefix_def char_at_def probe_dispatch
        probe_refines probe_through_int32 probed_def split_beta)
qed

text \<open>
  For the seventeen rails the by-name probe serves correctly, a successful
  \<open>Axp81XSetSupplyStatusByName\<close> that switches the rail on at a voltage, followed by
  \<open>Axp81XProbeSupplyStatusByName\<close> over a bus whose reads succeed, returns the voltage the
  rail was programmed to; switched off, it returns 0; the probe changes no register.
\<close>

lemma set_probe_round_trip:
  assumes bus: "register_bus ops reg cfg" and cfg: "rail_regs \<subseteq> cfg" and dec: "decimal_law s2u"
    and set: "Axp81XSetSupplyStatusByName s2u ops (rail_name r) Voltage OnOff d = (0, d1)"
    and vals: "0 < to_int32 Voltage" "0 \<le> to_int32 OnOff" and r: "probed r"
    and reads: "\<forall>a e. fst (bus_read ops a e) = 0"
    and probe: "Axp81XProbeSupplyStatusByName s2u ops (rail_name r) d1 = (ret, vol, d2)"
  defines "rg \<equiv> rs_range (rail_spec_of r)"
  shows "ret = efi_of_int (if to_int32 OnOff = 0 then 0 else v_of_sel rg (v_sel rg (to_int32 Voltage))) \<and>
    (\<forall>a\<in>cfg. reg d2 a = reg d1 a)"
proof -
  let ?s = "rail_spec_of r"
  have ref: "rail_set ops AXP81X_ADDR ?s (to_int32 Voltage) (to_int32 OnOff) d = (True, d1)"
    using set_by_name_refines_aux [OF dec, of ops r Voltage OnOff d] status_ok_pair [OF set] by simp
  have c: "rs_vol ?s \<in> cfg" "rs_ctl ?s \<in> cfg" using rail_regs_memb [OF cfg] by auto
  note view = register_bus.rail_set_view [OF bus ref rail_spec_wf c]
  note seen = register_bus.rail_probe_value [OF bus reads c, where chip = AXP81X_ADDR and d = d1]
  have "rail_on ?s (reg d1) \<longleftrightarrow> reg d1 (rs_ctl ?s) AND rs_mask ?s \<noteq> 0"
    using r by (cases r) (simp_all add: rail_spec_of.simps bit_rail_on probed_def)
  with view seen(1) vals have v: "fst (rail_probe ops AXP81X_ADDR ?s d1) =
      (if to_int32 OnOff = 0 then 0 else v_of_sel rg (v_sel rg (to_int32 Voltage)))"
    by (auto simp: rg_def)
  have "v_of_sel rg (v_sel rg (to_int32 Voltage)) \<noteq> -1" 
    using v_sel_bounds [of "rs_width ?s" rg "to_int32 Voltage"] rail_spec_wf [of r] 
     v_of_sel_range [of "v_sel rg (to_int32 Voltage)" r]
     power_increasing [of "rs_width ?s" 8 "2::int"] by (simp add: rail_wf_def rg_def)
  moreover have "reg (snd (rail_probe ops AXP81X_ADDR ?s d1)) a = reg d1 a" if "a \<in> cfg" for a
    using seen(2) that .
  ultimately show ?thesis
    using v probe probe_by_name_aux [OF r, of s2u ops d1]
    by (auto simp: Let_def split: prod.splits if_splits)
qed

section \<open>Where the routines differ from the rail table\<close>

text \<open>
  The probe of DCDC6 tests bits 0 and 2 of \<open>OUTPUT_CTL1\<close>, the enable bits of DCDC1 and
  DCDC3, in place of bit 5: a chip with DCDC6 on and those two off is reported off, one
  with DCDC6 off and DCDC1 on is reported on.
\<close>

theorem probe_dcdc6_tests_other_rails:
  "fst (axp81X_probe_dcdc6 mem_bus R) =
     (if rail_on (rail_spec_of DCDC1) R \<or> rail_on (rail_spec_of DCDC3) R
      then rail_mv (rail_spec_of DCDC6) R else 0)"
proof -
  have "R 0x10 AND 5 = 0 \<longleftrightarrow> R 0x10 AND 1 = 0 \<and> R 0x10 AND 4 = 0"
    using word_ao_dist2 [of "R 0x10" 1 4] by (simp add: or_eq_0_iff)
  then show ?thesis
    by (simp add: axp81X_probe_dcdc6_def c_stmt mem_bus_def rail_spec_of.simps bit_rail_on rail_mv_def
        v_of_sel_two_step read_masks word_less_alt Let_def)
qed

text \<open>
  Switching the \<open>dc5ldo\<close> supply, through either entry point, drives bit 0 of
  \<open>OUTPUT_CTL1\<close>, the enable bit of DCDC1: the call switches the DCDC1 rail.
\<close>

theorem set_dc5ldo_switches_dcdc1:
  fixes s2u :: "string \<Rightarrow> u64"
  defines "by_name \<equiv> Axp81XSetSupplyStatusByName s2u mem_bus ''dc5ldo''"
  defines "by_index \<equiv> Axp81XSetSupplyStatus mem_bus 0x80001"
  shows "rail_on (rail_spec_of DCDC1) (snd (by_name V On R)) = (to_int32 On \<noteq> 0) \<and>
    by_index V On R = by_name V On R"
proof -
  have t: "to_int32 0x80000 = 0x80000" "to_int32 0x80001 = 0x80001" "to_int32 1 = 1" by code_simp+
  have "(x AND NOT 1) AND 1 = 0" for x :: u8
    by (auto simp: bit_eq_iff bit_simps)
  then have "(x AND - 2) AND 1 = 0" for x :: u8
    by simp
  then show ?thesis
    by (simp add: by_name_def by_index_def Axp81XSetSupplyStatusByName_def Axp81XSetSupplyStatus_def
        axp81X_set_misc_output_def str_prefix_def t axp81X_set_dc5ldo_def c_stmt mem_bus_def
        rail_spec_of.simps bit_rail_on Let_def)
qed

text \<open>
  \<open>Axp81XProbeSupplyStatusByName\<close> always stores 0 through \<open>Vol\<close>, and hands the voltage
  back as its status; a bus failure while probing DCDC1 comes back as 7, which
  \<open>EFI_ERROR\<close> does not recognise as an error.
\<close>

theorem probe_by_name_result_in_status:
  "fst (snd (Axp81XProbeSupplyStatusByName s2u ops name d)) = 0 \<and>
   fst (Axp81XProbeSupplyStatusByName s2u
     (ops\<lparr>bus_read := (\<lambda>a d. (EFI_DEVICE_ERROR, 0, d))\<rparr>) (rail_name DCDC1) d) = 7 \<and> \<not> EFI_ERROR 7"
proof -
  have "\<not> EFI_ERROR 7" by code_simp
  moreover have "fst (snd (Axp81XProbeSupplyStatusByName s2u ops name d)) = 0"
    by (simp add: Axp81XProbeSupplyStatusByName_def split_beta Let_def)
  moreover have "probed DCDC1" by (simp add: probed_def)
  then have "fst (Axp81XProbeSupplyStatusByName s2u
     (ops\<lparr>bus_read := (\<lambda>a d. (EFI_DEVICE_ERROR, 0, d))\<rparr>) (rail_name DCDC1) d) = 7"
    by (simp add: probe_by_name_aux rail_probe_def c_stmt del: rail_name.simps)
  ultimately show ?thesis by blast
qed

end
