(* ===== verification/Axp81x.thy ===== *)
theory Axp81x
  imports Axp81xRegs
begin

text \<open>
  The other services of the AXP81X driver, \<open>src/Drivers/AxpPower/Axp81X/Axp81X.c\<close>:
  detection, interrupts, charger, battery, power key, power-off and the limits of the USB
  input. A function with an \<open>OUT\<close> pointer takes the old content of the pointed-to variable
  and returns the status together with its new content.

  \<open>__Axp81XSetIntEnable\<close>, \<open>__Axp81XProbeIntEnable\<close> and \<open>__Axp81XProbeIntPending\<close>, which work
  on a byte array, are the definitions with the suffix \<open>_regs\<close>.
\<close>

section \<open>Interrupt registers\<close>

definition Axp81XSetIntEnable_regs :: "'d axp_pm_bus_ops \<Rightarrow> u8 list \<Rightarrow> 'd \<Rightarrow> efi_status \<times> 'd" where
  "Axp81XSetIntEnable_regs ops IntEnable =
     c_fun (pm_wr_all ops AXP81X_ADDR BOOT_POWER81X_INTEN1 (\<lambda>i. IntEnable ! i) [0..<5] EFI_DEVICE_ERROR)
       EFI_SUCCESS"

definition Axp81XProbeIntEnable_regs ::
  "'d axp_pm_bus_ops \<Rightarrow> u8 list \<Rightarrow> 'd \<Rightarrow> efi_status \<times> u8 list \<times> 'd" where
  "Axp81XProbeIntEnable_regs ops IntEnable d =
     (case pm_rd_all ops AXP81X_ADDR BOOT_POWER81X_INTEN1 [0..<5] IntEnable d of
        (okf, buf, d') \<Rightarrow> (if okf then EFI_SUCCESS else EFI_DEVICE_ERROR, buf, d'))"

definition Axp81XProbeIntPending_regs ::
  "'d axp_pm_bus_ops \<Rightarrow> u8 list \<Rightarrow> 'd \<Rightarrow> efi_status \<times> u8 list \<times> 'd" where
  "Axp81XProbeIntPending_regs ops IntStatus d =
     (case pm_rd_all ops AXP81X_ADDR BOOT_POWER81X_INTSTS1 [0..<5] IntStatus d of
        (okf, buf, d') \<Rightarrow>
          if \<not> okf then (EFI_DEVICE_ERROR, buf, d')
          else (case c_fun (pm_wr_all ops AXP81X_ADDR BOOT_POWER81X_INTSTS1 (\<lambda>_. 0xff) [0..<5] EFI_DEVICE_ERROR)
                  EFI_SUCCESS d' of (st, d'') \<Rightarrow> (st, buf, d'')))"

definition Axp81XProbe :: "'d axp_pm_bus_ops \<Rightarrow> 'd \<Rightarrow> efi_status \<times> 'd" where
  "Axp81XProbe ops = c_fun
     (pm_rd ops AXP81X_ADDR BOOT_POWER81X_VERSION EFI_DEVICE_ERROR (\<lambda>pmu_type d.
        let IntReg = replicate 8 0; pmu_type = pmu_type AND 0xCf in
        if pmu_type = 0x41 then
          (case Axp81XSetIntEnable_regs ops IntReg d of (Status, d') \<Rightarrow>
             if Status \<noteq> 0 then (Some Status, d')
             else (case Axp81XProbeIntPending_regs ops IntReg d' of (Status, IntReg, d'') \<Rightarrow> (Some Status, d'')))
        else (None, d)))
     EFI_DEVICE_ERROR"

section \<open>Charger, battery and power state\<close>

definition Axp81XSetChargerOnOff :: "'d axp_pm_bus_ops \<Rightarrow> u64 \<Rightarrow> 'd \<Rightarrow> efi_status \<times> 'd" where
  "Axp81XSetChargerOnOff ops OnOff = c_fun (c_block
     [pm_rd ops AXP81X_ADDR BOOT_POWER81X_ADC_EN EFI_DEVICE_ERROR (\<lambda>RegValue.
      pm_wr ops AXP81X_ADDR BOOT_POWER81X_ADC_EN (RegValue OR 0xC0) EFI_DEVICE_ERROR),
      pm_rd ops AXP81X_ADDR BOOT_POWER81X_CHARGE1 EFI_DEVICE_ERROR (\<lambda>RegValue.
      pm_wr ops AXP81X_ADDR BOOT_POWER81X_CHARGE1
        (if OnOff \<noteq> 0 then RegValue OR 0x80 else RegValue AND NOT 0x80) EFI_DEVICE_ERROR)])
     EFI_SUCCESS"

definition Axp81XProbeBatteryRatio ::
  "'d axp_pm_bus_ops \<Rightarrow> u64 \<Rightarrow> 'd \<Rightarrow> (efi_status \<times> u64) \<times> 'd" where
  "Axp81XProbeBatteryRatio ops Ratio = c_fun
     (pm_rd ops AXP81X_ADDR BOOT_POWER81X_BAT_PERCEN_CAL (EFI_DEVICE_ERROR, Ratio) (\<lambda>RegValue.
      c_return (EFI_SUCCESS, ucast (RegValue AND 0x7f))))
     (EFI_SUCCESS, Ratio)"

definition Axp81XProbePowerBusExistance ::
  "'d axp_pm_bus_ops \<Rightarrow> 'd \<Rightarrow> (efi_status \<times> u64) \<times> 'd" where
  "Axp81XProbePowerBusExistance ops = c_fun
     (pm_rd ops AXP81X_ADDR BOOT_POWER81X_STATUS (EFI_DEVICE_ERROR, 0) (\<lambda>RegValue.
      c_return (EFI_SUCCESS,
        (if RegValue AND 0x10 \<noteq> 0 then AXP_POWER_VBUS_EXIST else 0) OR
        (if RegValue AND 0x40 \<noteq> 0 then AXP_POWER_AC_BUS_EXIST else 0))))
     (EFI_SUCCESS, 0)"

definition Axp81XProbeBatteryExistance ::
  "'d axp_pm_bus_ops \<Rightarrow> 'd \<Rightarrow> (efi_status \<times> u64) \<times> 'd" where
  "Axp81XProbeBatteryExistance ops = c_fun
     (pm_rd ops AXP81X_ADDR BOOT_POWER81X_MODE_CHGSTATUS (EFI_DEVICE_ERROR, 0) (\<lambda>RegValue.
      if RegValue AND 0x10 \<noteq> 0 then c_return (EFI_SUCCESS, ucast (RegValue AND 0x20))
      else c_return (EFI_DEVICE_ERROR, 0)))
     (EFI_SUCCESS, 0)"

definition Axp81XProbeBatteryVoltage ::
  "'d axp_pm_bus_ops \<Rightarrow> u64 \<Rightarrow> 'd \<Rightarrow> (efi_status \<times> u64) \<times> 'd" where
  "Axp81XProbeBatteryVoltage ops Voltage = c_fun
     (pm_rd ops AXP81X_ADDR BOOT_POWER81X_BAT_AVERVOL_H8 (EFI_DEVICE_ERROR, Voltage) (\<lambda>RegValue_h.
      pm_rd ops AXP81X_ADDR BOOT_POWER81X_BAT_AVERVOL_L4 (EFI_DEVICE_ERROR, Voltage) (\<lambda>RegValue_l.
      let Value = push_bit 4 (ucast RegValue_h) OR ucast RegValue_l in
      c_return (EFI_SUCCESS, Value * 11 div 10))))
     (EFI_SUCCESS, Voltage)"

definition Axp81XProbePowerKey ::
  "'d axp_pm_bus_ops \<Rightarrow> u64 \<Rightarrow> 'd \<Rightarrow> (efi_status \<times> u64) \<times> 'd" where
  "Axp81XProbePowerKey ops Pressed = c_fun
     (pm_rd ops AXP81X_ADDR BOOT_POWER81X_INTSTS5 (EFI_DEVICE_ERROR, Pressed) (\<lambda>RegValue.
      let RegValue = RegValue AND push_bit 3 0x03 in
      c_block
       [c_when (RegValue \<noteq> 0)
          (pm_wr ops AXP81X_ADDR BOOT_POWER81X_INTSTS5 RegValue (EFI_DEVICE_ERROR, Pressed)),
        c_return (EFI_SUCCESS, ucast (drop_bit 3 RegValue AND 3))]))
     (EFI_SUCCESS, Pressed)"

definition Axp81XProbePreSysMode ::
  "'d axp_pm_bus_ops \<Rightarrow> u64 \<Rightarrow> 'd \<Rightarrow> (efi_status \<times> u64) \<times> 'd" where
  "Axp81XProbePreSysMode ops Status = c_fun
     (pm_rd ops AXP81X_ADDR BOOT_POWER81X_DATA_BUFFER11 (EFI_DEVICE_ERROR, Status) (\<lambda>RegValue.
      c_return (EFI_SUCCESS, ucast RegValue)))
     (EFI_SUCCESS, Status)"

definition Axp81XSetNextSysMode :: "'d axp_pm_bus_ops \<Rightarrow> u64 \<Rightarrow> 'd \<Rightarrow> efi_status \<times> 'd" where
  "Axp81XSetNextSysMode ops Status = c_fun
     (pm_wr ops AXP81X_ADDR BOOT_POWER81X_DATA_BUFFER11 (ucast Status) EFI_DEVICE_ERROR)
     EFI_SUCCESS"

definition Axp81XProbeThisPowerOnCause ::
  "'d axp_pm_bus_ops \<Rightarrow> u64 \<Rightarrow> 'd \<Rightarrow> (efi_status \<times> u64) \<times> 'd" where
  "Axp81XProbeThisPowerOnCause ops Status = c_fun
     (pm_rd ops AXP81X_ADDR BOOT_POWER81X_STATUS (EFI_DEVICE_ERROR, Status) (\<lambda>RegValue.
      c_return (EFI_SUCCESS, ucast (RegValue AND 0x01))))
     (EFI_SUCCESS, Status)"

definition Axp81XSetPowerOff :: "'d axp_pm_bus_ops \<Rightarrow> 'd \<Rightarrow> efi_status \<times> 'd" where
  "Axp81XSetPowerOff ops = c_fun
     (pm_rd ops AXP81X_ADDR BOOT_POWER81X_OFF_CTL EFI_DEVICE_ERROR (\<lambda>RegValue.
      pm_wr ops AXP81X_ADDR BOOT_POWER81X_OFF_CTL (RegValue OR push_bit 7 1) EFI_DEVICE_ERROR))
     EFI_SUCCESS"

definition Axp81XSetPowerOnoffVoltage ::
  "'d axp_pm_bus_ops \<Rightarrow> u64 \<Rightarrow> u64 \<Rightarrow> 'd \<Rightarrow> efi_status \<times> 'd" where
  "Axp81XSetPowerOnoffVoltage ops Voltage Stage =
     (let Voltage = (if Voltage = 0 then if Stage = 0 then 3300 else 2900 else Voltage) in
      c_fun
       (pm_rd ops AXP81X_ADDR BOOT_POWER81X_VOFF_SET EFI_DEVICE_ERROR (\<lambda>RegValue.
        pm_wr ops AXP81X_ADDR BOOT_POWER81X_VOFF_SET
          ((RegValue AND 0xf8) OR
           (if Voltage \<ge> 2600 \<and> Voltage \<le> 3300 then ucast ((Voltage - 2600) div 100)
            else if Voltage \<le> 2600 then 0x00 else 0x07)) EFI_DEVICE_ERROR))
       EFI_SUCCESS)"

section \<open>Charge current and USB input limits\<close>

definition Axp81XSetChargeCurrent :: "'d axp_pm_bus_ops \<Rightarrow> u64 \<Rightarrow> 'd \<Rightarrow> efi_status \<times> 'd" where
  "Axp81XSetChargeCurrent ops Current = c_fun
     (pm_rd ops AXP81X_ADDR BOOT_POWER81X_CHARGE1 EFI_DEVICE_ERROR (\<lambda>RegValue.
      let Current = (if Current > 2800 then 2800 else if Current < 200 then 200 else Current);
          step = Current div 200 - 1 in
      pm_wr ops AXP81X_ADDR BOOT_POWER81X_CHARGE1
        ((RegValue AND NOT 0x0f) OR ucast (step AND 0x0f)) EFI_DEVICE_ERROR))
     EFI_SUCCESS"

definition Axp81XProbeChargeCurrent ::
  "'d axp_pm_bus_ops \<Rightarrow> u64 \<Rightarrow> 'd \<Rightarrow> (efi_status \<times> u64) \<times> 'd" where
  "Axp81XProbeChargeCurrent ops Current = c_fun
     (pm_rd ops AXP81X_ADDR BOOT_POWER81X_CHARGE1 (EFI_DEVICE_ERROR, Current) (\<lambda>RegValue.
      c_return (EFI_SUCCESS, (ucast (RegValue AND 0x0f) + 1) * 200)))
     (EFI_SUCCESS, Current)"

definition Axp81XSetVbusCurrentLimit :: "'d axp_pm_bus_ops \<Rightarrow> u64 \<Rightarrow> 'd \<Rightarrow> efi_status \<times> 'd" where
  "Axp81XSetVbusCurrentLimit ops Current = c_fun
     (pm_rd ops AXP81X_ADDR BOOT_POWER81X_VBUS_SET EFI_DEVICE_ERROR (\<lambda>RegValue.
      pm_wr ops AXP81X_ADDR BOOT_POWER81X_VBUS_SET
        ((RegValue AND 0xfC) OR (if Current = 0 then 0x03 else if Current \<le> 500 then 0x01 else 0))
        EFI_DEVICE_ERROR))
     EFI_SUCCESS"

definition Axp81XProbeVbusCurrentLimit ::
  "'d axp_pm_bus_ops \<Rightarrow> u64 \<Rightarrow> 'd \<Rightarrow> (efi_status \<times> u64) \<times> 'd" where
  "Axp81XProbeVbusCurrentLimit ops Current = c_fun
     (pm_rd ops AXP81X_ADDR BOOT_POWER81X_VBUS_SET (EFI_DEVICE_ERROR, Current) (\<lambda>RegValue.
      let RegValue = RegValue AND 0x3 in
      c_return (EFI_SUCCESS, if RegValue = 0 then 900 else if RegValue = 0x1 then 500 else 0)))
     (EFI_SUCCESS, Current)"

definition Axp81XSetVbusVoltagelimit :: "'d axp_pm_bus_ops \<Rightarrow> u64 \<Rightarrow> 'd \<Rightarrow> efi_status \<times> 'd" where
  "Axp81XSetVbusVoltagelimit ops Voltage = c_fun
     (pm_rd ops AXP81X_ADDR BOOT_POWER81X_VBUS_SET EFI_DEVICE_ERROR (\<lambda>RegValue.
      let RegValue = RegValue AND NOT (push_bit 3 7) in
      pm_wr ops AXP81X_ADDR BOOT_POWER81X_VBUS_SET
        (if Voltage = 0 then RegValue AND NOT (push_bit 6 1)
         else let Voltage = (if Voltage < 4000 then 4000 else if Voltage > 4700 then 4700 else Voltage)
              in RegValue OR ucast (push_bit 3 ((Voltage - 4000) div 100)))
        EFI_DEVICE_ERROR))
     EFI_SUCCESS"

section \<open>Interrupt sources\<close>

text \<open>
  The seven sources in the order of the code: index of the status or enable register, bit
  number, and the driver's mask. The C chains of \<open>if\<close> statements run over this table:
  \<open>and_chain\<close> is \<open>if (v[i] &= 1<<n) mask |= m;\<close> (the assignment changes \<open>v[i]\<close>), \<open>or_bits\<close> is
  \<open>if (mask & m) v[i] |= 1<<n;\<close> and \<open>clear_bits\<close> is \<open>if (mask & m) v[i] &= ~1<<n;\<close>, where
  \<open>~1<<n\<close> is \<open>(~1)<<n\<close>.
\<close>

definition int_sources :: "(nat \<times> nat \<times> u64) list" where
  "int_sources =
     [(0, 5, AXP_INT_MASK_AC_REMOVE), (0, 6, AXP_INT_MASK_AC_INSERT),
      (0, 2, AXP_INT_MASK_VBUS_REMOVE), (0, 3, AXP_INT_MASK_VBUS_INSERT),
      (1, 2, AXP_INT_MASK_CHARGE_DONE),
      (4, 3, AXP_INT_MASK_LONG_KEY_PRESS), (4, 4, AXP_INT_MASK_SHORT_KEY_PRESS)]"

fun and_chain :: "(nat \<times> nat \<times> u64) list \<Rightarrow> u8 list \<Rightarrow> u64 \<Rightarrow> u64" where
  "and_chain [] v IntMask = IntMask"
| "and_chain ((i, n, m) # rest) v IntMask =
     (let x = v ! i AND push_bit n 1
      in and_chain rest (v[i := x]) (if x \<noteq> 0 then IntMask OR m else IntMask))"

fun or_bits :: "(nat \<times> nat \<times> u64) list \<Rightarrow> u64 \<Rightarrow> u8 list \<Rightarrow> u8 list" where
  "or_bits [] IntMask v = v"
| "or_bits ((i, n, m) # rest) IntMask v =
     or_bits rest IntMask (if IntMask AND m \<noteq> 0 then v[i := v ! i OR push_bit n 1] else v)"

fun clear_bits :: "(nat \<times> nat \<times> u64) list \<Rightarrow> u64 \<Rightarrow> u8 list \<Rightarrow> u8 list" where
  "clear_bits [] IntMask v = v"
| "clear_bits ((i, n, m) # rest) IntMask v =
     clear_bits rest IntMask (if IntMask AND m \<noteq> 0 then v[i := v ! i AND push_bit n (NOT 1)] else v)"

text \<open>\<open>IntValue\<close> is the array before it is filled: the C code does not initialise it.\<close>

definition Axp81XProbeIntPending ::
  "'d axp_pm_bus_ops \<Rightarrow> u8 list \<Rightarrow> 'd \<Rightarrow> (efi_status \<times> u64) \<times> 'd" where
  "Axp81XProbeIntPending ops IntValue d =
     (case Axp81XProbeIntPending_regs ops IntValue d of (Status, v, d') \<Rightarrow>
        if Status \<noteq> 0 then ((Status, 0), d')
        else ((EFI_SUCCESS, and_chain int_sources v 0), d'))"

definition Axp81XProbeIntEnable ::
  "'d axp_pm_bus_ops \<Rightarrow> u64 \<Rightarrow> 'd \<Rightarrow> (efi_status \<times> u64) \<times> 'd" where
  "Axp81XProbeIntEnable ops IntMask d =
     (case Axp81XProbeIntEnable_regs ops (replicate 8 0) d of (Status, v, d') \<Rightarrow>
        if Status \<noteq> 0 then ((Status, IntMask), d')
        else ((EFI_SUCCESS, and_chain int_sources v IntMask), d'))"

definition Axp81XSetIntEnable :: "'d axp_pm_bus_ops \<Rightarrow> u64 \<Rightarrow> 'd \<Rightarrow> efi_status \<times> 'd" where
  "Axp81XSetIntEnable ops IntMask d =
     (case Axp81XProbeIntEnable_regs ops (replicate 8 0) d of (Status, v, d') \<Rightarrow>
        if Status \<noteq> 0 then (Status, d')
        else Axp81XSetIntEnable_regs ops (or_bits int_sources IntMask v) d')"

definition Axp81XSetIntDisable :: "'d axp_pm_bus_ops \<Rightarrow> u64 \<Rightarrow> 'd \<Rightarrow> efi_status \<times> 'd" where
  "Axp81XSetIntDisable ops IntMask d =
     (case Axp81XProbeIntEnable_regs ops (replicate 8 0) d of (Status, v, d') \<Rightarrow>
        if Status \<noteq> 0 then (Status, d')
        else Axp81XSetIntEnable_regs ops (clear_bits int_sources IntMask v) d')"

definition Axp81XSetCoulombmeterOnOff :: "'d axp_pm_bus_ops \<Rightarrow> u64 \<Rightarrow> 'd \<Rightarrow> efi_status \<times> 'd" where
  "Axp81XSetCoulombmeterOnOff ops OnOff = c_fun
     (pm_rd ops AXP81X_ADDR BOOT_POWER81X_FUEL_GAUGE_CTL EFI_DEVICE_ERROR (\<lambda>RegValue.
      pm_wr ops AXP81X_ADDR BOOT_POWER81X_FUEL_GAUGE_CTL
        (if OnOff = 0 then RegValue AND NOT (push_bit 7 0x01) else RegValue OR push_bit 7 0x01)
        EFI_DEVICE_ERROR))
     0"

section \<open>Settings that share a register\<close>

definition charge_regs :: "u8 set" where
  "charge_regs = {BOOT_POWER81X_ADC_EN, BOOT_POWER81X_CHARGE1}"

text \<open>The chip's charge current for a request, in mA.\<close>

definition charge_ma :: "u64 \<Rightarrow> u64" where
  "charge_ma Current = (if Current > 2800 then 2800 else if Current < 200 then 200 else Current) div 200 * 200"

lemma charge_step:
  fixes Current :: u64
  defines "c \<equiv> (if Current > 2800 then 2800 else if Current < 200 then 200 else Current)"
  shows "(ucast (ucast ((c div 200 - 1) AND 0x0f) :: u8) + 1) * 200 = charge_ma Current"
proof -
  have c: "200 \<le> unat c" "unat c \<le> 2800"
    by (auto simp: c_def word_less_nat_alt not_less)
  define q where "q = unat c div 200"
  have q: "1 \<le> q" "q \<le> 14" using c by (simp_all add: q_def)
  have "c div 200 = of_nat q"
    using word_arith_nat_div [of c 200] by (simp add: q_def)
  moreover have "q \<in> {1,2,3,4,5,6,7,8,9,10,11,12,13,14}" using q by (simp only: insert_iff empty_iff) presburger
  ultimately show ?thesis by (auto simp: charge_ma_def c_def [symmetric])
qed

text \<open>
  A successful \<open>Axp81XSetChargeCurrent\<close> followed by a successful
  \<open>Axp81XProbeChargeCurrent\<close>, with the charger switched on or off in between, returns the
  request clamped to 200..2800 mA and rounded down to a multiple of 200; the charger's
  enable bit is as \<open>Axp81XSetChargerOnOff\<close> set it.
\<close>

theorem charge_current_round_trip:
  assumes bus: "register_bus ops reg cfg" and cfg: "charge_regs \<subseteq> cfg"
    and set: "Axp81XSetChargeCurrent ops Current d = (0, d1)"
    and onoff: "Axp81XSetChargerOnOff ops OnOff d1 = (0, d2)"
    and probe: "Axp81XProbeChargeCurrent ops x d2 = ((0, y), d3)"
  shows "y = charge_ma Current \<and> bit (reg d2 BOOT_POWER81X_CHARGE1) 7 = (OnOff \<noteq> 0)"
proof -
  let ?c = BOOT_POWER81X_CHARGE1
  have c: "BOOT_POWER81X_ADC_EN \<in> cfg" "?c \<in> cfg" using cfg by (auto simp: charge_regs_def)
  have 1: "reg d1 ?c = (reg d ?c AND NOT 0x0f) OR ucast
      (((if Current > 2800 then 2800 else if Current < 200 then 200 else Current) div 200 - 1) AND 0x0f)"
    using register_bus.rmw_fun(2) [OF bus set [unfolded Axp81XSetChargeCurrent_def Let_def] c(2)] by simp
  obtain d' where adc: "c_fun (pm_rd ops AXP81X_ADDR BOOT_POWER81X_ADC_EN EFI_DEVICE_ERROR (\<lambda>r.
      pm_wr ops AXP81X_ADDR BOOT_POWER81X_ADC_EN (r OR 0xC0) EFI_DEVICE_ERROR)) EFI_SUCCESS d1 = (EFI_SUCCESS, d')"
    and chg: "c_fun (pm_rd ops AXP81X_ADDR ?c EFI_DEVICE_ERROR (\<lambda>r.
      pm_wr ops AXP81X_ADDR ?c (if OnOff \<noteq> 0 then r OR 0x80 else r AND NOT 0x80) EFI_DEVICE_ERROR))
      EFI_SUCCESS d' = (0, d2)"
    by (rule rmw_then [OF onoff [unfolded Axp81XSetChargerOnOff_def]]) auto
  have 2: "reg d2 ?c = (if OnOff \<noteq> 0 then reg d1 ?c OR 0x80 else reg d1 ?c AND NOT 0x80)"
    using register_bus.rmw_fun(2) [OF bus chg c(2)] register_bus.rmw_fun(1) [OF bus adc c(1) c(2)] by simp
  have "y = (ucast (reg d2 ?c AND 0x0f) + 1) * 200"
    using register_bus.rd_fun(2) [OF bus probe [unfolded Axp81XProbeChargeCurrent_def] c(2)] by simp
  moreover have "reg d2 ?c AND 0x0f = reg d1 ?c AND 0x0f"
    unfolding 2 using or_frame [of "0x80 :: u8" "0x0f"] clear_frame [of "0x80 :: u8" "0x0f"] by simp
  moreover have "reg d1 ?c AND 0x0f =
      ucast (((if Current > 2800 then 2800 else if Current < 200 then 200 else Current) div 200 - 1) AND 0x0f)"
    unfolding 1 by (rule bitfield_read) (use ucast_and_mask [where 'a = 8 and 'b = 64 and n = 4] in \<open>simp add: mask_eq_exp_minus_1\<close>)
  moreover have "bit (reg d2 ?c) 7 = (OnOff \<noteq> 0)"
    unfolding 2 by (auto simp: bit_simps)
  ultimately show ?thesis using charge_step [of Current] by simp
qed

theorem charge_current_round_trip_witness:
  "fst (Axp81XProbeChargeCurrent mem_bus 0
     (snd (Axp81XSetChargerOnOff mem_bus 1 (snd (Axp81XSetChargeCurrent mem_bus 1350 (\<lambda>_. 0)))))) = (0, 1200)"
proof -
  let ?d1 = "snd (Axp81XSetChargeCurrent mem_bus 1350 (\<lambda>_. 0))"
  let ?d2 = "snd (Axp81XSetChargerOnOff mem_bus 1 ?d1)"
  let ?p = "Axp81XProbeChargeCurrent mem_bus 0 ?d2"
  have st: "fst (Axp81XSetChargeCurrent mem_bus 1350 (\<lambda>_. 0)) = 0"
    "fst (Axp81XSetChargerOnOff mem_bus 1 ?d1) = 0" "fst (fst ?p) = 0" by code_simp+
  have runs: "Axp81XSetChargeCurrent mem_bus 1350 (\<lambda>_. 0) = (0, ?d1)"
    "Axp81XSetChargerOnOff mem_bus 1 ?d1 = (0, ?d2)" "?p = ((0, snd (fst ?p)), snd ?p)"
    using st by (metis prod.collapse)+
  have "snd (fst ?p) = charge_ma 1350"
    using charge_current_round_trip [OF mem.register_bus_axioms subset_UNIV runs] by blast
  moreover have "charge_ma 1350 = 1200" by code_simp
  ultimately show ?thesis using st(3) by (metis prod.collapse)
qed

text \<open>The voltage limit as a function on the register, and the fields it leaves alone.\<close>

definition put_vbus_voltage :: "u64 \<Rightarrow> u8 \<Rightarrow> u8" where
  "put_vbus_voltage Voltage r =
     (let r = r AND NOT (push_bit 3 7) in
      if Voltage = 0 then r AND NOT (push_bit 6 1)
      else let Voltage = (if Voltage < 4000 then 4000 else if Voltage > 4700 then 4700 else Voltage)
           in r OR ucast (push_bit 3 ((Voltage - 4000) div 100)))"

lemma SetVbusVoltagelimit_alt:
  "Axp81XSetVbusVoltagelimit ops Voltage = c_fun
     (pm_rd ops AXP81X_ADDR BOOT_POWER81X_VBUS_SET EFI_DEVICE_ERROR (\<lambda>r.
      pm_wr ops AXP81X_ADDR BOOT_POWER81X_VBUS_SET (put_vbus_voltage Voltage r) EFI_DEVICE_ERROR))
     EFI_SUCCESS"
  by (simp add: Axp81XSetVbusVoltagelimit_def put_vbus_voltage_def Let_def)

lemma put_vbus_voltage_low: "put_vbus_voltage Voltage r AND 3 = r AND 3"
proof -
  have "(ucast (push_bit 3 x :: u64) :: u8) AND mask 2 = 0" for x
    by (auto simp: bit_eq_iff bit_simps)
  then have high: "(ucast (push_bit 3 x :: u64) :: u8) AND 3 = 0" for x
    by (simp add: mask_eq_exp_minus_1)
  have clear: "(r AND NOT (push_bit 3 7)) AND 3 = r AND 3" "(r AND NOT (push_bit 6 1)) AND 3 = r AND 3" for r :: u8
    by (rule clear_frame, simp)+
  show ?thesis
    using or_frame [OF high]
    by (simp add: put_vbus_voltage_def Let_def clear del: push_bit_numeral push_bit_of_1)
qed

text \<open>
  The USB input settings share \<open>VBUS_SET\<close> and do not disturb each other: after
  \<open>Axp81XSetVbusCurrentLimit\<close>, then \<open>Axp81XSetVbusVoltagelimit\<close>, a successful
  \<open>Axp81XProbeVbusCurrentLimit\<close> returns 0 (no limit) for the request 0, 500 for requests up
  to 500 mA and 900 above.
\<close>

theorem vbus_limit_round_trip:
  assumes bus: "register_bus ops reg cfg" and c: "BOOT_POWER81X_VBUS_SET \<in> cfg"
    and cur: "Axp81XSetVbusCurrentLimit ops Current d = (0, d1)"
    and vol: "Axp81XSetVbusVoltagelimit ops Voltage d1 = (st, d2)"
    and probe: "Axp81XProbeVbusCurrentLimit ops x d2 = ((0, y), d3)"
  shows "y = (if Current = 0 then 0 else if Current \<le> 500 then 500 else 900)"
proof -
  let ?c = BOOT_POWER81X_VBUS_SET
  have fc: "(0xfC :: u8) = NOT 3" by simp
  have 1: "reg d1 ?c = (reg d ?c AND 0xfC) OR (if Current = 0 then 0x03 else if Current \<le> 500 then 0x01 else 0)"
    using register_bus.rmw_fun(2) [OF bus cur [unfolded Axp81XSetVbusCurrentLimit_def] c] by simp
  have "reg d2 ?c \<in> {reg d1 ?c, put_vbus_voltage Voltage (reg d1 ?c)}"
    using register_bus.rmw_fun(3) [OF bus vol [unfolded SetVbusVoltagelimit_alt] c] .
  then have "reg d2 ?c AND 3 = reg d1 ?c AND 3" by (auto simp: put_vbus_voltage_low)
  moreover have "reg d1 ?c AND 3 = (if Current = 0 then 0x03 else if Current \<le> 500 then 0x01 else 0)"
    unfolding 1 fc by (rule bitfield_read) simp
  moreover have "y = (let r = reg d2 ?c AND 0x3 in if r = 0 then 900 else if r = 0x1 then 500 else 0)"
    using register_bus.rd_fun(2) [OF bus probe [unfolded Axp81XProbeVbusCurrentLimit_def Let_def] c]
    by (simp add: Let_def)
  ultimately show ?thesis by auto
qed

theorem vbus_limit_round_trip_witness:
  "fst (Axp81XProbeVbusCurrentLimit mem_bus 0
     (snd (Axp81XSetVbusVoltagelimit mem_bus 4500 (snd (Axp81XSetVbusCurrentLimit mem_bus 300 (\<lambda>_. 0)))))) = (0, 500)"
proof -
  let ?d1 = "snd (Axp81XSetVbusCurrentLimit mem_bus 300 (\<lambda>_. 0))"
  let ?d2 = "snd (Axp81XSetVbusVoltagelimit mem_bus 4500 ?d1)"
  let ?p = "Axp81XProbeVbusCurrentLimit mem_bus 0 ?d2"
  have st: "fst (Axp81XSetVbusCurrentLimit mem_bus 300 (\<lambda>_. 0)) = 0" "fst (fst ?p) = 0" by code_simp+
  have runs: "Axp81XSetVbusCurrentLimit mem_bus 300 (\<lambda>_. 0) = (0, ?d1)"
    "Axp81XSetVbusVoltagelimit mem_bus 4500 ?d1 = (fst (Axp81XSetVbusVoltagelimit mem_bus 4500 ?d1), ?d2)"
    "?p = ((0, snd (fst ?p)), snd ?p)"
    using st by (metis prod.collapse)+
  have "snd (fst ?p) = 500"
    using vbus_limit_round_trip [OF mem.register_bus_axioms UNIV_I runs] by simp
  then show ?thesis using st(2) by (metis prod.collapse)
qed

text \<open>
  \<open>Axp81XSetVbusVoltagelimit\<close> clears the enable bit of the voltage limit (bit 6 of
  \<open>VBUS_SET\<close>) for a request of 0 and never sets it: a limit requested while the bit is clear
  does not take effect. Otherwise bits 3..5 get the clamped request in steps of 100 mV.
\<close>

theorem vbus_voltage_limit_never_enabled:
  assumes bus: "register_bus ops reg cfg" and c: "BOOT_POWER81X_VBUS_SET \<in> cfg"
    and run: "Axp81XSetVbusVoltagelimit ops Voltage d = (0, d')"
  defines "r \<equiv> reg d BOOT_POWER81X_VBUS_SET" and "r' \<equiv> reg d' BOOT_POWER81X_VBUS_SET"
  shows "bit r' 6 = (bit r 6 \<and> Voltage \<noteq> 0) \<and>
    drop_bit 3 r' AND 7 = (if Voltage = 0 then 0 else ucast ((min 4700 (max 4000 Voltage) - 4000) div 100))"
proof -
  have r': "r' = put_vbus_voltage Voltage r"
    using register_bus.rmw_fun(2) [OF bus run [unfolded SetVbusVoltagelimit_alt] c]
    by (simp add: r_def r'_def)
  show ?thesis
  proof (cases "Voltage = 0")
    case True
    have "drop_bit 3 ((r AND NOT (push_bit 3 (mask 3))) AND NOT (push_bit 6 1)) AND mask 3 = 0"
      by (rule bit_word_eqI) (auto simp: bit_simps)
    then show ?thesis using True r' by (simp add: put_vbus_voltage_def mask_eq_exp_minus_1 bit_simps)
  next
    case False
    let ?v = "min 4700 (max 4000 Voltage)"
    define q where "q = (?v - 4000) div 100"
    have v: "(if Voltage < 4000 then 4000 else if Voltage > 4700 then 4700 else Voltage) = ?v"
      by (auto simp: min_def max_def)
    have "4000 \<le> ?v" "?v \<le> 4700" by (auto simp: min_def max_def)
    then have "unat (?v - 4000) \<le> 700" by (auto simp: unat_sub word_le_nat_alt)
    then have "unat q < 8" by (simp add: q_def unat_div)
    then have "q < 2 ^ 3" by (simp add: word_less_nat_alt)
    then have "q AND mask 3 = q" by (rule less_mask_eq)
    then have b: "bit q n \<Longrightarrow> n < 3" for n by (metis bit_and_iff bit_mask_iff)
    let ?r = "(r AND NOT (push_bit 3 (mask 3))) OR ucast (push_bit 3 q)"
    have "drop_bit 3 ?r AND mask 3 = ucast q"
      by (rule bit_word_eqI) (auto simp: bit_simps dest: b)
    moreover have "bit ?r 6 = bit r 6" using b [of 3] by (auto simp: bit_simps)
    moreover have "r' = ?r"
      using False by (simp add: r' put_vbus_voltage_def v q_def mask_eq_exp_minus_1)
    ultimately show ?thesis using False by (simp add: q_def mask_eq_exp_minus_1)
  qed
qed

theorem vbus_voltage_limit_never_enabled_witness:
  "\<not> bit (snd (Axp81XSetVbusVoltagelimit mem_bus 4500 (\<lambda>_. 0)) BOOT_POWER81X_VBUS_SET) 6"
proof -
  let ?run = "Axp81XSetVbusVoltagelimit mem_bus 4500 (\<lambda>_. 0)"
  have "fst ?run = 0" by code_simp
  then have "?run = (0, snd ?run)" by (metis prod.collapse)
  from vbus_voltage_limit_never_enabled [OF mem.register_bus_axioms UNIV_I this] show ?thesis by simp
qed

section \<open>Detection and interrupt enables\<close>

definition int_regs :: "u8 set" where
  "int_regs = (\<lambda>i. BOOT_POWER81X_INTEN1 + of_nat i) ` {0..<5}"

lemma inten_distinct: "distinct (map (\<lambda>i. BOOT_POWER81X_INTEN1 + of_nat i :: u8) [0..<5])"
  by code_simp

lemma or_bits_bit:
  assumes "\<forall>(i, n, m) \<in> set T. i < length v" and "k < length v" and "b < 8"
  shows "bit (or_bits T IntMask v ! k) b =
    (bit (v ! k) b \<or> (\<exists>m. (k, b, m) \<in> set T \<and> IntMask AND m \<noteq> 0))"
  using assms
proof (induction T arbitrary: v)
  case (Cons x T)
  obtain i n m where x: "x = (i, n, m)" by (cases x)
  have "\<forall>(i, n, m) \<in> set T. i < length v" using Cons.prems(1) by auto
  then show ?case
    using Cons x by (auto simp: nth_list_update bit_simps)
qed simp

lemma or_bits_length [simp]: "length (or_bits T IntMask v) = length v"
  by (induction T IntMask v rule: or_bits.induct) simp_all

lemma clear_bits_bit:
  assumes "\<forall>(i, n, m) \<in> set T. i < length v" and "k < length v" and "b < 8"
  shows "bit (clear_bits T IntMask v ! k) b =
    (bit (v ! k) b \<and> \<not> (\<exists>n m. (k, n, m) \<in> set T \<and> b \<le> n \<and> IntMask AND m \<noteq> 0))"
  using assms
proof (induction T arbitrary: v)
  case (Cons x T)
  obtain i n m where x: "x = (i, n, m)" by (cases x)
  have "bit (push_bit n (NOT 1) :: u8) b = (\<not> b \<le> n)"
    using \<open>b < 8\<close> by (auto simp: bit_simps)
  moreover have "\<forall>(i, n, m) \<in> set T. i < length v" using Cons.prems(1) by auto
  ultimately show ?case
    using Cons x by (auto simp: nth_list_update bit_and_iff)
qed simp

lemma int_sources_range: "\<forall>(i, n, m) \<in> set int_sources. i < 5 \<and> n < 8"
  by (simp add: int_sources_def)

text \<open>Reading the enable registers, and writing back a changed copy.\<close>

lemma inten_read:
  assumes bus: "register_bus ops reg cfg" and cfg: "int_regs \<subseteq> cfg"
    and run: "Axp81XProbeIntEnable_regs ops (replicate 8 0) d = (st, v, d')"
  shows "length v = 8" and "b \<in> cfg \<Longrightarrow> reg d' b = reg d b"
    and "st = 0 \<Longrightarrow> k < 5 \<Longrightarrow> v ! k = reg d (BOOT_POWER81X_INTEN1 + of_nat k)"
proof -
  obtain okf where rd: "pm_rd_all ops AXP81X_ADDR BOOT_POWER81X_INTEN1 [0..<5] (replicate 8 0) d = (okf, v, d')"
    and st: "st = 0 \<longleftrightarrow> okf"
    using run by (auto simp: Axp81XProbeIntEnable_regs_def EFI_SUCCESS_def split: prod.splits if_splits)
  show "length v = 8" using pm_rd_all_length [OF rd] by simp
  show "b \<in> cfg \<Longrightarrow> reg d' b = reg d b" using register_bus.rd_all_keeps [OF bus rd] .
  assume "st = 0" and k: "k < 5"
  then have "pm_rd_all ops AXP81X_ADDR BOOT_POWER81X_INTEN1 [0..<5] (replicate 8 0) d = (True, v, d')"
    using rd st by simp
  from register_bus.rd_all_value [OF bus this, of k] cfg k
  show "v ! k = reg d (BOOT_POWER81X_INTEN1 + of_nat k)" by (auto simp: int_regs_def)
qed

lemma inten_write:
  assumes bus: "register_bus ops reg cfg" and cfg: "int_regs \<subseteq> cfg"
    and run: "Axp81XSetIntEnable_regs ops v d = (st, d')"
  shows "b \<in> cfg \<Longrightarrow> b \<notin> int_regs \<Longrightarrow> reg d' b = reg d b"
    and "st = 0 \<Longrightarrow> k < 5 \<Longrightarrow> reg d' (BOOT_POWER81X_INTEN1 + of_nat k) = v ! k"
proof -
  obtain r where wr: "pm_wr_all ops AXP81X_ADDR BOOT_POWER81X_INTEN1 ((!) v) [0..<5] EFI_DEVICE_ERROR d = (r, d')"
    and r: "(case r of None \<Rightarrow> EFI_SUCCESS | Some x \<Rightarrow> x) = st"
    using run by (auto simp: Axp81XSetIntEnable_regs_def c_fun_def split: prod.splits option.splits)
  show "b \<in> cfg \<Longrightarrow> b \<notin> int_regs \<Longrightarrow> reg d' b = reg d b"
    using register_bus.wr_all_frame [OF bus wr] by (auto simp: int_regs_def)
  assume st: "st = 0" and k: "k < 5"
  have "r = None \<or> r = Some EFI_DEVICE_ERROR" using pm_wr_all_result [OF wr] .
  then have "pm_wr_all ops AXP81X_ADDR BOOT_POWER81X_INTEN1 ((!) v) [0..<5] EFI_DEVICE_ERROR d = (None, d')"
    using r st wr by auto
  moreover have "\<forall>i\<in>set [0..<5]. BOOT_POWER81X_INTEN1 + of_nat i \<in> cfg"
    using cfg unfolding int_regs_def by fastforce
  ultimately show "reg d' (BOOT_POWER81X_INTEN1 + of_nat k) = v ! k"
    using register_bus.wr_all_value [OF bus _ _ inten_distinct] k by simp
qed

text \<open>
  A successful \<open>Axp81XSetIntEnable\<close> sets in the five enable registers exactly the bits of
  the requested sources and keeps every other bit; no other register changes, whatever the
  bus does.
\<close>

theorem int_enable_effect:
  assumes bus: "register_bus ops reg cfg" and cfg: "int_regs \<subseteq> cfg"
    and run: "Axp81XSetIntEnable ops IntMask d = (st, d')"
  shows "(st = 0 \<longrightarrow> (\<forall>k < 5. \<forall>b < 8. bit (reg d' (BOOT_POWER81X_INTEN1 + of_nat k)) b =
       (bit (reg d (BOOT_POWER81X_INTEN1 + of_nat k)) b \<or>
        (\<exists>m. (k, b, m) \<in> set int_sources \<and> IntMask AND m \<noteq> 0)))) \<and>
     (\<forall>a \<in> cfg - int_regs. reg d' a = reg d a)"
proof -
  obtain st1 v d1 where rd: "Axp81XProbeIntEnable_regs ops (replicate 8 0) d = (st1, v, d1)"
    by (cases "Axp81XProbeIntEnable_regs ops (replicate 8 0) d") auto
  note r = inten_read [OF bus cfg rd]
  show ?thesis
  proof (cases "st1 = 0")
    case True
    then have wr: "Axp81XSetIntEnable_regs ops (or_bits int_sources IntMask v) d1 = (st, d')"
      using run rd by (simp add: Axp81XSetIntEnable_def)
    have "\<forall>(i, n, m) \<in> set int_sources. i < length v" using int_sources_range r(1) by auto
    from or_bits_bit [OF this] inten_write [OF bus cfg wr] r True show ?thesis by simp
  next
    case False
    then show ?thesis using run rd r(2) by (simp add: Axp81XSetIntEnable_def)
  qed
qed

theorem int_enable_effect_witness:
  "bit (snd (Axp81XSetIntEnable mem_bus AXP_INT_MASK_VBUS_INSERT (\<lambda>_. 0)) BOOT_POWER81X_INTEN1) 3"
proof -
  let ?run = "Axp81XSetIntEnable mem_bus AXP_INT_MASK_VBUS_INSERT (\<lambda>_. 0)"
  have st: "fst ?run = 0" by code_simp
  have "(0, 3, AXP_INT_MASK_VBUS_INSERT) \<in> set int_sources" by (simp add: int_sources_def)
  then show ?thesis
    using int_enable_effect [OF mem.register_bus_axioms subset_UNIV prod.collapse [of ?run, symmetric],
        THEN conjunct1, rule_format, OF st, of 0 3] by auto
qed

text \<open>
  A successful \<open>Axp81XSetIntDisable\<close> clears the bits of the requested sources and, because
  the code computes \<open>(~1)<<n\<close> in place of \<open>~(1<<n)\<close>, every lower bit of the same register: the
  other sources with lower bit numbers are disabled too. Higher bits keep their value.
\<close>

theorem int_disable_effect:
  assumes bus: "register_bus ops reg cfg" and cfg: "int_regs \<subseteq> cfg"
    and run: "Axp81XSetIntDisable ops IntMask d = (st, d')"
  shows "(st = 0 \<longrightarrow> (\<forall>k < 5. \<forall>b < 8. bit (reg d' (BOOT_POWER81X_INTEN1 + of_nat k)) b =
       (bit (reg d (BOOT_POWER81X_INTEN1 + of_nat k)) b \<and>
        \<not> (\<exists>n m. (k, n, m) \<in> set int_sources \<and> b \<le> n \<and> IntMask AND m \<noteq> 0)))) \<and>
     (\<forall>a \<in> cfg - int_regs. reg d' a = reg d a)"
proof -
  obtain st1 v d1 where rd: "Axp81XProbeIntEnable_regs ops (replicate 8 0) d = (st1, v, d1)"
    by (cases "Axp81XProbeIntEnable_regs ops (replicate 8 0) d") auto
  note r = inten_read [OF bus cfg rd]
  show ?thesis
  proof (cases "st1 = 0")
    case True
    then have wr: "Axp81XSetIntEnable_regs ops (clear_bits int_sources IntMask v) d1 = (st, d')"
      using run rd by (simp add: Axp81XSetIntDisable_def)
    have "\<forall>(i, n, m) \<in> set int_sources. i < length v" using int_sources_range r(1) by auto
    from clear_bits_bit [OF this] inten_write [OF bus cfg wr] r True show ?thesis by simp
  next
    case False
    then show ?thesis using run rd r(2) by (simp add: Axp81XSetIntDisable_def)
  qed
qed

theorem int_disable_effect_witness:
  "\<not> bit (snd (Axp81XSetIntDisable mem_bus AXP_INT_MASK_AC_REMOVE (\<lambda>_. 0xff)) BOOT_POWER81X_INTEN1) 3"
proof -
  let ?run = "Axp81XSetIntDisable mem_bus AXP_INT_MASK_AC_REMOVE (\<lambda>_. 0xff)"
  have st: "fst ?run = 0" by code_simp
  have "\<exists>n m. (0, n, m) \<in> set int_sources \<and> 3 \<le> n \<and> AXP_INT_MASK_AC_REMOVE AND m \<noteq> 0"
    by (rule exI [of _ 5], rule exI [of _ 1]) (simp add: int_sources_def)
  then show ?thesis
    using int_disable_effect [OF mem.register_bus_axioms subset_UNIV prod.collapse [of ?run, symmetric],
        THEN conjunct1, rule_format, OF st, of 0 3] by auto
qed

section \<open>Reported interrupts\<close>

lemma and_chain_sources:
  assumes "length v = 8"
  shows "and_chain int_sources v IntMask = IntMask OR
    ((if bit (v ! 0) 5 then AXP_INT_MASK_AC_REMOVE else 0) OR
    (if bit (v ! 1) 2 then AXP_INT_MASK_CHARGE_DONE else 0) OR
    (if bit (v ! 4) 3 then AXP_INT_MASK_LONG_KEY_PRESS else 0))"
  using assms
  by (simp add: int_sources_def Let_def and.assoc bit_iff_and_push_bit_not_eq_0 or.assoc)

text \<open>
  \<open>Axp81XProbeIntEnable\<close> adds to what \<open>IntMask\<close> held before (it never clears it) and reports
  at most three of the seven sources: the assignment \<open>v &= 1<<n\<close> in each condition leaves
  nothing for the next test of the same register. AC insertion, USB insertion and removal
  and the short key press are not reported even when they are enabled.
\<close>

theorem probe_int_enable_value:
  assumes bus: "register_bus ops reg cfg" and cfg: "int_regs \<subseteq> cfg"
    and run: "Axp81XProbeIntEnable ops IntMask d = ((0, m), d')"
  shows "m = IntMask OR
    ((if bit (reg d BOOT_POWER81X_INTEN1) 5 then AXP_INT_MASK_AC_REMOVE else 0) OR
    (if bit (reg d BOOT_POWER81X_INTEN2) 2 then AXP_INT_MASK_CHARGE_DONE else 0) OR
    (if bit (reg d BOOT_POWER81X_INTEN5) 3 then AXP_INT_MASK_LONG_KEY_PRESS else 0))"
proof -
  obtain v d1 where rd: "Axp81XProbeIntEnable_regs ops (replicate 8 0) d = (0, v, d1)"
    and m: "m = and_chain int_sources v IntMask"
    using run by (auto simp: Axp81XProbeIntEnable_def split: prod.splits if_splits)
  show ?thesis
    using m and_chain_sources [OF inten_read(1) [OF bus cfg rd]]
      inten_read(3) [OF bus cfg rd, of 0] inten_read(3) [OF bus cfg rd, of 1]
      inten_read(3) [OF bus cfg rd, of 4] by simp
qed

theorem probe_int_enable_value_witness:
  "fst (Axp81XProbeIntEnable mem_bus 0 (\<lambda>_. 0xff)) = (0, 0x31)"
proof -
  let ?run = "Axp81XProbeIntEnable mem_bus 0 (\<lambda>_. 0xff)"
  have st: "fst (fst ?run) = 0" by code_simp
  then have run: "?run = ((0, snd (fst ?run)), snd ?run)" by (metis prod.collapse)
  have b: "bit (0xff :: u8) 5" "bit (0xff :: u8) 2" "bit (0xff :: u8) 3" by simp_all
  have "snd (fst ?run) = 0x31"
    using probe_int_enable_value [OF mem.register_bus_axioms subset_UNIV run] b by simp
  then show ?thesis using st by (metis prod.collapse)
qed

text \<open>
  Whatever the status registers contain, a call of \<open>Axp81XProbeIntPending\<close> reports only AC
  removal, charge done and the long key press: AC insertion, USB insertion and removal and
  the short key press are acknowledged in the chip and lost.
\<close>

theorem pending_interrupts_lost:
  assumes "length IntValue = 8"
  shows "snd (fst (Axp81XProbeIntPending ops IntValue d)) AND
    (AXP_INT_MASK_AC_INSERT OR AXP_INT_MASK_VBUS_REMOVE OR AXP_INT_MASK_VBUS_INSERT OR
     AXP_INT_MASK_SHORT_KEY_PRESS) = 0"
proof -
  obtain st v d' where rd: "Axp81XProbeIntPending_regs ops IntValue d = (st, v, d')"
    by (cases "Axp81XProbeIntPending_regs ops IntValue d") auto
  have "length v = 8"
    using rd assms
    by (auto simp: Axp81XProbeIntPending_regs_def split: prod.splits if_splits dest!: pm_rd_all_length)
  from and_chain_sources [OF this, of 0] show ?thesis
    by (simp add: Axp81XProbeIntPending_def rd word_ao_dist)
qed

theorem pending_interrupts_lost_witness:
  "fst (Axp81XProbeIntPending mem_bus (replicate 8 0) (\<lambda>a. if a = 0x48 then 0x4c else 0)) = (0, 0) \<and>
   snd (fst (Axp81XProbeIntPending mem_bus (replicate 8 0) (\<lambda>a. if a = 0x48 then 0x4c else 0))) AND 0x4e = 0"
proof
  show "fst (Axp81XProbeIntPending mem_bus (replicate 8 0) (\<lambda>a. if a = 0x48 then 0x4c else 0)) = (0, 0)"
    by code_simp
  show "snd (fst (Axp81XProbeIntPending mem_bus (replicate 8 0) (\<lambda>a. if a = 0x48 then 0x4c else 0))) AND 0x4e = 0"
    using pending_interrupts_lost [of "replicate 8 0" mem_bus] by simp
qed

section \<open>Detection\<close>

definition int_status_regs :: "u8 set" where
  "int_status_regs = (\<lambda>i. BOOT_POWER81X_INTSTS1 + of_nat i) ` {0..<5}"

lemma pending_keeps:
  assumes bus: "register_bus ops reg cfg" and run: "Axp81XProbeIntPending_regs ops v d = (st, v', d')"
    and a: "a \<in> cfg" "\<forall>i < 5. a \<noteq> BOOT_POWER81X_INTSTS1 + of_nat i"
  shows "reg d' a = reg d a"
proof -
  obtain okf d1 where rd: "pm_rd_all ops AXP81X_ADDR BOOT_POWER81X_INTSTS1 [0..<5] v d = (okf, v', d1)"
    and rest: "if okf then c_fun (pm_wr_all ops AXP81X_ADDR BOOT_POWER81X_INTSTS1 (\<lambda>_. 0xff) [0..<5]
        EFI_DEVICE_ERROR) EFI_SUCCESS d1 = (st, d') else d' = d1"
    using run by (auto simp: Axp81XProbeIntPending_regs_def split: prod.splits if_splits)
  have 1: "reg d1 a = reg d a" using register_bus.rd_all_keeps [OF bus rd a(1)] .
  show ?thesis
  proof (cases okf)
    case True
    then obtain r where "pm_wr_all ops AXP81X_ADDR BOOT_POWER81X_INTSTS1 (\<lambda>_. 0xff) [0..<5]
        EFI_DEVICE_ERROR d1 = (r, d')"
      using rest by (auto simp: c_fun_def split: prod.splits option.splits)
    from register_bus.wr_all_frame [OF bus this a(1)] a(2) 1 show ?thesis by simp
  next
    case False
    with rest 1 show ?thesis by simp
  qed
qed

lemma inten_not_intsts: "a \<in> int_regs \<Longrightarrow> i < 5 \<Longrightarrow> a \<noteq> BOOT_POWER81X_INTSTS1 + of_nat i"
proof -
  have "\<forall>k\<in>set [0..<5]. \<forall>i\<in>set [0..<5]. BOOT_POWER81X_INTEN1 + of_nat k \<noteq> (BOOT_POWER81X_INTSTS1 + of_nat i :: u8)"
    by code_simp
  then show "a \<in> int_regs \<Longrightarrow> i < 5 \<Longrightarrow> a \<noteq> BOOT_POWER81X_INTSTS1 + of_nat i"
    by (auto simp: int_regs_def)
qed

lemma not_status: "a \<notin> int_status_regs \<Longrightarrow> \<forall>i < 5. a \<noteq> BOOT_POWER81X_INTSTS1 + of_nat i"
  by (fastforce simp: int_status_regs_def)

lemma inten6_apart: "0x45 \<notin> int_regs \<union> int_status_regs"
proof -
  have "\<forall>i\<in>set [0..<5]. BOOT_POWER81X_INTEN1 + of_nat i \<noteq> (0x45 :: u8) \<and> BOOT_POWER81X_INTSTS1 + of_nat i \<noteq> (0x45 :: u8)"
    by code_simp
  then show ?thesis by (auto simp: int_regs_def int_status_regs_def)
qed

text \<open>
  C39: \<open>Axp81XProbe\<close> succeeds only on a chip whose version register identifies an AXP81X, and then
  leaves the interrupts of the enable registers \<open>INTEN1\<close> to \<open>INTEN5\<close> disabled, the five that the driver handles. Besides these and the
  five status registers it changes no register: in particular the enable register \<open>INTEN6\<close> (\<open>0x45\<close>), which \<open>Axp81XReg.h\<close>
  also has, keeps its value, although a comment in the code says that all the interrupts are disabled. On any other chip it reports an
  error and changes no register at all.
\<close>

theorem probe_detects_and_masks:
  assumes bus: "register_bus ops reg cfg" and cfg: "insert BOOT_POWER81X_VERSION int_regs \<subseteq> cfg"
    and run: "Axp81XProbe ops d = (st, d')"
  shows "(st = 0 \<longrightarrow> reg d BOOT_POWER81X_VERSION AND 0xCF = 0x41 \<and> (\<forall>a \<in> int_regs. reg d' a = 0)) \<and>
    (\<forall>a \<in> cfg - int_regs - int_status_regs. reg d' a = reg d a) \<and> 0x45 \<notin> int_regs \<union> int_status_regs \<and>
    (reg d BOOT_POWER81X_VERSION AND 0xCF \<noteq> 0x41 \<longrightarrow> st \<noteq> 0 \<and> (\<forall>a \<in> cfg. reg d' a = reg d a))"
proof -
  let ?ver = BOOT_POWER81X_VERSION
  have c: "?ver \<in> cfg" "int_regs \<subseteq> cfg" using cfg by auto
  have six: "0x45 \<notin> int_regs \<union> int_status_regs" by (rule inten6_apart)
  obtain st0 v d0 where rd: "bus_read ops ?ver d = (st0, v, d0)" by (cases "bus_read ops ?ver d") auto
  have keep: "reg d0 a = reg d a" if "a \<in> cfg" for a using register_bus.read_keeps [OF bus rd that] .
  have ver: "v = reg d ?ver" if "st0 = 0" using register_bus.read_value [OF bus _ c(1)] rd that by simp
  consider (fail) "st0 \<noteq> 0" | (other) "st0 = 0" "v AND 0xCF \<noteq> 0x41" | (axp) "st0 = 0" "v AND 0xCF = 0x41" by blast
  then show ?thesis
  proof cases
    case axp
    obtain st1 d1 where en: "Axp81XSetIntEnable_regs ops (replicate 8 0) d0 = (st1, d1)"
      by (cases "Axp81XSetIntEnable_regs ops (replicate 8 0) d0") auto
    obtain st2 v2 d2 where pend: "Axp81XProbeIntPending_regs ops (replicate 8 0) d1 = (st2, v2, d2)"
      by (cases "Axp81XProbeIntPending_regs ops (replicate 8 0) d1") auto
    have res: "(st, d') = (if st1 \<noteq> 0 then (st1, d1) else (st2, d2))"
      using run rd axp en pend by (auto simp: Axp81XProbe_def c_stmt)
    have "reg d2 a = 0" if s1: "st1 = 0" and a: "a \<in> int_regs" for a
    proof -
      obtain k where k: "k < 5" "a = BOOT_POWER81X_INTEN1 + of_nat k" using a by (auto simp: int_regs_def)
      then have "reg d1 a = 0" using inten_write(2) [OF bus c(2) en s1 k(1)] by simp
      then show ?thesis
        using pending_keeps [OF bus pend] a c(2) inten_not_intsts by fastforce
    qed
    moreover have "reg d1 a = reg d a" "reg d2 a = reg d a" if a: "a \<in> cfg - int_regs - int_status_regs" for a
      using inten_write(1) [OF bus c(2) en, of a] pending_keeps [OF bus pend, of a] keep [of a] a not_status [of a] by auto
    ultimately show ?thesis using res axp ver six by (auto split: if_splits)
  qed (use run rd keep ver six in \<open>auto simp: Axp81XProbe_def c_stmt\<close>)
qed

theorem probe_detects_and_masks_witness:
  "snd (Axp81XProbe mem_bus (\<lambda>a. if a = 3 then 0x51 else 0xff)) BOOT_POWER81X_INTEN3 = 0 \<and>
   snd (Axp81XProbe mem_bus (\<lambda>a. if a = 3 then 0x51 else 0xff)) 0x45 = 0xff \<and>
   fst (Axp81XProbe mem_bus (\<lambda>a. if a = 3 then 0x42 else 0xff)) \<noteq> 0"
proof (intro conjI)
  let ?run = "Axp81XProbe mem_bus (\<lambda>a. if a = 3 then 0x51 else 0xff)"
  note p = probe_detects_and_masks [OF mem.register_bus_axioms subset_UNIV prod.collapse [of ?run, symmetric]]
  have st: "fst ?run = 0" by code_simp
  have "BOOT_POWER81X_INTEN3 \<in> int_regs" unfolding int_regs_def by (rule image_eqI [of _ _ 2]) simp_all
  then show "snd ?run BOOT_POWER81X_INTEN3 = 0" using p st by simp
  show "snd ?run 0x45 = 0xff" using p by auto
  let ?run2 = "Axp81XProbe mem_bus (\<lambda>a. if a = 3 then 0x42 else 0xff)"
  show "fst ?run2 \<noteq> 0"
    using probe_detects_and_masks [OF mem.register_bus_axioms subset_UNIV prod.collapse [of ?run2, symmetric]]
    by simp
qed

text \<open>
  The boot mode handed to the next boot: \<open>Axp81XSetNextSysMode\<close> followed by
  \<open>Axp81XProbePreSysMode\<close> returns the low byte of the mode.
\<close>

theorem sys_mode_round_trip:
  assumes bus: "register_bus ops reg cfg" and c: "BOOT_POWER81X_DATA_BUFFER11 \<in> cfg"
    and set: "Axp81XSetNextSysMode ops Mode d = (0, d1)"
    and probe: "Axp81XProbePreSysMode ops x d1 = ((0, y), d2)"
  shows "y = Mode AND 0xff"
proof -
  have "reg d1 BOOT_POWER81X_DATA_BUFFER11 = ucast Mode"
    using set register_bus.write_value [OF bus _ c]
    by (auto simp: Axp81XSetNextSysMode_def c_stmt split: prod.splits if_splits)
  then have "y = ucast (ucast Mode :: u8)"
    using register_bus.rd_fun(2) [OF bus probe [unfolded Axp81XProbePreSysMode_def] c] by simp
  also have "\<dots> = Mode AND mask 8"
    by (rule bit_word_eqI) (auto simp: bit_simps)
  finally show ?thesis by (simp add: mask_eq_exp_minus_1)
qed

theorem sys_mode_round_trip_witness:
  "fst (Axp81XProbePreSysMode mem_bus 0 (snd (Axp81XSetNextSysMode mem_bus 0x10e (\<lambda>_. 0)))) = (0, 0x0e)"
proof -
  let ?s = "Axp81XSetNextSysMode mem_bus 0x10e (\<lambda>_. 0)"
  let ?p = "Axp81XProbePreSysMode mem_bus 0 (snd ?s)"
  have st: "fst ?s = 0" "fst (fst ?p) = 0" by code_simp+
  have "?s = (0, snd ?s)" "?p = ((0, snd (fst ?p)), snd ?p)" using st by (metis prod.collapse)+
  from sys_mode_round_trip [OF mem.register_bus_axioms UNIV_I this] have "snd (fst ?p) = 0x0e" by simp
  then show ?thesis using st(2) by (metis prod.collapse)
qed

section \<open>Observations kept by detection\<close>

lemma probe_keeps:
  assumes "bus_keeps ops f"
  shows "f (snd (Axp81XProbe ops d)) = f d"
proof -
  have w: "f (snd (c_fun (pm_wr_all ops c b vs is e) (r :: efi_status) d)) = f d" for c b vs "is" e r d
    by (rule keeps_fun [OF keeps_wr_all [OF assms]])
  have "f (snd (Axp81XSetIntEnable_regs ops r d)) = f d" for r d
    unfolding Axp81XSetIntEnable_regs_def by (rule w)
  moreover have "f (snd (snd (Axp81XProbeIntPending_regs ops r d))) = f d" for r d
    using keeps_rd_all [OF assms] w
    by (auto simp: Axp81XProbeIntPending_regs_def split: prod.splits) (metis snd_conv)+
  ultimately show ?thesis
    unfolding Axp81XProbe_def
    by (intro keeps_fun keeps_rd assms) (auto simp: stmt_keeps_def Let_def split: prod.splits, (metis snd_conv)+)
qed

end
