(* ===== verification/Smc.thy ===== *)
theory Smc
  imports Prelude
begin

text \<open>
  Secure monitor calls, \<open>src/Library/SunxiSmcLib/SunxiSmcLib.c\<close>.

  The hardware is a parameter: a record \<open>plat\<close> of three functions on a hardware state \<open>'h\<close>,
  the memory-mapped reads and writes of EDK2's \<open>IoLib\<close> and the assembly routine
  \<open>__sunxi_smc_call\<close> (a call into the secure firmware). Reads may change the state, since
  device registers can have side effects.
\<close>

record 'h plat =
  MmioRead32 :: "u32 \<Rightarrow> 'h \<Rightarrow> u32 \<times> 'h"
  MmioWrite32 :: "u32 \<Rightarrow> u32 \<Rightarrow> 'h \<Rightarrow> 'h"
  smc_trap :: "u32 \<Rightarrow> u32 \<Rightarrow> u32 \<Rightarrow> u32 \<Rightarrow> 'h \<Rightarrow> u32 \<times> 'h"

abbreviation (input) ARM_SVC_CALL_COUNT :: u32 where "ARM_SVC_CALL_COUNT \<equiv> 0x8000ff00"
abbreviation (input) ARM_SVC_UID :: u32 where "ARM_SVC_UID \<equiv> 0x8000ff01"
abbreviation (input) ARM_SVC_VERSION :: u32 where "ARM_SVC_VERSION \<equiv> 0x8000ff03"
abbreviation (input) ARM_SVC_RUNNSOS :: u32 where "ARM_SVC_RUNNSOS \<equiv> 0x8000ff04"
abbreviation (input) ARM_SVC_READ_SEC_REG :: u32 where "ARM_SVC_READ_SEC_REG \<equiv> 0x8000ff05"
abbreviation (input) ARM_SVC_WRITE_SEC_REG :: u32 where "ARM_SVC_WRITE_SEC_REG \<equiv> 0x8000ff06"
abbreviation (input) ARM_SVC_ARISC_STARTUP :: u32 where "ARM_SVC_ARISC_STARTUP \<equiv> 0x8000ff10"
abbreviation (input) ARM_SVC_ARISC_WAIT_READY :: u32 where "ARM_SVC_ARISC_WAIT_READY \<equiv> 0x8000ff11"
abbreviation (input) ARM_SVC_ARISC_READ_PMU :: u32 where "ARM_SVC_ARISC_READ_PMU \<equiv> 0x8000ff12"
abbreviation (input) ARM_SVC_ARISC_WRITE_PMU :: u32 where "ARM_SVC_ARISC_WRITE_PMU \<equiv> 0x8000ff13"
abbreviation (input) ARM_SVC_ARISC_FAKE_POWER_OFF_REQ_ARCH32 :: u32 where
  "ARM_SVC_ARISC_FAKE_POWER_OFF_REQ_ARCH32 \<equiv> 0x8000ff14"
abbreviation (input) ARM_SVC_PSCI_CPU_ON :: u32 where "ARM_SVC_PSCI_CPU_ON \<equiv> 0x84000003"
abbreviation (input) ARM_SVC_EFUSE_READ :: u32 where "ARM_SVC_EFUSE_READ \<equiv> 0x8000fe00"
abbreviation (input) ARM_SVC_EFUSE_WRITE :: u32 where "ARM_SVC_EFUSE_WRITE \<equiv> 0x8000fe01"

definition sunxi_smc_call :: "'h plat \<Rightarrow> u32 \<Rightarrow> u32 \<Rightarrow> u32 \<Rightarrow> u32 \<Rightarrow> u32 \<Rightarrow> 'h \<Rightarrow> u32 \<times> 'h" where
  "sunxi_smc_call p arg0 arg1 arg2 arg3 pResult h = smc_trap p arg0 arg1 arg2 arg3 h"

text \<open>
  \<open>arm_svc_version\<close> passes the address of a pointer that is \<open>NULL\<close> and reads through it when
  the call succeeds. \<open>sunxi_smc_call\<close> never stores through its last argument, so the read is
  through \<open>NULL\<close>: that path has no result, which is \<^term>\<open>None\<close> here. \<open>pResult\<close> is the address
  of the local variable.
\<close>

definition arm_svc_version :: "'h plat \<Rightarrow> u32 \<Rightarrow> 'h \<Rightarrow> int option \<times> 'h" where
  "arm_svc_version p pResult h =
     (case sunxi_smc_call p ARM_SVC_VERSION 0 0 0 pResult h of (ret, h') \<Rightarrow>
        if sint ret < 0 then (Some (sint ret), h') else (None, h'))"

definition arm_svc_call_count :: "'h plat \<Rightarrow> 'h \<Rightarrow> int \<times> 'h" where
  "arm_svc_call_count p h = apfst sint (sunxi_smc_call p ARM_SVC_CALL_COUNT 0 0 0 0 h)"

definition arm_svc_uuid :: "'h plat \<Rightarrow> u32 \<Rightarrow> 'h \<Rightarrow> int \<times> 'h" where
  "arm_svc_uuid p uuid h = apfst sint (sunxi_smc_call p ARM_SVC_UID 0 0 0 uuid h)"

definition arm_svc_run_os :: "'h plat \<Rightarrow> u32 \<Rightarrow> u32 \<Rightarrow> u32 \<Rightarrow> 'h \<Rightarrow> int \<times> 'h" where
  "arm_svc_run_os p kernel_addr fdt arg2 h = apfst sint (sunxi_smc_call p ARM_SVC_RUNNSOS kernel_addr fdt arg2 0 h)"

definition arm_svc_read_sec_reg :: "'h plat \<Rightarrow> u32 \<Rightarrow> 'h \<Rightarrow> u32 \<times> 'h" where
  "arm_svc_read_sec_reg p reg h = sunxi_smc_call p ARM_SVC_READ_SEC_REG reg 0 0 0 h"

definition arm_svc_write_sec_reg :: "'h plat \<Rightarrow> u32 \<Rightarrow> u32 \<Rightarrow> 'h \<Rightarrow> int \<times> 'h" where
  "arm_svc_write_sec_reg p val reg h = (0, snd (sunxi_smc_call p ARM_SVC_WRITE_SEC_REG reg val 0 0 h))"

definition arm_svc_arisc_startup :: "'h plat \<Rightarrow> u32 \<Rightarrow> 'h \<Rightarrow> int \<times> 'h" where
  "arm_svc_arisc_startup p cfg_base h = apfst sint (sunxi_smc_call p ARM_SVC_ARISC_STARTUP cfg_base 0 0 0 h)"

definition arm_svc_arisc_wait_ready :: "'h plat \<Rightarrow> 'h \<Rightarrow> int \<times> 'h" where
  "arm_svc_arisc_wait_ready p h = apfst sint (sunxi_smc_call p ARM_SVC_ARISC_WAIT_READY 0 0 0 0 h)"

definition arm_svc_arisc_fake_poweroff :: "'h plat \<Rightarrow> 'h \<Rightarrow> int \<times> 'h" where
  "arm_svc_arisc_fake_poweroff p h =
     apfst sint (sunxi_smc_call p ARM_SVC_ARISC_FAKE_POWER_OFF_REQ_ARCH32 0 0 0 0 h)"

definition arm_svc_arisc_read_pmu :: "'h plat \<Rightarrow> u32 \<Rightarrow> 'h \<Rightarrow> u32 \<times> 'h" where
  "arm_svc_arisc_read_pmu p addr h = sunxi_smc_call p ARM_SVC_ARISC_READ_PMU addr 0 0 0 h"

definition arm_svc_arisc_write_pmu :: "'h plat \<Rightarrow> u32 \<Rightarrow> u32 \<Rightarrow> 'h \<Rightarrow> int \<times> 'h" where
  "arm_svc_arisc_write_pmu p addr val h =
     apfst sint (sunxi_smc_call p ARM_SVC_ARISC_WRITE_PMU addr val 0 0 h)"

definition arm_svc_efuse_read :: "'h plat \<Rightarrow> u32 \<Rightarrow> u32 \<Rightarrow> 'h \<Rightarrow> int \<times> 'h" where
  "arm_svc_efuse_read p key_buf read_buf h =
     apfst sint (sunxi_smc_call p ARM_SVC_EFUSE_READ key_buf read_buf 0 0 h)"

definition arm_svc_efuse_write :: "'h plat \<Rightarrow> u32 \<Rightarrow> 'h \<Rightarrow> int \<times> 'h" where
  "arm_svc_efuse_write p key_buf h = apfst sint (sunxi_smc_call p ARM_SVC_EFUSE_WRITE key_buf 0 0 0 h)"

definition arm_svc_cpu_on :: "'h plat \<Rightarrow> u32 \<Rightarrow> u32 \<Rightarrow> 'h \<Rightarrow> int \<times> 'h" where
  "arm_svc_cpu_on p cpuid entrypoint h =
     apfst sint (sunxi_smc_call p ARM_SVC_PSCI_CPU_ON cpuid entrypoint 0 0 h)"

section \<open>Register access that may go through the secure monitor\<close>

text \<open>
  The function pointers \<open>smc_readl_pt\<close> and \<open>smc_writel_pt\<close> are set together; their value is a
  \<open>smc_access\<close>.
\<close>

datatype smc_access = Smc_normal | Smc_secure

definition smc_readl_normal :: "'h plat \<Rightarrow> u32 \<Rightarrow> 'h \<Rightarrow> u32 \<times> 'h" where
  "smc_readl_normal p addr h = MmioRead32 p addr h"

definition smc_writel_normal :: "'h plat \<Rightarrow> u32 \<Rightarrow> u32 \<Rightarrow> 'h \<Rightarrow> int \<times> 'h" where
  "smc_writel_normal p val addr h = (0, MmioWrite32 p addr val h)"

definition smc_readl :: "'h plat \<Rightarrow> smc_access \<Rightarrow> u32 \<Rightarrow> 'h \<Rightarrow> u32 \<times> 'h" where
  "smc_readl p pt addr h =
     (case pt of Smc_normal \<Rightarrow> smc_readl_normal p addr h | Smc_secure \<Rightarrow> arm_svc_read_sec_reg p addr h)"

definition smc_writel :: "'h plat \<Rightarrow> smc_access \<Rightarrow> u32 \<Rightarrow> u32 \<Rightarrow> 'h \<Rightarrow> 'h" where
  "smc_writel p pt val addr h =
     (case pt of Smc_normal \<Rightarrow> snd (smc_writel_normal p val addr h)
      | Smc_secure \<Rightarrow> snd (arm_svc_write_sec_reg p val addr h))"

definition smc_init :: "smc_access \<Rightarrow> int \<times> smc_access" where
  "smc_init pt = (0, Smc_secure)"

text \<open>
  \<open>arm_svc_version\<close> never returns a version: a call that fails returns the firmware's
  error, and a call that succeeds reads through a null pointer.
\<close>

theorem arm_svc_version_never_succeeds:
  "(case fst (arm_svc_version p pResult h) of None \<Rightarrow> True | Some ret \<Rightarrow> ret < 0) \<and>
   (fst (arm_svc_version p pResult h) = None \<longleftrightarrow> 0 \<le> sint (fst (smc_trap p ARM_SVC_VERSION 0 0 0 h)))"
  by (auto simp: arm_svc_version_def sunxi_smc_call_def split: prod.splits)

end
