(* ===== verification/Mmio.thy ===== *)
theory Mmio
  imports Smc
begin

text \<open>
  Device registers: the read-modify-write idiom of the drivers, and the contract of registers
  that keep what is written to them (locale \<open>mmio_registers\<close>): a read delivers the register and
  changes none, a write changes exactly its register. The set \<open>cfg\<close> names the registers for
  which the device promises this; status and data registers need not be in it.
\<close>

definition mmio_rmw :: "'h plat \<Rightarrow> u32 \<Rightarrow> (u32 \<Rightarrow> u32) \<Rightarrow> 'h \<Rightarrow> 'h" where
  "mmio_rmw p a f h = (case MmioRead32 p a h of (v, h') \<Rightarrow> MmioWrite32 p a (f v) h')"

locale mmio_registers =
  fixes p :: "'h plat"
    and reg :: "'h \<Rightarrow> u32 \<Rightarrow> u32"
    and cfg :: "u32 set"
  assumes read_value: "MmioRead32 p a h = (v, h') \<Longrightarrow> a \<in> cfg \<Longrightarrow> v = reg h a"
    and read_keeps: "MmioRead32 p a h = (v, h') \<Longrightarrow> b \<in> cfg \<Longrightarrow> reg h' b = reg h b"
    and write_value: "a \<in> cfg \<Longrightarrow> reg (MmioWrite32 p a v h) a = v"
    and write_frame: "b \<in> cfg \<Longrightarrow> b \<noteq> a \<Longrightarrow> reg (MmioWrite32 p a v h) b = reg h b"
begin

lemma fst_read: "a \<in> cfg \<Longrightarrow> fst (MmioRead32 p a h) = reg h a"
  using read_value by (metis prod.collapse)

lemma snd_read: "b \<in> cfg \<Longrightarrow> reg (snd (MmioRead32 p a h)) b = reg h b"
  using read_keeps by (metis prod.collapse)

lemma reg_write: "b \<in> cfg \<Longrightarrow> reg (MmioWrite32 p a v h) b = (if b = a then v else reg h b)"
  by (auto intro: write_value write_frame)

lemma reg_rmw: "b \<in> cfg \<Longrightarrow> reg (mmio_rmw p a f h) b = (if b = a then f (reg h a) else reg h b)"
  by (auto simp: mmio_rmw_def split_beta reg_write fst_read snd_read)

lemmas reg_simps = fst_read snd_read reg_write reg_rmw

end

text \<open>Plain memory keeps the contract for every register.\<close>

definition ram_plat :: "(u32 \<Rightarrow> u32) plat" where
  "ram_plat = \<lparr>MmioRead32 = (\<lambda>a h. (h a, h)), MmioWrite32 = (\<lambda>a v h. h(a := v)), smc_trap = (\<lambda>_ _ _ _ h. (0, h))\<rparr>"

interpretation ram: mmio_registers ram_plat id UNIV
  by unfold_locales (auto simp: ram_plat_def)

text \<open>
  A platform that records the accesses to one register. It behaves like the platform it wraps, so what is shown of
  the record holds for every device.
\<close>

datatype mmio_event = Rd u32 u32 | Wr u32 u32

definition logged :: "'h plat \<Rightarrow> u32 \<Rightarrow> ('h \<times> mmio_event list) plat" where
  "logged p d = \<lparr>
     MmioRead32 = (\<lambda>a (h, l). case MmioRead32 p a h of (v, h) \<Rightarrow> (v, h, if a = d then l @ [Rd a v] else l)),
     MmioWrite32 = (\<lambda>a v (h, l). (MmioWrite32 p a v h, if a = d then l @ [Wr a v] else l)),
     smc_trap = (\<lambda>w x y z (h, l). case smc_trap p w x y z h of (r, h) \<Rightarrow> (r, h, l))\<rparr>"

named_theorems log_simps

lemma log_read [log_simps]:
  "snd (snd (MmioRead32 (logged p d) a s)) = (if a = d then snd s @ [Rd a (fst (MmioRead32 p a (fst s)))] else snd s)"
  "fst (MmioRead32 (logged p d) a s) = fst (MmioRead32 p a (fst s))"
  by (simp_all add: logged_def split_beta)

lemma log_write [log_simps]: "snd (MmioWrite32 (logged p d) a v s) = (if a = d then snd s @ [Wr a v] else snd s)"
  by (simp add: logged_def split_beta)

lemma log_rmw [log_simps]: "a \<noteq> d \<Longrightarrow> snd (mmio_rmw (logged p d) a f s) = snd s"
  by (simp add: mmio_rmw_def split_beta log_simps)

end
