(* ===== verification/Rsb.thy ===== *)
theory Rsb
  imports Mmio PmBus "HOL-Library.Monad_Syntax"
begin

text \<open>
  The reduced serial bus to the power chip, \<open>src/Drivers/SmBusDxe/Rsb.c\<close> (the copy in
  \<open>src/Drivers/Rsb\<close> differs in one dead return value), the SMBus layer above it
  (\<open>SmBusLib.c\<close>, \<open>SmBusDxe.c\<close>) and the bus operations of the AXP81X driver
  (\<open>Axp81XLib.c\<close>, \<open>Axp81XDxe.c\<close>).

  The controller is driven by polling loops that may run forever when it does not answer.
  They are \<open>partial_function (option)\<close>: a loop that does not end has the value
  \<^term>\<open>None\<close>. The state is the static variable \<open>rsbc\<close> and the hardware.
\<close>

section \<open>Registers and commands of the controller\<close>

abbreviation (input) RSB_REG_CTRL :: u32 where "RSB_REG_CTRL \<equiv> 0x01f03400"
abbreviation (input) RSB_REG_CCR :: u32 where "RSB_REG_CCR \<equiv> 0x01f03404"
abbreviation (input) RSB_REG_STAT :: u32 where "RSB_REG_STAT \<equiv> 0x01f0340c"
abbreviation (input) RSB_REG_DADDR0 :: u32 where "RSB_REG_DADDR0 \<equiv> 0x01f03410"
abbreviation (input) RSB_REG_DATA0 :: u32 where "RSB_REG_DATA0 \<equiv> 0x01f0341c"
abbreviation (input) RSB_REG_PMCR :: u32 where "RSB_REG_PMCR \<equiv> 0x01f03428"
abbreviation (input) RSB_REG_CMD :: u32 where "RSB_REG_CMD \<equiv> 0x01f0342c"
abbreviation (input) RSB_REG_SADDR :: u32 where "RSB_REG_SADDR \<equiv> 0x01f03430"
abbreviation (input) SUNXI_RPRCM_BASE :: u32 where "SUNXI_RPRCM_BASE \<equiv> 0x01f01400"
abbreviation (input) SUNXI_RPIO_BASE :: u32 where "SUNXI_RPIO_BASE \<equiv> 0x01f02c00"

abbreviation (input) RSB_SOFT_RST :: u32 where "RSB_SOFT_RST \<equiv> 1"
abbreviation (input) RSB_START_TRANS :: u32 where "RSB_START_TRANS \<equiv> 0x80"
abbreviation (input) RSB_TOVER_INT :: u32 where "RSB_TOVER_INT \<equiv> 1"
abbreviation (input) RSB_TERR_INT :: u32 where "RSB_TERR_INT \<equiv> 2"
abbreviation (input) RSB_LBSY_INT :: u32 where "RSB_LBSY_INT \<equiv> 4"
abbreviation (input) RSB_PMU_INIT :: u32 where "RSB_PMU_INIT \<equiv> 0x80000000"
abbreviation (input) RSB_CMD_BYTE_WRITE :: u32 where "RSB_CMD_BYTE_WRITE \<equiv> 0x4E"
abbreviation (input) RSB_CMD_HWORD_WRITE :: u32 where "RSB_CMD_HWORD_WRITE \<equiv> 0x59"
abbreviation (input) RSB_CMD_WORD_WRITE :: u32 where "RSB_CMD_WORD_WRITE \<equiv> 0x63"
abbreviation (input) RSB_CMD_BYTE_READ :: u32 where "RSB_CMD_BYTE_READ \<equiv> 0x8B"
abbreviation (input) RSB_CMD_HWORD_READ :: u32 where "RSB_CMD_HWORD_READ \<equiv> 0x9C"
abbreviation (input) RSB_CMD_WORD_READ :: u32 where "RSB_CMD_WORD_READ \<equiv> 0xA6"
abbreviation (input) RSB_CMD_SET_RTSADDR :: u32 where "RSB_CMD_SET_RTSADDR \<equiv> 0xE8"
abbreviation (input) RSB_SCK :: u32 where "RSB_SCK \<equiv> 3000000"
abbreviation (input) RET_FAIL :: int where "RET_FAIL \<equiv> -20"
abbreviation (input) RSB_SADDR_AXP81X :: u32 where "RSB_SADDR_AXP81X \<equiv> 0x3A3"
abbreviation (input) RSB_RTSADDR_AXP81X :: u8 where "RSB_RTSADDR_AXP81X \<equiv> 0x11"

record rsb_info =
  rsb_flag :: u32
  rsb_busy :: u32
  rsb_load_busy :: u32

section \<open>Initialisation\<close>

definition rsb_cfg_io :: "'h plat \<Rightarrow> 'h \<Rightarrow> 'h" where
  "rsb_cfg_io p h =
     (let reg = SUNXI_RPRCM_BASE + 0x28;
          (val, h) = MmioRead32 p reg h;
          (val2, h) = MmioRead32 p reg h;
          h = (if val2 AND 1 = 0 then MmioWrite32 p reg (val OR 1) h else h);
          h = mmio_rmw p SUNXI_RPIO_BASE (\<lambda>v. (v AND NOT 0xff) OR 0x22) h;
          h = mmio_rmw p (SUNXI_RPIO_BASE + 0x1c) (\<lambda>v. (v AND NOT 0xf) OR 0x5) h
      in mmio_rmw p (SUNXI_RPIO_BASE + 0x14) (\<lambda>v. (v AND NOT 0xf) OR 0xa) h)"

definition rsb_module_reset :: "'h plat \<Rightarrow> 'h \<Rightarrow> 'h" where
  "rsb_module_reset p h =
     mmio_rmw p (SUNXI_RPRCM_BASE + 0xb0) (\<lambda>v. v OR push_bit 3 1)
       (mmio_rmw p (SUNXI_RPRCM_BASE + 0xb0) (\<lambda>v. v AND NOT (push_bit 3 1)) h)"

definition rsb_clock_enable :: "'h plat \<Rightarrow> 'h \<Rightarrow> 'h" where
  "rsb_clock_enable p h = mmio_rmw p (SUNXI_RPRCM_BASE + 0x28) (\<lambda>v. v OR push_bit 3 1) h"

definition rsb_ccr :: "u32 \<Rightarrow> u32" where
  "rsb_ccr sck =
     (let src_clk = 24000000;
          dv = src_clk div sck div 2;
          dv = (if dv = 0 then 1 else if dv > 256 then 256 else dv);
          dv = dv - 1;
          cd_odly = drop_bit 1 dv;
          cd_odly = (if cd_odly = 0 then 1 else cd_odly)
      in dv OR push_bit 8 cd_odly)"

definition rsb_set_clk :: "'h plat \<Rightarrow> u32 \<Rightarrow> 'h \<Rightarrow> 'h" where
  "rsb_set_clk p sck h = MmioWrite32 p RSB_REG_CCR (rsb_ccr sck) h"

definition rsb_init :: "'h plat \<Rightarrow> rsb_info \<Rightarrow> 'h \<Rightarrow> rsb_info \<times> 'h" where
  "rsb_init p c h =
     (let h = rsb_cfg_io p h; h = rsb_module_reset p h; h = rsb_clock_enable p h;
          h = MmioWrite32 p RSB_REG_CTRL RSB_SOFT_RST h
      in (\<lparr>rsb_flag = 0, rsb_busy = 0, rsb_load_busy = 0\<rparr>, rsb_set_clk p RSB_SCK h))"

section \<open>Polling\<close>

text \<open>
  The four transfer routines share three loops: waiting until no event is pending, waiting
  for the PMU initialisation to be taken, and waiting for the end of a transfer.
\<close>

partial_function (option) rsb_wait_idle :: "'h plat \<Rightarrow> 'h \<Rightarrow> 'h option" where
  [code]: "rsb_wait_idle p h =
     (case MmioRead32 p RSB_REG_STAT h of (stat, h') \<Rightarrow>
        if stat AND (RSB_LBSY_INT OR RSB_TERR_INT OR RSB_TOVER_INT) \<noteq> 0 then rsb_wait_idle p h' else Some h')"

partial_function (option) rsb_wait_pmcr :: "'h plat \<Rightarrow> 'h \<Rightarrow> 'h option" where
  [code]: "rsb_wait_pmcr p h =
     (case MmioRead32 p RSB_REG_PMCR h of (v, h') \<Rightarrow>
        if v AND RSB_PMU_INIT \<noteq> 0 then rsb_wait_pmcr p h' else Some h')"

partial_function (option) rsb_poll :: "'h plat \<Rightarrow> rsb_info \<Rightarrow> 'h \<Rightarrow> (rsb_info \<times> 'h) option" where
  [code]: "rsb_poll p c h =
     (if rsb_busy c = 0 then Some (c, h)
      else case MmioRead32 p RSB_REG_STAT h of (istat, h') \<Rightarrow>
        if istat AND RSB_LBSY_INT \<noteq> 0 then
          Some (c\<lparr>rsb_load_busy := 1\<rparr>, MmioWrite32 p RSB_REG_STAT istat h')
        else if istat AND RSB_TERR_INT \<noteq> 0 then
          Some (c\<lparr>rsb_flag := drop_bit 8 istat AND 0xffff\<rparr>, MmioWrite32 p RSB_REG_STAT istat h')
        else if istat AND RSB_TOVER_INT \<noteq> 0 then
          rsb_poll p (c\<lparr>rsb_busy := 0\<rparr>) (MmioWrite32 p RSB_REG_STAT istat h')
        else rsb_poll p c h')"

definition rsb_started :: rsb_info where
  "rsb_started = \<lparr>rsb_flag = 0, rsb_busy = 1, rsb_load_busy = 0\<rparr>"

definition rsb_outcome :: "rsb_info \<Rightarrow> int" where
  "rsb_outcome c =
     (if rsb_load_busy c \<noteq> 0 then RET_FAIL else if rsb_flag c \<noteq> 0 then sint (- rsb_flag c) else 0)"

definition rsb_transfer :: "'h plat \<Rightarrow> 'h \<Rightarrow> (int \<times> rsb_info \<times> 'h) option" where
  "rsb_transfer p h = do {
     let h = mmio_rmw p RSB_REG_CTRL (\<lambda>v. v OR RSB_START_TRANS) h;
     (c, h) \<leftarrow> rsb_poll p rsb_started h;
     Some (rsb_outcome c, c, h)
   }"

section \<open>Transfers\<close>

definition rsb_send_initseq ::
  "'h plat \<Rightarrow> u32 \<Rightarrow> u32 \<Rightarrow> u32 \<Rightarrow> rsb_info \<Rightarrow> 'h \<Rightarrow> (int \<times> rsb_info \<times> 'h) option" where
  "rsb_send_initseq p slave_addr reg data c h = do {
     h \<leftarrow> rsb_wait_idle p h;
     let h = MmioWrite32 p RSB_REG_PMCR
       (RSB_PMU_INIT OR push_bit 1 slave_addr OR push_bit 8 reg OR push_bit 16 data) h;
     h \<leftarrow> rsb_wait_pmcr p h;
     (c, h) \<leftarrow> rsb_poll p rsb_started h;
     Some (rsb_outcome c, c, h)
   }"

definition set_run_time_addr ::
  "'h plat \<Rightarrow> u32 \<Rightarrow> u32 \<Rightarrow> rsb_info \<Rightarrow> 'h \<Rightarrow> (int \<times> rsb_info \<times> 'h) option" where
  "set_run_time_addr p saddr rtsaddr c h = do {
     h \<leftarrow> rsb_wait_idle p h;
     let h = MmioWrite32 p RSB_REG_SADDR (saddr OR push_bit 16 rtsaddr) h;
     let h = MmioWrite32 p RSB_REG_CMD RSB_CMD_SET_RTSADDR h;
     rsb_transfer p h
   }"

definition write_cmd :: "u32 \<Rightarrow> u32" where
  "write_cmd len = (if len = 1 then RSB_CMD_BYTE_WRITE else if len = 2 then RSB_CMD_HWORD_WRITE
     else if len = 4 then RSB_CMD_WORD_WRITE else 0)"

definition read_cmd :: "u32 \<Rightarrow> u32" where
  "read_cmd len = (if len = 1 then RSB_CMD_BYTE_READ else if len = 2 then RSB_CMD_HWORD_READ
     else if len = 4 then RSB_CMD_WORD_READ else 0)"

text \<open>\<open>data\<close> is \<^term>\<open>None\<close> for a null pointer.\<close>

definition rsb_write ::
  "'h plat \<Rightarrow> u32 \<Rightarrow> u32 \<Rightarrow> u8 list option \<Rightarrow> u32 \<Rightarrow> rsb_info \<Rightarrow> 'h \<Rightarrow> (int \<times> rsb_info \<times> 'h) option" where
  "rsb_write p rtsaddr daddr data len c h =
     (if len > 4 \<or> len = 0 \<or> len = 3 then Some (-1, c, h)
      else case data of None \<Rightarrow> Some (-1, c, h) | Some bytes \<Rightarrow> do {
        h \<leftarrow> rsb_wait_idle p h;
        let h = MmioWrite32 p RSB_REG_SADDR (push_bit 16 rtsaddr) h;
        let h = MmioWrite32 p RSB_REG_DADDR0 daddr h;
        let h = MmioWrite32 p RSB_REG_DATA0 (pack_bytes 0 (take (unat len) bytes)) h;
        let h = MmioWrite32 p RSB_REG_CMD (write_cmd len) h;
        rsb_transfer p h
      })"

definition rsb_read ::
  "'h plat \<Rightarrow> u32 \<Rightarrow> u32 \<Rightarrow> u8 list option \<Rightarrow> u32 \<Rightarrow> rsb_info \<Rightarrow> 'h \<Rightarrow>
   (int \<times> u8 list option \<times> rsb_info \<times> 'h) option" where
  "rsb_read p rtsaddr daddr data len c h =
     (if len > 4 \<or> len = 0 \<or> len = 3 then Some (-1, data, c, h)
      else case data of None \<Rightarrow> Some (-1, data, c, h) | Some bytes \<Rightarrow> do {
        h \<leftarrow> rsb_wait_idle p h;
        let h = MmioWrite32 p RSB_REG_SADDR (push_bit 16 rtsaddr) h;
        let h = MmioWrite32 p RSB_REG_DADDR0 daddr h;
        let h = MmioWrite32 p RSB_REG_CMD (read_cmd len) h;
        (ret, c, h) \<leftarrow> rsb_transfer p h;
        if ret \<noteq> 0 then Some (ret, data, c, h)
        else (case MmioRead32 p RSB_REG_DATA0 h of (dat, h) \<Rightarrow>
          Some (0, Some (map (unpack_byte dat) [0..<unat len] @ drop (unat len) bytes), c, h))
      })"

section \<open>Entry points of the bus driver\<close>

text \<open>
  \<open>gSecureAccess\<close> is a static variable that no function assigns. The secure routines go
  through the monitor and transfer one byte, whatever \<open>len\<close> says.
\<close>

definition gSecureAccess :: u32 where "gSecureAccess = 1"

type_synonym 'h rsb_state = "rsb_info \<times> 'h"

definition SunxiRsbInit :: "'h plat \<Rightarrow> 'h rsb_state \<Rightarrow> (efi_status \<times> 'h rsb_state) option" where
  "SunxiRsbInit p s =
     (if gSecureAccess \<noteq> 0 then Some (EFI_SUCCESS, s)
      else do {
        let (c, h) = rsb_init p (fst s) (snd s);
        (ret, c, h) \<leftarrow> rsb_send_initseq p 0x00 0x3e 0x7c c h;
        Some (if ret \<noteq> 0 then EFI_DEVICE_ERROR else EFI_SUCCESS, c, h)
      })"

definition SunxiRsbConfig ::
  "'h plat \<Rightarrow> u32 \<Rightarrow> u32 \<Rightarrow> 'h rsb_state \<Rightarrow> (efi_status \<times> 'h rsb_state) option" where
  "SunxiRsbConfig p saddr rtsaddr s =
     (if gSecureAccess \<noteq> 0 then Some (EFI_SUCCESS, s)
      else do {
        (ret, c, h) \<leftarrow> set_run_time_addr p saddr rtsaddr (fst s) (snd s);
        Some (if ret \<noteq> 0 then EFI_DEVICE_ERROR else EFI_SUCCESS, c, h)
      })"

definition SunxiRsbReadSecureOS ::
  "'h plat \<Rightarrow> u32 \<Rightarrow> u32 \<Rightarrow> u8 list \<Rightarrow> u32 \<Rightarrow> 'h \<Rightarrow> int \<times> u8 list \<times> 'h" where
  "SunxiRsbReadSecureOS p slave_id daddr data len h =
     (case arm_svc_arisc_read_pmu p daddr h of (r, h') \<Rightarrow>
        let ret = uint (ucast r :: u8) in
        if ret < 0 then (1, data, h') else (0, data[0 := u8_of_int (ret AND 0xff)], h'))"

definition SunxiRsbWriteSecureOS ::
  "'h plat \<Rightarrow> u32 \<Rightarrow> u32 \<Rightarrow> u8 list \<Rightarrow> u8 \<Rightarrow> 'h \<Rightarrow> int \<times> 'h" where
  "SunxiRsbWriteSecureOS p slave_id daddr data len h = arm_svc_arisc_write_pmu p daddr (ucast (data ! 0)) h"

definition SunxiRsbRead ::
  "'h plat \<Rightarrow> u32 \<Rightarrow> u32 \<Rightarrow> u8 list \<Rightarrow> u32 \<Rightarrow> 'h rsb_state \<Rightarrow>
   (efi_status \<times> u8 list \<times> 'h rsb_state) option" where
  "SunxiRsbRead p rtsaddr daddr data len s =
     (if gSecureAccess \<noteq> 0 then
        (case SunxiRsbReadSecureOS p rtsaddr daddr data len (snd s) of (ret, data', h) \<Rightarrow>
           Some (efi_of_int ret, data', fst s, h))
      else do {
        (ret, data', c, h) \<leftarrow> rsb_read p rtsaddr daddr (Some data) len (fst s) (snd s);
        Some (if ret \<noteq> 0 then EFI_DEVICE_ERROR else EFI_SUCCESS, the data', c, h)
      })"

definition SunxiRsbWrite ::
  "'h plat \<Rightarrow> u32 \<Rightarrow> u32 \<Rightarrow> u8 list \<Rightarrow> u32 \<Rightarrow> 'h rsb_state \<Rightarrow> (efi_status \<times> 'h rsb_state) option" where
  "SunxiRsbWrite p rtsaddr daddr data len s =
     (if gSecureAccess \<noteq> 0 then
        (case SunxiRsbWriteSecureOS p rtsaddr daddr data (ucast len) (snd s) of (ret, h) \<Rightarrow>
           Some (efi_of_int ret, fst s, h))
      else do {
        (ret, c, h) \<leftarrow> rsb_write p rtsaddr daddr (Some data) len (fst s) (snd s);
        Some (if ret \<noteq> 0 then EFI_DEVICE_ERROR else EFI_SUCCESS, c, h)
      })"

section \<open>SMBus layer\<close>

text \<open>\<open>Buffer\<close> holds the device address, the register and then the data bytes.\<close>

definition SmbusBlockRead ::
  "'h plat \<Rightarrow> u8 list \<Rightarrow> u64 \<Rightarrow> 'h rsb_state \<Rightarrow> (efi_status \<times> u8 list \<times> 'h rsb_state) option" where
  "SmbusBlockRead p Buffer Length s = do {
     let DeviceAddr = Buffer ! 0;
     let DeviceRegister = Buffer ! 1;
     let DeviceBufferLength = Length - 2;
     (Status, data, s') \<leftarrow>
       SunxiRsbRead p (ucast DeviceAddr) (ucast DeviceRegister) (drop 2 Buffer) (ucast DeviceBufferLength) s;
     Some (Status, take 2 Buffer @ data, s')
   }"

definition SmbusBlockWrite ::
  "'h plat \<Rightarrow> u8 list \<Rightarrow> u64 \<Rightarrow> 'h rsb_state \<Rightarrow> (efi_status \<times> 'h rsb_state) option" where
  "SmbusBlockWrite p Buffer Length s =
     (let DeviceAddr = Buffer ! 0; DeviceRegister = Buffer ! 1; DeviceBufferLength = Length - 2
      in SunxiRsbWrite p (ucast DeviceAddr) (ucast DeviceRegister) (drop 2 Buffer) (ucast DeviceBufferLength) s)"

definition SmBusInit :: "'h plat \<Rightarrow> 'h rsb_state \<Rightarrow> (efi_status \<times> 'h rsb_state) option" where
  "SmBusInit p s = do {
     (Status, s) \<leftarrow> SunxiRsbInit p s;
     if EFI_ERROR Status then Some (Status, s)
     else do {
       (Status, s) \<leftarrow> SunxiRsbConfig p RSB_SADDR_AXP81X (ucast RSB_RTSADDR_AXP81X) s;
       if EFI_ERROR Status then Some (EFI_DEVICE_ERROR, s) else Some (Status, s)
     }
   }"

text \<open>The operations of the SMBus protocol other than block transfers are all \<open>EfiSmbusOther\<close>.\<close>

datatype smbus_operation = EfiSmbusReadBlock | EfiSmbusWriteBlock | EfiSmbusOther nat

definition SmbusExecute ::
  "'h plat \<Rightarrow> smbus_operation \<Rightarrow> bool \<Rightarrow> u64 \<Rightarrow> u8 list \<Rightarrow> 'h rsb_state \<Rightarrow>
   (efi_status \<times> u8 list \<times> 'h rsb_state) option" where
  "SmbusExecute p Operation PecCheck Length Buffer s =
     (if PecCheck then Some (EFI_UNSUPPORTED, Buffer, s)
      else if Operation \<noteq> EfiSmbusWriteBlock \<and> Operation \<noteq> EfiSmbusReadBlock then Some (EFI_UNSUPPORTED, Buffer, s)
      else if Operation = EfiSmbusReadBlock then SmbusBlockRead p Buffer Length s
      else do { (Status, s') \<leftarrow> SmbusBlockWrite p Buffer Length s; Some (Status, Buffer, s') })"

definition SmbusArpDevice :: efi_status where "SmbusArpDevice = EFI_UNSUPPORTED"
definition SmbusGetArpMap :: efi_status where "SmbusGetArpMap = EFI_UNSUPPORTED"
definition SmbusNotify :: efi_status where "SmbusNotify = EFI_UNSUPPORTED"

section \<open>Bus operations of the AXP81X driver\<close>

text \<open>
  The library flavour calls the block routines, the DXE driver goes through the protocol's
  \<open>Execute\<close>. \<open>junk\<close> is the content of the uninitialised data byte of the local buffer.
\<close>

definition Axp81XLib_PmBusRead ::
  "'h plat \<Rightarrow> u8 \<Rightarrow> u8 \<Rightarrow> 'h rsb_state \<Rightarrow> (efi_status \<times> u8 \<times> 'h rsb_state) option" where
  "Axp81XLib_PmBusRead p junk DeviceRegister s = do {
     (Status, DeviceBuffer, s') \<leftarrow> SmbusBlockRead p [RSB_RTSADDR_AXP81X, DeviceRegister, junk] 3 s;
     Some (Status, DeviceBuffer ! 2, s')
   }"

definition Axp81XLib_PmBusWrite ::
  "'h plat \<Rightarrow> u8 \<Rightarrow> u8 \<Rightarrow> 'h rsb_state \<Rightarrow> (efi_status \<times> 'h rsb_state) option" where
  "Axp81XLib_PmBusWrite p DeviceRegister data s =
     SmbusBlockWrite p [RSB_RTSADDR_AXP81X, DeviceRegister, data] 3 s"

definition Axp81XDxe_PmBusRead ::
  "'h plat \<Rightarrow> u8 \<Rightarrow> u8 \<Rightarrow> 'h rsb_state \<Rightarrow> (efi_status \<times> u8 \<times> 'h rsb_state) option" where
  "Axp81XDxe_PmBusRead p junk DeviceRegister s = do {
     (Status, DeviceBuffer, s') \<leftarrow>
       SmbusExecute p EfiSmbusReadBlock False 3 [0x11, DeviceRegister, junk] s;
     Some (Status, DeviceBuffer ! 2, s')
   }"

definition Axp81XDxe_PmBusWrite ::
  "'h plat \<Rightarrow> u8 \<Rightarrow> u8 \<Rightarrow> 'h rsb_state \<Rightarrow> (efi_status \<times> 'h rsb_state) option" where
  "Axp81XDxe_PmBusWrite p DeviceRegister data s = do {
     (Status, DeviceBuffer, s') \<leftarrow>
       SmbusExecute p EfiSmbusWriteBlock False 3 [0x11, DeviceRegister, data] s;
     Some (Status, s')
   }"

text \<open>
  The operation tables. The routines always return (\<open>axp_bus_returns\<close> below), so \<open>the\<close> never
  meets \<^term>\<open>None\<close>.
\<close>

definition Axp81XLib_PmBusOps :: "'h plat \<Rightarrow> u8 \<Rightarrow> 'h rsb_state axp_pm_bus_ops" where
  "Axp81XLib_PmBusOps p junk =
     \<lparr>bus_read = (\<lambda>a s. the (Axp81XLib_PmBusRead p junk a s)),
      bus_write = (\<lambda>a v s. the (Axp81XLib_PmBusWrite p a v s))\<rparr>"

definition Axp81XDxe_PmBusOps :: "'h plat \<Rightarrow> u8 \<Rightarrow> 'h rsb_state axp_pm_bus_ops" where
  "Axp81XDxe_PmBusOps p junk =
     \<lparr>bus_read = (\<lambda>a s. the (Axp81XDxe_PmBusRead p junk a s)),
      bus_write = (\<lambda>a v s. the (Axp81XDxe_PmBusWrite p a v s))\<rparr>"

section \<open>The secure path, end to end\<close>

lemma byte_of_trap: "u8_of_int (uint (ucast (r :: u32) :: u8) AND 0xff) = ucast r"
proof -
  have "uint (w :: u8) AND 0xff = uint w" for w
  proof -
    have "take_bit 8 (uint w) = uint w" using uint_lt2p [of w] by (simp add: take_bit_int_eq_self_iff)
    then show ?thesis by (simp add: take_bit_eq_mask mask_eq_exp_minus_1)
  qed
  then show ?thesis by (simp add: u8_of_int_def)
qed

lemma secure_read:
  "SunxiRsbRead p rtsaddr daddr data len s =
     (case smc_trap p ARM_SVC_ARISC_READ_PMU daddr 0 0 (snd s) of (r, h) \<Rightarrow>
        Some (0, data[0 := ucast r], fst s, h))"
  by (simp add: SunxiRsbRead_def gSecureAccess_def SunxiRsbReadSecureOS_def arm_svc_arisc_read_pmu_def
      sunxi_smc_call_def Let_def byte_of_trap split: prod.splits)

lemma secure_write:
  "SunxiRsbWrite p rtsaddr daddr data len s =
     (case smc_trap p ARM_SVC_ARISC_WRITE_PMU daddr (ucast (data ! 0)) 0 (snd s) of (r, h) \<Rightarrow>
        Some (efi_of_int (sint r), fst s, h))"
  by (simp add: SunxiRsbWrite_def gSecureAccess_def SunxiRsbWriteSecureOS_def arm_svc_arisc_write_pmu_def
      sunxi_smc_call_def split: prod.splits)

lemma lib_read:
  "Axp81XLib_PmBusRead p junk a s =
     (case smc_trap p ARM_SVC_ARISC_READ_PMU (ucast a) 0 0 (snd s) of (r, h) \<Rightarrow> Some (0, ucast r, fst s, h))"
  by (simp add: Axp81XLib_PmBusRead_def SmbusBlockRead_def secure_read split: prod.splits)

lemma lib_write:
  "Axp81XLib_PmBusWrite p a v s =
     (case smc_trap p ARM_SVC_ARISC_WRITE_PMU (ucast a) (ucast v) 0 (snd s) of (r, h) \<Rightarrow>
        Some (efi_of_int (sint r), fst s, h))"
  by (simp add: Axp81XLib_PmBusWrite_def SmbusBlockWrite_def secure_write split: prod.splits)

lemma dxe_read: "Axp81XDxe_PmBusRead p junk a s = Axp81XLib_PmBusRead p junk a s"
  by (simp add: Axp81XDxe_PmBusRead_def Axp81XLib_PmBusRead_def SmbusExecute_def)

lemma dxe_write: "Axp81XDxe_PmBusWrite p a v s = Axp81XLib_PmBusWrite p a v s"
  by (simp add: Axp81XDxe_PmBusWrite_def Axp81XLib_PmBusWrite_def SmbusExecute_def
      SmbusBlockWrite_def secure_write split: prod.splits)

lemma dxe_ops: "Axp81XDxe_PmBusOps p junk = Axp81XLib_PmBusOps p junk"
  by (simp add: Axp81XDxe_PmBusOps_def Axp81XLib_PmBusOps_def dxe_read dxe_write)

text \<open>
  The two flavours of the AXP81X bus operations (library and DXE driver) are the same
  function of the platform, and every call returns.
\<close>

theorem axp_bus_flavours_agree:
  "Axp81XDxe_PmBusOps p junk = Axp81XLib_PmBusOps p junk \<and>
   Axp81XLib_PmBusRead p junk a s \<noteq> None \<and> Axp81XLib_PmBusWrite p a v s \<noteq> None"
  by (simp add: dxe_ops) (simp add: lib_read lib_write split: prod.splits)

text \<open>
  A register read reports success whatever the secure firmware answers: the result is cut
  to a byte before it is tested for being negative, so a firmware error code is delivered as
  register content. Writes do report the firmware's result.
\<close>

theorem axp_read_errors_unreported:
  "bus_read (Axp81XLib_PmBusOps p junk) a s =
     (0, ucast (fst (smc_trap p ARM_SVC_ARISC_READ_PMU (ucast a) 0 0 (snd s))),
      fst s, snd (smc_trap p ARM_SVC_ARISC_READ_PMU (ucast a) 0 0 (snd s))) \<and>
   fst (bus_write (Axp81XLib_PmBusOps p junk) a v s) =
     efi_of_int (sint (fst (smc_trap p ARM_SVC_ARISC_WRITE_PMU (ucast a) (ucast v) 0 (snd s))))"
  by (simp add: Axp81XLib_PmBusOps_def lib_read lib_write split: prod.splits)

section \<open>The contract of the secure firmware\<close>

text \<open>
  What the power driver needs of the firmware behind \<open>ARM_SVC_ARISC_READ_PMU\<close> and
  \<open>ARM_SVC_ARISC_WRITE_PMU\<close>: reads deliver the register, a write that returns 0 has stored the
  byte, and neither touches another register of \<open>cfg\<close>. It makes the AXP81X bus operations a
  \<open>register_bus\<close>.
\<close>

locale pmu_firmware =
  fixes p :: "'h plat"
    and pmu :: "'h \<Rightarrow> u8 \<Rightarrow> u8"
    and cfg :: "u8 set"
  assumes fw_read: "smc_trap p ARM_SVC_ARISC_READ_PMU (ucast a) 0 0 h = (r, h') \<Longrightarrow> a \<in> cfg \<Longrightarrow> ucast r = pmu h a"
    and fw_read_keeps: "smc_trap p ARM_SVC_ARISC_READ_PMU (ucast a) 0 0 h = (r, h') \<Longrightarrow> b \<in> cfg \<Longrightarrow> pmu h' b = pmu h b"
    and fw_write: "smc_trap p ARM_SVC_ARISC_WRITE_PMU (ucast a) (ucast v) 0 h = (0, h') \<Longrightarrow> a \<in> cfg \<Longrightarrow> pmu h' a = v"
    and fw_write_failed: "smc_trap p ARM_SVC_ARISC_WRITE_PMU (ucast a) (ucast v) 0 h = (r, h') \<Longrightarrow> a \<in> cfg \<Longrightarrow>
      pmu h' a \<in> {pmu h a, v}"
    and fw_write_frame: "smc_trap p ARM_SVC_ARISC_WRITE_PMU (ucast a) (ucast v) 0 h = (r, h') \<Longrightarrow>
      b \<in> cfg \<Longrightarrow> b \<noteq> a \<Longrightarrow> pmu h' b = pmu h b"

lemma efi_of_sint_zero: "efi_of_int (sint (r :: u32)) = 0 \<longleftrightarrow> r = 0"
proof -
  have "to_int32 (efi_of_int (sint r)) = sint r"
    using sint_range_size [of r] by (intro to_int32_of_int) (auto simp: word_size)
  then show ?thesis by (metis efi_of_int_simps(1) signed_0 signed_word_eqI to_int32_codes(4))
qed

sublocale pmu_firmware \<subseteq> axp: register_bus "Axp81XLib_PmBusOps p junk" "\<lambda>s. pmu (snd s)" cfg for junk
proof
  fix a b st v d d'
  assume "bus_read (Axp81XLib_PmBusOps p junk) a d = (st, v, d')" and "b \<in> cfg"
  then show "pmu (snd d') b = pmu (snd d) b"
    using fw_read_keeps by (auto simp: Axp81XLib_PmBusOps_def lib_read split: prod.splits)
next
  fix a v d d'
  assume "bus_read (Axp81XLib_PmBusOps p junk) a d = (0, v, d')" and "a \<in> cfg"
  then show "v = pmu (snd d) a"
    using fw_read by (auto simp: Axp81XLib_PmBusOps_def lib_read split: prod.splits)
next
  fix a v d st d' b
  assume "bus_write (Axp81XLib_PmBusOps p junk) a v d = (st, d')" and "b \<in> cfg" and "b \<noteq> a"
  then show "pmu (snd d') b = pmu (snd d) b"
    using fw_write_frame by (auto simp: Axp81XLib_PmBusOps_def lib_write split: prod.splits)
next
  fix a v d d'
  assume "bus_write (Axp81XLib_PmBusOps p junk) a v d = (0, d')" and "a \<in> cfg"
  then show "pmu (snd d') a = v"
    using fw_write by (auto simp: Axp81XLib_PmBusOps_def lib_write efi_of_sint_zero split: prod.splits)
next
  fix a v d st d'
  assume "bus_write (Axp81XLib_PmBusOps p junk) a v d = (st, d')" and "a \<in> cfg"
  then show "pmu (snd d') a \<in> {pmu (snd d) a, v}"
    using fw_write_failed by (fastforce simp: Axp81XLib_PmBusOps_def lib_write split: prod.splits)
qed

lemma lib_reads_succeed: "fst (bus_read (Axp81XLib_PmBusOps p junk) a s) = 0"
  by (simp add: Axp81XLib_PmBusOps_def lib_read split: prod.splits)

context pmu_firmware
begin

lemma dxe_register_bus: "register_bus (Axp81XDxe_PmBusOps p junk) (\<lambda>s. pmu (snd s)) cfg"
  unfolding dxe_ops by unfold_locales

end

text \<open>
  A firmware that keeps the contract: a register file in which the interrupt status
  registers clear the bits that are written as 1, and every other call fails.
\<close>

definition arisc_plat :: "(u8 \<Rightarrow> u8) plat" where
  "arisc_plat =
     \<lparr>MmioRead32 = (\<lambda>a R. (0, R)), MmioWrite32 = (\<lambda>a v R. R),
      smc_trap = (\<lambda>f a v w R.
        if f = ARM_SVC_ARISC_READ_PMU then (ucast (R (ucast a)), R)
        else if f = ARM_SVC_ARISC_WRITE_PMU then
          (0, if 0x48 \<le> (ucast a :: u8) \<and> (ucast a :: u8) \<le> 0x4d
              then R(ucast a := R (ucast a) AND NOT (ucast v)) else R(ucast a := ucast v))
        else (-1, R))\<rparr>"

lemma ucast_ucast_u8 [simp]: "(ucast (ucast (x :: u8) :: u32) :: u8) = x"
  by (rule bit_word_eqI) (simp add: bit_simps)

interpretation arisc: pmu_firmware arisc_plat id "{a. \<not> (0x48 \<le> a \<and> a \<le> 0x4d)}"
  by unfold_locales (auto simp: arisc_plat_def split: if_splits)

section \<open>The direct path: transfers end and carry their data\<close>

text \<open>The first event that shows up within \<open>n\<close> reads of the status register.\<close>

fun first_event :: "'h plat \<Rightarrow> nat \<Rightarrow> 'h \<Rightarrow> (u32 \<times> 'h) option" where
  "first_event p 0 h = None"
| "first_event p (Suc n) h =
     (case MmioRead32 p RSB_REG_STAT h of (istat, h') \<Rightarrow>
        if istat AND 7 \<noteq> 0 then Some (istat, h') else first_event p n h')"

definition event_result :: "u32 \<Rightarrow> int" where
  "event_result istat =
     (if istat AND RSB_LBSY_INT \<noteq> 0 then RET_FAIL
      else if istat AND RSB_TERR_INT \<noteq> 0 then sint (- (drop_bit 8 istat AND 0xffff)) else 0)"

lemma event_bits: "(x :: u32) AND 7 = 0 \<longleftrightarrow> x AND 4 = 0 \<and> x AND 2 = 0 \<and> x AND 1 = 0"
proof -
  have "x AND 7 = (x AND 4) OR (x AND 2) OR (x AND 1)"
    using word_ao_dist2 [of x 4 "2 OR 1"] word_ao_dist2 [of x 2 1] by simp
  then show ?thesis by (simp add: or_eq_0_iff)
qed

lemma rsb_poll_event:
  assumes "first_event p n h = Some (istat, h')"
  shows "\<exists>c. rsb_poll p rsb_started h = Some (c, MmioWrite32 p RSB_REG_STAT istat h') \<and>
    rsb_outcome c = event_result istat"
  using assms
proof (induction n arbitrary: h)
  case (Suc n)
  obtain x h1 where x: "MmioRead32 p RSB_REG_STAT h = (x, h1)" by (cases "MmioRead32 p RSB_REG_STAT h")
  have busy: "rsb_busy rsb_started \<noteq> 0" by (simp add: rsb_started_def)
  show ?case
  proof (cases "x AND 7 = 0")
    case True
    then have "rsb_poll p rsb_started h = rsb_poll p rsb_started h1"
      using x busy event_bits [of x] by (subst rsb_poll.simps) simp
    then show ?thesis using Suc x True by auto
  next
    case False
    then have "istat = x" "h' = h1" using Suc.prems x by auto
    then show ?thesis
      using x busy False event_bits [of x]
      by (subst rsb_poll.simps, subst rsb_poll.simps)
        (auto simp: rsb_outcome_def event_result_def rsb_started_def)
  qed
qed simp

text \<open>
  Over the direct path, a transfer whose status register was idle and shows an event
  within some number of polls returns, with the code of that event (0 exactly for a clean
  end of transfer), after programming the chip's run-time address, the register, the data
  bytes and the command; a length other than 1, 2 or 4 is rejected without touching the
  controller.
\<close>

theorem rsb_write_returns:
  assumes idle: "MmioRead32 p RSB_REG_STAT h = (stat, h0)" "stat AND 7 = 0"
    and len: "len \<in> {1, 2, 4}"
    and prog: "h1 = MmioWrite32 p RSB_REG_CMD (write_cmd len) (MmioWrite32 p RSB_REG_DATA0
        (pack_bytes 0 (take (unat len) bytes)) (MmioWrite32 p RSB_REG_DADDR0 daddr
        (MmioWrite32 p RSB_REG_SADDR (push_bit 16 rtsaddr) h0)))"
    and event: "first_event p n (mmio_rmw p RSB_REG_CTRL (\<lambda>v. v OR RSB_START_TRANS) h1) = Some (istat, h2)"
  shows "(\<exists>c'. rsb_write p rtsaddr daddr (Some bytes) len c h =
      Some (event_result istat, c', MmioWrite32 p RSB_REG_STAT istat h2)) \<and>
    rsb_write p rtsaddr daddr (Some bytes) 3 c h = Some (-1, c, h)"
proof -
  have wait: "rsb_wait_idle p h = Some h0"
    using idle by (subst rsb_wait_idle.simps) simp
  obtain c' where poll: "rsb_poll p rsb_started (mmio_rmw p RSB_REG_CTRL (\<lambda>v. v OR RSB_START_TRANS) h1) =
      Some (c', MmioWrite32 p RSB_REG_STAT istat h2)" "rsb_outcome c' = event_result istat"
    using rsb_poll_event [OF event] by blast
  have "\<not> (len > 4 \<or> len = 0 \<or> len = 3)" using len by auto
  then show ?thesis
    using wait poll prog by (simp add: rsb_write_def rsb_transfer_def Let_def)
qed

text \<open>A controller that ends every transfer at once: a register file with an event register.\<close>

definition prompt_plat :: "(u32 \<Rightarrow> u32) plat" where
  "prompt_plat =
     \<lparr>MmioRead32 = (\<lambda>a R. (R a, R)),
      MmioWrite32 = (\<lambda>a v R.
        if a = RSB_REG_STAT then R(a := R a AND NOT v)
        else if a = RSB_REG_CTRL \<and> v AND RSB_START_TRANS \<noteq> 0 then R(a := v, RSB_REG_STAT := RSB_TOVER_INT)
        else R(a := v)),
      smc_trap = (\<lambda>f a v w R. (-1, R))\<rparr>"

theorem rsb_write_returns_witness:
  "\<exists>c' h'. rsb_write prompt_plat 0x11 0x20 (Some [0x5a]) 1 rsb_started (\<lambda>_. 0) = Some (0, c', h')"
proof -
  let ?p = "prompt_plat"
  let ?h1 = "MmioWrite32 ?p RSB_REG_CMD (write_cmd 1) (MmioWrite32 ?p RSB_REG_DATA0
        (pack_bytes 0 (take (unat (1 :: u32)) [0x5a])) (MmioWrite32 ?p RSB_REG_DADDR0 0x20
        (MmioWrite32 ?p RSB_REG_SADDR (push_bit 16 0x11) (\<lambda>_. 0))))"
  have idle: "MmioRead32 ?p RSB_REG_STAT (\<lambda>_. 0) = (0, \<lambda>_. 0)" "(0 :: u32) AND 7 = 0"
    by (simp_all add: prompt_plat_def)
  have ev: "first_event ?p (Suc 0) (mmio_rmw ?p RSB_REG_CTRL (\<lambda>v. v OR RSB_START_TRANS) ?h1) =
      Some (1, mmio_rmw ?p RSB_REG_CTRL (\<lambda>v. v OR RSB_START_TRANS) ?h1)"
    by (simp add: prompt_plat_def mmio_rmw_def)
  have "event_result 1 = 0" by (simp add: event_result_def)
  then show ?thesis using rsb_write_returns [OF idle _ refl ev, of rsb_started] by auto
qed

text \<open>
  The bytes written through the data register are the bytes read back from it, for every
  transfer length of the bus.
\<close>

theorem rsb_data_round_trip:
  "length bs \<le> 4 \<Longrightarrow> map (unpack_byte (pack_bytes 0 bs)) [0..<length bs] = bs"
  using unpack_pack .

theorem rsb_data_round_trip_witness:
  "map (unpack_byte (pack_bytes 0 [0x12, 0xfe, 0x00, 0x80])) [0..<4] = [0x12, 0xfe, 0x00, 0x80]"
proof -
  have "length [0x12 :: u8, 0xfe, 0x00, 0x80] = 4" by simp
  with rsb_data_round_trip [of "[0x12, 0xfe, 0x00, 0x80]"] show ?thesis by (simp only:)
qed

end
