(* ===== verification/Checksum.thy ===== *)
theory Checksum
  imports Prelude
begin

text \<open>
  Checksums: the CRC-32 of \<open>src/Library/SunxiCheckLib/SunxiCheckLib.c\<close> (and its copy
  \<open>src/Library/SunxiPartitionLib/Crc32.c\<close>), the additive checksum of the boot images with its
  stamp, and the plain sum.

  The table-driven CRC is shown equal to the bit-serial definition, and to detect every error
  confined to four consecutive bytes.
\<close>

section \<open>CRC-32\<close>

text \<open>One round of the inner loop, the table it fills, and the two copies of the routine.\<close>

definition crc_step :: "u32 \<Rightarrow> u32" where
  "crc_step c = (if c AND 1 \<noteq> 0 then drop_bit 1 c XOR 0xEDB88320 else drop_bit 1 c)"

definition CRC_32_Tbl :: "u32 list" where
  "CRC_32_Tbl = map (\<lambda>i. (crc_step ^^ 8) (of_nat i)) [0..<256]"

definition crc_update :: "u32 \<Rightarrow> u8 \<Rightarrow> u32" where
  "crc_update CRC32 b = CRC_32_Tbl ! unat ((CRC32 XOR ucast b) AND 0xff) XOR drop_bit 8 CRC32"

definition SunxiCrc32 :: "u8 list \<Rightarrow> u32 \<Rightarrow> u32" where
  "SunxiCrc32 buffer len = foldl crc_update 0xffffffff (take (unat len) buffer) XOR 0xffffffff"

definition calc_crc32 :: "u8 list \<Rightarrow> u32 \<Rightarrow> u32" where
  "calc_crc32 buffer len = foldl crc_update 0xffffffff (take (unat len) buffer) XOR 0xffffffff"

text \<open>The bit-serial reference: feed a byte into the low end and shift eight times.\<close>

definition crc_serial :: "u32 \<Rightarrow> u8 \<Rightarrow> u32" where
  "crc_serial c b = (crc_step ^^ 8) (c XOR ucast b)"

definition crc32_ref :: "u8 list \<Rightarrow> u32" where
  "crc32_ref bs = foldl crc_serial 0xffffffff bs XOR 0xffffffff"

lemma crc_step_alt: "crc_step c = drop_bit 1 c XOR (if bit c 0 then 0xEDB88320 else 0)"
  by (simp add: crc_step_def and_one_eq odd_iff_mod_2_eq_one bit_0)

lemma crc_step_xor: "crc_step (x XOR y) = crc_step x XOR crc_step y"
  by (auto simp: crc_step_alt bit_xor_iff drop_bit_xor xor.left_commute xor.assoc)

lemma crc_steps_xor: "(crc_step ^^ n) (x XOR y) = (crc_step ^^ n) x XOR (crc_step ^^ n) y"
  by (induction n) (simp_all add: crc_step_xor)

lemma crc_steps_shift:
  assumes "\<forall>k < n. \<not> bit y k"
  shows "(crc_step ^^ n) y = drop_bit n y"
  using assms
proof (induction n arbitrary: y)
  case (Suc n)
  then have "crc_step y = drop_bit 1 y" by (simp add: crc_step_alt)
  moreover have "\<forall>k < n. \<not> bit (drop_bit 1 y) k" using Suc.prems by (simp add: bit_drop_bit_eq)
  ultimately show ?case
    using Suc.IH [of "drop_bit 1 y"] by (simp add: funpow_Suc_right del: funpow.simps)
qed simp

lemma crc_step_inj: "crc_step x = crc_step y \<Longrightarrow> x = y"
proof (rule bit_word_eqI)
  fix n
  assume eq: "crc_step x = crc_step y" and n: "n < LENGTH(32)"
  have top: "bit (crc_step c) 31 = bit c 0" for c
    using bit_imp_le_length [of c 32] by (auto simp: crc_step_alt bit_xor_iff bit_drop_bit_eq)
  have b0: "bit x 0 = bit y 0" using top [of x] top [of y] eq by simp
  then have "drop_bit 1 x = drop_bit 1 y"
    using eq by (auto simp: crc_step_alt split: if_splits)
  then have "bit x (Suc k) = bit y (Suc k)" for k
    by (metis bit_drop_bit_eq comp_apply plus_1_eq_Suc)
  with b0 show "bit x n = bit y n" by (cases n) auto
qed

lemma crc_steps_inj: "(crc_step ^^ n) x = (crc_step ^^ n) y \<Longrightarrow> x = y"
  by (induction n) (auto dest: crc_step_inj)

section \<open>The table-driven routine is the bit-serial one\<close>

lemma crc_update_serial: "crc_update c b = crc_serial c b"
proof -
  let ?x = "c XOR ucast b"
  let ?lo = "?x AND mask 8" and ?hi = "?x AND NOT (mask 8)"
  have ff: "(0xff :: u32) = mask 8" by (simp add: mask_eq_exp_minus_1)
  have lo: "unat ?lo < 256"
    using and_mask_less' [of 8 ?x] by (simp add: word_less_nat_alt)
  have "?x = ?lo XOR ?hi" by (rule bit_word_eqI) (auto simp: bit_simps)
  then have "crc_serial c b = (crc_step ^^ 8) ?lo XOR (crc_step ^^ 8) ?hi"
    unfolding crc_serial_def by (metis crc_steps_xor)
  moreover have "(crc_step ^^ 8) ?hi = drop_bit 8 ?hi"
    by (rule crc_steps_shift) (simp add: bit_simps)
  moreover have "drop_bit 8 ?hi = drop_bit 8 c"
    by (rule bit_word_eqI) (auto simp: bit_simps dest: bit_imp_le_length)
  moreover have "CRC_32_Tbl ! unat ?lo = (crc_step ^^ 8) ?lo"
    using lo by (simp add: CRC_32_Tbl_def)
  ultimately show ?thesis by (simp add: crc_update_def ff)
qed

text \<open>
  C31: the table-driven CRC-32 of both libraries computes the bit-serial CRC-32 of the first
  \<open>length\<close> bytes of the buffer.
\<close>

theorem crc32_table_is_serial:
  "SunxiCrc32 buffer len = crc32_ref (take (unat len) buffer) \<and> calc_crc32 buffer len = SunxiCrc32 buffer len"
proof -
  have "crc_update = crc_serial" by (simp add: fun_eq_iff crc_update_serial)
  then show ?thesis by (simp add: SunxiCrc32_def calc_crc32_def crc32_ref_def)
qed

section \<open>Errors the CRC detects\<close>

lemma crc_serial_inj: "crc_serial c b = crc_serial c' b \<Longrightarrow> c = c'"
  unfolding crc_serial_def by (drule crc_steps_inj) simp

lemma foldl_crc_inj: "foldl crc_serial c bs = foldl crc_serial c' bs \<Longrightarrow> c = c'"
  by (induction bs arbitrary: c c') (auto dest: crc_serial_inj)

text \<open>Up to four bytes act on the register as one word.\<close>

lemma foldl_crc_word:
  "length bs + i \<le> 4 \<Longrightarrow> foldl crc_serial ((crc_step ^^ (i * 8)) c) bs =
     (crc_step ^^ ((i + length bs) * 8)) (c XOR pack_bytes i bs)"
proof (induction bs arbitrary: i c)
  case (Cons b bs)
  have byte: "bit b k \<Longrightarrow> k < 8" for k using bit_imp_le_length [of b k] by simp
  have or_xor: "push_bit (i * 8) (ucast b) OR pack_bytes (Suc i) bs =
      push_bit (i * 8) (ucast b) XOR pack_bytes (Suc i) bs"
    by (rule bit_word_eqI) (auto simp: bit_simps pack_bytes_bit dest: byte)
  have "(crc_step ^^ (i * 8)) (push_bit (i * 8) (ucast b)) = ucast b"
  proof -
    have "(crc_step ^^ (i * 8)) (push_bit (i * 8) (ucast b)) = drop_bit (i * 8) (push_bit (i * 8) (ucast b))"
      by (rule crc_steps_shift) (simp add: bit_simps)
    also have "\<dots> = (ucast b :: u32)"
      using Cons.prems by (intro bit_word_eqI) (auto simp: bit_simps dest: byte)
    finally show ?thesis .
  qed
  then have "crc_serial ((crc_step ^^ (i * 8)) c) b = (crc_step ^^ (Suc i * 8)) (c XOR push_bit (i * 8) (ucast b))"
    by (simp add: crc_serial_def crc_steps_xor funpow_add)
  then show ?case
    using Cons.IH [of "Suc i" "c XOR push_bit (i * 8) (ucast b)"] Cons.prems
    by (simp add: xor.assoc or_xor)
qed simp

lemma pack_bytes_inj: "length bs = length cs \<Longrightarrow> length bs \<le> 4 \<Longrightarrow> pack_bytes 0 bs = pack_bytes 0 cs \<Longrightarrow> bs = cs"
  by (metis unpack_pack)

lemma crc32_detects_burst_aux:
  assumes "length bs = length cs" and "length bs \<le> 4" and "bs \<noteq> cs"
    and "length (xs @ bs @ ys) = unat len"
  shows "SunxiCrc32 (xs @ bs @ ys) len \<noteq> SunxiCrc32 (xs @ cs @ ys) len"
proof
  let ?c = "foldl crc_serial 0xffffffff xs"
  assume "SunxiCrc32 (xs @ bs @ ys) len = SunxiCrc32 (xs @ cs @ ys) len"
  moreover have "crc_update = crc_serial" by (simp add: fun_eq_iff crc_update_serial)
  ultimately have "foldl crc_serial (foldl crc_serial ?c bs) ys = foldl crc_serial (foldl crc_serial ?c cs) ys"
    using assms(1,4) by (simp add: SunxiCrc32_def)
  then have "foldl crc_serial ?c bs = foldl crc_serial ?c cs" by (rule foldl_crc_inj)
  then have "(crc_step ^^ (length bs * 8)) (?c XOR pack_bytes 0 bs) =
      (crc_step ^^ (length bs * 8)) (?c XOR pack_bytes 0 cs)"
    using foldl_crc_word [of bs 0 ?c] foldl_crc_word [of cs 0 ?c] assms(1,2) by simp
  then have "pack_bytes 0 bs XOR ?c = pack_bytes 0 cs XOR ?c"
    using crc_steps_inj by (metis xor.commute)
  then show False using pack_bytes_inj assms(1-3) by simp
qed

text \<open>
  C32: the CRC-32 detects every change confined to four consecutive bytes (in particular every
  single-byte error and every burst of up to 25 bits): two buffers of the same length that
  differ only there have different checksums.
\<close>

theorem crc32_detects_burst:
  assumes "length bs = length cs" and "length bs \<le> 4" and "bs \<noteq> cs"
    and "length (xs @ bs @ ys) = unat len"
  shows "SunxiCrc32 (xs @ bs @ ys) len \<noteq> SunxiCrc32 (xs @ cs @ ys) len \<and>
    calc_crc32 (xs @ bs @ ys) len \<noteq> calc_crc32 (xs @ cs @ ys) len"
  using crc32_detects_burst_aux [OF assms] by (simp add: SunxiCrc32_def calc_crc32_def)

theorem crc32_detects_burst_witness:
  "SunxiCrc32 [1, 2, 3] 3 \<noteq> SunxiCrc32 [1, 7, 3] 3"
  using crc32_detects_burst [of "[2]" "[7]" "[1]" "[3]" 3] by simp

section \<open>The stamped checksum of boot images\<close>

text \<open>
  \<open>mem\<close> are the 32-bit words of memory from \<open>buffer\<close> on; the code reads past the buffer in
  one case, so \<open>mem\<close> is total. \<open>count\<close> is an unsigned 32-bit counter that wraps around in
  \<open>count -= 4\<close> and in \<open>count--\<close>. A loop returns the sum and the index of the next word.
\<close>

definition STAMP_VALUE :: u32 where "STAMP_VALUE = 0x5F0A6C39"

function sum_quads :: "(nat \<Rightarrow> u32) \<Rightarrow> nat \<Rightarrow> u32 \<Rightarrow> u32 \<Rightarrow> nat \<times> u32 \<times> u32" where
  "sum_quads mem i count acc =
     (let acc = acc + mem i; acc = acc + mem (i + 1); acc = acc + mem (i + 2); acc = acc + mem (i + 3);
          count = count - 4
      in if count > 4 - 1 then sum_quads mem (i + 4) count acc else (i + 4, count, acc))"
  by pat_completeness auto

termination sum_quads
proof (relation "measure (\<lambda>(mem, i, count, acc). if unat count < 4 then 2 ^ 32 else unat count)")
  fix i and count count' :: u32
  assume c': "count' = count - 4" and "4 - 1 < count'"
  then have "4 \<le> unat count'" by (simp add: word_less_nat_alt)
  moreover have "unat count' < 2 ^ 32" using unsigned_less [where 'a = nat, of count'] by simp
  moreover have "unat count' = unat count - 4" if "4 \<le> unat count"
    using that unfolding c' by (subst unat_sub) (auto simp: word_le_nat_alt)
  ultimately show "((mem, i + 4, count', s), (mem, i, count, s')) \<in>
      measure (\<lambda>(mem, i, count, acc). if unat count < 4 then 2 ^ 32 else unat count)" for mem s s'
    by auto
qed simp

fun sum_rest :: "(nat \<Rightarrow> u32) \<Rightarrow> nat \<Rightarrow> nat \<Rightarrow> u32 \<Rightarrow> u32" where
  "sum_rest mem i 0 acc = acc"
| "sum_rest mem i (Suc n) acc = sum_rest mem (i + 1) n (acc + mem i)"

definition image_sum :: "(nat \<Rightarrow> u32) \<Rightarrow> u32 \<Rightarrow> u32" where
  "image_sum mem len =
     (case sum_quads mem 0 (drop_bit 2 len) 0 of (i, count, acc) \<Rightarrow> sum_rest mem i (unat count) acc)"

definition SunxiSpriteGenerateChecksum :: "(nat \<Rightarrow> u32) \<Rightarrow> u32 \<Rightarrow> u32 \<Rightarrow> u32" where
  "SunxiSpriteGenerateChecksum mem len src_sum = image_sum mem len - src_sum + STAMP_VALUE"

definition SunxiSpriteVerifyChecksum :: "(nat \<Rightarrow> u32) \<Rightarrow> u32 \<Rightarrow> u32 \<Rightarrow> int" where
  "SunxiSpriteVerifyChecksum mem len src_sum =
     (let acc = image_sum mem len - src_sum + STAMP_VALUE in if acc = src_sum then 0 else -1)"

definition SunxiAddSum :: "(nat \<Rightarrow> u32) \<Rightarrow> u32 \<Rightarrow> u32" where
  "SunxiAddSum mem len =
     (let n = unat (drop_bit 2 len);
          acc = sum_rest mem 0 n 0;
          r = len AND 3
      in if r = 0 then acc
         else if r = 1 then acc + (mem n AND 0x000000ff)
         else if r = 2 then acc + (mem n AND 0x0000ffff)
         else acc + (mem n AND 0x00ffffff))"

lemma sum_rest_sum: "sum_rest mem i n s = s + (\<Sum>k = i..<i + n. mem k)"
proof (induction n arbitrary: i s)
  case (Suc n)
  have "(\<Sum>k = i..<i + Suc n. mem k) = mem i + (\<Sum>k = i + 1..<i + 1 + n. mem k)"
    by (simp add: sum.atLeast_Suc_lessThan)
  then show ?case using Suc [of "i + 1" "s + mem i"] by (simp add: add.assoc)
qed simp

lemma sum_four: "(\<Sum>k = (i :: nat)..<i + 4. (mem k :: u32)) = mem i + mem (i + 1) + mem (i + 2) + mem (i + 3)"
  by (simp add: eval_nat_numeral sum.atLeastLessThan_Suc add.assoc)

declare sum_quads.simps [simp del]

text \<open>With at least four words left, the unrolled loop and the tail read exactly the words that are left.\<close>

lemma sum_quads_sum:
  assumes "4 \<le> unat count" and "sum_quads mem i count s = (j, count', s')"
  shows "sum_rest mem j (unat count') s' = s + (\<Sum>k = i..<i + unat count. mem k)"
  using assms
proof (induction mem i count s arbitrary: j count' s' rule: sum_quads.induct)
  case (1 mem i count s)
  let ?s = "s + mem i + mem (i + 1) + mem (i + 2) + mem (i + 3)"
  have c: "unat (count - 4) = unat count - 4" using "1.prems"(1) by (subst unat_sub) (auto simp: word_le_nat_alt)
  have split: "(\<Sum>k = i..<i + unat count. mem k) = mem i + mem (i + 1) + mem (i + 2) + mem (i + 3) +
      (\<Sum>k = i + 4..<i + 4 + (unat count - 4). mem k)"
    using "1.prems"(1) sum_four [of mem i] sum.atLeastLessThan_concat [of i "i + 4" "i + unat count" mem]
    by (simp add: add.commute)
  show ?case
  proof (cases "count - 4 > 4 - 1")
    case True
    then have "4 \<le> unat (count - 4)" by (simp add: word_less_nat_alt)
    moreover have "sum_quads mem (i + 4) (count - 4) ?s = (j, count', s')"
      using "1.prems"(2) True by (subst (asm) sum_quads.simps) (simp add: Let_def)
    ultimately have "sum_rest mem j (unat count') s' = ?s + (\<Sum>k = i + 4..<i + 4 + unat (count - 4). mem k)"
      using "1.IH" [OF refl refl refl refl refl] True by blast
    then show ?thesis using split c by (simp add: add.assoc)
  next
    case False
    then have "j = i + 4" "count' = count - 4" "s' = ?s"
      using "1.prems"(2) by (subst (asm) sum_quads.simps, simp add: Let_def)+
    then show ?thesis using split c by (simp add: sum_rest_sum add.assoc)
  qed
qed

lemma unat_drop2: "unat (drop_bit 2 len) = unat (len :: u32) div 4"
  by (simp add: drop_bit_eq_div unat_div)

lemma image_sum_words:
  assumes "16 \<le> unat len"
  shows "image_sum mem len = (\<Sum>k < unat len div 4. mem k)"
proof -
  obtain j c s where q: "sum_quads mem 0 (drop_bit 2 len) 0 = (j, c, s)" by (cases "sum_quads mem 0 (drop_bit 2 len) 0")
  have n: "unat (drop_bit 2 len) = unat len div 4"
    by (rule unat_drop2)
  then have "4 \<le> unat (drop_bit 2 len)" using assms by simp
  from sum_quads_sum [OF this q] show ?thesis
    by (simp add: image_sum_def q n lessThan_atLeast0)
qed

text \<open>
  C38: stamping and verifying an image of at least 16 bytes. With the checksum word at index \<open>k\<close>:
  storing there what \<open>SunxiSpriteGenerateChecksum\<close> computes makes
  \<open>SunxiSpriteVerifyChecksum\<close> succeed, and verification of the stamped image fails after
  any change of one other word.
\<close>

theorem checksum_round_trip:
  fixes mem :: "nat \<Rightarrow> u32"
  assumes len: "16 \<le> unat len" and k: "k < unat len div 4"
  defines "stamp \<equiv> SunxiSpriteGenerateChecksum mem len (mem k)"
  defines "stamped \<equiv> mem(k := stamp)"
  shows "SunxiSpriteVerifyChecksum stamped len stamp = 0 \<and>
    (\<forall>j x. j \<noteq> k \<longrightarrow> j < unat len div 4 \<longrightarrow> x \<noteq> mem j \<longrightarrow>
       SunxiSpriteVerifyChecksum (stamped(j := x)) len stamp = -1)"
proof -
  let ?n = "unat len div 4"
  have upd: "(\<Sum>i < ?n. (m(j := x)) i) = (\<Sum>i < ?n. m i) - m j + x" if "j < ?n" for m :: "nat \<Rightarrow> u32" and j x
    using that by (simp add: sum.remove [of "{..<?n}" j] fun_upd_def)
  have img: "image_sum stamped len = image_sum mem len - mem k + stamp"
    using upd [OF k] by (simp add: image_sum_words [OF len] stamped_def)
  then have ok: "image_sum stamped len - stamp + STAMP_VALUE = stamp"
    by (simp add: stamp_def SunxiSpriteGenerateChecksum_def)
  have "image_sum (stamped(j := x)) len - stamp + STAMP_VALUE \<noteq> stamp"
    if "j \<noteq> k" "j < ?n" "x \<noteq> mem j" for j x
  proof -
    have "stamped j = mem j" using that by (simp add: stamped_def)
    then have "image_sum (stamped(j := x)) len = image_sum stamped len - mem j + x"
      using upd [OF that(2), of stamped x] by (simp add: image_sum_words [OF len])
    then have "image_sum (stamped(j := x)) len - stamp + STAMP_VALUE = stamp - mem j + x"
      using ok by (simp add: algebra_simps)
    moreover have "stamp - mem j + x \<noteq> stamp" using that(3) by (simp add: algebra_simps)
    ultimately show ?thesis by simp
  qed
  with ok show ?thesis by (simp add: SunxiSpriteVerifyChecksum_def Let_def)
qed

theorem checksum_round_trip_witness:
  "SunxiSpriteVerifyChecksum ((\<lambda>i. of_nat i)(3 := SunxiSpriteGenerateChecksum (\<lambda>i. of_nat i) 64 3)) 64
     (SunxiSpriteGenerateChecksum (\<lambda>i. of_nat i) 64 3) = 0"
  using checksum_round_trip [of 64 3 "\<lambda>i. of_nat i"] by simp

text \<open>
  \<open>SunxiAddSum\<close> adds the whole words of the buffer and, for a length that is not a multiple of
  four, the remaining bytes as one little-endian word: it is the sum of the buffer padded with
  zero bytes.
\<close>

theorem add_sum_padded:
  "SunxiAddSum mem len = (\<Sum>i < unat len div 4. mem i) +
     (if unat len mod 4 = 0 then 0 else take_bit (8 * (unat len mod 4)) (mem (unat len div 4)))"
proof -
  have n: "unat (drop_bit 2 len) = unat len div 4"
    by (rule unat_drop2)
  have "len AND 3 = of_nat (unat len mod 4)"
  proof -
    have "len AND mask 2 = len mod 4"
      by (simp add: take_bit_eq_mod flip: take_bit_eq_mask)
    then show ?thesis using word_arith_nat_mod [of len 4] by (simp add: mask_eq_exp_minus_1)
  qed
  moreover have "unat len mod 4 \<in> {0, 1, 2, 3}" by auto
  ultimately show ?thesis
    by (auto simp: SunxiAddSum_def Let_def n sum_rest_sum lessThan_atLeast0 take_bit_eq_mask mask_eq_exp_minus_1)
qed

text \<open>
  For an image of fewer than 16 bytes the counter of the unrolled loop wraps around: the
  checksum routines read \<open>2^32\<close> words more than the image has.
\<close>

theorem short_image_overread:
  assumes "unat len < 16"
  shows "SunxiSpriteGenerateChecksum mem len src_sum =
    (\<Sum>k < 2 ^ 32 + unat len div 4. mem k) - src_sum + STAMP_VALUE"
proof -
  let ?c = "drop_bit 2 len"
  have c: "unat ?c = unat len div 4" "unat ?c < 4" using assms unat_drop2 [of len] by auto
  have wrap: "unat (?c - 4) = 2 ^ 32 - 4 + unat ?c"
    using c(2) unat_sub_if' [of ?c 4] by simp
  obtain j c' s' where q: "sum_quads mem 4 (?c - 4) (mem 0 + mem 1 + mem 2 + mem 3) = (j, c', s')"
    by (cases "sum_quads mem 4 (?c - 4) (mem 0 + mem 1 + mem 2 + mem 3)")
  have big: "4 \<le> unat (?c - 4)" "3 < ?c - 4" using wrap by (simp_all add: word_less_nat_alt)
  then have first: "sum_quads mem 0 ?c 0 = (j, c', s')"
    using q by (subst sum_quads.simps) (simp add: Let_def eval_nat_numeral)
  have s4: "(\<Sum>k = 0..<4. mem k) = mem 0 + mem 1 + mem 2 + mem 3"
    using sum_four [of mem 0] by (simp add: numeral_2_eq_2)
  have "image_sum mem len = (mem 0 + mem 1 + mem 2 + mem 3) + (\<Sum>k = 4..<4 + unat (?c - 4). mem k)"
    using sum_quads_sum [OF big(1) q] first by (simp add: image_sum_def)
  also have "\<dots> = (\<Sum>k = 0..<4. mem k) + (\<Sum>k = 4..<2 ^ 32 + unat len div 4. mem k)"
    by (simp only: s4 wrap c) simp
  also have "\<dots> = (\<Sum>k < 2 ^ 32 + unat len div 4. mem k)"
    by (subst sum.atLeastLessThan_concat) (simp_all add: lessThan_atLeast0)
  finally show ?thesis by (simp add: SunxiSpriteGenerateChecksum_def)
qed

theorem short_image_overread_witness:
  "SunxiSpriteGenerateChecksum (\<lambda>k. if k = 1000000 then 1 else 0) 8 0 = STAMP_VALUE + 1"
  using short_image_overread [of 8 "\<lambda>k. if k = 1000000 then 1 else 0" 0] by simp

end
