(* ===== verification/Bytes.thy ===== *)
theory Bytes
  imports Prelude
begin

text \<open>
  Little-endian fields of byte buffers (lists of bytes) and of the flat memory of the machine
  (a function from 64-bit addresses to bytes). Packed C structures are read and written through
  them at their byte offsets.
\<close>

section \<open>Byte buffers\<close>

definition rd32 :: "u8 list \<Rightarrow> nat \<Rightarrow> u32" where
  "rd32 buf off = pack_bytes 0 (take 4 (drop off buf))"

definition rd64 :: "u8 list \<Rightarrow> nat \<Rightarrow> u64" where
  "rd64 buf off = ucast (rd32 buf off) OR push_bit 32 (ucast (rd32 buf (off + 4)))"

definition put_bytes :: "u8 list \<Rightarrow> nat \<Rightarrow> u8 list \<Rightarrow> u8 list" where
  "put_bytes buf off bs = take off buf @ bs @ drop (off + length bs) buf"

definition le32 :: "u32 \<Rightarrow> u8 list" where
  "le32 w = map (unpack_byte w) [0..<4]"

definition le64 :: "u64 \<Rightarrow> u8 list" where
  "le64 w = le32 (ucast w) @ le32 (ucast (drop_bit 32 w))"

definition c_string :: "u8 list \<Rightarrow> nat \<Rightarrow> u8 list" where
  "c_string buf off = takeWhile (\<lambda>b. b \<noteq> 0) (drop off buf)"

section \<open>Fields of byte buffers\<close>

lemma length_le32 [simp]: "length (le32 w) = 4" by (simp add: le32_def)
lemma length_le64 [simp]: "length (le64 w) = 8" by (simp add: le64_def)

lemma length_put_bytes [simp]: "off + length bs \<le> length buf \<Longrightarrow> length (put_bytes buf off bs) = length buf"
  by (simp add: put_bytes_def)

lemma nth_put_bytes:
  assumes "off + length bs \<le> length buf" and "i < length buf"
  shows "put_bytes buf off bs ! i = (if off \<le> i \<and> i < off + length bs then bs ! (i - off) else buf ! i)"
  using assms by (auto simp: put_bytes_def nth_append)

lemma take_drop_put_same:
  "off + length bs \<le> length buf \<Longrightarrow> take (length bs) (drop off (put_bytes buf off bs)) = bs"
  by (simp add: put_bytes_def)

lemma take_drop_put_other:
  assumes "off + length bs \<le> length buf" and "a + n \<le> off \<or> off + length bs \<le> a" and "a + n \<le> length buf"
  shows "take n (drop a (put_bytes buf off bs)) = take n (drop a buf)"
  using assms by (intro nth_equalityI) (auto simp: nth_put_bytes)

lemma pack_le32: "pack_bytes 0 (le32 w) = w"
proof (rule bit_word_eqI)
  fix n assume n: "n < LENGTH(32)"
  then have "n div 8 < 4" by auto
  moreover have "n div 8 * 8 + n mod 8 = n" by simp
  ultimately show "bit (pack_bytes 0 (le32 w)) n = bit w n"
    using n by (simp add: pack_bytes_bit le32_def unpack_byte_bit)
qed

lemma le32_pack: "length bs = 4 \<Longrightarrow> le32 (pack_bytes 0 bs) = bs"
  using unpack_pack [of bs] by (simp add: le32_def)

lemma rd32_same [simp]: "off + 4 \<le> length buf \<Longrightarrow> rd32 (put_bytes buf off (le32 w)) off = w"
  using take_drop_put_same [of off "le32 w" buf] by (simp add: rd32_def pack_le32)

lemma rd32_other:
  "off + length bs \<le> length buf \<Longrightarrow> a + 4 \<le> off \<or> off + length bs \<le> a \<Longrightarrow> a + 4 \<le> length buf \<Longrightarrow>
   rd32 (put_bytes buf off bs) a = rd32 buf a"
  by (simp add: rd32_def take_drop_put_other)

lemma le32_rd32: "off + 4 \<le> length buf \<Longrightarrow> le32 (rd32 buf off) = take 4 (drop off buf)"
  by (simp add: rd32_def le32_pack)

lemma join_split64: "ucast (ucast w :: u32) OR push_bit 32 (ucast (ucast (drop_bit 32 w) :: u32)) = (w :: u64)"
proof (rule bit_word_eqI)
  fix n assume "n < LENGTH(64)"
  then show "bit (ucast (ucast w :: u32) OR push_bit 32 (ucast (ucast (drop_bit 32 w) :: u32)) :: u64) n = bit w n"
    by (cases "n < 32") (auto simp: bit_simps)
qed

lemma rd64_same [simp]: "off + 8 \<le> length buf \<Longrightarrow> rd64 (put_bytes buf off (le64 w)) off = w"
proof -
  assume len: "off + 8 \<le> length buf"
  let ?b = "put_bytes buf off (le64 w)"
  have d: "take 8 (drop off ?b) = le64 w" using take_drop_put_same [of off "le64 w" buf] len by simp
  have "take 4 (drop off ?b) = take 4 (take 8 (drop off ?b))" by simp
  also have "\<dots> = le32 (ucast w)" unfolding d by (simp add: le64_def)
  finally have lo: "rd32 ?b off = ucast w" by (simp add: rd32_def pack_le32)
  have "take 4 (drop (off + 4) ?b) = drop 4 (take 8 (drop off ?b))" by (simp add: drop_take add.commute)
  also have "\<dots> = le32 (ucast (drop_bit 32 w))" unfolding d by (simp add: le64_def)
  finally have "rd32 ?b (off + 4) = ucast (drop_bit 32 w)" by (simp add: rd32_def pack_le32)
  with lo show ?thesis by (simp add: rd64_def join_split64)
qed

lemma rd64_other:
  "off + length bs \<le> length buf \<Longrightarrow> a + 8 \<le> off \<or> off + length bs \<le> a \<Longrightarrow> a + 8 \<le> length buf \<Longrightarrow>
   rd64 (put_bytes buf off bs) a = rd64 buf a"
  by (auto simp: rd64_def rd32_other)

lemma le64_rd64: "off + 8 \<le> length buf \<Longrightarrow> le64 (rd64 buf off) = take 8 (drop off buf)"
proof -
  assume len: "off + 8 \<le> length buf"
  let ?lo = "rd32 buf off" and ?hi = "rd32 buf (off + 4)"
  have "ucast (rd64 buf off) = ?lo" "ucast (drop_bit 32 (rd64 buf off)) = ?hi"
    by (rule bit_word_eqI, auto simp: rd64_def bit_simps dest: bit_imp_le_length)+
  then have "le64 (rd64 buf off) = take 4 (drop off buf) @ take 4 (drop (off + 4) buf)"
    using len by (simp add: le64_def le32_rd32)
  also have "\<dots> = take 8 (drop off buf)"
    using take_add [of 4 4 "drop off buf"] by (simp add: add.commute)
  finally show ?thesis .
qed

section \<open>Flat memory\<close>

type_synonym mem = "u64 \<Rightarrow> u8"

definition load_bytes :: "mem \<Rightarrow> u64 \<Rightarrow> nat \<Rightarrow> u8 list" where
  "load_bytes m a n = map (\<lambda>i. m (a + of_nat i)) [0..<n]"

definition store_bytes :: "mem \<Rightarrow> u64 \<Rightarrow> u8 list \<Rightarrow> mem" where
  "store_bytes m a bs = (\<lambda>x. if unat (x - a) < length bs then bs ! unat (x - a) else m x)"

definition load32 :: "mem \<Rightarrow> u64 \<Rightarrow> u32" where
  "load32 m a = pack_bytes 0 (load_bytes m a 4)"

definition store32 :: "mem \<Rightarrow> u64 \<Rightarrow> u32 \<Rightarrow> mem" where
  "store32 m a w = store_bytes m a (le32 w)"

text \<open>\<open>str_at m a s\<close> is \<open>AsciiStrCmp\<close> of the string at \<open>a\<close> with the string \<open>s\<close>, being 0.\<close>

fun str_at :: "mem \<Rightarrow> u64 \<Rightarrow> u8 list \<Rightarrow> bool" where
  "str_at m a [] \<longleftrightarrow> m a = 0"
| "str_at m a (c # cs) \<longleftrightarrow> m a = c \<and> str_at m (a + 1) cs"

text \<open>The string at \<open>a\<close>, cut after \<open>n\<close> bytes.\<close>

definition mem_str :: "mem \<Rightarrow> u64 \<Rightarrow> nat \<Rightarrow> u8 list" where
  "mem_str m a n = takeWhile (\<lambda>b. b \<noteq> 0) (load_bytes m a n)"

text \<open>Two regions of memory share no byte.\<close>

definition apart :: "u64 \<Rightarrow> nat \<Rightarrow> u64 \<Rightarrow> nat \<Rightarrow> bool" where
  "apart a n b k \<longleftrightarrow> n = 0 \<or> k = 0 \<or> n \<le> unat (b - a) \<and> k \<le> unat (a - b)"

lemma length_load_bytes [simp]: "length (load_bytes m a n) = n"
  by (simp add: load_bytes_def)

lemma nth_load_bytes [simp]: "i < n \<Longrightarrow> load_bytes m a n ! i = m (a + of_nat i)"
  by (simp add: load_bytes_def)

lemma load_store_same:
  assumes "length bs < 2 ^ 64"
  shows "load_bytes (store_bytes m a bs) a (length bs) = bs"
proof (rule nth_equalityI)
  fix i assume "i < length (load_bytes (store_bytes m a bs) a (length bs))"
  then have "i < length bs" by simp
  moreover from this assms have "unat (of_nat i :: u64) = i"
    by (simp add: unat_of_nat take_bit_nat_eq_self)
  ultimately show "load_bytes (store_bytes m a bs) a (length bs) ! i = bs ! i"
    by (simp add: store_bytes_def)
qed simp

lemma store_outside: "length bs \<le> unat (x - a) \<Longrightarrow> store_bytes m a bs x = m x"
  by (simp add: store_bytes_def)

lemma apart_points: "apart a n b k \<longleftrightarrow> (\<forall>x. \<not> (unat (x - a) < n \<and> unat (x - b) < k))"
proof
  assume r: "apart a n b k"
  show "\<forall>x. \<not> (unat (x - a) < n \<and> unat (x - b) < k)"
  proof (intro allI notI)
    fix x assume x: "unat (x - a) < n \<and> unat (x - b) < k"
    with r have le: "n \<le> unat (b - a)" "k \<le> unat (a - b)" by (auto simp: apart_def)
    have "unat z < 18446744073709551616" for z :: u64
      using unsigned_less [where 'a = nat, of z] by simp
    note lt = this [of a] this [of b]
    show False
      by (cases "unat a \<le> unat b") (use x le lt in \<open>auto simp: unat_sub_if' split: if_splits\<close>)
  qed
next
  assume "\<forall>x. \<not> (unat (x - a) < n \<and> unat (x - b) < k)"
  then have "\<not> (unat (a - a) < n \<and> unat (a - b) < k)" "\<not> (unat (b - a) < n \<and> unat (b - b) < k)"
    by blast+
  then show "apart a n b k" by (auto simp: apart_def)
qed

lemma apartD: "apart a n b k \<Longrightarrow> unat (x - b) < k \<Longrightarrow> n \<le> unat (x - a)"
  by (auto simp: apart_points not_less)

lemma apart_sym: "apart a n b k \<longleftrightarrow> apart b k a n"
  by (auto simp: apart_def)

lemma load_bytes_cong:
  "(\<And>x. unat (x - a) < n \<Longrightarrow> m x = m' x) \<Longrightarrow> n \<le> 2 ^ 64 \<Longrightarrow> load_bytes m a n = load_bytes m' a n"
  by (intro nth_equalityI) (simp_all add: unat_of_nat take_bit_nat_eq_self)

lemma load_store_other:
  assumes "apart a (length bs) b n" and "n \<le> 2 ^ 64"
  shows "load_bytes (store_bytes m a bs) b n = load_bytes m b n"
  using assms by (intro load_bytes_cong) (auto intro: store_outside apartD)

lemma load32_store32 [simp]: "load32 (store32 m a w) a = w"
  using load_store_same [of "le32 w" m a] by (simp add: load32_def store32_def pack_le32)

lemma load32_store_other: "apart a (length bs) b 4 \<Longrightarrow> load32 (store_bytes m a bs) b = load32 m b"
  by (simp add: load32_def load_store_other)

lemma load_bytes_Suc: "load_bytes m a (Suc n) = m a # load_bytes m (a + 1) n"
  by (simp add: load_bytes_def upt_conv_Cons map_Suc_upt [symmetric] del: upt_Suc)
    (simp add: add.commute add.left_commute)

lemma load_bytes_eval:
  "load_bytes m a 0 = []" "load_bytes m a (numeral k) = m a # load_bytes m (a + 1) (pred_numeral k)"
  by (simp add: load_bytes_def) (simp add: numeral_eq_Suc load_bytes_Suc)

text \<open>Comparing with a name that fits into a field reads the field as a string.\<close>

lemma str_at_mem_str:
  assumes "0 \<notin> set s" and "length s < n"
  shows "str_at m a s \<longleftrightarrow> mem_str m a n = s"
  using assms
proof (induction s arbitrary: a n)
  case Nil
  then show ?case by (cases n) (auto simp: mem_str_def load_bytes_Suc)
next
  case (Cons c s)
  then show ?case by (cases n) (auto simp: mem_str_def load_bytes_Suc)
qed

lemma take_load_bytes: "take k (load_bytes m a n) = load_bytes m a (min k n)"
  by (cases "k \<le> n") (auto simp: load_bytes_def take_map min_def)

lemma mem_str_store:
  assumes "0 \<notin> set s" and "length s < n" and "n < 2 ^ 64"
  shows "mem_str (store_bytes m a (s @ [0])) a n = s"
proof -
  let ?m = "store_bytes m a (s @ [0])"
  have "take (length s + 1) (load_bytes ?m a n) = s @ [0]"
    using load_store_same [of "s @ [0]" m a] assms(2,3) by (simp add: take_load_bytes min_absorb1)
  then obtain r where "load_bytes ?m a n = s @ 0 # r"
    by (metis append_take_drop_id append.assoc append_Cons append_Nil)
  moreover have "\<forall>x \<in> set s. x \<noteq> 0" using assms(1) by metis
  ultimately show ?thesis by (simp add: mem_str_def)
qed

lemma mem_str_zeros: "n < 2 ^ 64 \<Longrightarrow> 0 < n \<Longrightarrow> mem_str (store_bytes m a (replicate n 0)) a n = []"
  using load_store_same [of "replicate n 0" m a] by (cases n) (simp_all add: mem_str_def)

lemma mem_str_cong: "load_bytes m a n = load_bytes m' a n \<Longrightarrow> mem_str m a n = mem_str m' a n"
  by (simp add: mem_str_def)

lemma mem_str_nonzero: "0 \<notin> set (mem_str m a n)"
  by (auto simp: mem_str_def dest: set_takeWhileD)

lemma mem_str_short:
  assumes "k \<le> n"
  shows "length (mem_str m a k) < k \<longleftrightarrow> length (mem_str m a n) < k"
    and "length (mem_str m a k) < k \<Longrightarrow> mem_str m a k = mem_str m a n"
proof -
  have k: "load_bytes m a k = take k (load_bytes m a n)" using assms by (simp add: take_load_bytes min_absorb1)
  have e: "mem_str m a k = take k (mem_str m a n)"
    unfolding mem_str_def k by (rule takeWhile_of_take)
  show "length (mem_str m a k) < k \<longleftrightarrow> length (mem_str m a n) < k" unfolding e by auto
  then show "length (mem_str m a k) < k \<Longrightarrow> mem_str m a k = mem_str m a n" unfolding e by simp
qed

text \<open>Memories that agree outside two local variables.\<close>

definition agree_but :: "u64 \<Rightarrow> nat \<Rightarrow> u64 \<Rightarrow> nat \<Rightarrow> mem \<Rightarrow> mem \<Rightarrow> bool" where
  "agree_but a n b k m m' \<longleftrightarrow> (\<forall>x. n \<le> unat (x - a) \<longrightarrow> k \<le> unat (x - b) \<longrightarrow> m' x = m x)"

lemma agree_load:
  assumes "agree_but a n b k m m'" and "apart a n c l" and "apart b k c l" and "l \<le> 2 ^ 64"
  shows "load_bytes m' c l = load_bytes m c l"
  using assms(1) apartD [OF assms(2)] apartD [OF assms(3)] assms(4)
  by (intro load_bytes_cong) (simp_all add: agree_but_def)

lemma agree_store:
  assumes "agree_but a n b k m m'"
  shows "length bs \<le> n \<Longrightarrow> agree_but a n b k m (store_bytes m' a bs)"
    and "length bs \<le> k \<Longrightarrow> agree_but a n b k m (store_bytes m' b bs)"
  using assms by (simp_all add: agree_but_def store_bytes_def)

text \<open>Memories that agree outside a region; subregions.\<close>

definition same_outside :: "u64 \<Rightarrow> nat \<Rightarrow> mem \<Rightarrow> mem \<Rightarrow> bool" where
  "same_outside a n m m' \<longleftrightarrow> (\<forall>x. n \<le> unat (x - a) \<longrightarrow> m' x = m x)"

lemma unat_minus_off: "off \<le> unat (x - a) \<Longrightarrow> unat (x - (a + of_nat off)) = unat (x - a :: u64) - off"
proof -
  assume le: "off \<le> unat (x - a)"
  then have o: "unat (of_nat off :: u64) = off"
    using unsigned_less [where 'a = nat, of "x - a"] by (simp add: unat_of_nat take_bit_nat_eq_self)
  then have "of_nat off \<le> x - a" using le by (simp add: word_le_nat_alt)
  then have "unat (x - a - of_nat off) = unat (x - a) - off" by (simp add: unat_sub o)
  then show ?thesis by (simp add: diff_diff_eq)
qed

lemma same_outside_store:
  assumes "same_outside a n m m'" and "off + length bs \<le> n" and "d = a + of_nat off"
  shows "same_outside a n m (store_bytes m' d bs)"
  unfolding same_outside_def
proof (intro allI impI)
  fix x assume x: "n \<le> unat (x - a)"
  then have "length bs \<le> unat (x - d)" using assms(2) unat_minus_off [of off x a] by (simp add: assms(3))
  then show "store_bytes m' d bs x = m x" using assms(1) x by (simp add: same_outside_def store_outside)
qed

lemma same_outside_load:
  assumes "same_outside a n m m'" and "apart a n b k" and "k \<le> 2 ^ 64"
  shows "load_bytes m' b k = load_bytes m b k"
  using assms apartD [OF assms(2)] by (intro load_bytes_cong) (simp_all add: same_outside_def)

lemma same_outside_refl [simp]: "same_outside a n m m"
  by (simp add: same_outside_def)

lemma apart_sub:
  assumes "apart a n b k" and "off + l \<le> k" and "k \<le> 2 ^ 64"
  shows "apart a n (b + of_nat off) l"
  unfolding apart_points
proof (intro allI notI)
  fix x assume x: "unat (x - a) < n \<and> unat (x - (b + of_nat off)) < l"
  have add_le: "unat (u + v) \<le> unat u + unat v" for u v :: u64 by (simp add: unat_word_ariths)
  have "unat (x - b) = unat ((x - (b + of_nat off)) + of_nat off)" by (simp add: algebra_simps)
  also have "\<dots> \<le> unat (x - (b + of_nat off)) + unat (of_nat off :: u64)" by (rule add_le)
  also have "\<dots> \<le> unat (x - (b + of_nat off)) + off" by (simp add: unat_of_nat)
  finally have "unat (x - b) < k" using x assms(2) by simp
  then show False using assms(1) x by (auto simp: apart_points)
qed

end
