(* ===== verification/Partition.thy ===== *)
theory Partition
  imports Checksum Bytes
begin

text \<open>
  Partition tables, \<open>src/Library/SunxiPartitionLib/SunxiPartitionLib.c\<close>: the vendor's MBR and
  the GPT. Both live in static byte buffers that the code views through packed structures
  (\<open>src/Include/Library/SunxiMbr.h\<close> for the MBR, the UEFI specification for the GPT header and
  entries); fields are read and written here at their byte offsets.

  The code never compares the partition count with the 127 entries that fit into the buffer: for
  a larger count it reads past the buffer, where the model reads empty names and zeros.

  A C string is the sequence of bytes up to the first zero. \<open>SunxiLastPart\<close> is only used inside
  \<open>CreateGptTableAndEntry\<close>.
\<close>

section \<open>Buffers\<close>

abbreviation (input) SUNXI_MBR_SIZE :: nat where "SUNXI_MBR_SIZE \<equiv> 16384"
abbreviation (input) SUNXI_GPT_SIZE :: nat where "SUNXI_GPT_SIZE \<equiv> 16384"

record part_state =
  mbr_buf :: "u8 list"
  mbr_status :: bool
  gpt_buf :: "u8 list"
  gpt_status :: bool
  gptPartSize :: u32
  gptPartNum :: u32

section \<open>The vendor's MBR\<close>

text \<open>
  \<open>sunxi_mbr_t\<close>: \<open>crc32\<close> at 0, \<open>version\<close> at 4, \<open>magic\<close> at 8, \<open>PartCount\<close> at 24, the partitions
  from 32 on, 128 bytes each, with \<open>addrlo\<close> at 4, \<open>lenlo\<close> at 12 and \<open>name\<close> at 32.
\<close>

definition SUNXI_MBR_MAGIC :: "u8 list" where
  "SUNXI_MBR_MAGIC = map of_char ''softw411''"

definition mbr_PartCount :: "u8 list \<Rightarrow> u32" where "mbr_PartCount mbr = rd32 mbr 24"
definition mbr_addrlo :: "u8 list \<Rightarrow> nat \<Rightarrow> u32" where "mbr_addrlo mbr i = rd32 mbr (32 + 128 * i + 4)"
definition mbr_lenlo :: "u8 list \<Rightarrow> nat \<Rightarrow> u32" where "mbr_lenlo mbr i = rd32 mbr (32 + 128 * i + 12)"
definition mbr_name :: "u8 list \<Rightarrow> nat \<Rightarrow> u8 list" where "mbr_name mbr i = c_string mbr (32 + 128 * i + 32)"

definition copy_mbr :: "u8 list \<Rightarrow> u32 \<Rightarrow> u8 list \<Rightarrow> u8 list" where
  "copy_mbr MbrBuff MbrLen mbr =
     put_bytes mbr 0 (take (if unat MbrLen < SUNXI_MBR_SIZE then unat MbrLen else SUNXI_MBR_SIZE) MbrBuff)"

definition mbr_valid :: "u8 list \<Rightarrow> bool" where
  "mbr_valid mbr \<longleftrightarrow>
     take 8 (drop 8 mbr) = SUNXI_MBR_MAGIC \<and>
     SunxiCrc32 (drop 4 mbr) (of_nat (SUNXI_MBR_SIZE - 4)) = rd32 mbr 0"

definition sunxi_partition_init :: "u8 list \<Rightarrow> u32 \<Rightarrow> part_state \<Rightarrow> int \<times> part_state" where
  "sunxi_partition_init MbrBuff MbrLen s =
     (let mbr = copy_mbr MbrBuff MbrLen (mbr_buf s); s = s\<lparr>mbr_buf := mbr\<rparr> in
      if mbr_valid mbr then (sint (mbr_PartCount mbr), s\<lparr>mbr_status := True\<rparr>)
      else (0, s\<lparr>mbr_status := False\<rparr>))"

definition SunxiPartitionInitialize :: "u8 list \<Rightarrow> u32 \<Rightarrow> part_state \<Rightarrow> efi_status \<times> part_state" where
  "SunxiPartitionInitialize MbrBuff MbrLen s =
     (let mbr = copy_mbr MbrBuff MbrLen (mbr_buf s); s = s\<lparr>mbr_buf := mbr\<rparr> in
      if mbr_valid mbr then (EFI_SUCCESS, s\<lparr>mbr_status := True\<rparr>)
      else (EFI_DEVICE_ERROR, s\<lparr>mbr_status := False\<rparr>))"

definition sunxi_partition_get_total_num :: "part_state \<Rightarrow> int" where
  "sunxi_partition_get_total_num s = (if \<not> mbr_status s then 0 else sint (mbr_PartCount (mbr_buf s)))"

text \<open>An \<open>OUT\<close> parameter that a function does not assign is \<^term>\<open>None\<close>.\<close>

definition SunxiPartitionGetTotalNumber :: "part_state \<Rightarrow> efi_status \<times> u32 option" where
  "SunxiPartitionGetTotalNumber s =
     (if \<not> mbr_status s then (EFI_DEVICE_ERROR, None) else (EFI_SUCCESS, Some (mbr_PartCount (mbr_buf s))))"

definition sunxi_partition_get_offset :: "part_state \<Rightarrow> u32 \<Rightarrow> u32" where
  "sunxi_partition_get_offset s part_index =
     (if \<not> mbr_status s \<or> part_index \<ge> mbr_PartCount (mbr_buf s) then 0
      else mbr_addrlo (mbr_buf s) (unat part_index))"

definition SunxipartitionGetOffset :: "part_state \<Rightarrow> u32 \<Rightarrow> efi_status \<times> u32 option" where
  "SunxipartitionGetOffset s Index =
     (if \<not> mbr_status s \<or> Index \<ge> mbr_PartCount (mbr_buf s) then (EFI_DEVICE_ERROR, None)
      else (EFI_SUCCESS, Some (mbr_addrlo (mbr_buf s) (unat Index))))"

definition sunxi_partition_get_size :: "part_state \<Rightarrow> u32 \<Rightarrow> u32" where
  "sunxi_partition_get_size s part_index =
     (if \<not> mbr_status s \<or> part_index \<ge> mbr_PartCount (mbr_buf s) then 0
      else mbr_lenlo (mbr_buf s) (unat part_index))"

definition SunxiPartitionGetSize :: "part_state \<Rightarrow> u32 \<Rightarrow> efi_status \<times> u32 option" where
  "SunxiPartitionGetSize s Index =
     (if \<not> mbr_status s \<or> Index \<ge> mbr_PartCount (mbr_buf s) then (EFI_DEVICE_ERROR, None)
      else (EFI_SUCCESS, Some (mbr_lenlo (mbr_buf s) (unat Index))))"

text \<open>The search loops stop at the first entry with the given name.\<close>

definition find_mbr :: "u8 list \<Rightarrow> u8 list \<Rightarrow> nat option" where
  "find_mbr mbr PartName = find (\<lambda>i. PartName = mbr_name mbr i) [0..<unat (mbr_PartCount mbr)]"

definition sunxi_partition_get_offset_byname :: "part_state \<Rightarrow> u8 list \<Rightarrow> u32" where
  "sunxi_partition_get_offset_byname s part_name =
     (if \<not> mbr_status s then 0
      else case find_mbr (mbr_buf s) part_name of None \<Rightarrow> 0 | Some i \<Rightarrow> mbr_addrlo (mbr_buf s) i)"

definition SunxiPartitionGetOffsetByName :: "part_state \<Rightarrow> u8 list \<Rightarrow> efi_status \<times> u32 option" where
  "SunxiPartitionGetOffsetByName s PartName =
     (if \<not> mbr_status s then (EFI_DEVICE_ERROR, None)
      else case find_mbr (mbr_buf s) PartName of
          None \<Rightarrow> (EFI_DEVICE_ERROR, None)
        | Some i \<Rightarrow> (EFI_SUCCESS, Some (mbr_addrlo (mbr_buf s) i)))"

definition sunxi_partition_get_size_byname :: "part_state \<Rightarrow> u8 list \<Rightarrow> u32" where
  "sunxi_partition_get_size_byname s part_name =
     (if \<not> mbr_status s then 0
      else case find_mbr (mbr_buf s) part_name of None \<Rightarrow> 0 | Some i \<Rightarrow> mbr_lenlo (mbr_buf s) i)"

definition SunxiPartitionGetSizeByName :: "part_state \<Rightarrow> u8 list \<Rightarrow> efi_status \<times> u32 option" where
  "SunxiPartitionGetSizeByName s PartName =
     (if \<not> mbr_status s then (EFI_DEVICE_ERROR, None)
      else case find_mbr (mbr_buf s) PartName of
          None \<Rightarrow> (EFI_DEVICE_ERROR, None)
        | Some i \<Rightarrow> (EFI_SUCCESS, Some (mbr_lenlo (mbr_buf s) i)))"

definition sunxi_partition_get_info_byname :: "part_state \<Rightarrow> u8 list \<Rightarrow> int \<times> (u32 \<times> u32) option" where
  "sunxi_partition_get_info_byname s part_name =
     (if \<not> mbr_status s then (-1, None)
      else case find_mbr (mbr_buf s) part_name of
          None \<Rightarrow> (-1, None)
        | Some i \<Rightarrow> (0, Some (mbr_addrlo (mbr_buf s) i, mbr_lenlo (mbr_buf s) i)))"

definition SunxiPartitionGetInfoByName :: "part_state \<Rightarrow> u8 list \<Rightarrow> efi_status \<times> (u32 \<times> u32) option" where
  "SunxiPartitionGetInfoByName s PartName =
     (if \<not> mbr_status s then (efi_of_int (-1), None)
      else case find_mbr (mbr_buf s) PartName of
          None \<Rightarrow> (EFI_DEVICE_ERROR, None)
        | Some i \<Rightarrow> (EFI_SUCCESS, Some (mbr_addrlo (mbr_buf s) i, mbr_lenlo (mbr_buf s) i)))"

definition sunxi_partition_fetch_mbr :: "part_state \<Rightarrow> u8 list option" where
  "sunxi_partition_fetch_mbr s = (if \<not> mbr_status s then None else Some (mbr_buf s))"

definition sunxi_partition_refresh :: "u8 list \<Rightarrow> u32 \<Rightarrow> part_state \<Rightarrow> int \<times> part_state" where
  "sunxi_partition_refresh buf bytes s =
     (if \<not> mbr_status s then (-1, s)
      else if bytes \<noteq> of_nat SUNXI_MBR_SIZE then (-1, s)
      else (0, s\<lparr>mbr_buf := put_bytes (mbr_buf s) 0 (take (unat bytes) buf)\<rparr>))"

section \<open>GPT headers\<close>

text \<open>
  \<open>EFI_PARTITION_TABLE_HEADER\<close>: \<open>Signature\<close> at 0, \<open>Revision\<close> at 8, \<open>HeaderSize\<close> at 12, \<open>CRC32\<close> at
  16, \<open>MyLBA\<close> at 24, \<open>AlternateLBA\<close> at 32, \<open>FirstUsableLBA\<close> at 40, \<open>LastUsableLBA\<close> at 48,
  \<open>DiskGUID\<close> at 56, \<open>PartitionEntryLBA\<close> at 72, \<open>NumberOfPartitionEntries\<close> at 80,
  \<open>SizeOfPartitionEntry\<close> at 84, \<open>PartitionEntryArrayCRC32\<close> at 88; 92 bytes in all.
\<close>

abbreviation (input) EFI_PTAB_HEADER_ID :: u64 where "EFI_PTAB_HEADER_ID \<equiv> 0x5452415020494645"
abbreviation (input) GPT_HEADER_SIZE :: nat where "GPT_HEADER_SIZE \<equiv> 92"
abbreviation (input) GPT_ENTRY_SIZE :: nat where "GPT_ENTRY_SIZE \<equiv> 128"

definition PrimaryConvertBackup :: "u8 list option \<Rightarrow> u8 list \<Rightarrow> bool \<times> u8 list" where
  "PrimaryConvertBackup FirstHeader SecondHeader =
     (case FirstHeader of None \<Rightarrow> (False, SecondHeader)
      | Some fst_h \<Rightarrow>
        let PEntryLBA = (if rd64 fst_h 24 = 1 then rd64 fst_h 48 + 1 else 1 + 1);
            h = put_bytes SecondHeader 0 (take GPT_HEADER_SIZE fst_h);
            h = put_bytes h 24 (le64 (rd64 fst_h 32));
            h = put_bytes h 32 (le64 (rd64 fst_h 24));
            h = put_bytes h 72 (le64 PEntryLBA);
            h = put_bytes h 16 (le32 0)
        in (True, put_bytes h 16 (le32 (SunxiCrc32 h (rd32 h 12)))))"

record mbr_partition_record =
  BootIndicator :: u8
  StartHead :: u8
  StartSector :: u8
  StartTrack :: u8
  OSIndicator :: u8
  EndHead :: u8
  EndSector :: u8
  EndTrack :: u8
  StartingLBA0 :: u8
  SizeInLBA :: "u8 list"

definition CreateProtectiveMbr ::
  "(mbr_partition_record \<times> u16) option \<Rightarrow> u64 \<Rightarrow> efi_status \<times> (mbr_partition_record \<times> u16) option" where
  "CreateProtectiveMbr ProtectiveMbr LastBlock =
     (let block = (ucast (drop_bit 32 (LastBlock + 1) AND 0xffffffff) :: u32) in
      case ProtectiveMbr of None \<Rightarrow> (EFI_INVALID_PARAMETER, None)
      | Some (p0, sig) \<Rightarrow>
        (EFI_SUCCESS, Some
          (p0\<lparr>BootIndicator := 0, OSIndicator := 0xEE, StartingLBA0 := 1,
              SizeInLBA := [ucast (block AND 0xff), ucast (drop_bit 8 block AND 0xff),
                ucast (drop_bit 16 block AND 0xff), ucast (drop_bit 24 block AND 0xff)],
              StartHead := 0, StartSector := 0, StartTrack := 0,
              EndHead := 0, EndSector := 0, EndTrack := 0\<rparr>, 0xaa55)))"

section \<open>Creating a GPT\<close>

text \<open>
  The input \<open>sunxi_gpt_t\<close> has \<open>PartCount\<close> and an array of descriptions; \<open>gpt_partition\<close> lists the
  fields that the code reads.
\<close>

record gpt_partition =
  gp_addrhi :: u32
  gp_addrlo :: u32
  gp_lenhi :: u32
  gp_lenlo :: u32
  gp_name :: "u8 list"
  gp_type :: "u8 list"
  gp_uniqueguid :: "u8 list"
  gp_attrhi :: u32
  gp_attrlo :: u32

record gpt_table_info =
  ti_MyLBA :: u64
  ti_AlternateLBA :: u64
  ti_FirstLBA :: u64
  ti_LastLBA :: u64
  ti_EntryLBA :: u64
  ti_EntryNum :: u32
  ti_EntrySize :: u32
  ti_Guid :: "u8 list"

definition join64 :: "u32 \<Rightarrow> u32 \<Rightarrow> u64" where
  "join64 hi lo = push_bit 32 (ucast hi) OR ucast lo"

text \<open>
  \<open>EFI_PARTITION_ENTRY\<close>: type and unique GUID at 0 and 16, \<open>StartingLBA\<close> at 32, \<open>EndingLBA\<close> at 40,
  \<open>Attributes\<close> at 48 and the name at 56, of which 36 bytes are written: 16 characters of the
  partition's name as 16-bit units, and two units of \<open>tmp_name\<close> that stay as the zero fill left
  them.
\<close>

definition name_units :: "u8 list \<Rightarrow> u8 list" where
  "name_units name = concat (map (\<lambda>c. [c, 0]) (take 16 name)) @ replicate 4 0"

definition put_entry :: "u64 \<Rightarrow> bool \<Rightarrow> gpt_partition \<Rightarrow> nat \<Rightarrow> u8 list \<Rightarrow> u8 list" where
  "put_entry last_lba is_last gp off e =
     (let e = put_bytes e off (gp_type gp);
          e = put_bytes e (off + 16) (gp_uniqueguid gp);
          e = put_bytes e (off + 48) (le64 (join64 (gp_attrhi gp) (gp_attrlo gp)));
          start = join64 (gp_addrhi gp) (gp_addrlo gp);
          e = put_bytes e (off + 32) (le64 start);
          e = put_bytes e (off + 40)
            (le64 (if is_last then last_lba else start + join64 (gp_lenhi gp) (gp_lenlo gp) - 1))
      in put_bytes e (off + 56) (name_units (gp_name gp)))"

fun put_entries :: "u64 \<Rightarrow> u32 \<Rightarrow> u32 \<Rightarrow> gpt_partition list \<Rightarrow> u32 \<Rightarrow> u8 list \<Rightarrow> u8 list" where
  "put_entries last_lba last_part esize [] i e = e"
| "put_entries last_lba last_part esize (gp # gps) i e =
     put_entries last_lba last_part esize gps (i + 1)
       (put_entry last_lba (i = last_part) gp (unat (i * esize)) e)"

definition put_header :: "gpt_table_info \<Rightarrow> u8 list \<Rightarrow> u8 list" where
  "put_header ti h =
     (let h = put_bytes h 0 (le64 EFI_PTAB_HEADER_ID);
          h = put_bytes h 12 (le32 0x5c);
          h = put_bytes h 8 (le32 0x10000);
          h = put_bytes h 24 (le64 (ti_MyLBA ti));
          h = put_bytes h 32 (le64 (ti_AlternateLBA ti));
          h = put_bytes h 56 (ti_Guid ti);
          h = put_bytes h 40 (le64 (ti_FirstLBA ti));
          h = put_bytes h 48 (le64 (ti_LastLBA ti));
          h = put_bytes h 72 (le64 (ti_EntryLBA ti));
          h = put_bytes h 80 (le32 (ti_EntryNum ti))
      in put_bytes h 84 (le32 (ti_EntrySize ti)))"

definition CreateGptTableAndEntry ::
  "gpt_partition list option \<Rightarrow> gpt_table_info \<Rightarrow> u8 list option \<Rightarrow> u8 list option \<Rightarrow>
   efi_status \<times> u8 list option \<times> u8 list option" where
  "CreateGptTableAndEntry Buffer table_info PrimaryHeader PartEntry =
     (case (Buffer, PrimaryHeader, PartEntry) of
        (Some parts, Some h, Some e) \<Rightarrow>
          let h = put_header table_info h;
              e = put_entries (ti_LastLBA table_info) (of_nat (length parts) - 1) (ti_EntrySize table_info) parts 0 e;
              h = put_bytes h 88 (le32 (SunxiCrc32 e (ti_EntryNum table_info * ti_EntrySize table_info)));
              h = put_bytes h 16 (le32 (SunxiCrc32 h (rd32 h 12)))
          in (EFI_SUCCESS, Some h, Some e)
      | _ \<Rightarrow> (EFI_INVALID_PARAMETER, PrimaryHeader, PartEntry))"

section \<open>Reading a GPT\<close>

text \<open>
  \<open>ReadBlocks\<close> of the block device is the parameter \<open>read_blocks\<close>: it takes the first block and
  the number of bytes and returns the status and the bytes. A successful read of more bytes
  than \<open>gpt_buf\<close> has overruns the buffer: the call has no result then. After a failed read the
  content of \<open>gpt_buf\<close> no longer matters and is left as it was.
\<close>

definition SunxiGptPartitionInitialize ::
  "(u64 \<Rightarrow> u32 \<Rightarrow> efi_status \<times> u8 list) \<Rightarrow> u8 list \<Rightarrow> part_state \<Rightarrow>
   (efi_status \<times> u8 list \<times> part_state) option" where
  "SunxiGptPartitionInitialize read_blocks GptBuff s =
     (let OrgCrc = rd32 GptBuff 16;
          h = put_bytes GptBuff 16 (le32 0);
          HeadCrc = SunxiCrc32 h (rd32 h 12);
          h = put_bytes h 16 (le32 HeadCrc)
      in if rd64 h 0 \<noteq> EFI_PTAB_HEADER_ID \<or> OrgCrc \<noteq> HeadCrc \<or> rd32 h 84 < of_nat GPT_ENTRY_SIZE
         then Some (EFI_INVALID_PARAMETER, h, s\<lparr>gpt_status := False\<rparr>)
         else
           let bytes = rd32 h 80 * rd32 h 84; (st, data) = read_blocks (rd64 h 72) bytes in
           if (ucast st :: u32) \<noteq> 0 then Some (EFI_DEVICE_ERROR, h, s\<lparr>gpt_status := False\<rparr>)
           else if unat bytes > SUNXI_GPT_SIZE then None
           else
             let s = s\<lparr>gpt_buf := put_bytes (gpt_buf s) 0 data\<rparr> in
             if rd32 h 88 \<noteq> SunxiCrc32 (gpt_buf s) bytes
             then Some (EFI_DEVICE_ERROR, h, s\<lparr>gpt_status := False\<rparr>)
             else Some (EFI_SUCCESS, h, s\<lparr>gpt_status := True, gptPartSize := rd32 h 84, gptPartNum := rd32 h 80\<rparr>))"

definition SunxiGptPartitionGetTotalNumber :: "part_state \<Rightarrow> efi_status \<times> u32 option" where
  "SunxiGptPartitionGetTotalNumber s =
     (if \<not> gpt_status s then (EFI_DEVICE_ERROR, None) else (EFI_SUCCESS, Some (gptPartNum s)))"

definition gpt_start :: "part_state \<Rightarrow> u32 \<Rightarrow> u64" where
  "gpt_start s i = rd64 (gpt_buf s) (unat (i * gptPartSize s) + 32)"

definition gpt_end :: "part_state \<Rightarrow> u32 \<Rightarrow> u64" where
  "gpt_end s i = rd64 (gpt_buf s) (unat (i * gptPartSize s) + 40)"

text \<open>\<open>tmp_data[j] = PartitionName[j]\<close> keeps the low byte of each 16-bit unit.\<close>

definition gpt_name :: "part_state \<Rightarrow> u32 \<Rightarrow> u8 list" where
  "gpt_name s i =
     takeWhile (\<lambda>b. b \<noteq> 0)
       (map (\<lambda>j. gpt_buf s ! (unat (i * gptPartSize s) + 56 + 2 * j)) [0..<36])"

definition SunxiGptPartitionGetOffset :: "part_state \<Rightarrow> u32 \<Rightarrow> efi_status \<times> u32 option" where
  "SunxiGptPartitionGetOffset s Index =
     (if \<not> gpt_status s \<or> Index \<ge> gptPartNum s then (EFI_DEVICE_ERROR, None)
      else (EFI_SUCCESS, Some (ucast (gpt_start s Index))))"

definition SunxiGptPartitionGetSize :: "part_state \<Rightarrow> u32 \<Rightarrow> efi_status \<times> u32 option" where
  "SunxiGptPartitionGetSize s Index =
     (if \<not> gpt_status s \<or> Index \<ge> gptPartNum s then (EFI_DEVICE_ERROR, None)
      else (EFI_SUCCESS, Some (ucast (gpt_end s Index - gpt_start s Index))))"

definition find_gpt :: "part_state \<Rightarrow> u8 list \<Rightarrow> u32 option" where
  "find_gpt s PartName = map_option of_nat (find (\<lambda>i. PartName = gpt_name s (of_nat i)) [0..<unat (gptPartNum s)])"

definition SunxiGptPartitionGetOffsetByName :: "part_state \<Rightarrow> u8 list option \<Rightarrow> efi_status \<times> u32 option" where
  "SunxiGptPartitionGetOffsetByName s PartName =
     (case PartName of None \<Rightarrow> (EFI_DEVICE_ERROR, None)
      | Some name \<Rightarrow> if \<not> gpt_status s then (EFI_DEVICE_ERROR, None)
        else (case find_gpt s name of None \<Rightarrow> (EFI_DEVICE_ERROR, None)
              | Some i \<Rightarrow> (EFI_SUCCESS, Some (ucast (gpt_start s i)))))"

definition SunxiGptPartitionGetSizeByName :: "part_state \<Rightarrow> u8 list option \<Rightarrow> efi_status \<times> u32 option" where
  "SunxiGptPartitionGetSizeByName s PartName =
     (case PartName of None \<Rightarrow> (EFI_DEVICE_ERROR, None)
      | Some name \<Rightarrow> if \<not> gpt_status s then (EFI_DEVICE_ERROR, None)
        else (case find_gpt s name of None \<Rightarrow> (EFI_DEVICE_ERROR, None)
              | Some i \<Rightarrow> (EFI_SUCCESS, Some (ucast (gpt_end s i - gpt_start s i)))))"

definition SunxiGptPartitionGetInfoByName :: "part_state \<Rightarrow> u8 list option \<Rightarrow> efi_status \<times> (u32 \<times> u32) option" where
  "SunxiGptPartitionGetInfoByName s PartName =
     (case PartName of None \<Rightarrow> (EFI_DEVICE_ERROR, None)
      | Some name \<Rightarrow> if \<not> gpt_status s then (EFI_DEVICE_ERROR, None)
        else (case find_gpt s name of None \<Rightarrow> (EFI_DEVICE_ERROR, None)
              | Some i \<Rightarrow> (EFI_SUCCESS, Some (ucast (gpt_start s i), ucast (gpt_end s i - gpt_start s i)))))"

section \<open>The MBR: acceptance and lookups\<close>

text \<open>
  Lookup by name returns the first partition of that name: it succeeds exactly when a
  verified MBR has such a partition, and delivers what the lookups by index deliver for it.
\<close>

theorem mbr_lookup_by_name:
  "SunxiPartitionGetInfoByName s name = (EFI_SUCCESS, Some (off, len)) \<longleftrightarrow>
     (\<exists>i. i < unat (mbr_PartCount (mbr_buf s)) \<and> mbr_name (mbr_buf s) i = name \<and>
        (\<forall>j < i. mbr_name (mbr_buf s) j \<noteq> name) \<and>
        SunxipartitionGetOffset s (of_nat i) = (EFI_SUCCESS, Some off) \<and>
        SunxiPartitionGetSize s (of_nat i) = (EFI_SUCCESS, Some len))"
proof -
  let ?n = "unat (mbr_PartCount (mbr_buf s))"
  have small: "unat (of_nat i :: u32) = i \<and> \<not> mbr_PartCount (mbr_buf s) \<le> of_nat i" if "i < ?n" for i
    using that unsigned_less [where 'a = nat, of "mbr_PartCount (mbr_buf s)"]
    by (simp add: unat_of_nat take_bit_nat_eq_self word_le_nat_alt)
  have by_index: "SunxipartitionGetOffset s (of_nat i) = (EFI_SUCCESS, Some off) \<longleftrightarrow>
        mbr_status s \<and> off = mbr_addrlo (mbr_buf s) i"
      "SunxiPartitionGetSize s (of_nat i) = (EFI_SUCCESS, Some len) \<longleftrightarrow>
        mbr_status s \<and> len = mbr_lenlo (mbr_buf s) i" if "i < ?n" for i
    using small [OF that] by (auto simp: SunxipartitionGetOffset_def SunxiPartitionGetSize_def)
  have "find_mbr (mbr_buf s) name = Some i \<longleftrightarrow>
      i < ?n \<and> mbr_name (mbr_buf s) i = name \<and> (\<forall>j < i. mbr_name (mbr_buf s) j \<noteq> name)" for i
    by (auto simp: find_mbr_def find_upt_Some)
  moreover have "SunxiPartitionGetInfoByName s name = (EFI_SUCCESS, Some (off, len)) \<longleftrightarrow> mbr_status s \<and>
      (\<exists>i. find_mbr (mbr_buf s) name = Some i \<and> off = mbr_addrlo (mbr_buf s) i \<and> len = mbr_lenlo (mbr_buf s) i)"
    by (auto simp: SunxiPartitionGetInfoByName_def split: option.splits)
  ultimately show ?thesis using by_index by blast
qed

definition blank_state :: part_state where
  "blank_state = \<lparr>mbr_buf = replicate SUNXI_MBR_SIZE 0, mbr_status = False, gpt_buf = replicate SUNXI_GPT_SIZE 0,
     gpt_status = False, gptPartSize = 0, gptPartNum = 0\<rparr>"

definition one_part_state :: part_state where
  "one_part_state = blank_state\<lparr>mbr_status := True,
     mbr_buf := replicate 24 0 @ [1, 0, 0, 0] @ replicate 8 0 @ [64, 0, 0, 0, 0, 0, 0, 0, 8, 0, 0, 0] @
       replicate 16 0 @ map of_char ''env'' @ replicate 16317 0\<rparr>"

theorem mbr_lookup_by_name_witness:
  "SunxiPartitionGetInfoByName one_part_state (map of_char ''env'') = (EFI_SUCCESS, Some (64, 8)) \<and>
   SunxipartitionGetOffset one_part_state 0 = (EFI_SUCCESS, Some 64) \<and>
   SunxiPartitionGetSize one_part_state 0 = (EFI_SUCCESS, Some 8)"
proof -
  have env: "map of_char ''env'' = [101, 110, 118 :: u8]" by code_simp
  let ?b = "mbr_buf one_part_state"
  have f: "mbr_PartCount ?b = 1" "mbr_addrlo ?b 0 = 64" "mbr_lenlo ?b 0 = 8" "mbr_name ?b 0 = [101, 110, 118]"
    unfolding one_part_state_def env
    by (simp_all add: mbr_PartCount_def mbr_addrlo_def mbr_lenlo_def mbr_name_def rd32_def c_string_def)
  then have run: "SunxiPartitionGetInfoByName one_part_state (map of_char ''env'') = (EFI_SUCCESS, Some (64, 8))"
    by (simp add: SunxiPartitionGetInfoByName_def find_mbr_def env) (simp add: one_part_state_def)
  then have "SunxipartitionGetOffset one_part_state 0 = (EFI_SUCCESS, Some 64) \<and>
      SunxiPartitionGetSize one_part_state 0 = (EFI_SUCCESS, Some 8)"
    using mbr_lookup_by_name [of one_part_state "map of_char ''env''" 64 8] f(1) by auto
  with run show ?thesis by simp
qed

lemma copy_mbr_full: "length m = SUNXI_MBR_SIZE \<Longrightarrow> length b = SUNXI_MBR_SIZE \<Longrightarrow> copy_mbr m 16384 b = m"
  by (simp add: copy_mbr_def put_bytes_def)

lemma rd32_word: "length m \<ge> 4 \<Longrightarrow> length m' \<ge> 4 \<Longrightarrow> rd32 m 0 = rd32 m' 0 \<Longrightarrow> take 4 m = take 4 m'"
  using le32_rd32 [of 0 m] le32_rd32 [of 0 m'] by simp

text \<open>A change of at most four consecutive bytes, in front of the byte \<open>4\<close> or behind it, breaks the checksum.\<close>

lemma mbr_burst_invalid:
  assumes good: "mbr_valid (xs @ bs @ ys)" and len: "length (xs @ bs @ ys) = SUNXI_MBR_SIZE"
    and bad: "length bs = length cs" "length bs \<le> 4" "bs \<noteq> cs" and place: "length xs + length bs \<le> 4 \<or> 4 \<le> length xs"
  shows "\<not> mbr_valid (xs @ cs @ ys)"
proof -
  let ?m = "xs @ bs @ ys" and ?m' = "xs @ cs @ ys" and ?n = "of_nat (SUNXI_MBR_SIZE - 4) :: u32"
  have n: "unat ?n = SUNXI_MBR_SIZE - 4" by simp
  have crc: "SunxiCrc32 (drop 4 ?m) ?n = rd32 ?m 0" using good by (simp add: mbr_valid_def)
  from place have "SunxiCrc32 (drop 4 ?m') ?n \<noteq> rd32 ?m' 0"
  proof
    assume a: "length xs + length bs \<le> 4"
    then have "drop 4 ?m' = drop 4 ?m" using bad(1) by simp
    moreover have "rd32 ?m' 0 \<noteq> rd32 ?m 0"
    proof
      assume "rd32 ?m' 0 = rd32 ?m 0"
      then have "take 4 ?m' = take 4 ?m" using rd32_word [of ?m' ?m] len bad(1) by simp
      then show False using a bad(1,3) by simp
    qed
    ultimately show ?thesis using crc by simp
  next
    assume a: "4 \<le> length xs"
    have "SunxiCrc32 (drop 4 xs @ bs @ ys) ?n \<noteq> SunxiCrc32 (drop 4 xs @ cs @ ys) ?n"
      using crc32_detects_burst_aux [OF bad, of "drop 4 xs" ys ?n] a len unfolding n by simp
    moreover have "rd32 ?m' 0 = rd32 ?m 0" using a by (simp add: rd32_def)
    ultimately show ?thesis using crc a by simp
  qed
  then show ?thesis by (auto simp: mbr_valid_def)
qed

text \<open>
  C33: a verified MBR that is corrupted in up to four consecutive bytes is rejected, and no partition is reported from then
  on, when these bytes lie within the checksum word, the first four bytes of the MBR, or behind it. (A change of bytes on both sides of the end of the
  checksum word is not covered: it can alter checksum and contents consistently.)
\<close>

theorem mbr_corruption_rejected:
  assumes good: "SunxiPartitionInitialize (xs @ bs @ ys) 16384 s = (EFI_SUCCESS, s1)"
    and len: "length (xs @ bs @ ys) = SUNXI_MBR_SIZE" "length (mbr_buf s) = SUNXI_MBR_SIZE"
    and bad: "length bs = length cs" "length bs \<le> 4" "bs \<noteq> cs" and place: "length xs + length bs \<le> 4 \<or> 4 \<le> length xs"
    and run: "SunxiPartitionInitialize (xs @ cs @ ys) 16384 s1 = (st, s2)"
  shows "st = EFI_DEVICE_ERROR \<and> SunxiPartitionGetTotalNumber s2 = (EFI_DEVICE_ERROR, None) \<and>
    sunxi_partition_get_total_num s2 = 0"
proof -
  let ?m = "xs @ bs @ ys" and ?m' = "xs @ cs @ ys"
  have l': "length ?m' = SUNXI_MBR_SIZE" using len(1) bad(1) by simp
  have s1: "mbr_valid ?m" "mbr_buf s1 = ?m"
    using good copy_mbr_full [OF len]
    by (auto simp: SunxiPartitionInitialize_def EFI_SUCCESS_def Let_def split: if_splits)
  have c: "copy_mbr ?m' 16384 (mbr_buf s1) = ?m'"
    using copy_mbr_full [OF l'] s1(2) len(1) by simp
  have "\<not> mbr_valid ?m'" using mbr_burst_invalid [OF s1(1) len(1) bad place] .
  then show ?thesis
    using run c by (auto simp: SunxiPartitionInitialize_def SunxiPartitionGetTotalNumber_def
        sunxi_partition_get_total_num_def Let_def)
qed

definition empty_mbr :: "u8 \<Rightarrow> u8 list" where
  "empty_mbr b = ([0, 0, 0, 0] @ SUNXI_MBR_MAGIC) @ [b] @ replicate 16367 0"

lemma empty_mbr_stamped:
  "mbr_valid (le32 (SunxiCrc32 (empty_mbr b) (of_nat (SUNXI_MBR_SIZE - 4))) @ empty_mbr b)"
  using pack_le32 by (simp add: mbr_valid_def rd32_def empty_mbr_def SUNXI_MBR_MAGIC_def)

theorem mbr_corruption_rejected_witness:
  "let crc = le32 (SunxiCrc32 (empty_mbr 0) (of_nat (SUNXI_MBR_SIZE - 4)));
       first = SunxiPartitionInitialize (crc @ empty_mbr 0) 16384 blank_state;
       second = SunxiPartitionInitialize (crc @ empty_mbr 1) 16384 (snd first)
   in fst first = EFI_SUCCESS \<and> fst second = EFI_DEVICE_ERROR"
proof -
  define crc where "crc = le32 (SunxiCrc32 (empty_mbr 0) (of_nat (SUNXI_MBR_SIZE - 4)))"
  let ?a = "SunxiPartitionInitialize (crc @ empty_mbr 0) 16384 blank_state"
  let ?b = "SunxiPartitionInitialize (crc @ empty_mbr 1) 16384 (snd ?a)"
  have len: "length crc = 4" "length (crc @ empty_mbr 0) = SUNXI_MBR_SIZE" "length (mbr_buf blank_state) = SUNXI_MBR_SIZE"
    by (simp_all add: crc_def empty_mbr_def SUNXI_MBR_MAGIC_def blank_state_def)
  have st: "fst ?a = EFI_SUCCESS"
    using empty_mbr_stamped [of 0] copy_mbr_full [OF len(2,3)]
    by (simp add: SunxiPartitionInitialize_def crc_def Let_def)
  then have "?a = (EFI_SUCCESS, snd ?a)" by (metis prod.collapse)
  moreover have "?b = (fst ?b, snd ?b)" by simp
  ultimately have "fst ?b = EFI_DEVICE_ERROR"
    using mbr_corruption_rejected [of "crc @ [0, 0, 0, 0] @ SUNXI_MBR_MAGIC" "[0]" "replicate 16367 0" blank_state
        "snd ?a" "[1]" "fst ?b" "snd ?b"] len unfolding empty_mbr_def by simp
  with st show ?thesis by (simp add: crc_def Let_def)
qed

section \<open>GPT headers\<close>

text \<open>
  For every disk with fewer than \<open>2^32\<close> blocks the protective MBR announces a partition of size
  0: the code takes the upper half of the block count.
\<close>

theorem protective_mbr_size_zero:
  assumes "unat LastBlock + 1 < 2 ^ 32"
  shows "\<exists>p sig. CreateProtectiveMbr (Some m) LastBlock = (EFI_SUCCESS, Some (p, sig)) \<and>
    SizeInLBA p = [0, 0, 0, 0] \<and> OSIndicator p = 0xEE"
proof -
  have "unat (LastBlock + 1) = unat LastBlock + 1"
    using unat_add_lem [of LastBlock 1] assms by simp
  then have "drop_bit 32 (LastBlock + 1) = 0"
    using assms by (simp add: word_unat_eq_iff unat_drop_bit_eq drop_bit_eq_div unat_div)
  then show ?thesis by (cases m) (simp add: CreateProtectiveMbr_def)
qed

theorem protective_mbr_size_zero_witness:
  "\<exists>p sig. CreateProtectiveMbr (Some (\<lparr>BootIndicator = 0, StartHead = 0, StartSector = 0, StartTrack = 0,
       OSIndicator = 0, EndHead = 0, EndSector = 0, EndTrack = 0, StartingLBA0 = 0, SizeInLBA = []\<rparr>, 0)) 30535679 =
     (EFI_SUCCESS, Some (p, sig)) \<and> SizeInLBA p = [0, 0, 0, 0]"
  using protective_mbr_size_zero [of 30535679 "(\<lparr>BootIndicator = 0, StartHead = 0, StartSector = 0, StartTrack = 0,
       OSIndicator = 0, EndHead = 0, EndSector = 0, EndTrack = 0, StartingLBA0 = 0, SizeInLBA = []\<rparr>, 0)"] by auto

text \<open>A header whose checksum field holds the CRC of the header with that field cleared.\<close>

definition header_ok :: "u8 list \<Rightarrow> bool" where
  "header_ok h \<longleftrightarrow> length h = GPT_HEADER_SIZE \<and> rd32 h 12 = of_nat GPT_HEADER_SIZE \<and>
     rd32 h 16 = SunxiCrc32 (put_bytes h 16 (le32 0)) (rd32 h 12)"

lemma put_bytes_same: "off + length bs \<le> length buf \<Longrightarrow> take (length bs) (drop off buf) = bs \<Longrightarrow> put_bytes buf off bs = buf"
  by (metis append_take_drop_id drop_drop put_bytes_def add.commute)

lemma put_bytes_twice:
  "length bs = length cs \<Longrightarrow> off + length bs \<le> length buf \<Longrightarrow>
   put_bytes (put_bytes buf off bs) off cs = put_bytes buf off cs"
  by (intro nth_equalityI) (auto simp: nth_put_bytes)

lemma put_bytes_swap:
  "a + length bs \<le> length buf \<Longrightarrow> b + length cs \<le> length buf \<Longrightarrow> a + length bs \<le> b \<or> b + length cs \<le> a \<Longrightarrow>
   put_bytes (put_bytes buf a bs) b cs = put_bytes (put_bytes buf b cs) a bs"
  by (intro nth_equalityI) (auto simp: nth_put_bytes)

lemma convert_alt:
  assumes "length h = GPT_HEADER_SIZE" and "length x = GPT_HEADER_SIZE"
  shows "PrimaryConvertBackup (Some h) x =
    (let g = put_bytes (put_bytes (put_bytes (put_bytes h 24 (le64 (rd64 h 32))) 32 (le64 (rd64 h 24)))
           72 (le64 (if rd64 h 24 = 1 then rd64 h 48 + 1 else 2))) 16 (le32 0)
     in (True, put_bytes g 16 (le32 (SunxiCrc32 g (rd32 g 12)))))"
proof -
  have "put_bytes x 0 (take GPT_HEADER_SIZE h) = h" using assms by (simp add: put_bytes_def)
  then show ?thesis by (simp add: PrimaryConvertBackup_def Let_def)
qed

text \<open>
  \<open>PrimaryConvertBackup\<close> turns a valid primary header into a valid backup header (own and
  alternate block exchanged, entries behind the usable blocks), and applied to that backup it
  restores the primary header byte for byte.
\<close>

theorem convert_backup_round_trip:
  assumes ok: "header_ok h" and prim: "rd64 h 24 = 1" "rd64 h 72 = 2" "rd64 h 32 \<noteq> 1"
    and len: "length x = GPT_HEADER_SIZE" "length y = GPT_HEADER_SIZE"
    and fwd: "PrimaryConvertBackup (Some h) x = (r, g)"
    and bwd: "PrimaryConvertBackup (Some g) y = (r', k)"
  shows "header_ok g \<and> rd64 g 24 = rd64 h 32 \<and> rd64 g 32 = 1 \<and> rd64 g 72 = rd64 h 48 + 1 \<and> k = h"
proof -
  have lh: "length h = 92" using ok by (simp add: header_ok_def)
  define P where "P = rd64 h 48 + 1"
  define g0 where "g0 = put_bytes (put_bytes (put_bytes (put_bytes h 24 (le64 (rd64 h 32))) 32 (le64 1)) 72 (le64 P)) 16 (le32 0)"
  have lg0: "length g0 = 92" by (simp add: g0_def lh)
  have g: "g = put_bytes g0 16 (le32 (SunxiCrc32 g0 (rd32 g0 12)))"
    using fwd prim by (simp add: convert_alt [OF _ len(1)] lh Let_def g0_def P_def)
  have lg: "length g = 92" by (simp add: g lg0)
  have rd_g0: "rd32 g0 12 = 92" "rd64 g0 24 = rd64 h 32" "rd64 g0 32 = 1" "rd64 g0 72 = P" "rd64 g0 48 = rd64 h 48"
    using ok by (simp_all add: g0_def lh rd32_other rd64_other header_ok_def)
  have rd_g: "rd32 g 12 = 92" "rd64 g 24 = rd64 h 32" "rd64 g 32 = 1" "rd64 g 72 = P" "rd64 g 48 = rd64 h 48"
    using rd_g0 by (simp_all add: g lg0 rd32_other rd64_other)
  have clear_g: "put_bytes g 16 (le32 0) = g0"
    by (simp add: g put_bytes_twice lg0) (simp add: g0_def put_bytes_twice lh)
  have okg: "header_ok g"
    using clear_g rd_g(1) rd_g0(1) by (simp add: header_ok_def lg) (simp add: g lg0)
  define k0 where "k0 = put_bytes (put_bytes (put_bytes (put_bytes g 24 (le64 1)) 32 (le64 (rd64 h 32))) 72 (le64 2)) 16 (le32 0)"
  have k: "k = put_bytes k0 16 (le32 (SunxiCrc32 k0 (rd32 k0 12)))"
    using bwd rd_g prim(3) by (simp add: convert_alt [OF _ len(2)] lg Let_def k0_def)
  have fields: "le64 1 = take 8 (drop 24 h)" "le64 (rd64 h 32) = take 8 (drop 32 h)" "le64 2 = take 8 (drop 72 h)"
    using le64_rd64 [of 24 h] le64_rd64 [of 32 h] le64_rd64 [of 72 h] prim lh by simp_all
  have k0: "k0 = put_bytes h 16 (le32 0)"
  proof (rule nth_equalityI)
    fix i assume "i < length k0"
    then have "i < 92" by (simp add: k0_def lg)
    then show "k0 ! i = put_bytes h 16 (le32 0) ! i"
      unfolding k0_def g g0_def
      by (simp add: nth_put_bytes lh) (auto simp: fields lh)
  qed (simp add: k0_def lg lh)
  have "k = put_bytes h 16 (le32 (rd32 h 16))"
    using ok by (simp add: k k0 put_bytes_twice lh header_ok_def rd32_other)
  also have "\<dots> = h"
    using le32_rd32 [of 16 h] lh by (intro put_bytes_same) simp_all
  finally show ?thesis using okg rd_g by (simp add: P_def)
qed

lemma stamp_header:
  assumes "length h = GPT_HEADER_SIZE" and "rd32 h 12 = of_nat GPT_HEADER_SIZE" and "rd32 h 16 = 0"
  shows "header_ok (put_bytes h 16 (le32 (SunxiCrc32 h (rd32 h 12))))"
proof -
  have "put_bytes h 16 (le32 0) = h"
    using le32_rd32 [of 16 h] assms by (intro put_bytes_same) simp_all
  then show ?thesis
    using assms by (simp add: header_ok_def rd32_other put_bytes_twice)
qed

text \<open>The header that \<open>put_header\<close> writes, field by field.\<close>

lemma put_header_fields:
  assumes "length h = GPT_HEADER_SIZE" and "length (ti_Guid ti) = 16"
  defines "k \<equiv> put_header ti h"
  shows "length k = GPT_HEADER_SIZE" "rd64 k 0 = EFI_PTAB_HEADER_ID" "rd32 k 12 = of_nat GPT_HEADER_SIZE"
    "rd32 k 16 = rd32 h 16" "rd64 k 24 = ti_MyLBA ti" "rd64 k 32 = ti_AlternateLBA ti"
    "rd64 k 48 = ti_LastLBA ti" "rd64 k 72 = ti_EntryLBA ti" "rd32 k 80 = ti_EntryNum ti" "rd32 k 84 = ti_EntrySize ti"
  using assms(1,2) by (simp_all add: k_def put_header_def Let_def rd32_other rd64_other)

definition demo_info :: gpt_table_info where
  "demo_info = \<lparr>ti_MyLBA = 1, ti_AlternateLBA = 30535679, ti_FirstLBA = 34, ti_LastLBA = 30535646,
     ti_EntryLBA = 2, ti_EntryNum = 4, ti_EntrySize = 128, ti_Guid = replicate 16 7\<rparr>"

definition demo_header :: "u8 list" where
  "demo_header = (let h = put_header demo_info (replicate 92 0) in put_bytes h 16 (le32 (SunxiCrc32 h (rd32 h 12))))"

lemma rd32_zero: "rd32 (replicate 92 0) 16 = 0"
  by code_simp

lemma demo_header_fields:
  "header_ok demo_header" "rd64 demo_header 24 = 1" "rd64 demo_header 72 = 2" "rd64 demo_header 32 = 30535679"
proof -
  let ?h = "put_header demo_info (replicate 92 0)"
  have f: "length (replicate 92 (0 :: u8)) = GPT_HEADER_SIZE" "length (ti_Guid demo_info) = 16"
    by (simp_all add: demo_info_def)
  note h = put_header_fields [OF f]
  show "header_ok demo_header"
    using stamp_header [of ?h] h rd32_zero by (simp add: demo_header_def Let_def)
  show "rd64 demo_header 24 = 1" "rd64 demo_header 72 = 2" "rd64 demo_header 32 = 30535679"
    using h by (simp_all add: demo_header_def Let_def rd64_other) (simp_all add: demo_info_def)
qed

theorem convert_backup_round_trip_witness:
  "let backup = snd (PrimaryConvertBackup (Some demo_header) (replicate 92 0))
   in rd64 backup 24 = 30535679 \<and> snd (PrimaryConvertBackup (Some backup) (replicate 92 0)) = demo_header"
proof -
  let ?f = "PrimaryConvertBackup (Some demo_header) (replicate 92 0)"
  let ?b = "PrimaryConvertBackup (Some (snd ?f)) (replicate 92 0)"
  have "?f = (fst ?f, snd ?f)" "?b = (fst ?b, snd ?b)" by simp_all
  from convert_backup_round_trip [OF demo_header_fields(1-3) _ _ _ this] demo_header_fields(4)
  show ?thesis by (simp add: Let_def)
qed

section \<open>Creating and reading a GPT\<close>

text \<open>
  C37: a GPT written by \<open>CreateGptTableAndEntry\<close> into a header whose checksum field is zero is
  accepted by \<open>SunxiGptPartitionInitialize\<close> when the block device delivers the entries at the
  announced block; the number and size of the entries are the ones asked for.
\<close>

theorem gpt_create_init_round_trip:
  assumes create: "CreateGptTableAndEntry (Some parts) ti (Some h0) (Some e0) = (st, Some h, Some e)"
    and h0: "length h0 = GPT_HEADER_SIZE" "rd32 h0 16 = 0" and guid: "length (ti_Guid ti) = 16"
    and esize: "of_nat GPT_ENTRY_SIZE \<le> ti_EntrySize ti"
    and bytes: "unat (ti_EntryNum ti * ti_EntrySize ti) \<le> SUNXI_GPT_SIZE"
    and disk: "read_blocks (ti_EntryLBA ti) (ti_EntryNum ti * ti_EntrySize ti) = (0, data)"
    and data: "data = take (unat (ti_EntryNum ti * ti_EntrySize ti)) e" "length data = unat (ti_EntryNum ti * ti_EntrySize ti)"
  shows "\<exists>s'. SunxiGptPartitionInitialize read_blocks h s = Some (EFI_SUCCESS, h, s') \<and> gpt_status s' \<and>
    gptPartNum s' = ti_EntryNum ti \<and> gptPartSize s' = ti_EntrySize ti \<and>
    take (unat (ti_EntryNum ti * ti_EntrySize ti)) (gpt_buf s') = data"
proof -
  let ?n = "ti_EntryNum ti * ti_EntrySize ti"
  define h1 where "h1 = put_header ti h0"
  define h2 where "h2 = put_bytes h1 88 (le32 (SunxiCrc32 e ?n))"
  note f = put_header_fields [OF h0(1) guid, folded h1_def]
  have l2: "length h2 = 92" using f(1) by (simp add: h2_def)
  have f2: "rd64 h2 0 = EFI_PTAB_HEADER_ID" "rd32 h2 12 = 92" "rd32 h2 16 = 0" "rd64 h2 72 = ti_EntryLBA ti"
    "rd32 h2 80 = ti_EntryNum ti" "rd32 h2 84 = ti_EntrySize ti" "rd32 h2 88 = SunxiCrc32 e ?n"
    using f h0(2) by (simp_all add: h2_def rd32_other rd64_other)
  have h: "h = put_bytes h2 16 (le32 (SunxiCrc32 h2 (rd32 h2 12)))"
    using create by (auto simp: CreateGptTableAndEntry_def Let_def h2_def h1_def)
  have z: "put_bytes h2 16 (le32 0) = h2"
    using le32_rd32 [of 16 h2] f2 l2 by (intro put_bytes_same) simp_all
  have clear: "put_bytes h 16 (le32 0) = h2"
    using z by (simp add: h put_bytes_twice l2)
  have fh: "rd64 h 0 = EFI_PTAB_HEADER_ID" "rd32 h 16 = SunxiCrc32 h2 92" "rd64 h 72 = ti_EntryLBA ti"
    "rd32 h 80 = ti_EntryNum ti" "rd32 h 84 = ti_EntrySize ti" "rd32 h 88 = SunxiCrc32 e ?n"
    using f2 l2 by (simp_all add: h rd32_other rd64_other)
  have again: "put_bytes h2 16 (le32 (SunxiCrc32 h2 (rd32 h2 12))) = h" by (simp add: h)
  define gb where "gb = put_bytes (gpt_buf s) 0 data"
  have gb: "take (unat ?n) gb = data" using data(2) by (simp add: gb_def put_bytes_def)
  have "SunxiCrc32 gb ?n = SunxiCrc32 e ?n"
    using gb data(1) by (simp add: SunxiCrc32_def)
  moreover have small: "(ti_EntrySize ti < 128) = False" using esize by (simp add: not_less)
  ultimately show ?thesis
    using fh f2(2) clear again disk bytes gb
    by (simp add: small SunxiGptPartitionInitialize_def Let_def gb_def not_less)
qed

theorem gpt_create_init_round_trip_witness:
  "\<exists>h s'. CreateGptTableAndEntry (Some []) demo_info (Some (replicate 92 0)) (Some (replicate 512 0)) =
       (EFI_SUCCESS, Some h, Some (replicate 512 0)) \<and>
     SunxiGptPartitionInitialize (\<lambda>lba n. (0, replicate 512 0)) h blank_state = Some (EFI_SUCCESS, h, s') \<and>
     gptPartNum s' = 4"
proof -
  obtain h where c: "CreateGptTableAndEntry (Some []) demo_info (Some (replicate 92 0)) (Some (replicate 512 0)) =
       (EFI_SUCCESS, Some h, Some (replicate 512 0))"
    by (simp add: CreateGptTableAndEntry_def Let_def)
  have n: "unat (ti_EntryNum demo_info * ti_EntrySize demo_info) = 512" by (simp add: demo_info_def)
  have "\<exists>s'. SunxiGptPartitionInitialize (\<lambda>lba n. (0, replicate 512 0)) h blank_state = Some (EFI_SUCCESS, h, s') \<and>
      gpt_status s' \<and> gptPartNum s' = ti_EntryNum demo_info \<and> gptPartSize s' = ti_EntrySize demo_info \<and>
      take (unat (ti_EntryNum demo_info * ti_EntrySize demo_info)) (gpt_buf s') = replicate 512 0"
    by (rule gpt_create_init_round_trip [OF c]) (simp_all add: n rd32_zero, simp_all add: demo_info_def)
  with c show ?thesis by (auto simp: demo_info_def)
qed

lemma ucast_minus_down: "(ucast (x - y :: u64) :: u32) = ucast x - ucast y"
proof transfer
  fix x y :: int
  have "take_bit 32 (take_bit 64 x - take_bit 64 y) =
      take_bit 32 (take_bit 32 (take_bit 64 x) - take_bit 32 (take_bit 64 y))"
    by (simp only: take_bit_diff)
  also have "\<dots> = take_bit 32 (x - y)" by (simp add: take_bit_diff)
  finally show "take_bit LENGTH(32) (take_bit LENGTH(64) (x - y)) =
      take_bit LENGTH(32) (take_bit LENGTH(64) x - take_bit LENGTH(64) y)" by simp
qed

text \<open>
  The entry of a partition that is not the last one ends at its last block, but the size that
  \<open>SunxiGptPartitionGetSize\<close> reports is the difference of the two block numbers: one less
  than the length the table was created with.
\<close>

theorem gpt_size_off_by_one:
  assumes entry: "gpt_buf s = put_entry last_lba False gp (unat (i * gptPartSize s)) buf"
    and room: "unat (i * gptPartSize s) + GPT_ENTRY_SIZE \<le> length buf"
    and lens: "length (gp_type gp) = 16" "length (gp_uniqueguid gp) = 16" "length (gp_name gp) = 16"
    and st: "gpt_status s" "i < gptPartNum s"
  shows "SunxiGptPartitionGetSize s i = (EFI_SUCCESS, Some (gp_lenlo gp - 1))"
proof -
  let ?off = "unat (i * gptPartSize s)"
  let ?start = "join64 (gp_addrhi gp) (gp_addrlo gp)" and ?len = "join64 (gp_lenhi gp) (gp_lenlo gp)"
  have nu: "length (name_units n) = 36" if "length n = 16" for n
  proof -
    have "length (concat (map (\<lambda>c. [c, 0]) xs)) = 2 * length xs" for xs :: "u8 list" by (induction xs) auto
    then show ?thesis using that by (simp add: name_units_def)
  qed
  have "gpt_start s i = ?start" "gpt_end s i = ?start + ?len - 1"
    using room lens nu
    by (simp_all add: gpt_start_def gpt_end_def entry put_entry_def Let_def rd64_other)
  then have "gpt_end s i - gpt_start s i = ?len - 1" by simp
  moreover have "(ucast (?len - 1) :: u32) = gp_lenlo gp - 1"
  proof -
    have "(ucast ?len :: u32) = gp_lenlo gp"
      by (rule bit_word_eqI) (auto simp: join64_def bit_simps)
    then show ?thesis by (simp add: ucast_minus_down)
  qed
  ultimately show ?thesis using st by (simp add: SunxiGptPartitionGetSize_def not_le)
qed

definition demo_part :: gpt_partition where
  "demo_part = \<lparr>gp_addrhi = 0, gp_addrlo = 0x8000, gp_lenhi = 0, gp_lenlo = 0x4000, gp_name = replicate 16 0x61,
     gp_type = replicate 16 1, gp_uniqueguid = replicate 16 2, gp_attrhi = 0, gp_attrlo = 0\<rparr>"

definition demo_gpt_state :: part_state where
  "demo_gpt_state = blank_state\<lparr>gpt_buf := put_entry 0 False demo_part 0 (replicate 512 0), gpt_status := True,
     gptPartSize := 128, gptPartNum := 4\<rparr>"

theorem gpt_size_off_by_one_witness:
  "SunxiGptPartitionGetSize demo_gpt_state 0 = (EFI_SUCCESS, Some 0x3fff)"
proof -
  have "SunxiGptPartitionGetSize demo_gpt_state 0 = (EFI_SUCCESS, Some (gp_lenlo demo_part - 1))"
    by (rule gpt_size_off_by_one [of _ 0 _ _ "replicate 512 0"]) (simp_all add: demo_gpt_state_def demo_part_def)
  then show ?thesis by (simp add: demo_part_def)
qed

end
