(* ===== verification/Rtc.thy ===== *)
theory Rtc
  imports Prelude
begin

text \<open>
  The virtual real-time clock, \<open>src/Library/VirtualRealTimeClockLib\<close>. The frequency of the ARM
  generic timer (\<open>ArmGenericTimerGetTimerFreq\<close>) and the performance counter
  (\<open>GetPerformanceCounter\<close>) are arguments.
\<close>

record efi_time =
  Year :: u16
  Month :: u8
  Day :: u8
  Hour :: u8
  Minute :: u8
  Second :: u8
  Nanosecond :: u32
  TimeZone :: int
  Daylight :: u8

record efi_time_capabilities =
  Resolution :: u32
  Accuracy :: u32
  SetsToZero :: bool

text \<open>
  A null pointer is \<^term>\<open>None\<close>. The result is the status and the two structures after the
  call. The \<open>ASSERT\<close> on the frequency is followed by the error return that is modelled.
\<close>

definition LibGetTime ::
  "u32 \<Rightarrow> u64 \<Rightarrow> efi_time option \<Rightarrow> efi_time_capabilities option \<Rightarrow>
   efi_status \<times> efi_time option \<times> efi_time_capabilities option" where
  "LibGetTime Freq Counter Time Capabilities =
     (case Time of None \<Rightarrow> (EFI_INVALID_PARAMETER, None, Capabilities)
      | Some t \<Rightarrow>
        if Freq = 0 then (EFI_DEVICE_ERROR, Some t, Capabilities)
        else
          let caps = map_option (\<lambda>c. c\<lparr>Accuracy := 0, Resolution := Freq, SetsToZero := False\<rparr>) Capabilities;
              e0 = Counter div ucast Freq;
              e1 = e0 mod (24 * 60 * 60);
              e2 = e1 mod (60 * 60);
              e3 = e2 mod 60
          in (EFI_SUCCESS,
              Some (t\<lparr>Year := 2018, Month := 6,
                      Day := ucast (e0 div (24 * 60 * 60)),
                      Hour := ucast (e1 div (60 * 60)),
                      Minute := ucast (e2 div 60),
                      Second := ucast e3,
                      Nanosecond := 0, TimeZone := 0, Daylight := 0\<rparr>),
              caps))"

definition LibSetTime :: "efi_time \<Rightarrow> efi_status" where
  "LibSetTime Time = EFI_UNSUPPORTED"

definition LibGetWakeupTime :: "efi_status" where
  "LibGetWakeupTime = EFI_UNSUPPORTED"

definition LibSetWakeupTime :: "bool \<Rightarrow> efi_status" where
  "LibSetWakeupTime Enabled = EFI_UNSUPPORTED"

definition LibRtcInitialize :: "efi_status" where
  "LibRtcInitialize = EFI_SUCCESS"

text \<open>Seconds since the counter started, as the fields say.\<close>

definition time_seconds :: "efi_time \<Rightarrow> nat" where
  "time_seconds t = ((unat (Day t) * 24 + unat (Hour t)) * 60 + unat (Minute t)) * 60 + unat (Second t)"

lemma unat_ucast_small: "unat (x :: u64) < 256 \<Longrightarrow> unat (ucast x :: u8) = unat x"
  by (simp add: unsigned_ucast_eq take_bit_nat_eq_self)

lemma unat_ucast_mod: "unat (ucast (x :: u64) :: u8) = unat x mod 256"
  by (simp add: unsigned_ucast_eq take_bit_eq_mod)

lemma unat_ucast_up: "unat (ucast (x :: u32) :: u64) = unat x"
proof -
  have "unat x < 2 ^ 64" using unsigned_less [where 'a = nat, of x] by simp
  then show ?thesis by (simp add: unsigned_ucast_eq take_bit_nat_eq_self)
qed

text \<open>
  On success the hour, minute and second are in range and the fields encode the elapsed
  seconds exactly, as long as fewer than 256 days have passed; the day counts from 0, and is
  taken modulo 256 after that. A null pointer and a stopped timer are reported, and leave
  the structures as they were.
\<close>

theorem get_time_fields:
  assumes run: "LibGetTime Freq Counter Time caps = (st, Time', caps')"
  shows "(st = EFI_SUCCESS \<longleftrightarrow> Time \<noteq> None \<and> Freq \<noteq> 0) \<and>
    (st \<noteq> EFI_SUCCESS \<longrightarrow> Time' = Time \<and> caps' = caps) \<and>
    (st = EFI_SUCCESS \<longrightarrow> (\<exists>t. Time' = Some t \<and>
       unat (Hour t) < 24 \<and> unat (Minute t) < 60 \<and> unat (Second t) < 60 \<and>
       time_seconds t = unat Counter div unat Freq mod (256 * 86400)))"
proof (cases "Time = None \<or> Freq = 0")
  case True
  then show ?thesis using run
    by (auto simp: LibGetTime_def EFI_SUCCESS_def split: option.splits if_splits)
next
  case False
  then obtain t0 where t0: "Time = Some t0" by auto
  let ?e = "Counter div ucast Freq"
  define n where "n = unat Counter div unat Freq"
  have e: "unat ?e = n" by (simp add: n_def unat_div unat_ucast_up)
  obtain t where t: "Time' = Some t" and st: "st = EFI_SUCCESS"
    and f: "Day t = ucast (?e div (24 * 60 * 60))"
      "Hour t = ucast (?e mod (24 * 60 * 60) div (60 * 60))"
      "Minute t = ucast (?e mod (24 * 60 * 60) mod (60 * 60) div 60)"
      "Second t = ucast (?e mod (24 * 60 * 60) mod (60 * 60) mod 60)"
    using run t0 False by (auto simp: LibGetTime_def Let_def)
  have h: "unat (Hour t) = n mod 86400 div 3600"
    unfolding f by (subst unat_ucast_small) (simp_all add: unat_div unat_mod e [unfolded unat_div])
  have m: "unat (Minute t) = n mod 86400 mod 3600 div 60"
    unfolding f by (subst unat_ucast_small) (simp_all add: unat_div unat_mod e [unfolded unat_div])
  have s: "unat (Second t) = n mod 86400 mod 3600 mod 60"
    unfolding f by (subst unat_ucast_small) (simp_all add: unat_div unat_mod e [unfolded unat_div])
  have d: "unat (Day t) = n div 86400 mod 256"
    unfolding f unat_ucast_mod by (simp add: unat_div e [unfolded unat_div])
  have "time_seconds t = n mod (256 * 86400)"
  proof -
    have "n mod (86400 * 256) = 86400 * (n div 86400 mod 256) + n mod 86400" by (rule mod_mult2_eq)
    moreover define r where "r = n mod 86400"
    moreover have "r = 3600 * (r div 3600) + r mod 3600" by simp
    moreover have "r mod 3600 = 60 * (r mod 3600 div 60) + r mod 3600 mod 60" by simp
    ultimately show ?thesis unfolding time_seconds_def h m s d by simp
  qed
  moreover have "n mod 86400 div 3600 < 24" "n mod 86400 mod 3600 div 60 < 60"
    by (simp_all add: less_mult_imp_div_less)
  ultimately show ?thesis using t st False h m s by (auto simp: n_def)
qed

definition zero_time :: efi_time where
  "zero_time = \<lparr>Year = 0, Month = 0, Day = 0, Hour = 0, Minute = 0, Second = 0, Nanosecond = 0,
     TimeZone = 0, Daylight = 0\<rparr>"

theorem get_time_fields_witness:
  "\<exists>t. fst (snd (LibGetTime 24000000 2400000000000 (Some zero_time) None)) = Some t \<and> time_seconds t = 100000"
proof -
  let ?run = "LibGetTime 24000000 2400000000000 (Some zero_time) None"
  have "?run = (fst ?run, fst (snd ?run), snd (snd ?run))" by simp
  from get_time_fields [OF this] show ?thesis by auto
qed

end
