(* ===== verification/Script.thy ===== *)
theory Script
  imports Bytes
begin

text \<open>
  The board script, first half of \<open>src/Library/SysConfigLib/SysConfigLib.c\<close> (types in
  \<open>src/Include/Library/SysConfigLib.h\<close>): a binary table of main keys, each with sub keys, each
  with a typed value. The script stays where the boot loader put it; the parser keeps its address
  and the number of main keys and walks the tables in memory.

  Memory is the flat memory of \<open>Bytes\<close>. A pointer that may be null is compared with 0, a name
  that may be null is an option. Names are the bytes before their terminator. The two safe string
  copies of EDK2's \<open>BaseLib\<close> are the record \<open>str_lib\<close>; what the code relies on is \<open>str_lib_law\<close>.
\<close>

section \<open>Types and state\<close>

abbreviation (input) SCRIPT_PARSER_OK :: int where "SCRIPT_PARSER_OK \<equiv> 0"
abbreviation (input) SCRIPT_PARSER_EMPTY_BUFFER :: int where "SCRIPT_PARSER_EMPTY_BUFFER \<equiv> -1"
abbreviation (input) SCRIPT_PARSER_KEYNAME_NULL :: int where "SCRIPT_PARSER_KEYNAME_NULL \<equiv> -2"
abbreviation (input) SCRIPT_PARSER_DATA_VALUE_NULL :: int where "SCRIPT_PARSER_DATA_VALUE_NULL \<equiv> -3"
abbreviation (input) SCRIPT_PARSER_KEY_NOT_FIND :: int where "SCRIPT_PARSER_KEY_NOT_FIND \<equiv> -4"
abbreviation (input) SCRIPT_PARSER_BUFFER_NOT_ENOUGH :: int where "SCRIPT_PARSER_BUFFER_NOT_ENOUGH \<equiv> -5"

abbreviation (input) TYPE_SINGLE_WORD :: u32 where "TYPE_SINGLE_WORD \<equiv> 1"
abbreviation (input) TYPE_STRING :: u32 where "TYPE_STRING \<equiv> 2"
abbreviation (input) TYPE_MULTI_WORD :: u32 where "TYPE_MULTI_WORD \<equiv> 3"
abbreviation (input) TYPE_GPIO_WORD :: u32 where "TYPE_GPIO_WORD \<equiv> 4"
abbreviation (input) TYPE_DATA_EMPTY :: u32 where "TYPE_DATA_EMPTY \<equiv> 5"

record str_lib =
  AsciiStrCpyS :: "u64 \<Rightarrow> nat \<Rightarrow> u8 list \<Rightarrow> mem \<Rightarrow> mem"
  AsciiStrnCpyS :: "nat \<Rightarrow> u8 list \<Rightarrow> nat \<Rightarrow> u8 list"

text \<open>
  \<open>AsciiStrCpyS\<close> copies a string with its terminator when it fits into the destination and
  leaves the destination alone when it does not; \<open>AsciiStrnCpyS\<close> copies at most the given
  number of bytes and terminates the copy.
\<close>

definition str_lib_law :: "str_lib \<Rightarrow> bool" where
  "str_lib_law L \<longleftrightarrow>
     (\<forall>d n s m. AsciiStrCpyS L d n s m = (if length s < n then store_bytes m d (s @ [0]) else m)) \<and>
     (\<forall>n s k. k < n \<longrightarrow> AsciiStrnCpyS L n s k = take k s)"

record script_state =
  script_mod_buf :: u64
  script_main_key_count :: u32

text \<open>
  \<open>script_head_t\<close> is 16 bytes with \<open>main_key_count\<close> first. \<open>script_main_key_t\<close> is 40 bytes:
  \<open>main_name\<close>, then \<open>lenth\<close> at 32 and \<open>offset\<close> at 36. \<open>script_sub_key_t\<close> is 40 bytes: \<open>sub_name\<close>,
  then \<open>offset\<close> at 32 and \<open>pattern\<close> at 36. Offsets count words from the start of the script; the
  product with 4 is a C \<open>int\<close>, sign-extended when it is added to a pointer.
\<close>

definition shl2 :: "u32 \<Rightarrow> u64" where
  "shl2 w = scast (push_bit 2 w)"

definition main_key_addr :: "u64 \<Rightarrow> int \<Rightarrow> u64" where
  "main_key_addr buf i = buf + 16 + of_int (40 * i)"

definition main_lenth :: "mem \<Rightarrow> u64 \<Rightarrow> int" where
  "main_lenth m mk = sint (load32 m (mk + 32))"

definition sub_key_addr :: "u64 \<Rightarrow> mem \<Rightarrow> u64 \<Rightarrow> int \<Rightarrow> u64" where
  "sub_key_addr buf m mk j = buf + shl2 (load32 m (mk + 36)) + of_int (40 * j)"

definition data_addr :: "u64 \<Rightarrow> mem \<Rightarrow> u64 \<Rightarrow> u64" where
  "data_addr buf m sk = buf + shl2 (load32 m (sk + 32))"

definition sk_type :: "mem \<Rightarrow> u64 \<Rightarrow> u32" where
  "sk_type m sk = drop_bit 16 (load32 m (sk + 36)) AND 0xffff"

definition sk_words :: "mem \<Rightarrow> u64 \<Rightarrow> u32" where
  "sk_words m sk = load32 m (sk + 36) AND 0xffff"

section \<open>Names and key tables\<close>

text \<open>\<open>while(str[length++])\<close>: the terminator is counted, and the count stops at 32.\<close>

fun test_str_length_from :: "nat \<Rightarrow> u8 list \<Rightarrow> nat" where
  "test_str_length_from len [] = Suc len"
| "test_str_length_from len (c # cs) = (if Suc len > 32 then 32 else test_str_length_from (Suc len) cs)"

definition test_str_length :: "u8 list \<Rightarrow> nat" where
  "test_str_length str = test_str_length_from 0 str"

text \<open>
  Three ways to shorten a name to 31 bytes: with \<open>AsciiStrnCpyS\<close>; with \<open>CopyMem\<close> into a local
  array that is filled with zeros before; and with \<open>CopyMem\<close> into a local array that is not,
  because \<open>SetMem(main_bkname, 0, 32)\<close> sets 0 bytes to the value 32. In the last case the
  name goes on with whatever follows on the stack up to a zero byte, \<open>stack\<close>.
\<close>

definition bkname_cpys :: "str_lib \<Rightarrow> u8 list \<Rightarrow> u8 list" where
  "bkname_cpys L name = (if test_str_length name > 31 then AsciiStrnCpyS L 32 name 31 else name)"

definition bkname_zeroed :: "u8 list \<Rightarrow> u8 list" where
  "bkname_zeroed name = (if test_str_length name > 31 then take 31 name else name)"

definition bkname_open :: "u8 list \<Rightarrow> u8 list \<Rightarrow> u8 list" where
  "bkname_open stack name = (if test_str_length name > 31 then take 31 name @ stack else name)"

text \<open>
  The loops over the main keys skip those with another name and go through the sub keys of the
  others; \<open>find\<close> is the first sub key at which the inner loop returns.
\<close>

definition main_keys :: "script_state \<Rightarrow> u64 list" where
  "main_keys st = map (main_key_addr (script_mod_buf st)) [0..sint (script_main_key_count st) - 1]"

definition sub_keys :: "script_state \<Rightarrow> mem \<Rightarrow> u64 \<Rightarrow> u64 list" where
  "sub_keys st m mk = map (sub_key_addr (script_mod_buf st) m mk) [0..main_lenth m mk - 1]"

definition named_sub_keys :: "script_state \<Rightarrow> mem \<Rightarrow> u8 list \<Rightarrow> u64 list" where
  "named_sub_keys st m main = concat (map (sub_keys st m) (filter (\<lambda>mk. str_at m mk main) (main_keys st)))"

section \<open>Early access to a given script\<close>

text \<open>
  The pointer to the main key moves on only after a name that differs, so a main key that
  matches and lacks the sub key is tried again until the count is used up.
\<close>

fun sw_cfg_get_subkey_from :: "u64 \<Rightarrow> mem \<Rightarrow> u8 list \<Rightarrow> u8 list \<Rightarrow> nat \<Rightarrow> u64 \<Rightarrow> u64 option" where
  "sw_cfg_get_subkey_from buf m main sub 0 mk = None"
| "sw_cfg_get_subkey_from buf m main sub (Suc n) mk =
     (if \<not> str_at m mk main then sw_cfg_get_subkey_from buf m main sub n (mk + 40)
      else case find (\<lambda>sk. str_at m sk sub) (map (sub_key_addr buf m mk) [0..main_lenth m mk - 1]) of
          Some sk \<Rightarrow> Some sk
        | None \<Rightarrow> sw_cfg_get_subkey_from buf m main sub n mk)"

definition sw_cfg_get_subkey :: "u64 \<Rightarrow> mem \<Rightarrow> u8 list \<Rightarrow> u8 list \<Rightarrow> u64 option" where
  "sw_cfg_get_subkey buf m main sub =
     sw_cfg_get_subkey_from buf m main sub (nat (sint (load32 m buf))) (buf + 16)"

definition sw_cfg_get_int :: "u64 \<Rightarrow> mem \<Rightarrow> u8 list \<Rightarrow> u8 list \<Rightarrow> int" where
  "sw_cfg_get_int buf m main sub =
     (case sw_cfg_get_subkey buf m main sub of None \<Rightarrow> -1
      | Some sk \<Rightarrow> if sk_type m sk = TYPE_SINGLE_WORD then sint (load32 m (data_addr buf m sk)) else -1)"

definition sw_cfg_get_str :: "u64 \<Rightarrow> mem \<Rightarrow> u8 list \<Rightarrow> u8 list \<Rightarrow> u64 \<Rightarrow> bool \<times> mem" where
  "sw_cfg_get_str buf m main sub dst =
     (case sw_cfg_get_subkey buf m main sub of None \<Rightarrow> (False, m)
      | Some sk \<Rightarrow> if sk_type m sk = TYPE_STRING
          then (True, store_bytes m dst (load_bytes m (data_addr buf m sk) (unat (sk_words m sk)))) else (False, m))"

section \<open>The parser\<close>

definition script_parser_init :: "u64 \<Rightarrow> mem \<Rightarrow> script_state \<Rightarrow> int \<times> script_state" where
  "script_parser_init script_buf m st =
     (if script_buf \<noteq> 0
      then (SCRIPT_PARSER_OK, \<lparr>script_mod_buf = script_buf, script_main_key_count = load32 m script_buf\<rparr>)
      else (SCRIPT_PARSER_EMPTY_BUFFER, st))"

definition script_parser_exit :: "script_state \<Rightarrow> int \<times> script_state" where
  "script_parser_exit st = (SCRIPT_PARSER_OK, \<lparr>script_mod_buf = 0, script_main_key_count = 0\<rparr>)"

text \<open>The handle is the address of the main key, cut to 32 bits.\<close>

definition script_parser_fetch_subkey_start :: "u8 list \<Rightarrow> script_state \<Rightarrow> mem \<Rightarrow> u8 list option \<Rightarrow> u32" where
  "script_parser_fetch_subkey_start stack st m main_name =
     (if script_mod_buf st = 0 \<or> sint (script_main_key_count st) \<le> 0 then 0
      else case main_name of None \<Rightarrow> 0
        | Some name \<Rightarrow>
          (case find (\<lambda>mk. str_at m mk (bkname_open stack name)) (main_keys st) of
             None \<Rightarrow> 0 | Some mk \<Rightarrow> ucast mk))"

text \<open>
  \<open>sizeof(sub_name)\<close> is the size of a pointer, and the size passed for the value is
  \<open>sizeof(long) / sizeof(INT32)\<close>. The result is the status, the new \<open>*index\<close> and the memory.
\<close>

definition script_parser_fetch_subkey_next ::
  "str_lib \<Rightarrow> script_state \<Rightarrow> u32 \<Rightarrow> u64 \<Rightarrow> u64 \<Rightarrow> int \<Rightarrow> mem \<Rightarrow> int \<times> int \<times> mem" where
  "script_parser_fetch_subkey_next L st handle sub_name value index m =
     (if handle = 0 then (-1, index, m)
      else let buf = script_mod_buf st; mk = ucast handle in
        case find (\<lambda>j. sk_type m (sub_key_addr buf m mk j) \<in> {TYPE_SINGLE_WORD, TYPE_STRING})
               [index..main_lenth m mk - 1] of
          None \<Rightarrow> (SCRIPT_PARSER_KEY_NOT_FIND, index, m)
        | Some j \<Rightarrow>
          let sk = sub_key_addr buf m mk j;
              m1 = (if sk_type m sk = TYPE_SINGLE_WORD
                    then store32 m value (load32 m (data_addr buf m sk))
                    else AsciiStrCpyS L value 2 (mem_str m (data_addr buf m sk) 2) m)
          in (SCRIPT_PARSER_OK, j + 1, AsciiStrCpyS L sub_name 8 (mem_str m1 sk 8) m1))"

definition gpio_words_fit :: "u32 \<Rightarrow> bool" where
  "gpio_words_fit count \<longleftrightarrow> \<not> shl2 count < 56"

text \<open>The \<open>switch\<close> of \<open>script_parser_fetch\<close> for a sub key that was found.\<close>

definition fetch_value :: "str_lib \<Rightarrow> u64 \<Rightarrow> u64 \<Rightarrow> u8 list \<Rightarrow> u64 \<Rightarrow> u32 \<Rightarrow> mem \<Rightarrow> int \<times> mem" where
  "fetch_value L buf sk sub value count m =
     (let pattern = sk_type m sk; word_count = sk_words m sk; src = data_addr buf m sk in
      if pattern = TYPE_SINGLE_WORD then (SCRIPT_PARSER_OK, store32 m value (load32 m src))
      else if pattern = TYPE_STRING then
        let word_count = (if sint count < sint word_count then count else word_count)
        in (SCRIPT_PARSER_OK, store_bytes m value (load_bytes m src (unat (shl2 word_count))))
      else if pattern = TYPE_GPIO_WORD then
        if \<not> gpio_words_fit count then (SCRIPT_PARSER_BUFFER_NOT_ENOUGH, m)
        else let m1 = AsciiStrCpyS L value 32 sub m
          in (SCRIPT_PARSER_OK, store_bytes m1 (value + 32) (load_bytes m1 src 24))
      else if pattern = TYPE_DATA_EMPTY then (SCRIPT_PARSER_DATA_VALUE_NULL, m)
      else (SCRIPT_PARSER_OK, m))"

definition script_parser_fetch ::
  "str_lib \<Rightarrow> script_state \<Rightarrow> u8 list option \<Rightarrow> u8 list option \<Rightarrow> u64 \<Rightarrow> u32 \<Rightarrow> mem \<Rightarrow> int \<times> mem" where
  "script_parser_fetch L st main_name sub_name value count m =
     (if script_mod_buf st = 0 \<or> sint (script_main_key_count st) \<le> 0 then (SCRIPT_PARSER_EMPTY_BUFFER, m)
      else case (main_name, sub_name) of
          (Some main, Some sub) \<Rightarrow>
            if value = 0 then (SCRIPT_PARSER_DATA_VALUE_NULL, m)
            else let main = bkname_cpys L main; sub = bkname_cpys L sub in
              (case find (\<lambda>sk. str_at m sk sub) (named_sub_keys st m main) of
                 None \<Rightarrow> (SCRIPT_PARSER_KEY_NOT_FIND, m)
               | Some sk \<Rightarrow> fetch_value L (script_mod_buf st) sk sub value count m)
        | _ \<Rightarrow> (SCRIPT_PARSER_KEYNAME_NULL, m))"

text \<open>
  \<open>script_parser_fetch_ex\<close> has the same body with \<open>*type\<close> assigned in four cases and no case
  for empty data. The second component is what it assigns to \<open>*type\<close>.
\<close>

definition fetch_value_ex ::
  "str_lib \<Rightarrow> u64 \<Rightarrow> u64 \<Rightarrow> u8 list \<Rightarrow> u64 \<Rightarrow> u32 \<Rightarrow> mem \<Rightarrow> int \<times> u32 option \<times> mem" where
  "fetch_value_ex L buf sk sub value count m =
     (let pattern = sk_type m sk; word_count = sk_words m sk; src = data_addr buf m sk in
      if pattern = TYPE_SINGLE_WORD then
        (SCRIPT_PARSER_OK, Some TYPE_SINGLE_WORD, store32 m value (load32 m src))
      else if pattern = TYPE_STRING then
        let word_count = (if sint count < sint word_count then count else word_count)
        in (SCRIPT_PARSER_OK, Some TYPE_STRING, store_bytes m value (load_bytes m src (unat (shl2 word_count))))
      else if pattern = TYPE_MULTI_WORD then (SCRIPT_PARSER_OK, Some TYPE_MULTI_WORD, m)
      else if pattern = TYPE_GPIO_WORD then
        if \<not> gpio_words_fit count then (SCRIPT_PARSER_BUFFER_NOT_ENOUGH, None, m)
        else let m1 = AsciiStrCpyS L value 32 sub m
          in (SCRIPT_PARSER_OK, Some TYPE_GPIO_WORD, store_bytes m1 (value + 32) (load_bytes m1 src 24))
      else (SCRIPT_PARSER_OK, None, m))"

definition script_parser_fetch_ex ::
  "str_lib \<Rightarrow> script_state \<Rightarrow> u8 list option \<Rightarrow> u8 list option \<Rightarrow> u64 \<Rightarrow> u32 \<Rightarrow> mem \<Rightarrow> int \<times> u32 option \<times> mem" where
  "script_parser_fetch_ex L st main_name sub_name value count m =
     (if script_mod_buf st = 0 \<or> sint (script_main_key_count st) \<le> 0 then (SCRIPT_PARSER_EMPTY_BUFFER, None, m)
      else case (main_name, sub_name) of
          (Some main, Some sub) \<Rightarrow>
            if value = 0 then (SCRIPT_PARSER_DATA_VALUE_NULL, None, m)
            else let main = bkname_cpys L main; sub = bkname_cpys L sub in
              (case find (\<lambda>sk. str_at m sk sub) (named_sub_keys st m main) of
                 None \<Rightarrow> (SCRIPT_PARSER_KEY_NOT_FIND, None, m)
               | Some sk \<Rightarrow> fetch_value_ex L (script_mod_buf st) sk sub value count m)
        | _ \<Rightarrow> (SCRIPT_PARSER_KEYNAME_NULL, None, m))"

text \<open>
  \<open>script_parser_patch\<close> goes on searching after a sub key of another type. The two \<open>SetMem\<close>
  calls have their length and value swapped and clear nothing.
\<close>

definition patch_value :: "u64 \<Rightarrow> u64 \<Rightarrow> u64 \<Rightarrow> u32 \<Rightarrow> mem \<Rightarrow> mem" where
  "patch_value buf sk str str_size m =
     (let pattern = sk_type m sk; word_count = sk_words m sk; dst = data_addr buf m sk in
      if pattern = TYPE_SINGLE_WORD then store32 m dst (load32 m str)
      else if pattern = TYPE_GPIO_WORD then store_bytes m dst (load_bytes m (str + 32) 24)
      else let str_size = (if sint word_count < sint str_size then word_count else str_size)
        in store_bytes m dst (load_bytes m str (unat (shl2 str_size))))"

definition script_parser_patch ::
  "u8 list \<Rightarrow> u8 list \<Rightarrow> script_state \<Rightarrow> u8 list option \<Rightarrow> u8 list option \<Rightarrow> u64 \<Rightarrow> u32 \<Rightarrow> mem \<Rightarrow> int \<times> mem" where
  "script_parser_patch stack1 stack2 st main_name sub_name str str_size m =
     (if script_mod_buf st = 0 then (SCRIPT_PARSER_EMPTY_BUFFER, m)
      else case (main_name, sub_name) of
          (Some main, Some sub) \<Rightarrow>
            if str = 0 then (SCRIPT_PARSER_DATA_VALUE_NULL, m)
            else let main = bkname_open stack1 main; sub = bkname_open stack2 sub in
              (case find (\<lambda>sk. str_at m sk sub \<and>
                       sk_type m sk \<in> {TYPE_SINGLE_WORD, TYPE_GPIO_WORD, TYPE_STRING})
                    (named_sub_keys st m main) of
                 None \<Rightarrow> (SCRIPT_PARSER_KEY_NOT_FIND, m)
               | Some sk \<Rightarrow> (SCRIPT_PARSER_OK, patch_value (script_mod_buf st) sk str str_size m))
        | _ \<Rightarrow> (SCRIPT_PARSER_KEYNAME_NULL, m))"

definition script_parser_subkey_count :: "u8 list \<Rightarrow> script_state \<Rightarrow> mem \<Rightarrow> u8 list option \<Rightarrow> int" where
  "script_parser_subkey_count stack st m main_name =
     (if script_mod_buf st = 0 then SCRIPT_PARSER_EMPTY_BUFFER
      else case main_name of None \<Rightarrow> SCRIPT_PARSER_KEYNAME_NULL
        | Some name \<Rightarrow>
          (case find (\<lambda>mk. str_at m mk (bkname_open stack name)) (main_keys st) of
             None \<Rightarrow> -1 | Some mk \<Rightarrow> main_lenth m mk))"

definition script_parser_mainkey_count :: "script_state \<Rightarrow> int" where
  "script_parser_mainkey_count st =
     (if script_mod_buf st = 0 then SCRIPT_PARSER_EMPTY_BUFFER else sint (script_main_key_count st))"

definition script_parser_mainkey_get_gpio_count :: "str_lib \<Rightarrow> script_state \<Rightarrow> mem \<Rightarrow> u8 list option \<Rightarrow> int" where
  "script_parser_mainkey_get_gpio_count L st m main_name =
     (if script_mod_buf st = 0 then SCRIPT_PARSER_EMPTY_BUFFER
      else case main_name of None \<Rightarrow> SCRIPT_PARSER_KEYNAME_NULL
        | Some name \<Rightarrow>
          int (length (filter (\<lambda>sk. sk_type m sk = TYPE_GPIO_WORD) (named_sub_keys st m (bkname_cpys L name)))))"

text \<open>
  Each GPIO sub key goes into the next 56 byte entry of the caller's array. The loop stops after
  an entry when the array is full; the \<open>SetMem\<close> before it clears nothing. The tables are read
  again in each round, in the memory as the rounds before left it; the index stays below
  \<open>lenth\<close>, a 32-bit \<open>int\<close>, so the loop ends.
\<close>

lemma main_lenth_le: "main_lenth m mk < 2 ^ 31"
  unfolding main_lenth_def using sint_less [of "load32 m (mk + 32)"] by simp

function copy_gpio_cfg :: "str_lib \<Rightarrow> u64 \<Rightarrow> u64 \<Rightarrow> u64 \<Rightarrow> int \<Rightarrow> nat \<Rightarrow> int \<Rightarrow> mem \<Rightarrow> mem" where
  "copy_gpio_cfg L buf mk cfg gpio_count user_index j m =
     (if j < main_lenth m mk then
        let sk = sub_key_addr buf m mk j in
        if sk_type m sk = TYPE_GPIO_WORD then
          let e = cfg + of_nat (56 * user_index);
              m1 = AsciiStrCpyS L e 32 (mem_str m sk 32) m;
              m2 = store_bytes m1 (e + 32) (load_bytes m1 (data_addr buf m1 sk) 24)
          in if int (Suc user_index) \<ge> gpio_count then m2
             else copy_gpio_cfg L buf mk cfg gpio_count (Suc user_index) (j + 1) m2
        else copy_gpio_cfg L buf mk cfg gpio_count user_index (j + 1) m
      else m)"
  by pat_completeness auto
termination
  by (relation "measure (\<lambda>(L, buf, mk, cfg, gpio_count, user_index, j, m). nat (2 ^ 31 - j))")
    (auto dest: order.strict_trans [OF _ main_lenth_le])

declare copy_gpio_cfg.simps [simp del]

definition script_parser_mainkey_get_gpio_cfg ::
  "str_lib \<Rightarrow> script_state \<Rightarrow> u8 list option \<Rightarrow> u64 \<Rightarrow> int \<Rightarrow> mem \<Rightarrow> int \<times> mem" where
  "script_parser_mainkey_get_gpio_cfg L st main_name gpio_cfg gpio_count m =
     (if script_mod_buf st = 0 then (SCRIPT_PARSER_EMPTY_BUFFER, m)
      else case main_name of None \<Rightarrow> (SCRIPT_PARSER_KEYNAME_NULL, m)
        | Some name \<Rightarrow>
          (case find (\<lambda>mk. str_at m mk (bkname_zeroed name)) (main_keys st) of
             None \<Rightarrow> (SCRIPT_PARSER_KEY_NOT_FIND, m)
           | Some mk \<Rightarrow>
             (SCRIPT_PARSER_OK, copy_gpio_cfg L (script_mod_buf st) mk gpio_cfg gpio_count 0 0 m)))"

text \<open>An implementation of the two string copies.\<close>

definition base_str_lib :: str_lib where
  "base_str_lib = \<lparr>AsciiStrCpyS = (\<lambda>d n s m. if length s < n then store_bytes m d (s @ [0]) else m),
     AsciiStrnCpyS = (\<lambda>n s k. take k s)\<rparr>"

lemma base_str_lib_law: "str_lib_law base_str_lib"
  by (simp add: str_lib_law_def base_str_lib_def)

end
