(* ===== verification/ScriptTable.thy ===== *)
theory ScriptTable
  imports Script
begin

text \<open>
  What the script parser of \<open>Script\<close> computes: the bytes of a script stand for a table from
  pairs of names to typed values. Fetching is a lookup in this table, patching replaces one entry
  and keeps the layout, and the two other readers agree with the parser.
\<close>

section \<open>The script as a table of typed values\<close>

text \<open>
  What the bytes mean: an association list from pairs of names to values, in the order of the
  tables. A string is all its words, a GPIO setting its six words.
\<close>

datatype script_value =
    Single_Word u32
  | String_Data "u8 list"
  | Multi_Word
  | Gpio_Word "u8 list"
  | Data_Empty
  | Unknown_Data

definition sk_value :: "u64 \<Rightarrow> mem \<Rightarrow> u64 \<Rightarrow> script_value" where
  "sk_value buf m sk =
     (let t = sk_type m sk; src = data_addr buf m sk in
      if t = TYPE_SINGLE_WORD then Single_Word (load32 m src)
      else if t = TYPE_STRING then String_Data (load_bytes m src (4 * unat (sk_words m sk)))
      else if t = TYPE_MULTI_WORD then Multi_Word
      else if t = TYPE_GPIO_WORD then Gpio_Word (load_bytes m src 24)
      else if t = TYPE_DATA_EMPTY then Data_Empty else Unknown_Data)"

definition script_keys :: "script_state \<Rightarrow> mem \<Rightarrow> (u64 \<times> u64) list" where
  "script_keys st m = concat (map (\<lambda>mk. map (Pair mk) (sub_keys st m mk)) (main_keys st))"

definition script_entry :: "script_state \<Rightarrow> mem \<Rightarrow> u64 \<times> u64 \<Rightarrow> (u8 list \<times> u8 list) \<times> script_value" where
  "script_entry st m k =
     ((mem_str m (fst k) 32, mem_str m (snd k) 32), sk_value (script_mod_buf st) m (snd k))"

definition script_view :: "script_state \<Rightarrow> mem \<Rightarrow> ((u8 list \<times> u8 list) \<times> script_value) list" where
  "script_view st m = map (script_entry st m) (script_keys st m)"

text \<open>How a value is handed to the caller, whose buffer has room for \<open>count\<close> words.\<close>

fun deliver :: "script_value \<Rightarrow> u8 list \<Rightarrow> u64 \<Rightarrow> nat \<Rightarrow> mem \<Rightarrow> int \<times> mem" where
  "deliver (Single_Word w) sub value count m = (SCRIPT_PARSER_OK, store32 m value w)"
| "deliver (String_Data bs) sub value count m = (SCRIPT_PARSER_OK, store_bytes m value (take (4 * count) bs))"
| "deliver (Gpio_Word bs) sub value count m =
     (if count < 14 then (SCRIPT_PARSER_BUFFER_NOT_ENOUGH, m)
      else (SCRIPT_PARSER_OK, store_bytes (store_bytes m value (sub @ [0])) (value + 32) bs))"
| "deliver Data_Empty sub value count m = (SCRIPT_PARSER_DATA_VALUE_NULL, m)"
| "deliver Multi_Word sub value count m = (SCRIPT_PARSER_OK, m)"
| "deliver Unknown_Data sub value count m = (SCRIPT_PARSER_OK, m)"

definition fetch_spec ::
  "((u8 list \<times> u8 list) \<times> script_value) list \<Rightarrow> u8 list \<Rightarrow> u8 list \<Rightarrow> u64 \<Rightarrow> nat \<Rightarrow> mem \<Rightarrow> int \<times> mem" where
  "fetch_spec view main sub value count m =
     (case map_of view (main, sub) of None \<Rightarrow> (SCRIPT_PARSER_KEY_NOT_FIND, m)
      | Some v \<Rightarrow> deliver v sub value count m)"

section \<open>Names, counts and searches\<close>

lemma test_str_length_from_eq: "len \<le> 32 \<Longrightarrow> 
   test_str_length_from len s = (if len + length s \<le> 32 then Suc (len + length s) else 32)"
  by (induction len s rule: test_str_length_from.induct) auto

lemma test_str_length_eq: "31 < test_str_length s \<longleftrightarrow> 31 \<le> length s"
  by (auto simp: test_str_length_def test_str_length_from_eq)

lemma bkname_cpys_eq: "str_lib_law L \<Longrightarrow> bkname_cpys L s = take 31 s"
  by (auto simp: bkname_cpys_def test_str_length_eq str_lib_law_def)

lemma bkname_zeroed_eq: "bkname_zeroed s = take 31 s"
  by (auto simp: bkname_zeroed_def test_str_length_eq)

lemma bkname_open_eq: "bkname_open stack s = (if length s < 31 then s else take 31 s @ stack)"
  by (auto simp: bkname_open_def test_str_length_eq)

lemma unat_shl2: "unat w < 2 ^ 29 \<Longrightarrow> unat (shl2 w) = 4 * unat w"
proof -
  assume w: "unat w < 2 ^ 29"
  have u: "unat (push_bit 2 w) = 4 * unat w"
    using w by (simp add: push_bit_eq_mult unat_word_ariths(2) mult.commute)
  then have "sint (push_bit 2 w) = int (unat (push_bit 2 w))"
    using w by (intro sint_small) simp
  then have "shl2 w = of_nat (unat (push_bit 2 w))"
    by (simp only: shl2_def scast_eq of_int_of_nat_eq)
  then show ?thesis
    using w unfolding u by (simp only: unat_of_nat take_bit_nat_eq_self) simp
qed

lemma sk_words_less: "unat (sk_words m sk) < 65536"
proof -
  have "sk_words m sk = take_bit 16 (load32 m (sk + 36))"
    by (simp add: sk_words_def take_bit_eq_mask mask_eq_exp_minus_1)
  then show ?thesis
    using take_bit_nat_less_exp [of 16 "unat (load32 m (sk + 36))"] by (simp add: unsigned_take_bit_eq)
qed

lemma map_of_map_find: "map_of (map f xs) k = map_option (\<lambda>x. snd (f x)) (find (\<lambda>x. fst (f x) = k) xs)"
  by (induction xs) auto

lemma find_map: "find P (map f xs) = map_option f (find (\<lambda>x. P (f x)) xs)"
  by (induction xs) auto

text \<open>The search loops are searches over all pairs of a main key and one of its sub keys.\<close>

lemma find_named_sub_keys:
  "find P (named_sub_keys st m main) =
     map_option snd (find (\<lambda>k. str_at m (fst k) main \<and> P (snd k)) (script_keys st m))"
proof -
  have "find P (concat (map S (filter Q ks))) =
      map_option snd (find (\<lambda>k. Q (fst k) \<and> P (snd k)) (concat (map (\<lambda>x. map (Pair x) (S x)) ks)))"
    for Q :: "u64 \<Rightarrow> bool" and S :: "u64 \<Rightarrow> u64 list" and ks
  proof (induction ks)
    case (Cons k ks)
    have "find (\<lambda>x. Q k \<and> P x) xs = (if Q k then find P xs else None)" for xs
      by (induction xs) auto
    with Cons show ?case by (auto simp: find_append find_map comp_def split: option.splits)
  qed simp
  then show ?thesis by (simp add: named_sub_keys_def script_keys_def)
qed

lemma map_of_view:
  assumes "0 \<notin> set main" "0 \<notin> set sub" "length main < 32" "length sub < 32"
  shows "map_of (script_view st m) (main, sub) =
    map_option (\<lambda>k. sk_value (script_mod_buf st) m (snd k))
      (find (\<lambda>k. str_at m (fst k) main \<and> str_at m (snd k) sub) (script_keys st m))"
  using assms by (simp add: script_view_def map_of_map_find script_entry_def str_at_mem_str)

lemma find_sub_key:
  assumes "0 \<notin> set main" "0 \<notin> set sub" "length main < 32" "length sub < 32"
  shows "map_option (sk_value (script_mod_buf st) m) (find (\<lambda>sk. str_at m sk sub) (named_sub_keys st m main)) =
    map_of (script_view st m) (main, sub)"
  using map_of_view [OF assms] by (simp add: find_named_sub_keys option.map_comp comp_def)

section \<open>Fetching\<close>

text \<open>The caller's buffer does not overlap the GPIO settings it is filled from.\<close>

definition out_clear :: "script_state \<Rightarrow> mem \<Rightarrow> u64 \<Rightarrow> bool" where
  "out_clear st m value \<longleftrightarrow>
     (\<forall>k \<in> set (script_keys st m). apart value 32 (data_addr (script_mod_buf st) m (snd k)) 24)"

lemma gpio_words_fit_iff: "unat count < 2 ^ 29 \<Longrightarrow> gpio_words_fit count \<longleftrightarrow> 14 \<le> unat count"
  using unat_shl2 [of count] by (auto simp: gpio_words_fit_def word_less_nat_alt)

lemma fetch_value_deliver:
  assumes L: "str_lib_law L" and sub: "length sub < 32" and count: "unat count < 2 ^ 29"
    and clear: "apart value 32 (data_addr buf m sk) 24"
  shows "fetch_value L buf sk sub value count m = deliver (sk_value buf m sk) sub value (unat count) m"
proof -
  have w: "unat (sk_words m sk) < 65536" by (rule sk_words_less)
  have "sint count = int (unat count)" by (rule sint_small) (use count in simp)
  moreover have "sint (sk_words m sk) = int (unat (sk_words m sk))" by (rule sint_small) (use w in simp)
  ultimately have "sint count < sint (sk_words m sk) \<longleftrightarrow> unat count < unat (sk_words m sk)"
    by (simp only: of_nat_less_iff)
  then have n: "unat (shl2 (if sint count < sint (sk_words m sk) then count else sk_words m sk)) =
      min (4 * unat count) (4 * unat (sk_words m sk))"
    using count w by (auto simp: unat_shl2)
  have "apart value (length (sub @ [0])) (data_addr buf m sk) 24"
    using clear sub by (auto simp: apart_def)
  then have g: "load_bytes (store_bytes m value (sub @ [0])) (data_addr buf m sk) 24 = load_bytes m (data_addr buf m sk) 24"
    by (rule load_store_other) simp
  show ?thesis
    using L sub count
    by (simp add: fetch_value_def sk_value_def Let_def n g take_load_bytes gpio_words_fit_iff str_lib_law_def
        not_less)
qed

lemma fetch_is_lookup:
  assumes "str_lib_law L" and "script_mod_buf st \<noteq> 0" and "0 < sint (script_main_key_count st)"
    and "0 \<notin> set main" and "0 \<notin> set sub" and "value \<noteq> 0" and "unat count < 2 ^ 29" and "out_clear st m value"
  shows "script_parser_fetch L st (Some main) (Some sub) value count m =
    fetch_spec (script_view st m) (take 31 main) (take 31 sub) value (unat count) m"
proof -
  let ?main = "take 31 main" and ?sub = "take 31 sub"
  have names: "0 \<notin> set ?main" "0 \<notin> set ?sub" "length ?main < 32" "length ?sub < 32"
    using assms(4,5) by (auto dest: in_set_takeD)
  note look = find_sub_key [OF names, of st m]
  show ?thesis
  proof (cases "find (\<lambda>sk. str_at m sk ?sub) (named_sub_keys st m ?main)")
    case None
    then show ?thesis using assms look by (simp add: script_parser_fetch_def fetch_spec_def bkname_cpys_eq)
  next
    case (Some sk)
    then have "sk \<in> set (named_sub_keys st m ?main)" by (auto simp: find_Some_iff)
    then have "apart value 32 (data_addr (script_mod_buf st) m sk) 24"
      using assms(8) by (auto simp: named_sub_keys_def script_keys_def out_clear_def)
    then show ?thesis
      using Some assms look fetch_value_deliver [of L ?sub count "value" "script_mod_buf st" m sk]
      by (simp add: script_parser_fetch_def fetch_spec_def bkname_cpys_eq flip: look)
  qed
qed

text \<open>
  C6: fetching a value is a lookup in the table the script stands for. With a script in place, the
  first entry for the two names (cut to 31 bytes) is delivered according to its type, a missing
  entry is reported, and nothing but the caller's buffer changes.
\<close>

theorem script_fetch_refines:
  assumes "str_lib_law L" and "script_mod_buf st \<noteq> 0" and "0 < sint (script_main_key_count st)"
    and "0 \<notin> set main" and "0 \<notin> set sub" and "value \<noteq> 0" and "unat count < 2 ^ 29" and "out_clear st m value"
  shows "script_parser_fetch L st (Some main) (Some sub) value count m =
    fetch_spec (script_view st m) (take 31 main) (take 31 sub) value (unat count) m"
  using assms by (rule fetch_is_lookup)

section \<open>Patching\<close>

text \<open>
  Bytes of a value, and a script whose values lie apart from its tables and from each other. The
  patch keeps this layout.
\<close>

definition data_size :: "mem \<Rightarrow> u64 \<Rightarrow> nat" where
  "data_size m sk =
     (let t = sk_type m sk in
      if t = TYPE_SINGLE_WORD then 4 else if t = TYPE_STRING then 4 * unat (sk_words m sk)
      else if t = TYPE_GPIO_WORD then 24 else 0)"

definition tables_apart :: "script_state \<Rightarrow> mem \<Rightarrow> u64 \<Rightarrow> nat \<Rightarrow> bool" where
  "tables_apart st m a n \<longleftrightarrow>
     (\<forall>mk \<in> set (main_keys st). apart a n mk 40) \<and> (\<forall>k \<in> set (script_keys st m). apart a n (snd k) 40)"

definition script_layout :: "script_state \<Rightarrow> mem \<Rightarrow> bool" where
  "script_layout st m \<longleftrightarrow>
     (let ks = script_keys st m; D = (\<lambda>i. data_addr (script_mod_buf st) m (snd (ks ! i)));
          N = (\<lambda>i. data_size m (snd (ks ! i)))
      in (\<forall>i < length ks. tables_apart st m (D i) (N i) \<and>
            (\<forall>j < length ks. i \<noteq> j \<longrightarrow> apart (D i) (N i) (D j) (N j))))"

fun patched :: "mem \<Rightarrow> u64 \<Rightarrow> nat \<Rightarrow> script_value \<Rightarrow> script_value" where
  "patched m str n (Single_Word w) = Single_Word (load32 m str)"
| "patched m str n (Gpio_Word bs) = Gpio_Word (load_bytes m (str + 32) 24)"
| "patched m str n (String_Data bs) =
     String_Data (load_bytes m str (min (4 * n) (length bs)) @ drop (4 * n) bs)"
| "patched m str n v = v"

definition patchable :: "script_value \<Rightarrow> bool" where
  "patchable v \<longleftrightarrow> (case v of Single_Word _ \<Rightarrow> True | Gpio_Word _ \<Rightarrow> True | String_Data _ \<Rightarrow> True | _ \<Rightarrow> False)"

text \<open>Two memories with the same tables.\<close>

definition same_tables :: "script_state \<Rightarrow> mem \<Rightarrow> mem \<Rightarrow> bool" where
  "same_tables st m m' \<longleftrightarrow>
     (\<forall>mk \<in> set (main_keys st). load_bytes m' mk 40 = load_bytes m mk 40) \<and>
     (\<forall>k \<in> set (script_keys st m). load_bytes m' (snd k) 40 = load_bytes m (snd k) 40)"

lemma load_bytes_sub:
  assumes "load_bytes m' a 40 = load_bytes m a 40" and "i + n \<le> 40"
  shows "load_bytes m' (a + of_nat i) n = load_bytes m (a + of_nat i) n"
proof (rule nth_equalityI)
  fix j assume "j < length (load_bytes m' (a + of_nat i) n)"
  then have "i + j < 40" using assms(2) by simp
  then have "m' (a + of_nat (i + j)) = m (a + of_nat (i + j))"
    using assms(1) by (metis nth_load_bytes)
  then show "load_bytes m' (a + of_nat i) n ! j = load_bytes m (a + of_nat i) n ! j"
    using \<open>j < _\<close> by (simp add: add.assoc)
qed simp

lemma entry_fields:
  assumes "load_bytes m' a 40 = load_bytes m a 40"
  shows "mem_str m' a 32 = mem_str m a 32" "load32 m' (a + 32) = load32 m (a + 32)"
    "load32 m' (a + 36) = load32 m (a + 36)"
  using load_bytes_sub [OF assms, of 0 32] load_bytes_sub [OF assms, of 32 4] load_bytes_sub [OF assms, of 36 4]
  by (simp_all add: mem_str_def load32_def)

lemma same_tables_keys:
  assumes "same_tables st m m'"
  shows "script_keys st m' = script_keys st m"
proof -
  have "sub_keys st m' mk = sub_keys st m mk" if "mk \<in> set (main_keys st)" for mk
    using entry_fields [of m' mk m] assms that
    by (simp add: same_tables_def sub_keys_def main_lenth_def sub_key_addr_def)
  then show ?thesis by (auto simp: script_keys_def intro!: arg_cong [where f = concat])
qed

lemma same_tables_sub:
  assumes "same_tables st m m'" and "k \<in> set (script_keys st m)"
  shows "mem_str m' (fst k) 32 = mem_str m (fst k) 32" "mem_str m' (snd k) 32 = mem_str m (snd k) 32"
    "sk_type m' (snd k) = sk_type m (snd k)" "sk_words m' (snd k) = sk_words m (snd k)"
    "data_addr buf m' (snd k) = data_addr buf m (snd k)" "data_size m' (snd k) = data_size m (snd k)"
proof -
  have "fst k \<in> set (main_keys st)" using assms(2) by (auto simp: script_keys_def)
  then have e: "load_bytes m' (fst k) 40 = load_bytes m (fst k) 40" "load_bytes m' (snd k) 40 = load_bytes m (snd k) 40"
    using assms by (auto simp: same_tables_def)
  show "mem_str m' (fst k) 32 = mem_str m (fst k) 32" "mem_str m' (snd k) 32 = mem_str m (snd k) 32"
    using e entry_fields(1) by blast+
  show t: "sk_type m' (snd k) = sk_type m (snd k)" and w: "sk_words m' (snd k) = sk_words m (snd k)"
    and "data_addr buf m' (snd k) = data_addr buf m (snd k)"
    using entry_fields(2,3) [OF e(2)] by (simp_all add: sk_type_def sk_words_def data_addr_def)
  show "data_size m' (snd k) = data_size m (snd k)" unfolding data_size_def t w ..
qed

lemma same_tables_layout:
  assumes "same_tables st m m'"
  shows "script_layout st m' = script_layout st m"
proof -
  note keys = same_tables_keys [OF assms]
  have "tables_apart st m' a n = tables_apart st m a n" for a n by (simp add: tables_apart_def keys)
  moreover have "data_addr (script_mod_buf st) m' (snd (script_keys st m ! i)) = data_addr (script_mod_buf st) m (snd (script_keys st m ! i))"
    "data_size m' (snd (script_keys st m ! i)) = data_size m (snd (script_keys st m ! i))"
    if "i < length (script_keys st m)" for i
    using same_tables_sub(5,6) [OF assms nth_mem [OF that]] by simp_all
  ultimately show ?thesis by (simp add: script_layout_def keys Let_def)
qed

lemma load_store_prefix:
  assumes "length bs \<le> n" and "n < 2 ^ 64"
  shows "load_bytes (store_bytes m a bs) a n = bs @ drop (length bs) (load_bytes m a n)"
proof (rule nth_equalityI)
  fix i assume "i < length (load_bytes (store_bytes m a bs) a n)"
  moreover from this assms have "unat (of_nat i :: u64) = i"
    by (simp add: unat_of_nat take_bit_nat_eq_self)
  ultimately show "load_bytes (store_bytes m a bs) a n ! i = (bs @ drop (length bs) (load_bytes m a n)) ! i"
    by (simp add: store_bytes_def nth_append)
qed (use assms in simp)

lemma drop_min_load [simp]: "drop (min k n) (load_bytes m a n) = drop k (load_bytes m a n)"
  by (cases "k \<le> n") auto

lemma same_tables_store:
  assumes "tables_apart st m a n" and "length bs \<le> n"
  shows "same_tables st m (store_bytes m a bs)"
proof -
  have "apart a (length bs) b 40" if "apart a n b 40" for b
    using that assms(2) by (auto simp: apart_def)
  then show ?thesis
    using assms(1) by (auto simp: same_tables_def tables_apart_def intro!: load_store_other)
qed

text \<open>A store of at most the size of one value keeps the tables and every other value.\<close>

lemma store_in_value:
  assumes lay: "script_layout st m" and i: "i < length (script_keys st m)"
  defines "a \<equiv> data_addr (script_mod_buf st) m (snd (script_keys st m ! i))"
  assumes len: "length bs \<le> data_size m (snd (script_keys st m ! i))"
  shows "same_tables st m (store_bytes m a bs)"
    and "\<And>j. j < length (script_keys st m) \<Longrightarrow> j \<noteq> i \<Longrightarrow>
      script_entry st (store_bytes m a bs) (script_keys st m ! j) = script_entry st m (script_keys st m ! j)"
proof -
  let ?ks = "script_keys st m" and ?m = "store_bytes m a bs"
  have "tables_apart st m a (data_size m (snd (?ks ! i)))"
    using lay i by (simp add: script_layout_def Let_def a_def)
  then show st: "same_tables st m ?m" by (rule same_tables_store) (rule len)
  fix j assume j: "j < length ?ks" "j \<noteq> i"
  let ?sk = "snd (?ks ! j)"
  note tab = same_tables_sub [OF st nth_mem [OF j(1)]]
  have "apart a (data_size m (snd (?ks ! i))) (data_addr (script_mod_buf st) m ?sk) (data_size m ?sk)"
    using lay i j by (auto simp: script_layout_def Let_def a_def)
  then have ap: "apart a (length bs) (data_addr (script_mod_buf st) m ?sk) (data_size m ?sk)"
    using len by (auto simp: apart_def)
  have "data_size m ?sk \<le> 2 ^ 64"
    using sk_words_less [of m ?sk] by (simp add: data_size_def Let_def)
  note other = load_store_other [OF ap this]
  show "script_entry st ?m (?ks ! j) = script_entry st m (?ks ! j)"
    using other tab by (auto simp: script_entry_def sk_value_def data_size_def Let_def load32_def)
qed

lemma patch_value_at:
  fixes str :: u64
  assumes lay: "script_layout st m" and i: "i < length (script_keys st m)" and n: "unat str_size < 2 ^ 29"
  defines "sk \<equiv> snd (script_keys st m ! i)"
  assumes v: "patchable (sk_value (script_mod_buf st) m sk)"
  defines "m' \<equiv> patch_value (script_mod_buf st) sk str str_size m"
  shows "same_tables st m m' \<and>
    script_view st m' = (script_view st m)[i :=
      (fst (script_view st m ! i), patched m str (unat str_size) (sk_value (script_mod_buf st) m sk))]"
proof -
  let ?ks = "script_keys st m" and ?a = "data_addr (script_mod_buf st) m sk"
  have w: "unat (sk_words m sk) < 65536" by (rule sk_words_less)
  have "sint str_size = int (unat str_size)" by (rule sint_small) (use n in simp)
  moreover have "sint (sk_words m sk) = int (unat (sk_words m sk))" by (rule sint_small) (use w in simp)
  ultimately have "sint (sk_words m sk) < sint str_size \<longleftrightarrow> unat (sk_words m sk) < unat str_size"
    by (simp only: of_nat_less_iff)
  then have k: "unat (shl2 (if sint (sk_words m sk) < sint str_size then sk_words m sk else str_size)) =
      min (4 * unat str_size) (4 * unat (sk_words m sk))"
    using n w by (auto simp: unat_shl2)
  obtain bs where bs: "m' = store_bytes m ?a bs" "length bs \<le> data_size m sk"
    and val: "(sk_type m sk = 1 \<longrightarrow> bs = le32 (load32 m str)) \<and> (sk_type m sk = 4 \<longrightarrow> bs = load_bytes m (str + 32) 24) \<and>
      (sk_type m sk = 2 \<longrightarrow> bs = load_bytes m str (min (4 * unat str_size) (4 * unat (sk_words m sk))))"
    using v k unfolding m'_def patch_value_def Let_def store32_def
    by (auto simp: patchable_def sk_value_def data_size_def Let_def split: if_splits)
  note upd = store_in_value [OF lay i bs(2) [unfolded sk_def]]
  have st: "same_tables st m m'" using upd(1) bs(1) sk_def by simp
  note tab = same_tables_sub [OF st nth_mem [OF i], folded sk_def]
  have "sk_value (script_mod_buf st) m' sk = patched m str (unat str_size) (sk_value (script_mod_buf st) m sk)"
  proof -
    have "load_bytes m' ?a (data_size m sk) = bs @ drop (length bs) (load_bytes m ?a (data_size m sk))"
      using load_store_prefix [OF bs(2)] w bs(1) by (simp add: data_size_def Let_def)
    then show ?thesis
      using v val tab by (auto simp: sk_value_def patchable_def data_size_def Let_def load32_def pack_le32 split: if_splits)
  qed
  then have "script_entry st m' (?ks ! i) = (fst (script_view st m ! i), patched m str (unat str_size) (sk_value (script_mod_buf st) m sk))"
    using tab i by (simp add: script_view_def script_entry_def sk_def)
  moreover have "script_entry st m' (?ks ! j) = script_entry st m (?ks ! j)" if "j < length ?ks" "j \<noteq> i" for j
    using upd(2) [OF that] bs(1) by (simp add: sk_def)
  ultimately have "script_view st m' = (script_view st m)[i :=
      (fst (script_view st m ! i), patched m str (unat str_size) (sk_value (script_mod_buf st) m sk))]"
    using i by (intro nth_equalityI) (auto simp: script_view_def same_tables_keys [OF st] nth_list_update)
  with st show ?thesis by simp
qed

lemma map_of_update_first:
  assumes "i < length xs" and "fst (xs ! i) = k" and "\<forall>j < i. fst (xs ! j) \<noteq> k"
  shows "map_of (xs[i := (k, v)]) = (map_of xs)(k \<mapsto> v)"
  using assms
proof (induction xs arbitrary: i)
  case (Cons x xs)
  show ?case
  proof (cases i)
    case 0
    then show ?thesis using Cons.prems by (cases x) (simp add: fun_eq_iff)
  next
    case (Suc i')
    with Cons.prems have "map_of (xs[i' := (k, v)]) = (map_of xs)(k \<mapsto> v)" by (intro Cons.IH) auto
    moreover have "fst x \<noteq> k" using Cons.prems(3) Suc by auto
    ultimately show ?thesis using Suc by (cases x) (auto simp: fun_eq_iff)
  qed
qed simp

lemma find_restrict: "find P xs = Some x \<Longrightarrow> Q x \<Longrightarrow> find (\<lambda>x. P x \<and> Q x) xs = Some x"
  by (induction xs) (auto split: if_splits)

lemma find_nth:
  "find P xs = Some x \<Longrightarrow> \<exists>i < length xs. xs ! i = x \<and> P x \<and> (\<forall>j < i. \<not> P (xs ! j))"
  by (auto simp: find_Some_iff)

lemma patchable_type:
  "patchable (sk_value buf m sk) \<longleftrightarrow> sk_type m sk \<in> {TYPE_SINGLE_WORD, TYPE_GPIO_WORD, TYPE_STRING}"
  by (auto simp: patchable_def sk_value_def Let_def)

lemma patch_updates_table:
  assumes "script_mod_buf st \<noteq> 0" and "str \<noteq> 0" and "unat str_size < 2 ^ 29"
    and "0 \<notin> set main" "0 \<notin> set sub" "length main < 31" "length sub < 31"
    and lay: "script_layout st m" and v: "map_of (script_view st m) (main, sub) = Some v" "patchable v"
  shows "\<exists>m'. script_parser_patch stack1 stack2 st (Some main) (Some sub) str str_size m = (SCRIPT_PARSER_OK, m') \<and>
    map_of (script_view st m') = (map_of (script_view st m))((main, sub) \<mapsto> patched m str (unat str_size) v) \<and>
    script_layout st m'"
proof -
  let ?P = "\<lambda>k. str_at m (fst k) main \<and> str_at m (snd k) sub" and ?ks = "script_keys st m" and ?vw = "script_view st m"
  have names: "0 \<notin> set main" "0 \<notin> set sub" "length main < 32" "length sub < 32" using assms by auto
  obtain k where k: "find ?P ?ks = Some k" "v = sk_value (script_mod_buf st) m (snd k)"
    using v(1) map_of_view [OF names, of st m] by auto
  then obtain i where i: "i < length ?ks" "?ks ! i = k" "?P k" "\<forall>j < i. \<not> ?P (?ks ! j)"
    using find_nth [OF k(1)] by auto
  let ?m = "patch_value (script_mod_buf st) (snd k) str str_size m"
  have "sk_type m (snd k) \<in> {1, 4, 2}" using v(2) unfolding k(2) patchable_type .
  from find_restrict [OF k(1), where Q = "\<lambda>x. sk_type m (snd x) \<in> {1, 4, 2}", OF this]
  have "find (\<lambda>x. str_at m (fst x) main \<and> str_at m (snd x) sub \<and> sk_type m (snd x) \<in> {1, 4, 2}) ?ks = Some k"
    by (simp only: conj_assoc)
  then have run: "script_parser_patch stack1 stack2 st (Some main) (Some sub) str str_size m = (SCRIPT_PARSER_OK, ?m)"
    using assms(1,2,6,7) by (simp add: script_parser_patch_def bkname_open_eq find_named_sub_keys)
  have keyp: "fst (?vw ! j) = (main, sub) \<longleftrightarrow> ?P (?ks ! j)" if "j < length ?ks" for j
    using that names by (simp add: script_view_def script_entry_def str_at_mem_str)
  have vi: "fst (?vw ! i) = (main, sub)" using keyp i by blast
  have "same_tables st m ?m" and "script_view st ?m = ?vw[i := ((main, sub), patched m str (unat str_size) v)]"
    using patch_value_at [OF lay i(1) assms(3)] v(2) k(2) i(2) vi by simp_all
  moreover have "map_of (?vw[i := ((main, sub), patched m str (unat str_size) v)]) =
      (map_of ?vw)((main, sub) \<mapsto> patched m str (unat str_size) v)"
    by (rule map_of_update_first) (use i vi keyp in \<open>auto simp: script_view_def\<close>)
  ultimately show ?thesis using run lay same_tables_layout by auto
qed

text \<open>
  C8: patching a value and fetching afterwards. In a script whose values lie apart, patching an
  entry of a patchable type succeeds, keeps the layout, and every later fetch delivers what the
  table with this one entry replaced says: the new value for the patched names, the old value
  for all others. A shorter string keeps the tail of the old one.
\<close>

theorem script_patch_fetch:
  assumes "str_lib_law L" and "script_mod_buf st \<noteq> 0" and "str \<noteq> 0" and "unat str_size < 2 ^ 29"
    and "0 \<notin> set main" "0 \<notin> set sub" "length main < 31" "length sub < 31"
    and "script_layout st m" and "map_of (script_view st m) (main, sub) = Some v" "patchable v"
  shows "\<exists>m'. script_parser_patch stack1 stack2 st (Some main) (Some sub) str str_size m = (SCRIPT_PARSER_OK, m') \<and>
    script_layout st m' \<and>
    (\<forall>main' sub' value count.
       0 \<notin> set main' \<and> 0 \<notin> set sub' \<and> value \<noteq> 0 \<and> unat count < 2 ^ 29 \<and> out_clear st m' value \<longrightarrow>
       script_parser_fetch L st (Some main') (Some sub') value count m' =
         (case ((map_of (script_view st m))((main, sub) \<mapsto> patched m str (unat str_size) v)) (take 31 main', take 31 sub') of
            None \<Rightarrow> (SCRIPT_PARSER_KEY_NOT_FIND, m') | Some w \<Rightarrow> deliver w (take 31 sub') value (unat count) m'))"
proof -
  have "main_keys st \<noteq> []" using assms(10) by (auto simp: script_view_def script_keys_def)
  then have n: "0 < sint (script_main_key_count st)" by (auto simp: main_keys_def)
  obtain m' where m': "script_parser_patch stack1 stack2 st (Some main) (Some sub) str str_size m = (SCRIPT_PARSER_OK, m')"
      "map_of (script_view st m') = (map_of (script_view st m))((main, sub) \<mapsto> patched m str (unat str_size) v)"
      "script_layout st m'"
    using patch_updates_table [OF assms(2-11)] by blast
  have "script_parser_fetch L st (Some main') (Some sub') value count m' =
      (case map_of (script_view st m') (take 31 main', take 31 sub') of
         None \<Rightarrow> (SCRIPT_PARSER_KEY_NOT_FIND, m') | Some w \<Rightarrow> deliver w (take 31 sub') value (unat count) m')"
    if "0 \<notin> set main' \<and> 0 \<notin> set sub' \<and> value \<noteq> 0 \<and> unat count < 2 ^ 29 \<and> out_clear st m' value"
    for main' sub' "value" count
    using fetch_is_lookup [OF assms(1,2) n] that by (simp add: fetch_spec_def)
  then show ?thesis using m' by auto
qed

section \<open>Every sequence of patches keeps the tables\<close>

text \<open>
  The script while the firmware runs: patches with arbitrary arguments, and stores of other code
  that stay clear of the script.
\<close>

inductive script_run :: "script_state \<Rightarrow> mem \<Rightarrow> mem \<Rightarrow> bool" for st m0 where
  run_start: "script_run st m0 m0"
| run_patch: "script_run st m0 m \<Longrightarrow> unat str_size < 2 ^ 29 \<Longrightarrow>
    script_parser_patch stack1 stack2 st main_name sub_name str str_size m = (r, m') \<Longrightarrow> script_run st m0 m'"
| run_other: "script_run st m0 m \<Longrightarrow> tables_apart st m a (length bs) \<Longrightarrow> script_run st m0 (store_bytes m a bs)"

lemma same_tables_trans:
  assumes "same_tables st m0 m" and "same_tables st m m'"
  shows "same_tables st m0 m'"
  using assms same_tables_keys [OF assms(1)] by (auto simp: same_tables_def)

lemma patch_same_tables:
  assumes lay: "script_layout st m" and n: "unat str_size < 2 ^ 29"
    and run: "script_parser_patch stack1 stack2 st main_name sub_name str str_size m = (r, m')"
  shows "same_tables st m m'"
proof (cases "m' = m")
  case True
  then show ?thesis by (simp add: same_tables_def)
next
  case False
  with run obtain main sub sk where
      f: "find (\<lambda>sk. str_at m sk sub \<and> sk_type m sk \<in> {TYPE_SINGLE_WORD, TYPE_GPIO_WORD, TYPE_STRING})
        (named_sub_keys st m main) = Some sk"
    and m': "m' = patch_value (script_mod_buf st) sk str str_size m"
    by (auto simp: script_parser_patch_def Let_def split: if_splits option.splits)
  then have "patchable (sk_value (script_mod_buf st) m sk)" by (auto simp: find_Some_iff patchable_type)
  moreover from f obtain k where k: "find (\<lambda>k. str_at m (fst k) main \<and> str_at m (snd k) sub \<and>
      sk_type m (snd k) \<in> {TYPE_SINGLE_WORD, TYPE_GPIO_WORD, TYPE_STRING}) (script_keys st m) = Some k" "snd k = sk"
    by (auto simp only: find_named_sub_keys map_option_eq_Some)
  obtain i where "i < length (script_keys st m)" "snd (script_keys st m ! i) = sk"
    using find_nth [OF k(1)] k(2) by (elim exE conjE) simp
  ultimately show ?thesis using patch_value_at [OF lay _ n] m' by blast
qed

text \<open>
  C7: whatever is patched, and in whatever order, the tables of a script whose values lie apart
  keep every byte: the same names with the same types at the same places, and values that still
  lie apart.
\<close>

theorem script_tables_invariant:
  assumes "script_run st m0 m" and "script_layout st m0"
  shows "script_layout st m \<and> same_tables st m0 m \<and>
    map fst (script_view st m) = map fst (script_view st m0)"
proof -
  from assms have inv: "script_layout st m \<and> same_tables st m0 m"
  proof induction
    case run_start
    then show ?case by (simp add: same_tables_def)
  next
    case (run_patch m str_size stack1 stack2 main_name sub_name str r m')
    then have "same_tables st m m'" using patch_same_tables by blast
    then show ?case using run_patch same_tables_trans same_tables_layout by blast
  next
    case (run_other m a bs)
    then have "same_tables st m (store_bytes m a bs)" by (intro same_tables_store) auto
    then show ?case using run_other same_tables_trans same_tables_layout by blast
  qed
  then have st: "same_tables st m0 m" by simp
  have "fst (script_entry st m k) = fst (script_entry st m0 k)" if "k \<in> set (script_keys st m0)" for k
    using same_tables_sub(1,2) [OF st that] by (simp add: script_entry_def)
  with inv show ?thesis by (auto simp: script_view_def same_tables_keys)
qed

section \<open>A sample script\<close>

text \<open>
  One main key \<open>pmu0\<close> with two words, at address 4096.
\<close>

definition demo_mem :: mem where
  "demo_mem = (\<lambda>_. 0)(
     0x1000 := 1, 0x1010 := 112, 0x1011 := 109, 0x1012 := 117, 0x1013 := 48, 0x1030 := 2,
     0x1034 := 14, 0x1038 := 99, 0x1039 := 104, 0x103a := 103, 0x103b := 99, 0x103c := 117,
     0x103d := 114, 0x1058 := 34, 0x105c := 1, 0x105e := 1, 0x1060 := 118, 0x1061 := 111,
     0x1062 := 108, 0x1080 := 35, 0x1084 := 1, 0x1086 := 1, 0x1088 := 194, 0x1089 := 1,
     0x108c := 228, 0x108d := 12)"

definition demo_state :: script_state where
  "demo_state = \<lparr>script_mod_buf = 0x1000, script_main_key_count = 1\<rparr>"


lemma demo_words:
  "load32 demo_mem 0x1000 = 1" "load32 demo_mem 0x1030 = 2" "load32 demo_mem 0x1034 = 14"
  "load32 demo_mem 0x1058 = 34" "load32 demo_mem 0x105c = 0x10001"
  "load32 demo_mem 0x1080 = 35" "load32 demo_mem 0x1084 = 0x10001"
  "load32 demo_mem 0x1088 = 450" "load32 demo_mem 0x108c = 3300"
  by (simp_all add: load32_def load_bytes_Suc load_bytes_eval demo_mem_def)

lemma demo_keys: "script_keys demo_state demo_mem = [(0x1010, 0x1038), (0x1010, 0x1060)]"
  by (simp add: script_keys_def demo_state_def main_keys_def sub_keys_def main_lenth_def main_key_addr_def
      sub_key_addr_def shl2_def demo_words upto_rec1)

lemma demo_names:
  "mem_str demo_mem 0x1010 32 = map of_char ''pmu0''" "mem_str demo_mem 0x1038 32 = map of_char ''chgcur''"
  "mem_str demo_mem 0x1060 32 = map of_char ''vol''"
  by (simp_all add: mem_str_def load_bytes_Suc load_bytes_eval demo_mem_def)

lemma demo_sel [simp]: "script_mod_buf demo_state = 0x1000" "script_main_key_count demo_state = 1"
  by (simp_all add: demo_state_def)

lemma demo_view:
  "script_view demo_state demo_mem =
     [((map of_char ''pmu0'', map of_char ''chgcur''), Single_Word 450),
      ((map of_char ''pmu0'', map of_char ''vol''), Single_Word 3300)]"
  by (simp add: script_view_def demo_keys script_entry_def demo_names sk_value_def sk_type_def data_addr_def
      shl2_def demo_words)

lemma demo_layout: "script_layout demo_state demo_mem"
proof -
  have two: "(\<forall>i < Suc (Suc 0). P i) \<longleftrightarrow> P 0 \<and> P (Suc 0)" for P :: "nat \<Rightarrow> bool" by (auto simp: less_Suc_eq)
  have mk: "main_keys demo_state = [0x1010]"
    by (simp add: main_keys_def main_key_addr_def)
  have val: "data_addr 0x1000 demo_mem 0x1038 = 0x1088" "data_size demo_mem 0x1038 = 4"
    "data_addr 0x1000 demo_mem 0x1060 = 0x108c" "data_size demo_mem 0x1060 = 4"
    by (simp_all add: data_addr_def data_size_def sk_type_def shl2_def demo_words)
  show ?thesis
    by (simp add: script_layout_def demo_keys Let_def tables_apart_def mk val two apart_def)
qed

lemma demo_clear: "out_clear demo_state demo_mem 0x9000"
  by (simp add: out_clear_def demo_keys data_addr_def shl2_def demo_words apart_def)

theorem script_fetch_refines_witness:
  "script_parser_fetch base_str_lib demo_state (Some (map of_char ''pmu0'')) (Some (map of_char ''chgcur'')) 0x9000 1 demo_mem =
     (0, store32 demo_mem 0x9000 450)"
  using script_fetch_refines [OF base_str_lib_law, of demo_state "map of_char ''pmu0''" "map of_char ''chgcur''" "0x9000" 1 demo_mem]
    demo_clear
  by (simp add: fetch_spec_def demo_view)

text \<open>Patching the charge current with the voltage, and fetching it.\<close>

theorem script_patch_fetch_witness:
  "\<exists>m'. script_parser_patch [] [] demo_state (Some (map of_char ''pmu0'')) (Some (map of_char ''chgcur'')) 0x108c 1 demo_mem = (0, m') \<and>
     script_layout demo_state m' \<and>
     (out_clear demo_state m' 0x9000 \<longrightarrow>
      script_parser_fetch base_str_lib demo_state (Some (map of_char ''pmu0'')) (Some (map of_char ''chgcur'')) 0x9000 1 m' =
        (0, store32 m' 0x9000 3300) \<and>
      script_parser_fetch base_str_lib demo_state (Some (map of_char ''pmu0'')) (Some (map of_char ''vol'')) 0x9000 1 m' =
        (0, store32 m' 0x9000 3300))"
proof -
  let ?pmu = "map of_char ''pmu0'' :: u8 list" and ?cur = "map of_char ''chgcur'' :: u8 list"
    and ?vol = "map of_char ''vol'' :: u8 list"
  have v: "map_of (script_view demo_state demo_mem) (?pmu, ?cur) = Some (Single_Word 450)"
    by (simp add: demo_view)
  obtain m' where m': "script_parser_patch [] [] demo_state (Some ?pmu) (Some ?cur) 0x108c 1 demo_mem = (0, m')"
      "script_layout demo_state m'"
      and f: "\<And>sub. 0 \<notin> set sub \<Longrightarrow> out_clear demo_state m' 0x9000 \<Longrightarrow>
        script_parser_fetch base_str_lib demo_state (Some ?pmu) (Some sub) 0x9000 1 m' =
         (case ((map_of (script_view demo_state demo_mem))((?pmu, ?cur) \<mapsto> patched demo_mem 0x108c (unat (1 :: u32)) (Single_Word 450)))
             (take 31 ?pmu, take 31 sub) of
            None \<Rightarrow> (-4, m') | Some w \<Rightarrow> deliver w (take 31 sub) 0x9000 (unat (1 :: u32)) m')"
    using script_patch_fetch [OF base_str_lib_law _ _ _ _ _ _ _ demo_layout v, of "0x108c" 1 "[]" "[]"]
    by (auto simp: patchable_def)
  show ?thesis
    using m' f [of ?cur] f [of ?vol] by (intro exI [of _ m']) (simp add: demo_view demo_words)
qed


theorem script_tables_invariant_witness:
  "script_run demo_state demo_mem (store_bytes (store32 demo_mem 0x1088 3300) 0x9000 [7]) \<and>
   script_layout demo_state (store_bytes (store32 demo_mem 0x1088 3300) 0x9000 [7])"
proof -
  let ?pmu = "map of_char ''pmu0'' :: u8 list" and ?cur = "map of_char ''chgcur'' :: u8 list"
  let ?m = "store32 demo_mem 0x1088 3300"
  have "str_at demo_mem 0x1010 ?pmu" "str_at demo_mem 0x1038 ?cur"
    using demo_names str_at_mem_str [of ?pmu 32 demo_mem "0x1010"] str_at_mem_str [of ?cur 32 demo_mem "0x1038"]
    by (simp_all del: str_at.simps)
  then have p: "script_parser_patch [] [] demo_state (Some ?pmu) (Some ?cur) 0x108c 1 demo_mem = (0, ?m)"
    by (simp add: script_parser_patch_def bkname_open_eq find_named_sub_keys demo_keys patch_value_def sk_type_def
        data_addr_def shl2_def demo_words del: str_at.simps)
  have "script_keys demo_state ?m = [(0x1010, 0x1038), (0x1010, 0x1060)]"
    using same_tables_keys [OF patch_same_tables [OF demo_layout _ p]] demo_keys by simp
  then have "tables_apart demo_state ?m 0x9000 (length [7])"
    by (simp add: tables_apart_def main_keys_def main_key_addr_def apart_def)
  then have "script_run demo_state demo_mem (store_bytes ?m 0x9000 [7])"
    by (intro run_other run_patch [OF run_start _ p]) simp_all
  then show ?thesis using script_tables_invariant [OF _ demo_layout] by blast
qed

section \<open>The other readers\<close>

text \<open>
  \<open>script_parser_fetch_ex\<close> is \<open>script_parser_fetch\<close> with the type in addition: same memory, and
  the same status except for empty data, which only \<open>script_parser_fetch\<close> reports. The type is
  assigned exactly when a value of a known type was delivered.
\<close>

theorem fetch_ex_agrees:
  "script_parser_fetch L st main_name sub_name value count m =
     (case script_parser_fetch_ex L st main_name sub_name value count m of (r, t, m') \<Rightarrow>
        (if r = SCRIPT_PARSER_OK \<and> t = None \<and>
            (\<exists>main sub sk. main_name = Some main \<and> sub_name = Some sub \<and>
               find (\<lambda>sk. str_at m sk (bkname_cpys L sub)) (named_sub_keys st m (bkname_cpys L main)) = Some sk \<and>
               sk_type m sk = TYPE_DATA_EMPTY)
         then SCRIPT_PARSER_DATA_VALUE_NULL else r, m'))"
  by (auto simp: script_parser_fetch_def script_parser_fetch_ex_def fetch_value_def fetch_value_ex_def Let_def
      split: option.splits)

lemma main_keys_nat: "main_keys st = map (\<lambda>i. script_mod_buf st + 16 + of_nat (40 * i)) [0..<nat (sint (script_main_key_count st))]"
proof -
  have "map f [0..int n - 1] = map (\<lambda>i. f (int i)) [0..<n]" for f :: "int \<Rightarrow> u64" and n
    by (induction n) (simp_all add: upto_rec2)
  note this [of "main_key_addr (script_mod_buf st)" "nat (sint (script_main_key_count st))"]
  then show ?thesis
    by (cases "0 \<le> sint (script_main_key_count st)") (simp_all add: main_keys_def main_key_addr_def)
qed

lemma get_subkey_stuck:
  "str_at m mk main \<Longrightarrow> find (\<lambda>sk. str_at m sk sub) (map (sub_key_addr buf m mk) [0..main_lenth m mk - 1]) = None \<Longrightarrow>
   sw_cfg_get_subkey_from buf m main sub n mk = None"
  by (induction n) simp_all

lemma get_subkey_from_search:
  assumes "\<forall>i < n. \<forall>j < n. str_at m (mk + of_nat (40 * i)) main \<and> str_at m (mk + of_nat (40 * j)) main \<longrightarrow> i = j"
  shows "sw_cfg_get_subkey_from buf m main sub n mk =
    find (\<lambda>sk. str_at m sk sub) (concat (map (\<lambda>k. map (sub_key_addr buf m k) [0..main_lenth m k - 1])
      (filter (\<lambda>k. str_at m k main) (map (\<lambda>i. mk + of_nat (40 * i)) [0..<n]))))"
  using assms
proof (induction n arbitrary: mk)
  case (Suc n)
  have sh: "(mk + 40) + of_nat (40 * i) = mk + of_nat (40 * Suc i)" for i by (simp add: algebra_simps)
  have list: "map (\<lambda>i. mk + of_nat (40 * i)) [0..<Suc n] = mk # map (\<lambda>i. mk + 40 + of_nat (40 * i)) [0..<n]"
    by (simp add: upt_conv_Cons map_Suc_upt [symmetric] sh comp_def del: upt_Suc)
  show ?case
  proof (cases "str_at m mk main")
    case True
    have "\<not> str_at m (mk + 40 + of_nat (40 * i)) main" if "i < n" for i
      using Suc.prems [rule_format, of 0 "Suc i"] True that unfolding sh by auto
    then have "filter (\<lambda>k. str_at m k main) (map (\<lambda>i. mk + 40 + of_nat (40 * i)) [0..<n]) = []"
      by (auto simp: filter_empty_conv)
    then show ?thesis
      using True get_subkey_stuck [OF True] unfolding list by (auto split: option.splits)
  next
    case False
    have "\<forall>i < n. \<forall>j < n. str_at m (mk + 40 + of_nat (40 * i)) main \<and> str_at m (mk + 40 + of_nat (40 * j)) main \<longrightarrow> i = j"
      unfolding sh using Suc.prems by (meson Suc_less_eq nat.inject)
    then show ?thesis using False Suc.IH unfolding list by simp
  qed
qed simp

text \<open>
  The early reader that needs no parser state agrees with the parser: in a script whose main
  keys have different names, \<open>sw_cfg_get_int\<close> is the lookup of a word in the same table, and -1
  for a missing entry or one of another type.
\<close>

theorem sw_cfg_get_int_lookup:
  assumes "script_parser_init buf m st0 = (SCRIPT_PARSER_OK, st)"
    and "0 \<notin> set main" "0 \<notin> set sub" "length main < 32" "length sub < 32"
    and "distinct (map (\<lambda>mk. mem_str m mk 32) (main_keys st))"
  shows "sw_cfg_get_int buf m main sub =
    (case map_of (script_view st m) (main, sub) of Some (Single_Word w) \<Rightarrow> sint w | _ \<Rightarrow> -1)"
proof -
  have st: "script_mod_buf st = buf" "script_main_key_count st = load32 m buf"
    using assms(1) by (auto simp: script_parser_init_def split: if_splits)
  let ?n = "nat (sint (load32 m buf))" and ?mk = "\<lambda>i. buf + 16 + of_nat (40 * i)"
  have "i = j" if "i < ?n" "j < ?n" "str_at m (?mk i) main" "str_at m (?mk j) main" for i j
  proof -
    have "mem_str m (?mk i) 32 = mem_str m (?mk j) 32"
      using that(3,4) assms(2,4) str_at_mem_str [of main 32 m] by simp
    then show ?thesis
      using assms(6) that(1,2) by (auto simp: main_keys_nat st distinct_conv_nth)
  qed
  then have "sw_cfg_get_subkey buf m main sub = find (\<lambda>sk. str_at m sk sub) (named_sub_keys st m main)"
    unfolding sw_cfg_get_subkey_def named_sub_keys_def sub_keys_def main_keys_nat st
    by (intro get_subkey_from_search) blast
  moreover note find_sub_key [OF assms(2-5), of st m, symmetric]
  ultimately show ?thesis
    by (auto simp: sw_cfg_get_int_def st sk_value_def Let_def split: option.splits)
qed

theorem sw_cfg_get_int_lookup_witness:
  "sw_cfg_get_int 0x1000 demo_mem (map of_char ''pmu0'') (map of_char ''vol'') = 3300"
proof -
  have "script_parser_init 0x1000 demo_mem demo_state = (0, demo_state)"
    by (simp add: script_parser_init_def demo_words demo_state_def)
  from sw_cfg_get_int_lookup [OF this, of "map of_char ''pmu0''" "map of_char ''vol''"] show ?thesis
    by (simp add: demo_view main_keys_def)
qed

end
