(* ===== verification/CpuClock.thy ===== *)
theory CpuClock
  imports Mmio
begin

text \<open>
  The CPU clock, \<open>src/Library/Sun50iW1P1Lib/Sun50iW1P1Clock.c\<close>: the PLL factor table, reading the
  current frequency and switching to a new one. Frequencies are in MHz. The delays between the
  steps (\<open>MicroSecondDelay\<close>) do not touch the registers and are left out; a table index
  outside the table has no result.
\<close>

section \<open>Registers and factors\<close>

abbreviation (input) CCMU_PLL_CPUX_CTRL_REG :: u32 where "CCMU_PLL_CPUX_CTRL_REG \<equiv> 0x01c20000"
abbreviation (input) CCMU_CPUX_AXI_CFG_REG :: u32 where "CCMU_CPUX_AXI_CFG_REG \<equiv> 0x01c20050"
abbreviation (input) CCMU_AHB2_CFG_GREG :: u32 where "CCMU_AHB2_CFG_GREG \<equiv> 0x01c2005c"
abbreviation (input) CCMU_PLL_LOCK_CTRL_REG :: u32 where "CCMU_PLL_LOCK_CTRL_REG \<equiv> 0x01c20320"
abbreviation (input) LOCK_EN_PLL_CPUX :: u32 where "LOCK_EN_PLL_CPUX \<equiv> 1"
abbreviation (input) LOCK_EN_NEW_MODE :: u32 where "LOCK_EN_NEW_MODE \<equiv> 0x10000000"

record pll_table =
  FactorN :: u32
  FactorK :: u32
  FactorM :: u32
  FactorP :: u32

definition pll1_table :: "pll_table list" where
  "pll1_table = map (\<lambda>(n, k, m, p). \<lparr>FactorN = n, FactorK = k, FactorM = m, FactorP = p\<rparr>)
     [(9, 0, 0, 2), (9, 0, 0, 2), (9, 0, 0, 2), (9, 0, 0, 2), (9, 0, 0, 2), (9, 0, 0, 2), (9, 0, 0, 2), (9, 0, 0, 2),
      (9, 0, 0, 2), (9, 0, 0, 2), (9, 0, 0, 2), (10, 0, 0, 2), (11, 0, 0, 2), (12, 0, 0, 2), (13, 0, 0, 2), (14, 0, 0, 2),
      (15, 0, 0, 2), (16, 0, 0, 2), (17, 0, 0, 2), (18, 0, 0, 2), (9, 0, 0, 1), (10, 0, 0, 1), (10, 0, 0, 1), (11, 0, 0, 1),
      (11, 0, 0, 1), (12, 0, 0, 1), (12, 0, 0, 1), (13, 0, 0, 1), (13, 0, 0, 1), (14, 0, 0, 1), (14, 0, 0, 1), (15, 0, 0, 1),
      (15, 0, 0, 1), (16, 0, 0, 1), (16, 0, 0, 1), (17, 0, 0, 1), (17, 0, 0, 1), (18, 0, 0, 1), (18, 0, 0, 1), (9, 0, 0, 0),
      (9, 0, 0, 0), (10, 0, 0, 0), (10, 0, 0, 0), (10, 0, 0, 0), (10, 0, 0, 0), (11, 0, 0, 0), (11, 0, 0, 0), (11, 0, 0, 0),
      (11, 0, 0, 0), (12, 0, 0, 0), (12, 0, 0, 0), (12, 0, 0, 0), (12, 0, 0, 0), (13, 0, 0, 0), (13, 0, 0, 0), (13, 0, 0, 0),
      (13, 0, 0, 0), (14, 0, 0, 0), (14, 0, 0, 0), (14, 0, 0, 0), (14, 0, 0, 0), (15, 0, 0, 0), (15, 0, 0, 0), (15, 0, 0, 0),
      (15, 0, 0, 0), (16, 0, 0, 0), (16, 0, 0, 0), (16, 0, 0, 0), (16, 0, 0, 0), (17, 0, 0, 0), (17, 0, 0, 0), (17, 0, 0, 0),
      (17, 0, 0, 0), (18, 0, 0, 0), (18, 0, 0, 0), (18, 0, 0, 0), (18, 0, 0, 0), (19, 0, 0, 0), (19, 0, 0, 0), (19, 0, 0, 0),
      (19, 0, 0, 0), (20, 0, 0, 0), (20, 0, 0, 0), (20, 0, 0, 0), (20, 0, 0, 0), (21, 0, 0, 0), (21, 0, 0, 0), (21, 0, 0, 0),
      (21, 0, 0, 0), (22, 0, 0, 0), (22, 0, 0, 0), (22, 0, 0, 0), (22, 0, 0, 0), (23, 0, 0, 0), (23, 0, 0, 0), (23, 0, 0, 0),
      (23, 0, 0, 0), (24, 0, 0, 0), (24, 0, 0, 0), (24, 0, 0, 0), (24, 0, 0, 0), (25, 0, 0, 0), (25, 0, 0, 0), (25, 0, 0, 0),
      (25, 0, 0, 0), (26, 0, 0, 0), (26, 0, 0, 0), (26, 0, 0, 0), (26, 0, 0, 0), (27, 0, 0, 0), (27, 0, 0, 0), (27, 0, 0, 0),
      (27, 0, 0, 0), (28, 0, 0, 0), (28, 0, 0, 0), (28, 0, 0, 0), (28, 0, 0, 0), (29, 0, 0, 0), (29, 0, 0, 0), (29, 0, 0, 0),
      (29, 0, 0, 0), (15, 1, 0, 0), (15, 1, 0, 0), (15, 1, 0, 0), (15, 1, 0, 0), (15, 1, 0, 0), (15, 1, 0, 0), (15, 1, 0, 0),
      (15, 1, 0, 0), (10, 2, 0, 0), (10, 2, 0, 0), (10, 2, 0, 0), (10, 2, 0, 0), (16, 1, 0, 0), (16, 1, 0, 0), (16, 1, 0, 0),
      (16, 1, 0, 0), (17, 1, 0, 0), (17, 1, 0, 0), (17, 1, 0, 0), (17, 1, 0, 0), (17, 1, 0, 0), (17, 1, 0, 0), (17, 1, 0, 0),
      (17, 1, 0, 0), (18, 1, 0, 0), (18, 1, 0, 0), (18, 1, 0, 0), (18, 1, 0, 0), (18, 1, 0, 0), (18, 1, 0, 0), (18, 1, 0, 0),
      (18, 1, 0, 0), (12, 2, 0, 0), (12, 2, 0, 0), (12, 2, 0, 0), (12, 2, 0, 0), (19, 1, 0, 0), (19, 1, 0, 0), (19, 1, 0, 0),
      (19, 1, 0, 0), (20, 1, 0, 0), (20, 1, 0, 0), (20, 1, 0, 0), (20, 1, 0, 0), (20, 1, 0, 0), (20, 1, 0, 0), (20, 1, 0, 0),
      (20, 1, 0, 0), (21, 1, 0, 0), (21, 1, 0, 0), (21, 1, 0, 0), (21, 1, 0, 0), (21, 1, 0, 0), (21, 1, 0, 0), (21, 1, 0, 0),
      (21, 1, 0, 0), (14, 2, 0, 0), (14, 2, 0, 0), (14, 2, 0, 0), (14, 2, 0, 0), (22, 1, 0, 0), (22, 1, 0, 0), (22, 1, 0, 0),
      (22, 1, 0, 0), (23, 1, 0, 0), (23, 1, 0, 0), (23, 1, 0, 0), (23, 1, 0, 0), (23, 1, 0, 0), (23, 1, 0, 0), (23, 1, 0, 0),
      (23, 1, 0, 0), (24, 1, 0, 0), (24, 1, 0, 0), (24, 1, 0, 0), (24, 1, 0, 0), (24, 1, 0, 0), (24, 1, 0, 0), (24, 1, 0, 0),
      (24, 1, 0, 0), (16, 2, 0, 0), (16, 2, 0, 0), (16, 2, 0, 0), (16, 2, 0, 0), (25, 1, 0, 0), (25, 1, 0, 0), (25, 1, 0, 0),
      (25, 1, 0, 0), (26, 1, 0, 0), (26, 1, 0, 0), (26, 1, 0, 0), (26, 1, 0, 0), (26, 1, 0, 0), (26, 1, 0, 0), (26, 1, 0, 0),
      (26, 1, 0, 0), (27, 1, 0, 0), (27, 1, 0, 0), (27, 1, 0, 0), (27, 1, 0, 0), (27, 1, 0, 0), (27, 1, 0, 0), (27, 1, 0, 0),
      (27, 1, 0, 0), (18, 2, 0, 0), (18, 2, 0, 0), (18, 2, 0, 0), (18, 2, 0, 0), (19, 2, 0, 0), (19, 2, 0, 0), (19, 2, 0, 0),
      (19, 2, 0, 0), (19, 2, 0, 0), (19, 2, 0, 0), (19, 2, 0, 0), (19, 2, 0, 0), (19, 2, 0, 0), (19, 2, 0, 0), (19, 2, 0, 0),
      (19, 2, 0, 0), (20, 2, 0, 0), (20, 2, 0, 0), (20, 2, 0, 0), (20, 2, 0, 0), (20, 2, 0, 0), (20, 2, 0, 0), (20, 2, 0, 0),
      (20, 2, 0, 0), (20, 2, 0, 0), (20, 2, 0, 0), (20, 2, 0, 0), (20, 2, 0, 0), (15, 3, 0, 0), (15, 3, 0, 0), (15, 3, 0, 0),
      (15, 3, 0, 0), (21, 2, 0, 0), (21, 2, 0, 0), (21, 2, 0, 0), (21, 2, 0, 0), (21, 2, 0, 0), (21, 2, 0, 0), (21, 2, 0, 0),
      (21, 2, 0, 0), (16, 3, 0, 0), (16, 3, 0, 0), (16, 3, 0, 0), (16, 3, 0, 0), (16, 3, 0, 0), (16, 3, 0, 0), (16, 3, 0, 0),
      (16, 3, 0, 0), (22, 2, 0, 0), (22, 2, 0, 0), (22, 2, 0, 0), (22, 2, 0, 0), (23, 2, 0, 0), (23, 2, 0, 0), (23, 2, 0, 0),
      (23, 2, 0, 0), (23, 2, 0, 0), (23, 2, 0, 0), (23, 2, 0, 0), (23, 2, 0, 0), (23, 2, 0, 0), (23, 2, 0, 0), (23, 2, 0, 0),
      (23, 2, 0, 0), (24, 2, 0, 0), (24, 2, 0, 0), (24, 2, 0, 0), (24, 2, 0, 0), (24, 2, 0, 0), (24, 2, 0, 0), (24, 2, 0, 0),
      (24, 2, 0, 0), (24, 2, 0, 0), (24, 2, 0, 0), (24, 2, 0, 0), (24, 2, 0, 0), (25, 2, 0, 0), (25, 2, 0, 0), (25, 2, 0, 0),
      (25, 2, 0, 0), (25, 2, 0, 0), (25, 2, 0, 0), (25, 2, 0, 0), (25, 2, 0, 0), (25, 2, 0, 0), (25, 2, 0, 0), (25, 2, 0, 0),
      (25, 2, 0, 0), (26, 2, 0, 0), (26, 2, 0, 0), (26, 2, 0, 0), (26, 2, 0, 0), (26, 2, 0, 0), (26, 2, 0, 0), (26, 2, 0, 0),
      (26, 2, 0, 0), (26, 2, 0, 0), (26, 2, 0, 0), (26, 2, 0, 0), (26, 2, 0, 0), (27, 2, 0, 0), (27, 2, 0, 0), (27, 2, 0, 0),
      (27, 2, 0, 0), (27, 2, 0, 0), (27, 2, 0, 0), (27, 2, 0, 0), (27, 2, 0, 0), (27, 2, 0, 0), (27, 2, 0, 0), (27, 2, 0, 0),
      (27, 2, 0, 0)]"

section \<open>Operations\<close>

definition SunxiClockGetC0CorePll :: "'h plat \<Rightarrow> 'h \<Rightarrow> int \<times> 'h" where
  "SunxiClockGetC0CorePll p h =
     (case MmioRead32 p CCMU_CPUX_AXI_CFG_REG h of (reg_val, h) \<Rightarrow>
        let clock_src = drop_bit 16 reg_val AND 0x03 in
        if clock_src = 0 then (0, h)
        else if clock_src = 1 then (24, h)
        else case MmioRead32 p CCMU_PLL_CPUX_CTRL_REG h of (reg_val, h) \<Rightarrow>
          let div_p = drop_bit 16 reg_val AND 0x3;
              factor_n = uint (drop_bit 8 reg_val AND 0x1f) + 1;
              factor_k = uint (drop_bit 4 reg_val AND 0x3) + 1;
              div_m = uint (reg_val AND 0x3) + 1
          in (24 * factor_n * factor_k div div_m div 2 ^ unat div_p, h))"

definition sunxi_clock_set_ahb2 :: "'h plat \<Rightarrow> 'h \<Rightarrow> 'h" where
  "sunxi_clock_set_ahb2 p h = mmio_rmw p CCMU_AHB2_CFG_GREG (\<lambda>v. (v AND NOT 0x3) OR 1) h"

definition pll_lock_is_new_mode :: "'h plat \<Rightarrow> 'h \<Rightarrow> bool \<times> 'h" where
  "pll_lock_is_new_mode p h = apfst (\<lambda>v. v AND LOCK_EN_NEW_MODE > 0) (MmioRead32 p CCMU_PLL_LOCK_CTRL_REG h)"

definition enable_pll_lock_bit :: "'h plat \<Rightarrow> u32 \<Rightarrow> 'h \<Rightarrow> 'h" where
  "enable_pll_lock_bit p lock_bit h = mmio_rmw p CCMU_PLL_LOCK_CTRL_REG (\<lambda>v. v OR lock_bit) h"

definition disable_pll_lock_bit :: "'h plat \<Rightarrow> u32 \<Rightarrow> 'h \<Rightarrow> 'h" where
  "disable_pll_lock_bit p lock_bit h = mmio_rmw p CCMU_PLL_LOCK_CTRL_REG (\<lambda>v. v AND NOT lock_bit) h"

definition clk_get_pll_para :: "int \<Rightarrow> pll_table option" where
  "clk_get_pll_para pll_clk =
     (let index = pll_clk div 6
      in if 0 \<le> index \<and> index < int (length pll1_table) then Some (pll1_table ! nat index) else None)"

definition pll_bits :: "pll_table \<Rightarrow> u32" where
  "pll_bits f = push_bit 16 (FactorP f) OR push_bit 8 (FactorN f) OR push_bit 4 (FactorK f) OR FactorM f"

definition SunxiClockSetC0CorePll :: "'h plat \<Rightarrow> int \<Rightarrow> 'h \<Rightarrow> (int \<times> 'h) option" where
  "SunxiClockSetC0CorePll p frequency h =
     (let frequency = (if frequency = 0 then 408 else if frequency < 24 then 24 else frequency);
          (pll_new_mode, h) = pll_lock_is_new_mode p h;
          h = (if \<not> pll_new_mode then enable_pll_lock_bit p LOCK_EN_NEW_MODE h else h);
          h = mmio_rmw p CCMU_CPUX_AXI_CFG_REG (\<lambda>v. (v AND NOT (push_bit 16 0x03)) OR push_bit 16 0x01) h
      in case clk_get_pll_para frequency of None \<Rightarrow> None
         | Some pll_factor \<Rightarrow>
           let h = disable_pll_lock_bit p LOCK_EN_PLL_CPUX h;
               h = mmio_rmw p CCMU_PLL_CPUX_CTRL_REG
                 (\<lambda>v. (v AND NOT (push_bit 31 1 OR push_bit 16 0x03 OR push_bit 8 0x1f OR push_bit 4 0x03 OR 0x03)) OR
                   pll_bits pll_factor) h;
               h = enable_pll_lock_bit p LOCK_EN_PLL_CPUX h;
               h = mmio_rmw p CCMU_PLL_CPUX_CTRL_REG (\<lambda>v. push_bit 31 1 OR v) h;
               h = disable_pll_lock_bit p LOCK_EN_PLL_CPUX h;
               h = mmio_rmw p CCMU_CPUX_AXI_CFG_REG (\<lambda>v. (v AND NOT (push_bit 16 0x03)) OR push_bit 16 0x02) h;
               h = sunxi_clock_set_ahb2 p h;
               h = (if \<not> pll_new_mode then disable_pll_lock_bit p LOCK_EN_NEW_MODE h else h)
           in Some (0, h))"

section \<open>The factor table\<close>

text \<open>The frequency a row of the table stands for.\<close>

definition pll_mhz :: "pll_table \<Rightarrow> int" where
  "pll_mhz f = 24 * (uint (FactorN f) + 1) * (uint (FactorK f) + 1) div (uint (FactorM f) + 1) div 2 ^ unat (FactorP f)"

definition row_ok :: "nat \<Rightarrow> pll_table \<Rightarrow> bool" where
  "row_ok i f \<longleftrightarrow> FactorN f < 32 \<and> FactorK f < 4 \<and> FactorM f < 4 \<and> FactorP f < 4 \<and>
     6 * int i \<le> pll_mhz f \<and> 60 \<le> pll_mhz f \<and> pll_mhz f \<le> max 60 (6 * int i + 66)"

fun rows_ok :: "nat \<Rightarrow> pll_table list \<Rightarrow> bool" where
  "rows_ok i [] = True"
| "rows_ok i (f # fs) = (row_ok i f \<and> rows_ok (Suc i) fs)"

lemma rows_ok_nth: "rows_ok i fs \<Longrightarrow> j < length fs \<Longrightarrow> row_ok (i + j) (fs ! j)"
  by (induction i fs arbitrary: j rule: rows_ok.induct) (auto simp: nth_Cons split: nat.splits)

lemma length_pll1_table: "length pll1_table = 337"
  by (simp add: pll1_table_def)

lemma pll1_table_ok: "rows_ok 0 pll1_table"
  by (simp add: pll1_table_def row_ok_def pll_mhz_def)

lemma pll_para:
  assumes "24 \<le> f" and "f < 2022"
  obtains t where "clk_get_pll_para f = Some t" and "row_ok (nat (f div 6)) t"
proof -
  have i: "0 \<le> f div 6" "f div 6 < 337" using assms by linarith+
  then have "clk_get_pll_para f = Some (pll1_table ! nat (f div 6))"
    by (simp add: clk_get_pll_para_def length_pll1_table)
  moreover have "row_ok (nat (f div 6)) (pll1_table ! nat (f div 6))"
    using rows_ok_nth [OF pll1_table_ok, of "nat (f div 6)"] i by (simp add: length_pll1_table)
  ultimately show ?thesis by (rule that)
qed

section \<open>Switching the frequency\<close>

text \<open>The fields of the control register read back as the factors that were written.\<close>

lemma pll_fields:
  fixes v :: u32
  assumes "row_ok i t"
  defines "M \<equiv> push_bit 31 1 OR push_bit 16 0x03 OR push_bit 8 0x1f OR push_bit 4 0x03 OR 0x03 :: u32"
  defines "r \<equiv> push_bit 31 1 OR ((v AND NOT M) OR pll_bits t)"
  shows "drop_bit 16 r AND 0x3 = FactorP t" "drop_bit 8 r AND 0x1f = FactorN t"
    "drop_bit 4 r AND 0x3 = FactorK t" "r AND 0x3 = FactorM t"
proof -
  have m: "(0x03 :: u32) = mask 2" "(0x1f :: u32) = mask 5" by (simp_all add: mask_eq_exp_minus_1)
  have "unat (FactorN t) < 2 ^ 5" "unat (FactorK t) < 2 ^ 2" "unat (FactorM t) < 2 ^ 2" "unat (FactorP t) < 2 ^ 2"
    using assms(1) by (simp_all add: row_ok_def word_less_nat_alt)
  note hi = this [THEN bit_small_word]
  have nb: "\<not> bit (FactorN t) n" if "5 \<le> n" for n using hi(1) [of n] that by auto
  have kb: "\<not> bit (FactorK t) n" if "2 \<le> n" for n using hi(2) [of n] that by auto
  have mb: "\<not> bit (FactorM t) n" if "2 \<le> n" for n using hi(3) [of n] that by auto
  have pb: "\<not> bit (FactorP t) n" if "2 \<le> n" for n using hi(4) [of n] that by auto
  note r = r_def M_def m pll_bits_def bit_or_iff bit_and_iff bit_not_iff bit_push_bit_iff bit_mask_iff bit_1_iff
  have p: "bit r (16 + n) = bit (FactorP t) n" if "n < 2" for n
    using that unfolding r by (simp add: nb kb mb)
  have k: "bit r (4 + n) = bit (FactorK t) n" if "n < 2" for n
    using that unfolding r by (simp add: mb)
  have mm: "bit r n = bit (FactorM t) n" if "n < 2" for n
    using that unfolding r by simp
  have g: "bit r (8 + n) = bit (FactorN t) n" if "n < 5" for n
    using that unfolding r by (simp add: kb mb)
  have field: "drop_bit i r AND mask w = x" if "\<And>n. n < w \<Longrightarrow> bit r (i + n) = bit x n" "\<And>n. w \<le> n \<Longrightarrow> \<not> bit x n"
    for i w and x :: u32
  proof (rule bit_word_eqI)
    show "bit (drop_bit i r AND mask w) n = bit x n" if "n < LENGTH(32)" for n
      using \<open>n < _\<close> \<open>\<And>n. n < w \<Longrightarrow> bit r (i + n) = bit x n\<close> [of n] \<open>\<And>n. w \<le> n \<Longrightarrow> \<not> bit x n\<close> [of n]
      by (cases "n < w") (simp_all add: bit_and_iff bit_drop_bit_eq bit_mask_iff)
  qed
  show "drop_bit 16 r AND 0x3 = FactorP t" unfolding m by (rule field [OF p pb])
  show "drop_bit 8 r AND 0x1f = FactorN t" unfolding m by (rule field [OF g nb])
  show "drop_bit 4 r AND 0x3 = FactorK t" unfolding m by (rule field [OF k kb])
  show "r AND 0x3 = FactorM t" unfolding m using field [of 2 0 "FactorM t"] mm mb by simp
qed

lemma lock_restored:
  fixes v b :: u32
  shows "((v AND NOT 1) OR 1) AND NOT 1 = v AND NOT 1"
    and "v AND b = 0 \<Longrightarrow> b AND 1 = 0 \<Longrightarrow> ((((v OR b) AND NOT 1) OR 1) AND NOT 1) AND NOT b = v AND NOT 1"
  by (auto simp: bit_eq_iff bit_simps)

context mmio_registers
begin

lemma set_core_pll:
  assumes regs: "{CCMU_PLL_CPUX_CTRL_REG, CCMU_CPUX_AXI_CFG_REG, CCMU_AHB2_CFG_GREG, CCMU_PLL_LOCK_CTRL_REG} \<subseteq> cfg"
    and t: "clk_get_pll_para (if f = 0 then 408 else if f < 24 then 24 else f) = Some t"
  shows "\<exists>h'. SunxiClockSetC0CorePll p f h = Some (0, h') \<and>
    reg h' CCMU_PLL_CPUX_CTRL_REG = push_bit 31 1 OR ((reg h CCMU_PLL_CPUX_CTRL_REG AND
      NOT (push_bit 31 1 OR push_bit 16 0x03 OR push_bit 8 0x1f OR push_bit 4 0x03 OR 0x03)) OR pll_bits t) \<and>
    drop_bit 16 (reg h' CCMU_CPUX_AXI_CFG_REG) AND 3 = 2 \<and>
    reg h' CCMU_PLL_LOCK_CTRL_REG = reg h CCMU_PLL_LOCK_CTRL_REG AND NOT LOCK_EN_PLL_CPUX \<and>
    (\<forall>a \<in> cfg. a \<notin> {CCMU_PLL_CPUX_CTRL_REG, CCMU_CPUX_AXI_CFG_REG, CCMU_AHB2_CFG_GREG, CCMU_PLL_LOCK_CTRL_REG} \<longrightarrow>
       reg h' a = reg h a)"
proof -
  let ?lock = "reg h CCMU_PLL_LOCK_CTRL_REG"
  have src: "((v AND 65532) OR 2) AND 3 = (2 :: u32)" for v
    by (simp add: bit.conj_disj_distrib2 and.assoc)
  have mode: "\<not> 0 < ?lock AND LOCK_EN_NEW_MODE \<longleftrightarrow> ?lock AND LOCK_EN_NEW_MODE = 0"
    by (simp add: word_gt_0)
  show ?thesis
    using regs t src lock_restored(1) [of ?lock] lock_restored(2) [of ?lock LOCK_EN_NEW_MODE] mode
    by (auto simp: SunxiClockSetC0CorePll_def pll_lock_is_new_mode_def enable_pll_lock_bit_def disable_pll_lock_bit_def
        sunxi_clock_set_ahb2_def Let_def split_beta reg_simps)
qed

end

lemma core_pll_range:
  assumes "mmio_registers p reg cfg"
    and "{CCMU_PLL_CPUX_CTRL_REG, CCMU_CPUX_AXI_CFG_REG, CCMU_AHB2_CFG_GREG, CCMU_PLL_LOCK_CTRL_REG} \<subseteq> cfg"
    and "f < 2022"
  defines "f' \<equiv> 6 * ((if f = 0 then 408 else if f < 24 then 24 else f) div 6)"
  shows "\<exists>h'. SunxiClockSetC0CorePll p f h = Some (0, h') \<and>
    (let mhz = fst (SunxiClockGetC0CorePll p h') in f' \<le> mhz \<and> 60 \<le> mhz \<and> mhz \<le> max 60 (f' + 66)) \<and>
    reg h' CCMU_PLL_LOCK_CTRL_REG = reg h CCMU_PLL_LOCK_CTRL_REG AND NOT LOCK_EN_PLL_CPUX \<and>
    (\<forall>a \<in> cfg. a \<notin> {CCMU_PLL_CPUX_CTRL_REG, CCMU_CPUX_AXI_CFG_REG, CCMU_AHB2_CFG_GREG, CCMU_PLL_LOCK_CTRL_REG} \<longrightarrow>
       reg h' a = reg h a)"
proof -
  let ?g = "if f = 0 then 408 else if f < 24 then 24 else f"
  have g: "24 \<le> ?g" "?g < 2022" using assms(3) by auto
  obtain t where t: "clk_get_pll_para ?g = Some t" "row_ok (nat (?g div 6)) t"
    using pll_para [OF g] by blast
  obtain h' where h': "SunxiClockSetC0CorePll p f h = Some (0, h')"
      "reg h' CCMU_PLL_CPUX_CTRL_REG = push_bit 31 1 OR ((reg h CCMU_PLL_CPUX_CTRL_REG AND
        NOT (push_bit 31 1 OR push_bit 16 0x03 OR push_bit 8 0x1f OR push_bit 4 0x03 OR 0x03)) OR pll_bits t)"
      "drop_bit 16 (reg h' CCMU_CPUX_AXI_CFG_REG) AND 3 = 2"
    and rest: "reg h' CCMU_PLL_LOCK_CTRL_REG = reg h CCMU_PLL_LOCK_CTRL_REG AND NOT LOCK_EN_PLL_CPUX"
      "\<forall>a \<in> cfg. a \<notin> {CCMU_PLL_CPUX_CTRL_REG, CCMU_CPUX_AXI_CFG_REG, CCMU_AHB2_CFG_GREG, CCMU_PLL_LOCK_CTRL_REG} \<longrightarrow>
        reg h' a = reg h a"
    using mmio_registers.set_core_pll [OF assms(1,2) t(1), of h] by (elim exE conjE) (rule that)
  have "fst (SunxiClockGetC0CorePll p h') = pll_mhz t"
    using assms(2) h'(3) pll_fields [OF t(2), of "reg h CCMU_PLL_CPUX_CTRL_REG", folded h'(2)]
    by (simp add: SunxiClockGetC0CorePll_def split_beta Let_def mmio_registers.fst_read [OF assms(1)]
        mmio_registers.snd_read [OF assms(1)] pll_mhz_def)
  moreover have "int (nat (?g div 6)) = ?g div 6" using g(1) by simp
  ultimately have "f' \<le> fst (SunxiClockGetC0CorePll p h') \<and> 60 \<le> fst (SunxiClockGetC0CorePll p h') \<and>
      fst (SunxiClockGetC0CorePll p h') \<le> max 60 (f' + 66)"
    using t(2) unfolding row_ok_def f'_def by simp
  with h'(1) rest show ?thesis unfolding Let_def by (elim conjE) (intro exI [of _ h'] conjI, assumption+)
qed

text \<open>
  C10: switching the CPU to a frequency below 2022 MHz succeeds and reading the frequency back gives
  that of the chosen table row: at least the requested one rounded down to a multiple of 6 (0 stands
  for 408, anything else below 24 for 24), at least 60 and at most 66 MHz above. The PLL
  lock mode is restored, and no other register changes.
\<close>

theorem cpu_clock_round_trip:
  assumes "mmio_registers p reg cfg"
    and "{CCMU_PLL_CPUX_CTRL_REG, CCMU_CPUX_AXI_CFG_REG, CCMU_AHB2_CFG_GREG, CCMU_PLL_LOCK_CTRL_REG} \<subseteq> cfg"
    and "f < 2022"
  defines "f' \<equiv> 6 * ((if f = 0 then 408 else if f < 24 then 24 else f) div 6)"
  shows "\<exists>h'. SunxiClockSetC0CorePll p f h = Some (0, h') \<and>
    (let mhz = fst (SunxiClockGetC0CorePll p h') in f' \<le> mhz \<and> 60 \<le> mhz \<and> mhz \<le> max 60 (f' + 66)) \<and>
    reg h' CCMU_PLL_LOCK_CTRL_REG = reg h CCMU_PLL_LOCK_CTRL_REG AND NOT LOCK_EN_PLL_CPUX \<and>
    (\<forall>a \<in> cfg. a \<notin> {CCMU_PLL_CPUX_CTRL_REG, CCMU_CPUX_AXI_CFG_REG, CCMU_AHB2_CFG_GREG, CCMU_PLL_LOCK_CTRL_REG} \<longrightarrow>
       reg h' a = reg h a)"
  using core_pll_range [OF assms(1-3)] unfolding f'_def .

theorem cpu_clock_round_trip_witness:
  "\<exists>h'. SunxiClockSetC0CorePll ram_plat 1008 (\<lambda>_. 0) = Some (0, h') \<and>
     1008 \<le> fst (SunxiClockGetC0CorePll ram_plat h') \<and> fst (SunxiClockGetC0CorePll ram_plat h') \<le> 1074"
  using cpu_clock_round_trip [OF ram.mmio_registers_axioms, of 1008 "\<lambda>_. 0"] by (auto simp: Let_def)

section \<open>Order of the steps\<close>

text \<open>
  A platform that watches the writes: the flag falls when the PLL control register is written
  while the CPU does not run from the 24 MHz oscillator.
\<close>

definition watch_plat :: "((u32 \<Rightarrow> u32) \<times> bool) plat" where
  "watch_plat = \<lparr>MmioRead32 = (\<lambda>a h. (fst h a, h)),
     MmioWrite32 = (\<lambda>a v h. ((fst h)(a := v),
       snd h \<and> (a = CCMU_PLL_CPUX_CTRL_REG \<longrightarrow> drop_bit 16 (fst h CCMU_CPUX_AXI_CFG_REG) AND 3 = 1))),
     smc_trap = (\<lambda>_ _ _ _ h. (0, h))\<rparr>"

definition on_oscillator :: "u32 \<Rightarrow> bool" where
  "on_oscillator v \<longleftrightarrow> drop_bit 16 v AND 3 = 1"

lemma on_oscillator_set: "on_oscillator ((v AND NOT (push_bit 16 0x03)) OR push_bit 16 0x01)"
  by (simp add: on_oscillator_def bit.conj_disj_distrib2 and.assoc)

lemma watch_rmw:
  "mmio_rmw watch_plat a f h =
     ((fst h)(a := f (fst h a)), snd h \<and> (a = CCMU_PLL_CPUX_CTRL_REG \<longrightarrow> on_oscillator (fst h CCMU_CPUX_AXI_CFG_REG)))"
  by (simp add: mmio_rmw_def watch_plat_def on_oscillator_def)

text \<open>
  C11: while the PLL is reprogrammed the CPU runs from the oscillator: no write to the PLL control
  register happens with another clock source selected, for any requested frequency.
\<close>

theorem pll_written_on_oscillator_only:
  "case SunxiClockSetC0CorePll watch_plat f (r, True) of None \<Rightarrow> True | Some (st, r', ok) \<Rightarrow> ok"
proof (cases "clk_get_pll_para (if f = 0 then 408 else if f < 24 then 24 else f)")
  case (Some t)
  have read: "MmioRead32 watch_plat a h = (fst h a, h)" for a h by (simp add: watch_plat_def)
  show ?thesis
    by (cases "0 < r CCMU_PLL_LOCK_CTRL_REG AND LOCK_EN_NEW_MODE")
      (simp_all only: SunxiClockSetC0CorePll_def pll_lock_is_new_mode_def enable_pll_lock_bit_def disable_pll_lock_bit_def
        sunxi_clock_set_ahb2_def watch_rmw read Let_def Some apfst_conv fst_conv snd_conv option.case prod.case
        simp_thms if_True if_False fun_upd_apply on_oscillator_set, simp_all add: on_oscillator_set [simplified])
qed (simp add: SunxiClockSetC0CorePll_def Let_def split_beta)

text \<open>Reading the frequency keeps what register reads keep, setting it what accesses to its registers keep.\<close>

lemma get_pll_keeps: "(\<And>a h. f (snd (MmioRead32 p a h)) = f h) \<Longrightarrow> f (snd (SunxiClockGetC0CorePll p h)) = f h"
  by (simp add: SunxiClockGetC0CorePll_def split_beta Let_def)

lemma set_pll_keeps:
  assumes r: "\<And>a h. f (snd (MmioRead32 p a h)) = f h"
    and w: "\<And>a v h. a \<in> {CCMU_PLL_CPUX_CTRL_REG, CCMU_CPUX_AXI_CFG_REG, CCMU_AHB2_CFG_GREG, CCMU_PLL_LOCK_CTRL_REG} \<Longrightarrow>
      f (MmioWrite32 p a v h) = f h"
    and "SunxiClockSetC0CorePll p freq h = Some (st, h')"
  shows "f h' = f h"
proof -
  have rmw: "f (mmio_rmw p a g h) = f h"
    if "a \<in> {CCMU_PLL_CPUX_CTRL_REG, CCMU_CPUX_AXI_CFG_REG, CCMU_AHB2_CFG_GREG, CCMU_PLL_LOCK_CTRL_REG}" for a g h
    using r [of a h] w [OF that] by (simp add: mmio_rmw_def split_beta)
  show ?thesis
    using assms(3)
    by (auto simp: SunxiClockSetC0CorePll_def pll_lock_is_new_mode_def enable_pll_lock_bit_def disable_pll_lock_bit_def
        sunxi_clock_set_ahb2_def Let_def split_beta rmw r split: option.splits)
qed

end
