(* ===== verification/PowerSetup.thy ===== *)
theory PowerSetup
  imports ScriptTable Axp81x Axp81xRails Rsb CpuClock
begin

text \<open>
  Power set-up of the boot core, \<open>src/Library/Sun50iW1P1Lib/Sun50iW1P1.c\<close>: the core voltage and
  clock, and the supplies, charge current, USB limits and power-off voltage that the board script
  asks for. Here the script parser, the AXP81X driver and the CPU clock meet.

  Local variables whose address is taken live in the flat memory; their addresses are the
  arguments \<open>pn\<close>, \<open>pv\<close> and the like. EDK2's \<open>ASSERT_EFI_ERROR\<close> is the argument \<open>assert_efi_error\<close>: it
  takes the asserted expression as a function of the device. \<open>asserts_on\<close> and \<open>asserts_off\<close> state what
  the macro does: it evaluates the expression, or it drops it.
\<close>

section \<open>The set-up functions\<close>

type_synonym 'd assert_macro = "('d \<Rightarrow> efi_status \<times> 'd) \<Rightarrow> 'd \<Rightarrow> 'd option"

definition asserts_on :: "'d assert_macro \<Rightarrow> bool" where
  "asserts_on A \<longleftrightarrow> (\<forall>e d st d'. e d = (st, d') \<and> \<not> EFI_ERROR st \<longrightarrow> A e d = Some d')"

definition asserts_off :: "'d assert_macro \<Rightarrow> bool" where
  "asserts_off A \<longleftrightarrow> (\<forall>e d. A e d = Some d)"

abbreviation (input) PMU_SCRIPT_NAME :: "u8 list" where "PMU_SCRIPT_NAME \<equiv> map of_char ''pmu0''"
abbreviation (input) PMU_SUPPLY_DCDC2 :: u64 where "PMU_SUPPLY_DCDC2 \<equiv> 0x10002"
definition RETURN_LOAD_ERROR :: efi_status where "RETURN_LOAD_ERROR = EFI_ENCODE_ERROR 1"

definition Cluster0CpuVFS :: "'h plat \<Rightarrow> u8 \<Rightarrow> u32 \<Rightarrow> u32 \<Rightarrow> 'h rsb_state \<Rightarrow> (efi_status \<times> 'h rsb_state) option" where
  "Cluster0CpuVFS p junk Corevoltage CoreClock s =
     (let (CoreClock, Corevoltage) =
            (if CoreClock = 0 \<or> Corevoltage = 0 then (1008, 1100) else (CoreClock, Corevoltage));
          ops = Axp81XLib_PmBusOps p junk;
          (st, s) = Axp81XProbe ops s;
          scaled =
            (if st = EFI_SUCCESS then
               (case Axp81XSetSupplyStatus ops PMU_SUPPLY_DCDC2 (ucast Corevoltage) (-1) s of (st, s) \<Rightarrow>
                  if st = 0
                  then map_option (\<lambda>(r, h). (fst s, h)) (SunxiClockSetC0CorePll p (sint CoreClock) (snd s))
                  else Some s)
             else Some s)
      in map_option (\<lambda>s. (EFI_SUCCESS, fst s, snd (SunxiClockGetC0CorePll p (snd s)))) scaled)"

definition AxpSetChargeCurrentLimit ::
  "'d assert_macro \<Rightarrow> str_lib \<Rightarrow> script_state \<Rightarrow> 'd axp_pm_bus_ops \<Rightarrow> u64 \<Rightarrow> mem \<Rightarrow> 'd \<Rightarrow> (efi_status \<times> mem \<times> 'd) option" where
  "AxpSetChargeCurrentLimit assert_efi_error L st ops ChargeCurrent m d =
     (case script_parser_fetch L st (Some PMU_SCRIPT_NAME) (Some (map of_char ''pmu_runtime_chgcur'')) ChargeCurrent 1 m of
        (Ret, m) \<Rightarrow>
          map_option (\<lambda>d. (EFI_SUCCESS, m, d))
           (if Ret = 0 then assert_efi_error (Axp81XSetChargeCurrent ops (scast (load32 m ChargeCurrent))) d else Some d))"

definition AxpSetUsbVoltageAndCurrentLimit ::
  "'d assert_macro \<Rightarrow> str_lib \<Rightarrow> script_state \<Rightarrow> 'd axp_pm_bus_ops \<Rightarrow> u64 \<Rightarrow> u64 \<Rightarrow> u64 \<Rightarrow> u64 \<Rightarrow> mem \<Rightarrow> 'd \<Rightarrow>
   (efi_status \<times> mem \<times> 'd) option" where
  "AxpSetUsbVoltageAndCurrentLimit assert_efi_error L st ops AcVoltageLimit AcCurrentLimit PcVoltageLimit PcCurrentLimit m d =
     (let fetch = (\<lambda>sub value m. script_parser_fetch L st (Some PMU_SCRIPT_NAME) (Some (map of_char sub)) value 1 m);
          m = snd (fetch ''pmu_ac_vol'' AcVoltageLimit m);
          m = snd (fetch ''pmu_ac_cur'' AcCurrentLimit m);
          (Ret, m) = fetch ''pmu_usbpc_vol'' PcVoltageLimit m
      in case (if Ret = 0 then assert_efi_error (Axp81XSetVbusVoltagelimit ops (scast (load32 m PcVoltageLimit))) d
               else Some d) of
           None \<Rightarrow> None
         | Some d \<Rightarrow>
           let (Ret, m) = fetch ''pmu_usbpc_cur'' PcCurrentLimit m
           in map_option (\<lambda>d. (EFI_SUCCESS, m, d))
               (if Ret = 0 then assert_efi_error (Axp81XSetVbusCurrentLimit ops (scast (load32 m PcCurrentLimit))) d
                else Some d))"

definition AxpSetPowerOnVoltage ::
  "'d assert_macro \<Rightarrow> str_lib \<Rightarrow> script_state \<Rightarrow> 'd axp_pm_bus_ops \<Rightarrow> u64 \<Rightarrow> mem \<Rightarrow> 'd \<Rightarrow> (efi_status \<times> mem \<times> 'd) option" where
  "AxpSetPowerOnVoltage assert_efi_error L st ops Volage m d =
     (case script_parser_fetch L st (Some PMU_SCRIPT_NAME) (Some (map of_char ''pmu_pwron_vol'')) Volage 1 m of
        (Ret, m) \<Rightarrow>
          map_option (\<lambda>d. (EFI_SUCCESS, m, d))
           (if Ret = 0 then assert_efi_error (Axp81XSetPowerOnoffVoltage ops (scast (load32 m Volage)) 1) d
            else assert_efi_error (Axp81XSetPowerOnoffVoltage ops 0 1) d))"

section \<open>Supplies from the script\<close>

text \<open>
  The endless loop ends when no sub key is left: each round moves the index, which stays below the
  32-bit \<open>lenth\<close> of the section.
\<close>

lemma fetch_next_ok:
  assumes "script_parser_fetch_subkey_next L st handle pn pv index m = (ret, index', m')" and "0 \<le> ret"
  shows "index < index' \<and> index' \<le> main_lenth m (ucast handle)"
  using assms
  by (auto simp: script_parser_fetch_subkey_next_def Let_def split: if_splits option.splits
      dest!: find_Some_iff [THEN iffD1])

function power_supply_loop ::
  "str_lib \<Rightarrow> (string \<Rightarrow> u64) \<Rightarrow> script_state \<Rightarrow> 'd axp_pm_bus_ops \<Rightarrow> u64 \<Rightarrow> u64 \<Rightarrow> u32 \<Rightarrow> int \<Rightarrow> mem \<Rightarrow> 'd \<Rightarrow> mem \<times> 'd" where
  "power_supply_loop L s2u st ops PowerName PowerVoltage PowerSupplyHd PowerIndex m d =
     (let m = store_bytes m PowerName (replicate 16 0) in
      case script_parser_fetch_subkey_next L st PowerSupplyHd PowerName PowerVoltage PowerIndex m of
        (Ret, PowerIndex, m) \<Rightarrow>
          if Ret < 0 then (m, d)
          else let v = sint (load32 m PowerVoltage);
                   (OnOff, m) = (if v > 10000 then (1, store32 m PowerVoltage (word_of_int (v mod 10000))) else (0, m));
                   d = snd (Axp81XSetSupplyStatusByName s2u ops (map (\<lambda>b. char_of (unat b)) (mem_str m PowerName 16))
                         (scast (load32 m PowerVoltage)) OnOff d)
               in power_supply_loop L s2u st ops PowerName PowerVoltage PowerSupplyHd PowerIndex m d)"
  by pat_completeness auto
termination
  by (relation "measure (\<lambda>(L, s2u, st, ops, pn, pv, hd, index, m, d). nat (2 ^ 31 - index))")
    (auto simp: not_less dest!: fetch_next_ok [OF sym] dest: order.strict_trans1 [OF _ main_lenth_le])

declare power_supply_loop.simps [simp del]

definition AxpPowerSupplySetOutPut ::
  "str_lib \<Rightarrow> (string \<Rightarrow> u64) \<Rightarrow> u8 list \<Rightarrow> script_state \<Rightarrow> 'd axp_pm_bus_ops \<Rightarrow> u64 \<Rightarrow> u64 \<Rightarrow> mem \<Rightarrow> 'd \<Rightarrow> efi_status \<times> mem \<times> 'd" where
  "AxpPowerSupplySetOutPut L s2u stack st ops PowerName PowerVoltage m d =
     (let PowerSupplyHd = script_parser_fetch_subkey_start stack st m (Some (map of_char ''power_sply'')) in
      if PowerSupplyHd = 0 then (RETURN_LOAD_ERROR, m, d)
      else (EFI_SUCCESS, power_supply_loop L s2u st ops PowerName PowerVoltage PowerSupplyHd 0 m d))"

section \<open>What the supply loop does\<close>

text \<open>
  The specification: the word entries of a section, in order. A name of eight or more bytes does
  not fit into the size that is passed for it and arrives as the empty string. A value above 10000
  switches the supply on, at the value modulo 10000; another value switches it off.
\<close>

definition section_words :: "script_state \<Rightarrow> mem \<Rightarrow> u64 \<Rightarrow> (u8 list \<times> u32) list" where
  "section_words st m mk =
     (let buf = script_mod_buf st; sk = sub_key_addr buf m mk
      in map (\<lambda>j. (mem_str m (sk j) 32, load32 m (data_addr buf m (sk j))))
           (filter (\<lambda>j. sk_type m (sk j) = TYPE_SINGLE_WORD) [0..main_lenth m mk - 1]))"

definition supply_request ::
  "(string \<Rightarrow> u64) \<Rightarrow> 'd axp_pm_bus_ops \<Rightarrow> u8 list \<times> u32 \<Rightarrow> 'd \<Rightarrow> 'd" where
  "supply_request s2u ops e d =
     (let name = (if length (fst e) < 8 then fst e else []); v = sint (snd e); on = 10000 < v
      in snd (Axp81XSetSupplyStatusByName s2u ops (map (\<lambda>b. char_of (unat b)) name)
           (word_of_int (if on then v mod 10000 else v)) (if on then 1 else 0) d))"

definition local_apart :: "script_state \<Rightarrow> mem \<Rightarrow> u64 \<Rightarrow> u64 \<Rightarrow> nat \<Rightarrow> bool" where
  "local_apart st m mk a n \<longleftrightarrow> apart a n mk 40 \<and>
     (\<forall>j \<in> {0..<main_lenth m mk}. let sk = sub_key_addr (script_mod_buf st) m mk j in
        apart a n sk 40 \<and> apart a n (data_addr (script_mod_buf st) m sk) 4)"

lemma scast_value: "scast (word_of_int (v mod 10000) :: u32) = (word_of_int (v mod 10000) :: u64)"
proof -
  have b: "0 \<le> v mod 10000" "v mod 10000 < 10000" by simp_all
  have "unat (word_of_int (v mod 10000) :: u32) = nat (v mod 10000)"
    using b by (simp add: unat_eq_nat_uint uint_word_of_int)
  then have "sint (word_of_int (v mod 10000) :: u32) = v mod 10000"
    using b by (subst sint_small) simp_all
  then show ?thesis by (simp add: scast_eq)
qed

lemma supply_round:
  assumes law: "str_lib_law L" and pn: "local_apart st m mk pn 16" and pv: "local_apart st m mk pv 4"
    and loc: "apart pn 16 pv 4" and agree: "agree_but pn 16 pv 4 m m1" and j: "0 \<le> j" "j < main_lenth m mk"
    and zero: "mem_str m1 pn 16 = []"
  defines "buf \<equiv> script_mod_buf st"
  defines "sk \<equiv> sub_key_addr buf m mk j"
  defines "w \<equiv> load32 m (data_addr buf m sk)" and "n \<equiv> mem_str m sk 32"
  defines "m2 \<equiv> store32 m1 pv (load32 m1 (data_addr buf m1 sk))"
  defines "m3 \<equiv> AsciiStrCpyS L pn 8 (mem_str m2 sk 8) m2"
  shows "load32 m3 pv = w" and "mem_str m3 pn 16 = (if length n < 8 then n else [])"
    and "agree_but pn 16 pv 4 m m3"
proof -
  have same: "load_bytes m' mk 40 = load_bytes m mk 40" "load_bytes m' sk 40 = load_bytes m sk 40"
    "load_bytes m' (data_addr buf m sk) 4 = load_bytes m (data_addr buf m sk) 4"
    if "agree_but pn 16 pv 4 m m'" for m'
    using pn pv j by (auto simp: local_apart_def Let_def sk_def buf_def intro!: agree_load [OF that])
  have d: "load32 m1 (data_addr buf m1 sk) = w"
    using same(3) [OF agree] entry_fields(2) [OF same(2) [OF agree]] by (simp add: w_def load32_def data_addr_def)
  have a2: "agree_but pn 16 pv 4 m m2" unfolding m2_def store32_def by (intro agree_store(2) agree) simp
  have n: "mem_str m2 sk 32 = n" unfolding n_def using entry_fields(1) [OF same(2) [OF a2]] .
  have m3: "m3 = (if length n < 8 then store_bytes m2 pn (n @ [0]) else m2)"
    using law mem_str_short [of 8 32 m2 sk] unfolding n by (auto simp: m3_def str_lib_law_def)
  show "agree_but pn 16 pv 4 m m3" unfolding m3 using a2 by (auto intro!: agree_store(1))
  have "apart pn (length (n @ [0])) pv 4" if "length n < 8"
    using loc that by (auto simp: apart_def)
  then show "load32 m3 pv = w"
    unfolding m3 by (auto simp: load32_store_other m2_def d)
  have "mem_str m2 pn 16 = []"
    using zero mem_str_cong [OF load_store_other, of pv "le32 w" pn 16 m1] loc
    by (simp add: m2_def d store32_def apart_sym)
  moreover have "0 \<notin> set n" unfolding n_def by (rule mem_str_nonzero)
  ultimately show "mem_str m3 pn 16 = (if length n < 8 then n else [])"
    unfolding m3 by (simp add: mem_str_store)
qed

lemma section_read:
  assumes "agree_but pn 16 pv 4 m m'" and pn: "local_apart st m mk pn 16" and pv: "local_apart st m mk pv 4"
  defines "buf \<equiv> script_mod_buf st"
  shows "main_lenth m' mk = main_lenth m mk" and "sub_key_addr buf m' mk = sub_key_addr buf m mk"
    and "0 \<le> j \<Longrightarrow> j < main_lenth m mk \<Longrightarrow> sk_type m' (sub_key_addr buf m mk j) = sk_type m (sub_key_addr buf m mk j)"
proof -
  have mk: "load_bytes m' mk 40 = load_bytes m mk 40"
    using pn pv by (intro agree_load [OF assms(1)]) (simp_all add: local_apart_def)
  show "main_lenth m' mk = main_lenth m mk" "sub_key_addr buf m' mk = sub_key_addr buf m mk"
    using entry_fields(2,3) [OF mk] by (auto simp: main_lenth_def sub_key_addr_def fun_eq_iff)
  show "sk_type m' (sub_key_addr buf m mk j) = sk_type m (sub_key_addr buf m mk j)" if "0 \<le> j" "j < main_lenth m mk"
  proof -
    have "load_bytes m' (sub_key_addr buf m mk j) 40 = load_bytes m (sub_key_addr buf m mk j) 40"
      using pn pv that by (intro agree_load [OF assms(1)]) (auto simp: local_apart_def Let_def buf_def)
    from entry_fields(3) [OF this] show ?thesis by (simp add: sk_type_def)
  qed
qed

text \<open>One call of \<open>script_parser_fetch_subkey_next\<close> on a section without strings.\<close>

lemma next_word:
  assumes pn: "local_apart st m mk pn 16" and pv: "local_apart st m mk pv 4"
    and handle: "handle \<noteq> 0" "mk = ucast handle"
    and words: "\<forall>j \<in> {0..<main_lenth m mk}. sk_type m (sub_key_addr (script_mod_buf st) m mk j) \<noteq> TYPE_STRING"
    and a: "agree_but pn 16 pv 4 m m1" and i: "0 \<le> i"
  defines "sk \<equiv> sub_key_addr (script_mod_buf st) m mk"
  defines "js \<equiv> filter (\<lambda>j. sk_type m (sk j) = TYPE_SINGLE_WORD) [i..main_lenth m mk - 1]"
  shows "js = [] \<Longrightarrow> script_parser_fetch_subkey_next L st handle pn pv i m1 = (-4, i, m1)"
    and "js = j # rest \<Longrightarrow> script_parser_fetch_subkey_next L st handle pn pv i m1 =
      (let m2 = store32 m1 pv (load32 m1 (data_addr (script_mod_buf st) m1 (sk j)))
       in (0, j + 1, AsciiStrCpyS L pn 8 (mem_str m2 (sk j) 8) m2))"
proof -
  let ?find = "find (\<lambda>j. sk_type m1 (sk j) \<in> {TYPE_SINGLE_WORD, TYPE_STRING}) [i..main_lenth m mk - 1]"
  have f: "?find = (case js of [] \<Rightarrow> None | j # _ \<Rightarrow> Some j)"
    using section_read(3) [OF a pn pv] words i unfolding js_def find_filter [symmetric]
    by (intro find_agree) (auto simp: sk_def)
  have eq: "script_parser_fetch_subkey_next L st handle pn pv i m1 =
      (case ?find of None \<Rightarrow> (-4, i, m1)
       | Some j \<Rightarrow>
         let m2 = (if sk_type m1 (sk j) = TYPE_SINGLE_WORD
                   then store32 m1 pv (load32 m1 (data_addr (script_mod_buf st) m1 (sk j)))
                   else AsciiStrCpyS L pv 2 (mem_str m1 (data_addr (script_mod_buf st) m1 (sk j)) 2) m1)
         in (0, j + 1, AsciiStrCpyS L pn 8 (mem_str m2 (sk j) 8) m2))"
    using handle section_read(1,2) [OF a pn pv] by (simp add: script_parser_fetch_subkey_next_def sk_def Let_def cong: option.case_cong if_cong)
  show "js = [] \<Longrightarrow> script_parser_fetch_subkey_next L st handle pn pv i m1 = (-4, i, m1)"
    unfolding eq f by simp
  assume js: "js = j # rest"
  then have "j \<in> set js" by simp
  then have "sk_type m1 (sk j) = TYPE_SINGLE_WORD"
    using section_read(3) [OF a pn pv, of j] i unfolding js_def by (auto simp: sk_def)
  then show "script_parser_fetch_subkey_next L st handle pn pv i m1 =
      (let m2 = store32 m1 pv (load32 m1 (data_addr (script_mod_buf st) m1 (sk j)))
       in (0, j + 1, AsciiStrCpyS L pn 8 (mem_str m2 (sk j) 8) m2))"
    unfolding eq f js by (simp add: Let_def)
qed

lemma loop_round:
  assumes "script_parser_fetch_subkey_next L st handle pn pv i (store_bytes m pn (replicate 16 0)) = (0, i', m3)"
    and "load32 m3 pv = w" and "mem_str m3 pn 16 = nm" and loc: "apart pn 16 pv 4"
    and "nm = (if length n < 8 then n else [])"
  defines "m4 \<equiv> (if 10000 < sint w then store32 m3 pv (word_of_int (sint w mod 10000)) else m3)"
  shows "power_supply_loop L s2u st ops pn pv handle i m d =
    power_supply_loop L s2u st ops pn pv handle i' m4 (supply_request s2u ops (n, w) d)"
proof -
  have "mem_str m4 pn 16 = nm"
    using assms(3) mem_str_cong [OF load_store_other, of pv "le32 (word_of_int (sint w mod 10000))" pn 16 m3] loc
    by (simp add: m4_def store32_def apart_sym)
  then have eq: "supply_request s2u ops (n, w) d =
      snd (Axp81XSetSupplyStatusByName s2u ops (map (\<lambda>b. char_of (unat b)) (mem_str m4 pn 16))
        (scast (load32 m4 pv)) (if 10000 < sint w then 1 else 0) d)"
    using assms(2) by (simp add: supply_request_def Let_def assms(5) m4_def scast_value)
  show ?thesis
    unfolding eq power_supply_loop.simps [of L s2u st ops pn pv handle i m] Let_def assms(1) prod.case
    by (cases "10000 < sint w") (simp_all add: assms(2) m4_def)
qed

lemma supply_loop:
  assumes law: "str_lib_law L" and pn: "local_apart st m mk pn 16" and pv: "local_apart st m mk pv 4"
    and loc: "apart pn 16 pv 4" and handle: "handle \<noteq> 0" "mk = ucast handle"
    and words: "\<forall>j \<in> {0..<main_lenth m mk}. sk_type m (sub_key_addr (script_mod_buf st) m mk j) \<noteq> TYPE_STRING"
  defines "sk \<equiv> sub_key_addr (script_mod_buf st) m mk"
  assumes "filter (\<lambda>j. sk_type m (sk j) = TYPE_SINGLE_WORD) [i..main_lenth m mk - 1] = js"
    and "0 \<le> i" and "agree_but pn 16 pv 4 m m'"
  shows "\<exists>m''. power_supply_loop L s2u st ops pn pv handle i m' d =
      (m'', fold (supply_request s2u ops)
        (map (\<lambda>j. (mem_str m (sk j) 32, load32 m (data_addr (script_mod_buf st) m (sk j)))) js) d) \<and>
    agree_but pn 16 pv 4 m m''"
  using assms(9-)
proof (induction js arbitrary: i m' d)
  case Nil
  let ?m1 = "store_bytes m' pn (replicate 16 0)"
  have zero: "agree_but pn 16 pv 4 m ?m1" using agree_store(1) [OF Nil(3), of "replicate 16 0"] by simp
  have "power_supply_loop L s2u st ops pn pv handle i m' d = (?m1, d)"
    using next_word(1) [OF pn pv handle words zero Nil(2)] Nil(1)
    by (subst power_supply_loop.simps) (simp add: sk_def)
  then show ?case using zero by simp
next
  case (Cons j js)
  let ?m1 = "store_bytes m' pn (replicate 16 0)"
  let ?m2 = "store32 ?m1 pv (load32 ?m1 (data_addr (script_mod_buf st) ?m1 (sk j)))"
  let ?m3 = "AsciiStrCpyS L pn 8 (mem_str ?m2 (sk j) 8) ?m2"
  let ?w = "load32 m (data_addr (script_mod_buf st) m (sk j))"
  let ?m4 = "if 10000 < sint ?w then store32 ?m3 pv (word_of_int (sint ?w mod 10000)) else ?m3"
  have zero: "agree_but pn 16 pv 4 m ?m1" using agree_store(1) [OF Cons.prems(3), of "replicate 16 0"] by simp
  have "j \<in> set [i..main_lenth m mk - 1]" using Cons.prems(1) by (metis filter_is_subset list.set_intros(1) subsetD)
  then have j: "0 \<le> j" "j < main_lenth m mk" using Cons.prems(2) by auto
  have z: "mem_str ?m1 pn 16 = []" by (simp add: mem_str_zeros)
  note r = supply_round [OF law pn pv loc zero j z, folded sk_def]
  have nxt: "script_parser_fetch_subkey_next L st handle pn pv i ?m1 = (0, j + 1, ?m3)"
    using next_word(2) [OF pn pv handle words zero Cons.prems(2)] Cons.prems(1) by (simp add: sk_def Let_def)
  have a4: "agree_but pn 16 pv 4 m ?m4"
    using r(3) agree_store(2) [OF r(3)] by (simp add: store32_def)
  have "0 \<le> j + 1" using j(1) by simp
  from Cons.IH [OF filter_upto_rest [OF Cons.prems(1)] this a4]
  show ?case
    unfolding loop_round [OF nxt r(1,2) loc refl, of s2u ops d] list.map fold.simps comp_def .
qed

text \<open>
  C9: setting the supplies from the script. With a section \<open>power_sply\<close> that holds no strings,
  and local variables apart from it, the loop ends and has sent one request per word
  entry, in the order of the script; nothing but the two local variables changes in memory.
\<close>

theorem power_supplies_from_script:
  assumes "str_lib_law L"
    and start: "script_parser_fetch_subkey_start stack st m (Some (map of_char ''power_sply'')) = handle" "handle \<noteq> 0"
  defines "mk \<equiv> ucast handle"
  assumes "local_apart st m mk pn 16" and "local_apart st m mk pv 4" and "apart pn 16 pv 4"
    and "\<forall>j \<in> {0..<main_lenth m mk}. sk_type m (sub_key_addr (script_mod_buf st) m mk j) \<noteq> TYPE_STRING"
  shows "\<exists>m'. AxpPowerSupplySetOutPut L s2u stack st ops pn pv m d =
      (EFI_SUCCESS, m', fold (supply_request s2u ops) (section_words st m mk) d) \<and> agree_but pn 16 pv 4 m m'"
proof -
  have "agree_but pn 16 pv 4 m m" by (simp add: agree_but_def)
  from supply_loop [OF assms(1,5,6,7) start(2) meta_eq_to_obj_eq [OF mk_def] assms(8) refl _ this, of 0 s2u ops d]
  show ?thesis
    unfolding AxpPowerSupplySetOutPut_def start(1) section_words_def Let_def using start(2) by auto
qed

text \<open>
  A section whose names all have eight or more bytes (such as \<open>dcdc1_vol\<close>) therefore sets nothing:
  every request goes out with an empty name.
\<close>

lemma long_name_request: "8 \<le> length (fst e) \<Longrightarrow> supply_request s2u ops e d = d"
  by (simp add: supply_request_def Axp81XSetSupplyStatusByName_def str_prefix_def Let_def)

lemma long_supply_names_ignored:
  "\<forall>e \<in> set es. 8 \<le> length (fst e) \<Longrightarrow> fold (supply_request s2u ops) es d = d"
  by (induction es) (simp_all add: long_name_request)

section \<open>Core voltage and clock\<close>

text \<open>
  The firmware's power chip and the clock registers are separate devices: calls that access the one
  do not change the other.
\<close>

abbreviation (input) clock_regs :: "u32 set" where
  "clock_regs \<equiv> {CCMU_PLL_CPUX_CTRL_REG, CCMU_CPUX_AXI_CFG_REG, CCMU_AHB2_CFG_GREG, CCMU_PLL_LOCK_CTRL_REG}"

locale power_domain = fw: pmu_firmware p pmu cfg + ccm: mmio_registers p reg ccm
  for p :: "'h plat" and pmu cfg reg ccm +
  assumes trap_keeps_clock: "f \<in> {ARM_SVC_ARISC_READ_PMU, ARM_SVC_ARISC_WRITE_PMU} \<Longrightarrow>
      b \<in> ccm \<Longrightarrow> reg (snd (smc_trap p f x y 0 h)) b = reg h b"
    and read_keeps_pmu: "c \<in> cfg \<Longrightarrow> pmu (snd (MmioRead32 p a h)) c = pmu h c"
    and write_keeps_pmu: "a \<in> clock_regs \<Longrightarrow> c \<in> cfg \<Longrightarrow> pmu (MmioWrite32 p a v h) c = pmu h c"
begin

lemma bus_keeps_clock:
  assumes "b \<in> ccm"
  shows "bus_keeps (Axp81XLib_PmBusOps p junk) (\<lambda>s. reg (snd s) b)"
  using trap_keeps_clock [OF _ assms] 
  by (auto simp: bus_keeps_def Axp81XLib_PmBusOps_def lib_read lib_write split: prod.splits) (metis insertCI snd_conv)+

lemma clock_keeps_rail:
  assumes "rail_regs \<subseteq> cfg"
  shows "SunxiClockSetC0CorePll p f h = Some (st, h') \<Longrightarrow> rail_mv (rail_spec_of r) (pmu h') = rail_mv (rail_spec_of r) (pmu h)"
    and "rail_mv (rail_spec_of r) (pmu (snd (SunxiClockGetC0CorePll p h))) = rail_mv (rail_spec_of r) (pmu h)"
proof -
  have c: "rs_vol (rail_spec_of r) \<in> cfg" using rail_regs_memb [OF assms] by simp
  let ?mv = "\<lambda>h. rail_mv (rail_spec_of r) (pmu h)"
  have r: "?mv (snd (MmioRead32 p a h)) = ?mv h" for a h by (simp add: rail_mv_def read_keeps_pmu [OF c])
  have w: "?mv (MmioWrite32 p a v h) = ?mv h" if "a \<in> clock_regs" for a v h
    by (simp add: rail_mv_def write_keeps_pmu [OF that c])
  show "SunxiClockSetC0CorePll p f h = Some (st, h') \<Longrightarrow> ?mv h' = ?mv h"
    by (rule set_pll_keeps [OF r w])
  show "?mv (snd (SunxiClockGetC0CorePll p h)) = ?mv h" by (rule get_pll_keeps [OF r])
qed

lemma get_pll_regs:
  shows "b \<in> ccm \<Longrightarrow> reg (snd (SunxiClockGetC0CorePll p h)) b = reg h b"
    and "clock_regs \<subseteq> ccm \<Longrightarrow> fst (SunxiClockGetC0CorePll p (snd (SunxiClockGetC0CorePll p h))) = fst (SunxiClockGetC0CorePll p h)"
proof -
  show regs: "reg (snd (SunxiClockGetC0CorePll p h)) b = reg h b" if "b \<in> ccm" for b
    using ccm.snd_read [OF that] by (rule get_pll_keeps)
  show "fst (SunxiClockGetC0CorePll p (snd (SunxiClockGetC0CorePll p h))) = fst (SunxiClockGetC0CorePll p h)" if "clock_regs \<subseteq> ccm"
    using that regs unfolding SunxiClockGetC0CorePll_def [of p "snd (SunxiClockGetC0CorePll p h)"]
    by (simp add: SunxiClockGetC0CorePll_def [of p h] ccm.fst_read ccm.snd_read split_beta Let_def)
qed

lemma core_scaling:
  assumes cfg: "rail_regs \<subseteq> cfg" and ccm: "clock_regs \<subseteq> ccm"
    and v: "Corevoltage < 0x80000000" and f: "CoreClock < 2022"
  defines "V \<equiv> (if CoreClock = 0 \<or> Corevoltage = 0 then 1100 else uint Corevoltage)"
    and "F \<equiv> (if CoreClock = 0 \<or> Corevoltage = 0 then 1008 else if CoreClock < 24 then 24 else uint CoreClock)"
    and "rg \<equiv> rs_range (rail_spec_of DCDC2)"
  shows "\<exists>s'. Cluster0CpuVFS p junk Corevoltage CoreClock s = Some (EFI_SUCCESS, s') \<and>
    ((\<forall>a \<in> ccm. reg (snd s') a = reg (snd s) a) \<or>
     rail_mv (rail_spec_of DCDC2) (pmu (snd s')) = v_of_sel rg (v_sel rg V) \<and>
     (let mhz = fst (SunxiClockGetC0CorePll p (snd s')) in 6 * (F div 6) \<le> mhz \<and> mhz \<le> max 60 (6 * (F div 6) + 66)))"
proof -
  let ?ops = "Axp81XLib_PmBusOps p junk"
  let ?cc = "if CoreClock = 0 \<or> Corevoltage = 0 then 1008 else CoreClock"
  let ?cv = "if CoreClock = 0 \<or> Corevoltage = 0 then 1100 else Corevoltage"
  obtain st1 s1 where p1: "Axp81XProbe ?ops s = (st1, s1)" by (cases "Axp81XProbe ?ops s")
  obtain st2 s2 where p2: "Axp81XSetSupplyStatus ?ops PMU_SUPPLY_DCDC2 (ucast ?cv) (-1) s1 = (st2, s2)"
    by (cases "Axp81XSetSupplyStatus ?ops PMU_SUPPLY_DCDC2 (ucast ?cv) (-1) s1")
  have rs: "rail_set ?ops AXP81X_ADDR (rail_spec_of DCDC2) (to_int32 (ucast ?cv)) (to_int32 (-1)) s1 = (st2 = 0, s2)"
    using set_by_index_refines_aux [of DCDC2 PMU_SUPPLY_DCDC2 ?ops "ucast ?cv" "-1" s1] status_ok_pair [OF p2] by simp
  have k1: "reg (snd s1) b = reg (snd s) b" if "b \<in> ccm" for b
    using probe_keeps [OF bus_keeps_clock [OF that], of junk s] p1 by simp
  have k2: "reg (snd s2) b = reg (snd s) b" if "b \<in> ccm" for b
    using rail_set_keeps [OF bus_keeps_clock [OF that], of junk AXP81X_ADDR "rail_spec_of DCDC2" "to_int32 (ucast ?cv)" "to_int32 (-1)" s1]
      rs k1 [OF that] by simp
  have run: "Cluster0CpuVFS p junk Corevoltage CoreClock s =
      map_option (\<lambda>s. (EFI_SUCCESS, fst s, snd (SunxiClockGetC0CorePll p (snd s))))
        (if st1 = 0 then if st2 = 0 then map_option (\<lambda>(r, h). (fst s2, h)) (SunxiClockSetC0CorePll p (sint ?cc) (snd s2))
           else Some s2 else Some s1)"
    using p1 p2 unfolding Cluster0CpuVFS_def
    by (cases "CoreClock = 0 \<or> Corevoltage = 0") (simp_all add: Let_def EFI_SUCCESS_def)
  show ?thesis
  proof (cases "st1 = 0 \<and> st2 = 0")
    case False
    let ?t = "if st1 = 0 then s2 else s1"
    have "Cluster0CpuVFS p junk Corevoltage CoreClock s = Some (EFI_SUCCESS, fst ?t, snd (SunxiClockGetC0CorePll p (snd ?t)))"
      using False unfolding run by (cases s1; cases s2) simp
    moreover have "\<forall>a \<in> ccm. reg (snd (SunxiClockGetC0CorePll p (snd ?t))) a = reg (snd s) a"
      using k1 k2 get_pll_regs(1) by auto
    ultimately show ?thesis by auto
  next
    case True
    have F: "sint ?cc < 2022" "(if sint ?cc = 0 then 408 else if sint ?cc < 24 then 24 else sint ?cc) = F"
      using f sint_small_word [of CoreClock] by (auto simp: F_def word_less_def uint_0_iff)
    have V: "to_int32 (ucast ?cv) = V" "0 < V"
      using v sint_small_word [of Corevoltage] uint_0_iff [of Corevoltage] unsigned_greater_eq [where 'a = int, of Corevoltage]
      by (auto simp: V_def to_int32_def word_less_def ucast_up_down_u32 order_less_le)
    obtain h' where h': "SunxiClockSetC0CorePll p (sint ?cc) (snd s2) = Some (0, h')"
      and mhz: "6 * (F div 6) \<le> fst (SunxiClockGetC0CorePll p h')" "fst (SunxiClockGetC0CorePll p h') \<le> max 60 (6 * (F div 6) + 66)"
      using core_pll_range [OF ccm.mmio_registers_axioms ccm F(1), of "snd s2"] unfolding F(2) Let_def by blast
    have "rail_set ?ops AXP81X_ADDR (rail_spec_of DCDC2) V (to_int32 (-1)) s1 = (True, s2)" using rs True V(1) by simp
    from fw.axp.rail_set_view(2) [OF this rail_spec_wf] rail_regs_memb [OF cfg, of DCDC2] V(2)
    have "rail_mv (rail_spec_of DCDC2) (pmu (snd s2)) = v_of_sel rg (v_sel rg V)" by (simp add: rg_def)
    then have "rail_mv (rail_spec_of DCDC2) (pmu (snd (SunxiClockGetC0CorePll p h'))) = v_of_sel rg (v_sel rg V)"
      using clock_keeps_rail [OF cfg] h' by metis
    then show ?thesis
      using True h' mhz unfolding run Let_def by (simp add: get_pll_regs(2) [OF ccm])
  qed
qed

end

text \<open>
  A board on which both halves can be seen: the power chip's registers behind the firmware and the
  memory-mapped registers.
\<close>

definition board_plat :: "((u8 \<Rightarrow> u8) \<times> (u32 \<Rightarrow> u32)) plat" where
  "board_plat = \<lparr>MmioRead32 = (\<lambda>a h. (snd h a, h)), MmioWrite32 = (\<lambda>a v h. (fst h, (snd h)(a := v))),
     smc_trap = (\<lambda>f a v w h. case smc_trap arisc_plat f a v w (fst h) of (r, R) \<Rightarrow> (r, R, snd h))\<rparr>"

interpretation board: power_domain board_plat fst "{a. \<not> (0x48 \<le> a \<and> a \<le> 0x4d)}" snd UNIV
  by unfold_locales (auto simp: board_plat_def arisc_plat_def split: if_splits)



section \<open>A sample script\<close>

text \<open>
  Two sections: the charge current, and two supplies of which one has a name that is too long.
\<close>

definition board_mem :: mem where
  "board_mem = (\<lambda>_. 0)(
     0x1000 := 2, 0x1010 := 112, 0x1011 := 109, 0x1012 := 117, 0x1013 := 48, 0x1030 := 1, 0x1034 := 24, 0x1038 := 112,
     0x1039 := 111, 0x103a := 119, 0x103b := 101, 0x103c := 114, 0x103d := 95, 0x103e := 115, 0x103f := 112, 0x1040 := 108,
     0x1041 := 121, 0x1058 := 2, 0x105c := 34, 0x1060 := 112, 0x1061 := 109, 0x1062 := 117, 0x1063 := 95, 0x1064 := 114,
     0x1065 := 117, 0x1066 := 110, 0x1067 := 116, 0x1068 := 105, 0x1069 := 109, 0x106a := 101, 0x106b := 95, 0x106c := 99,
     0x106d := 104, 0x106e := 103, 0x106f := 99, 0x1070 := 117, 0x1071 := 114, 0x1080 := 54, 0x1084 := 1, 0x1086 := 1,
     0x1088 := 100, 0x1089 := 99, 0x108a := 100, 0x108b := 99, 0x108c := 50, 0x10a8 := 55, 0x10ac := 1, 0x10ae := 1,
     0x10b0 := 97, 0x10b1 := 108, 0x10b2 := 100, 0x10b3 := 111, 0x10b4 := 50, 0x10b5 := 95, 0x10b6 := 118, 0x10b7 := 111,
     0x10b8 := 108, 0x10d0 := 56, 0x10d4 := 1, 0x10d6 := 1, 0x10d8 := 194, 0x10d9 := 1, 0x10dc := 92, 0x10dd := 43,
     0x10e0 := 24, 0x10e1 := 46)"

definition board_state :: script_state where
  "board_state = \<lparr>script_mod_buf = 0x1000, script_main_key_count = 2\<rparr>"

lemma board_sel [simp]: "script_mod_buf board_state = 0x1000" "script_main_key_count board_state = 2"
  by (simp_all add: board_state_def)

lemma board_words:
  "load32 board_mem 0x1030 = 1" "load32 board_mem 0x1034 = 24" "load32 board_mem 0x1058 = 2" "load32 board_mem 0x105c = 34"
  "load32 board_mem 0x1080 = 54" "load32 board_mem 0x1084 = 0x10001" "load32 board_mem 0x10a8 = 55"
  "load32 board_mem 0x10ac = 0x10001" "load32 board_mem 0x10d0 = 56" "load32 board_mem 0x10d4 = 0x10001"
  "load32 board_mem 0x10d8 = 450" "load32 board_mem 0x10dc = 11100" "load32 board_mem 0x10e0 = 11800"
  by (simp_all add: load32_def load_bytes_Suc load_bytes_eval board_mem_def)

lemma board_names:
  "mem_str board_mem 0x1010 32 = map of_char ''pmu0''" "mem_str board_mem 0x1038 32 = map of_char ''power_sply''"
  "mem_str board_mem 0x1060 32 = map of_char ''pmu_runtime_chgcur''" "mem_str board_mem 0x1088 32 = map of_char ''dcdc2''"
  "mem_str board_mem 0x10b0 32 = map of_char ''aldo2_vol''"
  by (simp_all add: mem_str_def load_bytes_Suc load_bytes_eval board_mem_def)

lemma board_keys: "script_keys board_state board_mem = [(0x1010, 0x1060), (0x1038, 0x1088), (0x1038, 0x10b0)]"
  by (simp add: script_keys_def main_keys_def sub_keys_def main_lenth_def main_key_addr_def
      sub_key_addr_def shl2_def board_words upto_rec1)

lemma board_section:
  "section_words board_state board_mem 0x1038 = [(map of_char ''dcdc2'', 11100), (map of_char ''aldo2_vol'', 11800)]"
  by (simp add: section_words_def Let_def main_lenth_def sub_key_addr_def shl2_def board_words upto_rec1 sk_type_def
      data_addr_def board_names)

theorem power_supplies_from_script_witness:
  "\<exists>m'. AxpPowerSupplySetOutPut base_str_lib decimal_prefix [] board_state mem_bus 0x9000 0x9100 board_mem (\<lambda>_. 0) =
      (EFI_SUCCESS, m', snd (Axp81XSetSupplyStatusByName decimal_prefix mem_bus ''dcdc2'' 1100 1 (\<lambda>_. 0)))"
proof -
  have keys: "main_keys board_state = [0x1010, 0x1038]" by (simp add: main_keys_def main_key_addr_def upto_rec1)
  have start: "script_parser_fetch_subkey_start [] board_state board_mem (Some (map of_char ''power_sply'')) = 0x1038"
    using str_at_mem_str [of "map of_char ''power_sply''" 32 board_mem] board_names
    by (simp add: script_parser_fetch_subkey_start_def bkname_open_eq keys del: str_at.simps)
  have two: "j \<in> {0..<2} \<Longrightarrow> j = 0 \<or> j = 1" for j :: int by auto
  have len: "main_lenth board_mem 0x1038 = 2" by (simp add: main_lenth_def board_words)
  have loc: "local_apart board_state board_mem (ucast (0x1038 :: u32)) a n" if "a = 0x9000 \<and> n = 16 \<or> a = 0x9100 \<and> n = 4" for a n
    using that by (auto simp: local_apart_def len Let_def apart_def sub_key_addr_def data_addr_def shl2_def board_words dest!: two)
  have str: "\<forall>j \<in> {0..<main_lenth board_mem (ucast (0x1038 :: u32))}.
      sk_type board_mem (sub_key_addr (script_mod_buf board_state) board_mem (ucast (0x1038 :: u32)) j) \<noteq> TYPE_STRING"
    by (auto simp: len sub_key_addr_def shl2_def board_words sk_type_def dest!: two)
  have nm: "map ((\<lambda>b. char_of (unat b)) \<circ> (of_char :: char \<Rightarrow> u8)) ''dcdc2'' = ''dcdc2''" by code_simp
  have req: "fold (supply_request decimal_prefix mem_bus) (section_words board_state board_mem 0x1038) (\<lambda>_. 0) =
      snd (Axp81XSetSupplyStatusByName decimal_prefix mem_bus ''dcdc2'' 1100 1 (\<lambda>_. 0))"
    by (simp add: board_section long_name_request del: list.map) (simp only: supply_request_def Let_def fst_conv snd_conv, simp add: nm del: list.map)
  show ?thesis
    using power_supplies_from_script [OF base_str_lib_law start _ loc loc _ str, of "0x9000" "0x9100" decimal_prefix mem_bus "\<lambda>_. 0"]
      req by (auto simp: apart_def)
qed

section \<open>Limits from the script\<close>

text \<open>
  The charge current from the script. When the script has a word under \<open>pmu_runtime_chgcur\<close>, that
  word goes to the charger if assertions are compiled in; if they are compiled out, the call
  inside \<open>ASSERT_EFI_ERROR\<close> is dropped with them and the charger is not touched.
\<close>

theorem charge_limit_from_script:
  assumes "str_lib_law L" and "script_mod_buf st \<noteq> 0" and "0 < sint (script_main_key_count st)"
    and "cur \<noteq> 0" and "out_clear st m cur"
    and "map_of (script_view st m) (PMU_SCRIPT_NAME, map of_char ''pmu_runtime_chgcur'') = Some (Single_Word w)"
    and on: "asserts_on A" and off: "asserts_off B"
    and "\<not> EFI_ERROR (fst (Axp81XSetChargeCurrent ops (scast w) d))"
  shows "AxpSetChargeCurrentLimit A L st ops cur m d =
      Some (EFI_SUCCESS, store32 m cur w, snd (Axp81XSetChargeCurrent ops (scast w) d)) \<and>
    AxpSetChargeCurrentLimit B L st ops cur m d = Some (EFI_SUCCESS, store32 m cur w, d)"
proof -
  let ?sub = "map of_char ''pmu_runtime_chgcur'' :: u8 list"
  have fetch: "script_parser_fetch L st (Some PMU_SCRIPT_NAME) (Some ?sub) cur 1 m = (0, store32 m cur w)"
    using fetch_is_lookup [OF assms(1-3) _ _ assms(4) _ assms(5), of PMU_SCRIPT_NAME ?sub 1] assms(6)
    by (simp add: fetch_spec_def)
  have "A (Axp81XSetChargeCurrent ops (scast w)) d = Some (snd (Axp81XSetChargeCurrent ops (scast w) d))"
    using on assms(9) by (simp add: asserts_on_def) (metis prod.collapse)
  moreover have "B (Axp81XSetChargeCurrent ops (scast w)) d = Some d" using off by (simp add: asserts_off_def)
  ultimately show ?thesis unfolding AxpSetChargeCurrentLimit_def fetch by simp
qed

theorem charge_limit_from_script_witness:
  "let run = AxpSetChargeCurrentLimit (\<lambda>e d. if EFI_ERROR (fst (e d)) then None else Some (snd (e d)))
         base_str_lib board_state mem_bus 0x9000 board_mem (\<lambda>_. 0)
   in run = Some (EFI_SUCCESS, store32 board_mem 0x9000 450, snd (Axp81XSetChargeCurrent mem_bus 450 (\<lambda>_. 0)))"
proof -
  let ?A = "\<lambda>e d. if EFI_ERROR (fst (e d)) then None else Some (snd (e d :: efi_status \<times> (u8 \<Rightarrow> u8)))"
  have a: "asserts_on ?A" "asserts_off (\<lambda>e d. Some (d :: u8 \<Rightarrow> u8))" by (auto simp: asserts_on_def asserts_off_def)
  have v: "map_of (script_view board_state board_mem) (PMU_SCRIPT_NAME, map of_char ''pmu_runtime_chgcur'') = Some (Single_Word 450)"
    by (simp add: script_view_def board_keys script_entry_def board_names sk_value_def sk_type_def data_addr_def
        shl2_def board_words)
  have c: "out_clear board_state board_mem 0x9000"
    by (simp add: out_clear_def board_keys data_addr_def shl2_def board_words apart_def)
  have ok: "\<not> EFI_ERROR (fst (Axp81XSetChargeCurrent mem_bus 450 (\<lambda>_. 0)))" by code_simp
  show ?thesis
    using charge_limit_from_script [OF base_str_lib_law _ _ _ c v a, of mem_bus "\<lambda>_. 0"] ok by simp
qed

end
