(* ===== verification/Gpio.thy ===== *)
theory Gpio
  imports Script Mmio
begin

text \<open>
  Pin configuration, second half of \<open>src/Library/SysConfigLib/SysConfigLib.c\<close>. A pin is a port and a
  number; its function (3 bits), pull and drive level (2 bits) and data bit are fields of
  registers it shares with other pins. Requests take a list of pins and collect the
  changes of pins that share registers before writing them back.

  The pin lists of the callers (\<open>user_gpio_set_t\<close>, 56 bytes: name, then at 32 \<open>port\<close>, \<open>port_num\<close>, \<open>mul_sel\<close>,
  \<open>pull\<close>, \<open>drv_level\<close>, \<open>data\<close>) and the handles (a count, and from byte 16 on entries
  \<open>system_gpio_set_t\<close> of 72 bytes: name, \<open>port\<close> at 32, \<open>port_num\<close> at 36, the four user settings from 40, the
  four former hardware settings from 56) are in the flat memory, the registers behind the
  platform. \<open>AllocatePool\<close> is the argument \<open>pool\<close>, which gives the address for a size, 0 when it fails;
  \<open>FreePool\<close> leaves the memory as it is.
\<close>

section \<open>Register addresses and fields\<close>

abbreviation (input) SUNXI_PIO_BASE :: u32 where "SUNXI_PIO_BASE \<equiv> 0x01c20800"
abbreviation (input) SUNXI_CPUS_PIO_BASE :: u32 where "SUNXI_CPUS_PIO_BASE \<equiv> 0x01f02c00"
abbreviation (input) EGPIO_FAIL :: int where "EGPIO_FAIL \<equiv> -1"
abbreviation (input) EGPIO_SUCCESS :: int where "EGPIO_SUCCESS \<equiv> 0"

definition port_base :: "u32 \<Rightarrow> u32" where
  "port_base port =
     (if sint port < 12 then SUNXI_PIO_BASE + (port - 1) * 0x24 else SUNXI_CPUS_PIO_BASE + (port - 12) * 0x24)"

definition GetGroupFuncAddrByPort :: "u32 \<Rightarrow> u32 \<Rightarrow> u32" where
  "GetGroupFuncAddrByPort port port_num = port_base port + push_bit 2 (signed_drop_bit 3 port_num) + 0x00"

definition GetGroupPullAddrByPort :: "u32 \<Rightarrow> u32 \<Rightarrow> u32" where
  "GetGroupPullAddrByPort port port_num = port_base port + push_bit 2 (signed_drop_bit 4 port_num) + 0x1C"

definition GetGroupDlevelAddrByPort :: "u32 \<Rightarrow> u32 \<Rightarrow> u32" where
  "GetGroupDlevelAddrByPort port port_num = port_base port + push_bit 2 (signed_drop_bit 4 port_num) + 0x14"

definition GetGroupDataAddrByPort :: "u32 \<Rightarrow> u32" where
  "GetGroupDataAddrByPort port = port_base port + 0x10"

text \<open>The shifts \<open>(port_num - (port_num_func << 3)) << 2\<close> and \<open>(port_num - (port_num_pull << 4)) << 1\<close>.\<close>

definition func_shift :: "u32 \<Rightarrow> nat" where
  "func_shift port_num = unat (push_bit 2 (port_num - push_bit 3 (drop_bit 3 port_num)))"

definition pull_shift :: "u32 \<Rightarrow> nat" where
  "pull_shift port_num = unat (push_bit 1 (port_num - push_bit 4 (drop_bit 4 port_num)))"

definition put_field :: "u32 \<Rightarrow> nat \<Rightarrow> u32 \<Rightarrow> u32 \<Rightarrow> u32" where
  "put_field msk sh v r = (r AND NOT (push_bit sh msk)) OR push_bit sh v"

text \<open>
  \<open>readl\<close>, \<open>GPIO_REG_READ\<close> and \<open>GPIO_REG_WRITE\<close> go through a pointer to \<open>INTN\<close> and so access 64 bits: the
  register and the one after it. A 32-bit value that is written is extended by zeros.
\<close>

definition readl :: "'h plat \<Rightarrow> u32 \<Rightarrow> 'h \<Rightarrow> u64 \<times> 'h" where
  "readl p a h = (case MmioRead32 p a h of (lo, h) \<Rightarrow>
     case MmioRead32 p (a + 4) h of (hi, h) \<Rightarrow> (ucast lo OR push_bit 32 (ucast hi), h))"

definition GPIO_REG_READ :: "'h plat \<Rightarrow> u32 \<Rightarrow> 'h \<Rightarrow> u32 \<times> 'h" where
  "GPIO_REG_READ p a h = apfst ucast (readl p a h)"

definition GPIO_REG_WRITE :: "'h plat \<Rightarrow> u32 \<Rightarrow> u32 \<Rightarrow> 'h \<Rightarrow> 'h" where
  "GPIO_REG_WRITE p a v h = MmioWrite32 p (a + 4) 0 (MmioWrite32 p a v h)"

section \<open>The pending registers of a group\<close>

text \<open>
  The local variables of the requests: the addresses and new contents of the four registers in
  work, which of them have changed, and the pin before.
\<close>

record gpio_group =
  func_addr :: u32
  pull_addr :: u32
  dlevel_addr :: u32
  data_addr' :: u32
  func_data :: u32
  pull_data :: u32
  dlevel_data :: u32
  data_data :: u32
  func_change :: bool
  pull_change :: bool
  dlevel_change :: bool
  data_change :: bool
  pre_port :: u32
  pre_port_num_func :: u32
  pre_port_num_pull :: u32

definition no_group :: gpio_group where
  "no_group = \<lparr>func_addr = 0, pull_addr = 0, dlevel_addr = 0, data_addr' = 0, func_data = 0, pull_data = 0,
     dlevel_data = 0, data_data = 0, func_change = False, pull_change = False, dlevel_change = False, data_change = False,
     pre_port = 0x7fffffff, pre_port_num_func = 0x7fffffff, pre_port_num_pull = 0x7fffffff\<rparr>"

definition load_group ::
  "(u32 \<Rightarrow> 'h \<Rightarrow> u32 \<times> 'h) \<Rightarrow> u32 \<Rightarrow> u32 \<Rightarrow> gpio_group \<times> 'h \<Rightarrow> gpio_group \<times> 'h" where
  "load_group rd port port_num = (\<lambda>(g, h).
     let fa = GetGroupFuncAddrByPort port port_num; pa = GetGroupPullAddrByPort port port_num;
         da = GetGroupDlevelAddrByPort port port_num; ta = GetGroupDataAddrByPort port;
         (f, h) = rd fa h; (pl, h) = rd pa h; (dl, h) = rd da h; (dt, h) = rd ta h
     in (g\<lparr>func_addr := fa, pull_addr := pa, dlevel_addr := da, data_addr' := ta,
            func_data := f, pull_data := pl, dlevel_data := dl, data_data := dt\<rparr>, h))"

definition load_func :: "(u32 \<Rightarrow> 'h \<Rightarrow> u32 \<times> 'h) \<Rightarrow> u32 \<Rightarrow> u32 \<Rightarrow> gpio_group \<times> 'h \<Rightarrow> gpio_group \<times> 'h" where
  "load_func rd port port_num = (\<lambda>(g, h).
     let fa = GetGroupFuncAddrByPort port port_num; (f, h) = rd fa h
     in (g\<lparr>func_addr := fa, func_data := f\<rparr>, h))"

definition note_pin :: "u32 \<Rightarrow> u32 \<Rightarrow> gpio_group \<Rightarrow> gpio_group" where
  "note_pin port port_num g =
     g\<lparr>pre_port := port, pre_port_num_func := drop_bit 3 port_num, pre_port_num_pull := drop_bit 4 port_num\<rparr>"

definition new_pull_group :: "u32 \<Rightarrow> u32 \<Rightarrow> gpio_group \<Rightarrow> bool" where
  "new_pull_group port port_num g \<longleftrightarrow> drop_bit 4 port_num \<noteq> pre_port_num_pull g \<or> port \<noteq> pre_port g"

section \<open>Early requests\<close>

text \<open>
  \<open>gpio_request_early\<close>: the first pin with a port is taken up before the loop, its function field is
  always cleared, and the loop ends at the first entry without a port.
\<close>

definition early_fields :: "mem \<Rightarrow> u64 \<Rightarrow> gpio_group \<Rightarrow> gpio_group" where
  "early_fields m e g =
     (let port_num = load32 m (e + 36); mul_sel = load32 m (e + 40); pull = load32 m (e + 44);
          drv_level = load32 m (e + 48); dat = load32 m (e + 52); tmp_val = pull_shift port_num;
          g = (if 0 \<le> sint pull then g\<lparr>pull_data := put_field 3 tmp_val (pull AND 3) (pull_data g)\<rparr> else g);
          g = (if 0 \<le> sint drv_level then g\<lparr>dlevel_data := put_field 3 tmp_val (drv_level AND 3) (dlevel_data g)\<rparr> else g)
      in if mul_sel = 1 \<and> 0 \<le> sint dat
         then g\<lparr>data_data := put_field 1 (unat port_num) (dat AND 1) (data_data g), data_change := True\<rparr> else g)"

definition early_func :: "mem \<Rightarrow> u64 \<Rightarrow> int \<Rightarrow> gpio_group \<Rightarrow> gpio_group" where
  "early_func m e set_gpio g =
     (let tmp_val = func_shift (load32 m (e + 36))
      in g\<lparr>func_data := put_field 7 tmp_val (if set_gpio \<noteq> 0 then load32 m (e + 40) AND 7 else 0) (func_data g)\<rparr>)"

definition early_switch :: "'h plat \<Rightarrow> u32 \<Rightarrow> u32 \<Rightarrow> gpio_group \<times> 'h \<Rightarrow> gpio_group \<times> 'h" where
  "early_switch p port port_num = (\<lambda>(g, h).
     if new_pull_group port port_num g then
       let h = GPIO_REG_WRITE p (func_addr g) (func_data g) h;
           h = GPIO_REG_WRITE p (pull_addr g) (pull_data g) h;
           h = GPIO_REG_WRITE p (dlevel_addr g) (dlevel_data g) h;
           h = (if data_change g then GPIO_REG_WRITE p (data_addr' g) (data_data g) h else h)
       in load_group (GPIO_REG_READ p) port port_num (g\<lparr>data_change := False\<rparr>, h)
     else if pre_port_num_func g \<noteq> drop_bit 3 port_num then
       load_func (GPIO_REG_READ p) port port_num (g, GPIO_REG_WRITE p (func_addr g) (func_data g) h)
     else (g, h))"

fun early_pins :: "'h plat \<Rightarrow> mem \<Rightarrow> int \<Rightarrow> u64 list \<Rightarrow> gpio_group \<times> 'h \<Rightarrow> gpio_group \<times> 'h" where
  "early_pins p m set_gpio [] s = s"
| "early_pins p m set_gpio (e # es) s =
     (let port = load32 m (e + 32); port_num = load32 m (e + 36); mul_sel = load32 m (e + 40) in
      if port = 0 then s
      else let (g, h) = early_switch p port port_num s;
               g = note_pin port port_num g;
               g = (if 0 \<le> sint mul_sel then early_func m e set_gpio g else g)
           in early_pins p m set_gpio es (early_fields m e g, h))"

definition gpio_request_early :: "'h plat \<Rightarrow> mem \<Rightarrow> u64 \<Rightarrow> u32 \<Rightarrow> int \<Rightarrow> 'h \<Rightarrow> int \<times> 'h" where
  "gpio_request_early p m user_gpio_list group_count_max set_gpio h =
     (let entries = map (\<lambda>i. user_gpio_list + of_nat (56 * i)) [0..<unat group_count_max]
      in case dropWhile (\<lambda>e. load32 m (e + 32) = 0) entries of
           [] \<Rightarrow> (-1, h)
         | e # es \<Rightarrow>
           let port = load32 m (e + 32); port_num = load32 m (e + 36);
               (g, h) = load_group (GPIO_REG_READ p) port port_num (no_group, h);
               g = early_fields m e (early_func m e set_gpio (note_pin port port_num g));
               (g, h) = early_pins p m set_gpio es (g, h);
               h = (if func_addr g \<noteq> 0 then
                      let h = GPIO_REG_WRITE p (func_addr g) (func_data g) h;
                          h = GPIO_REG_WRITE p (pull_addr g) (pull_data g) h;
                          h = GPIO_REG_WRITE p (dlevel_addr g) (dlevel_data g) h
                      in if data_change g then GPIO_REG_WRITE p (data_addr' g) (data_data g) h else h
                    else h)
           in (0, h))"

section \<open>Requests with a handle\<close>

definition request_switch :: "'h plat \<Rightarrow> u32 \<Rightarrow> u32 \<Rightarrow> gpio_group \<times> 'h \<Rightarrow> gpio_group \<times> 'h" where
  "request_switch p port port_num = (\<lambda>(g, h).
     if new_pull_group port port_num g then
       let h = (if func_change g then MmioWrite32 p (func_addr g) (func_data g) h else h);
           h = (if pull_change g then MmioWrite32 p (pull_addr g) (pull_data g) h else h);
           h = (if dlevel_change g then MmioWrite32 p (dlevel_addr g) (dlevel_data g) h else h);
           h = (if data_change g then MmioWrite32 p (data_addr' g) (data_data g) h else h)
       in load_group (MmioRead32 p) port port_num
            (g\<lparr>func_change := False, pull_change := False, dlevel_change := False, data_change := False\<rparr>, h)
     else if pre_port_num_func g \<noteq> drop_bit 3 port_num then
       load_func (MmioRead32 p) port port_num (g, MmioWrite32 p (func_addr g) (func_data g) h)
     else (g, h))"

text \<open>The user's settings are copied into the entry first; then each setting that is not negative.\<close>

definition copy_settings :: "str_lib \<Rightarrow> u64 \<Rightarrow> u64 \<Rightarrow> mem \<Rightarrow> mem" where
  "copy_settings L e s m =
     (let port = load32 m (e + 32); port_num = load32 m (e + 36);
          m = AsciiStrCpyS L s 32 (mem_str m e 32) m;
          m = store32 m (s + 32) port;
          m = store32 m (s + 36) port_num;
          m = store32 m (s + 40) (load32 m (e + 40));
          m = store32 m (s + 44) (load32 m (e + 44));
          m = store32 m (s + 48) (load32 m (e + 48))
      in store32 m (s + 52) (load32 m (e + 52)))"

definition request_func :: "u64 \<Rightarrow> u64 \<Rightarrow> u32 \<Rightarrow> gpio_group \<times> mem \<Rightarrow> gpio_group \<times> mem" where
  "request_func e s port_num = (\<lambda>(g, m).
     if 0 \<le> sint (load32 m (e + 40)) then
       let tmp_val = func_shift port_num;
           m = store32 m (s + 56) (drop_bit tmp_val (func_data g) AND 7)
       in (g\<lparr>func_data := put_field 7 tmp_val (load32 m (e + 40) AND 7) (func_data g), func_change := True\<rparr>, m)
     else (g, m))"

definition request_pull :: "u64 \<Rightarrow> u64 \<Rightarrow> u32 \<Rightarrow> gpio_group \<times> mem \<Rightarrow> gpio_group \<times> mem" where
  "request_pull e s port_num = (\<lambda>(g, m).
     if 0 \<le> sint (load32 m (e + 44)) then
       let tmp_val = pull_shift port_num;
           m = store32 m (s + 60) (drop_bit tmp_val (pull_data g) AND 3)
       in if 0 \<le> sint (load32 m (e + 44))
          then (g\<lparr>pull_data := put_field 3 tmp_val (load32 m (e + 44) AND 3) (pull_data g), pull_change := True\<rparr>, m)
          else (g, m)
     else (g, m))"

definition request_dlevel :: "u64 \<Rightarrow> u64 \<Rightarrow> u32 \<Rightarrow> gpio_group \<times> mem \<Rightarrow> gpio_group \<times> mem" where
  "request_dlevel e s port_num = (\<lambda>(g, m).
     if 0 \<le> sint (load32 m (e + 48)) then
       let tmp_val = pull_shift port_num;
           m = store32 m (s + 64) (drop_bit tmp_val (dlevel_data g) AND 3)
       in if 0 \<le> sint (load32 m (e + 48))
          then (g\<lparr>dlevel_data := put_field 3 tmp_val (load32 m (e + 48) AND 3) (dlevel_data g), dlevel_change := True\<rparr>, m)
          else (g, m)
     else (g, m))"

definition request_data :: "u64 \<Rightarrow> u32 \<Rightarrow> gpio_group \<times> mem \<Rightarrow> gpio_group \<times> mem" where
  "request_data e port_num = (\<lambda>(g, m).
     if load32 m (e + 40) = 1 \<and> 0 \<le> sint (load32 m (e + 52))
     then (g\<lparr>data_data := put_field 1 (unat port_num) (load32 m (e + 52) AND 1) (data_data g), data_change := True\<rparr>, m)
     else (g, m))"

definition request_pin ::
  "str_lib \<Rightarrow> 'h plat \<Rightarrow> u64 \<Rightarrow> u64 \<Rightarrow> nat \<Rightarrow> gpio_group \<times> mem \<times> 'h \<Rightarrow> gpio_group \<times> mem \<times> 'h" where
  "request_pin L p gpio_list user_gpio_set i = (\<lambda>(g, m, h).
     let s = user_gpio_set + of_nat (72 * i); e = gpio_list + of_nat (56 * i);
         port = load32 m (e + 32); port_num = load32 m (e + 36)
     in if port = 0 then (g, m, h)
        else let m = copy_settings L e s m;
                 (g, h) = request_switch p port port_num (g, h);
                 (g, m) = request_data e port_num (request_dlevel e s port_num (request_pull e s port_num
                   (request_func e s port_num (note_pin port port_num g, m))))
             in (g, m, h))"

definition gpio_request ::
  "str_lib \<Rightarrow> (nat \<Rightarrow> u64) \<Rightarrow> 'h plat \<Rightarrow> u64 \<Rightarrow> u32 \<Rightarrow> mem \<times> 'h \<Rightarrow> u32 \<times> mem \<times> 'h" where
  "gpio_request L pool p gpio_list group_count_max = (\<lambda>(m, h).
     if gpio_list = 0 \<or> group_count_max = 0 then (0, m, h)
     else
       let n = unat group_count_max; port_at = (\<lambda>m i. load32 m (gpio_list + of_nat (56 * i) + 32));
           real_gpio_count = length (filter (\<lambda>i. port_at m i \<noteq> 0) [0..<n]);
           user_gpio_buf = pool (16 + 72 * real_gpio_count)
       in if user_gpio_buf = 0 then (0, m, h)
          else
            let m = store_bytes m user_gpio_buf (replicate (16 + 72 * real_gpio_count) 0);
                m = store32 m user_gpio_buf (of_nat real_gpio_count);
                user_gpio_set = user_gpio_buf + 16
            in case find (\<lambda>i. port_at m i \<noteq> 0) [0..<n] of None \<Rightarrow> (0, m, h)
               | Some first_port \<Rightarrow>
                 let (g, h) = load_group (MmioRead32 p) (port_at m first_port)
                       (load32 m (gpio_list + of_nat (56 * first_port) + 36)) (no_group, h);
                     (g, m, h) = fold (request_pin L p gpio_list user_gpio_set) [first_port..<n] (g, m, h);
                     h = (if func_addr g \<noteq> 0 then
                            let h = MmioWrite32 p (func_addr g) (func_data g) h;
                                h = (if pull_change g then MmioWrite32 p (pull_addr g) (pull_data g) h else h);
                                h = (if dlevel_change g then MmioWrite32 p (dlevel_addr g) (dlevel_data g) h else h)
                            in if data_change g then MmioWrite32 p (data_addr' g) (data_data g) h else h
                          else h)
                 in (ucast user_gpio_buf, m, h))"

text \<open>
  \<open>gpio_request_ex\<close> takes the pins from the script: all of a section, through a list that it
  allocates with \<open>pool1\<close> (72 bytes per pin), or one pin, in a local variable at \<open>one_gpio\<close>.
\<close>

definition gpio_request_ex ::
  "str_lib \<Rightarrow> script_state \<Rightarrow> (nat \<Rightarrow> u64) \<Rightarrow> (nat \<Rightarrow> u64) \<Rightarrow> 'h plat \<Rightarrow> u64 \<Rightarrow> u8 list option \<Rightarrow> u8 list option \<Rightarrow>
   mem \<times> 'h \<Rightarrow> u32 \<times> mem \<times> 'h" where
  "gpio_request_ex L st pool1 pool p one_gpio main_name sub_name = (\<lambda>(m, h).
     case sub_name of
       None \<Rightarrow>
         let gpio_count = script_parser_mainkey_get_gpio_count L st m main_name in
         if gpio_count \<le> 0 then (0, m, h)
         else let gpio_list = pool1 (nat (72 * gpio_count)) in
           if gpio_list = 0 then (0, m, h)
           else (case script_parser_mainkey_get_gpio_cfg L st main_name gpio_list gpio_count m of (ret, m) \<Rightarrow>
             if ret = 0 then gpio_request L pool p gpio_list (word_of_int gpio_count) (m, h) else (0, m, h))
     | Some sub \<Rightarrow>
         (case script_parser_fetch L st main_name (Some sub) one_gpio 14 m of (ret, m) \<Rightarrow>
            if ret < 0 then (0, m, h) else gpio_request L pool p one_gpio 1 (m, h)))"

text \<open>\<open>gpio_request_simple\<close> has room for 32 pins in a local array, of which it clears 16.\<close>

definition gpio_request_simple ::
  "str_lib \<Rightarrow> script_state \<Rightarrow> 'h plat \<Rightarrow> u64 \<Rightarrow> u8 list option \<Rightarrow> u8 list option \<Rightarrow> mem \<times> 'h \<Rightarrow> int \<times> mem \<times> 'h" where
  "gpio_request_simple L st p gpio_list main_name sub_name = (\<lambda>(m, h).
     case sub_name of
       None \<Rightarrow>
         let gpio_count = script_parser_mainkey_get_gpio_count L st m main_name in
         if gpio_count \<le> 0 then (-1, m, h)
         else (case script_parser_mainkey_get_gpio_cfg L st main_name gpio_list gpio_count
                     (store_bytes m gpio_list (replicate (16 * 56) 0)) of (ret, m) \<Rightarrow>
           if ret = 0 then (case gpio_request_early p m gpio_list (word_of_int gpio_count) 1 h of (r, h) \<Rightarrow> (r, m, h))
           else (-1, m, h))
     | Some sub \<Rightarrow>
         (case script_parser_fetch L st main_name (Some sub) gpio_list 14 m of (ret, m) \<Rightarrow>
            if ret < 0 then (0, m, h)
            else (case gpio_request_early p m gpio_list 1 1 h of (r, h) \<Rightarrow> (r, m, h))))"

section \<open>Release\<close>

abbreviation (input) sys_entry :: "u32 \<Rightarrow> nat \<Rightarrow> u64" where
  "sys_entry p_handler i \<equiv> ucast p_handler + 16 + of_nat (72 * i)"

definition load_config :: "'h plat \<Rightarrow> u32 \<Rightarrow> u32 \<Rightarrow> gpio_group \<times> 'h \<Rightarrow> gpio_group \<times> 'h" where
  "load_config p port port_num = (\<lambda>(g, h).
     let fa = GetGroupFuncAddrByPort port port_num; pa = GetGroupPullAddrByPort port port_num;
         da = GetGroupDlevelAddrByPort port port_num;
         (f, h) = MmioRead32 p fa h; (pl, h) = MmioRead32 p pa h; (dl, h) = MmioRead32 p da h
     in (g\<lparr>func_addr := fa, pull_addr := pa, dlevel_addr := da, func_data := f, pull_data := pl, dlevel_data := dl\<rparr>, h))"

definition release_switch :: "'h plat \<Rightarrow> u32 \<Rightarrow> u32 \<Rightarrow> gpio_group \<times> 'h \<Rightarrow> gpio_group \<times> 'h" where
  "release_switch p port port_num = (\<lambda>(g, h).
     if new_pull_group port port_num g then
       let h = MmioWrite32 p (func_addr g) (func_data g) h;
           h = MmioWrite32 p (pull_addr g) (pull_data g) h;
           h = MmioWrite32 p (dlevel_addr g) (dlevel_data g) h
       in load_config p port port_num (g, h)
     else if pre_port_num_func g \<noteq> drop_bit 3 port_num then
       load_func (MmioRead32 p) port port_num (g, MmioWrite32 p (func_addr g) (func_data g) h)
     else (g, h))"

definition release_pin :: "'h plat \<Rightarrow> mem \<Rightarrow> u64 \<Rightarrow> gpio_group \<times> 'h \<Rightarrow> gpio_group \<times> 'h" where
  "release_pin p m s gh =
     (let port = load32 m (s + 32); port_num = load32 m (s + 36);
          (g, h) = release_switch p port port_num gh;
          g = note_pin port port_num g;
          tmp_val = pull_shift port_num
      in (g\<lparr>func_data := func_data g AND NOT (push_bit (func_shift port_num) 7),
            pull_data := put_field 3 tmp_val (load32 m (s + 60) AND 3) (pull_data g),
            dlevel_data := put_field 3 tmp_val (load32 m (s + 64) AND 3) (dlevel_data g)\<rparr>, h))"

definition gpio_release :: "'h plat \<Rightarrow> u32 \<Rightarrow> int \<Rightarrow> mem \<Rightarrow> 'h \<Rightarrow> int \<times> 'h" where
  "gpio_release p p_handler if_release_to_default_status m h =
     (if p_handler = 0 then (EGPIO_FAIL, h)
      else let group_count_max = load32 m (ucast p_handler) in
        if group_count_max = 0 then (EGPIO_FAIL, h)
        else if if_release_to_default_status = 2 then (EGPIO_SUCCESS, h)
        else case dropWhile (\<lambda>s. load32 m (s + 32) = 0) (map (sys_entry p_handler) [0..<unat group_count_max]) of
            [] \<Rightarrow> (0, h)
          | s # ss \<Rightarrow>
            let (g, h) = load_config p (load32 m (s + 32)) (load32 m (s + 36)) (no_group, h);
                (g, h) = fold (release_pin p m) (s # ss) (g, h);
                h = (if func_addr g \<noteq> 0 then MmioWrite32 p (func_addr g) (func_data g) h else h);
                h = (if pull_addr g \<noteq> 0 then MmioWrite32 p (pull_addr g) (pull_data g) h else h);
                h = (if dlevel_addr g \<noteq> 0 then MmioWrite32 p (dlevel_addr g) (dlevel_data g) h else h)
            in (EGPIO_SUCCESS, h))"

section \<open>Status of pins\<close>

definition copy_user_status :: "str_lib \<Rightarrow> u64 \<Rightarrow> u64 \<Rightarrow> mem \<Rightarrow> mem" where
  "copy_user_status L s t m =
     (let m = store32 m (t + 32) (load32 m (s + 32));
          m = store32 m (t + 36) (load32 m (s + 36));
          m = store32 m (t + 44) (load32 m (s + 44));
          m = store32 m (t + 40) (load32 m (s + 40));
          m = store32 m (t + 48) (load32 m (s + 48));
          m = store32 m (t + 52) (load32 m (s + 52))
      in AsciiStrCpyS L t 32 (mem_str m s 32) m)"

text \<open>
  The hardware state of a pin. The addresses are those of the pin's own registers in every round:
  \<open>gpio_get_all_pin_status\<close> keeps them only while the pin stays in the same group.
\<close>

definition read_status :: "str_lib \<Rightarrow> 'h plat \<Rightarrow> u64 \<Rightarrow> u64 \<Rightarrow> mem \<times> 'h \<Rightarrow> mem \<times> 'h" where
  "read_status L p s t = (\<lambda>(m, h).
     let port = load32 m (s + 32); port_num = load32 m (s + 36);
         m = store32 m (t + 32) port;
         m = store32 m (t + 36) port_num;
         m = AsciiStrCpyS L t 32 (mem_str m s 32) m;
         (pl, h) = MmioRead32 p (GetGroupPullAddrByPort port port_num) h;
         m = store32 m (t + 44) (drop_bit (pull_shift port_num) pl AND 3);
         (dl, h) = MmioRead32 p (GetGroupDlevelAddrByPort port port_num) h;
         m = store32 m (t + 48) (drop_bit (pull_shift port_num) dl AND 3);
         (f, h) = MmioRead32 p (GetGroupFuncAddrByPort port port_num) h;
         m = store32 m (t + 40) (drop_bit (func_shift port_num) f AND 7)
     in if sint (load32 m (t + 40)) \<le> 1
        then (case MmioRead32 p (GetGroupDataAddrByPort port) h of (d, h) \<Rightarrow>
                (store32 m (t + 52) (drop_bit (unat port_num) d AND 1), h))
        else (store32 m (t + 52) (-1), h))"

definition gpio_get_all_pin_status ::
  "str_lib \<Rightarrow> 'h plat \<Rightarrow> u32 \<Rightarrow> u64 \<Rightarrow> u32 \<Rightarrow> u32 \<Rightarrow> mem \<times> 'h \<Rightarrow> int \<times> mem \<times> 'h" where
  "gpio_get_all_pin_status L p p_handler gpio_status gpio_count_max if_get_from_hardware = (\<lambda>(m, h).
     if p_handler = 0 \<or> gpio_status = 0 \<or> gpio_count_max = 0 then (EGPIO_FAIL, m, h)
     else let group_count_max = load32 m (ucast p_handler) in
       if group_count_max = 0 then (EGPIO_FAIL, m, h)
       else
         let n = unat (min group_count_max gpio_count_max);
             t = (\<lambda>i. gpio_status + of_nat (56 * i))
         in if if_get_from_hardware = 0
            then (EGPIO_SUCCESS, fold (\<lambda>i. copy_user_status L (sys_entry p_handler i) (t i)) [0..<n] m, h)
            else case find (\<lambda>i. load32 m (sys_entry p_handler i + 32) \<noteq> 0) [0..<n] of
                None \<Rightarrow> (0, m, h)
              | Some first_port \<Rightarrow>
                (EGPIO_SUCCESS, fold (\<lambda>i. read_status L p (sys_entry p_handler i) (t i)) [first_port..<n] (m, h)))"

text \<open>
  \<open>gpio_get_one_pin_status\<close> reads through \<open>readl\<close>. A null name is dereferenced when the handle has one
  pin; that case has no result.
\<close>

definition unsigned_base :: "u32 \<Rightarrow> u32" where
  "unsigned_base port =
     (if port < 12 then SUNXI_PIO_BASE + (port - 1) * 0x24 else SUNXI_CPUS_PIO_BASE + (port - 12) * 0x24)"

definition read_one_status :: "'h plat \<Rightarrow> u64 \<Rightarrow> u32 \<Rightarrow> u32 \<Rightarrow> mem \<times> 'h \<Rightarrow> mem \<times> 'h" where
  "read_one_status p t port port_num = (\<lambda>(m, h).
     let base = unsigned_base port; func_off = push_bit 2 (drop_bit 3 port_num); pull_off = push_bit 2 (drop_bit 4 port_num);
         (f, h) = readl p (base + func_off + 0x00) h;
         m = store32 m (t + 40) (ucast (drop_bit (func_shift port_num) f AND 7));
         (pl, h) = readl p (base + pull_off + 0x1C) h;
         m = store32 m (t + 44) (ucast (drop_bit (pull_shift port_num) pl AND 3));
         (dl, h) = readl p (base + pull_off + 0x14) h;
         m = store32 m (t + 48) (ucast (drop_bit (pull_shift port_num) dl AND 3))
     in if sint (load32 m (t + 40)) \<le> 1
        then (case readl p (base + 0x10) h of (d, h) \<Rightarrow>
                (store32 m (t + 52) (ucast (drop_bit (unat port_num) d AND 1)), h))
        else (store32 m (t + 52) (-1), h))"

definition gpio_get_one_pin_status ::
  "str_lib \<Rightarrow> 'h plat \<Rightarrow> u32 \<Rightarrow> u64 \<Rightarrow> u8 list option \<Rightarrow> u32 \<Rightarrow> mem \<times> 'h \<Rightarrow> (int \<times> mem \<times> 'h) option" where
  "gpio_get_one_pin_status L p p_handler t gpio_name if_get_from_hardware = (\<lambda>(m, h).
     if p_handler = 0 \<or> t = 0 then Some (EGPIO_FAIL, m, h)
     else let group_count_max = load32 m (ucast p_handler) in
       if group_count_max = 0 then Some (EGPIO_FAIL, m, h)
       else case gpio_name of
           None \<Rightarrow> if group_count_max > 1 then Some (EGPIO_FAIL, m, h) else None
         | Some name \<Rightarrow>
           (case find (\<lambda>s. str_at m s name) (map (sys_entry p_handler) [0..<unat group_count_max]) of
              None \<Rightarrow> Some (EGPIO_SUCCESS, m, h)
            | Some s \<Rightarrow>
              let m = AsciiStrCpyS L t 32 (mem_str m s 32) m;
                  port = load32 m (s + 32); port_num = load32 m (s + 36);
                  m = store32 m (t + 32) port;
                  m = store32 m (t + 36) port_num
              in if if_get_from_hardware = 0 then
                   let m = store32 m (t + 40) (load32 m (s + 40));
                       m = store32 m (t + 44) (load32 m (s + 44));
                       m = store32 m (t + 48) (load32 m (s + 48))
                   in Some (EGPIO_SUCCESS, store32 m (t + 52) (load32 m (s + 52)), h)
                 else Some (EGPIO_SUCCESS, read_one_status p t port port_num (m, h))))"

section \<open>Changes to single pins\<close>

definition gpio_set_one_pin_status ::
  "'h plat \<Rightarrow> u32 \<Rightarrow> u64 \<Rightarrow> u8 list option \<Rightarrow> u32 \<Rightarrow> mem \<Rightarrow> 'h \<Rightarrow> int \<times> 'h" where
  "gpio_set_one_pin_status p p_handler gpio_status gpio_name if_set_to_current_input_status m h =
     (case gpio_name of None \<Rightarrow> (EGPIO_FAIL, h)
      | Some name \<Rightarrow>
        if p_handler = 0 \<or> if_set_to_current_input_status \<noteq> 0 \<and> gpio_status = 0 then (EGPIO_FAIL, h)
        else let group_count_max = load32 m (ucast p_handler) in
          if group_count_max = 0 then (EGPIO_FAIL, h)
          else case find (\<lambda>s. str_at m s name) (map (sys_entry p_handler) [0..<unat group_count_max]) of
              None \<Rightarrow> (EGPIO_SUCCESS, h)
            | Some s \<Rightarrow>
              let port = load32 m (s + 32); port_num = load32 m (s + 36);
                  q = (if if_set_to_current_input_status \<noteq> 0 then gpio_status else s);
                  mul_sel = load32 m (q + 40); pull = load32 m (q + 44);
                  drv_level = load32 m (q + 48); dat = load32 m (q + 52);
                  h = (if 0 \<le> sint mul_sel
                       then mmio_rmw p (GetGroupFuncAddrByPort port port_num) (put_field 7 (func_shift port_num) mul_sel) h else h);
                  h = (if 0 \<le> sint pull
                       then mmio_rmw p (GetGroupPullAddrByPort port port_num) (put_field 3 (pull_shift port_num) pull) h else h);
                  h = (if 0 \<le> sint drv_level
                       then mmio_rmw p (GetGroupDlevelAddrByPort port port_num) (put_field 3 (pull_shift port_num) drv_level) h else h)
              in (EGPIO_SUCCESS,
                  if mul_sel = 1 \<and> 0 \<le> sint dat
                  then mmio_rmw p (GetGroupDataAddrByPort port) (put_field 1 (unat port_num) (dat AND 1)) h else h))"

text \<open>
  The pin a handle stands for: its only pin, whatever the name, or the first one with the name.
\<close>

definition find_pin :: "mem \<Rightarrow> u32 \<Rightarrow> u8 list option \<Rightarrow> u64 option" where
  "find_pin m p_handler gpio_name =
     (let group_count_max = load32 m (ucast p_handler) in
      if group_count_max = 0 then None
      else if group_count_max = 1 then Some (sys_entry p_handler 0)
      else case gpio_name of None \<Rightarrow> None
        | Some name \<Rightarrow> find (\<lambda>s. str_at m s name) (map (sys_entry p_handler) [0..<unat group_count_max]))"

definition gpio_set_one_pin_io_status :: "'h plat \<Rightarrow> u32 \<Rightarrow> u32 \<Rightarrow> u8 list option \<Rightarrow> mem \<Rightarrow> 'h \<Rightarrow> int \<times> 'h" where
  "gpio_set_one_pin_io_status p p_handler if_set_to_output_status gpio_name m h =
     (if p_handler = 0 \<or> if_set_to_output_status > 1 then (EGPIO_FAIL, h)
      else case find_pin m p_handler gpio_name of None \<Rightarrow> (EGPIO_FAIL, h)
        | Some s \<Rightarrow>
          let port = load32 m (s + 32); port_num = load32 m (s + 36)
          in (EGPIO_SUCCESS, mmio_rmw p (GetGroupFuncAddrByPort port port_num)
                (put_field 7 (func_shift port_num) if_set_to_output_status) h))"

definition gpio_set_one_pin_pull :: "'h plat \<Rightarrow> u32 \<Rightarrow> u32 \<Rightarrow> u8 list option \<Rightarrow> mem \<Rightarrow> 'h \<Rightarrow> int \<times> 'h" where
  "gpio_set_one_pin_pull p p_handler set_pull_status gpio_name m h =
     (if p_handler = 0 \<or> set_pull_status \<ge> 4 then (EGPIO_FAIL, h)
      else case find_pin m p_handler gpio_name of None \<Rightarrow> (EGPIO_FAIL, h)
        | Some s \<Rightarrow>
          let port = load32 m (s + 32); port_num = load32 m (s + 36)
          in (EGPIO_SUCCESS, mmio_rmw p (GetGroupPullAddrByPort port port_num)
                (put_field 3 (pull_shift port_num) set_pull_status) h))"

definition gpio_set_one_pin_driver_level :: "'h plat \<Rightarrow> u32 \<Rightarrow> u32 \<Rightarrow> u8 list option \<Rightarrow> mem \<Rightarrow> 'h \<Rightarrow> int \<times> 'h" where
  "gpio_set_one_pin_driver_level p p_handler set_driver_level gpio_name m h =
     (if p_handler = 0 \<or> set_driver_level \<ge> 4 then (EGPIO_FAIL, h)
      else case find_pin m p_handler gpio_name of None \<Rightarrow> (EGPIO_FAIL, h)
        | Some s \<Rightarrow>
          let port = load32 m (s + 32); port_num = load32 m (s + 36)
          in (EGPIO_SUCCESS, mmio_rmw p (GetGroupDlevelAddrByPort port port_num)
                (put_field 3 (pull_shift port_num) set_driver_level) h))"

definition pin_function :: "'h plat \<Rightarrow> u32 \<Rightarrow> u32 \<Rightarrow> 'h \<Rightarrow> u32 \<times> 'h" where
  "pin_function p port port_num h =
     (case readl p (unsigned_base port + push_bit 2 (drop_bit 3 port_num) + 0x00) h of (r, h) \<Rightarrow>
        (drop_bit (func_shift port_num) (ucast r) AND 7, h))"

definition gpio_read_one_pin_value :: "'h plat \<Rightarrow> u32 \<Rightarrow> u8 list option \<Rightarrow> mem \<Rightarrow> 'h \<Rightarrow> int \<times> 'h" where
  "gpio_read_one_pin_value p p_handler gpio_name m h =
     (if p_handler = 0 then (EGPIO_FAIL, h)
      else case find_pin m p_handler gpio_name of None \<Rightarrow> (EGPIO_FAIL, h)
        | Some s \<Rightarrow>
          let port = load32 m (s + 32); port_num = load32 m (s + 36);
              (func_val, h) = pin_function p port port_num h
          in if func_val = 0
             then (case readl p (unsigned_base port + 0x10) h of (d, h) \<Rightarrow>
                     (sint (ucast (drop_bit (unat port_num) d AND 1) :: u32), h))
             else (EGPIO_FAIL, h))"

definition gpio_write_one_pin_value :: "'h plat \<Rightarrow> u32 \<Rightarrow> u32 \<Rightarrow> u8 list option \<Rightarrow> mem \<Rightarrow> 'h \<Rightarrow> int \<times> 'h" where
  "gpio_write_one_pin_value p p_handler value_to_gpio gpio_name m h =
     (if p_handler = 0 \<or> value_to_gpio \<ge> 2 then (EGPIO_FAIL, h)
      else case find_pin m p_handler gpio_name of None \<Rightarrow> (EGPIO_FAIL, h)
        | Some s \<Rightarrow>
          let port = load32 m (s + 32); port_num = load32 m (s + 36);
              (func_val, h) = pin_function p port port_num h
          in if func_val = 1
             then (EGPIO_SUCCESS, mmio_rmw p (GetGroupDataAddrByPort port) (put_field 1 (unat port_num) value_to_gpio) h)
             else (EGPIO_FAIL, h))"

end
