(* ===== verification/GpioPins.thy ===== *)
theory GpioPins
  imports Gpio
begin

text \<open>
  What the pin requests do to the pins. The abstract view of the registers is the state of every
  pin (\<open>pin_state_of\<close>: function, pull, drive level and data bit), and \<open>set_pin\<close> is the reference
  program that sets one pin. The lemmas show that pins do not share fields, that the
  requests, which collect changes to shared registers, amount to setting one pin after the other, and
  what the calls for single pins change.
\<close>

section \<open>Fields\<close>

definition get_field :: "u32 \<Rightarrow> nat \<Rightarrow> u32 \<Rightarrow> u32" where
  "get_field msk sh r = drop_bit sh r AND msk"

lemma get_put_same:
  assumes "sh + w \<le> 32" and "v AND mask w = v"
  shows "get_field (mask w) sh (put_field (mask w) sh v r) = v"
proof (rule bit_word_eqI)
  fix n assume n: "n < LENGTH(32)"
  have v: "bit v n \<Longrightarrow> n < w" using assms(2) by (metis bit_and_iff bit_mask_iff)
  show "bit (get_field (mask w) sh (put_field (mask w) sh v r)) n = bit v n"
    using n assms(1) v by (auto simp: get_field_def put_field_def bit_simps)
qed

lemma get_put_other:
  assumes "sh + w \<le> sh' \<or> sh' + w' \<le> sh" and "v AND mask w = v"
  shows "get_field (mask w') sh' (put_field (mask w) sh v r) = get_field (mask w') sh' r"
proof (rule bit_word_eqI)
  fix n assume n: "n < LENGTH(32)"
  have v: "bit v k \<Longrightarrow> k < w" for k using assms(2) by (metis bit_and_iff bit_mask_iff)
  show "bit (get_field (mask w') sh' (put_field (mask w) sh v r)) n = bit (get_field (mask w') sh' r) n"
    using n assms(1) v [of "sh' + n - sh"] by (auto simp: get_field_def put_field_def bit_simps dest: bit_imp_le_length)
qed

lemma field_masks: "(7 :: u32) = mask 3" "(3 :: u32) = mask 2" "(1 :: u32) = mask 1"
  by (simp_all add: mask_eq_exp_minus_1)

lemma low_bits: "x - push_bit k (drop_bit k x) = take_bit k (x :: u32)"
  using bits_ident [of k x] by (metis add_diff_cancel_left')

lemma shift_amount:
  assumes "j + k \<le> 32"
  shows "unat (push_bit j (x - push_bit k (drop_bit k x))) = 2 ^ j * (unat (x :: u32) mod 2 ^ k)"
proof -
  have "2 ^ j * (unat x mod 2 ^ k) < 2 ^ j * 2 ^ k" by simp
  also have "\<dots> \<le> 2 ^ 32" using assms by (metis power_add power_increasing one_le_numeral)
  finally have "push_bit j (unat x mod 2 ^ k) < 2 ^ 32" by (simp only: push_bit_eq_mult mult.commute)
  then show ?thesis
    unfolding low_bits unsigned_push_bit_eq unsigned_take_bit_eq
    by (simp add: take_bit_eq_mod push_bit_eq_mult mult.commute)
qed

lemma func_shift_eq: "func_shift port_num = 4 * (unat port_num mod 8)"
  using shift_amount [of 2 3 port_num] by (simp add: func_shift_def)

lemma pull_shift_eq: "pull_shift port_num = 2 * (unat port_num mod 16)"
  using shift_amount [of 1 4 port_num] by (simp add: pull_shift_def)

section \<open>Register addresses\<close>

lemma signed_drop_small: "port_num < 32 \<Longrightarrow> signed_drop_bit k (port_num :: u32) = drop_bit k port_num"
proof (rule bit_word_eqI)
  fix n assume "port_num < 32" and n: "n < LENGTH(32)"
  then have b: "\<not> bit port_num 31" using bit_small_word [of port_num 5 31] by (auto simp: word_less_nat_alt)
  show "bit (signed_drop_bit k port_num) n = bit (drop_bit k port_num) n"
    using b n bit_imp_le_length [of port_num "k + n"] by (auto simp: bit_simps)
qed

definition valid_pin :: "u32 \<times> u32 \<Rightarrow> bool" where
  "valid_pin q \<longleftrightarrow> 1 \<le> fst q \<and> fst q \<le> 12 \<and> snd q < 32"

lemma port_base_uint:
  assumes "1 \<le> port" and "port \<le> 12"
  shows "uint (port_base port) = (if uint port < 12 then 0x01c20800 + 36 * (uint port - 1) else 0x01f02c00)"
proof -
  have b: "1 \<le> uint port" "uint port \<le> 12" using assms by (simp_all add: word_le_def)
  have "unat port < 2 ^ 31" using assms(2) by (simp add: word_le_nat_alt)
  then have s: "sint port = uint port" using sint_small [of port] by simp
  show ?thesis
  proof (cases "uint port < 12")
    case True
    then show ?thesis using b s
      by (simp add: port_base_def uint_word_ariths uint_sub_if' mod_pos_pos_trivial)
  next
    case False
    with b have "port = 12" by (simp add: word_uint_eq_iff)
    then show ?thesis by (simp add: port_base_def)
  qed
qed

lemma bank_arith:
  fixes a b x y :: int
  assumes "0 \<le> a" "a < 36" "0 \<le> b" "b < 36" "1 \<le> x" "x \<le> 12" "1 \<le> y" "y \<le> 12"
    and "(if x < 12 then 0x01c20800 + 36 * (x - 1) else 0x01f02c00) + a = (if y < 12 then 0x01c20800 + 36 * (y - 1) else 0x01f02c00) + b"
  shows "x = y \<and> a = b"
proof -
  have "\<not> x < y" using assms by (cases "x < 12"; cases "y < 12"; simp; linarith)
  moreover have "\<not> y < x" using assms by (cases "x < 12"; cases "y < 12"; simp; linarith)
  ultimately have "x = y" by simp
  with assms show ?thesis by (simp split: if_splits)
qed

lemma bank_uint:
  assumes that: "1 \<le> q" "q \<le> 12" "uint d < 36"
  shows "uint (port_base q + d) = uint (port_base q) + uint (d :: u32)"
proof -
  have "1 \<le> uint q" "uint q \<le> 12" using that by (simp_all add: word_le_def)
  then show ?thesis using that(3) port_base_uint [OF that(1,2)] by (simp add: uint_word_ariths(1) mod_pos_pos_trivial)
qed

lemma bank_inj:
  assumes "1 \<le> port" "port \<le> 12" "1 \<le> port'" "port' \<le> 12" and off: "off < 36" "off' < 36"
    and eq: "port_base port + off = port_base port' + off'"
  shows "port = port' \<and> off = off'"
proof -
  have o: "0 \<le> uint off" "uint off < 36" "0 \<le> uint off'" "uint off' < 36"
    using off by (simp_all add: word_less_def)
  have p: "1 \<le> uint port" "uint port \<le> 12" "1 \<le> uint port'" "uint port' \<le> 12"
    using assms by (simp_all add: word_le_def)
  have "uint (port_base port) + uint off = uint (port_base port') + uint off'"
    using bank_uint [OF assms(1,2) o(2)] bank_uint [OF assms(3,4) o(4)] eq by simp
  then have "uint port = uint port' \<and> uint off = uint off'"
    unfolding port_base_uint [OF assms(1,2)] port_base_uint [OF assms(3,4)] using o p by (intro bank_arith)
  then show ?thesis by (simp add: word_uint_eq_iff)
qed

text \<open>Offsets of the four registers of a pin in the bank of its port.\<close>

lemma pin_offsets:
  assumes "valid_pin (port, n)"
  shows "GetGroupFuncAddrByPort port n = port_base port + push_bit 2 (drop_bit 3 n)"
    and "GetGroupPullAddrByPort port n = port_base port + (push_bit 2 (drop_bit 4 n) + 0x1C)"
    and "GetGroupDlevelAddrByPort port n = port_base port + (push_bit 2 (drop_bit 4 n) + 0x14)"
    and "GetGroupDataAddrByPort port = port_base port + 0x10"
    and "drop_bit 3 n \<in> {0, 1, 2, 3}" and "drop_bit 4 n \<in> {0, 1}"
proof -
  have n: "n < 32" using assms by (simp add: valid_pin_def)
  show "GetGroupFuncAddrByPort port n = port_base port + push_bit 2 (drop_bit 3 n)"
    "GetGroupPullAddrByPort port n = port_base port + (push_bit 2 (drop_bit 4 n) + 0x1C)"
    "GetGroupDlevelAddrByPort port n = port_base port + (push_bit 2 (drop_bit 4 n) + 0x14)"
    "GetGroupDataAddrByPort port = port_base port + 0x10"
    using n by (simp_all add: GetGroupFuncAddrByPort_def GetGroupPullAddrByPort_def GetGroupDlevelAddrByPort_def
        GetGroupDataAddrByPort_def signed_drop_small)
  have "unat n < 32" using n by (simp add: word_less_nat_alt)
  then have "unat (drop_bit 3 n) < 4" "unat (drop_bit 4 n) < 2"
    by (simp_all add: drop_bit_eq_div unat_div)
  then have "unat (drop_bit 3 n) \<in> {0, 1, 2, 3}" "unat (drop_bit 4 n) \<in> {0, 1}" by auto
  then show "drop_bit 3 n \<in> {0, 1, 2, 3}" "drop_bit 4 n \<in> {0, 1}"
    by (simp_all add: word_unat_eq_iff)
qed

lemma func_addr_nonzero: "valid_pin (port, n) \<Longrightarrow> GetGroupFuncAddrByPort port n \<noteq> 0"
proof -
  assume v: "valid_pin (port, n)"
  have p: "1 \<le> port" "port \<le> 12" using v by (auto simp: valid_pin_def)
  have o: "uint (push_bit 2 (drop_bit 3 n)) < 36" using pin_offsets(5) [OF v] by auto
  have "1 \<le> uint port" using p by (simp add: word_le_def)
  moreover have "0 < x + y" if "0 \<le> y" "1 \<le> z" "x = (if z < 12 then 0x01c20800 + 36 * (z - 1) else 0x01f02c00)" for x y z :: int
    using that by (simp split: if_splits)
  ultimately have "0 < uint (port_base port + push_bit 2 (drop_bit 3 n))"
    unfolding bank_uint [OF p o] using unsigned_greater_eq port_base_uint [OF p] by blast
  then show ?thesis unfolding pin_offsets(1) [OF v] by (metis unsigned_0 less_irrefl)
qed

lemma addr_eq:
  assumes q: "valid_pin (port, n)" "valid_pin (port', n')"
  shows "GetGroupFuncAddrByPort port n = GetGroupFuncAddrByPort port' n' \<longleftrightarrow> port = port' \<and> drop_bit 3 n = drop_bit 3 n'"
    and "GetGroupPullAddrByPort port n = GetGroupPullAddrByPort port' n' \<longleftrightarrow> port = port' \<and> drop_bit 4 n = drop_bit 4 n'"
    and "GetGroupDlevelAddrByPort port n = GetGroupDlevelAddrByPort port' n' \<longleftrightarrow> port = port' \<and> drop_bit 4 n = drop_bit 4 n'"
    and "GetGroupDataAddrByPort port = GetGroupDataAddrByPort port' \<longleftrightarrow> port = port'"
    and "GetGroupFuncAddrByPort port n \<noteq> GetGroupPullAddrByPort port' n'"
    and "GetGroupFuncAddrByPort port n \<noteq> GetGroupDlevelAddrByPort port' n'"
    and "GetGroupFuncAddrByPort port n \<noteq> GetGroupDataAddrByPort port'"
    and "GetGroupPullAddrByPort port n \<noteq> GetGroupDlevelAddrByPort port' n'"
    and "GetGroupPullAddrByPort port n \<noteq> GetGroupDataAddrByPort port'"
    and "GetGroupDlevelAddrByPort port n \<noteq> GetGroupDataAddrByPort port'"
proof -
  note o = pin_offsets [OF q(1)] pin_offsets [OF q(2)]
  have eq: "port_base port + a = port_base port' + b \<longleftrightarrow> port = port' \<and> a = b" if "a < 36" "b < 36" for a b
    using bank_inj [of port port' a b] q that by (auto simp: valid_pin_def)
  show "GetGroupFuncAddrByPort port n = GetGroupFuncAddrByPort port' n' \<longleftrightarrow> port = port' \<and> drop_bit 3 n = drop_bit 3 n'"
    unfolding o(1) o(7) using o(5) o(11) by (subst eq) auto
  show "GetGroupPullAddrByPort port n = GetGroupPullAddrByPort port' n' \<longleftrightarrow> port = port' \<and> drop_bit 4 n = drop_bit 4 n'"
    unfolding o(2) o(8) using o(6) o(12) by (subst eq) auto
  show "GetGroupDlevelAddrByPort port n = GetGroupDlevelAddrByPort port' n' \<longleftrightarrow> port = port' \<and> drop_bit 4 n = drop_bit 4 n'"
    unfolding o(3) o(9) using o(6) o(12) by (subst eq) auto
  show "GetGroupDataAddrByPort port = GetGroupDataAddrByPort port' \<longleftrightarrow> port = port'"
    unfolding o(4) o(10) by (subst eq) auto
  show "GetGroupFuncAddrByPort port n \<noteq> GetGroupPullAddrByPort port' n'"
    unfolding o(1) o(8) using o(5) o(12) by (subst eq) auto
  show "GetGroupFuncAddrByPort port n \<noteq> GetGroupDlevelAddrByPort port' n'"
    unfolding o(1) o(9) using o(5) o(12) by (subst eq) auto
  show "GetGroupFuncAddrByPort port n \<noteq> GetGroupDataAddrByPort port'"
    unfolding o(1) o(10) using o(5) by (subst eq) auto
  show "GetGroupPullAddrByPort port n \<noteq> GetGroupDlevelAddrByPort port' n'"
    unfolding o(2) o(9) using o(6) o(12) by (subst eq) auto
  show "GetGroupPullAddrByPort port n \<noteq> GetGroupDataAddrByPort port'"
    unfolding o(2) o(10) using o(6) by (subst eq) auto
  show "GetGroupDlevelAddrByPort port n \<noteq> GetGroupDataAddrByPort port'"
    unfolding o(3) o(10) using o(6) by (subst eq) auto
qed

section \<open>Pins and their settings\<close>

record pin_state =
  pin_func :: u32
  pin_pull :: u32
  pin_drive :: u32
  pin_data :: u32

type_synonym settings = "u32 \<times> u32 \<times> u32 \<times> u32"

definition pin_state_of :: "(u32 \<Rightarrow> u32) \<Rightarrow> u32 \<times> u32 \<Rightarrow> pin_state" where
  "pin_state_of R = (\<lambda>(port, n).
     \<lparr>pin_func = get_field 7 (func_shift n) (R (GetGroupFuncAddrByPort port n)),
      pin_pull = get_field 3 (pull_shift n) (R (GetGroupPullAddrByPort port n)),
      pin_drive = get_field 3 (pull_shift n) (R (GetGroupDlevelAddrByPort port n)),
      pin_data = get_field 1 (unat n) (R (GetGroupDataAddrByPort port))\<rparr>)"

definition apply_settings :: "settings \<Rightarrow> pin_state \<Rightarrow> pin_state" where
  "apply_settings = (\<lambda>(mul_sel, pull, drv_level, dat) s.
     \<lparr>pin_func = (if 0 \<le> sint mul_sel then mul_sel AND 7 else pin_func s),
      pin_pull = (if 0 \<le> sint pull then pull AND 3 else pin_pull s),
      pin_drive = (if 0 \<le> sint drv_level then drv_level AND 3 else pin_drive s),
      pin_data = (if mul_sel = 1 \<and> 0 \<le> sint dat then dat AND 1 else pin_data s)\<rparr>)"

definition set_pin :: "u32 \<times> u32 \<Rightarrow> settings \<Rightarrow> (u32 \<Rightarrow> u32) \<Rightarrow> u32 \<Rightarrow> u32" where
  "set_pin = (\<lambda>(port, n) (mul_sel, pull, drv_level, dat) R.
     let upd = (\<lambda>c a f R. if c then R(a := f (R a)) else R)
     in upd (mul_sel = 1 \<and> 0 \<le> sint dat) (GetGroupDataAddrByPort port) (put_field 1 (unat n) (dat AND 1))
         (upd (0 \<le> sint drv_level) (GetGroupDlevelAddrByPort port n) (put_field 3 (pull_shift n) (drv_level AND 3))
         (upd (0 \<le> sint pull) (GetGroupPullAddrByPort port n) (put_field 3 (pull_shift n) (pull AND 3))
         (upd (0 \<le> sint mul_sel) (GetGroupFuncAddrByPort port n) (put_field 7 (func_shift n) (mul_sel AND 7)) R))))"

lemma put_pin:
  assumes "v AND mask w = v" and "sh + w \<le> 32"
    and "same \<Longrightarrow> a' = a \<and> sh' = sh" and "a' = a \<Longrightarrow> \<not> same \<Longrightarrow> sh + w \<le> sh' \<or> sh' + w \<le> sh"
  shows "get_field (mask w) sh' ((R(a := put_field (mask w) sh v (R a))) a') =
    (if same then v else get_field (mask w) sh' (R a'))"
  using assms get_put_same [OF assms(2,1)] get_put_other [OF _ assms(1), of sh sh' w] by auto

lemma low_bits_differ:
  assumes "drop_bit k n = drop_bit k (n' :: u32)" and "n \<noteq> n'"
  shows "unat n mod 2 ^ k \<noteq> unat n' mod 2 ^ k"
proof
  assume "unat n mod 2 ^ k = unat n' mod 2 ^ k"
  then have "take_bit k n = take_bit k n'"
    by (metis take_bit_eq_mod unsigned_take_bit_eq unsigned_word_eqI)
  with assms bits_ident [of k n] bits_ident [of k n'] show False by simp
qed

lemma put_func:
  assumes "valid_pin (port, n)" "valid_pin (port', n')"
  shows "get_field 7 (func_shift n') ((R(GetGroupFuncAddrByPort port n := put_field 7 (func_shift n) (v AND 7) (R (GetGroupFuncAddrByPort port n)))) (GetGroupFuncAddrByPort port' n')) =
    (if (port', n') = (port, n) then v AND 7 else get_field 7 (func_shift n') (R (GetGroupFuncAddrByPort port' n')))"
  unfolding field_masks(1)
proof (rule put_pin)
  have lt: "unat n mod 8 < 8" "unat n' mod 8 < 8" by simp_all
  then show "func_shift n + 3 \<le> 32" by (simp add: func_shift_eq)
  show "func_shift n + 3 \<le> func_shift n' \<or> func_shift n' + 3 \<le> func_shift n"
    if "GetGroupFuncAddrByPort port' n' = GetGroupFuncAddrByPort port n" "(port', n') \<noteq> (port, n)"
    using that addr_eq(1) [OF assms(2,1)] low_bits_differ [of 3 n' n] by (auto simp: func_shift_eq)
qed (auto simp: and.assoc)

lemma put_two:
  assumes "valid_pin (port, n)" "valid_pin (port', n')" and a: "a \<in> {GetGroupPullAddrByPort, GetGroupDlevelAddrByPort}"
  shows "get_field 3 (pull_shift n') ((R(a port n := put_field 3 (pull_shift n) (v AND 3) (R (a port n)))) (a port' n')) =
    (if (port', n') = (port, n) then v AND 3 else get_field 3 (pull_shift n') (R (a port' n')))"
  unfolding field_masks(2)
proof (rule put_pin)
  have lt: "unat n mod 16 < 16" "unat n' mod 16 < 16" by simp_all
  then show "pull_shift n + 2 \<le> 32" by (simp add: pull_shift_eq)
  show "pull_shift n + 2 \<le> pull_shift n' \<or> pull_shift n' + 2 \<le> pull_shift n"
    if "a port' n' = a port n" "(port', n') \<noteq> (port, n)"
    using that a addr_eq(2,3) [OF assms(2,1)] low_bits_differ [of 4 n' n] by (auto simp: pull_shift_eq)
qed (auto simp: and.assoc)

lemma put_data:
  assumes "valid_pin (port, n)" "valid_pin (port', n')"
  shows "get_field 1 (unat n') ((R(GetGroupDataAddrByPort port := put_field 1 (unat n) (v AND 1) (R (GetGroupDataAddrByPort port)))) (GetGroupDataAddrByPort port')) =
    (if (port', n') = (port, n) then v AND 1 else get_field 1 (unat n') (R (GetGroupDataAddrByPort port')))"
  unfolding field_masks(3)
proof (rule put_pin)
  show "unat n + 1 \<le> 32" using assms by (simp add: valid_pin_def word_less_nat_alt)
  show "unat n + 1 \<le> unat n' \<or> unat n' + 1 \<le> unat n"
    if "GetGroupDataAddrByPort port' = GetGroupDataAddrByPort port" "(port', n') \<noteq> (port, n)"
    using that addr_eq(4) [OF assms(2,1)] by (auto simp: word_unat_eq_iff)
qed (auto simp: and.assoc)

lemma set_pin_state:
  assumes "valid_pin q" "valid_pin q'"
  shows "pin_state_of (set_pin q st R) q' = (if q' = q then apply_settings st (pin_state_of R q) else pin_state_of R q')"
proof -
  obtain port n where q: "q = (port, n)" by (cases q)
  obtain port' n' where q': "q' = (port', n')" by (cases q')
  obtain mul_sel pull drv_level dat where st: "st = (mul_sel, pull, drv_level, dat)" by (cases st)
  note v = assms [unfolded q q']
  note ne = addr_eq(5-10) [OF v] addr_eq(5-10) [OF v(2,1)] addr_eq(5-10) [OF v(1,1)]
  let ?S = "set_pin (port, n) st R"
  have at: "?S (GetGroupFuncAddrByPort port' n') = (if 0 \<le> sint mul_sel then R(GetGroupFuncAddrByPort port n :=
        put_field 7 (func_shift n) (mul_sel AND 7) (R (GetGroupFuncAddrByPort port n))) else R) (GetGroupFuncAddrByPort port' n')"
    "?S (GetGroupPullAddrByPort port' n') = (if 0 \<le> sint pull then R(GetGroupPullAddrByPort port n :=
        put_field 3 (pull_shift n) (pull AND 3) (R (GetGroupPullAddrByPort port n))) else R) (GetGroupPullAddrByPort port' n')"
    "?S (GetGroupDlevelAddrByPort port' n') = (if 0 \<le> sint drv_level then R(GetGroupDlevelAddrByPort port n :=
        put_field 3 (pull_shift n) (drv_level AND 3) (R (GetGroupDlevelAddrByPort port n))) else R) (GetGroupDlevelAddrByPort port' n')"
    "?S (GetGroupDataAddrByPort port') = (if mul_sel = 1 \<and> 0 \<le> sint dat then R(GetGroupDataAddrByPort port :=
        put_field 1 (unat n) (dat AND 1) (R (GetGroupDataAddrByPort port))) else R) (GetGroupDataAddrByPort port')"
    by (auto simp: st set_pin_def Let_def ne ne [symmetric])
  have field: "get_field 7 (func_shift n') (?S (GetGroupFuncAddrByPort port' n')) =
      (if 0 \<le> sint mul_sel \<and> (port', n') = (port, n) then mul_sel AND 7 else get_field 7 (func_shift n') (R (GetGroupFuncAddrByPort port' n')))"
    "get_field 3 (pull_shift n') (?S (GetGroupPullAddrByPort port' n')) =
      (if 0 \<le> sint pull \<and> (port', n') = (port, n) then pull AND 3 else get_field 3 (pull_shift n') (R (GetGroupPullAddrByPort port' n')))"
    "get_field 3 (pull_shift n') (?S (GetGroupDlevelAddrByPort port' n')) =
      (if 0 \<le> sint drv_level \<and> (port', n') = (port, n) then drv_level AND 3 else get_field 3 (pull_shift n') (R (GetGroupDlevelAddrByPort port' n')))"
    "get_field 1 (unat n') (?S (GetGroupDataAddrByPort port')) =
      (if (mul_sel = 1 \<and> 0 \<le> sint dat) \<and> (port', n') = (port, n) then dat AND 1 else get_field 1 (unat n') (R (GetGroupDataAddrByPort port')))"
    unfolding at
    subgoal by (cases "0 \<le> sint mul_sel") (simp_all only: if_True if_False put_func [OF v] simp_thms)
    subgoal by (cases "0 \<le> sint pull") (simp_all only: if_True if_False put_two [OF v insertI1] simp_thms)
    subgoal by (cases "0 \<le> sint drv_level") (simp_all only: if_True if_False put_two [OF v insertI2 [OF insertI1]] simp_thms)
    subgoal by (cases "mul_sel = 1 \<and> 0 \<le> sint dat") (simp_all only: if_True if_False put_data [OF v] simp_thms)
    done
  show ?thesis
    unfolding q q' pin_state_of_def prod.case field by (auto simp: st apply_settings_def)
qed

section \<open>Pending registers\<close>

definition pin_regs :: "u32 \<times> u32 \<Rightarrow> u32 set" where
  "pin_regs = (\<lambda>(port, n). {GetGroupFuncAddrByPort port n, GetGroupPullAddrByPort port n,
     GetGroupDlevelAddrByPort port n, GetGroupDataAddrByPort port})"

text \<open>
  The registers as they will be once the pending contents are written back, and the invariant
  of the pending contents: the group is that of the pin \<open>q\<close>, and what has not changed is what
  the register holds.
\<close>

definition group_view :: "gpio_group \<Rightarrow> (u32 \<Rightarrow> u32) \<Rightarrow> u32 \<Rightarrow> u32" where
  "group_view g R = R(func_addr g := func_data g, pull_addr g := pull_data g,
     dlevel_addr g := dlevel_data g, data_addr' g := data_data g)"

definition group_at :: "gpio_group \<Rightarrow> u32 \<times> u32 \<Rightarrow> bool" where
  "group_at g = (\<lambda>(port, n). func_addr g = GetGroupFuncAddrByPort port n \<and> pull_addr g = GetGroupPullAddrByPort port n \<and>
     dlevel_addr g = GetGroupDlevelAddrByPort port n \<and> data_addr' g = GetGroupDataAddrByPort port)"

definition group_ok :: "(u32 \<Rightarrow> u32) \<Rightarrow> gpio_group \<Rightarrow> u32 \<times> u32 \<Rightarrow> bool" where
  "group_ok R g q \<longleftrightarrow> valid_pin q \<and> group_at g q \<and>
     (\<not> func_change g \<longrightarrow> func_data g = R (func_addr g)) \<and> (\<not> pull_change g \<longrightarrow> pull_data g = R (pull_addr g)) \<and>
     (\<not> dlevel_change g \<longrightarrow> dlevel_data g = R (dlevel_addr g)) \<and> (\<not> data_change g \<longrightarrow> data_data g = R (data_addr' g))"

definition tracks :: "gpio_group \<Rightarrow> u32 \<times> u32 \<Rightarrow> bool" where
  "tracks g q \<longleftrightarrow> pre_port g = fst q \<and> pre_port_num_func g = drop_bit 3 (snd q) \<and> pre_port_num_pull g = drop_bit 4 (snd q)"

lemma group_distinct:
  assumes "valid_pin q" and "group_at g q"
  shows "func_addr g \<noteq> pull_addr g" "func_addr g \<noteq> dlevel_addr g" "func_addr g \<noteq> data_addr' g"
    "pull_addr g \<noteq> dlevel_addr g" "pull_addr g \<noteq> data_addr' g" "dlevel_addr g \<noteq> data_addr' g"
  using assms addr_eq(5-10) by (cases q; simp add: group_at_def)+

lemma same_group:
  assumes "valid_pin (port, n)" "valid_pin (port, n')" and "drop_bit 4 n = drop_bit 4 n'"
  shows "GetGroupPullAddrByPort port n = GetGroupPullAddrByPort port n'"
    "GetGroupDlevelAddrByPort port n = GetGroupDlevelAddrByPort port n'"
    "drop_bit 3 n = drop_bit 3 n' \<Longrightarrow> GetGroupFuncAddrByPort port n = GetGroupFuncAddrByPort port n'"
  using assms addr_eq(1-3) [OF assms(1,2)] by simp_all

context mmio_registers
begin

lemma flush_group:
  assumes "group_ok (reg h) g q" and "pin_regs q \<subseteq> cfg" and "a \<in> cfg"
    and fc: "fc \<or> \<not> func_change g"
  shows "reg (let h = (if fc then MmioWrite32 p (func_addr g) (func_data g) h else h);
        h = (if pull_change g then MmioWrite32 p (pull_addr g) (pull_data g) h else h);
        h = (if dlevel_change g then MmioWrite32 p (dlevel_addr g) (dlevel_data g) h else h)
      in if data_change g then MmioWrite32 p (data_addr' g) (data_data g) h else h) a = group_view g (reg h) a"
  using assms group_distinct [of q g]
  by (auto simp: group_ok_def group_view_def reg_write Let_def)

lemma load_group_ok:
  assumes "pin_regs q \<subseteq> cfg" and "valid_pin q" and "q = (port, n)"
  obtains g' h' where "load_group (MmioRead32 p) port n (g, h) = (g', h')" and "group_at g' q"
    and "\<And>a. a \<in> cfg \<Longrightarrow> reg h' a = reg h a" and "\<And>a. a \<in> cfg \<Longrightarrow> group_view g' (reg h') a = reg h a"
    and "group_ok (reg h') g' q" and "func_change g' = func_change g" "pull_change g' = pull_change g"
      "dlevel_change g' = dlevel_change g" "data_change g' = data_change g"
      "pre_port g' = pre_port g" "pre_port_num_func g' = pre_port_num_func g" "pre_port_num_pull g' = pre_port_num_pull g"
proof -
  obtain g' h' where r: "load_group (MmioRead32 p) port n (g, h) = (g', h')" by fastforce
  show ?thesis
    by (rule that [OF r]) (use r assms in \<open>auto simp: load_group_def Let_def split_beta pin_regs_def group_at_def
        group_view_def group_ok_def reg_simps\<close>)
qed

lemma switch_ok:
  assumes ok: "group_ok (reg h) g q" and q: "pin_regs q \<subseteq> cfg"
    and q': "pin_regs q' \<subseteq> cfg" "valid_pin q'" "q' = (port, n)"
    and tr: "new_pull_group port n g \<or> tracks g q"
  obtains g' h' where "request_switch p port n (g, h) = (g', h')" and "group_ok (reg h') g' q'"
    and "\<And>a. a \<in> cfg \<Longrightarrow> group_view g' (reg h') a = group_view g (reg h) a"
proof (cases "new_pull_group port n g")
  case True
  let ?g = "g\<lparr>func_change := False, pull_change := False, dlevel_change := False, data_change := False\<rparr>"
  let ?h = "let h = (if func_change g then MmioWrite32 p (func_addr g) (func_data g) h else h);
        h = (if pull_change g then MmioWrite32 p (pull_addr g) (pull_data g) h else h);
        h = (if dlevel_change g then MmioWrite32 p (dlevel_addr g) (dlevel_data g) h else h)
      in if data_change g then MmioWrite32 p (data_addr' g) (data_data g) h else h"
  have fl: "reg ?h a = group_view g (reg h) a" if "a \<in> cfg" for a
    by (rule flush_group [OF ok q that]) simp
  obtain g' h' where l: "load_group (MmioRead32 p) port n (?g, ?h) = (g', h')" "group_ok (reg h') g' q'"
    "\<And>a. a \<in> cfg \<Longrightarrow> group_view g' (reg h') a = reg ?h a"
    by (rule load_group_ok [OF q', of ?g ?h]) blast
  have "request_switch p port n (g, h) = (g', h')"
    using True l(1) unfolding request_switch_def by (simp add: Let_def)
  then show ?thesis using that l(2,3) fl by metis
next
  case False
  obtain port0 n0 where q0: "q = (port0, n0)" by (cases q)
  have same: "port0 = port" "drop_bit 4 n0 = drop_bit 4 n" "pre_port_num_func g = drop_bit 3 n0"
    using False tr q0 by (auto simp: tracks_def new_pull_group_def)
  have v: "valid_pin (port, n0)" "valid_pin (port, n)" using ok q' q0 same by (auto simp: group_ok_def)
  note a = same_group [OF v same(2)]
  show ?thesis
  proof (cases "pre_port_num_func g = drop_bit 3 n")
    case True
    then have "request_switch p port n (g, h) = (g, h)" using False by (simp add: request_switch_def)
    moreover have "group_ok (reg h) g q'"
      using ok a same True v q0 q'(3) by (auto simp: group_ok_def group_at_def)
    ultimately show ?thesis using that by blast
  next
    case func: False
    let ?h1 = "MmioWrite32 p (func_addr g) (func_data g) h"
    let ?fa = "GetGroupFuncAddrByPort port n"
    let ?h2 = "snd (MmioRead32 p ?fa ?h1)"
    let ?g = "g\<lparr>func_addr := ?fa, func_data := reg ?h1 ?fa\<rparr>"
    have fa: "?fa \<in> cfg" using q' by (auto simp: pin_regs_def)
    have "request_switch p port n (g, h) = (?g, ?h2)"
      using False func fa by (simp add: request_switch_def load_func_def Let_def split_beta fst_read)
    moreover have ne: "?fa \<noteq> pull_addr g" "?fa \<noteq> dlevel_addr g" "?fa \<noteq> data_addr' g" "?fa \<noteq> func_addr g"
      using ok q0 same func addr_eq(1,5-7) [OF v(2,1)] by (auto simp: group_ok_def group_at_def)
    moreover note d = group_distinct [of q g]
    moreover have "group_ok (reg ?h2) ?g q'"
      using ok a same v q0 q' fa ne d q by (auto simp: group_ok_def group_at_def reg_simps pin_regs_def)
    moreover have "group_view ?g (reg ?h2) b = group_view g (reg h) b" if "b \<in> cfg" for b
      using ok that ne fa d q q0 by (auto simp: group_view_def reg_simps group_ok_def)
    ultimately show ?thesis using that by blast
  qed
qed

end

section \<open>One pin of a request\<close>

definition pin_at :: "mem \<Rightarrow> u64 \<Rightarrow> u32 \<times> u32" where
  "pin_at m e = (load32 m (e + 32), load32 m (e + 36))"

definition settings_at :: "mem \<Rightarrow> u64 \<Rightarrow> settings" where
  "settings_at m e = (load32 m (e + 40), load32 m (e + 44), load32 m (e + 48), load32 m (e + 52))"

definition upd_group :: "u32 \<Rightarrow> settings \<Rightarrow> gpio_group \<Rightarrow> gpio_group" where
  "upd_group n = (\<lambda>(mul_sel, pull, drv_level, dat) g.
     let g = (if 0 \<le> sint mul_sel
              then g\<lparr>func_data := put_field 7 (func_shift n) (mul_sel AND 7) (func_data g), func_change := True\<rparr> else g);
         g = (if 0 \<le> sint pull
              then g\<lparr>pull_data := put_field 3 (pull_shift n) (pull AND 3) (pull_data g), pull_change := True\<rparr> else g);
         g = (if 0 \<le> sint drv_level
              then g\<lparr>dlevel_data := put_field 3 (pull_shift n) (drv_level AND 3) (dlevel_data g), dlevel_change := True\<rparr> else g)
     in if mul_sel = 1 \<and> 0 \<le> sint dat
        then g\<lparr>data_data := put_field 1 (unat n) (dat AND 1) (data_data g), data_change := True\<rparr> else g)"

lemma upd_group_ok:
  assumes "group_ok R g q" and "q = (port, n)"
  shows "group_ok R (upd_group n st (note_pin port n g)) q" and "tracks (upd_group n st (note_pin port n g)) q"
    and "group_view (upd_group n st (note_pin port n g)) R = set_pin q st (group_view g R)"
proof -
  obtain mul_sel pull drv_level dat where st: "st = (mul_sel, pull, drv_level, dat)" by (cases st)
  show "group_ok R (upd_group n st (note_pin port n g)) q" "tracks (upd_group n st (note_pin port n g)) q"
    using assms by (auto simp: st upd_group_def group_ok_def group_at_def note_pin_def Let_def tracks_def)
  have "valid_pin q" "group_at g q" using assms(1) by (auto simp: group_ok_def)
  note d = group_distinct [OF this]
  have a: "GetGroupFuncAddrByPort port n = func_addr g" "GetGroupPullAddrByPort port n = pull_addr g"
    "GetGroupDlevelAddrByPort port n = dlevel_addr g" "GetGroupDataAddrByPort port = data_addr' g"
    using assms by (auto simp: group_ok_def group_at_def)
  show "group_view (upd_group n st (note_pin port n g)) R = set_pin q st (group_view g R)"
    unfolding assms(2) st set_pin_def prod.case a
    by (simp add: upd_group_def note_pin_def group_view_def Let_def d d [symmetric] fun_upd_twist)
qed

lemma request_step:
  assumes st: "settings_at m e = (mul_sel, pull, drv_level, dat)"
    and keep: "\<And>k w. k \<in> {56, 60, 64} \<Longrightarrow> settings_at (store32 m (s + k) w) e = settings_at m e"
  shows "fst (request_func e s n (g, m)) = (if 0 \<le> sint mul_sel
      then g\<lparr>func_data := put_field 7 (func_shift n) (mul_sel AND 7) (func_data g), func_change := True\<rparr> else g)"
    and "fst (request_pull e s n (g, m)) = (if 0 \<le> sint pull
      then g\<lparr>pull_data := put_field 3 (pull_shift n) (pull AND 3) (pull_data g), pull_change := True\<rparr> else g)"
    and "fst (request_dlevel e s n (g, m)) = (if 0 \<le> sint drv_level
      then g\<lparr>dlevel_data := put_field 3 (pull_shift n) (drv_level AND 3) (dlevel_data g), dlevel_change := True\<rparr> else g)"
    and "request_data e n (g, m) = (if mul_sel = 1 \<and> 0 \<le> sint dat
      then g\<lparr>data_data := put_field 1 (unat n) (dat AND 1) (data_data g), data_change := True\<rparr> else g, m)"
    and "snd (request_func e s n (g, m)) \<in> insert m (range (store32 m (s + 56)))"
    and "snd (request_pull e s n (g, m)) \<in> insert m (range (store32 m (s + 60)))"
    and "snd (request_dlevel e s n (g, m)) \<in> insert m (range (store32 m (s + 64)))"
  using st keep [of 56] keep [of 60] keep [of 64]
  by (auto simp: request_func_def request_pull_def request_dlevel_def request_data_def settings_at_def Let_def)

lemma request_steps:
  assumes keep: "\<And>k w m'. k \<in> {56, 60, 64} \<Longrightarrow> P m' \<Longrightarrow> P (store32 m' (s + k) w)" and P: "P m"
    and st: "\<And>m'. P m' \<Longrightarrow> settings_at m' e = st"
  shows "\<exists>m'. request_data e n (request_dlevel e s n (request_pull e s n (request_func e s n (g, m)))) =
    (upd_group n st g, m') \<and> P m'"
proof -
  obtain mul_sel pull drv_level dat where c: "st = (mul_sel, pull, drv_level, dat)" by (cases st)
  have k: "settings_at (store32 m' (s + k) w) e = settings_at m' e" if "P m'" "k \<in> {56, 60, 64}" for k w m'
    using keep [OF that(2,1), of w] that st by simp
  note step = request_step [OF st [unfolded c] k]
  obtain m1 g1 where 1: "request_func e s n (g, m) = (g1, m1)" by fastforce
  have P1: "P m1" using step(5) [OF P P, of n g] 1 keep [of 56 m] P by auto
  obtain m2 g2 where 2: "request_pull e s n (g1, m1) = (g2, m2)" by fastforce
  have P2: "P m2" using step(6) [OF P1 P1, of n g1] 2 keep [of 60 m1] P1 by auto
  obtain m3 g3 where 3: "request_dlevel e s n (g2, m2) = (g3, m3)" by fastforce
  have P3: "P m3" using step(7) [OF P2 P2, of n g2] 3 keep [of 64 m2] P2 by auto
  have "request_data e n (g3, m3) = (upd_group n st g, m3)"
    using step(1) [OF P P, of n g] step(2) [OF P1 P1, of n g1] step(3) [OF P2 P2, of n g2] step(4) [OF P3 P3, of n g3] 1 2 3
    unfolding c upd_group_def prod.case Let_def by simp
  then show ?thesis using 1 2 3 P3 by simp
qed

section \<open>The list of pins and the handle\<close>

text \<open>The list lies apart from the region of the handle, which has room for all entries.\<close>

definition list_apart :: "u64 \<Rightarrow> u64 \<Rightarrow> nat \<Rightarrow> bool" where
  "list_apart buf gpio_list n \<longleftrightarrow> apart buf (16 + 72 * n) gpio_list (56 * n) \<and> 72 * n < 2 ^ 60"

lemma entry_kept:
  assumes "list_apart buf gpio_list n" and "i < n" and "same_outside buf (16 + 72 * n) m m'"
  shows "pin_at m' (gpio_list + of_nat (56 * i)) = pin_at m (gpio_list + of_nat (56 * i))"
    and "settings_at m' (gpio_list + of_nat (56 * i)) = settings_at m (gpio_list + of_nat (56 * i))"
    and "mem_str m' (gpio_list + of_nat (56 * i)) 32 = mem_str m (gpio_list + of_nat (56 * i)) 32"
proof -
  have a: "apart buf (16 + 72 * n) gpio_list (56 * n)" and n: "56 * n \<le> 2 ^ 64" using assms(1) by (auto simp: list_apart_def)
  have l: "load_bytes m' (gpio_list + of_nat (56 * i + k)) j = load_bytes m (gpio_list + of_nat (56 * i + k)) j"
    if "k + j \<le> 56" for k j
    using that assms(2) n by (intro same_outside_load [OF assms(3)] apart_sub [OF a]) auto
  have w: "load32 m' (gpio_list + of_nat (56 * i) + of_nat k) = load32 m (gpio_list + of_nat (56 * i) + of_nat k)" if "k \<le> 52" for k
    using l [of k 4] that by (simp add: load32_def add.assoc)
  show "pin_at m' (gpio_list + of_nat (56 * i)) = pin_at m (gpio_list + of_nat (56 * i))"
    using w [of 32] w [of 36] by (simp add: pin_at_def)
  show "settings_at m' (gpio_list + of_nat (56 * i)) = settings_at m (gpio_list + of_nat (56 * i))"
    using w [of 40] w [of 44] w [of 48] w [of 52] by (simp add: settings_at_def)
  show "mem_str m' (gpio_list + of_nat (56 * i)) 32 = mem_str m (gpio_list + of_nat (56 * i)) 32"
    using l [of 0 32] by (simp add: mem_str_def)
qed

lemma handle_store:
  assumes "same_outside buf (16 + 72 * n) m m'" and "i < n" and "k + length bs \<le> 72"
  shows "same_outside buf (16 + 72 * n) m (store_bytes m' (buf + 16 + of_nat (72 * i) + of_nat k) bs)"
  by (rule same_outside_store [OF assms(1), where off = "16 + 72 * i + k"]) (use assms(2,3) in \<open>auto simp: add.assoc\<close>)

lemma handle_store32:
  assumes "same_outside buf (16 + 72 * n) m m'" and "i < n" and "k \<in> {32, 36, 40, 44, 48, 52, 56, 60, 64}"
  shows "same_outside buf (16 + 72 * n) m (store32 m' (buf + 16 + of_nat (72 * i) + k) w)"
proof -
  from assms(3) obtain j where "k = of_nat j" "j + 4 \<le> 72"
    by (elim insertE) (auto intro: that [of 32] that [of 36] that [of 40] that [of 44] that [of 48] that [of 52] that [of 56] that [of 60] that [of 64])
  then show ?thesis using handle_store [OF assms(1,2), of j "le32 w"] by (simp add: store32_def)
qed

lemma copy_settings_kept:
  assumes "str_lib_law L" and "same_outside buf (16 + 72 * n) m m'" and "i < n"
  shows "same_outside buf (16 + 72 * n) m (copy_settings L e (buf + 16 + of_nat (72 * i)) m')"
proof -
  have "same_outside buf (16 + 72 * n) m (AsciiStrCpyS L (buf + 16 + of_nat (72 * i)) 32 x m')" for x
    using assms(1,2) handle_store [OF assms(2,3), of 0 "x @ [0]"] by (simp add: str_lib_law_def)
  then show ?thesis unfolding copy_settings_def Let_def by (intro handle_store32 assms(3)) simp_all
qed

context mmio_registers
begin

lemma request_pin_ok:
  assumes law: "str_lib_law L" and la: "list_apart buf gpio_list n" and i: "i < n"
    and m: "same_outside buf (16 + 72 * n) m0 m"
    and ok: "group_ok (reg h) g q" and q: "pin_regs q \<subseteq> cfg" and tr: "pre_port_num_pull g = 0x7fffffff \<or> tracks g q"
  defines "e \<equiv> gpio_list + of_nat (56 * i)"
  assumes nz: "fst (pin_at m0 e) \<noteq> 0" and v: "valid_pin (pin_at m0 e)" and r: "pin_regs (pin_at m0 e) \<subseteq> cfg"
  obtains g' m' h' where "request_pin L p gpio_list (buf + 16) i (g, m, h) = (g', m', h')"
    and "same_outside buf (16 + 72 * n) m0 m'" and "group_ok (reg h') g' (pin_at m0 e)" and "tracks g' (pin_at m0 e)"
    and "\<And>a. a \<in> cfg \<Longrightarrow> group_view g' (reg h') a = set_pin (pin_at m0 e) (settings_at m0 e) (group_view g (reg h)) a"
proof -
  let ?s = "buf + 16 + of_nat (72 * i)"
  obtain port k where pk: "pin_at m0 e = (port, k)" by fastforce
  have pin: "load32 m (e + 32) = port" "load32 m (e + 36) = k"
    using entry_kept(1) [OF la i m] pk by (simp_all add: e_def pin_at_def)
  have "drop_bit 4 k \<noteq> 0x7fffffff" using pin_offsets(6) [OF v [unfolded pk]] by auto
  then have tr': "new_pull_group port k g \<or> tracks g q" using tr by (auto simp: new_pull_group_def)
  obtain g1 h1 where sw: "request_switch p port k (g, h) = (g1, h1)" "group_ok (reg h1) g1 (port, k)"
    "\<And>a. a \<in> cfg \<Longrightarrow> group_view g1 (reg h1) a = group_view g (reg h) a"
    using switch_ok [OF ok q r [unfolded pk] v [unfolded pk] refl tr'] by blast
  let ?P = "same_outside buf (16 + 72 * n) m0"
  have c: "?P (copy_settings L e ?s m)" by (rule copy_settings_kept [OF law m i])
  obtain m' where m': "request_data e k (request_dlevel e ?s k (request_pull e ?s k (request_func e ?s k (note_pin port k g1, copy_settings L e ?s m)))) =
      (upd_group k (settings_at m0 e) (note_pin port k g1), m')" "?P m'"
    using request_steps [where P = ?P and st = "settings_at m0 e" and s = ?s and e = e, OF _ c, of k "note_pin port k g1"]
      handle_store32 [OF _ i] entry_kept(2) [OF la i] unfolding e_def by blast
  let ?g = "upd_group k (settings_at m0 e) (note_pin port k g1)"
  have run: "request_pin L p gpio_list (buf + 16) i (g, m, h) = (?g, m', h1)"
    using nz pk pin sw(1) m'(1) by (simp add: request_pin_def Let_def e_def)
  note u = upd_group_ok [OF sw(2) refl, of "settings_at m0 e", folded pk]
  have set_cong: "set_pin (pin_at m0 e) st V a = set_pin (pin_at m0 e) st V' a"
    if "\<And>a. a \<in> cfg \<Longrightarrow> V a = V' a" "a \<in> cfg" for st V V' a
    using that r by (cases st) (auto simp: pk set_pin_def Let_def pin_regs_def)
  show ?thesis
    by (rule that [OF run m'(2) u(1,2)]) (metis u(3) set_cong sw(3))
qed

end

section \<open>Requests program pin after pin\<close>

text \<open>The specification: each entry with a port sets its pin, in the order of the list.\<close>

definition program_pin :: "mem \<Rightarrow> u64 \<Rightarrow> (u32 \<times> u32 \<Rightarrow> pin_state) \<Rightarrow> u32 \<times> u32 \<Rightarrow> pin_state" where
  "program_pin m e f =
     (let q = pin_at m e in if fst q = 0 then f else f(q := apply_settings (settings_at m e) (f q)))"

definition entries :: "u64 \<Rightarrow> nat \<Rightarrow> u64 list" where
  "entries gpio_list n = map (\<lambda>i. gpio_list + of_nat (56 * i)) [0..<n]"

definition pins_ok :: "u32 set \<Rightarrow> mem \<Rightarrow> u64 list \<Rightarrow> bool" where
  "pins_ok cfg m es \<longleftrightarrow> (\<forall>e \<in> set es. fst (pin_at m e) \<noteq> 0 \<longrightarrow> valid_pin (pin_at m e) \<and> pin_regs (pin_at m e) \<subseteq> cfg)"

lemma pin_state_cong: "(\<And>a. a \<in> pin_regs q \<Longrightarrow> R a = R' a) \<Longrightarrow> pin_state_of R q = pin_state_of R' q"
  by (cases q) (simp add: pin_state_of_def pin_regs_def)

lemma program_cong:
  assumes "\<And>r. valid_pin r \<Longrightarrow> pin_regs r \<subseteq> cfg \<Longrightarrow> f r = f' r" and "pins_ok cfg m es" and "valid_pin r" and "pin_regs r \<subseteq> cfg"
  shows "fold (program_pin m) es f r = fold (program_pin m) es f' r"
  using assms
proof (induction es arbitrary: f f')
  case (Cons e es)
  have "program_pin m e f r = program_pin m e f' r" if "valid_pin r" "pin_regs r \<subseteq> cfg" for r
    using Cons.prems(1,2) that by (auto simp: program_pin_def Let_def pins_ok_def)
  then show ?case using Cons.IH [of "program_pin m e f" "program_pin m e f'"] Cons.prems(2-) by (simp add: pins_ok_def)
qed simp

lemma pins_ok_sub: "pins_ok cfg m es \<Longrightarrow> set es' \<subseteq> set es \<Longrightarrow> pins_ok cfg m es'"
  by (auto simp: pins_ok_def)

lemma program_skips: "\<forall>e \<in> set es. fst (pin_at m e) = 0 \<Longrightarrow> fold (program_pin m) es f = f"
  by (induction es) (simp_all add: program_pin_def)

context mmio_registers
begin

lemma request_pins_ok:
  assumes law: "str_lib_law L" and la: "list_apart buf gpio_list n"
    and js: "set is \<subseteq> {..<n}" and pins: "pins_ok cfg m0 (entries gpio_list n)"
    and m: "same_outside buf (16 + 72 * n) m0 m"
    and ok: "group_ok (reg h) g q" and q: "pin_regs q \<subseteq> cfg" and tr: "pre_port_num_pull g = 0x7fffffff \<or> tracks g q"
  shows "\<exists>g' m' h' q'. fold (request_pin L p gpio_list (buf + 16)) is (g, m, h) = (g', m', h') \<and>
    same_outside buf (16 + 72 * n) m0 m' \<and> group_ok (reg h') g' q' \<and> pin_regs q' \<subseteq> cfg \<and>
    (\<forall>r. valid_pin r \<longrightarrow> pin_regs r \<subseteq> cfg \<longrightarrow> pin_state_of (group_view g' (reg h')) r =
      fold (program_pin m0) (map (\<lambda>i. gpio_list + of_nat (56 * i)) is) (pin_state_of (group_view g (reg h))) r)"
  using js m ok q tr
proof (induction "is" arbitrary: g m h q)
  case Nil
  then show ?case by (cases q) auto
next
  case (Cons i js)
  let ?e = "gpio_list + of_nat (56 * i)"
  have i: "i < n" and js: "set js \<subseteq> {..<n}" using Cons.prems(1) by auto
  have pin: "pin_at m ?e = pin_at m0 ?e" using entry_kept(1) [OF la i Cons.prems(2)] .
  show ?case
  proof (cases "fst (pin_at m0 ?e) = 0")
    case True
    then have "request_pin L p gpio_list (buf + 16) i (g, m, h) = (g, m, h)"
      using pin by (simp add: request_pin_def pin_at_def Let_def)
    then show ?thesis using Cons.IH [OF js Cons.prems(2-)] True by (simp add: program_pin_def Let_def)
  next
    case False
    have v: "valid_pin (pin_at m0 ?e)" "pin_regs (pin_at m0 ?e) \<subseteq> cfg"
      using pins False i by (auto simp: pins_ok_def entries_def)
    obtain g1 m1 h1 where run: "request_pin L p gpio_list (buf + 16) i (g, m, h) = (g1, m1, h1)"
      and 1: "same_outside buf (16 + 72 * n) m0 m1" "group_ok (reg h1) g1 (pin_at m0 ?e)" "tracks g1 (pin_at m0 ?e)"
      and view: "\<And>a. a \<in> cfg \<Longrightarrow> group_view g1 (reg h1) a = set_pin (pin_at m0 ?e) (settings_at m0 ?e) (group_view g (reg h)) a"
      by (rule request_pin_ok [OF law la i Cons.prems(2-5) False v]) blast
    have st: "pin_state_of (group_view g1 (reg h1)) r = program_pin m0 ?e (pin_state_of (group_view g (reg h))) r"
      if "valid_pin r" "pin_regs r \<subseteq> cfg" for r
    proof -
      have "pin_state_of (group_view g1 (reg h1)) r = pin_state_of (set_pin (pin_at m0 ?e) (settings_at m0 ?e) (group_view g (reg h))) r"
        using that(2) view by (intro pin_state_cong) auto
      then show ?thesis using set_pin_state [OF v(1) that(1)] False by (simp add: program_pin_def Let_def)
    qed
    have sub: "pins_ok cfg m0 (map (\<lambda>i. gpio_list + of_nat (56 * i)) js)"
      using js by (intro pins_ok_sub [OF pins]) (auto simp: entries_def)
    show ?thesis
      using Cons.IH [OF js 1(1,2) v(2) disjI2 [OF 1(3)]] run program_cong [OF st sub] by fastforce
  qed
qed

lemma request_programs_pins:
  fixes m :: mem and pool :: "nat \<Rightarrow> u64"
  assumes law: "str_lib_law L" and "gpio_list \<noteq> 0" and "count \<noteq> 0"
  defines "n \<equiv> unat count"
  defines "es \<equiv> entries gpio_list n"
  defines "k \<equiv> length (filter (\<lambda>e. fst (pin_at m e) \<noteq> 0) es)"
  defines "buf \<equiv> pool (16 + 72 * k)"
  assumes buf: "buf \<noteq> 0" and la: "list_apart buf gpio_list n" and pins: "pins_ok cfg m es" and k: "k \<noteq> 0"
  shows "\<exists>m' h'. gpio_request L pool p gpio_list count (m, h) = (ucast buf, m', h') \<and>
    same_outside buf (16 + 72 * n) m m' \<and>
    (\<forall>q. valid_pin q \<longrightarrow> pin_regs q \<subseteq> cfg \<longrightarrow>
       pin_state_of (reg h') q = fold (program_pin m) es (pin_state_of (reg h)) q)"
proof -
  let ?e = "\<lambda>i. gpio_list + of_nat (56 * i)"
  let ?port = "\<lambda>m i. load32 m (?e i + 32)"
  have kn: "k \<le> n" using length_filter_le [of "\<lambda>e. fst (pin_at m e) \<noteq> 0" es] by (simp add: k_def es_def entries_def)
  have k': "length (filter (\<lambda>i. ?port m i \<noteq> 0) [0..<n]) = k"
    by (simp add: k_def es_def entries_def pin_at_def filter_map comp_def)
  let ?m1 = "store_bytes m buf (replicate (16 + 72 * k) 0)"
  let ?m2 = "store32 ?m1 buf (of_nat k)"
  have m2: "same_outside buf (16 + 72 * n) m ?m2"
  proof -
    have "0 + length (replicate (16 + 72 * k) (0 :: u8)) \<le> 16 + 72 * n" unfolding length_replicate using kn by simp
    from same_outside_store [OF same_outside_refl this, of buf] have "same_outside buf (16 + 72 * n) m ?m1" by simp
    from same_outside_store [OF this, of 0 "le32 (of_nat k)" buf] show ?thesis by (simp add: store32_def)
  qed
  have port: "?port ?m2 i = fst (pin_at m (?e i))" "load32 ?m2 (?e i + 36) = snd (pin_at m (?e i))" if "i < n" for i
    using entry_kept(1) [OF la that m2] by (simp_all add: pin_at_def)
  obtain f where f: "find (\<lambda>i. ?port ?m2 i \<noteq> 0) [0..<n] = Some f"
  proof (cases "find (\<lambda>i. ?port ?m2 i \<noteq> 0) [0..<n]")
    case None
    then have "\<forall>i<n. fst (pin_at m (?e i)) = 0" using port(1) by (auto simp: find_None_iff)
    then have "k = 0" by (auto simp: k_def es_def entries_def filter_empty_conv)
    with k show ?thesis by simp
  qed
  then have fn: "f < n" "fst (pin_at m (?e f)) \<noteq> 0" and fz: "\<forall>j < f. fst (pin_at m (?e j)) = 0"
    using port(1) by (auto simp: find_upt_Some)
  let ?q = "pin_at m (?e f)"
  have q: "valid_pin ?q" "pin_regs ?q \<subseteq> cfg" using pins fn by (auto simp: pins_ok_def es_def entries_def)
  obtain g1 h1 where l: "load_group (MmioRead32 p) (fst ?q) (snd ?q) (no_group, h) = (g1, h1)"
    and l2: "\<And>a. a \<in> cfg \<Longrightarrow> group_view g1 (reg h1) a = reg h a" "group_ok (reg h1) g1 ?q" "pre_port_num_pull g1 = 0x7fffffff"
    by (rule load_group_ok [OF q(2,1) prod.collapse [symmetric], of no_group h]) (simp add: no_group_def)
  have ran: "set [f..<n] \<subseteq> {..<n}" by auto
  obtain g' m' h2 q' where r: "fold (request_pin L p gpio_list (buf + 16)) [f..<n] (g1, ?m2, h1) = (g', m', h2)"
    "same_outside buf (16 + 72 * n) m m'" "group_ok (reg h2) g' q'" "pin_regs q' \<subseteq> cfg"
    and st: "\<And>r. valid_pin r \<Longrightarrow> pin_regs r \<subseteq> cfg \<Longrightarrow> pin_state_of (group_view g' (reg h2)) r =
      fold (program_pin m) (map ?e [f..<n]) (pin_state_of (group_view g1 (reg h1))) r"
    using request_pins_ok [OF law la ran pins [unfolded es_def] m2 l2(2) q(2) disjI1 [OF l2(3)]] by blast
  let ?h = "let h = (if True then MmioWrite32 p (func_addr g') (func_data g') h2 else h2);
        h = (if pull_change g' then MmioWrite32 p (pull_addr g') (pull_data g') h else h);
        h = (if dlevel_change g' then MmioWrite32 p (dlevel_addr g') (dlevel_data g') h else h)
      in if data_change g' then MmioWrite32 p (data_addr' g') (data_data g') h else h"
  have fa: "func_addr g' \<noteq> 0"
    using r(3) func_addr_nonzero by (auto simp: group_ok_def group_at_def split: prod.splits)
  have run: "gpio_request L pool p gpio_list count (m, h) = (ucast buf, m', ?h)"
    using assms(2,3) buf k' f port fn l r(1) fa by (simp add: gpio_request_def Let_def flip: n_def buf_def)
  have "pin_state_of (reg ?h) r = fold (program_pin m) es (pin_state_of (reg h)) r" if v: "valid_pin r" "pin_regs r \<subseteq> cfg" for r
  proof -
    have split: "es = map ?e [0..<f] @ map ?e [f..<n]"
      using upt_add_eq_append [of 0 f "n - f"] fn(1) by (simp add: es_def entries_def)
    have sub: "pins_ok cfg m (map ?e [f..<n])" using pins unfolding split by (simp add: pins_ok_def)
    have "pin_state_of (reg ?h) r = pin_state_of (group_view g' (reg h2)) r"
      using v(2) by (intro pin_state_cong flush_group [OF r(3,4)]) auto
    also have "\<dots> = fold (program_pin m) (map ?e [f..<n]) (pin_state_of (reg h)) r"
      unfolding st [OF v] using l2(1) by (intro program_cong [OF _ sub v] pin_state_cong) auto
    also have "\<dots> = fold (program_pin m) es (pin_state_of (reg h)) r"
      unfolding split fold_append comp_def using program_skips [of "map ?e [0..<f]" m] fz by simp
    finally show ?thesis .
  qed
  with run r(2) show ?thesis by blast
qed

end

text \<open>
  C5: a request programs the pins of its list one after the other, although it collects the changes of
  pins that share registers and writes each register back only when it moves on: over registers
  that keep what is written, every pin has the settings of its entries (negative settings keep
  the old value, the data bit is set for outputs only), every other pin keeps its state, and
  nothing but the handle's memory changes.
\<close>

theorem gpio_request_programs_pins:
  fixes m :: mem and pool :: "nat \<Rightarrow> u64"
  assumes "mmio_registers p reg cfg" and "str_lib_law L" and "gpio_list \<noteq> 0" and "count \<noteq> 0"
  defines "es \<equiv> entries gpio_list (unat count)"
  defines "buf \<equiv> pool (16 + 72 * length (filter (\<lambda>e. fst (pin_at m e) \<noteq> 0) es))"
  assumes "buf \<noteq> 0" and "list_apart buf gpio_list (unat count)" and "pins_ok cfg m es"
    and "\<exists>e \<in> set es. fst (pin_at m e) \<noteq> 0"
  shows "\<exists>m' h'. gpio_request L pool p gpio_list count (m, h) = (ucast buf, m', h') \<and>
    same_outside buf (16 + 72 * unat count) m m' \<and>
    (\<forall>q. valid_pin q \<longrightarrow> pin_regs q \<subseteq> cfg \<longrightarrow>
       pin_state_of (reg h') q = fold (program_pin m) es (pin_state_of (reg h)) q)"
  using mmio_registers.request_programs_pins [OF assms(1-4), of pool m h, folded es_def, folded buf_def, OF assms(7-9)] assms(10)
  by (auto simp: filter_empty_conv)

section \<open>A sample list of pins\<close>

definition pins_mem :: mem where
  "pins_mem = (\<lambda>_. 0)(
     0x2000 := 116, 0x2001 := 120, 0x2020 := 2, 0x2024 := 8, 0x2028 := 3, 0x202c := 1, 0x2030 := 2, 0x2034 := 255,
     0x2035 := 255, 0x2036 := 255, 0x2037 := 255, 0x2038 := 101, 0x2039 := 110, 0x2058 := 2, 0x205c := 17, 0x2060 := 1,
     0x2068 := 255, 0x2069 := 255, 0x206a := 255, 0x206b := 255, 0x206c := 1)"

lemma pins_mem_words:
  "load32 pins_mem 0x2020 = 2" "load32 pins_mem 0x2024 = 8" "load32 pins_mem 0x2028 = 3" "load32 pins_mem 0x202c = 1"
  "load32 pins_mem 0x2030 = 2" "load32 pins_mem 0x2034 = -1" "load32 pins_mem 0x2058 = 2" "load32 pins_mem 0x205c = 17"
  "load32 pins_mem 0x2060 = 1" "load32 pins_mem 0x2064 = 0" "load32 pins_mem 0x2068 = -1" "load32 pins_mem 0x206c = 1"
  by (simp_all add: load32_def load_bytes_Suc load_bytes_eval pins_mem_def)

lemma pins_mem_entries:
  "entries 0x2000 2 = [0x2000, 0x2038]"
  "pin_at pins_mem 0x2000 = (2, 8)" "pin_at pins_mem 0x2038 = (2, 17)"
  "settings_at pins_mem 0x2000 = (3, 1, 2, -1)" "settings_at pins_mem 0x2038 = (1, 0, -1, 1)"
  by (simp_all add: entries_def pin_at_def settings_at_def pins_mem_words numeral_2_eq_2)

theorem gpio_request_programs_pins_witness:
  "\<exists>m' R'. gpio_request base_str_lib (\<lambda>_. 0x8000) ram_plat 0x2000 2 (pins_mem, \<lambda>_. 0) = (0x8000, m', R') \<and>
     pin_state_of R' (2, 8) = \<lparr>pin_func = 3, pin_pull = 1, pin_drive = 2, pin_data = 0\<rparr> \<and>
     pin_state_of R' (2, 17) = \<lparr>pin_func = 1, pin_pull = 0, pin_drive = 0, pin_data = 1\<rparr>"
proof -
  have ok: "pins_ok UNIV pins_mem (entries 0x2000 (unat (2 :: u32)))"
    by (simp add: pins_ok_def pins_mem_entries valid_pin_def)
  have la: "list_apart 0x8000 0x2000 (unat (2 :: u32))" by (simp add: list_apart_def apart_def)
  have z: "pin_state_of (\<lambda>_. 0) q = \<lparr>pin_func = 0, pin_pull = 0, pin_drive = 0, pin_data = 0\<rparr>" for q
    by (cases q) (simp add: pin_state_of_def get_field_def)
  have v: "valid_pin (2, 8)" "valid_pin (2, 17)" by (simp_all add: valid_pin_def)
  show ?thesis
    using gpio_request_programs_pins [OF ram.mmio_registers_axioms base_str_lib_law, of "0x2000" 2 "\<lambda>_. 0x8000" pins_mem "\<lambda>_. 0"] ok la v
    by (auto simp: pins_mem_entries program_pin_def Let_def apply_settings_def z)
qed

section \<open>Single pins\<close>

text \<open>Between two states exactly one pin has changed, in a given way.\<close>

definition pin_updated ::
  "u32 set \<Rightarrow> u32 \<times> u32 \<Rightarrow> (pin_state \<Rightarrow> pin_state) \<Rightarrow> (u32 \<Rightarrow> u32) \<Rightarrow> (u32 \<Rightarrow> u32) \<Rightarrow> bool" where
  "pin_updated cfg q upd R R' \<longleftrightarrow> (\<forall>r. valid_pin r \<longrightarrow> pin_regs r \<subseteq> cfg \<longrightarrow>
     pin_state_of R' r = (if r = q then upd (pin_state_of R q) else pin_state_of R r))"

lemma minus_one_negative: "\<not> 0 \<le> sint (-1 :: u32)" by simp

lemma pin_updated_set:
  assumes "valid_pin q" and "\<And>a. a \<in> cfg \<Longrightarrow> R' a = set_pin q st R a"
  shows "pin_updated cfg q (apply_settings st) R R'"
  unfolding pin_updated_def
proof (intro allI impI)
  fix r assume r: "valid_pin r" "pin_regs r \<subseteq> cfg"
  then have "pin_state_of R' r = pin_state_of (set_pin q st R) r" using assms(2) by (intro pin_state_cong) auto
  then show "pin_state_of R' r = (if r = q then apply_settings st (pin_state_of R q) else pin_state_of R r)"
    using set_pin_state [OF assms(1) r(1)] by simp
qed

lemma pin_updated_data:
  assumes "valid_pin (port, n)" and "\<And>a. a \<in> cfg \<Longrightarrow> R' a =
      (R(GetGroupDataAddrByPort port := put_field 1 (unat n) (w AND 1) (R (GetGroupDataAddrByPort port)))) a"
  shows "pin_updated cfg (port, n) (\<lambda>st. st\<lparr>pin_data := w AND 1\<rparr>) R R'"
  unfolding pin_updated_def
proof (intro allI impI)
  fix r assume r: "valid_pin r" "pin_regs r \<subseteq> cfg"
  obtain port' n' where r': "r = (port', n')" by (cases r)
  let ?R = "R(GetGroupDataAddrByPort port := put_field 1 (unat n) (w AND 1) (R (GetGroupDataAddrByPort port)))"
  have "pin_state_of R' r = pin_state_of ?R r" using assms(2) r(2) by (intro pin_state_cong) auto
  also have "\<dots> = (if r = (port, n) then (pin_state_of R (port, n))\<lparr>pin_data := w AND 1\<rparr> else pin_state_of R r)"
    using put_data [OF assms(1) r(1) [unfolded r'], of R w] addr_eq(7,9,10) [OF r(1) [unfolded r'] assms(1)]
    unfolding r' pin_state_of_def prod.case by auto
  finally show "pin_state_of R' r = (if r = (port, n) then (pin_state_of R (port, n))\<lparr>pin_data := w AND 1\<rparr> else pin_state_of R r)" .
qed

lemma take_bit_small:
  fixes x :: u32
  assumes "unat x < 2 ^ k"
  shows "take_bit k x = x"
  by (rule bit_word_eqI) (use bit_small_word [OF assms] in \<open>auto simp: bit_take_bit_iff\<close>)

lemma small_and: "v < 4 \<Longrightarrow> v AND 3 = (v :: u32)" "w < 2 \<Longrightarrow> w AND 7 = (w :: u32)" "w < 2 \<Longrightarrow> w AND 1 = (w :: u32)"
  using take_bit_small [of v 2] take_bit_small [of w 3] take_bit_small [of w 1]
  by (simp_all add: take_bit_eq_mask mask_eq_exp_minus_1 word_less_nat_alt)

lemma small_sint: "v < 4 \<Longrightarrow> 0 \<le> sint (v :: u32)"
  using sint_small_word [of v] by (simp add: less_trans [of v 4])

lemma unsigned_base_eq: "valid_pin (port, n) \<Longrightarrow> unsigned_base port = port_base port"
proof -
  assume "valid_pin (port, n)"
  then have "port < 0x80000000" by (auto simp: valid_pin_def intro: le_less_trans)
  then have "sint port = uint port" by (rule sint_small_word)
  then show ?thesis by (simp add: unsigned_base_def port_base_def word_less_def)
qed

lemma ucast_readl: "ucast (ucast lo OR push_bit 32 (ucast (hi :: u32)) :: u64) = (lo :: u32)"
  by (rule bit_word_eqI) (auto simp: bit_simps)

context mmio_registers
begin

lemma readl_low: "a \<in> cfg \<Longrightarrow> ucast (fst (readl p a h)) = reg h a"
  by (simp add: readl_def split_beta ucast_readl fst_read)

lemma readl_keeps: "b \<in> cfg \<Longrightarrow> reg (snd (readl p a h)) b = reg h b"
  by (simp add: readl_def split_beta snd_read)

lemma pin_function_value:
  assumes "valid_pin (port, n)" and "pin_regs (port, n) \<subseteq> cfg"
  shows "fst (pin_function p port n h) = pin_func (pin_state_of (reg h) (port, n))"
    and "b \<in> cfg \<Longrightarrow> reg (snd (pin_function p port n h)) b = reg h b"
  using assms readl_keeps readl_low [of "GetGroupFuncAddrByPort port n" h]
  by (simp_all add: pin_function_def split_beta unsigned_base_eq [OF assms(1)] pin_offsets(1) [OF assms(1)]
      pin_state_of_def get_field_def pin_regs_def)

lemma one_pin:
  assumes "handle \<noteq> 0" and s: "find_pin m handle name = Some s"
    and q: "pin_at m s = q" "valid_pin q" "pin_regs q \<subseteq> cfg"
  shows "v < 4 \<Longrightarrow> \<exists>h'. gpio_set_one_pin_pull p handle v name m h = (0, h') \<and>
      pin_updated cfg q (\<lambda>st. st\<lparr>pin_pull := v\<rparr>) (reg h) (reg h')"
    and "v < 4 \<Longrightarrow> \<exists>h'. gpio_set_one_pin_driver_level p handle v name m h = (0, h') \<and>
      pin_updated cfg q (\<lambda>st. st\<lparr>pin_drive := v\<rparr>) (reg h) (reg h')"
    and "w < 2 \<Longrightarrow> \<exists>h'. gpio_set_one_pin_io_status p handle w name m h = (0, h') \<and>
      pin_updated cfg q (\<lambda>st. st\<lparr>pin_func := w\<rparr>) (reg h) (reg h')"
    and "w < 2 \<Longrightarrow> \<exists>h'. gpio_write_one_pin_value p handle w name m h =
        (if pin_func (pin_state_of (reg h) q) = 1 then 0 else -1, h') \<and>
      pin_updated cfg q (\<lambda>st. if pin_func st = 1 then st\<lparr>pin_data := w\<rparr> else st) (reg h) (reg h')"
proof -
  obtain port n where pn: "q = (port, n)" by (cases q)
  then have l: "load32 m (s + 32) = port" "load32 m (s + 36) = n" using q(1) by (simp_all add: pin_at_def)
  have c: "GetGroupFuncAddrByPort port n \<in> cfg" "GetGroupPullAddrByPort port n \<in> cfg"
    "GetGroupDlevelAddrByPort port n \<in> cfg" "GetGroupDataAddrByPort port \<in> cfg"
    using q(3) pn by (auto simp: pin_regs_def)
  { assume v: "v < 4"
    have "pin_updated cfg q (apply_settings (-1, v, -1, -1)) (reg h)
        (reg (mmio_rmw p (GetGroupPullAddrByPort port n) (put_field 3 (pull_shift n) v) h))"
      using v small_sint [OF v] small_and(1) [OF v] c
      by (intro pin_updated_set q(2)) (simp add: pn set_pin_def Let_def reg_rmw)
    moreover have "apply_settings (-1, v, -1, -1) = (\<lambda>st. st\<lparr>pin_pull := v\<rparr>)"
      using small_sint [OF v] small_and(1) [OF v] by (simp add: apply_settings_def fun_eq_iff)
    ultimately show "\<exists>h'. gpio_set_one_pin_pull p handle v name m h = (0, h') \<and>
        pin_updated cfg q (\<lambda>st. st\<lparr>pin_pull := v\<rparr>) (reg h) (reg h')"
      using assms(1) s l v by (simp add: gpio_set_one_pin_pull_def Let_def)
    have "pin_updated cfg q (apply_settings (-1, -1, v, -1)) (reg h)
        (reg (mmio_rmw p (GetGroupDlevelAddrByPort port n) (put_field 3 (pull_shift n) v) h))"
      using v small_sint [OF v] small_and(1) [OF v] c
      by (intro pin_updated_set q(2)) (simp add: pn set_pin_def Let_def reg_rmw)
    moreover have "apply_settings (-1, -1, v, -1) = (\<lambda>st. st\<lparr>pin_drive := v\<rparr>)"
      using small_sint [OF v] small_and(1) [OF v] by (simp add: apply_settings_def fun_eq_iff)
    ultimately show "\<exists>h'. gpio_set_one_pin_driver_level p handle v name m h = (0, h') \<and>
        pin_updated cfg q (\<lambda>st. st\<lparr>pin_drive := v\<rparr>) (reg h) (reg h')"
      using assms(1) s l v by (simp add: gpio_set_one_pin_driver_level_def Let_def) }
  assume w: "w < 2"
  then have w4: "0 \<le> sint w" "\<not> 1 < w" using small_sint [of w] by (auto simp: word_less_nat_alt)
  have "pin_updated cfg q (apply_settings (w, -1, -1, -1)) (reg h)
      (reg (mmio_rmw p (GetGroupFuncAddrByPort port n) (put_field 7 (func_shift n) w) h))"
    using w4 small_and(2) [OF w] c by (intro pin_updated_set q(2)) (simp add: pn set_pin_def Let_def reg_rmw)
  moreover have "apply_settings (w, -1, -1, -1) = (\<lambda>st. st\<lparr>pin_func := w\<rparr>)"
    using w4 small_and(2) [OF w] by (simp add: apply_settings_def fun_eq_iff)
  ultimately show "\<exists>h'. gpio_set_one_pin_io_status p handle w name m h = (0, h') \<and>
      pin_updated cfg q (\<lambda>st. st\<lparr>pin_func := w\<rparr>) (reg h) (reg h')"
    using assms(1) s l w4 by (simp add: gpio_set_one_pin_io_status_def Let_def)
  show "\<exists>h'. gpio_write_one_pin_value p handle w name m h =
        (if pin_func (pin_state_of (reg h) q) = 1 then 0 else -1, h') \<and>
      pin_updated cfg q (\<lambda>st. if pin_func st = 1 then st\<lparr>pin_data := w\<rparr> else st) (reg h) (reg h')"
  proof (cases "pin_func (pin_state_of (reg h) q) = 1")
    case True
    let ?h = "mmio_rmw p (GetGroupDataAddrByPort port) (put_field 1 (unat n) w) (snd (pin_function p port n h))"
    note f = pin_function_value(1) [OF q(2,3) [unfolded pn], of h] pin_function_value(2) [OF q(2,3) [unfolded pn], of _ h]
    have "gpio_write_one_pin_value p handle w name m h = (0, ?h)"
      using assms(1) s l w f(1) True pn by (simp add: gpio_write_one_pin_value_def Let_def split_beta not_le)
    moreover have "pin_updated cfg q (\<lambda>st. st\<lparr>pin_data := w AND 1\<rparr>) (reg h) (reg ?h)"
      unfolding pn using c f(2) small_and(3) [OF w] by (intro pin_updated_data q(2) [unfolded pn]) (simp add: reg_rmw)
    then have "pin_updated cfg q (\<lambda>st. if pin_func st = 1 then st\<lparr>pin_data := w\<rparr> else st) (reg h) (reg ?h)"
      using small_and(3) [OF w] True unfolding pin_updated_def by simp
    ultimately show ?thesis using True by simp
  next
    case False
    note f = pin_function_value(1) [OF q(2,3) [unfolded pn], of h] pin_function_value(2) [OF q(2,3) [unfolded pn], of _ h]
    have "gpio_write_one_pin_value p handle w name m h = (-1, snd (pin_function p port n h))"
      using assms(1) s l w f(1) False pn leD [of 2 w] by (auto simp: gpio_write_one_pin_value_def Let_def split_beta)
    moreover have "pin_state_of (reg (snd (pin_function p port n h))) r = pin_state_of (reg h) r" if "pin_regs r \<subseteq> cfg" for r
      using that f(2) by (intro pin_state_cong) auto
    ultimately show ?thesis using False by (auto simp: pin_updated_def)
  qed
qed

end

text \<open>
  The calls for one pin of a handle. With a valid value each of them changes exactly its field of
  exactly its pin, and no field of any other pin: the pull, the drive level, the direction, and the
  output level, which is written only when the pin is an output; otherwise the write fails and
  changes nothing.
\<close>

theorem single_pin_calls:
  assumes "mmio_registers p reg cfg" and "handle \<noteq> 0" and "find_pin m handle name = Some s"
    and "pin_at m s = q" and "valid_pin q" and "pin_regs q \<subseteq> cfg" and "v < 4" and "w < 2"
  shows "\<exists>h1 h2 h3 h4.
    gpio_set_one_pin_pull p handle v name m h = (0, h1) \<and> pin_updated cfg q (\<lambda>st. st\<lparr>pin_pull := v\<rparr>) (reg h) (reg h1) \<and>
    gpio_set_one_pin_driver_level p handle v name m h = (0, h2) \<and> pin_updated cfg q (\<lambda>st. st\<lparr>pin_drive := v\<rparr>) (reg h) (reg h2) \<and>
    gpio_set_one_pin_io_status p handle w name m h = (0, h3) \<and> pin_updated cfg q (\<lambda>st. st\<lparr>pin_func := w\<rparr>) (reg h) (reg h3) \<and>
    gpio_write_one_pin_value p handle w name m h = (if pin_func (pin_state_of (reg h) q) = 1 then 0 else -1, h4) \<and>
    pin_updated cfg q (\<lambda>st. if pin_func st = 1 then st\<lparr>pin_data := w\<rparr> else st) (reg h) (reg h4)"
  using mmio_registers.one_pin(1,2) [OF assms(1-7), of h] mmio_registers.one_pin(3,4) [OF assms(1-6,8), of h]
  by blast

text \<open>A handle at the start of the memory's upper half with one pin, PB8.\<close>

definition handle_mem :: mem where
  "handle_mem = (\<lambda>_. 0)(0x8000 := 1, 0x8010 := 116, 0x8011 := 120, 0x8030 := 2, 0x8034 := 8)"

theorem single_pin_calls_witness:
  "\<exists>R'. gpio_set_one_pin_pull ram_plat 0x8000 1 None handle_mem (\<lambda>_. 0) = (0, R') \<and>
     pin_pull (pin_state_of R' (2, 8)) = 1 \<and> pin_pull (pin_state_of R' (2, 9)) = 0"
proof -
  have w: "load32 handle_mem 0x8000 = 1" "load32 handle_mem 0x8030 = 2" "load32 handle_mem 0x8034 = 8"
    by (simp_all add: load32_def load_bytes_Suc load_bytes_eval handle_mem_def)
  have f: "find_pin handle_mem 0x8000 None = Some 0x8010" by (simp add: find_pin_def w)
  have q: "pin_at handle_mem 0x8010 = (2, 8)" by (simp add: pin_at_def w)
  have v: "valid_pin (2, 8)" "valid_pin (2, 9)" by (simp_all add: valid_pin_def)
  have z: "pin_pull (pin_state_of (\<lambda>_. 0) (2, 9)) = 0" by (simp add: pin_state_of_def get_field_def)
  show ?thesis
    using single_pin_calls [OF ram.mmio_registers_axioms _ f q v(1), of 1 1 "\<lambda>_. 0"] v z
    by (auto simp: pin_updated_def)
qed

end
