(* ===== verification/Dma.thy ===== *)
theory Dma
  imports Bytes Mmio
begin

text \<open>
  The DMA driver, \<open>src/Drivers/SunxiDmaDxe/SunxiDma.c\<close>: sixteen channels that clients request and release,
  their descriptors, and the channel interrupts, which share one interrupt line. The line is
  enabled while the driver's count of enabled channel interrupts is positive.

  The array \<open>dma_channal_source\<close> is at address \<open>tab\<close>, with 48 bytes per channel. A handle is the address of a
  channel cut to 32 bits; a handle that is not the address of a channel has no result (\<^const>\<open>None\<close>).
  The descriptors (\<open>sunxi_dma_start_t\<close>: \<open>config\<close>, \<open>source_addr\<close>, \<open>dest_addr\<close>, \<open>byte_count\<close>, \<open>commit_para\<close>, \<open>link\<close>, words
  from byte 0 on) and the client's settings (\<open>sunxi_dma_setting_t\<close>: the channel configuration as one word, \<open>loop_mode\<close>,
  \<open>data_block_size\<close>, \<open>wait_cyc\<close>) are in the flat memory. EDK2's interrupt protocol is the record \<open>gic\<close>,
  \<open>DmaAllocateBuffer\<close> the argument \<open>alloc\<close>, which gives the address for the n-th call. An assertion that fails
  ends the run: no result.
\<close>

section \<open>State\<close>

abbreviation (input) SUNXI_DMA_BASE :: u32 where "SUNXI_DMA_BASE \<equiv> 0x01c02000"
abbreviation (input) irq_en0 :: u32 where "irq_en0 \<equiv> 0x01c02000"
abbreviation (input) irq_en1 :: u32 where "irq_en1 \<equiv> 0x01c02004"
abbreviation (input) irq_pending0 :: u32 where "irq_pending0 \<equiv> 0x01c02010"
abbreviation (input) irq_pending1 :: u32 where "irq_pending1 \<equiv> 0x01c02014"
abbreviation (input) dma_status :: u32 where "dma_status \<equiv> 0x01c02030"
abbreviation (input) DMA_PKG_END_INT :: u32 where "DMA_PKG_END_INT \<equiv> push_bit 1 1"
abbreviation (input) SUNXI_DMA_LINK_NULL :: u32 where "SUNXI_DMA_LINK_NULL \<equiv> 0x1ffff800"
abbreviation (input) AW_IRQ_DMA :: u64 where "AW_IRQ_DMA \<equiv> 82"

record 'h gic =
  RegisterInterruptSource :: "u64 \<Rightarrow> 'h \<Rightarrow> efi_status \<times> 'h"
  EnableInterruptSource :: "u64 \<Rightarrow> 'h \<Rightarrow> 'h"
  DisableInterruptSource :: "u64 \<Rightarrow> 'h \<Rightarrow> 'h"
  EndOfInterrupt :: "u64 \<Rightarrow> 'h \<Rightarrow> 'h"

record dma_source =
  used :: u32
  channal_count :: u32
  channal :: u32
  config :: u64
  m_data :: u64
  m_func :: u64

record 'h dma_state =
  dma_int_count :: int
  dma_channal_source :: "dma_source list"
  dma_mem :: mem
  dma_dev :: 'h

definition dma_handle :: "u64 \<Rightarrow> nat \<Rightarrow> u32" where
  "dma_handle tab i = ucast (tab + of_nat (48 * i))"

definition dma_index :: "u64 \<Rightarrow> u32 \<Rightarrow> nat option" where
  "dma_index tab hdma =
     (let off = unat (ucast hdma - tab) in if off mod 48 = 0 \<and> off div 48 < 16 then Some (off div 48) else None)"

definition upd_source :: "nat \<Rightarrow> (dma_source \<Rightarrow> dma_source) \<Rightarrow> 'h dma_state \<Rightarrow> 'h dma_state" where
  "upd_source i f s = s\<lparr>dma_channal_source := (dma_channal_source s)[i := f (dma_channal_source s ! i)]\<rparr>"

text \<open>The enable register of a channel and its bit there; the driver's two branches differ only in these.\<close>

definition en_reg :: "u32 \<Rightarrow> u32" where
  "en_reg c = (if c < 8 then irq_en0 else irq_en1)"

definition end_bit :: "u32 \<Rightarrow> u32" where
  "end_bit c = push_bit (unat ((if c < 8 then c else c - 8) * 4)) DMA_PKG_END_INT"

section \<open>Channel interrupts\<close>

definition sunxi_dma_install_int ::
  "'h plat \<Rightarrow> u64 \<Rightarrow> u32 \<Rightarrow> u64 \<Rightarrow> u64 \<Rightarrow> 'h dma_state \<Rightarrow> (efi_status \<times> 'h dma_state) option" where
  "sunxi_dma_install_int p tab hdma dma_int_func q s =
     map_option (\<lambda>i.
       let ch = dma_channal_source s ! i; c = channal_count ch in
       if used ch = 0 then (EFI_DEVICE_ERROR, s)
       else
         let s = s\<lparr>dma_dev := (if c < 8 then MmioWrite32 p irq_pending0 (push_bit (unat (c * 4)) 7) (dma_dev s)
                               else MmioWrite32 p irq_pending1 (push_bit (unat ((c - 8) * 4)) 7) (dma_dev s))\<rparr>
         in if m_func ch = 0 then (EFI_SUCCESS, upd_source i (\<lambda>ch. ch\<lparr>m_func := dma_int_func, m_data := q\<rparr>) s)
            else (EFI_DEVICE_ERROR, s)) (dma_index tab hdma)"

definition sunxi_dma_enable_int ::
  "'h plat \<Rightarrow> 'h gic \<Rightarrow> u64 \<Rightarrow> u32 \<Rightarrow> 'h dma_state \<Rightarrow> (efi_status \<times> 'h dma_state) option" where
  "sunxi_dma_enable_int p gInterrupt tab hdma s =
     map_option (\<lambda>i.
       let ch = dma_channal_source s ! i; c = channal_count ch in
       if used ch = 0 then (-1, s)
       else case MmioRead32 p (en_reg c) (dma_dev s) of (v, h) \<Rightarrow>
         if v AND end_bit c \<noteq> 0 then (EFI_DEVICE_ERROR, s\<lparr>dma_dev := h\<rparr>)
         else
           let h = mmio_rmw p (en_reg c) (\<lambda>v. v OR end_bit c) h;
               h = (if dma_int_count s = 0 then EnableInterruptSource gInterrupt AW_IRQ_DMA h else h)
           in (EFI_SUCCESS, s\<lparr>dma_dev := h, dma_int_count := dma_int_count s + 1\<rparr>)) (dma_index tab hdma)"

definition sunxi_dma_disable_int ::
  "'h plat \<Rightarrow> 'h gic \<Rightarrow> u64 \<Rightarrow> u32 \<Rightarrow> 'h dma_state \<Rightarrow> (efi_status \<times> 'h dma_state) option" where
  "sunxi_dma_disable_int p gInterrupt tab hdma s =
     map_option (\<lambda>i.
       let ch = dma_channal_source s ! i; c = channal_count ch in
       if used ch = 0 then (-1, s)
       else case MmioRead32 p (en_reg c) (dma_dev s) of (v, h) \<Rightarrow>
         if v AND end_bit c = 0 then (EFI_DEVICE_ERROR, s\<lparr>dma_dev := h\<rparr>)
         else
           let h = mmio_rmw p (en_reg c) (\<lambda>v. v AND NOT (end_bit c)) h;
               n = (if dma_int_count s > 0 then dma_int_count s - 1 else dma_int_count s);
               h = (if n = 0 then DisableInterruptSource gInterrupt AW_IRQ_DMA h else h)
           in (EFI_SUCCESS, s\<lparr>dma_dev := h, dma_int_count := n\<rparr>)) (dma_index tab hdma)"

text \<open>Here the shift counts lack the factor 4: the pending bits of other channels are cleared.\<close>

definition sunxi_dma_free_int :: "'h plat \<Rightarrow> u64 \<Rightarrow> u32 \<Rightarrow> 'h dma_state \<Rightarrow> (efi_status \<times> 'h dma_state) option" where
  "sunxi_dma_free_int p tab hdma s =
     map_option (\<lambda>i.
       let ch = dma_channal_source s ! i; c = channal_count ch in
       if used ch = 0 then (EFI_DEVICE_ERROR, s)
       else
         let s = s\<lparr>dma_dev := (if c < 8 then MmioWrite32 p irq_pending0 (push_bit (unat c) 7) (dma_dev s)
                               else MmioWrite32 p irq_pending1 (push_bit (unat (c - 8)) 7) (dma_dev s))\<rparr>
         in if m_func ch \<noteq> 0 then (EFI_SUCCESS, upd_source i (\<lambda>ch. ch\<lparr>m_func := 0, m_data := 0\<rparr>) s)
            else (EFI_DEVICE_ERROR, s)) (dma_index tab hdma)"

text \<open>
  The interrupt handler. The handlers of the clients are functions \<open>call\<close> of their address and
  argument on the state of the driver. For the channels 8 to 14 the mask \<open>DMA_PKG_END_INT << (i * 4)\<close> is a
  shift by 32 or more, which C leaves undefined: a handler on one of them has no result.
\<close>

definition serve_channel ::
  "'h plat \<Rightarrow> (u64 \<Rightarrow> u64 \<Rightarrow> 'h dma_state \<Rightarrow> 'h dma_state) \<Rightarrow> nat \<Rightarrow> 'h dma_state \<Rightarrow> 'h dma_state" where
  "serve_channel p call i s =
     (if m_func (dma_channal_source s ! i) = 0 then s
      else let pending = push_bit (i * 4) DMA_PKG_END_INT in
        case MmioRead32 p irq_pending0 (dma_dev s) of (v, h) \<Rightarrow>
          if v AND pending = 0 then s\<lparr>dma_dev := h\<rparr>
          else let s = s\<lparr>dma_dev := MmioWrite32 p irq_pending0 pending h\<rparr>; ch = dma_channal_source s ! i
               in call (m_func ch) (m_data ch) s)"

definition sunxi_dma_int_func ::
  "'h plat \<Rightarrow> 'h gic \<Rightarrow> (u64 \<Rightarrow> u64 \<Rightarrow> 'h dma_state \<Rightarrow> 'h dma_state) \<Rightarrow> u64 \<Rightarrow> 'h dma_state \<Rightarrow> 'h dma_state option" where
  "sunxi_dma_int_func p gInterrupt call Source s =
     (let s = fold (serve_channel p call) [0..<8] s in
      if \<exists>i\<in>{8..<15}. m_func (dma_channal_source s ! i) \<noteq> 0 then None
      else Some (s\<lparr>dma_dev := EndOfInterrupt gInterrupt Source (dma_dev s)\<rparr>))"

section \<open>Channels\<close>

definition sunxi_dma_init :: "'h plat \<Rightarrow> 'h gic \<Rightarrow> (nat \<Rightarrow> u64) \<Rightarrow> 'h dma_state \<Rightarrow> (efi_status \<times> 'h dma_state) option" where
  "sunxi_dma_init p gInterrupt alloc s =
     (let h = MmioWrite32 p irq_en0 0 (dma_dev s);
          h = MmioWrite32 p irq_en1 0 h;
          h = MmioWrite32 p irq_pending0 0xffffffff h;
          h = MmioWrite32 p irq_pending1 0xffffffff h;
          source = (\<lambda>i. \<lparr>used = 0, channal_count = 0, channal = SUNXI_DMA_BASE + of_nat i * 0x40 + 0x100,
                         config = alloc i, m_data = 0, m_func = 0\<rparr>)
      in if \<exists>i\<in>{0..<16}. alloc i = 0 then None
         else case RegisterInterruptSource gInterrupt AW_IRQ_DMA h of (Status, h) \<Rightarrow>
           let h = DisableInterruptSource gInterrupt AW_IRQ_DMA h
           in if EFI_ERROR Status then None
              else Some (EFI_SUCCESS, s\<lparr>dma_dev := h, dma_channal_source := map source [0..<16], dma_int_count := 0\<rparr>))"

definition sunxi_dma_request :: "u64 \<Rightarrow> u32 \<Rightarrow> 'h dma_state \<Rightarrow> u32 \<times> 'h dma_state" where
  "sunxi_dma_request tab dmatype s =
     (case find (\<lambda>i. used (dma_channal_source s ! i) = 0) [0..<16] of
        None \<Rightarrow> (0, s)
      | Some i \<Rightarrow> (dma_handle tab i, upd_source i (\<lambda>ch. ch\<lparr>used := 1, channal_count := of_nat i\<rparr>) s))"

abbreviation (input) EfiBootServicesData :: u64 where "EfiBootServicesData \<equiv> 4"

text \<open>The calls inside \<open>sunxi_dma_release\<close> and \<open>sunxi_dma_exit\<close>, whose results are ignored.\<close>

definition free_channel :: "'h plat \<Rightarrow> 'h gic \<Rightarrow> u64 \<Rightarrow> u32 \<Rightarrow> nat \<Rightarrow> 'h dma_state \<Rightarrow> 'h dma_state option" where
  "free_channel p gInterrupt tab hdma i s =
     (case sunxi_dma_disable_int p gInterrupt tab hdma s of None \<Rightarrow> None
      | Some (_, s) \<Rightarrow>
        (case sunxi_dma_free_int p tab hdma s of None \<Rightarrow> None
         | Some (_, s) \<Rightarrow>
           let s = s\<lparr>dma_dev := MmioWrite32 p (channal (dma_channal_source s ! i)) 0 (dma_dev s)\<rparr>
           in Some (upd_source i (\<lambda>ch. ch\<lparr>used := 0\<rparr>) s)))"

definition sunxi_dma_release :: "'h plat \<Rightarrow> 'h gic \<Rightarrow> u64 \<Rightarrow> u32 \<Rightarrow> 'h dma_state \<Rightarrow> (efi_status \<times> 'h dma_state) option" where
  "sunxi_dma_release p gInterrupt tab hdma s =
     (case dma_index tab hdma of None \<Rightarrow> None
      | Some i \<Rightarrow>
        if used (dma_channal_source s ! i) = 0 then Some (-1, s)
        else map_option (\<lambda>s. (EFI_SUCCESS, s)) (free_channel p gInterrupt tab hdma i s))"

fun exit_channels :: "'h plat \<Rightarrow> 'h gic \<Rightarrow> u64 \<Rightarrow> nat list \<Rightarrow> 'h dma_state \<Rightarrow> 'h dma_state option" where
  "exit_channels p gInterrupt tab [] s = Some s"
| "exit_channels p gInterrupt tab (i # is') s =
     (case (if used (dma_channal_source s ! i) = 1 then free_channel p gInterrupt tab (dma_handle tab i) i s else Some s) of
        None \<Rightarrow> None
      | Some s \<Rightarrow> exit_channels p gInterrupt tab is' s)"

text \<open>
  \<open>sunxi_dma_exit\<close> also returns the arguments of its calls of the allocator's \<open>DmaFreeBuffer\<close>: the number of pages, for
  which the code passes the memory type \<open>EfiBootServicesData\<close>, and the address.
\<close>

definition sunxi_dma_exit ::
  "'h plat \<Rightarrow> 'h gic \<Rightarrow> u64 \<Rightarrow> 'h dma_state \<Rightarrow> (efi_status \<times> (u64 \<times> u64) list \<times> 'h dma_state) option" where
  "sunxi_dma_exit p gInterrupt tab s =
     map_option (\<lambda>s.
       let h = MmioWrite32 p irq_en0 0 (dma_dev s);
           h = MmioWrite32 p irq_en1 0 h;
           h = MmioWrite32 p irq_pending0 0xffffffff h;
           h = MmioWrite32 p irq_pending1 0xffffffff h
       in (EFI_SUCCESS, map (\<lambda>ch. (EfiBootServicesData, config ch)) (dma_channal_source s),
           s\<lparr>dma_dev := DisableInterruptSource gInterrupt AW_IRQ_DMA h\<rparr>))
     (exit_channels p gInterrupt tab [0..<16] s)"

definition sunxi_dma_setting :: "u64 \<Rightarrow> u32 \<Rightarrow> u64 \<Rightarrow> 'h dma_state \<Rightarrow> (efi_status \<times> 'h dma_state) option" where
  "sunxi_dma_setting tab hdma cfg s =
     map_option (\<lambda>i.
       let ch = dma_channal_source s ! i; d = config ch; m = dma_mem s in
       if used ch = 0 then (EFI_DEVICE_ERROR, s)
       else
         let m = store32 m (d + 20) (if load32 m (cfg + 4) \<noteq> 0 then ucast d else SUNXI_DMA_LINK_NULL);
             commit_para = load32 m (cfg + 12) AND 0xff;
             commit_para = commit_para OR push_bit 8 (load32 m (cfg + 8) AND 0xff);
             m = store32 m (d + 16) commit_para;
             m = store32 m d (load32 m cfg)
         in (EFI_SUCCESS, s\<lparr>dma_mem := m\<rparr>)) (dma_index tab hdma)"

definition sunxi_dma_start ::
  "'h plat \<Rightarrow> u64 \<Rightarrow> u32 \<Rightarrow> u32 \<Rightarrow> u32 \<Rightarrow> u32 \<Rightarrow> 'h dma_state \<Rightarrow> (efi_status \<times> 'h dma_state) option" where
  "sunxi_dma_start p tab hdma saddr daddr bytes s =
     map_option (\<lambda>i.
       let ch = dma_channal_source s ! i; d = config ch; m = dma_mem s in
       if used ch = 0 then (EFI_DEVICE_ERROR, s)
       else
         let m = store32 m (d + 4) saddr;
             m = store32 m (d + 8) daddr;
             m = store32 m (d + 12) bytes;
             h = MmioWrite32 p (channal ch + 8) (ucast d) (dma_dev s);
             h = MmioWrite32 p (channal ch) 1 h
         in (EFI_SUCCESS, s\<lparr>dma_mem := m, dma_dev := h\<rparr>)) (dma_index tab hdma)"

definition sunxi_dma_stop :: "'h plat \<Rightarrow> u64 \<Rightarrow> u32 \<Rightarrow> 'h dma_state \<Rightarrow> (efi_status \<times> 'h dma_state) option" where
  "sunxi_dma_stop p tab hdma s =
     map_option (\<lambda>i.
       let ch = dma_channal_source s ! i in
       if used ch = 0 then (-1, s) else (0, s\<lparr>dma_dev := MmioWrite32 p (channal ch) 0 (dma_dev s)\<rparr>)) (dma_index tab hdma)"

definition sunxi_dma_querystatus :: "'h plat \<Rightarrow> u64 \<Rightarrow> u32 \<Rightarrow> 'h dma_state \<Rightarrow> (int \<times> 'h dma_state) option" where
  "sunxi_dma_querystatus p tab hdma s =
     map_option (\<lambda>i.
       let ch = dma_channal_source s ! i in
       if used ch = 0 then (-1, s)
       else case MmioRead32 p dma_status (dma_dev s) of (v, h) \<Rightarrow>
         (sint (drop_bit (unat (channal_count ch)) v AND 1), s\<lparr>dma_dev := h\<rparr>)) (dma_index tab hdma)"

section \<open>Handles\<close>

text \<open>The array of channels lies below 4 GiB, and not at address 0.\<close>

definition table_ok :: "u64 \<Rightarrow> bool" where
  "table_ok tab \<longleftrightarrow> tab \<noteq> 0 \<and> unat tab + 768 \<le> 2 ^ 32"

lemma handle_addr:
  assumes "table_ok tab" and "i < 16"
  shows "ucast (dma_handle tab i) = tab + of_nat (48 * i)"
proof -
  have off: "unat (of_nat (48 * i) :: u64) = 48 * i"
    using assms(2) by (simp add: unat_of_nat take_bit_nat_eq_self del: of_nat_mult)
  have "unat (tab + of_nat (48 * i)) < 2 ^ 32"
    using assms unfolding table_ok_def by (subst unat_word_ariths) (simp add: off del: of_nat_mult)
  then show ?thesis
    unfolding dma_handle_def by (intro word_unat_eq_iff [THEN iffD2]) (simp add: unsigned_ucast_eq unsigned_take_bit_eq take_bit_nat_eq_self)
qed

lemma dma_index_handle: "table_ok tab \<Longrightarrow> i < 16 \<Longrightarrow> dma_index tab (dma_handle tab i) = Some i"
  unfolding dma_index_def by (simp add: handle_addr unat_of_nat take_bit_nat_eq_self Let_def del: of_nat_mult)

lemma dma_index_less: "dma_index tab hdma = Some i \<Longrightarrow> i < 16"
  by (simp add: dma_index_def Let_def split: if_splits)

lemma dma_index_eq: "dma_index tab a = Some i \<Longrightarrow> dma_index tab b = Some i \<Longrightarrow> a = b"
proof -
  assume "dma_index tab a = Some i" "dma_index tab b = Some i"
  then have "unat (ucast a - tab) = 48 * i" "unat (ucast b - tab) = 48 * i"
    by (auto simp: dma_index_def Let_def split: if_splits)
  then have "(ucast a :: u64) = ucast b" by (metis word_unat_eq_iff diff_eq_eq)
  then show "a = b" by (metis ucast_up_down_u32)
qed

lemma handle_nonzero: "table_ok tab \<Longrightarrow> i < 16 \<Longrightarrow> dma_handle tab i \<noteq> 0"
proof
  assume a: "table_ok tab" "i < 16" "dma_handle tab i = 0"
  then have "tab + of_nat (48 * i) = 0" using handle_addr [OF a(1,2)] by simp
  then have "unat (tab + of_nat (48 * i)) = 0" by simp
  moreover have off: "unat (of_nat (48 * i) :: u64) = 48 * i"
    using a(2) by (simp add: unat_of_nat take_bit_nat_eq_self del: of_nat_mult)
  ultimately have "unat tab = 0"
    using a unfolding table_ok_def by (subst (asm) unat_word_ariths) (simp add: off del: of_nat_mult)
  then show False using a(1) by (simp add: table_ok_def unat_eq_0)
qed

section \<open>Enable bits\<close>

lemma unat_chan: "i < 16 \<Longrightarrow> unat (of_nat i :: u32) = i"
  by (simp add: unat_of_nat take_bit_nat_eq_self)

lemma chan_less: "i < 16 \<Longrightarrow> (of_nat i :: u32) < 8 \<longleftrightarrow> i < 8"
  by (simp add: word_less_nat_alt unat_chan)

lemma end_bit_pos: "i < 16 \<Longrightarrow> end_bit (of_nat i) = push_bit (4 * (i mod 8) + 1) 1"
proof -
  assume i: "i < 16"
  have m: "i mod 8 = (if i < 8 then i else i - 8)" using i by (auto simp: mod_if)
  have "(if (of_nat i :: u32) < 8 then of_nat i else of_nat i - 8) = (of_nat (i mod 8) :: u32)"
    using i by (simp add: m chan_less of_nat_diff)
  moreover have "unat ((of_nat (i mod 8) :: u32) * 4) = 4 * (i mod 8)"
    by (simp add: unat_of_nat take_bit_nat_eq_self unat_word_ariths mult.commute)
  ultimately show ?thesis by (simp add: end_bit_def push_bit_eq_mult)
qed

lemma en_reg_nat: "i < 16 \<Longrightarrow> en_reg (of_nat i) = (if i < 8 then irq_en0 else irq_en1)"
  by (simp add: en_reg_def chan_less)

definition int_on :: "(u32 \<Rightarrow> u32) \<Rightarrow> nat \<Rightarrow> bool" where
  "int_on R i \<longleftrightarrow> R (en_reg (of_nat i)) AND end_bit (of_nat i) \<noteq> 0"

lemma int_on_bit: "i < 16 \<Longrightarrow> int_on R i \<longleftrightarrow> bit (R (en_reg (of_nat i))) (4 * (i mod 8) + 1)"
  unfolding int_on_def by (simp add: end_bit_pos bit_iff_and_push_bit_not_eq_0)

lemma int_on_inj: "i < 16 \<Longrightarrow> j < 16 \<Longrightarrow> en_reg (of_nat i) = en_reg (of_nat j) \<Longrightarrow> i mod 8 = j mod 8 \<Longrightarrow> i = j"
  by (auto simp: en_reg_nat mod_if split: if_splits)

text \<open>Setting and clearing the bit of one channel.\<close>

lemma bit_fun_upd:
  fixes R :: "u32 \<Rightarrow> u32"
  assumes "k < 32"
  shows "bit ((R(a := R a OR push_bit k 1)) b) l \<longleftrightarrow> b = a \<and> l = k \<or> bit (R b) l"
    and "bit ((R(a := R a AND NOT (push_bit k 1))) b) l \<longleftrightarrow> \<not> (b = a \<and> l = k) \<and> bit (R b) l"
  using assms by (auto simp: bit_or_iff bit_and_iff bit_not_iff bit_push_bit_iff bit_1_iff bit_exp_iff possible_bit_word dest: bit_imp_le_length)

lemma int_on_set:
  assumes "i < 16" and "j < 16"
  shows "int_on (R(en_reg (of_nat i) := R (en_reg (of_nat i)) OR end_bit (of_nat i))) j \<longleftrightarrow> j = i \<or> int_on R j"
    and "int_on (R(en_reg (of_nat i) := R (en_reg (of_nat i)) AND NOT (end_bit (of_nat i)))) j \<longleftrightarrow> j \<noteq> i \<and> int_on R j"
proof -
  have k: "4 * (i mod 8) + 1 < 32" using mod_less_divisor [of 8 i] by linarith
  have same: "en_reg (of_nat j) = en_reg (of_nat i) \<and> 4 * (j mod 8) + 1 = 4 * (i mod 8) + 1 \<longleftrightarrow> j = i"
    using int_on_inj [OF assms(2,1)] by auto
  note b = int_on_bit [OF assms(2)] end_bit_pos [OF assms(1)] bit_fun_upd [OF k] same
  show "int_on (R(en_reg (of_nat i) := R (en_reg (of_nat i)) OR end_bit (of_nat i))) j \<longleftrightarrow> j = i \<or> int_on R j"
    "int_on (R(en_reg (of_nat i) := R (en_reg (of_nat i)) AND NOT (end_bit (of_nat i)))) j \<longleftrightarrow> j \<noteq> i \<and> int_on R j"
    unfolding b by (rule refl)+
qed

lemma int_on_cong: "R irq_en0 = R' irq_en0 \<Longrightarrow> R irq_en1 = R' irq_en1 \<Longrightarrow> int_on R i = int_on R' i"
  by (simp add: int_on_def en_reg_def)

section \<open>The invariant\<close>

text \<open>
  A channel that is in use has its own number; one that is not has no handler and its interrupt is
  disabled; the count is the number of channels whose interrupt is enabled, and the
  interrupt line is enabled if there is one.
\<close>

definition source_ok :: "(u32 \<Rightarrow> u32) \<Rightarrow> nat \<Rightarrow> dma_source \<Rightarrow> bool" where
  "source_ok R i ch \<longleftrightarrow> channal ch = SUNXI_DMA_BASE + of_nat i * 0x40 + 0x100 \<and>
     (used ch = 1 \<and> channal_count ch = of_nat i \<or> used ch = 0 \<and> m_func ch = 0 \<and> \<not> int_on R i)"

definition dma_inv :: "('h \<Rightarrow> u32 \<Rightarrow> u32) \<Rightarrow> ('h \<Rightarrow> bool) \<Rightarrow> 'h dma_state \<Rightarrow> bool" where
  "dma_inv reg line s \<longleftrightarrow>
     length (dma_channal_source s) = 16 \<and>
     (\<forall>i<16. source_ok (reg (dma_dev s)) i (dma_channal_source s ! i)) \<and>
     dma_int_count s = int (card {i. i < 16 \<and> int_on (reg (dma_dev s)) i}) \<and>
     (line (dma_dev s) \<longleftrightarrow> (\<exists>i<16. int_on (reg (dma_dev s)) i))"

lemma count_zero: "dma_inv reg line s \<Longrightarrow> dma_int_count s = 0 \<longleftrightarrow> \<not> line (dma_dev s)"
  by (auto simp: dma_inv_def card_eq_0_iff)

lemma channal_apart:
  assumes "i < 16" and "k \<in> {0, 8}"
  shows "SUNXI_DMA_BASE + of_nat i * 0x40 + 0x100 + k \<notin> {irq_en0, irq_en1}"
proof -
  have "unat (of_nat i * 0x40 :: u32) = 64 * i"
    using assms(1) by (simp add: unat_word_ariths unat_of_nat take_bit_nat_eq_self mult.commute)
  then have "unat (SUNXI_DMA_BASE + of_nat i * 0x40 + 0x100 + k) \<ge> 0x01c02100"
    using assms by (auto simp: unat_word_ariths)
  moreover have "x \<notin> {irq_en0, irq_en1}" if "0x01c02100 \<le> unat x" for x :: u32 using that by auto
  ultimately show ?thesis by blast
qed

lemma inv_dev:
  assumes "dma_inv reg line s" and "reg h irq_en0 = reg (dma_dev s) irq_en0" and "reg h irq_en1 = reg (dma_dev s) irq_en1"
    and "line h = line (dma_dev s)"
  shows "dma_inv reg line (s\<lparr>dma_mem := m, dma_dev := h\<rparr>)"
  using assms int_on_cong [OF assms(2,3)] by (simp add: dma_inv_def source_ok_def)

lemma inv_source:
  assumes "dma_inv reg line s" and "i < 16" and "source_ok (reg (dma_dev s)) i (f (dma_channal_source s ! i))"
  shows "dma_inv reg line (upd_source i f s)"
  using assms by (auto simp: dma_inv_def upd_source_def nth_list_update)

lemma inv_switch:
  assumes "dma_inv reg line s" and "i < 16" and "used (dma_channal_source s ! i) = 1"
  shows "\<not> int_on (reg (dma_dev s)) i \<Longrightarrow> (\<And>j. j < 16 \<Longrightarrow> int_on (reg h) j \<longleftrightarrow> j = i \<or> int_on (reg (dma_dev s)) j) \<Longrightarrow>
      line h \<Longrightarrow> dma_inv reg line (s\<lparr>dma_dev := h, dma_int_count := dma_int_count s + 1\<rparr>)"
    and "int_on (reg (dma_dev s)) i \<Longrightarrow> (\<And>j. j < 16 \<Longrightarrow> int_on (reg h) j \<longleftrightarrow> j \<noteq> i \<and> int_on (reg (dma_dev s)) j) \<Longrightarrow>
      line h \<longleftrightarrow> dma_int_count s \<noteq> 1 \<Longrightarrow> dma_inv reg line (s\<lparr>dma_dev := h, dma_int_count := dma_int_count s - 1\<rparr>)"
proof -
  let ?on = "{j. j < 16 \<and> int_on (reg (dma_dev s)) j}"
  have fin: "finite ?on" by simp
  have src: "length (dma_channal_source s) = 16" "\<forall>j<16. source_ok (reg (dma_dev s)) j (dma_channal_source s ! j)"
    "dma_int_count s = int (card ?on)" using assms(1) by (auto simp: dma_inv_def)
  { assume off: "\<not> int_on (reg (dma_dev s)) i" and h: "\<And>j. j < 16 \<Longrightarrow> int_on (reg h) j \<longleftrightarrow> j = i \<or> int_on (reg (dma_dev s)) j"
      and l: "line h"
    have "{j. j < 16 \<and> int_on (reg h) j} = insert i ?on" using h assms(2) by auto
    moreover have "i \<notin> ?on" using off by simp
    ultimately have "card {j. j < 16 \<and> int_on (reg h) j} = card ?on + 1" using fin by simp
    then show "dma_inv reg line (s\<lparr>dma_dev := h, dma_int_count := dma_int_count s + 1\<rparr>)"
      using src h l assms(2,3) by (auto simp: dma_inv_def source_ok_def) }
  { assume on: "int_on (reg (dma_dev s)) i" and h: "\<And>j. j < 16 \<Longrightarrow> int_on (reg h) j \<longleftrightarrow> j \<noteq> i \<and> int_on (reg (dma_dev s)) j"
      and l: "line h \<longleftrightarrow> dma_int_count s \<noteq> 1"
    have eq: "{j. j < 16 \<and> int_on (reg h) j} = ?on - {i}" using h by auto
    have i: "i \<in> ?on" using on assms(2) by simp
    have card: "card ?on = Suc (card {j. j < 16 \<and> int_on (reg h) j})" unfolding eq using fin i by (rule card.remove)
    then have "line h \<longleftrightarrow> {j. j < 16 \<and> int_on (reg h) j} \<noteq> {}" using l src(3) by (auto simp: card_eq_0_iff)
    then show "dma_inv reg line (s\<lparr>dma_dev := h, dma_int_count := dma_int_count s - 1\<rparr>)"
      using src h card by (auto simp: dma_inv_def source_ok_def) }
qed

section \<open>Operations keep the invariant\<close>

locale dma_hardware = mmio_registers p reg cfg
  for p :: "'h plat" and reg :: "'h \<Rightarrow> u32 \<Rightarrow> u32" and cfg :: "u32 set" +
  fixes gInterrupt :: "'h gic"
    and line :: "'h \<Rightarrow> bool"
  assumes en_cfg: "irq_en0 \<in> cfg" "irq_en1 \<in> cfg"
    and line_read: "line (snd (MmioRead32 p a h)) = line h"
    and line_write: "line (MmioWrite32 p a v h) = line h"
    and reg_enable: "a \<in> cfg \<Longrightarrow> reg (EnableInterruptSource gInterrupt n h) a = reg h a"
    and line_enable: "line (EnableInterruptSource gInterrupt AW_IRQ_DMA h)"
    and reg_disable: "a \<in> cfg \<Longrightarrow> reg (DisableInterruptSource gInterrupt n h) a = reg h a"
    and line_disable: "\<not> line (DisableInterruptSource gInterrupt AW_IRQ_DMA h)"
    and reg_register: "a \<in> cfg \<Longrightarrow> reg (snd (RegisterInterruptSource gInterrupt n h)) a = reg h a"
begin

lemma line_rmw: "line (mmio_rmw p a f h) = line h"
  by (simp add: mmio_rmw_def split_beta line_read line_write)

lemma en_reg_cfg: "en_reg c \<in> cfg"
  by (simp add: en_reg_def en_cfg)

lemmas dma_simps = reg_simps en_cfg en_reg_cfg line_read line_write line_rmw reg_enable reg_disable

lemma inv_write:
  assumes "dma_inv reg line s" and "a \<noteq> irq_en0" and "a \<noteq> irq_en1"
  shows "dma_inv reg line (s\<lparr>dma_dev := MmioWrite32 p a v (dma_dev s)\<rparr>)"
  using inv_dev [OF assms(1), of "MmioWrite32 p a v (dma_dev s)" "dma_mem s"] assms by (simp add: dma_simps)

lemma used_channel:
  assumes "dma_inv reg line s" and "i < 16" and "used (dma_channal_source s ! i) \<noteq> 0"
  shows "used (dma_channal_source s ! i) = 1 \<and> channal_count (dma_channal_source s ! i) = of_nat i"
  using assms by (auto simp: dma_inv_def source_ok_def)

lemma int_on_read: "reg (dma_dev s) (en_reg (of_nat i)) AND end_bit (of_nat i) = 0 \<longleftrightarrow> \<not> int_on (reg (dma_dev s)) i"
  by (simp add: int_on_def)

lemma inv_read: "dma_inv reg line s \<Longrightarrow> dma_inv reg line (s\<lparr>dma_dev := snd (MmioRead32 p a (dma_dev s))\<rparr>)"
  using inv_dev [of reg line s "snd (MmioRead32 p a (dma_dev s))" "dma_mem s"] by (simp add: dma_simps)

lemma inv_enable:
  assumes "dma_inv reg line s" and "sunxi_dma_enable_int p gInterrupt tab hdma s = Some (st, s')"
  shows "dma_inv reg line s'"
proof -
  obtain i where i: "dma_index tab hdma = Some i" "i < 16"
    using assms(2) dma_index_less by (auto simp: sunxi_dma_enable_int_def)
  let ?R = "reg (dma_dev s)" and ?ch = "dma_channal_source s ! i" and ?c = "of_nat i :: u32"
  let ?h = "mmio_rmw p (en_reg ?c) (\<lambda>v. v OR end_bit ?c) (snd (MmioRead32 p (en_reg ?c) (dma_dev s)))"
  let ?h' = "if dma_int_count s = 0 then EnableInterruptSource gInterrupt AW_IRQ_DMA ?h else ?h"
  consider "used ?ch = 0" | "used ?ch = 1" "channal_count ?ch = ?c" "int_on ?R i"
    | "used ?ch = 1" "channal_count ?ch = ?c" "\<not> int_on ?R i"
    using used_channel [OF assms(1) i(2)] by blast
  then show ?thesis
  proof cases
    case 3
    have "int_on (reg ?h') j \<longleftrightarrow> int_on (?R(en_reg ?c := ?R (en_reg ?c) OR end_bit ?c)) j" for j
      by (rule int_on_cong) (simp_all add: dma_simps)
    moreover have "line ?h'"
      using count_zero [OF assms(1)] by (simp add: line_enable line_rmw line_read)
    ultimately have "dma_inv reg line (s\<lparr>dma_dev := ?h', dma_int_count := dma_int_count s + 1\<rparr>)"
      using inv_switch(1) [OF assms(1) i(2) 3(1,3), of ?h'] int_on_set(1) [OF i(2)] by blast
    then show ?thesis
      using assms(2) i 3 by (simp add: sunxi_dma_enable_int_def Let_def split_beta fst_read en_reg_cfg int_on_read)
  qed (use assms i inv_read [OF assms(1)] in
      \<open>auto simp: sunxi_dma_enable_int_def Let_def split_beta fst_read en_reg_cfg int_on_read\<close>)
qed

lemma inv_disable:
  assumes "dma_inv reg line s" and "sunxi_dma_disable_int p gInterrupt tab hdma s = Some (st, s')"
    and i: "dma_index tab hdma = Some i" "i < 16"
  shows "dma_inv reg line s' \<and> \<not> int_on (reg (dma_dev s')) i \<and> dma_channal_source s' = dma_channal_source s"
proof -
  let ?R = "reg (dma_dev s)" and ?ch = "dma_channal_source s ! i" and ?c = "of_nat i :: u32"
  let ?h = "mmio_rmw p (en_reg ?c) (\<lambda>v. v AND NOT (end_bit ?c)) (snd (MmioRead32 p (en_reg ?c) (dma_dev s)))"
  let ?h' = "if dma_int_count s = 1 then DisableInterruptSource gInterrupt AW_IRQ_DMA ?h else ?h"
  consider "used ?ch = 0" "\<not> int_on ?R i" | "used ?ch = 1" "channal_count ?ch = ?c" "\<not> int_on ?R i"
    | "used ?ch = 1" "channal_count ?ch = ?c" "int_on ?R i"
    using assms(1) i(2) by (auto simp: dma_inv_def source_ok_def)
  then show ?thesis
  proof cases
    case 3
    have h': "int_on (reg ?h') j \<longleftrightarrow> j \<noteq> i \<and> int_on ?R j" if "j < 16" for j
      unfolding int_on_set(2) [OF i(2) that, symmetric] by (rule int_on_cong) (simp_all add: dma_simps)
    have ln: "line (dma_dev s)" and pos: "0 < dma_int_count s"
      using assms(1) i(2) 3(3) by (auto simp: dma_inv_def card_gt_0_iff)
    then have "line ?h' \<longleftrightarrow> dma_int_count s \<noteq> 1" by (simp add: line_disable line_rmw line_read)
    then have "dma_inv reg line (s\<lparr>dma_dev := ?h', dma_int_count := dma_int_count s - 1\<rparr>)"
      using inv_switch(2) [OF assms(1) i(2) 3(1,3), of ?h'] h' by blast
    then show ?thesis
      using assms(2) i 3 pos h' [OF i(2)]
      by (auto simp: sunxi_dma_disable_int_def Let_def split_beta fst_read en_reg_cfg int_on_read split: if_splits)
  qed (use assms i inv_read [OF assms(1)] in
      \<open>auto simp: sunxi_dma_disable_int_def Let_def split_beta fst_read en_reg_cfg int_on_def dma_simps\<close>)
qed

lemma inv_free:
  assumes "dma_inv reg line s" and "sunxi_dma_free_int p tab hdma s = Some (st, s')"
    and i: "dma_index tab hdma = Some i" "i < 16"
  shows "dma_inv reg line s' \<and> m_func (dma_channal_source s' ! i) = 0 \<and>
    (\<forall>j. int_on (reg (dma_dev s')) j = int_on (reg (dma_dev s)) j)"
proof -
  let ?ch = "dma_channal_source s ! i"
  have len: "length (dma_channal_source s) = 16" using assms(1) by (simp add: dma_inv_def)
  define s1 where "s1 = s\<lparr>dma_dev := (if channal_count ?ch < 8 then MmioWrite32 p irq_pending0 (push_bit (unat (channal_count ?ch)) 7) (dma_dev s)
    else MmioWrite32 p irq_pending1 (push_bit (unat (channal_count ?ch - 8)) 7) (dma_dev s))\<rparr>"
  have inv1: "dma_inv reg line s1" unfolding s1_def using inv_write [OF assms(1)] by simp
  have on1: "int_on (reg (dma_dev s1)) j = int_on (reg (dma_dev s)) j" for j
    unfolding s1_def by (rule int_on_cong) (simp_all add: dma_simps)
  have src1: "dma_channal_source s1 = dma_channal_source s" by (simp add: s1_def)
  have "dma_inv reg line (upd_source i (\<lambda>ch. ch\<lparr>m_func := 0, m_data := 0\<rparr>) s1)"
    using inv1 i(2) by (intro inv_source) (auto simp: dma_inv_def source_ok_def)
  then show ?thesis
    using assms inv1 on1 src1 len
    by (auto simp: sunxi_dma_free_int_def Let_def s1_def [symmetric] dma_inv_def source_ok_def upd_source_def split: if_splits)
qed

lemma inv_install:
  assumes "dma_inv reg line s" and "sunxi_dma_install_int p tab hdma f q s = Some (st, s')"
  shows "dma_inv reg line s'"
proof -
  obtain i where i: "dma_index tab hdma = Some i" "i < 16"
    using assms(2) dma_index_less by (auto simp: sunxi_dma_install_int_def)
  let ?ch = "dma_channal_source s ! i"
  define s1 where "s1 = s\<lparr>dma_dev := (if channal_count ?ch < 8 then MmioWrite32 p irq_pending0 (push_bit (unat (channal_count ?ch * 4)) 7) (dma_dev s)
    else MmioWrite32 p irq_pending1 (push_bit (unat ((channal_count ?ch - 8) * 4)) 7) (dma_dev s))\<rparr>"
  have inv1: "dma_inv reg line s1" unfolding s1_def using inv_write [OF assms(1)] by simp
  have src1: "dma_channal_source s1 = dma_channal_source s" by (simp add: s1_def)
  have "used ?ch \<noteq> 0 \<Longrightarrow> dma_inv reg line (upd_source i (\<lambda>ch. ch\<lparr>m_func := f, m_data := q\<rparr>) s1)"
    using inv1 i(2) src1 by (intro inv_source) (auto simp: dma_inv_def source_ok_def)
  then show ?thesis
    using assms i inv1 by (auto simp: sunxi_dma_install_int_def Let_def s1_def [symmetric] split: if_splits)
qed

lemma inv_request:
  assumes "dma_inv reg line s"
  shows "dma_inv reg line (snd (sunxi_dma_request tab dmatype s))"
  using assms
  by (auto simp: sunxi_dma_request_def source_ok_def dma_inv_def [of _ _ s] split: option.split
      dest!: find_Some_iff [THEN iffD1] intro!: inv_source assms)

lemma inv_free_channel:
  assumes "dma_inv reg line s" and "free_channel p gInterrupt tab hdma i s = Some s'"
    and i: "dma_index tab hdma = Some i" "i < 16"
  shows "dma_inv reg line s'"
proof -
  obtain st1 s1 st2 s2 where s1: "sunxi_dma_disable_int p gInterrupt tab hdma s = Some (st1, s1)"
    and s2: "sunxi_dma_free_int p tab hdma s1 = Some (st2, s2)"
    and s': "s' = upd_source i (\<lambda>ch. ch\<lparr>used := 0\<rparr>)
      (s2\<lparr>dma_dev := MmioWrite32 p (channal (dma_channal_source s2 ! i)) 0 (dma_dev s2)\<rparr>)"
    using assms(2) by (auto simp: free_channel_def Let_def split: option.splits)
  note d = inv_disable [OF assms(1) s1 i]
  then have f: "dma_inv reg line s2" "m_func (dma_channal_source s2 ! i) = 0" "\<not> int_on (reg (dma_dev s2)) i"
    using inv_free [OF _ s2 i] by auto
  let ?a = "channal (dma_channal_source s2 ! i)"
  have a: "?a = SUNXI_DMA_BASE + of_nat i * 0x40 + 0x100" using f(1) i(2) by (simp add: dma_inv_def source_ok_def)
  then have ne: "?a \<noteq> irq_en0" "?a \<noteq> irq_en1" using channal_apart [OF i(2), of 0] by auto
  let ?s = "s2\<lparr>dma_dev := MmioWrite32 p ?a 0 (dma_dev s2)\<rparr>"
  have "int_on (reg (dma_dev ?s)) i = int_on (reg (dma_dev s2)) i"
    using ne by (intro int_on_cong) (simp_all add: dma_simps)
  then have "dma_inv reg line (upd_source i (\<lambda>ch. ch\<lparr>used := 0\<rparr>) ?s)"
    using f a i(2) by (intro inv_source inv_write [OF f(1) ne]) (simp_all add: source_ok_def)
  then show ?thesis unfolding s' .
qed

lemma inv_release:
  assumes "dma_inv reg line s" and "sunxi_dma_release p gInterrupt tab hdma s = Some (st, s')"
  shows "dma_inv reg line s'"
  using assms dma_index_less inv_free_channel by (auto simp: sunxi_dma_release_def split: option.splits if_splits)

lemma free_channel_used:
  assumes "free_channel p gInterrupt tab hdma i s = Some s'" and i: "dma_index tab hdma = Some i"
    and len: "length (dma_channal_source s) = 16" and "i < 16"
  shows "used (dma_channal_source s' ! j) = (if j = i then 0 else used (dma_channal_source s ! j))"
proof -
  have d: "dma_channal_source s1 = dma_channal_source s"
    if "sunxi_dma_disable_int p gInterrupt tab hdma s = Some (st, s1)" for st s1
    using that by (auto simp: sunxi_dma_disable_int_def Let_def i split_beta split: if_splits)
  have f: "used (dma_channal_source s2 ! j) = used (dma_channal_source s ! j) \<and> length (dma_channal_source s2) = 16"
    if "sunxi_dma_free_int p tab hdma s1 = Some (st, s2)" "dma_channal_source s1 = dma_channal_source s" for st s1 s2
    using that len assms(4)
    by (auto simp: sunxi_dma_free_int_def Let_def i upd_source_def nth_list_update split: if_splits)
  show ?thesis
    using assms(1,4) len d f
    by (auto simp: free_channel_def Let_def upd_source_def nth_list_update split: option.splits)
qed

lemma inv_exit_channels:
  assumes tab: "table_ok tab"
  shows "dma_inv reg line s \<Longrightarrow> exit_channels p gInterrupt tab cs s = Some s' \<Longrightarrow> set cs \<subseteq> {..<16} \<Longrightarrow>
    dma_inv reg line s' \<and> (\<forall>j<16. used (dma_channal_source s' ! j) = (if j \<in> set cs then 0 else used (dma_channal_source s ! j)))"
proof (induction cs arbitrary: s)
  case (Cons i cs)
  have i: "i < 16" "dma_index tab (dma_handle tab i) = Some i" using Cons.prems(3) dma_index_handle [OF tab] by auto
  obtain s1 where s1: "exit_channels p gInterrupt tab cs s1 = Some s'"
    "(if used (dma_channal_source s ! i) = 1 then free_channel p gInterrupt tab (dma_handle tab i) i s else Some s) = Some s1"
    using Cons.prems(2) by (auto split: option.splits)
  have len: "length (dma_channal_source s) = 16" using Cons.prems(1) by (simp add: dma_inv_def)
  have inv1: "dma_inv reg line s1"
    using s1(2) inv_free_channel [OF Cons.prems(1) _ i(2,1)] Cons.prems(1) by (auto split: if_splits)
  have used1: "used (dma_channal_source s1 ! j) = (if j = i then 0 else used (dma_channal_source s ! j))" for j
    using s1(2) free_channel_used [OF _ i(2) len i(1)] used_channel [OF Cons.prems(1) i(1)] by (auto split: if_splits)
  show ?case using Cons.IH [OF inv1 s1(1)] Cons.prems(3) used1 by auto
qed simp

text \<open>Shutting down leaves every channel free, all interrupts disabled and the line off.\<close>

lemma inv_exit:
  assumes "table_ok tab" and "dma_inv reg line s" and "sunxi_dma_exit p gInterrupt tab s = Some (st, freed, s')"
  shows "st = EFI_SUCCESS \<and> dma_inv reg line s' \<and> (\<forall>i<16. used (dma_channal_source s' ! i) = 0) \<and> \<not> line (dma_dev s')"
proof -
  obtain s1 where s1: "exit_channels p gInterrupt tab [0..<16] s = Some s1"
    and s': "s' = s1\<lparr>dma_dev := DisableInterruptSource gInterrupt AW_IRQ_DMA (MmioWrite32 p irq_pending1 0xffffffff
      (MmioWrite32 p irq_pending0 0xffffffff (MmioWrite32 p irq_en1 0 (MmioWrite32 p irq_en0 0 (dma_dev s1)))))\<rparr>"
    and st: "st = EFI_SUCCESS"
    using assms(3) by (auto simp: sunxi_dma_exit_def)
  have inv1: "dma_inv reg line s1" "\<forall>j<16. used (dma_channal_source s1 ! j) = 0"
    using inv_exit_channels [OF assms(1,2) s1] by (simp_all add: lessThan_atLeast0)
  then have u: "used (dma_channal_source s1 ! i) = 0" if "i < 16" for i using that by auto
  have off: "\<not> int_on (reg (dma_dev s1)) i" if "i < 16" for i
    using inv1 u [OF that] that by (auto simp: dma_inv_def source_ok_def)
  then have zero: "dma_int_count s1 = 0" using inv1 by (auto simp: dma_inv_def)
  have off': "\<not> int_on (reg (dma_dev s')) i" for i by (simp add: s' int_on_def en_reg_def dma_simps)
  have "\<not> line (dma_dev s')" by (simp add: s' line_disable)
  moreover have "dma_inv reg line s'"
    using inv1 zero off' \<open>\<not> line (dma_dev s')\<close> u by (auto simp: dma_inv_def source_ok_def s')
  ultimately show ?thesis using st u by (auto simp: s')
qed

lemma inv_init:
  assumes "sunxi_dma_init p gInterrupt alloc s = Some (st, s')"
  shows "dma_inv reg line s'"
proof -
  let ?h = "MmioWrite32 p irq_pending1 0xffffffff (MmioWrite32 p irq_pending0 0xffffffff
    (MmioWrite32 p irq_en1 0 (MmioWrite32 p irq_en0 0 (dma_dev s))))"
  have h: "dma_dev s' = DisableInterruptSource gInterrupt AW_IRQ_DMA (snd (RegisterInterruptSource gInterrupt AW_IRQ_DMA ?h))"
    using assms by (auto simp: sunxi_dma_init_def Let_def split_beta split: if_splits)
  then have off: "\<not> int_on (reg (dma_dev s')) i" for i
    by (simp add: int_on_def en_reg_def dma_simps reg_register)
  have "\<not> line (dma_dev s')" by (simp add: h line_disable)
  then show ?thesis
    using assms off by (auto simp: sunxi_dma_init_def Let_def split_beta dma_inv_def source_ok_def split: if_splits)
qed

lemma inv_other:
  assumes "dma_inv reg line s"
  shows "sunxi_dma_setting tab hdma c s = Some (st, s') \<Longrightarrow> dma_inv reg line s'"
    and "sunxi_dma_start p tab hdma sa da n s = Some (st, s') \<Longrightarrow> dma_inv reg line s'"
    and "sunxi_dma_stop p tab hdma s = Some (st, s') \<Longrightarrow> dma_inv reg line s'"
    and "sunxi_dma_querystatus p tab hdma s = Some (r, s') \<Longrightarrow> dma_inv reg line s'"
proof -
  have ch: "channal (dma_channal_source s ! i) + k \<notin> {irq_en0, irq_en1}" if "dma_index tab hdma = Some i" "k \<in> {0, 8}" for i k
    using channal_apart [OF dma_index_less [OF that(1)] that(2)] dma_index_less [OF that(1)] assms
    by (auto simp: dma_inv_def source_ok_def)
  note ch8 = ch [where k = 8] and ch = ch [where k = 0, simplified]
  note d = inv_dev [OF assms]
  show "sunxi_dma_setting tab hdma c s = Some (st, s') \<Longrightarrow> dma_inv reg line s'"
    using d [of "dma_dev s"] assms by (auto simp: sunxi_dma_setting_def Let_def split: if_splits)
  show "sunxi_dma_start p tab hdma sa da n s = Some (st, s') \<Longrightarrow> dma_inv reg line s'"
    using assms ch ch8 by (auto simp: sunxi_dma_start_def Let_def dma_simps split: if_splits intro!: d)
  show "sunxi_dma_stop p tab hdma s = Some (st, s') \<Longrightarrow> dma_inv reg line s'"
    using inv_write [OF assms] assms ch by (auto simp: sunxi_dma_stop_def Let_def split: if_splits)
  show "sunxi_dma_querystatus p tab hdma s = Some (r, s') \<Longrightarrow> dma_inv reg line s'"
    using inv_read [OF assms] assms by (auto simp: sunxi_dma_querystatus_def Let_def split_beta split: if_splits)
qed

end

section \<open>Reachable states\<close>

text \<open>
  The states the driver can get into: after the start-up, by any calls of its clients in any order, and by steps of
  the hardware that leave the enable registers and the line alone.
\<close>

inductive dma_reach ::
  "'h plat \<Rightarrow> 'h gic \<Rightarrow> ('h \<Rightarrow> u32 \<Rightarrow> u32) \<Rightarrow> ('h \<Rightarrow> bool) \<Rightarrow> u64 \<Rightarrow> 'h dma_state \<Rightarrow> bool"
  for p gInterrupt reg line tab where
  init: "sunxi_dma_init p gInterrupt alloc s = Some (st, s') \<Longrightarrow> dma_reach p gInterrupt reg line tab s'"
| hardware: "dma_reach p gInterrupt reg line tab s \<Longrightarrow> reg h irq_en0 = reg (dma_dev s) irq_en0 \<Longrightarrow>
    reg h irq_en1 = reg (dma_dev s) irq_en1 \<Longrightarrow> line h = line (dma_dev s) \<Longrightarrow>
    dma_reach p gInterrupt reg line tab (s\<lparr>dma_mem := m, dma_dev := h\<rparr>)"
| request: "dma_reach p gInterrupt reg line tab s \<Longrightarrow>
    dma_reach p gInterrupt reg line tab (snd (sunxi_dma_request tab dmatype s))"
| release: "dma_reach p gInterrupt reg line tab s \<Longrightarrow> sunxi_dma_release p gInterrupt tab hdma s = Some (st, s') \<Longrightarrow>
    dma_reach p gInterrupt reg line tab s'"
| setting: "dma_reach p gInterrupt reg line tab s \<Longrightarrow> sunxi_dma_setting tab hdma c s = Some (st, s') \<Longrightarrow>
    dma_reach p gInterrupt reg line tab s'"
| start: "dma_reach p gInterrupt reg line tab s \<Longrightarrow> sunxi_dma_start p tab hdma sa da n s = Some (st, s') \<Longrightarrow>
    dma_reach p gInterrupt reg line tab s'"
| stop: "dma_reach p gInterrupt reg line tab s \<Longrightarrow> sunxi_dma_stop p tab hdma s = Some (st, s') \<Longrightarrow>
    dma_reach p gInterrupt reg line tab s'"
| query: "dma_reach p gInterrupt reg line tab s \<Longrightarrow> sunxi_dma_querystatus p tab hdma s = Some (r, s') \<Longrightarrow>
    dma_reach p gInterrupt reg line tab s'"
| install: "dma_reach p gInterrupt reg line tab s \<Longrightarrow> sunxi_dma_install_int p tab hdma f q s = Some (st, s') \<Longrightarrow>
    dma_reach p gInterrupt reg line tab s'"
| enable: "dma_reach p gInterrupt reg line tab s \<Longrightarrow> sunxi_dma_enable_int p gInterrupt tab hdma s = Some (st, s') \<Longrightarrow>
    dma_reach p gInterrupt reg line tab s'"
| disable: "dma_reach p gInterrupt reg line tab s \<Longrightarrow> sunxi_dma_disable_int p gInterrupt tab hdma s = Some (st, s') \<Longrightarrow>
    dma_reach p gInterrupt reg line tab s'"
| free: "dma_reach p gInterrupt reg line tab s \<Longrightarrow> sunxi_dma_free_int p tab hdma s = Some (st, s') \<Longrightarrow>
    dma_reach p gInterrupt reg line tab s'"

context dma_hardware
begin

lemma reach_inv: "dma_reach p gInterrupt reg line tab s \<Longrightarrow> dma_inv reg line s"
proof (induction rule: dma_reach.induct)
  case (init alloc s st s')
  then show ?case by (rule inv_init)
next
  case (hardware s h m)
  show ?case by (rule inv_dev [OF hardware.IH hardware.hyps(2-4)])
next
  case (request s dmatype)
  show ?case by (rule inv_request [OF request.IH])
next
  case (release s hdma st s')
  show ?case by (rule inv_release [OF release.IH release.hyps(2)])
next
  case (setting s hdma c st s')
  show ?case by (rule inv_other(1) [OF setting.IH setting.hyps(2)])
next
  case (start s hdma sa da n st s')
  show ?case by (rule inv_other(2) [OF start.IH start.hyps(2)])
next
  case (stop s hdma st s')
  show ?case by (rule inv_other(3) [OF stop.IH stop.hyps(2)])
next
  case (query s hdma r s')
  show ?case by (rule inv_other(4) [OF query.IH query.hyps(2)])
next
  case (install s hdma f q st s')
  show ?case by (rule inv_install [OF install.IH install.hyps(2)])
next
  case (enable s hdma st s')
  show ?case by (rule inv_enable [OF enable.IH enable.hyps(2)])
next
  case (disable s hdma st s')
  moreover obtain i where "dma_index tab hdma = Some i" using disable.hyps(2) by (auto simp: sunxi_dma_disable_int_def)
  ultimately show ?case using inv_disable dma_index_less by blast
next
  case (free s hdma st s')
  moreover obtain i where "dma_index tab hdma = Some i" using free.hyps(2) by (auto simp: sunxi_dma_free_int_def)
  ultimately show ?case using inv_free dma_index_less by blast
qed

end

text \<open>
  C25: the interrupt bookkeeping of the DMA driver. In every state it can get into, the count is the number of
  channels whose interrupt is enabled, the shared interrupt line is enabled exactly if there is one,
  and a channel nobody has requested has no handler and its interrupt is disabled.
\<close>

theorem dma_interrupt_bookkeeping:
  assumes "dma_hardware p reg cfg gInterrupt line" and "dma_reach p gInterrupt reg line tab s"
  defines "on \<equiv> {i. i < 16 \<and> int_on (reg (dma_dev s)) i}"
  shows "dma_int_count s = int (card on) \<and> (line (dma_dev s) \<longleftrightarrow> on \<noteq> {}) \<and>
    (\<forall>i<16. used (dma_channal_source s ! i) = 0 \<longrightarrow> m_func (dma_channal_source s ! i) = 0 \<and> i \<notin> on)"
  using dma_hardware.reach_inv [OF assms(1,2)] unfolding on_def dma_inv_def source_ok_def by auto

text \<open>
  C28: a channel has one owner. A request gives the lowest free channel, whose handle is none of those in
  use, and changes no other channel; when all sixteen are in use it returns 0 and changes
  nothing.
\<close>

theorem dma_request_exclusive:
  assumes "dma_hardware p reg cfg gInterrupt line" and "dma_reach p gInterrupt reg line tab s" and "table_ok tab"
    and "sunxi_dma_request tab dmatype s = (hdma, s')"
  defines "busy \<equiv> {i. i < 16 \<and> used (dma_channal_source s ! i) \<noteq> 0}"
  shows "if busy = {..<16} then hdma = 0 \<and> s' = s
    else \<exists>i. i < 16 \<and> i \<notin> busy \<and> {..<i} \<subseteq> busy \<and> hdma = dma_handle tab i \<and> hdma \<noteq> 0 \<and> dma_index tab hdma = Some i \<and>
      (\<forall>j\<in>busy. dma_handle tab j \<noteq> hdma) \<and> used (dma_channal_source s' ! i) = 1 \<and>
      (\<forall>j. j \<noteq> i \<longrightarrow> dma_channal_source s' ! j = dma_channal_source s ! j)"
proof (cases "find (\<lambda>i. used (dma_channal_source s ! i) = 0) [0..<16]")
  case None
  then have "busy = {..<16}" by (auto simp: busy_def find_None_iff)
  then show ?thesis using None assms(4) by (simp add: sunxi_dma_request_def)
next
  case (Some i)
  then have i: "i < 16" "used (dma_channal_source s ! i) = 0" "\<forall>j<i. used (dma_channal_source s ! j) \<noteq> 0"
    by (auto simp: find_Some_iff)
  have len: "length (dma_channal_source s) = 16"
    using dma_hardware.reach_inv [OF assms(1,2)] by (simp add: dma_inv_def)
  have idx: "dma_index tab (dma_handle tab j) = Some j" if "j < 16" for j using dma_index_handle [OF assms(3) that] .
  have "busy \<noteq> {..<16}" using i by (auto simp: busy_def)
  moreover have "dma_handle tab j \<noteq> dma_handle tab i" if "j \<in> busy" for j
    using that i idx [of i] idx [of j] by (auto simp: busy_def)
  moreover have "i \<notin> busy" "{..<i} \<subseteq> busy" using i by (auto simp: busy_def)
  moreover have h: "hdma = dma_handle tab i" "s' = upd_source i (\<lambda>ch. ch\<lparr>used := 1, channal_count := of_nat i\<rparr>) s"
    using Some assms(4) by (simp_all add: sunxi_dma_request_def)
  moreover have "used (dma_channal_source s' ! i) = 1" "\<forall>j. j \<noteq> i \<longrightarrow> dma_channal_source s' ! j = dma_channal_source s ! j"
    using len i(1) by (simp_all add: h(2) upd_source_def)
  ultimately show ?thesis using i(1) idx [OF i(1)] handle_nonzero [OF assms(3) i(1)] by auto
qed

text \<open>Plain registers with an interrupt controller that keeps one flag.\<close>

definition flag_plat :: "((u32 \<Rightarrow> u32) \<times> bool) plat" where
  "flag_plat = \<lparr>MmioRead32 = (\<lambda>a h. (fst h a, h)), MmioWrite32 = (\<lambda>a v h. ((fst h)(a := v), snd h)),
     smc_trap = (\<lambda>_ _ _ _ h. (0, h))\<rparr>"

definition flag_gic :: "((u32 \<Rightarrow> u32) \<times> bool) gic" where
  "flag_gic = \<lparr>RegisterInterruptSource = (\<lambda>_ h. (0, h)), EnableInterruptSource = (\<lambda>_ h. (fst h, True)),
     DisableInterruptSource = (\<lambda>_ h. (fst h, False)), EndOfInterrupt = (\<lambda>_ h. h)\<rparr>"

interpretation flag: dma_hardware flag_plat fst UNIV flag_gic snd
  by unfold_locales (auto simp: flag_plat_def flag_gic_def)

definition dma_blank :: "((u32 \<Rightarrow> u32) \<times> bool) dma_state" where
  "dma_blank = \<lparr>dma_int_count = 0, dma_channal_source = [], dma_mem = (\<lambda>_. 0), dma_dev = (\<lambda>_. 0, False)\<rparr>"

definition dma_started :: "((u32 \<Rightarrow> u32) \<times> bool) dma_state" where
  "dma_started = snd (the (sunxi_dma_init flag_plat flag_gic (\<lambda>_. 0x1000) dma_blank))"

lemma dma_started_init: "sunxi_dma_init flag_plat flag_gic (\<lambda>_. 0x1000) dma_blank = Some (EFI_SUCCESS, dma_started)"
  by (simp add: sunxi_dma_init_def flag_plat_def flag_gic_def dma_started_def Let_def EFI_SUCCESS_def EFI_ERROR_def)

lemmas dma_started_reach = dma_reach.init [OF dma_started_init]

lemma init_source:
  assumes "sunxi_dma_init p gInterrupt alloc s = Some (st, s')"
  shows "i < 16 \<Longrightarrow> used (dma_channal_source s' ! i) = 0" and "length (dma_channal_source s') = 16"
  using assms by (auto simp: sunxi_dma_init_def Let_def split_beta split: if_splits)

lemmas dma_started_source = init_source [OF dma_started_init]

lemma dma_started_request:
  "sunxi_dma_request tab 0 dma_started = (dma_handle tab 0, upd_source 0 (\<lambda>ch. ch\<lparr>used := 1, channal_count := of_nat 0\<rparr>) dma_started)"
proof -
  have "[0..<16] = 0 # [1..<16::nat]" by (simp add: upt_conv_Cons)
  then show ?thesis by (simp add: sunxi_dma_request_def dma_started_source)
qed

lemma handle_0x40000000: "dma_handle 0x40000000 0 = 0x40000000" "dma_index 0x40000000 0x40000000 = Some 0" "table_ok 0x40000000"
  by (simp_all add: dma_handle_def dma_index_def table_ok_def Let_def)

theorem dma_request_exclusive_witness:
  "fst (sunxi_dma_request 0x40000000 0 dma_started) = 0x40000000 \<and>
   used (dma_channal_source (snd (sunxi_dma_request 0x40000000 0 dma_started)) ! 0) = 1"
proof -
  let ?r = "sunxi_dma_request 0x40000000 0 dma_started"
  obtain s' where f: "?r = (0x40000000, s')" by (simp add: dma_started_request handle_0x40000000)
  let ?busy = "{i. i < 16 \<and> used (dma_channal_source dma_started ! i) \<noteq> 0}"
  have "0 \<notin> ?busy" using dma_started_source(1) [of 0] by simp
  then have "?busy \<noteq> {..<16}" by (metis lessThan_iff zero_less_numeral)
  then obtain i where "dma_index 0x40000000 0x40000000 = Some i" "used (dma_channal_source s' ! i) = 1"
    using dma_request_exclusive [OF flag.dma_hardware_axioms dma_started_reach handle_0x40000000(3) f] by (metis (lifting))
  then show ?thesis using f handle_0x40000000(2) by simp
qed

theorem dma_interrupt_bookkeeping_witness:
  "let s = snd (sunxi_dma_request 0x40000000 0 dma_started);
       r = the (sunxi_dma_enable_int flag_plat flag_gic 0x40000000 0x40000000 s)
   in fst r = EFI_SUCCESS \<and> card {i. i < 16 \<and> int_on (fst (dma_dev (snd r))) i} = 1"
proof -
  let ?s = "snd (sunxi_dma_request 0x40000000 0 dma_started)"
  let ?e = "sunxi_dma_enable_int flag_plat flag_gic 0x40000000 0x40000000 ?s"
  have inv: "dma_inv fst snd dma_started" by (rule flag.inv_init [OF dma_started_init])
  then have z: "dma_int_count dma_started = 0" "\<not> int_on (fst (dma_dev dma_started)) 0"
    using dma_started_source(1) by (auto simp: dma_inv_def source_ok_def)
  have e: "?e = Some (EFI_SUCCESS, snd (the ?e))" and n: "dma_int_count (snd (the ?e)) = 1"
    using z dma_started_source(2)
    by (simp_all add: sunxi_dma_enable_int_def handle_0x40000000 dma_started_request upd_source_def flag_plat_def
        mmio_rmw_def Let_def int_on_def)
  have "dma_reach flag_plat flag_gic fst snd 0x40000000 (snd (the ?e))"
    by (rule dma_reach.enable [OF dma_reach.request [OF dma_started_reach] e])
  from dma_interrupt_bookkeeping [OF flag.dma_hardware_axioms this] show ?thesis
    using arg_cong [OF e, of "\<lambda>x. fst (the x)"] n by (simp add: Let_def)
qed

end
