(* ===== verification/Bounce.thy ===== *)
theory Bounce
  imports Bytes
begin

text \<open>
  Bounce buffers, \<open>src/Library/DmaBounceBufferLib/BounceBuf.c\<close>. A client's buffer that a DMA engine cannot use (not aligned,
  or above the low memory) is replaced for the time of the transfer by pages below \<open>LowMemoryTop\<close>.

  The boot services that allocate and free pages are the record \<open>boot_services\<close> over an allocator state
  \<open>'x\<close>; the locale \<open>page_pool\<close> states what UEFI promises of them. Data is in the flat memory, which the
  processor and the DMA engine see alike: the cache maintenance calls are left out. An assertion that fails
  ends the run: no result. \<open>ENOMEM\<close> is an argument, since its header is not part of the package.
\<close>

section \<open>Aligned pages\<close>

record 'x boot_services =
  AllocatePages :: "u64 \<Rightarrow> u64 \<Rightarrow> 'x \<Rightarrow> efi_status \<times> u64 \<times> 'x"
  FreePages :: "u64 \<Rightarrow> u64 \<Rightarrow> 'x \<Rightarrow> efi_status \<times> 'x"

abbreviation (input) LowMemoryTop :: u64 where "LowMemoryTop \<equiv> 0x81000000"
abbreviation (input) ARCH_DMA_MINALIGN :: u64 where "ARCH_DMA_MINALIGN \<equiv> 16"
abbreviation (input) EFI_PAGE_SIZE :: u64 where "EFI_PAGE_SIZE \<equiv> 0x1000"

definition EFI_SIZE_TO_PAGES :: "u64 \<Rightarrow> u64" where
  "EFI_SIZE_TO_PAGES Size = drop_bit 12 Size + (if Size AND 0xfff \<noteq> 0 then 1 else 0)"

definition free_unaligned :: "'x boot_services \<Rightarrow> u64 \<Rightarrow> u64 \<Rightarrow> 'x \<Rightarrow> 'x option" where
  "free_unaligned gBS Memory UnalignedPages x =
     (if UnalignedPages > 0
      then case FreePages gBS Memory UnalignedPages x of (Status, x) \<Rightarrow> if EFI_ERROR Status then None else Some x
      else Some x)"

definition InternalAllocateAlignedPages32 :: "'x boot_services \<Rightarrow> u64 \<Rightarrow> u64 \<Rightarrow> 'x \<Rightarrow> (u64 \<times> 'x) option" where
  "InternalAllocateAlignedPages32 gBS Pages Alignment x =
     (if Alignment AND (Alignment - 1) \<noteq> 0 then None
      else if Pages = 0 then Some (0, x)
      else if Alignment > EFI_PAGE_SIZE then
        let AlignmentMask = Alignment - 1;
            RealPages = Pages + EFI_SIZE_TO_PAGES Alignment
        in if \<not> RealPages > Pages then None
           else case AllocatePages gBS LowMemoryTop RealPages x of (Status, Memory, x) \<Rightarrow>
             if EFI_ERROR Status then Some (0, x)
             else
               let AlignedMemory = (Memory + AlignmentMask) AND NOT AlignmentMask;
                   UnalignedPages = EFI_SIZE_TO_PAGES (AlignedMemory - Memory)
               in (case free_unaligned gBS Memory UnalignedPages x of None \<Rightarrow> None
                   | Some x \<Rightarrow>
                     let Memory = AlignedMemory + push_bit 12 Pages;
                         UnalignedPages = RealPages - Pages - UnalignedPages
                     in map_option (\<lambda>x. (AlignedMemory, x)) (free_unaligned gBS Memory UnalignedPages x))
      else case AllocatePages gBS LowMemoryTop Pages x of (Status, Memory, x) \<Rightarrow>
        if EFI_ERROR Status then Some (0, x) else Some (Memory, x))"

definition AllocateAlignedPages32 :: "'x boot_services \<Rightarrow> u64 \<Rightarrow> u64 \<Rightarrow> 'x \<Rightarrow> (u64 \<times> 'x) option" where
  "AllocateAlignedPages32 gBS Pages Alignment x = InternalAllocateAlignedPages32 gBS Pages Alignment x"

definition FreeAlignedPages32 :: "'x boot_services \<Rightarrow> u64 \<Rightarrow> u64 \<Rightarrow> 'x \<Rightarrow> 'x option" where
  "FreeAlignedPages32 gBS Buffer Pages x =
     (if Pages = 0 then None
      else case FreePages gBS Buffer Pages x of (Status, x) \<Rightarrow> if EFI_ERROR Status then None else Some x)"

section \<open>Bounce buffers\<close>

abbreviation (input) GEN_BB_READ :: u32 where "GEN_BB_READ \<equiv> push_bit 0 1"
abbreviation (input) GEN_BB_WRITE :: u32 where "GEN_BB_WRITE \<equiv> push_bit 1 1"

record bounce_buffer =
  user_buffer :: u64
  bounce_buffer :: u64
  bb_len :: u64
  len_aligned :: u64
  bb_flags :: u32

definition addr_aligned :: "bounce_buffer \<Rightarrow> bool" where
  "addr_aligned state \<longleftrightarrow> user_buffer state AND (ARCH_DMA_MINALIGN - 1) = 0 \<and> bb_len state = len_aligned state"

definition addr_lower_32bit :: "bounce_buffer \<Rightarrow> bool" where
  "addr_lower_32bit state \<longleftrightarrow> bounce_buffer state < LowMemoryTop"

definition roundup :: "u64 \<Rightarrow> u64 \<Rightarrow> u64" where
  "roundup x y = ((x + (y - 1)) div y) * y"

definition bounce_buffer_start ::
  "'x boot_services \<Rightarrow> int \<Rightarrow> u64 \<Rightarrow> u64 \<Rightarrow> u32 \<Rightarrow> mem \<times> 'x \<Rightarrow> (int \<times> bounce_buffer \<times> mem \<times> 'x) option" where
  "bounce_buffer_start gBS ENOMEM data len flags = (\<lambda>(m, x).
     let state = \<lparr>user_buffer = data, bounce_buffer = data, bb_len = len,
                  len_aligned = roundup len ARCH_DMA_MINALIGN, bb_flags = flags\<rparr>
     in if \<not> addr_aligned state \<or> \<not> addr_lower_32bit state
        then map_option (\<lambda>(b, x).
               let state = state\<lparr>bounce_buffer := b\<rparr> in
               if b = 0 then (- ENOMEM, state, m, x)
               else (0, state,
                     if bb_flags state AND GEN_BB_READ \<noteq> 0
                     then store_bytes m b (load_bytes m (user_buffer state) (unat (bb_len state))) else m, x))
             (AllocateAlignedPages32 gBS (EFI_SIZE_TO_PAGES (len_aligned state)) ARCH_DMA_MINALIGN x)
        else Some (0, state, m, x))"

definition bounce_buffer_stop :: "'x boot_services \<Rightarrow> bounce_buffer \<Rightarrow> mem \<times> 'x \<Rightarrow> (int \<times> mem \<times> 'x) option" where
  "bounce_buffer_stop gBS state = (\<lambda>(m, x).
     if bounce_buffer state = user_buffer state then Some (0, m, x)
     else
       let m = (if bb_flags state AND GEN_BB_WRITE \<noteq> 0
                then store_bytes m (user_buffer state) (load_bytes m (bounce_buffer state) (unat (bb_len state))) else m)
       in map_option (\<lambda>x. (0, m, x))
            (FreeAlignedPages32 gBS (bounce_buffer state) (EFI_SIZE_TO_PAGES (len_aligned state)) x))"

section \<open>What the boot services promise\<close>

text \<open>The numbers of the \<open>n\<close> pages from address \<open>a\<close> on.\<close>

definition pages_of :: "u64 \<Rightarrow> nat \<Rightarrow> nat set" where
  "pages_of a n = {unat a div 4096 ..< unat a div 4096 + n}"

text \<open>
  The contract: \<open>AllocatePages\<close> with a maximal address gives pages that are not in use and lie
  below it, or fails and takes none; \<open>FreePages\<close> gives back pages that are in use.
\<close>

locale page_pool =
  fixes gBS :: "'x boot_services"
    and owned :: "'x \<Rightarrow> nat set"
  assumes alloc: "AllocatePages gBS mx n x = (st, a, x') \<Longrightarrow> \<not> EFI_ERROR st \<Longrightarrow>
      a \<noteq> 0 \<and> unat a mod 4096 = 0 \<and> unat a + 4096 * unat n \<le> unat mx + 1 \<and>
      pages_of a (unat n) \<inter> owned x = {} \<and> owned x' = owned x \<union> pages_of a (unat n)"
    and alloc_fail: "AllocatePages gBS mx n x = (st, a, x') \<Longrightarrow> EFI_ERROR st \<Longrightarrow> owned x' = owned x"
    and free: "unat a mod 4096 = 0 \<Longrightarrow> 0 < n \<Longrightarrow> pages_of a (unat n) \<subseteq> owned x \<Longrightarrow>
      \<not> EFI_ERROR (fst (FreePages gBS a n x)) \<and> owned (snd (FreePages gBS a n x)) = owned x - pages_of a (unat n)"
begin

lemma free_unaligned_ok:
  assumes "unat a mod 4096 = 0" and "pages_of a (unat n) \<subseteq> owned x"
  obtains x' where "free_unaligned gBS a n x = Some x'" and "owned x' = owned x - pages_of a (unat n)"
proof (cases "n = 0")
  case True
  then show thesis using that by (simp add: free_unaligned_def pages_of_def)
next
  case False
  then show thesis using that free [OF assms(1) _ assms(2)]
    by (auto simp: free_unaligned_def split_beta word_neq_0_conv)
qed

end

section \<open>Page arithmetic\<close>

lemma and_0xfff: "unat (x AND 0xfff :: u64) = unat x mod 4096"
proof -
  have "x AND 0xfff = take_bit 12 x" by (simp add: take_bit_eq_mask mask_eq_exp_minus_1)
  then show ?thesis by (simp add: unsigned_take_bit_eq take_bit_nat_def)
qed

lemma and_15: "x AND 15 = 0 \<longleftrightarrow> unat (x :: u64) mod 16 = 0"
proof -
  have "x AND 15 = take_bit 4 x" by (simp add: take_bit_eq_mask mask_eq_exp_minus_1)
  then have "unat (x AND 15) = unat x mod 16" by (simp add: unsigned_take_bit_eq take_bit_nat_def)
  then show ?thesis by (metis unat_eq_0)
qed

lemma unat_size_to_pages: "unat (EFI_SIZE_TO_PAGES s) = (unat s + 4095) div 4096"
proof -
  have d: "unat (drop_bit 12 s) = unat s div 4096" by (simp add: drop_bit_eq_div unat_div)
  have z: "s AND 0xfff = 0 \<longleftrightarrow> unat s mod 4096 = 0" by (metis and_0xfff unat_eq_0)
  have "unat s < 2 ^ 64" using unsigned_less [where 'a = nat, of s] by simp
  then have "unat s div 4096 + 1 < 2 ^ 64" by simp
  then have "unat (EFI_SIZE_TO_PAGES s) = unat s div 4096 + (if unat s mod 4096 = 0 then 0 else 1)"
    by (simp add: EFI_SIZE_TO_PAGES_def z d unat_word_ariths)
  moreover have "(n + 4095) div 4096 = n div 4096 + (if n mod 4096 = 0 then 0 else 1)" for n :: nat
  proof -
    obtain q r where n: "n = 4096 * q + r" "r < 4096" by (metis mult_div_mod_eq mod_less_divisor zero_less_numeral)
    then show ?thesis by (intro div_nat_eqI) auto
  qed
  ultimately show ?thesis by simp
qed

lemma and_not_mask_unat:
  fixes x :: u64
  assumes "k < 64"
  shows "unat (x AND NOT (2 ^ k - 1)) = unat x div 2 ^ k * 2 ^ k"
proof -
  have "x AND NOT (mask k) = push_bit k (drop_bit k x)"
    by (rule bit_word_eqI) (auto simp: bit_simps)
  then have "x AND NOT (2 ^ k - 1) = push_bit k (drop_bit k x)" by (simp add: mask_eq_exp_minus_1)
  moreover have "unat (push_bit k (drop_bit k x)) = unat x div 2 ^ k * 2 ^ k"
  proof -
    have le: "unat x div 2 ^ k * 2 ^ k \<le> unat x" by (simp add: div_times_less_eq_dividend)
    also have x: "unat x < 2 ^ 64" using unsigned_less [where 'a = nat, of x] by simp
    finally show ?thesis
      unfolding unsigned_push_bit_eq unsigned_drop_bit_eq
      using x by (simp add: push_bit_eq_mult drop_bit_eq_div take_bit_nat_eq_self)
  qed
  ultimately show ?thesis by simp
qed

lemma unat_power64: "k < 64 \<Longrightarrow> unat (2 ^ k :: u64) = 2 ^ k"
  using unsigned_push_bit_eq [where 'a = nat, of k "1 :: u64"] by (simp add: take_bit_nat_eq_self)

lemma power_and_pred: "(2 ^ k :: u64) AND (2 ^ k - 1) = 0"
  using push_bit_eq_mult [of k "1 :: u64"]
  by (intro bit_word_eqI) (auto simp: mask_eq_exp_minus_1 [symmetric] bit_simps)

text \<open>Rounding up a page address to a multiple of \<open>2 ^ k\<close>, in natural numbers.\<close>

lemma round_up_page:
  fixes a :: nat
  assumes "12 \<le> k" and "a mod 4096 = 0"
  defines "al \<equiv> (a + (2 ^ k - 1)) div 2 ^ k * 2 ^ k"
  shows "a \<le> al" and "al + 4096 \<le> a + 2 ^ k" and "al mod 2 ^ k = 0" and "al mod 4096 = 0"
proof -
  let ?A = "2 ^ k :: nat"
  obtain b where A: "?A = 4096 * b" using assms(1) power_add [of "2 :: nat" 12 "k - 12"] by auto
  then have b: "0 < b" by (metis gr0I mult_0_right power_not_zero zero_neq_numeral)
  obtain c where a: "a = 4096 * c" using assms(2) by (auto elim: dvdE)
  have "al = (4096 * c + (4096 * b - 1)) div (4096 * b) * (4096 * b)" by (simp add: al_def a A)
  also have "(4096 * c + (4096 * b - 1)) div (4096 * b) = (c + (b - 1)) div b"
  proof -
    have "4096 * c + (4096 * b - 1) = 4096 * (c + (b - 1)) + 4095" using b by (cases b) auto
    then have "(4096 * c + (4096 * b - 1)) div 4096 = c + (b - 1)" by simp
    then show ?thesis by (simp add: div_mult2_eq)
  qed
  finally have al': "al = 4096 * ((c + (b - 1)) div b * b)" by simp
  define z where "z = (c + (b - 1)) div b * b"
  note al = al' [folded z_def]
  have "z \<le> c + (b - 1)" unfolding z_def by (rule div_times_less_eq_dividend)
  moreover have "c \<le> z"
  proof -
    have "c + (b - 1) < b + b * ((c + (b - 1)) div b)" by (rule dividend_less_times_div [OF b])
    then show ?thesis using b by (simp add: z_def mult.commute)
  qed
  ultimately show "a \<le> al" "al + 4096 \<le> a + ?A" using b unfolding al a A by auto
  show "al mod ?A = 0" by (simp add: al_def)
  show "al mod 4096 = 0" unfolding al by simp
qed

lemma pages_between:
  assumes "a mod 4096 = 0" and "b mod 4096 = 0" and "a \<le> b"
  shows "\<exists>U. b = a + 4096 * (U :: nat)"
proof -
  obtain c d where "a = 4096 * c" "b = 4096 * d" using assms(1,2) by (auto elim!: dvdE)
  then show ?thesis using assms(3) by (intro exI [of _ "d - c"]) simp
qed

lemma pages_of_split:
  assumes "unat a mod 4096 = 0" and "unat a + 4096 * (n + l) < 2 ^ 64" and "unat b = unat a + 4096 * n"
  shows "pages_of a (n + l) = pages_of a n \<union> pages_of b l" and "pages_of a n \<inter> pages_of b l = {}"
proof -
  have "unat b div 4096 = unat a div 4096 + n" by (simp add: assms(3))
  then show "pages_of a (n + l) = pages_of a n \<union> pages_of b l" "pages_of a n \<inter> pages_of b l = {}"
    unfolding pages_of_def by auto
qed

context page_pool
begin

lemma aligned_pages_large:
  assumes k: "12 < k" "k < 64" and Pages: "Pages \<noteq> 0" "unat Pages + 2 ^ (k - 12) < 2 ^ 64"
  obtains b x' where "InternalAllocateAlignedPages32 gBS Pages (2 ^ k) x = Some (b, x')"
    and "b = 0 \<Longrightarrow> owned x' = owned x"
    and "b \<noteq> 0 \<Longrightarrow> unat b mod 2 ^ k = 0 \<and> unat b mod 4096 = 0 \<and> unat b + 4096 * unat Pages \<le> unat LowMemoryTop + 1 \<and>
      pages_of b (unat Pages) \<inter> owned x = {} \<and> owned x' = owned x \<union> pages_of b (unat Pages)"
proof -
  let ?real = "Pages + EFI_SIZE_TO_PAGES (2 ^ k)"
  have pow: "unat (2 ^ k :: u64) = 2 ^ k" using k(2) by (rule unat_power64)
  have A: "(2 :: nat) ^ k = 4096 * 2 ^ (k - 12)" using k power_add [of "2 :: nat" 12 "k - 12"] by simp
  have sz: "unat (EFI_SIZE_TO_PAGES (2 ^ k)) = 2 ^ (k - 12)" by (simp add: unat_size_to_pages pow A)
  have real: "unat ?real = unat Pages + 2 ^ (k - 12)" using Pages(2) by (simp add: unat_word_ariths sz)
  have more: "Pages < ?real" by (simp add: word_less_nat_alt real)
  have big: "(0x1000 :: u64) < 2 ^ k"
  proof -
    have "(2 :: nat) ^ 12 < 2 ^ k" using k by (intro power_strict_increasing) auto
    then show ?thesis by (simp add: word_less_nat_alt pow)
  qed
  obtain st a x1 where al: "AllocatePages gBS LowMemoryTop ?real x = (st, a, x1)" by (metis prod_cases3)
  show thesis
  proof (cases "EFI_ERROR st")
    case True
    then have "InternalAllocateAlignedPages32 gBS Pages (2 ^ k) x = Some (0, x1)"
      using al more big Pages(1) power_and_pred [of k] by (simp add: InternalAllocateAlignedPages32_def Let_def)
    then show thesis using that [of 0 x1] alloc_fail [OF al True] by simp
  next
    case False
    note a = alloc [OF al False]
    let ?b = "(a + (2 ^ k - 1)) AND NOT (2 ^ k - 1)" and ?B = "(2 :: nat) ^ (k - 12)"
    have room: "unat a + 4096 * (unat Pages + ?B) \<le> 0x81000001" using a real by simp
    have m1: "unat (2 ^ k - 1 :: u64) = 2 ^ k - 1" using unat_sub [of 1 "2 ^ k :: u64"] by (simp add: word_le_nat_alt pow)
    have "unat (a + (2 ^ k - 1)) = unat a + (2 ^ k - 1)"
      using room A by (simp add: unat_word_ariths m1)
    then have b: "unat ?b = (unat a + (2 ^ k - 1)) div 2 ^ k * 2 ^ k" by (simp add: and_not_mask_unat [OF k(2)])
    have a0: "unat a mod 4096 = 0" using a by simp
    note up = round_up_page [OF less_imp_le [OF k(1)] a0, folded b]
    have diff: "unat (?b - a) = unat ?b - unat a" using up(1) by (simp add: unat_sub word_le_nat_alt)
    let ?u = "EFI_SIZE_TO_PAGES (?b - a)"
    obtain U where U: "unat ?b = unat a + 4096 * U"
      using pages_between [OF a0 up(4,1)] by blast
    then have u: "unat ?u = U" by (simp add: unat_size_to_pages diff)
    have UB: "U < ?B" using up(2) U A by simp
    have "pages_of a (unat ?u) \<subseteq> owned x1" using a UB unfolding u real by (auto simp: pages_of_def)
    from free_unaligned_ok [OF a0 this]
    obtain x2 where x2: "free_unaligned gBS a ?u x1 = Some x2" "owned x2 = owned x1 - pages_of a U" unfolding u .
    let ?c = "?b + push_bit 12 Pages" and ?n = "?real - Pages - ?u"
    have "unat (push_bit 12 Pages) = 4096 * unat Pages"
      using room unfolding unsigned_push_bit_eq by (simp add: push_bit_eq_mult take_bit_nat_eq_self)
    then have c: "unat ?c = unat ?b + 4096 * unat Pages" using room U UB by (simp add: unat_word_ariths)
    have n: "unat ?n = ?B - U"
      using UB by (simp add: unat_sub word_le_nat_alt sz u)
    have "unat a + 4096 * (U + (unat Pages + (?B - U))) < 2 ^ 64" "unat ?b + 4096 * (unat Pages + (?B - U)) < 2 ^ 64"
      using room UB U by simp_all
    note sp1 = pages_of_split [OF a0 this(1) U] and sp2 = pages_of_split [OF up(4) this(2) c]
    have "U + (unat Pages + (?B - U)) = unat ?real" using UB real by simp
    note sp1 = sp1 [unfolded this]
    have "unat ?c mod 4096 = 0" using up(4) by (simp add: c)
    moreover have "pages_of ?c (unat ?n) \<subseteq> owned x2" unfolding n x2(2) using a sp1 sp2 by auto
    ultimately obtain x3 where x3: "free_unaligned gBS ?c ?n x2 = Some x3" "owned x3 = owned x2 - pages_of ?c (unat ?n)"
      by (rule free_unaligned_ok)
    have "owned x3 = owned x \<union> pages_of ?b (unat Pages)"
      unfolding x3(2) x2(2) n using a sp1 sp2 by auto
    moreover have "InternalAllocateAlignedPages32 gBS Pages (2 ^ k) x = Some (?b, x3)"
      using al False x2(1) x3(1) more big Pages(1) power_and_pred [of k]
      by (simp add: InternalAllocateAlignedPages32_def Let_def)
    moreover have "pages_of ?b (unat Pages) \<inter> owned x = {}" using a sp1 sp2 by auto
    moreover have "unat ?b + 4096 * unat Pages \<le> unat LowMemoryTop + 1" using room U UB by simp
    moreover have "?b \<noteq> 0" using a up(1) unat_gt_0 [of a] unat_gt_0 [of ?b] by linarith
    ultimately show thesis using that [of ?b x3] up by blast
  qed
qed

lemma aligned_pages_small:
  assumes k: "k \<le> 12" and Pages: "Pages \<noteq> 0"
  obtains b x' where "InternalAllocateAlignedPages32 gBS Pages (2 ^ k) x = Some (b, x')"
    and "b = 0 \<Longrightarrow> owned x' = owned x"
    and "b \<noteq> 0 \<Longrightarrow> unat b mod 2 ^ k = 0 \<and> unat b mod 4096 = 0 \<and> unat b + 4096 * unat Pages \<le> unat LowMemoryTop + 1 \<and>
      pages_of b (unat Pages) \<inter> owned x = {} \<and> owned x' = owned x \<union> pages_of b (unat Pages)"
proof -
  have pow: "unat (2 ^ k :: u64) = 2 ^ k" using k by (intro unat_power64) simp
  have small: "\<not> (0x1000 :: u64) < 2 ^ k"
    using k power_increasing [of k 12 "2 :: nat"] by (simp add: word_less_nat_alt pow)
  obtain st a x1 where al: "AllocatePages gBS LowMemoryTop Pages x = (st, a, x1)" by (metis prod_cases3)
  then have eq: "InternalAllocateAlignedPages32 gBS Pages (2 ^ k) x = Some (if EFI_ERROR st then 0 else a, x1)"
    using small Pages power_and_pred [of k] by (simp add: InternalAllocateAlignedPages32_def)
  show thesis
  proof (cases "EFI_ERROR st")
    case True
    then show thesis using that [of 0 x1] eq alloc_fail [OF al True] by simp
  next
    case False
    note a = alloc [OF al False]
    have "(2 :: nat) ^ k dvd 2 ^ 12" using k by (rule le_imp_power_dvd)
    then have "unat a mod 2 ^ k = 0" using a by (simp add: mod_eq_0_iff_dvd dvd_trans)
    then show thesis using that [of a x1] eq False a by simp
  qed
qed

lemma free_aligned_pages:
  assumes "unat b mod 4096 = 0" and "n \<noteq> 0" and "pages_of b (unat n) \<subseteq> owned x"
  obtains x' where "FreeAlignedPages32 gBS b n x = Some x'" and "owned x' = owned x - pages_of b (unat n)"
  using free [OF assms(1) _ assms(3)] assms(2) that
  by (auto simp: FreeAlignedPages32_def split_beta word_neq_0_conv)

lemma aligned_pages:
  assumes "k < 64" and "Pages \<noteq> 0" and "unat Pages + 2 ^ (k - 12) < 2 ^ 64"
  shows "\<exists>b x'. AllocateAlignedPages32 gBS Pages (2 ^ k) x = Some (b, x') \<and>
    (if b = 0 then owned x' = owned x
     else unat b mod 2 ^ k = 0 \<and> unat b mod 4096 = 0 \<and> unat b + 4096 * unat Pages \<le> unat LowMemoryTop + 1 \<and>
       pages_of b (unat Pages) \<inter> owned x = {} \<and> owned x' = owned x \<union> pages_of b (unat Pages) \<and>
       (\<exists>x''. FreeAlignedPages32 gBS b Pages x' = Some x'' \<and> owned x'' = owned x))"
proof -
  obtain b x' where b: "AllocateAlignedPages32 gBS Pages (2 ^ k) x = Some (b, x')" "b = 0 \<Longrightarrow> owned x' = owned x"
    "b \<noteq> 0 \<Longrightarrow> unat b mod 2 ^ k = 0 \<and> unat b mod 4096 = 0 \<and> unat b + 4096 * unat Pages \<le> unat LowMemoryTop + 1 \<and>
      pages_of b (unat Pages) \<inter> owned x = {} \<and> owned x' = owned x \<union> pages_of b (unat Pages)"
    unfolding AllocateAlignedPages32_def
  proof (cases "k \<le> 12")
    case True
    then show thesis by (rule aligned_pages_small [where x = x, OF _ assms(2)]) (rule that [unfolded AllocateAlignedPages32_def])
  next
    case False
    then have "12 < k" by simp
    then show thesis by (rule aligned_pages_large [where x = x, OF _ assms(1-3)]) (rule that [unfolded AllocateAlignedPages32_def])
  qed
  moreover have "\<exists>x''. FreeAlignedPages32 gBS b Pages x' = Some x'' \<and> owned x'' = owned x" if "b \<noteq> 0"
  proof -
    note b' = b(3) [OF that]
    obtain x'' where "FreeAlignedPages32 gBS b Pages x' = Some x''" "owned x'' = owned x' - pages_of b (unat Pages)"
      using b' by (auto intro: free_aligned_pages [OF _ assms(2), of b x'])
    then show ?thesis using b' by auto
  qed
  ultimately show ?thesis by auto
qed

end

text \<open>
  C27: pages with an alignment. For every power of two and every number of pages that does not
  overflow the request, the function returns without a failed assertion. It returns 0 and owns no new pages, or
  an address with the alignment and exactly the pages asked for, all of them new and below the
  low memory limit; what it has over-allocated is given back on both sides. Freeing them
  restores what was owned before.
\<close>

theorem aligned_pages_exact:
  fixes Pages :: u64 and x :: 'x
  assumes "page_pool gBS owned" and "k < 64" and "Pages \<noteq> 0" and "unat Pages + 2 ^ (k - 12) < 2 ^ 64"
  shows "\<exists>b x'. AllocateAlignedPages32 gBS Pages (2 ^ k) x = Some (b, x') \<and>
    (if b = 0 then owned x' = owned x
     else unat b mod 2 ^ k = 0 \<and> unat b mod 4096 = 0 \<and> unat b + 4096 * unat Pages \<le> unat LowMemoryTop + 1 \<and>
       pages_of b (unat Pages) \<inter> owned x = {} \<and> owned x' = owned x \<union> pages_of b (unat Pages) \<and>
       (\<exists>x''. FreeAlignedPages32 gBS b Pages x' = Some x'' \<and> owned x'' = owned x))"
  using page_pool.aligned_pages [OF assms] .

section \<open>Sessions\<close>

lemma unat_roundup16:
  assumes "unat len + 15 < 2 ^ 64"
  shows "unat (roundup len 16) = (unat len + 15) div 16 * 16"
proof -
  have "unat (len + 15) = unat len + 15" using assms by (simp add: unat_word_ariths)
  moreover have "(unat len + 15) div 16 * 16 < 2 ^ 64" using assms div_times_less_eq_dividend [of "unat len + 15" 16] by linarith
  ultimately show ?thesis by (simp add: roundup_def unat_word_ariths unat_div)
qed

lemma region_page:
  fixes a c :: u64
  assumes "unat a + n \<le> 2 ^ 64" and "unat (c - a) < n"
  shows "unat c = unat a + unat (c - a)"
proof -
  have "unat a + unat (c - a) < 2 ^ 64" using assms by linarith
  then have "unat (a + (c - a)) = unat a + unat (c - a)" by (subst unat_word_ariths) simp
  then show ?thesis by simp
qed

context page_pool
begin

text \<open>A buffer is replaced by new, aligned pages, or used as it is.\<close>

lemma start_cases:
  assumes len: "len \<noteq> 0" "unat len + 15 < 2 ^ 64" and "ENOMEM \<noteq> 0"
    and start: "bounce_buffer_start gBS ENOMEM data len flags (m, x) = Some (0, b, m1, x1)"
  defines "al \<equiv> roundup len ARCH_DMA_MINALIGN"
  obtains (direct) "b = \<lparr>user_buffer = data, bounce_buffer = data, bb_len = len, len_aligned = al, bb_flags = flags\<rparr>"
      "data AND 15 = 0" "al = len" "m1 = m" "x1 = x"
  | (bounced) a where "b = \<lparr>user_buffer = data, bounce_buffer = a, bb_len = len, len_aligned = al, bb_flags = flags\<rparr>"
      "a AND 15 = 0" "unat a mod 4096 = 0" "unat a + 4096 * unat (EFI_SIZE_TO_PAGES al) \<le> 0x81000001"
      "pages_of a (unat (EFI_SIZE_TO_PAGES al)) \<inter> owned x = {}"
      "owned x1 = owned x \<union> pages_of a (unat (EFI_SIZE_TO_PAGES al))"
      "m1 = (if flags AND GEN_BB_READ \<noteq> 0 then store_bytes m a (load_bytes m data (unat len)) else m)"
      "unat al \<le> 4096 * unat (EFI_SIZE_TO_PAGES al)" "EFI_SIZE_TO_PAGES al \<noteq> 0"
proof -
  let ?s = "\<lparr>user_buffer = data, bounce_buffer = data, bb_len = len, len_aligned = al, bb_flags = flags\<rparr>"
  let ?n = "EFI_SIZE_TO_PAGES al"
  have al: "unat al = (unat len + 15) div 16 * 16" unfolding al_def by (rule unat_roundup16 [OF len(2)])
  have "0 < unat len" using len(1) by (simp add: unat_gt_0)
  then have pos: "0 < unat al" unfolding al by (simp add: div_greater_zero_iff)
  have n: "unat ?n = (unat al + 4095) div 4096" by (rule unat_size_to_pages)
  have n0: "?n \<noteq> 0"
  proof
    assume "?n = 0"
    then have "(unat al + 4095) div 4096 = 0" using n by simp
    then show False using pos by (simp add: div_eq_0_iff)
  qed
  have room: "unat al \<le> 4096 * unat ?n"
    using dividend_less_times_div [of 4096 "unat al + 4095"] unfolding n by simp
  have "unat ?n + 2 ^ (4 - 12) < 2 ^ 64"
    using unsigned_less [where 'a = nat, of al] unfolding n by simp
  from aligned_pages [OF _ n0 this, of x]
  obtain a x' where a: "AllocateAlignedPages32 gBS ?n 16 x = Some (a, x')"
    "a = 0 \<Longrightarrow> owned x' = owned x"
    "a \<noteq> 0 \<Longrightarrow> unat a mod 16 = 0 \<and> unat a mod 4096 = 0 \<and> unat a + 4096 * unat ?n \<le> unat LowMemoryTop + 1 \<and>
       pages_of a (unat ?n) \<inter> owned x = {} \<and> owned x' = owned x \<union> pages_of a (unat ?n)"
    by (auto split: if_splits)
  show thesis
  proof (cases "addr_aligned ?s \<and> addr_lower_32bit ?s")
    case True
    then have "b = ?s" "m1 = m" "x1 = x" using start by (simp_all add: bounce_buffer_start_def al_def)
    then show thesis using direct True by (simp add: addr_aligned_def)
  next
    case False
    then have "a \<noteq> 0" "b = ?s\<lparr>bounce_buffer := a\<rparr>" "x1 = x'"
      "m1 = (if flags AND GEN_BB_READ \<noteq> 0 then store_bytes m a (load_bytes m data (unat len)) else m)"
      using start a(1) assms(3) by (auto simp: bounce_buffer_start_def al_def Let_def split: if_splits)
    then show thesis using bounced [of a] a(3) n0 room by (simp add: and_15)
  qed
qed

lemma new_pages_apart:
  assumes "unat a + 4096 * n \<le> 0x81000001" and "unat a mod 4096 = 0" and "pages_of a n \<inter> owned x = {}"
    and "l \<le> 4096 * n" and "unat c div 4096 \<in> owned x"
  shows "l \<le> unat (c - a)"
proof (rule ccontr)
  assume "\<not> l \<le> unat (c - a)"
  then have lt: "unat (c - a) < 4096 * n" using assms(4) by simp
  then have c: "unat c = unat a + unat (c - a)" using assms(1) by (intro region_page [of a "4096 * n"]) auto
  obtain d where "unat a = 4096 * d" using assms(2) by (auto elim: dvdE)
  then have "unat c div 4096 \<in> pages_of a n" using lt unfolding pages_of_def c by (auto simp: div_less_iff_less_mult)
  then show False using assms(3,5) by auto
qed

lemma session:
  assumes len: "len \<noteq> 0" "unat len + 15 < 2 ^ 64" and en: "ENOMEM \<noteq> 0"
    and user: "unat data + unat len \<le> 2 ^ 64" "\<forall>i<unat len. (unat data + i) div 4096 \<in> owned x"
    and start: "bounce_buffer_start gBS ENOMEM data len flags (m, x) = Some (0, b, m1, x1)"
    and dev: "same_outside (bounce_buffer b) (unat (len_aligned b)) m1 m2"
  shows "\<exists>m3 x3. bounce_buffer_stop gBS b (m2, x1) = Some (0, m3, x3) \<and> owned x3 = owned x \<and>
     bounce_buffer b AND 15 = 0 \<and> unat len \<le> unat (len_aligned b) \<and>
     (flags AND GEN_BB_READ \<noteq> 0 \<longrightarrow> load_bytes m1 (bounce_buffer b) (unat len) = load_bytes m data (unat len)) \<and>
     (flags AND GEN_BB_WRITE \<noteq> 0 \<longrightarrow> load_bytes m3 data (unat len) = load_bytes m2 (bounce_buffer b) (unat len)) \<and>
     (\<forall>c. unat c div 4096 \<in> owned x \<longrightarrow> unat len \<le> unat (c - data) \<longrightarrow> m3 c = m c)"
  using len en start
proof (cases rule: start_cases)
  case direct
  have "same_outside data (unat len) m m2" using dev direct by simp
  then show ?thesis using direct by (auto simp: bounce_buffer_stop_def same_outside_def)
next
  case (bounced a)
  let ?n = "EFI_SIZE_TO_PAGES (roundup len 16)" and ?l = "unat len"
  have far: "k \<le> unat (c - a)" if "unat c div 4096 \<in> owned x" "k \<le> 4096 * unat ?n" for c k
    by (rule new_pages_apart [OF bounced(4,3,5) that(2,1)])
  have in_user: "unat c div 4096 \<in> owned x" if "unat (c - data) < ?l" for c
    using region_page [OF user(1) that] user(2) that by simp
  have al: "unat len \<le> unat (roundup len 16)"
    using dividend_less_times_div [of 16 "unat len + 15"] unfolding unat_roundup16 [OF len(2)] by simp
  have l64: "?l < 2 ^ 64" using len(2) by simp
  have ne: "a \<noteq> data"
  proof
    assume eq: "a = data"
    have "0 < ?l" "1 \<le> 4096 * unat ?n" using len(1) bounced(9) by (simp_all add: unat_gt_0 Suc_le_eq)
    then show False using far [of data 1] in_user [of data] by (simp add: eq)
  qed
  have read: "load_bytes m1 a ?l = load_bytes m data ?l" if "flags AND GEN_BB_READ \<noteq> 0"
    using that bounced(7) load_store_same [of "load_bytes m data ?l" m a] l64 by simp
  have m1: "same_outside a (unat (roundup len 16)) m m1"
    using bounced(7) al same_outside_store [OF same_outside_refl, of 0 "load_bytes m data ?l" _ a a m] by simp
  let ?m3 = "if flags AND GEN_BB_WRITE \<noteq> 0 then store_bytes m2 data (load_bytes m2 a ?l) else m2"
  obtain x3 where x3: "FreeAlignedPages32 gBS a ?n x1 = Some x3" "owned x3 = owned x1 - pages_of a (unat ?n)"
    using free_aligned_pages [OF bounced(3,9), of x1] bounced(6) by auto
  have own: "owned x3 = owned x" using x3(2) bounced(5,6) by auto
  have wr: "load_bytes ?m3 data ?l = load_bytes m2 a ?l" if "flags AND GEN_BB_WRITE \<noteq> 0"
    using that load_store_same [of "load_bytes m2 a ?l" m2 data] l64 by simp
  have frame: "?m3 c = m c" if "unat c div 4096 \<in> owned x" "?l \<le> unat (c - data)" for c
    using that far [OF that(1) bounced(8)] dev m1 bounced(1) by (auto simp: same_outside_def store_outside)
  show ?thesis
    using x3(1) own ne bounced(1,2) al read wr frame by (auto simp: bounce_buffer_stop_def Let_def)
qed

end

text \<open>
  C26: a transfer through a bounce buffer. When the start succeeds, the buffer for the device is aligned and long
  enough, and for a transfer to the device it holds the client's data; whatever the device then does
  within it, the stop succeeds, for a transfer from the device the client's buffer holds what the device left,
  all other memory in use is as before the start, and no page is lost.
\<close>

theorem bounce_session:
  assumes pool: "page_pool gBS owned" and len: "len \<noteq> 0" "unat len + 15 < 2 ^ 64" and en: "ENOMEM \<noteq> 0"
    and user: "unat data + unat len \<le> 2 ^ 64" "\<forall>i<unat len. (unat data + i) div 4096 \<in> owned x"
    and start: "bounce_buffer_start gBS ENOMEM data len flags (m, x) = Some (0, b, m1, x1)"
    and dev: "same_outside (bounce_buffer b) (unat (len_aligned b)) m1 m2"
  shows "\<exists>m3 x3. bounce_buffer_stop gBS b (m2, x1) = Some (0, m3, x3) \<and> owned x3 = owned x \<and>
     bounce_buffer b AND 15 = 0 \<and> unat len \<le> unat (len_aligned b) \<and>
     (flags AND GEN_BB_READ \<noteq> 0 \<longrightarrow> load_bytes m1 (bounce_buffer b) (unat len) = load_bytes m data (unat len)) \<and>
     (flags AND GEN_BB_WRITE \<noteq> 0 \<longrightarrow> load_bytes m3 data (unat len) = load_bytes m2 (bounce_buffer b) (unat len)) \<and>
     (\<forall>c. unat c div 4096 \<in> owned x \<longrightarrow> unat len \<le> unat (c - data) \<longrightarrow> m3 c = m c)"
  using page_pool.session [OF pool len en user start dev] .

section \<open>An allocator that keeps the contract\<close>

text \<open>The pages after the highest one in use; the state is the set of pages in use.\<close>

definition next_page :: "nat set \<Rightarrow> nat" where
  "next_page x = Suc (Max (insert 0x40fff x))"

definition top_pool :: "nat set boot_services" where
  "top_pool = \<lparr>
     AllocatePages = (\<lambda>mx n x.
       if finite x \<and> 4096 * (next_page x + unat n) \<le> unat mx
       then (EFI_SUCCESS, of_nat (4096 * next_page x), x \<union> {next_page x ..< next_page x + unat n})
       else (EFI_DEVICE_ERROR, 0, x)),
     FreePages = (\<lambda>a n x. if pages_of a (unat n) \<subseteq> x then (EFI_SUCCESS, x - pages_of a (unat n)) else (EFI_DEVICE_ERROR, x))\<rparr>"

lemma next_page_new: "finite x \<Longrightarrow> {next_page x ..< n} \<inter> x = {}"
  unfolding next_page_def by (auto simp: Suc_le_eq)

interpretation top_pool: page_pool top_pool id
proof unfold_locales
  fix mx n :: u64 and x st a x'
  assume al: "AllocatePages top_pool mx n x = (st, a, x')" and ok: "\<not> EFI_ERROR st"
  have "EFI_ERROR EFI_DEVICE_ERROR" by code_simp
  then have fits: "finite x" "4096 * (next_page x + unat n) \<le> unat mx" and r: "a = of_nat (4096 * next_page x)"
    "x' = x \<union> {next_page x ..< next_page x + unat n}"
    using al ok by (auto simp: top_pool_def split: if_splits)
  have "unat mx < 2 ^ 64" using unsigned_less [where 'a = nat, of mx] by simp
  then have a: "unat a = 4096 * next_page x"
    using fits(2) unfolding r(1) by (subst unat_of_nat) (simp add: take_bit_nat_eq_self)
  then have "a \<noteq> 0" by (auto simp: next_page_def unat_eq_0 [symmetric] simp del: unat_eq_0)
  then show "a \<noteq> 0 \<and> unat a mod 4096 = 0 \<and> unat a + 4096 * unat n \<le> unat mx + 1 \<and>
      pages_of a (unat n) \<inter> id x = {} \<and> id x' = id x \<union> pages_of a (unat n)"
    using fits a r(2) next_page_new [OF fits(1), of "next_page x + unat n"] by (simp add: pages_of_def)
next
  fix mx n :: u64 and x st a x'
  assume "AllocatePages top_pool mx n x = (st, a, x')" "EFI_ERROR st"
  moreover have "\<not> EFI_ERROR EFI_SUCCESS" by code_simp
  ultimately show "id x' = id x" by (auto simp: top_pool_def split: if_splits)
next
  fix a n :: u64 and x
  assume "pages_of a (unat n) \<subseteq> id x"
  moreover have "\<not> EFI_ERROR EFI_SUCCESS" by code_simp
  ultimately show "\<not> EFI_ERROR (fst (FreePages top_pool a n x)) \<and> id (snd (FreePages top_pool a n x)) = id x - pages_of a (unat n)"
    by (simp add: top_pool_def)
qed

theorem aligned_pages_exact_witness:
  "\<exists>b x'. AllocateAlignedPages32 top_pool 3 (2 ^ 16) {} = Some (b, x') \<and> (b = 0 \<or> unat b mod 2 ^ 16 = 0 \<and> x' = pages_of b 3)"
  using aligned_pages_exact [OF top_pool.page_pool_axioms, of 16 3 "{}"] by (auto split: if_splits)

theorem bounce_session_witness:
  "\<exists>b m1 x1. bounce_buffer_start top_pool 12 0x41000001 5 3 (ucast, {0x41000}) = Some (0, b, m1, x1) \<and>
     bounce_buffer b = 0x41001000 \<and> load_bytes m1 0x41001000 5 = load_bytes ucast 0x41000001 5"
proof -
  define m :: mem where "m = ucast"
  let ?m1 = "store_bytes m 0x41001000 (load_bytes m 0x41000001 5)"
  let ?b = "\<lparr>user_buffer = 0x41000001, bounce_buffer = 0x41001000, bb_len = 5, len_aligned = 16, bb_flags = 3\<rparr>"
  have p: "next_page {0x41000} = 0x41001" by (simp add: next_page_def)
  have e: "\<not> EFI_ERROR EFI_SUCCESS" by code_simp
  have "AllocateAlignedPages32 top_pool 1 16 {0x41000} = Some (0x41001000, {0x41000} \<union> {0x41001 ..< 0x41001 + 1})"
    by (simp add: AllocateAlignedPages32_def InternalAllocateAlignedPages32_def top_pool_def p e)
  moreover have "EFI_SIZE_TO_PAGES 16 = 1" "roundup 5 16 = 16" by (simp_all add: EFI_SIZE_TO_PAGES_def roundup_def)
  ultimately have start: "bounce_buffer_start top_pool 12 0x41000001 5 3 (m, {0x41000}) =
      Some (0, ?b, ?m1, {0x41000} \<union> {0x41001 ..< 0x41001 + 1})"
    by (simp add: bounce_buffer_start_def addr_aligned_def Let_def)
  have "(unat (0x41000001 :: u64) + i) div 4096 = 0x41000" if "i < unat (5 :: u64)" for i using that by simp
  then show ?thesis
    using bounce_session [OF top_pool.page_pool_axioms _ _ _ _ _ start, of ?m1] start unfolding m_def by auto
qed

end
