(* ===== verification/Twi.thy ===== *)
theory Twi
  imports Gpio
begin

text \<open>
  The two-wire (I2C) controllers, \<open>src/Library/SunxiTwiLib/SunxiTwiLib.c\<close>. Every step of a transfer writes the
  controller's registers and polls until the controller raises its flag, a bounded number
  of times. \<open>gTwiController\<close> holds the base addresses of the four controllers; the public functions have no result
  (\<^const>\<open>None\<close>) for a bus number outside the array. Results are 64 bits wide, negative codes
  wrap around. A buffer that is filled is returned as the list of the bytes that were stored. Delays have no
  effect on the registers and are left out.
\<close>

section \<open>Registers and polling\<close>

abbreviation (input) TWI_OK :: u64 where "TWI_OK \<equiv> 0"
abbreviation (input) TWI_NOK_TOUT :: u64 where "TWI_NOK_TOUT \<equiv> 4"
abbreviation (input) TWI_START_TRANSMIT :: u32 where "TWI_START_TRANSMIT \<equiv> 0x08"
abbreviation (input) TWI_RESTART_TRANSMIT :: u32 where "TWI_RESTART_TRANSMIT \<equiv> 0x10"
abbreviation (input) TWI_ADDRWRITE_ACK :: u32 where "TWI_ADDRWRITE_ACK \<equiv> 0x18"
abbreviation (input) TWI_ADDRREAD_ACK :: u32 where "TWI_ADDRREAD_ACK \<equiv> 0x40"
abbreviation (input) TWI_DATAWRITE_ACK :: u32 where "TWI_DATAWRITE_ACK \<equiv> 0x28"
abbreviation (input) TWI_READY :: u32 where "TWI_READY \<equiv> 0xf8"
abbreviation (input) TWI_DATAREAD_NACK :: u32 where "TWI_DATAREAD_NACK \<equiv> 0x58"
abbreviation (input) TWI_DATAREAD_ACK :: u32 where "TWI_DATAREAD_ACK \<equiv> 0x50"
abbreviation (input) CCMU_BUS_CLK_GATING_REG3 :: u32 where "CCMU_BUS_CLK_GATING_REG3 \<equiv> 0x01c2006c"
abbreviation (input) CCMU_BUS_SOFT_RST_REG4 :: u32 where "CCMU_BUS_SOFT_RST_REG4 \<equiv> 0x01c202d8"

definition gTwiController :: "u32 list" where
  "gTwiController = [0x01c2ac00, 0x01c2b000, 0x01c2b400, 0x01f02400]"

text \<open>The fields of \<open>SUNXI_TWI_REG\<close>.\<close>

definition twi_data :: "u64 \<Rightarrow> u32" where "twi_data BusNum = gTwiController ! unat BusNum + 0x08"
definition twi_ctl :: "u64 \<Rightarrow> u32" where "twi_ctl BusNum = gTwiController ! unat BusNum + 0x0c"
definition twi_status :: "u64 \<Rightarrow> u32" where "twi_status BusNum = gTwiController ! unat BusNum + 0x10"
definition twi_clk :: "u64 \<Rightarrow> u32" where "twi_clk BusNum = gTwiController ! unat BusNum + 0x14"
definition twi_srst :: "u64 \<Rightarrow> u32" where "twi_srst BusNum = gTwiController ! unat BusNum + 0x18"
definition twi_eft :: "u64 \<Rightarrow> u32" where "twi_eft BusNum = gTwiController ! unat BusNum + 0x1c"
definition twi_lcr :: "u64 \<Rightarrow> u32" where "twi_lcr BusNum = gTwiController ! unat BusNum + 0x20"

text \<open>
  \<open>while((time--) && !ok(reg));\<close> with the value of \<open>time\<close> after the loop: -1 when the polls are used up,
  otherwise the number of polls left.
\<close>

fun twi_wait :: "'h plat \<Rightarrow> u32 \<Rightarrow> (u32 \<Rightarrow> bool) \<Rightarrow> nat \<Rightarrow> 'h \<Rightarrow> int \<times> 'h" where
  "twi_wait p a ok 0 h = (-1, h)"
| "twi_wait p a ok (Suc time) h =
     (case MmioRead32 p a h of (v, h) \<Rightarrow> if ok v then (int time, h) else twi_wait p a ok time h)"

abbreviation (input) int_flag :: "u32 \<Rightarrow> bool" where
  "int_flag v \<equiv> v AND 0x08 \<noteq> 0"

text \<open>A step that is taken only when the step before has returned 0.\<close>

definition if_ok :: "u64 \<times> 'h \<Rightarrow> ('h \<Rightarrow> u64 \<times> 'h) \<Rightarrow> u64 \<times> 'h" where
  "if_ok r k = (case r of (ret, h) \<Rightarrow> if ret \<noteq> 0 then (ret, h) else k h)"

section \<open>Steps of a transfer\<close>

definition SunxiTwiSendStart :: "'h plat \<Rightarrow> u64 \<Rightarrow> 'h \<Rightarrow> u64 \<times> 'h" where
  "SunxiTwiSendStart p BusNum h =
     (let h = MmioWrite32 p (twi_eft BusNum) 0 h;
          h = MmioWrite32 p (twi_srst BusNum) 1 h;
          h = mmio_rmw p (twi_ctl BusNum) (\<lambda>v. v OR 0x20) h;
          (time, h) = twi_wait p (twi_ctl BusNum) int_flag 0xfffff h
      in if time \<le> 0 then (- TWI_NOK_TOUT, h)
         else case MmioRead32 p (twi_status BusNum) h of (tmp_val, h) \<Rightarrow>
           (if tmp_val \<noteq> TWI_START_TRANSMIT then - ucast TWI_START_TRANSMIT else TWI_OK, h))"

definition SunxiTwiSendRestart :: "'h plat \<Rightarrow> u64 \<Rightarrow> 'h \<Rightarrow> u64 \<times> 'h" where
  "SunxiTwiSendRestart p BusNum h =
     (let h = mmio_rmw p (twi_ctl BusNum) (\<lambda>v. v OR 0x20) h;
          (time, h) = twi_wait p (twi_ctl BusNum) int_flag 0xffff h
      in if time \<le> 0 then (- TWI_NOK_TOUT, h)
         else case MmioRead32 p (twi_status BusNum) h of (tmp_val, h) \<Rightarrow>
           (if tmp_val \<noteq> TWI_RESTART_TRANSMIT then - ucast TWI_RESTART_TRANSMIT else TWI_OK, h))"

definition SunxiTwiSendSlaveAddr :: "'h plat \<Rightarrow> u64 \<Rightarrow> u64 \<Rightarrow> u64 \<Rightarrow> 'h \<Rightarrow> u64 \<times> 'h" where
  "SunxiTwiSendSlaveAddr p BusNum SlaveAddr RW h =
     (let RW = RW AND 1;
          h = MmioWrite32 p (twi_data BusNum) (ucast (push_bit 1 (SlaveAddr AND 0xff) OR RW)) h;
          h = mmio_rmw p (twi_ctl BusNum) (\<lambda>v. v OR push_bit 3 1) h;
          (time, h) = twi_wait p (twi_ctl BusNum) int_flag 0xffff h
      in if time \<le> 0 then (- TWI_NOK_TOUT, h)
         else case MmioRead32 p (twi_status BusNum) h of (tmp_val, h) \<Rightarrow>
           if RW = 0 then (if tmp_val \<noteq> TWI_ADDRWRITE_ACK then - ucast TWI_ADDRWRITE_ACK else TWI_OK, h)
           else (if tmp_val \<noteq> TWI_ADDRREAD_ACK then - ucast TWI_ADDRREAD_ACK else TWI_OK, h))"

definition SunxiTwiSendByteAddr :: "'h plat \<Rightarrow> u64 \<Rightarrow> u64 \<Rightarrow> 'h \<Rightarrow> u64 \<times> 'h" where
  "SunxiTwiSendByteAddr p BusNum ByteAddr h =
     (let h = MmioWrite32 p (twi_data BusNum) (ucast (ByteAddr AND 0xff)) h;
          h = mmio_rmw p (twi_ctl BusNum) (\<lambda>v. v OR push_bit 3 1) h;
          (time, h) = twi_wait p (twi_ctl BusNum) int_flag 0xffff h
      in if time \<le> 0 then (- TWI_NOK_TOUT, h)
         else case MmioRead32 p (twi_status BusNum) h of (tmp_val, h) \<Rightarrow>
           (if tmp_val \<noteq> TWI_DATAWRITE_ACK then - ucast TWI_DATAWRITE_ACK else TWI_OK, h))"

text \<open>
  \<open>SunxiTwiGetData\<close>: all bytes but the last are acknowledged. For a count of 0 the bound \<open>Count - 1\<close> wraps around, and
  the loop, whose index has 32 bits, never reaches it; the same holds for a count above \<open>2 ^ 32\<close>. Such a call stores one byte
  after the other, behind the buffer too, until the controller times out; once the index itself has wrapped around there is no result.
\<close>

fun get_acked :: "'h plat \<Rightarrow> u64 \<Rightarrow> nat \<Rightarrow> 'h \<Rightarrow> u64 \<times> u8 list \<times> 'h" where
  "get_acked p BusNum 0 h = (TWI_OK, [], h)"
| "get_acked p BusNum (Suc n) h =
     (let (_, h) = MmioRead32 p (twi_ctl BusNum) h;
          (tmp_val, h) = MmioRead32 p (twi_ctl BusNum) h;
          h = MmioWrite32 p (twi_ctl BusNum) ((tmp_val AND 0xf7) OR 0x04) h;
          (time, h) = twi_wait p (twi_ctl BusNum) int_flag 0xffff h
      in if time \<le> 0 then (- TWI_NOK_TOUT, [], h)
         else
           let (d, h) = MmioRead32 p (twi_data BusNum) h;
               (time, h) = twi_wait p (twi_status BusNum) (\<lambda>v. v = TWI_DATAREAD_ACK) 0xffff h
           in if time \<le> 0 then (- TWI_NOK_TOUT, [ucast d], h)
              else case get_acked p BusNum n h of (ret, bs, h) \<Rightarrow> (ret, ucast d # bs, h))"

definition SunxiTwiGetData :: "'h plat \<Rightarrow> u64 \<Rightarrow> u64 \<Rightarrow> 'h \<Rightarrow> (u64 \<times> u8 list \<times> 'h) option" where
  "SunxiTwiGetData p BusNum Count h =
     (if Count - 1 \<ge> 0x100000000 then
        case get_acked p BusNum 0x100000000 h of (ret, bs, h) \<Rightarrow> if ret \<noteq> 0 then Some (ret, bs, h) else None
      else if Count = 1 then
        let h = mmio_rmw p (twi_ctl BusNum) (\<lambda>v. v OR push_bit 3 1) h;
            (time, h) = twi_wait p (twi_ctl BusNum) int_flag 0xffff h
        in if time \<le> 0 then Some (- TWI_NOK_TOUT, [], h)
           else
             let (d, h) = MmioRead32 p (twi_data BusNum) h;
                 (tmp_val, h) = MmioRead32 p (twi_status BusNum) h
             in Some (if tmp_val \<noteq> TWI_DATAREAD_NACK then - ucast TWI_DATAREAD_NACK else TWI_OK, [ucast d], h)
      else case get_acked p BusNum (unat (Count - 1)) h of (ret, bs, h) \<Rightarrow>
        if ret \<noteq> 0 then Some (ret, bs, h)
        else
          let h = mmio_rmw p (twi_ctl BusNum) (\<lambda>v. v AND 0xfb) h;
              h = mmio_rmw p (twi_ctl BusNum) (\<lambda>v. v AND 0xf7) h;
              (time, h) = twi_wait p (twi_ctl BusNum) int_flag 0xffff h
          in if time \<le> 0 then Some (- TWI_NOK_TOUT, bs, h)
             else
               let (d, h) = MmioRead32 p (twi_data BusNum) h;
                   (time, h) = twi_wait p (twi_status BusNum) (\<lambda>v. v = TWI_DATAREAD_NACK) 100 h
               in Some (if time \<le> 0 then - TWI_NOK_TOUT else TWI_OK, bs @ [ucast d], h))"

definition send_byte :: "'h plat \<Rightarrow> u64 \<Rightarrow> u8 \<Rightarrow> 'h \<Rightarrow> u64 \<times> 'h" where
  "send_byte p BusNum b h =
     (let h = MmioWrite32 p (twi_data BusNum) (ucast b) h;
          h = mmio_rmw p (twi_ctl BusNum) (\<lambda>v. v OR push_bit 3 1) h;
          (time, h) = twi_wait p (twi_ctl BusNum) int_flag 0xffff h
      in if time \<le> 0 then (- TWI_NOK_TOUT, h)
         else
           let (time, h) = twi_wait p (twi_status BusNum) (\<lambda>v. v = TWI_DATAWRITE_ACK) 0xffff h
           in (if time \<le> 0 then - TWI_NOK_TOUT else TWI_OK, h))"

fun SunxiTwiSendData :: "'h plat \<Rightarrow> u64 \<Rightarrow> u8 list \<Rightarrow> 'h \<Rightarrow> u64 \<times> 'h" where
  "SunxiTwiSendData p BusNum [] h = (TWI_OK, h)"
| "SunxiTwiSendData p BusNum (b # Data) h = if_ok (send_byte p BusNum b h) (SunxiTwiSendData p BusNum Data)"

definition SunxiTwiSendStop :: "'h plat \<Rightarrow> u64 \<Rightarrow> 'h \<Rightarrow> u64 \<times> 'h" where
  "SunxiTwiSendStop p BusNum h =
     (let h = mmio_rmw p (twi_ctl BusNum) (\<lambda>v. v OR push_bit 4 1) h;
          h = mmio_rmw p (twi_ctl BusNum) (\<lambda>v. v AND 0xf7) h;
          (time, h) = twi_wait p (twi_ctl BusNum) (\<lambda>v. v AND 0x10 = 0) 0xffff h
      in if time \<le> 0 then (- TWI_NOK_TOUT, h)
         else
           let (_, h) = twi_wait p (twi_status BusNum) (\<lambda>v. v = TWI_READY) 0xffff h;
               (tmp_val, h) = MmioRead32 p (twi_status BusNum) h
           in (if tmp_val \<noteq> TWI_READY then - TWI_NOK_TOUT else TWI_OK, h))"

section \<open>Transfers\<close>

text \<open>
  The register address is sent with its highest byte first; one to three bytes of it. The error paths of the
  C code jump to the stop condition, whose own result is ignored.
\<close>

definition addr_size :: "u64 \<Rightarrow> nat" where
  "addr_size AddrLen = (if AddrLen \<ge> 3 then 2 else if AddrLen \<le> 1 then 0 else 1)"

fun send_addr :: "'h plat \<Rightarrow> u64 \<Rightarrow> u64 \<Rightarrow> nat \<Rightarrow> 'h \<Rightarrow> u64 \<times> 'h" where
  "send_addr p BusNum Addr 0 h = SunxiTwiSendByteAddr p BusNum (drop_bit 0 Addr AND 0xff) h"
| "send_addr p BusNum Addr (Suc i) h =
     if_ok (SunxiTwiSendByteAddr p BusNum (drop_bit (8 * Suc i) Addr AND 0xff) h) (send_addr p BusNum Addr i)"

definition TwiRead :: "'h plat \<Rightarrow> u64 \<Rightarrow> u64 \<Rightarrow> u64 \<Rightarrow> u64 \<Rightarrow> u64 \<Rightarrow> 'h \<Rightarrow> (efi_status \<times> u8 list \<times> 'h) option" where
  "TwiRead p BusNum Chip Addr AddrLen Length h =
     (if BusNum \<ge> 4 then None
      else
        case if_ok (if_ok (if_ok (if_ok
               (SunxiTwiSendStart p BusNum h)
               (SunxiTwiSendSlaveAddr p BusNum Chip 0))
               (send_addr p BusNum Addr (addr_size AddrLen)))
               (SunxiTwiSendRestart p BusNum))
               (SunxiTwiSendSlaveAddr p BusNum Chip 1) of (ret, h) \<Rightarrow>
          if ret \<noteq> 0 then Some (-1, [], snd (SunxiTwiSendStop p BusNum h))
          else map_option (\<lambda>(ret, bs, h).
            (if ret \<noteq> 0 then -1 else 0, bs, snd (SunxiTwiSendStop p BusNum h))) (SunxiTwiGetData p BusNum Length h))"

definition TwiWrite :: "'h plat \<Rightarrow> u64 \<Rightarrow> u64 \<Rightarrow> u64 \<Rightarrow> u64 \<Rightarrow> u8 list \<Rightarrow> 'h \<Rightarrow> (efi_status \<times> 'h) option" where
  "TwiWrite p BusNum Chip Addr AddrLen Buffer h =
     (if BusNum \<ge> 4 then None
      else
        case if_ok (if_ok (if_ok
               (SunxiTwiSendStart p BusNum h)
               (SunxiTwiSendSlaveAddr p BusNum Chip 0))
               (send_addr p BusNum Addr (addr_size AddrLen)))
               (SunxiTwiSendData p BusNum Buffer) of (ret, h) \<Rightarrow>
          Some (if ret \<noteq> 0 then -1 else 0, snd (SunxiTwiSendStop p BusNum h)))"

section \<open>Set-up\<close>

definition SunxiTwiGpioInit ::
  "str_lib \<Rightarrow> script_state \<Rightarrow> 'h plat \<Rightarrow> u64 \<Rightarrow> u64 \<Rightarrow> mem \<times> 'h \<Rightarrow> u64 \<times> mem \<times> 'h" where
  "SunxiTwiGpioInit L st p gpio_list BusNum s =
     (let DevName = (if BusNum = 1 then ''twi1'' else if BusNum = 2 then ''twi2'' else ''twi0'')
      in (EFI_SUCCESS, snd (gpio_request_simple L st p gpio_list (Some (map of_char DevName)) None s)))"

definition SunxiTwiSetCpuxClock :: "'h plat \<Rightarrow> u64 \<Rightarrow> 'h \<Rightarrow> u64 \<times> 'h" where
  "SunxiTwiSetCpuxClock p BusNum h =
     (let h = mmio_rmw p CCMU_BUS_SOFT_RST_REG4 (\<lambda>v. v OR push_bit (unat BusNum) 1) h;
          (regValue, h) = MmioRead32 p CCMU_BUS_CLK_GATING_REG3 h;
          regValue = regValue AND NOT (push_bit (unat BusNum) 1);
          h = MmioWrite32 p CCMU_BUS_CLK_GATING_REG3 regValue h;
          h = MmioWrite32 p CCMU_BUS_CLK_GATING_REG3 (regValue OR push_bit (unat BusNum) 1) h
      in (EFI_SUCCESS, h))"

fun srst_wait :: "'h plat \<Rightarrow> u32 \<Rightarrow> nat \<Rightarrow> 'h \<Rightarrow> 'h" where
  "srst_wait p a 0 h = snd (MmioRead32 p a h)"
| "srst_wait p a (Suc i) h = (case MmioRead32 p a h of (v, h) \<Rightarrow> if v \<noteq> 0 then srst_wait p a i h else h)"

fun toggle_scl :: "'h plat \<Rightarrow> u32 \<Rightarrow> nat \<Rightarrow> 'h \<Rightarrow> 'h" where
  "toggle_scl p a 0 h = h"
| "toggle_scl p a (Suc i) h =
     (case MmioRead32 p a h of (v, h) \<Rightarrow>
        if v AND 0x02 \<noteq> 2
        then toggle_scl p a i (mmio_rmw p a (\<lambda>v. v AND NOT 0x08) (mmio_rmw p a (\<lambda>v. v OR 0x08) h))
        else h)"

text \<open>In C, \<open>2^clk_n\<close> is the exclusive or.\<close>

definition twi_clk_m :: "u64 \<Rightarrow> u64" where
  "twi_clk_m Speed = (24000 div 10) div ((2 XOR 1) * Speed) - 1"

definition SunxiTwiSetClock :: "'h plat \<Rightarrow> u64 \<Rightarrow> u64 \<Rightarrow> 'h \<Rightarrow> u64 \<times> 'h" where
  "SunxiTwiSetClock p BusNum Speed h =
     (let lcr = twi_lcr BusNum;
          h = MmioWrite32 p (twi_srst BusNum) 1 h;
          h = srst_wait p (twi_srst BusNum) 0xffff h;
          (v, h) = MmioRead32 p lcr h;
          h = (if v AND 0x30 \<noteq> 0x30 then MmioWrite32 p lcr 0 (toggle_scl p lcr 10 (MmioWrite32 p lcr 0x05 h)) else h);
          Speed = (if Speed < 100 then 100 else if Speed > 400 then 400 else Speed);
          h = MmioWrite32 p (twi_clk BusNum) (ucast (push_bit 3 (twi_clk_m Speed) OR 1)) h;
          h = MmioWrite32 p (twi_ctl BusNum) 0x40 h;
          h = MmioWrite32 p (twi_eft BusNum) 0 h
      in (EFI_SUCCESS, h))"

definition TwiInit ::
  "str_lib \<Rightarrow> script_state \<Rightarrow> 'h plat \<Rightarrow> u64 \<Rightarrow> u64 \<Rightarrow> u64 \<Rightarrow> mem \<times> 'h \<Rightarrow> (efi_status \<times> mem \<times> 'h) option" where
  "TwiInit L st p gpio_list BusNum Speed = (\<lambda>(m, h).
     if BusNum \<ge> 4 then None
     else
       let h = snd (SunxiTwiSetCpuxClock p BusNum h);
           (_, m, h) = SunxiTwiGpioInit L st p gpio_list BusNum (m, h);
           (Status, h) = SunxiTwiSetClock p BusNum Speed h
       in Some (Status, m, h))"

section \<open>What goes over the wire\<close>

lemma log_wait [log_simps]: "a \<noteq> d \<Longrightarrow> snd (snd (twi_wait (logged p d) a ok n s)) = snd s"
  by (induction n arbitrary: s) (simp_all add: split_beta log_simps)

lemma twi_regs [log_simps]:
  "twi_ctl b \<noteq> twi_data b" "twi_status b \<noteq> twi_data b" "twi_eft b \<noteq> twi_data b" "twi_srst b \<noteq> twi_data b"
  by (simp_all add: twi_ctl_def twi_data_def twi_status_def twi_eft_def twi_srst_def)

text \<open>A step writes a prefix of the words \<open>F\<close> to the register, all of them if it succeeds.\<close>

definition sends :: "u32 \<Rightarrow> ('h \<times> mmio_event list \<Rightarrow> u64 \<times> 'h \<times> mmio_event list) \<Rightarrow> u32 list \<Rightarrow> bool" where
  "sends d f F \<longleftrightarrow> (\<forall>s. \<exists>j\<le>length F. snd (snd (f s)) = snd s @ map (Wr d) (take j F) \<and> (fst (f s) = 0 \<longrightarrow> j = length F))"

lemma sends_nil: "(\<And>s. snd (snd (f s)) = snd s) \<Longrightarrow> sends d f []"
  by (simp add: sends_def)

lemma sends_one: "(\<And>s. snd (snd (f s)) = snd s @ [Wr d v]) \<Longrightarrow> sends d f [v]"
  unfolding sends_def by (intro allI exI [of _ 1]) simp

lemma sends_if_ok:
  assumes "sends d f F" and "sends d g G"
  shows "sends d (\<lambda>s. if_ok (f s) g) (F @ G)"
  unfolding sends_def
proof
  fix s
  obtain j where j: "j \<le> length F" "snd (snd (f s)) = snd s @ map (Wr d) (take j F)" "fst (f s) = 0 \<longrightarrow> j = length F"
    using assms(1) unfolding sends_def by blast
  obtain k where k: "k \<le> length G" "snd (snd (g (snd (f s)))) = snd (snd (f s)) @ map (Wr d) (take k G)"
    "fst (g (snd (f s))) = 0 \<longrightarrow> k = length G"
    using assms(2) unfolding sends_def by blast
  let ?n = "if fst (f s) = 0 then length F + k else j"
  show "\<exists>j\<le>length (F @ G). snd (snd (if_ok (f s) g)) = snd s @ map (Wr d) (take j (F @ G)) \<and>
      (fst (if_ok (f s) g) = 0 \<longrightarrow> j = length (F @ G))"
    using j k by (intro exI [of _ ?n]) (auto simp: if_ok_def split_beta)
qed

lemma steps_send:
  "sends (twi_data b) (SunxiTwiSendStart (logged p (twi_data b)) b) []"
  "sends (twi_data b) (SunxiTwiSendRestart (logged p (twi_data b)) b) []"
  "sends (twi_data b) (SunxiTwiSendSlaveAddr (logged p (twi_data b)) b chip rw) [ucast (push_bit 1 (chip AND 0xff) OR (rw AND 1))]"
  "sends (twi_data b) (SunxiTwiSendByteAddr (logged p (twi_data b)) b a) [ucast (a AND 0xff)]"
  by (rule sends_nil sends_one,
    simp add: SunxiTwiSendStart_def SunxiTwiSendRestart_def SunxiTwiSendSlaveAddr_def SunxiTwiSendByteAddr_def Let_def
      split_beta log_simps)+

definition addr_bytes :: "u64 \<Rightarrow> nat \<Rightarrow> u32 list" where
  "addr_bytes Addr n = map (\<lambda>i. ucast (drop_bit (8 * i) Addr AND 0xff)) (rev [0..<Suc n])"

lemma send_addr_sends: "sends (twi_data b) (send_addr (logged p (twi_data b)) b Addr n) (addr_bytes Addr n)"
proof (induction n)
  case 0
  then show ?case using steps_send(4) [of b p "Addr AND 0xff"] by (simp add: addr_bytes_def sends_def and.assoc)
next
  case (Suc n)
  let ?p = "logged p (twi_data b)" and ?a = "drop_bit (8 * Suc n) Addr AND 0xff"
  have "send_addr ?p b Addr (Suc n) = (\<lambda>s. if_ok (SunxiTwiSendByteAddr ?p b ?a s) (send_addr ?p b Addr n))"
    by (simp add: fun_eq_iff)
  moreover have "addr_bytes Addr (Suc n) = [ucast (?a AND 0xff)] @ addr_bytes Addr n"
    by (simp add: addr_bytes_def and.assoc)
  ultimately show ?case using sends_if_ok [OF steps_send(4) Suc.IH] by metis
qed

lemma send_data_sends: "sends (twi_data b) (SunxiTwiSendData (logged p (twi_data b)) b Data) (map ucast Data)"
proof (induction Data)
  case Nil
  then show ?case by (simp add: sends_def)
next
  case (Cons x Data)
  let ?p = "logged p (twi_data b)"
  have "sends (twi_data b) (send_byte ?p b x) [ucast x]"
    by (rule sends_one) (simp add: send_byte_def Let_def split_beta log_simps)
  from sends_if_ok [OF this Cons.IH] show ?case by (simp add: fun_eq_iff [of "SunxiTwiSendData ?p b (x # Data)"])
qed

lemma stop_log: "snd (snd (SunxiTwiSendStop (logged p (twi_data b)) b s)) = snd s"
  by (simp add: SunxiTwiSendStop_def Let_def split_beta log_simps)

text \<open>
  C29: what a write sends. Whatever the controller and the bus do, the bytes put on the bus are the chip
  address for writing, the register address with its highest byte first, and the data, in this
  order and none twice: all of them when the call returns 0, otherwise the first few, and the call returns an error.
\<close>

theorem twi_write_frame:
  fixes Buffer :: "u8 list"
  assumes "TwiWrite (logged p (twi_data BusNum)) BusNum Chip Addr AddrLen Buffer (h, []) = Some (st, h', l)"
  defines "F \<equiv> ucast (push_bit 1 (Chip AND 0xff)) # addr_bytes Addr (addr_size AddrLen) @ map ucast Buffer"
  shows "\<exists>j\<le>length F. l = map (Wr (twi_data BusNum)) (take j F) \<and> st \<in> {0, -1} \<and> (st = 0 \<longrightarrow> j = length F)"
proof -
  let ?d = "twi_data BusNum" and ?p = "logged p (twi_data BusNum)"
  let ?f = "\<lambda>s. if_ok (if_ok (if_ok (SunxiTwiSendStart ?p BusNum s) (SunxiTwiSendSlaveAddr ?p BusNum Chip 0))
    (send_addr ?p BusNum Addr (addr_size AddrLen))) (SunxiTwiSendData ?p BusNum Buffer)"
  have "sends ?d ?f ((([] @ [ucast (push_bit 1 (Chip AND 0xff) OR (0 AND 1))]) @ addr_bytes Addr (addr_size AddrLen)) @ map ucast Buffer)"
    by (intro sends_if_ok steps_send send_addr_sends send_data_sends)
  then have "sends ?d ?f F" by (simp add: F_def)
  then obtain j where j: "j \<le> length F" "snd (snd (?f (h, []))) = map (Wr ?d) (take j F)" "fst (?f (h, [])) = 0 \<longrightarrow> j = length F"
    unfolding sends_def by (metis append_Nil snd_conv)
  have "l = snd (snd (?f (h, [])))" "st = (if fst (?f (h, [])) \<noteq> 0 then -1 else 0)"
    using assms(1) stop_log [of p BusNum "snd (?f (h, []))"] by (auto simp: TwiWrite_def split_beta split: if_splits)
  then show ?thesis using j by (intro exI [of _ j]) auto
qed

text \<open>The bytes a read delivers are those it has read from the data register, in order.\<close>

definition receives :: "u32 \<Rightarrow> mmio_event list \<Rightarrow> u64 \<Rightarrow> nat \<Rightarrow> u8 list \<Rightarrow> mmio_event list \<Rightarrow> bool" where
  "receives d l ret n bs l' \<longleftrightarrow> (\<exists>vs. l' = l @ map (Rd d) vs \<and> bs = map ucast vs \<and> (ret = 0 \<longrightarrow> length vs = n))"

lemma get_acked_receives:
  "get_acked (logged p (twi_data b)) b n s = (ret, bs, s') \<Longrightarrow> receives (twi_data b) (snd s) ret n bs (snd s')"
proof (induction n arbitrary: s ret bs s')
  case (Suc n)
  let ?p = "logged p (twi_data b)"
  let ?s1 = "snd (MmioRead32 ?p (twi_ctl b) (snd (MmioRead32 ?p (twi_ctl b) s)))"
  let ?v = "fst (MmioRead32 ?p (twi_ctl b) (snd (MmioRead32 ?p (twi_ctl b) s)))"
  let ?w = "twi_wait ?p (twi_ctl b) int_flag 0xffff (MmioWrite32 ?p (twi_ctl b) ((?v AND 0xf7) OR 0x04) ?s1)"
  let ?r = "MmioRead32 ?p (twi_data b) (snd ?w)"
  let ?w2 = "twi_wait ?p (twi_status b) (\<lambda>v. v = 0x50) 0xffff (snd ?r)"
  have l1: "snd (snd ?w) = snd s" by (simp add: log_simps)
  then have l2: "snd (snd ?w2) = snd s @ [Rd (twi_data b) (fst ?r)]" by (simp add: log_simps)
  consider "fst ?w \<le> 0" | "\<not> fst ?w \<le> 0" "fst ?w2 \<le> 0" | "\<not> fst ?w \<le> 0" "\<not> fst ?w2 \<le> 0" by blast
  then show ?case
  proof cases
    case 3
    obtain ret' bs' s2 where g: "get_acked ?p b n (snd ?w2) = (ret', bs', s2)" by (metis prod_cases3)
    then have "receives (twi_data b) (snd s @ [Rd (twi_data b) (fst ?r)]) ret' n bs' (snd s2)" using Suc.IH [OF g] l2 by simp
    then obtain vs where "snd s2 = snd s @ Rd (twi_data b) (fst ?r) # map (Rd (twi_data b)) vs" "bs' = map ucast vs"
      "ret' = 0 \<longrightarrow> length vs = n" by (auto simp: receives_def)
    then show ?thesis using Suc.prems 3 g unfolding receives_def
      by (intro exI [of _ "fst ?r # vs"]) (simp add: Let_def split_beta)
  next
    case 2
    then show ?thesis using Suc.prems l2 unfolding receives_def
      by (intro exI [of _ "[fst ?r]"]) (auto simp: Let_def split_beta)
  next
    case 1
    then show ?thesis using Suc.prems l1 by (auto simp: receives_def Let_def split_beta)
  qed
qed (auto simp: receives_def)

lemma get_data_receives:
  assumes "SunxiTwiGetData (logged p (twi_data b)) b n s = Some (ret, bs, s')"
  shows "receives (twi_data b) (snd s) ret (unat n) bs (snd s')"
proof -
  let ?p = "logged p (twi_data b)"
  consider "n = 1" | "n - 1 \<ge> 0x100000000" | "n \<noteq> 0" "n \<noteq> 1" "\<not> n - 1 \<ge> 0x100000000"
    by fastforce
  then show ?thesis
  proof cases
    case 2
    obtain r1 bs1 s1 where g: "get_acked ?p b 0x100000000 s = (r1, bs1, s1)" by (metis prod_cases3)
    then show ?thesis using get_acked_receives [OF g] assms 2
      by (auto simp: SunxiTwiGetData_def receives_def split: if_splits)
  next
    case 1
    let ?w = "twi_wait ?p (twi_ctl b) int_flag 0xffff (mmio_rmw ?p (twi_ctl b) (\<lambda>v. v OR push_bit 3 1) s)"
    let ?r = "MmioRead32 ?p (twi_data b) (snd ?w)"
    show ?thesis using assms 1 unfolding receives_def
      by (intro exI [of _ "if fst ?w \<le> 0 then [] else [fst ?r]"])
        (auto simp: SunxiTwiGetData_def Let_def split_beta log_simps split: if_splits)
  next
    case 3
    obtain r1 bs1 s1 where g: "get_acked ?p b (unat (n - 1)) s = (r1, bs1, s1)" by (metis prod_cases3)
    have "unat n \<noteq> 0" using 3(1) by (simp add: unat_eq_zero)
    then have n1: "unat n = Suc (unat (n - 1))" using unat_minus_one [OF 3(1)] by simp
    from get_acked_receives [OF g] obtain vs where vs: "snd s1 = snd s @ map (Rd (twi_data b)) vs" "bs1 = map ucast vs"
      "r1 = 0 \<longrightarrow> length vs = unat (n - 1)" by (auto simp: receives_def)
    let ?w = "twi_wait ?p (twi_ctl b) int_flag 0xffff
      (mmio_rmw ?p (twi_ctl b) (\<lambda>v. v AND 0xf7) (mmio_rmw ?p (twi_ctl b) (\<lambda>v. v AND 0xfb) s1))"
    let ?r = "MmioRead32 ?p (twi_data b) (snd ?w)"
    show ?thesis using assms 3 g vs n1 unfolding receives_def
      by (intro exI [of _ "if r1 \<noteq> 0 \<or> fst ?w \<le> 0 then vs else vs @ [fst ?r]"])
        (auto simp: SunxiTwiGetData_def Let_def split_beta log_simps split: if_splits)
  qed
qed

text \<open>
  C30: what a read sends and delivers. Whatever the controller and the bus do, the bytes put on the bus are the chip
  address for writing, the register address with its highest byte first, and the chip
  address for reading, all of them before the first byte is received. The buffer holds the bytes received,
  in order, and when the call returns 0 there are as many as asked for.
\<close>

theorem twi_read_frame:
  fixes bs :: "u8 list"
  assumes "TwiRead (logged p (twi_data BusNum)) BusNum Chip Addr AddrLen Length (h, []) = Some (st, bs, h', l)"
  defines "F \<equiv> ucast (push_bit 1 (Chip AND 0xff)) # addr_bytes Addr (addr_size AddrLen) @ [ucast (push_bit 1 (Chip AND 0xff) OR 1)]"
  shows "\<exists>j vs. j \<le> length F \<and> l = map (Wr (twi_data BusNum)) (take j F) @ map (Rd (twi_data BusNum)) vs \<and>
    (vs \<noteq> [] \<longrightarrow> j = length F) \<and> bs = map ucast vs \<and> st \<in> {0, -1} \<and> (st = 0 \<longrightarrow> length vs = unat Length \<and> j = length F)"
proof -
  let ?d = "twi_data BusNum" and ?p = "logged p (twi_data BusNum)"
  let ?f = "\<lambda>s. if_ok (if_ok (if_ok (if_ok (SunxiTwiSendStart ?p BusNum s) (SunxiTwiSendSlaveAddr ?p BusNum Chip 0))
    (send_addr ?p BusNum Addr (addr_size AddrLen))) (SunxiTwiSendRestart ?p BusNum)) (SunxiTwiSendSlaveAddr ?p BusNum Chip 1)"
  have "sends ?d ?f (((([] @ [ucast (push_bit 1 (Chip AND 0xff) OR (0 AND 1))]) @ addr_bytes Addr (addr_size AddrLen)) @ [])
    @ [ucast (push_bit 1 (Chip AND 0xff) OR (1 AND 1))])"
    by (intro sends_if_ok steps_send send_addr_sends)
  then have "sends ?d ?f F" by (simp add: F_def)
  then obtain j where j: "j \<le> length F" "snd (snd (?f (h, []))) = map (Wr ?d) (take j F)" "fst (?f (h, [])) = 0 \<longrightarrow> j = length F"
    unfolding sends_def by (metis append_Nil snd_conv)
  show ?thesis
  proof (cases "fst (?f (h, [])) = 0")
    case False
    then have "l = snd (snd (?f (h, [])))" "st = -1" "bs = []"
      using assms(1) stop_log [of p BusNum "snd (?f (h, []))"] by (auto simp: TwiRead_def split_beta split: if_splits)
    then show ?thesis using j by (intro exI [of _ j] exI [of _ "[]"]) simp
  next
    case True
    have "\<not> 4 \<le> BusNum" using assms(1) by (auto simp: TwiRead_def)
    then have "map_option (\<lambda>(ret, bs, h). (if ret \<noteq> 0 then -1 else 0, bs, snd (SunxiTwiSendStop ?p BusNum h)))
        (SunxiTwiGetData ?p BusNum Length (snd (?f (h, [])))) = Some (st, bs, h', l)"
      using assms(1) True by (simp add: TwiRead_def split_beta)
    then obtain ret s1 where g: "SunxiTwiGetData ?p BusNum Length (snd (?f (h, []))) = Some (ret, bs, s1)"
      and st: "st = (if ret \<noteq> 0 then -1 else 0)" and s1: "snd (SunxiTwiSendStop ?p BusNum s1) = (h', l)"
      by (auto simp: map_option_eq_Some)
    have r: "l = snd s1" "st = (if ret \<noteq> 0 then -1 else 0)" using stop_log [of p BusNum s1] s1 st by simp_all
    from get_data_receives [OF g] obtain vs where "l = snd (snd (?f (h, []))) @ map (Rd ?d) vs" "bs = map ucast vs"
      "ret = 0 \<longrightarrow> length vs = unat Length" using r by (auto simp: receives_def)
    then show ?thesis using j True r(2) by (intro exI [of _ j] exI [of _ vs]) auto
  qed
qed

text \<open>A controller whose registers read the words of a list, one after the other.\<close>

definition reads_of :: "u32 list plat" where
  "reads_of = \<lparr>MmioRead32 = (\<lambda>a h. case h of [] \<Rightarrow> (0, []) | v # h \<Rightarrow> (v, h)), MmioWrite32 = (\<lambda>a v h. h),
     smc_trap = (\<lambda>w x y z h. (0, h))\<rparr>"

lemma twi_wait_step: "0 < n \<Longrightarrow> twi_wait p a ok n h =
    (case MmioRead32 p a h of (v, h) \<Rightarrow> if ok v then (int (n - 1), h) else twi_wait p a ok (n - 1) h)"
  by (cases n) (simp_all add: split_beta)

lemma addr_size_1: "addr_size 1 = 0"
  by (simp add: addr_size_def word_le_nat_alt)

lemmas run_simps = if_ok_def SunxiTwiSendStart_def SunxiTwiSendRestart_def SunxiTwiSendSlaveAddr_def
  SunxiTwiSendByteAddr_def send_byte_def SunxiTwiSendStop_def SunxiTwiGetData_def twi_wait_step mmio_rmw_def
  logged_def reads_of_def twi_data_def twi_ctl_def twi_status_def twi_eft_def twi_srst_def gTwiController_def
  addr_size_1 Let_def

lemma write_run: "TwiWrite (logged reads_of (twi_data 0)) 0 0x34 0x10 1 [7]
    ([0, 8, 0x08, 0, 8, 0x18, 0, 8, 0x28, 0, 8, 0x28, 0, 0, 0, 0xf8, 0xf8], []) =
    Some (0, [], map (Wr (twi_data 0)) [0x68, 0x10, 7])"
  by (simp add: TwiWrite_def run_simps)

lemma read_run: "TwiRead (logged reads_of (twi_data 0)) 0 0x34 0x10 1 1
    ([0, 8, 0x08, 0, 8, 0x18, 0, 8, 0x28, 0, 8, 0x10, 0, 8, 0x40, 0, 8, 0x5a, 0x58, 0, 0, 0, 0xf8, 0xf8], []) =
    Some (0, [0x5a], [], map (Wr (twi_data 0)) [0x68, 0x10, 0x69] @ [Rd (twi_data 0) 0x5a])"
  by (simp add: TwiRead_def run_simps)

theorem twi_write_frame_witness:
  "\<exists>j\<le>3. map (Wr (twi_data 0)) [0x68, 0x10, 7] =
     map (Wr (twi_data 0)) (take j (ucast (push_bit 1 ((0x34::u64) AND 0xff)) # addr_bytes 0x10 (addr_size 1) @ map ucast [7::u8])) \<and> j = 3"
  using twi_write_frame [OF write_run] by (auto simp: addr_bytes_def addr_size_1)

theorem twi_read_frame_witness:
  "\<exists>j vs. map (Wr (twi_data 0)) [0x68, 0x10, 0x69] @ [Rd (twi_data 0) 0x5a] =
     map (Wr (twi_data 0)) (take j (ucast (push_bit 1 ((0x34::u64) AND 0xff)) # addr_bytes 0x10 (addr_size 1) @
       [ucast (push_bit 1 ((0x34::u64) AND 0xff) OR 1)])) @ map (Rd (twi_data 0)) vs \<and>
     [0x5a] = map (ucast :: u32 \<Rightarrow> u8) vs \<and> length vs = unat (1 :: u64)"
  using twi_read_frame [OF read_run] by (elim exE conjE) (intro exI conjI, assumption+, simp)

end
