(* ===== verification/Mmc.thy ===== *)
theory Mmc
  imports Bytes
begin

text \<open>
  The block layer of the SD/MMC driver: commands, status polling and block transfers of
  \<open>src/Drivers/SunxiSdMmcDxe/mmc.c\<close> and \<open>mmc_write.c\<close>, the physical and logical cards of \<open>mmc_op.c\<close>, and the block
  protocol of \<open>SdMmcDxe.c\<close>.

  \<open>struct mmc\<close> and its configuration are records with the fields the modelled code uses. The table of host functions
  \<open>struct mmc_ops\<close> is a record of functions on the memory and a host state \<open>'h\<close>. The type \<open>lbaint_t\<close> has
  32 bits, and \<open>mmc_host_is_spi\<close> is 0. A device number outside \<open>mmc_devices\<close>, a null device where the code
  follows the pointer, and a loop that never ends have no result (\<^const>\<open>None\<close>). Delays and messages are left out.
\<close>

section \<open>Data\<close>

record mmc_cmd =
  cmdidx :: u16
  resp_type :: u32
  cmdarg :: u32
  cmd_flags :: u32

record mmc_data =
  data_buf :: u64
  data_flags :: u32
  blocks :: u32
  blocksize :: u32

record mmc_config =
  host_caps :: u32
  voltages :: u32
  f_min :: u32
  f_max :: u32
  b_max :: u32
  drv_burn_boot_pos :: u32
  drv_wipe_feature :: u32
  drv_erase_feature :: u32

record mmc =
  mcfg :: mmc_config
  version :: u32
  high_capacity :: bool
  bus_width :: u32
  clock :: u32
  card_caps :: u32
  ocr :: u32
  dsr :: u32
  dsr_imp :: u32
  has_init :: bool
  scr :: "u32 list"
  csd :: "u32 list"
  cid :: "u32 list"
  rca :: u16
  part_config :: u8
  part_num :: u8
  tran_speed :: u32
  read_bl_len :: u32
  write_bl_len :: u32
  erase_grp_size :: u32
  capacity :: u64
  capacity_user :: u64
  capacity_boot :: u64
  capacity_rpmb :: u64
  capacity_gp :: "u64 list"
  block_dev_lba :: u32
  block_dev_blksz :: u64
  op_cond_pending :: bool
  init_in_progress :: bool
  op_cond_response :: u32
  speed_mode :: u32
  io_mode :: u32
  clock_after_init :: u32
  boot_support :: u32
  boot_bus_cond :: u8
  erase_timeout :: u32
  trim_discard_timeout :: u32
  secure_erase_timeout :: u32
  secure_trim_timeout :: u32
  secure_feature :: u8
  secure_removal_type :: u8
  pre_eol_info :: u8
  dev_life_time_typea :: u8
  dev_life_time_typeb :: u8
  vendor_health_report :: "u8 list"
  part_support :: u32
  boot1_lba :: u32
  lba :: u32
  user_lba :: u32

text \<open>
  The host functions. \<open>send_cmd\<close> returns its result and the response words; the words
  are read only after a result of 0. \<open>set_ios\<close> and \<open>update_phase\<close> set the host up for the mode of the card; \<open>set_ios\<close> stores the
  clock it has configured in the card's \<open>clock\<close>, which is its result here.
\<close>

record 'h mmc_ops =
  send_cmd :: "mmc \<Rightarrow> mmc_cmd \<Rightarrow> mmc_data option \<Rightarrow> mem \<times> 'h \<Rightarrow> int \<times> u32 list \<times> mem \<times> 'h"
  set_ios :: "mmc \<Rightarrow> mem \<times> 'h \<Rightarrow> u32 \<times> mem \<times> 'h"
  update_phase :: "mmc \<Rightarrow> mem \<times> 'h \<Rightarrow> int \<times> mem \<times> 'h"

type_synonym 'h dev = "mmc \<times> mem \<times> 'h"

abbreviation (input) IS_SD :: "mmc \<Rightarrow> bool" where "IS_SD m \<equiv> version m AND 0x20000 \<noteq> 0"

abbreviation (input) COMM_ERR :: int where "COMM_ERR \<equiv> -18"
abbreviation (input) UNUSABLE_ERR :: int where "UNUSABLE_ERR \<equiv> -17"
abbreviation (input) TIMEOUT :: int where "TIMEOUT \<equiv> -19"
abbreviation (input) IN_PROGRESS :: int where "IN_PROGRESS \<equiv> -20"
abbreviation (input) SWITCH_ERR :: int where "SWITCH_ERR \<equiv> -21"

abbreviation (input) MMC_RSP_NONE :: u32 where "MMC_RSP_NONE \<equiv> 0"
abbreviation (input) MMC_RSP_R1 :: u32 where "MMC_RSP_R1 \<equiv> 0x15"
abbreviation (input) MMC_RSP_R1b :: u32 where "MMC_RSP_R1b \<equiv> 0x1d"
abbreviation (input) MMC_RSP_R2 :: u32 where "MMC_RSP_R2 \<equiv> 0x7"
abbreviation (input) MMC_RSP_R3 :: u32 where "MMC_RSP_R3 \<equiv> 0x1"
abbreviation (input) MMC_DATA_READ :: u32 where "MMC_DATA_READ \<equiv> 1"
abbreviation (input) MMC_DATA_WRITE :: u32 where "MMC_DATA_WRITE \<equiv> 2"
abbreviation (input) MMC_CMD_MANUAL :: u32 where "MMC_CMD_MANUAL \<equiv> 1"
abbreviation (input) HSSDR52_SDR25 :: u32 where "HSSDR52_SDR25 \<equiv> 1"
abbreviation (input) HSDDR52_DDR50 :: u32 where "HSDDR52_DDR50 \<equiv> 2"
abbreviation (input) HS200_SDR104 :: u32 where "HS200_SDR104 \<equiv> 3"
abbreviation (input) HS400 :: u32 where "HS400 \<equiv> 4"

section \<open>Commands and status\<close>

definition mmc_send_cmd :: "'h mmc_ops \<Rightarrow> mmc_cmd \<Rightarrow> mmc_data option \<Rightarrow> 'h dev \<Rightarrow> int \<times> u32 list \<times> 'h dev" where
  "mmc_send_cmd ops cmd data = (\<lambda>(m, w). case send_cmd ops m cmd data w of (ret, resp, w) \<Rightarrow> (ret, resp, m, w))"

text \<open>\<open>MMC_STATUS_RDY_FOR_DATA\<close> is set and \<open>MMC_STATUS_CURR_STATE\<close> is not \<open>MMC_STATE_PRG\<close>; the errors of \<open>MMC_STATUS_MASK\<close>.\<close>

definition status_ready :: "u32 \<Rightarrow> bool" where
  "status_ready r \<longleftrightarrow> r AND 0x100 \<noteq> 0 \<and> r AND 0x1e00 \<noteq> 0xe00"

definition status_error :: "u32 \<Rightarrow> bool" where
  "status_error r \<longleftrightarrow> r AND NOT 0x0206BF7F \<noteq> 0"

text \<open>
  The result when the card reports that it is ready. \<open>n\<close> is the value of \<open>timeout\<close> modulo \<open>2 ^ 32\<close>, so that \<open>timeout <= 0\<close> means
  that it is 0 or has its sign bit set.
\<close>

definition status_result :: "nat \<Rightarrow> u32 \<Rightarrow> int" where
  "status_result n r =
     (if n = 0 \<or> 2 ^ 31 \<le> n then TIMEOUT else if r AND 0x80 \<noteq> 0 then SWITCH_ERR
      else if r AND 0x80000000 \<noteq> 0 then -1 else 0)"

fun status_poll :: "'h mmc_ops \<Rightarrow> mmc_cmd \<Rightarrow> nat \<Rightarrow> nat \<Rightarrow> 'h dev \<Rightarrow> int \<times> 'h dev" where
  "status_poll ops cmd n retries s =
     (case mmc_send_cmd ops cmd None s of (err, response, s) \<Rightarrow>
        if err = 0 \<and> status_ready (response ! 0) then (status_result n (response ! 0), s)
        else if err = 0 \<and> status_error (response ! 0) then (COMM_ERR, s)
        else if err \<noteq> 0 \<and> retries = 0 then (err, s)
        else if n = 0 then (TIMEOUT, s)
        else status_poll ops cmd (n - 1) (if err = 0 then retries else retries - 1) s)"

declare status_poll.simps [simp del]

definition mmc_send_status :: "'h mmc_ops \<Rightarrow> u32 \<Rightarrow> 'h dev \<Rightarrow> int \<times> 'h dev" where
  "mmc_send_status ops timeout s =
     status_poll ops \<lparr>cmdidx = 13, resp_type = MMC_RSP_R1, cmdarg = push_bit 16 (ucast (rca (fst s))), cmd_flags = 0\<rparr>
       (unat timeout) 5 s"

definition mmc_set_blocklen :: "'h mmc_ops \<Rightarrow> u32 \<Rightarrow> 'h dev \<Rightarrow> int \<times> 'h dev" where
  "mmc_set_blocklen ops len s =
     (if speed_mode (fst s) = HS400 \<or> speed_mode (fst s) = HSDDR52_DDR50 then (0, s)
      else case mmc_send_cmd ops \<lparr>cmdidx = 16, resp_type = MMC_RSP_R1, cmdarg = len, cmd_flags = 0\<rparr> None s of
        (ret, _, s) \<Rightarrow> (ret, s))"

definition mmc_send_manual_stop :: "'h mmc_ops \<Rightarrow> 'h dev \<Rightarrow> int \<times> 'h dev" where
  "mmc_send_manual_stop ops s =
     (case mmc_send_cmd ops \<lparr>cmdidx = 12, resp_type = MMC_RSP_R1b, cmdarg = 0, cmd_flags = MMC_CMD_MANUAL\<rparr> None s of
        (ret, _, s) \<Rightarrow> (ret, s))"

text \<open>The array \<open>mmc_devices\<close> has \<open>MAX_MMC_NUM\<close> entries, null or a device.\<close>

definition find_mmc_device :: "mmc option list \<Rightarrow> int \<Rightarrow> mmc option option" where
  "find_mmc_device mmc_devices dev_num =
     (if 0 \<le> dev_num \<and> nat dev_num < length mmc_devices then Some (mmc_devices ! nat dev_num) else None)"

section \<open>Block transfers\<close>

definition blk_arg :: "mmc \<Rightarrow> u32 \<Rightarrow> u32 \<Rightarrow> u32" where
  "blk_arg m start bl_len = (if high_capacity m then start else start * bl_len)"

text \<open>The result is \<open>blkcnt\<close> or 0. The result of the last status poll is not used.\<close>

definition mmc_read_blocks :: "'h mmc_ops \<Rightarrow> u64 \<Rightarrow> u32 \<Rightarrow> u32 \<Rightarrow> 'h dev \<Rightarrow> u32 \<times> 'h dev" where
  "mmc_read_blocks ops dst start blkcnt s =
     (let m = fst s;
          cmd = \<lparr>cmdidx = (if blkcnt > 1 then 18 else 17), resp_type = MMC_RSP_R1,
            cmdarg = blk_arg m start (read_bl_len m), cmd_flags = 0\<rparr>;
          data = \<lparr>data_buf = dst, data_flags = MMC_DATA_READ, blocks = blkcnt, blocksize = read_bl_len m\<rparr>
      in case mmc_send_cmd ops cmd (Some data) s of (err, _, s) \<Rightarrow>
        if err \<noteq> 0 then (0, s)
        else if blkcnt > 1 then
          case mmc_send_cmd ops \<lparr>cmdidx = 12, resp_type = MMC_RSP_R1b, cmdarg = 0, cmd_flags = 0\<rparr> None s of (err, _, s) \<Rightarrow>
            if err \<noteq> 0 then (0, s) else (blkcnt, snd (mmc_send_status ops 1000 s))
        else (blkcnt, s))"

text \<open>One round of a transfer loop takes a chunk of at most \<open>b_max\<close> blocks.\<close>

definition chunk :: "mmc \<Rightarrow> u32 \<Rightarrow> u32" where
  "chunk m blocks_todo = (if blocks_todo > b_max (mcfg m) then b_max (mcfg m) else blocks_todo)"

text \<open>The two transfer loops; the flag says whether all blocks were transferred.\<close>

partial_function (option) bread_loop ::
  "'h mmc_ops \<Rightarrow> u32 \<Rightarrow> u32 \<Rightarrow> u64 \<Rightarrow> 'h dev \<Rightarrow> (bool \<times> 'h dev) option" where
  "bread_loop ops blocks_todo start dst s =
     (let cur = chunk (fst s) blocks_todo in
      case mmc_read_blocks ops dst start cur s of (n, s) \<Rightarrow>
        if n \<noteq> cur then Some (False, s)
        else if blocks_todo - cur > 0
        then bread_loop ops (blocks_todo - cur) (start + cur) (dst + ucast (cur * read_bl_len (fst s))) s
        else Some (True, s))"

definition mmc_bread ::
  "'h mmc_ops \<Rightarrow> mmc option list \<Rightarrow> int \<Rightarrow> u32 \<Rightarrow> u32 \<Rightarrow> u64 \<Rightarrow> mem \<times> 'h \<Rightarrow> (u64 \<times> mem \<times> 'h) option" where
  "mmc_bread ops devs dev_num start blkcnt dst w =
     (case find_mmc_device devs dev_num of None \<Rightarrow> None | Some mmc \<Rightarrow>
        if blkcnt = 0 then Some (0, w)
        else case mmc of None \<Rightarrow> Some (0, w) | Some m \<Rightarrow>
          if start + blkcnt > block_dev_lba m then Some (0, w)
          else case mmc_set_blocklen ops (read_bl_len m) (m, w) of (err, s) \<Rightarrow>
            if err \<noteq> 0 then Some (0, snd s)
            else map_option (\<lambda>(ok, s). (if ok then ucast blkcnt else 0, snd s)) (bread_loop ops blkcnt start dst s))"

text \<open>\<open>cmd.flags\<close> is not initialised in this function: its value is the argument \<open>junk\<close>.\<close>

definition mmc_write_blocks :: "'h mmc_ops \<Rightarrow> u32 \<Rightarrow> u32 \<Rightarrow> u32 \<Rightarrow> u64 \<Rightarrow> 'h dev \<Rightarrow> u32 \<times> 'h dev" where
  "mmc_write_blocks ops junk start blkcnt src s =
     (let m = fst s;
          cmd = \<lparr>cmdidx = (if blkcnt = 1 then 24 else 25), resp_type = MMC_RSP_R1,
            cmdarg = blk_arg m start (write_bl_len m), cmd_flags = junk\<rparr>;
          data = \<lparr>data_buf = src, data_flags = MMC_DATA_WRITE, blocks = blkcnt, blocksize = write_bl_len m\<rparr>
      in if start + blkcnt > block_dev_lba m then (0, s)
         else if blkcnt = 0 then (0, s)
         else case mmc_send_cmd ops cmd (Some data) s of (err, _, s) \<Rightarrow>
           if err \<noteq> 0 then (0, s)
           else case (if blkcnt > 1
                      then mmc_send_cmd ops \<lparr>cmdidx = 12, resp_type = MMC_RSP_R1b, cmdarg = 0, cmd_flags = junk\<rparr> None s
                      else (0, [], s)) of (err, _, s) \<Rightarrow>
             if err \<noteq> 0 then (0, s)
             else case mmc_send_status ops 1000 s of (err, s) \<Rightarrow> (if err \<noteq> 0 then 0 else blkcnt, s))"

partial_function (option) bwrite_loop ::
  "'h mmc_ops \<Rightarrow> u32 \<Rightarrow> u32 \<Rightarrow> u32 \<Rightarrow> u64 \<Rightarrow> 'h dev \<Rightarrow> (bool \<times> 'h dev) option" where
  "bwrite_loop ops junk blocks_todo start src s =
     (let cur = chunk (fst s) blocks_todo in
      case mmc_write_blocks ops junk start cur src s of (n, s) \<Rightarrow>
        if n \<noteq> cur then Some (False, s)
        else if blocks_todo - cur > 0
        then bwrite_loop ops junk (blocks_todo - cur) (start + cur) (src + ucast (cur * write_bl_len (fst s))) s
        else Some (True, s))"

definition mmc_bwrite ::
  "'h mmc_ops \<Rightarrow> u32 \<Rightarrow> mmc option list \<Rightarrow> int \<Rightarrow> u32 \<Rightarrow> u32 \<Rightarrow> u64 \<Rightarrow> mem \<times> 'h \<Rightarrow> (u64 \<times> mem \<times> 'h) option" where
  "mmc_bwrite ops junk devs dev_num start blkcnt src w =
     (case find_mmc_device devs dev_num of None \<Rightarrow> None | Some mmc \<Rightarrow>
        if blkcnt = 0 then Some (0, w)
        else case mmc of None \<Rightarrow> Some (0, w) | Some m \<Rightarrow>
          case mmc_set_blocklen ops (write_bl_len m) (m, w) of (err, s) \<Rightarrow>
            if err \<noteq> 0 then Some (0, snd s)
            else map_option (\<lambda>(ok, s). (if ok then ucast blkcnt else 0, snd s)) (bwrite_loop ops junk blkcnt start src s))"

text \<open>
  Erasing writes zeros. \<open>malloc\<close> gives the address of a block of the size asked for, or 0. The device is followed before it is
  tested.
\<close>

definition mmc_berase ::
  "'h mmc_ops \<Rightarrow> u32 \<Rightarrow> (u64 \<Rightarrow> u64) \<Rightarrow> mmc option list \<Rightarrow> int \<Rightarrow> u32 \<Rightarrow> u32 \<Rightarrow> mem \<times> 'h \<Rightarrow> (u64 \<times> mem \<times> 'h) option" where
  "mmc_berase ops junk malloc devs dev_num start blkcnt = (\<lambda>(mem, h).
     case find_mmc_device devs dev_num of Some (Some m) \<Rightarrow>
       let src = malloc (ucast (blkcnt * write_bl_len m)) in
       if src = 0 then Some (-1, mem, h)
       else let mem = store_bytes mem src (replicate (unat (write_bl_len m * blkcnt)) 0)
         in map_option (\<lambda>(err, w). (efi_of_int (to_int32 err), w)) (mmc_bwrite ops junk devs dev_num start blkcnt src (mem, h))
     | _ \<Rightarrow> None)"

section \<open>Physical and logical cards\<close>

text \<open>
  \<open>mmc_op.c\<close>. \<open>PhyResult\<close> is the common end of these functions: the number of blocks as an \<open>int\<close>, or -1.
  On a card with boot partitions the physical card is the first of them, without the first sixteen sectors of an SD card; the
  logical card is the user partition from \<open>bootcard_offset\<close> on.
\<close>

abbreviation (input) PART_SUPPORT :: u32 where "PART_SUPPORT \<equiv> 1"
abbreviation (input) USER_PART :: u8 where "USER_PART \<equiv> 0"
abbreviation (input) BOOT1_PART :: u8 where "BOOT1_PART \<equiv> 1"
abbreviation (input) SD_BOOT_START_BLOCK :: u32 where "SD_BOOT_START_BLOCK \<equiv> 16"

definition PhyResult :: "(u64 \<times> 'w) option \<Rightarrow> (int \<times> 'w) option" where
  "PhyResult r = map_option (\<lambda>(ret, w). (if to_int32 ret = 0 then -1 else to_int32 ret, w)) r"

definition phy_access ::
  "mmc option list \<Rightarrow> u32 \<Rightarrow> u32 \<Rightarrow> (u32 \<Rightarrow> 'w \<Rightarrow> (u64 \<times> 'w) option) \<Rightarrow> 'w \<Rightarrow> (int \<times> 'w) option" where
  "phy_access devs card_no start_sector transfer w =
     (case find_mmc_device devs (sint card_no) of Some (Some m) \<Rightarrow>
        if part_support m AND PART_SUPPORT = 0 then PhyResult (transfer start_sector w)
        else if part_num m \<noteq> BOOT1_PART then Some (-1, w)
        else if start_sector < SD_BOOT_START_BLOCK then Some (-1, w)
        else PhyResult (transfer (start_sector - SD_BOOT_START_BLOCK) w)
      | _ \<Rightarrow> None)"

definition SDMMC_PhyRead ::
  "'h mmc_ops \<Rightarrow> mmc option list \<Rightarrow> u32 \<Rightarrow> u32 \<Rightarrow> u64 \<Rightarrow> u32 \<Rightarrow> mem \<times> 'h \<Rightarrow> (int \<times> mem \<times> 'h) option" where
  "SDMMC_PhyRead ops devs start_sector nsector buf card_no =
     phy_access devs card_no start_sector (\<lambda>a. mmc_bread ops devs (sint card_no) a nsector buf)"

definition SDMMC_PhyWrite ::
  "'h mmc_ops \<Rightarrow> u32 \<Rightarrow> mmc option list \<Rightarrow> u32 \<Rightarrow> u32 \<Rightarrow> u64 \<Rightarrow> u32 \<Rightarrow> mem \<times> 'h \<Rightarrow> (int \<times> mem \<times> 'h) option" where
  "SDMMC_PhyWrite ops junk devs start_sector nsector buf card_no =
     phy_access devs card_no start_sector (\<lambda>a. mmc_bwrite ops junk devs (sint card_no) a nsector buf)"

definition SDMMC_PhyErase ::
  "'h mmc_ops \<Rightarrow> u32 \<Rightarrow> (u64 \<Rightarrow> u64) \<Rightarrow> mmc option list \<Rightarrow> u32 \<Rightarrow> u32 \<Rightarrow> u32 \<Rightarrow> mem \<times> 'h \<Rightarrow> (int \<times> mem \<times> 'h) option" where
  "SDMMC_PhyErase ops junk malloc devs block nblock card_no w =
     (if find_mmc_device devs (sint card_no) = Some None then Some (-1, w)
      else phy_access devs card_no block (\<lambda>a. mmc_berase ops junk malloc devs (sint card_no) a nblock) w)"

definition SDMMC_PhyDiskSize :: "mmc option list \<Rightarrow> u32 \<Rightarrow> (int \<times> mmc option list) option" where
  "SDMMC_PhyDiskSize devs card_no =
     (case find_mmc_device devs (sint card_no) of Some (Some m) \<Rightarrow>
        if part_support m AND PART_SUPPORT = 0
        then Some (sint (user_lba m), devs[nat (sint card_no) := Some (m\<lparr>lba := user_lba m\<rparr>)])
        else if part_num m \<noteq> BOOT1_PART then Some (-1, devs)
        else Some (sint (boot1_lba m), devs[nat (sint card_no) := Some (m\<lparr>lba := boot1_lba m\<rparr>)])
      | _ \<Rightarrow> None)"

definition logical_access ::
  "mmc option list \<Rightarrow> u32 \<Rightarrow> u32 \<Rightarrow> u32 \<Rightarrow> (u32 \<Rightarrow> 'w \<Rightarrow> (u64 \<times> 'w) option) \<Rightarrow> 'w \<Rightarrow> (int \<times> 'w) option" where
  "logical_access devs bootcard_offset card_no start_sector transfer w =
     (case find_mmc_device devs (sint card_no) of Some (Some m) \<Rightarrow>
        if part_num m \<noteq> USER_PART then Some (-1, w)
        else PhyResult (transfer (start_sector + bootcard_offset) w)
      | _ \<Rightarrow> None)"

definition SDMMC_LogicalRead ::
  "'h mmc_ops \<Rightarrow> mmc option list \<Rightarrow> u32 \<Rightarrow> u32 \<Rightarrow> u32 \<Rightarrow> u64 \<Rightarrow> u32 \<Rightarrow> mem \<times> 'h \<Rightarrow> (int \<times> mem \<times> 'h) option" where
  "SDMMC_LogicalRead ops devs bootcard_offset start_sector nsector buf card_no =
     logical_access devs bootcard_offset card_no start_sector (\<lambda>a. mmc_bread ops devs (sint card_no) a nsector buf)"

definition SDMMC_LogicalWrite ::
  "'h mmc_ops \<Rightarrow> u32 \<Rightarrow> mmc option list \<Rightarrow> u32 \<Rightarrow> u32 \<Rightarrow> u32 \<Rightarrow> u64 \<Rightarrow> u32 \<Rightarrow> mem \<times> 'h \<Rightarrow> (int \<times> mem \<times> 'h) option" where
  "SDMMC_LogicalWrite ops junk devs bootcard_offset start_sector nsector buf card_no =
     logical_access devs bootcard_offset card_no start_sector (\<lambda>a. mmc_bwrite ops junk devs (sint card_no) a nsector buf)"

definition SDMMC_LogicaErase ::
  "'h mmc_ops \<Rightarrow> u32 \<Rightarrow> (u64 \<Rightarrow> u64) \<Rightarrow> mmc option list \<Rightarrow> u32 \<Rightarrow> u32 \<Rightarrow> u32 \<Rightarrow> u32 \<Rightarrow> mem \<times> 'h \<Rightarrow> (int \<times> mem \<times> 'h) option" where
  "SDMMC_LogicaErase ops junk malloc devs bootcard_offset block nblock card_no =
     logical_access devs bootcard_offset card_no block (\<lambda>a. mmc_berase ops junk malloc devs (sint card_no) a nblock)"

definition SDMMC_LogicalLBA :: "mmc option list \<Rightarrow> u32 \<Rightarrow> u32 option" where
  "SDMMC_LogicalLBA devs card_no =
     (case find_mmc_device devs (sint card_no) of Some (Some m) \<Rightarrow> Some (block_dev_lba m) | _ \<Rightarrow> None)"

definition SDMMC_LogicalDiskSize :: "mmc option list \<Rightarrow> u32 \<Rightarrow> u32 \<Rightarrow> (int \<times> mmc option list) option" where
  "SDMMC_LogicalDiskSize devs bootcard_offset card_no =
     (case find_mmc_device devs (sint card_no) of Some (Some m) \<Rightarrow>
        if part_num m \<noteq> USER_PART then Some (-1, devs)
        else Some (sint (user_lba m - bootcard_offset), devs[nat (sint card_no) := Some (m\<lparr>lba := user_lba m\<rparr>)])
      | _ \<Rightarrow> None)"

section \<open>The block protocol\<close>

text \<open>
  \<open>SdMmcDxe.c\<close>. The media identifier selects the card. A transfer of no blocks is refused by the layer below and so
  reported as a device error.
\<close>

datatype OPERATION_TYPE = READ | WRITE

record block_media =
  MediaId :: u32
  LastBlock :: u64
  BlockSize :: u32

abbreviation (input) SIG_sdhc :: u32 where "SIG_sdhc \<equiv> 0x63686473"
abbreviation (input) SIG_emmc :: u32 where "SIG_emmc \<equiv> 0x636d6d65"
abbreviation (input) SIG_awfs :: u32 where "SIG_awfs \<equiv> 0x73667761"
abbreviation (input) EFI_BAD_BUFFER_SIZE :: efi_status where "EFI_BAD_BUFFER_SIZE \<equiv> EFI_ENCODE_ERROR 4"
abbreviation (input) EFI_NO_MEDIA :: efi_status where "EFI_NO_MEDIA \<equiv> EFI_ENCODE_ERROR 12"

definition SdReadWrite ::
  "'h mmc_ops \<Rightarrow> u32 \<Rightarrow> mmc option list \<Rightarrow> u32 \<Rightarrow> u32 \<Rightarrow> block_media \<Rightarrow> u64 \<Rightarrow> u64 \<Rightarrow> u64 \<Rightarrow> OPERATION_TYPE \<Rightarrow> mem \<times> 'h \<Rightarrow>
   (efi_status \<times> mem \<times> 'h) option" where
  "SdReadWrite ops junk devs bootcard_offset gFileSyStemSize Media Lba Buffer BufferSize OperationType w =
     (if Buffer = 0 then Some (EFI_INVALID_PARAMETER, w)
      else if Lba > LastBlock Media + (if MediaId Media \<noteq> SIG_awfs then 0 else ucast gFileSyStemSize)
      then Some (EFI_INVALID_PARAMETER, w)
      else if BlockSize Media = 0 then None
      else if BufferSize mod ucast (BlockSize Media) \<noteq> 0 then Some (EFI_BAD_BUFFER_SIZE, w)
      else
        let BlockCount = BufferSize div ucast (BlockSize Media) in
        if MediaId Media \<notin> {SIG_sdhc, SIG_emmc, SIG_awfs} then Some (EFI_NO_MEDIA, w)
        else
          let CardNumber = (if MediaId Media = SIG_sdhc then 0 else 2) in
          map_option (\<lambda>(ret, w). (if ret < 0 then EFI_DEVICE_ERROR else EFI_SUCCESS, w))
            (case OperationType of
               READ \<Rightarrow> SDMMC_LogicalRead ops devs bootcard_offset (ucast Lba) (ucast BlockCount) Buffer CardNumber w
             | WRITE \<Rightarrow> SDMMC_LogicalWrite ops junk devs bootcard_offset (ucast Lba) (ucast BlockCount) Buffer CardNumber w))"

definition SdMmcReadBlocks ::
  "'h mmc_ops \<Rightarrow> u32 \<Rightarrow> mmc option list \<Rightarrow> u32 \<Rightarrow> u32 \<Rightarrow> block_media \<Rightarrow> u32 \<Rightarrow> u64 \<Rightarrow> u64 \<Rightarrow> u64 \<Rightarrow> mem \<times> 'h \<Rightarrow>
   (efi_status \<times> mem \<times> 'h) option" where
  "SdMmcReadBlocks ops junk devs bootcard_offset gFileSyStemSize Media CallMediaId Lba BufferSize Buffer =
     SdReadWrite ops junk devs bootcard_offset gFileSyStemSize Media Lba Buffer BufferSize READ"

definition SdMmcWriteBlocks ::
  "'h mmc_ops \<Rightarrow> u32 \<Rightarrow> mmc option list \<Rightarrow> u32 \<Rightarrow> u32 \<Rightarrow> block_media \<Rightarrow> u32 \<Rightarrow> u64 \<Rightarrow> u64 \<Rightarrow> u64 \<Rightarrow> mem \<times> 'h \<Rightarrow>
   (efi_status \<times> mem \<times> 'h) option" where
  "SdMmcWriteBlocks ops junk devs bootcard_offset gFileSyStemSize Media CallMediaId Lba BufferSize Buffer =
     SdReadWrite ops junk devs bootcard_offset gFileSyStemSize Media Lba Buffer BufferSize WRITE"

section \<open>Cards that store blocks\<close>

lemma load_bytes_plus: "load_bytes m a (n + k) = load_bytes m a n @ load_bytes m (a + of_nat n) k"
  by (rule nth_equalityI) (auto simp: nth_append add.assoc simp flip: of_nat_add)

lemma same_outside_trans: "same_outside a n m m' \<Longrightarrow> same_outside a n m' m'' \<Longrightarrow> same_outside a n m m''"
  by (simp add: same_outside_def)

lemma same_outside_part:
  assumes "same_outside (a + of_nat off) k m m'" and "off + k \<le> n"
  shows "same_outside a n m m'"
  using assms unfolding same_outside_def by (simp add: unat_minus_off)

lemma apart_consecutive:
  assumes "n + k < 2 ^ 64"
  shows "apart (a + of_nat n) k a n"
  unfolding apart_points
proof (intro allI notI)
  fix x assume x: "unat (x - (a + of_nat n)) < k \<and> unat (x - a) < n"
  define y where "y = x - (a + of_nat n)"
  have xa: "x - a = y + of_nat n" by (simp add: y_def)
  have y: "unat y < k" using x by (simp add: y_def)
  then have "unat (y + of_nat n) = unat y + n" using assms by (simp add: unat_word_ariths unat_of_nat)
  then show False using x xa by simp
qed

text \<open>The data of \<open>n\<close> blocks from \<open>b\<close> on.\<close>

definition data_blocks :: "(nat \<Rightarrow> u8 list) \<Rightarrow> nat \<Rightarrow> nat \<Rightarrow> u8 list" where
  "data_blocks d b n = concat (map d [b..<b + n])"

lemma data_blocks_plus: "data_blocks d b (n + k) = data_blocks d b n @ data_blocks d (b + n) k"
proof -
  have "[b..<b + (n + k)] = [b..<b + n] @ [b + n..<b + n + k]"
    using upt_add_eq_append [of b "b + n" k] by (simp only: add.assoc le_add1)
  then show ?thesis by (simp only: data_blocks_def map_append concat_append)
qed

lemma data_blocks_cong: "(\<And>i. b \<le> i \<Longrightarrow> i < b + n \<Longrightarrow> d i = d' i) \<Longrightarrow> data_blocks d b n = data_blocks d' b n"
  unfolding data_blocks_def by (rule arg_cong [of _ _ concat], rule map_cong) auto

text \<open>
  The contract between the driver and a card behind its host. Cards of high capacity are addressed by
  blocks of 512 bytes, others by bytes. Only data commands of at most \<open>b_max\<close> blocks, the limit that the host has
  announced, do what they should; the contract says nothing of larger ones. A read delivers the blocks and changes nothing but the buffer; a write
  that succeeds stores the buffer, one that fails may leave anything in the blocks it addresses. Stop, status and block length
  commands leave data alone.
\<close>

definition card_block :: "mmc \<Rightarrow> u32 \<Rightarrow> nat" where
  "card_block m arg = (if high_capacity m then unat arg else unat arg div 512)"

definition same_data :: "('h \<Rightarrow> nat \<Rightarrow> u8 list) \<Rightarrow> 'h dev \<Rightarrow> 'h dev \<Rightarrow> bool" where
  "same_data disk s s' \<longleftrightarrow> (\<exists>m mem h h'. s = (m, mem, h) \<and> s' = (m, mem, h') \<and> disk h' = disk h)"

lemma same_data_trans: "same_data disk s s' \<Longrightarrow> same_data disk s' s'' \<Longrightarrow> same_data disk s s''"
  by (auto simp: same_data_def)

locale block_card =
  fixes ops :: "'h mmc_ops" and disk :: "'h \<Rightarrow> nat \<Rightarrow> u8 list"
  assumes read_cmd: "send_cmd ops m cmd (Some d) (mem, h) = (err, resp, mem', h') \<Longrightarrow>
      cmdidx cmd = (if blocks d > 1 then 18 else 17) \<Longrightarrow> data_flags d = MMC_DATA_READ \<Longrightarrow> blocksize d = 512 \<Longrightarrow>
      blocks d \<le> b_max (mcfg m) \<Longrightarrow>
      disk h' = disk h \<and> same_outside (data_buf d) (512 * unat (blocks d)) mem mem' \<and>
      (err = 0 \<longrightarrow> load_bytes mem' (data_buf d) (512 * unat (blocks d)) =
        data_blocks (disk h) (card_block m (cmdarg cmd)) (unat (blocks d)))"
    and write_cmd: "send_cmd ops m cmd (Some d) (mem, h) = (err, resp, mem', h') \<Longrightarrow>
      cmdidx cmd = (if blocks d = 1 then 24 else 25) \<Longrightarrow> data_flags d = MMC_DATA_WRITE \<Longrightarrow> blocksize d = 512 \<Longrightarrow>
      blocks d \<le> b_max (mcfg m) \<Longrightarrow>
      mem' = mem \<and>
      (\<forall>i. i < card_block m (cmdarg cmd) \<or> card_block m (cmdarg cmd) + unat (blocks d) \<le> i \<longrightarrow> disk h' i = disk h i) \<and>
      (err = 0 \<longrightarrow> data_blocks (disk h') (card_block m (cmdarg cmd)) (unat (blocks d)) =
        load_bytes mem (data_buf d) (512 * unat (blocks d)))"
    and plain_cmd: "send_cmd ops m cmd None (mem, h) = (err, resp, mem', h') \<Longrightarrow> cmdidx cmd \<in> {12, 13, 16} \<Longrightarrow>
      mem' = mem \<and> disk h' = disk h"
begin

lemma plain_same:
  assumes "mmc_send_cmd ops cmd None s = (err, resp, s')" and "cmdidx cmd \<in> {12, 13, 16}"
  shows "same_data disk s s'"
proof -
  obtain m mem h where s: "s = (m, mem, h)" by (metis prod_cases3)
  obtain e r mem' h' where w: "send_cmd ops m cmd None (mem, h) = (e, r, mem', h')" by (metis prod_cases4)
  then have "s' = (m, mem', h')" using assms(1) s by (simp add: mmc_send_cmd_def)
  then show ?thesis using plain_cmd [OF w assms(2)] s by (simp add: same_data_def)
qed

lemma status_poll_same:
  "cmdidx cmd = 13 \<Longrightarrow> status_poll ops cmd n r s = (ret, s') \<Longrightarrow> same_data disk s s'"
proof (induction n arbitrary: r s rule: less_induct)
  case (less n)
  obtain err resp s1 where c: "mmc_send_cmd ops cmd None s = (err, resp, s1)" by (metis prod_cases3)
  have s1: "same_data disk s s1" using plain_same [OF c] less.prems(1) by simp
  show ?case
  proof (cases "s' = s1")
    case False
    then have n: "n - 1 < n" and p: "status_poll ops cmd (n - 1) (if err = 0 then r else r - 1) s1 = (ret, s')"
      using less.prems(2) c by (auto simp: status_poll.simps [of ops cmd n] split: if_splits)
    show ?thesis by (rule same_data_trans [OF s1 less.IH [OF n less.prems(1) p]])
  qed (use s1 in simp)
qed

lemma send_status_same: "mmc_send_status ops t s = (ret, s') \<Longrightarrow> same_data disk s s'"
  unfolding mmc_send_status_def by (erule status_poll_same [rotated]) simp

lemma set_blocklen_same: "mmc_set_blocklen ops n s = (ret, s') \<Longrightarrow> same_data disk s s'"
  unfolding mmc_set_blocklen_def
  by (cases "mmc_send_cmd ops \<lparr>cmdidx = 16, resp_type = MMC_RSP_R1, cmdarg = n, cmd_flags = 0\<rparr> None s")
    (auto split: if_splits dest!: plain_same simp: same_data_def)

end

text \<open>What the driver has found out about the card when it transfers blocks.\<close>

definition medium_ok :: "mmc \<Rightarrow> bool" where
  "medium_ok m \<longleftrightarrow> read_bl_len m = 512 \<and> write_bl_len m = 512 \<and> 0 < b_max (mcfg m) \<and> b_max (mcfg m) \<le> 65535 \<and>
     (\<not> high_capacity m \<longrightarrow> unat (block_dev_lba m) \<le> 2 ^ 23)"

lemma card_block_arg:
  assumes "medium_ok m" and "unat start < unat (block_dev_lba m)"
  shows "card_block m (blk_arg m start 512) = unat start"
proof (cases "high_capacity m")
  case False
  then have "unat start * 512 < 2 ^ 32" using assms by (simp add: medium_ok_def)
  then have "unat (start * 512) = unat start * 512" by (simp add: unat_word_ariths)
  then show ?thesis using False by (simp add: card_block_def blk_arg_def)
qed (simp add: card_block_def blk_arg_def)

lemma chunk_facts:
  assumes "medium_ok m" and "todo \<noteq> 0"
  shows "chunk m todo \<noteq> 0" and "unat todo = unat (chunk m todo) + unat (todo - chunk m todo)"
    and "unat (todo - chunk m todo) < unat todo"
    and "(ucast (chunk m todo * 512) :: u64) = of_nat (512 * unat (chunk m todo))"
    and "unat start + unat todo < 2 ^ 32 \<Longrightarrow> unat (start + chunk m todo) = unat start + unat (chunk m todo)"
    and "chunk m todo \<le> b_max (mcfg m)"
proof -
  let ?c = "chunk m todo"
  have b: "0 < unat (b_max (mcfg m))" "unat (b_max (mcfg m)) \<le> 65535"
    using assms(1) by (simp_all add: medium_ok_def word_less_nat_alt word_le_nat_alt)
  show "?c \<le> b_max (mcfg m)" by (auto simp: chunk_def)
  show c0: "?c \<noteq> 0" using b(1) assms(2) by (auto simp: chunk_def)
  have le: "unat ?c \<le> unat todo" by (simp add: chunk_def word_less_nat_alt)
  then have le': "?c \<le> todo" by (simp add: word_le_nat_alt)
  then show sum: "unat todo = unat ?c + unat (todo - ?c)" using le by (simp add: unat_sub)
  have "0 < unat ?c" using c0 by (simp add: unat_gt_0)
  then show "unat (todo - ?c) < unat todo" using sum by simp
  have "unat ?c \<le> 65535" using b(2) by (simp add: chunk_def word_less_nat_alt)
  then have u: "unat (?c * 512) = 512 * unat ?c" by (simp add: unat_word_ariths)
  have "(ucast (?c * 512) :: u64) = of_nat (unat (?c * 512))" by (simp add: of_nat_unat)
  then show "(ucast (?c * 512) :: u64) = of_nat (512 * unat ?c)" by (simp only: u)
  assume "unat start + unat todo < 2 ^ 32"
  then have "unat start + unat ?c < 2 ^ 32" using le by simp
  then show "unat (start + ?c) = unat start + unat ?c" by (simp add: unat_word_ariths)
qed

context block_card
begin

lemma read_blocks_card:
  assumes run: "mmc_read_blocks ops dst start n (m, mem, h) = (r, s')" and ok: "medium_ok m"
    and range: "unat start + unat n \<le> unat (block_dev_lba m)" "n \<noteq> 0" "n \<le> b_max (mcfg m)"
  shows "\<exists>mem' h'. s' = (m, mem', h') \<and> disk h' = disk h \<and> same_outside dst (512 * unat n) mem mem' \<and>
    (r = 0 \<or> r = n \<and> load_bytes mem' dst (512 * unat n) = data_blocks (disk h) (unat start) (unat n))"
proof -
  let ?cmd = "\<lparr>cmdidx = (if n > 1 then 18 else 17), resp_type = MMC_RSP_R1, cmdarg = blk_arg m start 512, cmd_flags = 0\<rparr>"
  let ?data = "\<lparr>data_buf = dst, data_flags = MMC_DATA_READ, blocks = n, blocksize = 512\<rparr>"
  let ?stop = "\<lparr>cmdidx = 12, resp_type = MMC_RSP_R1b, cmdarg = 0, cmd_flags = 0\<rparr>"
  obtain err resp mem' h1 where c: "send_cmd ops m ?cmd (Some ?data) (mem, h) = (err, resp, mem', h1)" by (metis prod_cases4)
  have "0 < unat n" using range(2) by (simp add: unat_gt_0)
  then have b: "card_block m (cmdarg ?cmd) = unat start" using card_block_arg [OF ok, of start] range(1) by simp
  have r: "disk h1 = disk h" "same_outside dst (512 * unat n) mem mem'"
    "err = 0 \<longrightarrow> load_bytes mem' dst (512 * unat n) = data_blocks (disk h) (unat start) (unat n)"
    using read_cmd [OF c] range(3) unfolding b by simp_all
  obtain e2 r2 s2 where st: "mmc_send_cmd ops ?stop None (m, mem', h1) = (e2, r2, s2)" by (metis prod_cases3)
  have s2: "same_data disk (m, mem', h1) s2" using plain_same [OF st] by simp
  obtain e3 s3 where po: "mmc_send_status ops 1000 s2 = (e3, s3)" by (meson surj_pair)
  have s3: "same_data disk (m, mem', h1) s3" by (rule same_data_trans [OF s2 send_status_same [OF po]])
  have len: "read_bl_len m = 512" using ok by (simp add: medium_ok_def)
  have "s' \<in> {(m, mem', h1), s2, s3}" "r = 0 \<or> r = n \<and> err = 0"
    using run c st po range(2) by (auto simp: mmc_read_blocks_def mmc_send_cmd_def len Let_def split: if_splits)
  then show ?thesis using r s2 s3 by (auto simp: same_data_def)
qed

lemma bread_loop_card:
  assumes "medium_ok m" and "unat start + unat todo \<le> unat (block_dev_lba m)" and "todo \<noteq> 0"
  shows "\<exists>ok mem' h'. bread_loop ops todo start dst (m, mem, h) = Some (ok, m, mem', h') \<and> disk h' = disk h \<and>
    same_outside dst (512 * unat todo) mem mem' \<and>
    (ok \<longrightarrow> load_bytes mem' dst (512 * unat todo) = data_blocks (disk h) (unat start) (unat todo))"
  using assms
proof (induction "unat todo" arbitrary: todo start dst mem h rule: less_induct)
  case less
  define cur where "cur = chunk m todo"
  note facts = chunk_facts [OF less.prems(1,3), folded cur_def]
  obtain n s1 where rd: "mmc_read_blocks ops dst start cur (m, mem, h) = (n, s1)" by (meson surj_pair)
  obtain mem1 h1 where s1: "s1 = (m, mem1, h1)" "disk h1 = disk h" "same_outside dst (512 * unat cur) mem mem1"
    "n = 0 \<or> n = cur \<and> load_bytes mem1 dst (512 * unat cur) = data_blocks (disk h) (unat start) (unat cur)"
    using read_blocks_card [OF rd less.prems(1) _ facts(1,6)] less.prems(2) facts(2) by auto
  have split: "512 * unat todo = 512 * unat cur + 512 * unat (todo - cur)" using facts(2) by simp
  have part: "same_outside dst (512 * unat todo) mem mem1"
    using s1(3) same_outside_part [of dst 0 "512 * unat cur" mem mem1 "512 * unat todo"] facts(2) by simp
  have loop: "bread_loop ops todo start dst (m, mem, h) = (if n \<noteq> cur then Some (False, s1)
    else if todo - cur > 0 then bread_loop ops (todo - cur) (start + cur) (dst + ucast (cur * read_bl_len m)) s1
    else Some (True, s1))"
    by (subst bread_loop.simps) (simp add: cur_def [symmetric] rd s1(1))
  consider "n \<noteq> cur" | "n = cur" "todo = cur" | "n = cur" "todo - cur \<noteq> 0" by fastforce
  then show ?case
  proof cases
    case 3
    have d: "dst + ucast (cur * read_bl_len m) = dst + of_nat (512 * unat cur)"
      using less.prems(1) facts(4) by (simp add: medium_ok_def)
    have "unat start + unat todo < 2 ^ 32" using less.prems(2) unsigned_less [where 'a = nat, of "block_dev_lba m"] by simp
    note st = facts(5) [OF this]
    have pre: "unat (start + cur) + unat (todo - cur) \<le> unat (block_dev_lba m)" using less.prems(2) facts(2) st by simp
    obtain ok mem2 h2 where l: "bread_loop ops (todo - cur) (start + cur) (dst + of_nat (512 * unat cur)) (m, mem1, h1) =
        Some (ok, m, mem2, h2)" "disk h2 = disk h1"
      "same_outside (dst + of_nat (512 * unat cur)) (512 * unat (todo - cur)) mem1 mem2"
      "ok \<longrightarrow> load_bytes mem2 (dst + of_nat (512 * unat cur)) (512 * unat (todo - cur)) =
         data_blocks (disk h1) (unat start + unat cur) (unat (todo - cur))"
      using less.hyps [OF facts(3) less.prems(1) pre 3(2), unfolded st] by blast
    have "apart (dst + of_nat (512 * unat cur)) (512 * unat (todo - cur)) dst (512 * unat cur)"
      by (rule apart_consecutive) (use facts(2) unsigned_less [where 'a = nat, of todo] in simp)
    then have keep: "load_bytes mem2 dst (512 * unat cur) = load_bytes mem1 dst (512 * unat cur)"
      using same_outside_load [OF l(3)] unsigned_less [where 'a = nat, of cur] by simp
    have out: "same_outside dst (512 * unat todo) mem mem2"
      by (rule same_outside_trans [OF part same_outside_part [OF l(3)]]) (simp only: split)
    have "load_bytes mem2 dst (512 * unat todo) = data_blocks (disk h) (unat start) (unat todo)" if ok
    proof -
      have "load_bytes mem2 dst (512 * unat todo) = load_bytes mem2 dst (512 * unat cur) @
          load_bytes mem2 (dst + of_nat (512 * unat cur)) (512 * unat (todo - cur))"
        by (simp only: split load_bytes_plus)
      also have "\<dots> = data_blocks (disk h) (unat start) (unat cur) @ data_blocks (disk h) (unat start + unat cur) (unat (todo - cur))"
        using that l(2,4) keep s1(2,4) facts(1) 3(1) by simp
      also have "\<dots> = data_blocks (disk h) (unat start) (unat todo)"
        by (simp only: facts(2) data_blocks_plus)
      finally show ?thesis .
    qed
    then show ?thesis using loop 3 l(1,2) d s1(1,2) out by (simp add: word_gt_0)
  next
    case 2
    then show ?thesis using loop s1 facts(1) by (intro exI [of _ True] exI [of _ mem1] exI [of _ h1]) simp
  next
    case 1
    then show ?thesis using loop part s1 by (intro exI [of _ False]) simp
  qed
qed

lemma bread_card:
  assumes "find_mmc_device devs dev_num = Some (Some m)" and "medium_ok m" and "unat start + unat blkcnt < 2 ^ 32"
  shows "\<exists>n mem' h'. mmc_bread ops devs dev_num start blkcnt dst (mem, h) = Some (n, mem', h') \<and> disk h' = disk h \<and>
    same_outside dst (512 * unat blkcnt) mem mem' \<and> n \<in> {0, ucast blkcnt} \<and>
    (n \<noteq> 0 \<longrightarrow> unat start + unat blkcnt \<le> unat (block_dev_lba m) \<and>
      load_bytes mem' dst (512 * unat blkcnt) = data_blocks (disk h) (unat start) (unat blkcnt)) \<and>
    (unat (block_dev_lba m) < unat start + unat blkcnt \<longrightarrow> (mem', h') = (mem, h))"
proof -
  have sum: "unat (start + blkcnt) = unat start + unat blkcnt" using assms(3) by (simp add: unat_word_ariths)
  show ?thesis
  proof (cases "blkcnt = 0 \<or> start + blkcnt > block_dev_lba m")
    case True
    then show ?thesis using assms(1) sum by (auto simp: mmc_bread_def word_less_nat_alt)
  next
    case False
    then have range: "unat start + unat blkcnt \<le> unat (block_dev_lba m)" "blkcnt \<noteq> 0"
      using sum by (simp_all add: word_less_nat_alt)
    obtain err s1 where bl: "mmc_set_blocklen ops (read_bl_len m) (m, mem, h) = (err, s1)" by (meson surj_pair)
    obtain h1 where s1: "s1 = (m, mem, h1)" "disk h1 = disk h" using set_blocklen_same [OF bl] by (auto simp: same_data_def)
    obtain ok mem' h' where l: "bread_loop ops blkcnt start dst (m, mem, h1) = Some (ok, m, mem', h')" "disk h' = disk h1"
      "same_outside dst (512 * unat blkcnt) mem mem'"
      "ok \<longrightarrow> load_bytes mem' dst (512 * unat blkcnt) = data_blocks (disk h1) (unat start) (unat blkcnt)"
      using bread_loop_card [OF assms(2) range] by blast
    have "mmc_bread ops devs dev_num start blkcnt dst (mem, h) =
        (if err \<noteq> 0 then Some (0, mem, h1) else Some (if ok then ucast blkcnt else 0, mem', h'))"
      using assms(1) False bl s1 l(1) by (simp add: mmc_bread_def)
    then show ?thesis using s1 l range by (cases "err = 0"; cases ok) auto
  qed
qed

lemma write_blocks_card:
  assumes run: "mmc_write_blocks ops junk start n src (m, mem, h) = (r, s')" and ok: "medium_ok m" and "n \<noteq> 0"
    and nowrap: "unat start + unat n < 2 ^ 32" and small: "n \<le> b_max (mcfg m)"
  shows "\<exists>h'. s' = (m, mem, h') \<and> (\<forall>i. i < unat start \<or> unat start + unat n \<le> i \<longrightarrow> disk h' i = disk h i) \<and>
    (r = 0 \<or> r = n \<and> unat start + unat n \<le> unat (block_dev_lba m) \<and>
      data_blocks (disk h') (unat start) (unat n) = load_bytes mem src (512 * unat n))"
proof (cases "start + n > block_dev_lba m")
  case True
  then show ?thesis using run by (intro exI [of _ h]) (auto simp: mmc_write_blocks_def)
next
  case False
  let ?cmd = "\<lparr>cmdidx = (if n = 1 then 24 else 25), resp_type = MMC_RSP_R1, cmdarg = blk_arg m start 512, cmd_flags = junk\<rparr>"
  let ?data = "\<lparr>data_buf = src, data_flags = MMC_DATA_WRITE, blocks = n, blocksize = 512\<rparr>"
  let ?stop = "\<lparr>cmdidx = 12, resp_type = MMC_RSP_R1b, cmdarg = 0, cmd_flags = junk\<rparr>"
  have "unat (start + n) = unat start + unat n" using nowrap by (simp add: unat_word_ariths)
  then have range: "unat start + unat n \<le> unat (block_dev_lba m)" using False by (simp add: word_less_nat_alt)
  have "0 < unat n" using assms(3) by (simp add: unat_gt_0)
  then have b: "card_block m (cmdarg ?cmd) = unat start" using card_block_arg [OF ok, of start] range by simp
  obtain err resp mem' h1 where c: "send_cmd ops m ?cmd (Some ?data) (mem, h) = (err, resp, mem', h1)" by (metis prod_cases4)
  have w: "mem' = mem" "\<forall>i. i < unat start \<or> unat start + unat n \<le> i \<longrightarrow> disk h1 i = disk h i"
    "err = 0 \<longrightarrow> data_blocks (disk h1) (unat start) (unat n) = load_bytes mem src (512 * unat n)"
    using write_cmd [OF c] small unfolding b by simp_all
  obtain e2 r2 s2 where st: "mmc_send_cmd ops ?stop None (m, mem, h1) = (e2, r2, s2)" by (metis prod_cases3)
  have s2: "same_data disk (m, mem, h1) s2" using plain_same [OF st] by simp
  obtain e3 s3 where po: "mmc_send_status ops 1000 (m, mem, h1) = (e3, s3)" by (meson surj_pair)
  obtain e4 s4 where po2: "mmc_send_status ops 1000 s2 = (e4, s4)" by (meson surj_pair)
  note same = s2 send_status_same [OF po] same_data_trans [OF s2 send_status_same [OF po2]]
  have len: "write_bl_len m = 512" using ok by (simp add: medium_ok_def)
  have "s' \<in> {(m, mem, h1), s2, s3, s4}" "r = 0 \<or> r = n \<and> err = 0"
    using run c w(1) st po po2 assms(3) False
    by (auto simp: mmc_write_blocks_def mmc_send_cmd_def len Let_def split: if_splits)
  then show ?thesis using w same range by (auto simp: same_data_def)
qed

lemma bwrite_loop_card:
  assumes "medium_ok m" and "unat start + unat todo < 2 ^ 32" and "todo \<noteq> 0"
  shows "\<exists>ok h'. bwrite_loop ops junk todo start src (m, mem, h) = Some (ok, m, mem, h') \<and>
    (\<forall>i. i < unat start \<or> unat start + unat todo \<le> i \<longrightarrow> disk h' i = disk h i) \<and>
    (ok \<longrightarrow> unat start + unat todo \<le> unat (block_dev_lba m) \<and>
      data_blocks (disk h') (unat start) (unat todo) = load_bytes mem src (512 * unat todo))"
  using assms
proof (induction "unat todo" arbitrary: todo start src h rule: less_induct)
  case less
  define cur where "cur = chunk m todo"
  note facts = chunk_facts [OF less.prems(1,3), folded cur_def]
  have small: "unat start + unat cur < 2 ^ 32" using less.prems(2) facts(2) by simp
  obtain n s1 where wr: "mmc_write_blocks ops junk start cur src (m, mem, h) = (n, s1)" by (meson surj_pair)
  obtain h1 where s1: "s1 = (m, mem, h1)" "\<forall>i. i < unat start \<or> unat start + unat cur \<le> i \<longrightarrow> disk h1 i = disk h i"
    "n = 0 \<or> n = cur \<and> unat start + unat cur \<le> unat (block_dev_lba m) \<and>
      data_blocks (disk h1) (unat start) (unat cur) = load_bytes mem src (512 * unat cur)"
    using write_blocks_card [OF wr less.prems(1) facts(1) small facts(6)] by blast
  have loop: "bwrite_loop ops junk todo start src (m, mem, h) = (if n \<noteq> cur then Some (False, s1)
    else if todo - cur > 0 then bwrite_loop ops junk (todo - cur) (start + cur) (src + ucast (cur * write_bl_len m)) s1
    else Some (True, s1))"
    by (subst bwrite_loop.simps) (simp add: cur_def [symmetric] wr s1(1))
  consider "n \<noteq> cur" | "n = cur" "todo = cur" | "n = cur" "todo - cur \<noteq> 0" by fastforce
  then show ?case
  proof cases
    case 3
    note st = facts(5) [OF less.prems(2)]
    have pre: "unat (start + cur) + unat (todo - cur) < 2 ^ 32" using less.prems(2) facts(2) st by simp
    have d: "src + ucast (cur * write_bl_len m) = src + of_nat (512 * unat cur)"
      using less.prems(1) facts(4) by (simp add: medium_ok_def)
    obtain ok h2 where l: "bwrite_loop ops junk (todo - cur) (start + cur) (src + of_nat (512 * unat cur)) (m, mem, h1) =
        Some (ok, m, mem, h2)"
      "\<forall>i. i < unat start + unat cur \<or> unat start + unat cur + unat (todo - cur) \<le> i \<longrightarrow> disk h2 i = disk h1 i"
      "ok \<longrightarrow> unat start + unat cur + unat (todo - cur) \<le> unat (block_dev_lba m) \<and>
        data_blocks (disk h2) (unat start + unat cur) (unat (todo - cur)) =
          load_bytes mem (src + of_nat (512 * unat cur)) (512 * unat (todo - cur))"
      using less.hyps [OF facts(3) less.prems(1) pre 3(2), unfolded st] by blast
    have "data_blocks (disk h2) (unat start) (unat cur) = data_blocks (disk h1) (unat start) (unat cur)"
      using l(2) by (intro data_blocks_cong) simp
    moreover have "load_bytes mem src (512 * unat todo) = load_bytes mem src (512 * unat cur) @
        load_bytes mem (src + of_nat (512 * unat cur)) (512 * unat (todo - cur))"
      by (simp only: facts(2) distrib_left load_bytes_plus)
    moreover have "data_blocks (disk h2) (unat start) (unat todo) = data_blocks (disk h2) (unat start) (unat cur) @
        data_blocks (disk h2) (unat start + unat cur) (unat (todo - cur))"
      by (simp only: facts(2) data_blocks_plus)
    ultimately have "ok \<longrightarrow> unat start + unat todo \<le> unat (block_dev_lba m) \<and>
        data_blocks (disk h2) (unat start) (unat todo) = load_bytes mem src (512 * unat todo)"
      using l(3) s1(3) 3(1) facts(1,2) by (simp add: add.assoc)
    moreover have "disk h2 i = disk h i" if "i < unat start \<or> unat start + unat todo \<le> i" for i
      using that l(2) s1(2) facts(2) by (auto simp: add.assoc)
    ultimately show ?thesis using loop 3 l(1) d s1(1) by (simp add: word_gt_0)
  next
    case 2
    then show ?thesis using loop s1 facts(1) by (intro exI [of _ True] exI [of _ h1]) simp
  next
    case 1
    then show ?thesis using loop s1 facts(2) by (intro exI [of _ False] exI [of _ h1]) simp
  qed
qed

lemma bwrite_card:
  assumes "find_mmc_device devs dev_num = Some (Some m)" and "medium_ok m" and "unat start + unat blkcnt < 2 ^ 32"
  shows "\<exists>n h'. mmc_bwrite ops junk devs dev_num start blkcnt src (mem, h) = Some (n, mem, h') \<and> n \<in> {0, ucast blkcnt} \<and>
    (\<forall>i. i < unat start \<or> unat start + unat blkcnt \<le> i \<longrightarrow> disk h' i = disk h i) \<and>
    (n \<noteq> 0 \<longrightarrow> unat start + unat blkcnt \<le> unat (block_dev_lba m) \<and>
      data_blocks (disk h') (unat start) (unat blkcnt) = load_bytes mem src (512 * unat blkcnt))"
proof (cases "blkcnt = 0")
  case True
  then show ?thesis using assms(1) by (simp add: mmc_bwrite_def)
next
  case False
  obtain err s1 where bl: "mmc_set_blocklen ops (write_bl_len m) (m, mem, h) = (err, s1)" by (meson surj_pair)
  obtain h1 where s1: "s1 = (m, mem, h1)" "disk h1 = disk h" using set_blocklen_same [OF bl] by (auto simp: same_data_def)
  obtain ok h' where l: "bwrite_loop ops junk blkcnt start src (m, mem, h1) = Some (ok, m, mem, h')"
    "\<forall>i. i < unat start \<or> unat start + unat blkcnt \<le> i \<longrightarrow> disk h' i = disk h1 i"
    "ok \<longrightarrow> unat start + unat blkcnt \<le> unat (block_dev_lba m) \<and>
      data_blocks (disk h') (unat start) (unat blkcnt) = load_bytes mem src (512 * unat blkcnt)"
    using bwrite_loop_card [OF assms(2,3) False] by blast
  have "mmc_bwrite ops junk devs dev_num start blkcnt src (mem, h) =
      (if err \<noteq> 0 then Some (0, mem, h1) else Some (if ok then ucast blkcnt else 0, mem, h'))"
    using assms(1) False bl s1 l(1) by (simp add: mmc_bwrite_def)
  then show ?thesis using s1 l by (cases "err = 0"; cases ok) auto
qed

end

section \<open>Transfers through the block protocol\<close>

lemma to_int32_count: "unat n < 2 ^ 31 \<Longrightarrow> to_int32 (ucast (n :: u32)) = int (unat n)"
  by (simp add: to_int32_def ucast_up_down_u32 sint_small)

lemma to_int32_counted: "n \<in> {0, ucast (k :: u32)} \<Longrightarrow> unat k < 2 ^ 31 \<Longrightarrow> to_int32 n = 0 \<longleftrightarrow> n = 0"
  by (auto simp: to_int32_count unat_eq_zero uint_0_iff)

text \<open>The card that a media identifier selects, and the place of a block on it.\<close>

definition media_card :: "mmc option list \<Rightarrow> block_media \<Rightarrow> mmc option option" where
  "media_card devs Media = find_mmc_device devs (if MediaId Media = SIG_sdhc then 0 else 2)"

text \<open>A request to the protocol that the 32 bits of the layers below can hold.\<close>

definition fits :: "u32 \<Rightarrow> block_media \<Rightarrow> u64 \<Rightarrow> u64 \<Rightarrow> bool" where
  "fits off Media Lba BufferSize \<longleftrightarrow> MediaId Media \<in> {SIG_sdhc, SIG_emmc, SIG_awfs} \<and> BlockSize Media = 512 \<and>
     unat Lba + unat off + unat BufferSize div 512 < 2 ^ 32 \<and> unat BufferSize div 512 < 2 ^ 31"

context block_card
begin

lemma logical_read_card:
  assumes "find_mmc_device devs (sint card_no) = Some (Some m)" and "medium_ok m" and "part_num m = USER_PART"
    and "unat start + unat off + unat n < 2 ^ 32" and "unat n < 2 ^ 31"
  shows "\<exists>ret mem' h'. SDMMC_LogicalRead ops devs off start n buf card_no (mem, h) = Some (ret, mem', h') \<and>
    disk h' = disk h \<and> same_outside buf (512 * unat n) mem mem' \<and>
    (0 \<le> ret \<longrightarrow> unat start + unat off + unat n \<le> unat (block_dev_lba m) \<and>
      load_bytes mem' buf (512 * unat n) = data_blocks (disk h) (unat start + unat off) (unat n))"
proof -
  have sum: "unat (start + off) = unat start + unat off" using assms(4) by (simp add: unat_word_ariths)
  obtain k mem' h' where r: "mmc_bread ops devs (sint card_no) (start + off) n buf (mem, h) = Some (k, mem', h')"
    "disk h' = disk h" "same_outside buf (512 * unat n) mem mem'" "k \<in> {0, ucast n}"
    "k \<noteq> 0 \<longrightarrow> unat start + unat off + unat n \<le> unat (block_dev_lba m) \<and>
      load_bytes mem' buf (512 * unat n) = data_blocks (disk h) (unat start + unat off) (unat n)"
    using bread_card [OF assms(1,2), of "start + off" n, unfolded sum] assms(4) by blast
  then show ?thesis using assms(1,3) to_int32_counted [OF r(4) assms(5)]
    by (cases "k = 0") (auto simp: SDMMC_LogicalRead_def logical_access_def PhyResult_def)
qed

lemma logical_write_card:
  assumes "find_mmc_device devs (sint card_no) = Some (Some m)" and "medium_ok m" and "part_num m = USER_PART"
    and "unat start + unat off + unat n < 2 ^ 32" and "unat n < 2 ^ 31"
  shows "\<exists>ret h'. SDMMC_LogicalWrite ops junk devs off start n buf card_no (mem, h) = Some (ret, mem, h') \<and>
    (\<forall>i. i < unat start + unat off \<or> unat start + unat off + unat n \<le> i \<longrightarrow> disk h' i = disk h i) \<and>
    (0 \<le> ret \<longrightarrow> unat start + unat off + unat n \<le> unat (block_dev_lba m) \<and>
      data_blocks (disk h') (unat start + unat off) (unat n) = load_bytes mem buf (512 * unat n))"
proof -
  have sum: "unat (start + off) = unat start + unat off" using assms(4) by (simp add: unat_word_ariths)
  obtain k h' where r: "mmc_bwrite ops junk devs (sint card_no) (start + off) n buf (mem, h) = Some (k, mem, h')"
    "k \<in> {0, ucast n}" "\<forall>i. i < unat start + unat off \<or> unat start + unat off + unat n \<le> i \<longrightarrow> disk h' i = disk h i"
    "k \<noteq> 0 \<longrightarrow> unat start + unat off + unat n \<le> unat (block_dev_lba m) \<and>
      data_blocks (disk h') (unat start + unat off) (unat n) = load_bytes mem buf (512 * unat n)"
    using bwrite_card [OF assms(1,2), of "start + off" n, unfolded sum] assms(4) by blast
  then show ?thesis using assms(1,3) to_int32_counted [OF r(2) assms(5)]
    by (cases "k = 0") (auto simp: SDMMC_LogicalWrite_def logical_access_def PhyResult_def)
qed

end

lemma fits_facts:
  assumes "fits off Media Lba BufferSize"
  shows "unat (ucast Lba :: u32) = unat Lba" and "unat (ucast (BufferSize div 512) :: u32) = unat BufferSize div 512"
    and "unat (ucast Lba :: u32) + unat off + unat (ucast (BufferSize div 512) :: u32) < 2 ^ 32"
    and "unat (ucast (BufferSize div 512) :: u32) < 2 ^ 31"
    and "BufferSize mod 512 = 0 \<Longrightarrow> 512 * unat (ucast (BufferSize div 512) :: u32) = unat BufferSize"
proof -
  have l: "unat Lba < 2 ^ 32" "unat BufferSize div 512 < 2 ^ 31" using assms by (simp_all add: fits_def)
  have d: "unat (BufferSize div 512) = unat BufferSize div 512" by (simp add: unat_div)
  show L: "unat (ucast Lba :: u32) = unat Lba" using l(1) by (simp add: unsigned_ucast_eq take_bit_nat_eq_self)
  show B: "unat (ucast (BufferSize div 512) :: u32) = unat BufferSize div 512"
    using l(2) d by (simp add: unsigned_ucast_eq take_bit_nat_eq_self)
  show "unat (ucast Lba :: u32) + unat off + unat (ucast (BufferSize div 512) :: u32) < 2 ^ 32"
    "unat (ucast (BufferSize div 512) :: u32) < 2 ^ 31" using assms L B by (simp_all add: fits_def)
  assume "BufferSize mod 512 = 0"
  then have "unat (BufferSize mod 512) = 0" by simp
  then have "unat BufferSize mod 512 = 0" by (simp add: unat_mod)
  then show "512 * unat (ucast (BufferSize div 512) :: u32) = unat BufferSize" unfolding B by (metis mult.commute div_mult_mod_eq add.right_neutral)
qed

lemma media_card_dev:
  "media_card devs Media = Some (Some m) \<Longrightarrow>
   find_mmc_device devs (sint (if MediaId Media = SIG_sdhc then 0 else 2 :: u32)) = Some (Some m)"
  by (simp add: media_card_def split: if_splits)

context block_card
begin

lemma protocol_read:
  assumes "media_card devs Media = Some (Some m)" and "medium_ok m" and "part_num m = USER_PART"
    and "fits off Media Lba BufferSize"
  shows "\<exists>st mem' h'. SdMmcReadBlocks ops junk devs off fs Media mid Lba BufferSize Buffer (mem, h) = Some (st, mem', h') \<and>
    disk h' = disk h \<and> same_outside Buffer (unat BufferSize) mem mem' \<and>
    (st = EFI_SUCCESS \<longrightarrow> unat Lba + unat off + unat BufferSize div 512 \<le> unat (block_dev_lba m) \<and>
      load_bytes mem' Buffer (unat BufferSize) = data_blocks (disk h) (unat Lba + unat off) (unat BufferSize div 512))"
proof -
  let ?n = "ucast (BufferSize div 512) :: u32"
  note facts = fits_facts [OF assms(4)]
  have dev: "find_mmc_device devs (sint (if MediaId Media = SIG_sdhc then 0 else 2 :: u32)) = Some (Some m)"
    by (rule media_card_dev [OF assms(1)])
  obtain ret mem' h' where r: "SDMMC_LogicalRead ops devs off (ucast Lba) ?n Buffer (if MediaId Media = SIG_sdhc then 0 else 2)
      (mem, h) = Some (ret, mem', h')" "disk h' = disk h" "same_outside Buffer (512 * unat ?n) mem mem'"
    "0 \<le> ret \<longrightarrow> unat Lba + unat off + unat ?n \<le> unat (block_dev_lba m) \<and>
      load_bytes mem' Buffer (512 * unat ?n) = data_blocks (disk h) (unat Lba + unat off) (unat ?n)"
    using logical_read_card [OF dev assms(2,3) facts(3,4), unfolded facts(1)] by blast
  have "SdMmcReadBlocks ops junk devs off fs Media mid Lba BufferSize Buffer (mem, h) \<in>
      {Some (EFI_INVALID_PARAMETER, mem, h), Some (EFI_ENCODE_ERROR 4, mem, h)} \<or>
    512 * unat ?n = unat BufferSize \<and> SdMmcReadBlocks ops junk devs off fs Media mid Lba BufferSize Buffer (mem, h) =
      Some (if ret < 0 then EFI_DEVICE_ERROR else EFI_SUCCESS, mem', h')"
    using assms(4) r(1) facts(5) by (simp add: SdMmcReadBlocks_def SdReadWrite_def fits_def Let_def)
  then show ?thesis using r facts(2) by (auto simp: efi_defs not_less)
qed

lemma protocol_write:
  assumes "media_card devs Media = Some (Some m)" and "medium_ok m" and "part_num m = USER_PART"
    and "fits off Media Lba BufferSize"
  shows "\<exists>st h'. SdMmcWriteBlocks ops junk devs off fs Media mid Lba BufferSize Buffer (mem, h) = Some (st, mem, h') \<and>
    (\<forall>i. i < unat Lba + unat off \<or> unat Lba + unat off + unat BufferSize div 512 \<le> i \<longrightarrow> disk h' i = disk h i) \<and>
    (st = EFI_SUCCESS \<longrightarrow> unat Lba + unat off + unat BufferSize div 512 \<le> unat (block_dev_lba m) \<and>
      data_blocks (disk h') (unat Lba + unat off) (unat BufferSize div 512) = load_bytes mem Buffer (unat BufferSize))"
proof -
  let ?n = "ucast (BufferSize div 512) :: u32"
  note facts = fits_facts [OF assms(4)]
  have dev: "find_mmc_device devs (sint (if MediaId Media = SIG_sdhc then 0 else 2 :: u32)) = Some (Some m)"
    by (rule media_card_dev [OF assms(1)])
  obtain ret h' where r: "SDMMC_LogicalWrite ops junk devs off (ucast Lba) ?n Buffer (if MediaId Media = SIG_sdhc then 0 else 2)
      (mem, h) = Some (ret, mem, h')"
    "\<forall>i. i < unat Lba + unat off \<or> unat Lba + unat off + unat ?n \<le> i \<longrightarrow> disk h' i = disk h i"
    "0 \<le> ret \<longrightarrow> unat Lba + unat off + unat ?n \<le> unat (block_dev_lba m) \<and>
      data_blocks (disk h') (unat Lba + unat off) (unat ?n) = load_bytes mem Buffer (512 * unat ?n)"
    using logical_write_card [OF dev assms(2,3) facts(3,4), unfolded facts(1)] by blast
  have "SdMmcWriteBlocks ops junk devs off fs Media mid Lba BufferSize Buffer (mem, h) \<in>
      {Some (EFI_INVALID_PARAMETER, mem, h), Some (EFI_ENCODE_ERROR 4, mem, h)} \<or>
    512 * unat ?n = unat BufferSize \<and> SdMmcWriteBlocks ops junk devs off fs Media mid Lba BufferSize Buffer (mem, h) =
      Some (if ret < 0 then EFI_DEVICE_ERROR else EFI_SUCCESS, mem, h')"
    using assms(4) r(1) facts(5) by (simp add: SdMmcWriteBlocks_def SdReadWrite_def fits_def Let_def)
  then show ?thesis using r facts(2) by (auto simp: efi_defs not_less)
qed

end




section \<open>A card that keeps the contract\<close>

definition sector :: "(nat \<Rightarrow> u8 list) \<Rightarrow> nat \<Rightarrow> u8 list" where
  "sector h i = take 512 (h i @ replicate 512 0)"

definition sector_ops :: "(nat \<Rightarrow> u8 list) mmc_ops" where
  "sector_ops = \<lparr>
     send_cmd = (\<lambda>m cmd data (mem, h). case data of
         None \<Rightarrow> (0, [0x900], mem, h)
       | Some d \<Rightarrow> let b = card_block m (cmdarg cmd); n = unat (blocks d) in
           if cmdidx cmd \<in> {17, 18} then (0, [0x900], store_bytes mem (data_buf d) (data_blocks (sector h) b n), h)
           else (0, [0x900], mem, \<lambda>i. if b \<le> i \<and> i < b + n then load_bytes mem (data_buf d + of_nat (512 * (i - b))) 512 else h i)),
     set_ios = (\<lambda>m w. (clock m, w)),
     update_phase = (\<lambda>m w. (0, w))\<rparr>"

lemma length_data_blocks: "(\<And>i. length (d i) = 512) \<Longrightarrow> length (data_blocks d b n) = 512 * n"
  by (induction n) (simp_all add: data_blocks_def)

lemma data_blocks_of_bytes:
  "data_blocks (\<lambda>i. load_bytes mem (a + of_nat (512 * (i - b))) 512) b n = load_bytes mem a (512 * n)"
proof (induction n)
  case (Suc n)
  have "load_bytes mem a (512 * Suc n) = load_bytes mem a (512 * n) @ load_bytes mem (a + of_nat (512 * n)) 512"
    using load_bytes_plus [of mem a "512 * n" 512] by (simp add: algebra_simps)
  then show ?case using Suc by (simp add: data_blocks_def)
qed (simp add: data_blocks_def load_bytes_def)

interpretation sectors: block_card sector_ops sector
proof
  fix m cmd d mem h err resp mem' h'
  assume run: "send_cmd sector_ops m cmd (Some d) (mem, h) = (err, resp, mem', h')"
  let ?b = "card_block m (cmdarg cmd)" and ?n = "unat (blocks d)"
  show "sector h' = sector h \<and> same_outside (data_buf d) (512 * ?n) mem mem' \<and>
      (err = 0 \<longrightarrow> load_bytes mem' (data_buf d) (512 * ?n) = data_blocks (sector h) ?b ?n)"
    if "cmdidx cmd = (if blocks d > 1 then 18 else 17)"
  proof -
    have len: "length (data_blocks (sector h) ?b ?n) = 512 * ?n" by (rule length_data_blocks) (simp add: sector_def)
    have "512 * ?n < 2 ^ 64" using unsigned_less [where 'a = nat, of "blocks d"] by simp
    then show ?thesis using run that load_store_same [of "data_blocks (sector h) ?b ?n" mem "data_buf d"] len
      by (auto simp: sector_ops_def Let_def same_outside_def store_outside split: if_splits)
  qed
  show "mem' = mem \<and> (\<forall>i. i < ?b \<or> ?b + ?n \<le> i \<longrightarrow> sector h' i = sector h i) \<and>
      (err = 0 \<longrightarrow> data_blocks (sector h') ?b ?n = load_bytes mem (data_buf d) (512 * ?n))"
    if "cmdidx cmd = (if blocks d = 1 then 24 else 25)"
  proof -
    have h': "h' = (\<lambda>i. if ?b \<le> i \<and> i < ?b + ?n then load_bytes mem (data_buf d + of_nat (512 * (i - ?b))) 512 else h i)" "mem' = mem"
      using run that by (auto simp: sector_ops_def Let_def split: if_splits)
    have "data_blocks (sector h') ?b ?n = data_blocks (\<lambda>i. load_bytes mem (data_buf d + of_nat (512 * (i - ?b))) 512) ?b ?n"
      by (rule data_blocks_cong) (simp add: h'(1) sector_def)
    then show ?thesis using h' data_blocks_of_bytes by (auto simp: sector_def)
  qed
qed (auto simp: sector_ops_def)

text \<open>A card of 100 blocks whose host takes one block at a time.\<close>

definition demo_mmc :: mmc where
  "demo_mmc = \<lparr>mcfg = \<lparr>host_caps = 0, voltages = 0, f_min = 0, f_max = 0, b_max = 1, drv_burn_boot_pos = 0,
       drv_wipe_feature = 0, drv_erase_feature = 0\<rparr>,
     version = 0x10405, high_capacity = True, bus_width = 8, clock = 50000000, card_caps = 0, ocr = 0, dsr = 0xffffffff, dsr_imp = 0, has_init = True,
     scr = [0, 0], csd = [0, 0, 0, 0], cid = [0, 0, 0, 0], rca = 1, part_config = 0, part_num = 0, tran_speed = 52000000, read_bl_len = 512, write_bl_len = 512,
     erase_grp_size = 8, capacity = 51200, capacity_user = 51200, capacity_boot = 0, capacity_rpmb = 0,
     capacity_gp = [0, 0, 0, 0], block_dev_lba = 100, block_dev_blksz = 512, op_cond_pending = False, init_in_progress = False, op_cond_response = 0, speed_mode = 1, io_mode = 0,
     clock_after_init = 0, boot_support = 0, boot_bus_cond = 0, erase_timeout = 0, trim_discard_timeout = 0, secure_erase_timeout = 0, secure_trim_timeout = 0,
     secure_feature = 0, secure_removal_type = 0, pre_eol_info = 0, dev_life_time_typea = 0, dev_life_time_typeb = 0,
     vendor_health_report = replicate 32 0, part_support = 0, boot1_lba = 0, lba = 100, user_lba = 100\<rparr>"

definition demo_media :: block_media where
  "demo_media = \<lparr>MediaId = SIG_sdhc, LastBlock = 99, BlockSize = 512\<rparr>"

lemma demo_facts:
  "media_card [Some demo_mmc] demo_media = Some (Some demo_mmc)" "medium_ok demo_mmc" "part_num demo_mmc = USER_PART"
  "fits 1 demo_media 3 1024"
  by (simp_all add: media_card_def find_mmc_device_def demo_media_def medium_ok_def demo_mmc_def fits_def)

lemma sector_send: "mmc_send_cmd sector_ops cmd None s = (0, [0x900], s)"
  by (simp add: mmc_send_cmd_def sector_ops_def split_beta)

lemma sector_status: "mmc_send_status sector_ops 1000 s = (0, s)"
  by (simp add: mmc_send_status_def status_poll.simps sector_send status_ready_def status_result_def)

lemma sector_blocklen: "mmc_set_blocklen sector_ops n s = (0, s)"
  by (simp add: mmc_set_blocklen_def sector_send)

lemma sector_data: "\<exists>w'. send_cmd sector_ops m cmd (Some d) w = (0, [0x900], w')"
  by (cases w) (auto simp: sector_ops_def Let_def)

lemma sector_write: "start + n \<le> block_dev_lba m \<Longrightarrow> n \<noteq> 0 \<Longrightarrow>
    \<exists>w'. mmc_write_blocks sector_ops junk start n src (m, w) = (n, m, w')"
  using sector_data [of m "\<lparr>cmdidx = (if n = 1 then 24 else 25), resp_type = MMC_RSP_R1,
      cmdarg = blk_arg m start (write_bl_len m), cmd_flags = junk\<rparr>"
    "\<lparr>data_buf = src, data_flags = MMC_DATA_WRITE, blocks = n, blocksize = write_bl_len m\<rparr>" w]
  by (auto simp: mmc_write_blocks_def mmc_send_cmd_def [of sector_ops _ "Some _"] sector_send sector_status Let_def not_less
    leD)

lemma sector_read: "\<exists>w'. mmc_read_blocks sector_ops dst start n (m, w) = (n, m, w')"
  using sector_data [of m "\<lparr>cmdidx = (if n > 1 then 18 else 17), resp_type = MMC_RSP_R1,
      cmdarg = blk_arg m start (read_bl_len m), cmd_flags = 0\<rparr>"
    "\<lparr>data_buf = dst, data_flags = MMC_DATA_READ, blocks = n, blocksize = read_bl_len m\<rparr>" w]
  by (auto simp: mmc_read_blocks_def mmc_send_cmd_def [of sector_ops _ "Some _"] sector_send sector_status Let_def)

lemma demo_fields: "b_max (mcfg demo_mmc) = 1" "block_dev_lba demo_mmc = 100" "part_num demo_mmc = 0"
  "read_bl_len demo_mmc = 512" "write_bl_len demo_mmc = 512"
  by (simp_all add: demo_mmc_def)

lemma demo_write: "\<exists>w. SdMmcWriteBlocks sector_ops 0 [Some demo_mmc] 1 0 demo_media 0 3 1024 0x1000 (mem, h) = Some (EFI_SUCCESS, w)"
proof -
  obtain w1 where w1: "mmc_write_blocks sector_ops 0 4 1 0x1000 (demo_mmc, mem, h) = (1, demo_mmc, w1)"
    using sector_write [of 4 1 demo_mmc 0 "0x1000" "(mem, h)"] by (auto simp: demo_fields)
  obtain w2 where w2: "mmc_write_blocks sector_ops 0 5 1 0x1200 (demo_mmc, w1) = (1, demo_mmc, w2)"
    using sector_write [of 5 1 demo_mmc 0 "0x1200" w1] by (auto simp: demo_fields)
  have "bwrite_loop sector_ops 0 2 4 0x1000 (demo_mmc, mem, h) = Some (True, demo_mmc, w2)"
    using w1 w2 by (simp add: bwrite_loop.simps [of _ _ 2] bwrite_loop.simps [of _ _ 1] chunk_def demo_fields)
  then have "mmc_bwrite sector_ops 0 [Some demo_mmc] 0 4 2 0x1000 (mem, h) = Some (2, w2)"
    by (simp add: mmc_bwrite_def find_mmc_device_def sector_blocklen)
  then show ?thesis
    by (simp add: SdMmcWriteBlocks_def SdReadWrite_def demo_media_def SDMMC_LogicalWrite_def logical_access_def
      find_mmc_device_def demo_fields PhyResult_def to_int32_def)
qed

lemma demo_read: "\<exists>w. SdMmcReadBlocks sector_ops 0 [Some demo_mmc] 1 0 demo_media 0 3 1024 0x9000 (mem, h) = Some (EFI_SUCCESS, w)"
proof -
  obtain w1 where w1: "mmc_read_blocks sector_ops 0x9000 4 1 (demo_mmc, mem, h) = (1, demo_mmc, w1)"
    using sector_read by blast
  obtain w2 where w2: "mmc_read_blocks sector_ops 0x9200 5 1 (demo_mmc, w1) = (1, demo_mmc, w2)"
    using sector_read by blast
  have "bread_loop sector_ops 2 4 0x9000 (demo_mmc, mem, h) = Some (True, demo_mmc, w2)"
    using w1 w2 by (simp add: bread_loop.simps [of _ 2] bread_loop.simps [of _ 1] chunk_def demo_fields)
  then have "mmc_bread sector_ops [Some demo_mmc] 0 4 2 0x9000 (mem, h) = Some (2, w2)"
    by (simp add: mmc_bread_def find_mmc_device_def sector_blocklen demo_fields)
  then show ?thesis
    by (simp add: SdMmcReadBlocks_def SdReadWrite_def demo_media_def SDMMC_LogicalRead_def logical_access_def
      find_mmc_device_def demo_fields PhyResult_def to_int32_def)
qed




end
