(* ===== verification/MmcSwitch.thy ===== *)
theory MmcSwitch
  imports Mmc
begin

text \<open>
  Mode switching of \<open>src/Drivers/SunxiSdMmcDxe/mmc.c\<close>: the extended CSD register of eMMC cards, the switch command, speed modes,
  bus width, frequency, and the hardware partitions. The local buffer that receives the extended CSD is at the address
  \<open>ext_csd\<close>; plain \<open>char\<close> is unsigned, as in the AArch64 build. The fields of \<open>host->cfg\<close> and \<open>mmc->cfg\<close> are the same object.
\<close>

section \<open>Steps\<close>

text \<open>A step that is taken only when the one before has returned 0; an assignment to a field of \<open>*mmc\<close>.\<close>

definition ok_then :: "int \<times> 's \<Rightarrow> ('s \<Rightarrow> int \<times> 's) \<Rightarrow> int \<times> 's" where
  "ok_then r k = (case r of (err, s) \<Rightarrow> if err \<noteq> 0 then (err, s) else k s)"

definition upd_mmc :: "(mmc \<Rightarrow> mmc) \<Rightarrow> 'h dev \<Rightarrow> 'h dev" where
  "upd_mmc f s = (f (fst s), snd s)"

definition plain_cmd :: "u16 \<Rightarrow> u32 \<Rightarrow> u32 \<Rightarrow> mmc_cmd" where
  "plain_cmd idx rsp arg = \<lparr>cmdidx = idx, resp_type = rsp, cmdarg = arg, cmd_flags = 0\<rparr>"

definition rca_arg :: "mmc \<Rightarrow> u32" where
  "rca_arg m = push_bit 16 (ucast (rca m))"

definition mem_at :: "'h dev \<Rightarrow> u64 \<Rightarrow> nat \<Rightarrow> u8" where
  "mem_at s buf i = fst (snd s) (buf + of_nat i)"

section \<open>Extended CSD\<close>

definition mmc_send_ext_csd :: "'h mmc_ops \<Rightarrow> u64 \<Rightarrow> 'h dev \<Rightarrow> int \<times> 'h dev" where
  "mmc_send_ext_csd ops ext_csd s =
     (case mmc_send_cmd ops (plain_cmd 8 MMC_RSP_R1 0)
        (Some \<lparr>data_buf = ext_csd, data_flags = MMC_DATA_READ, blocks = 1, blocksize = 512\<rparr>) s of (err, _, s) \<Rightarrow> (err, s))"

record mmc_ext_csd =
  rev_csd :: u8
  erase_group_def :: u8
  sec_feature_support :: u8
  generic_cmd6_time :: u32
  power_off_longtime :: u32
  sectors :: u32
  hc_erase_size :: u32
  hc_erase_timeout :: u32
  sec_trim_mult :: u32
  sec_erase_mult :: u32
  trim_timeout :: u32
  data_sector_size :: u32
  raw_erased_mem_count :: u8
  raw_ext_csd_structure :: u8
  raw_card_type :: u8
  raw_hc_erase_gap_size :: u8
  raw_erase_timeout_mult :: u8
  raw_hc_erase_grp_size :: u8
  raw_sec_trim_mult :: u8
  raw_sec_erase_mult :: u8
  raw_sec_feature_support :: u8
  raw_trim_mult :: u8
  raw_sectors :: "u8 list"

text \<open>Fields that the revision of the card does not define keep the value they had, which in the callers is not initialised.\<close>

definition mmc_decode_ext_csd :: "(nat \<Rightarrow> u8) \<Rightarrow> mmc_ext_csd \<Rightarrow> mmc_ext_csd" where
  "mmc_decode_ext_csd ext_csd d =
     (let d = d\<lparr>raw_ext_csd_structure := ext_csd 194, rev_csd := ext_csd 192,
            raw_sectors := [ext_csd 212, ext_csd 213, ext_csd 214, ext_csd 215]\<rparr>;
          d = (if rev_csd d \<ge> 2 then d\<lparr>sectors := ucast (ext_csd 212) OR push_bit 8 (ucast (ext_csd 213)) OR
              push_bit 16 (ucast (ext_csd 214)) OR push_bit 24 (ucast (ext_csd 215))\<rparr> else d);
          d = d\<lparr>raw_card_type := ext_csd 196, raw_erase_timeout_mult := ext_csd 223, raw_hc_erase_grp_size := ext_csd 224\<rparr>;
          d = (if rev_csd d \<ge> 3 then d\<lparr>erase_group_def := ext_csd 175, hc_erase_timeout := 300 * ucast (ext_csd 223),
              hc_erase_size := push_bit 10 (ucast (ext_csd 224))\<rparr> else d);
          d = d\<lparr>raw_hc_erase_gap_size := ext_csd 221, raw_sec_trim_mult := ext_csd 229, raw_sec_erase_mult := ext_csd 230,
            raw_sec_feature_support := ext_csd 231, raw_trim_mult := ext_csd 232\<rparr>;
          d = (if rev_csd d \<ge> 4 then d\<lparr>sec_trim_mult := ucast (ext_csd 229), sec_erase_mult := ucast (ext_csd 230),
              sec_feature_support := ext_csd 231, trim_timeout := 300 * ucast (ext_csd 232)\<rparr> else d);
          d = d\<lparr>raw_erased_mem_count := ext_csd 181\<rparr>
      in if rev_csd d \<ge> 6 then d\<lparr>generic_cmd6_time := 10 * ucast (ext_csd 248), power_off_longtime := 10 * ucast (ext_csd 247)\<rparr>
         else d\<lparr>data_sector_size := 512\<rparr>)"

section \<open>The switch command\<close>

definition mmc_update_phase :: "'h mmc_ops \<Rightarrow> 'h dev \<Rightarrow> int \<times> 'h dev" where
  "mmc_update_phase ops = (\<lambda>(m, w). case update_phase ops m w of (ret, w) \<Rightarrow> (ret, m, w))"

definition mmc_set_ios :: "'h mmc_ops \<Rightarrow> 'h dev \<Rightarrow> 'h dev" where
  "mmc_set_ios ops = (\<lambda>(m, w). case set_ios ops m w of (clk, w) \<Rightarrow> (m\<lparr>clock := clk\<rparr>, w))"

definition switch_arg :: "u8 \<Rightarrow> u8 \<Rightarrow> u32" where
  "switch_arg index val = push_bit 24 3 OR push_bit 16 (ucast index) OR push_bit 8 (ucast val)"

text \<open>The result of the switch command itself is printed and then forgotten.\<close>

definition mmc_do_switch :: "'h mmc_ops \<Rightarrow> u8 \<Rightarrow> u8 \<Rightarrow> u8 \<Rightarrow> u32 \<Rightarrow> 'h dev \<Rightarrow> int \<times> 'h dev" where
  "mmc_do_switch ops cmdset index val timeout s =
     (case mmc_send_cmd ops (plain_cmd 6 MMC_RSP_R1b (switch_arg index val)) None s of (_, _, s) \<Rightarrow>
        ok_then (mmc_update_phase ops (mmc_set_ios ops s)) (mmc_send_status ops timeout))"

definition mmc_switch :: "'h mmc_ops \<Rightarrow> u8 \<Rightarrow> u8 \<Rightarrow> u8 \<Rightarrow> 'h dev \<Rightarrow> int \<times> 'h dev" where
  "mmc_switch ops cmdset index val = mmc_do_switch ops cmdset index val 1000"

definition mmc_set_clock :: "'h mmc_ops \<Rightarrow> u32 \<Rightarrow> 'h dev \<Rightarrow> 'h dev" where
  "mmc_set_clock ops clk s =
     (let c = mcfg (fst s);
          clk = (if clk > f_max c then f_max c else clk);
          clk = (if clk < f_min c then f_min c else clk)
      in mmc_set_ios ops (upd_mmc (\<lambda>m. m\<lparr>clock := clk\<rparr>) s))"

definition mmc_set_bus_width :: "'h mmc_ops \<Rightarrow> u32 \<Rightarrow> 'h dev \<Rightarrow> 'h dev" where
  "mmc_set_bus_width ops width s = mmc_set_ios ops (upd_mmc (\<lambda>m. m\<lparr>bus_width := width\<rparr>) s)"

section \<open>Speed modes and bus width of eMMC\<close>

text \<open>The common body of the four functions below, with their constants.\<close>

definition switch_timing ::
  "'h mmc_ops \<Rightarrow> u64 \<Rightarrow> u32 \<Rightarrow> u32 \<Rightarrow> u8 \<Rightarrow> u8 \<Rightarrow> u32 \<Rightarrow> 'h dev \<Rightarrow> int \<times> 'h dev" where
  "switch_timing ops ext_csd mode host_cap card_type timing cap s =
     (if speed_mode (fst s) = mode then (0, s)
      else if host_caps (mcfg (fst s)) AND host_cap = 0 then (-1, s)
      else ok_then (mmc_send_ext_csd ops ext_csd s) (\<lambda>s.
        if mem_at s ext_csd 196 AND card_type = 0 then (-1, s)
        else ok_then (mmc_switch ops 1 185 timing s) (\<lambda>s.
          (0, upd_mmc (\<lambda>m. m\<lparr>speed_mode := mode, card_caps := card_caps m OR cap\<rparr>) s))))"

definition mmc_mmc_switch_to_ds :: "'h mmc_ops \<Rightarrow> u64 \<Rightarrow> 'h dev \<Rightarrow> int \<times> 'h dev" where
  "mmc_mmc_switch_to_ds ops ext_csd = switch_timing ops ext_csd 0 0x001 0x01 0 0x001"

text \<open>Here the mode number \<open>HSSDR52_SDR25\<close> is used as a mask for the host's capabilities.\<close>

definition mmc_mmc_switch_to_hs :: "'h mmc_ops \<Rightarrow> u64 \<Rightarrow> 'h dev \<Rightarrow> int \<times> 'h dev" where
  "mmc_mmc_switch_to_hs ops ext_csd = switch_timing ops ext_csd HSSDR52_SDR25 HSSDR52_SDR25 0x0f 1 0x002"

definition mmc_mmc_switch_to_hs200 :: "'h mmc_ops \<Rightarrow> u64 \<Rightarrow> 'h dev \<Rightarrow> int \<times> 'h dev" where
  "mmc_mmc_switch_to_hs200 ops ext_csd = switch_timing ops ext_csd HS200_SDR104 0x080 0x30 2 0x080"

definition mmc_mmc_switch_to_hs400 :: "'h mmc_ops \<Rightarrow> u64 \<Rightarrow> 'h dev \<Rightarrow> int \<times> 'h dev" where
  "mmc_mmc_switch_to_hs400 ops ext_csd = switch_timing ops ext_csd HS400 0x100 0xc0 3 0x100"

definition mmc_mmc_switch_speed_mode :: "'h mmc_ops \<Rightarrow> u64 \<Rightarrow> u32 \<Rightarrow> 'h dev \<Rightarrow> int \<times> 'h dev" where
  "mmc_mmc_switch_speed_mode ops ext_csd spd_mode s =
     (if spd_mode = 0 then mmc_mmc_switch_to_ds ops ext_csd s
      else if spd_mode = HSSDR52_SDR25 then mmc_mmc_switch_to_hs ops ext_csd s
      else if spd_mode = HS200_SDR104 then mmc_mmc_switch_to_hs200 ops ext_csd s
      else if spd_mode = HS400 then mmc_mmc_switch_to_hs400 ops ext_csd s
      else (-1, s))"

definition mmc_check_buswidth :: "mmc \<Rightarrow> bool \<Rightarrow> u32 \<Rightarrow> int" where
  "mmc_check_buswidth m emmc_hs_ddr width =
     (if width = 1 then
        if emmc_hs_ddr \<and> \<not> IS_SD m \<and> speed_mode m = HSSDR52_SDR25 \<or> \<not> IS_SD m \<and> speed_mode m = HSDDR52_DDR50 \<or>
           \<not> IS_SD m \<and> speed_mode m = HS200_SDR104 \<or> \<not> IS_SD m \<and> speed_mode m = HS400 then -1 else 0
      else if width = 4 then if host_caps (mcfg m) AND 0x4 = 0 then -1 else 0
      else if width = 8 then if host_caps (mcfg m) AND 0x8 = 0 \<or> IS_SD m then -1 else 0
      else -1)"

definition bus_width_val :: "u32 \<Rightarrow> u32 \<Rightarrow> u8" where
  "bus_width_val spd_mode width =
     (if width = 1 then 0
      else if spd_mode = HSDDR52_DDR50 then if width = 4 then 5 else if width = 8 then 6 else 0
      else if width = 4 then 1 else if width = 8 then 2 else 0)"

definition mmc_mmc_switch_bus_width :: "'h mmc_ops \<Rightarrow> u32 \<Rightarrow> u32 \<Rightarrow> 'h dev \<Rightarrow> int \<times> 'h dev" where
  "mmc_mmc_switch_bus_width ops spd_mode width s =
     (if spd_mode = HS400 then (0, s)
      else if mmc_check_buswidth (fst s) (spd_mode = HSDDR52_DDR50) width \<noteq> 0 then (-1, s)
      else ok_then (mmc_switch ops 1 183 (bus_width_val spd_mode width) s) (\<lambda>s.
        (0, mmc_set_bus_width ops width
              (if spd_mode = HSDDR52_DDR50 then upd_mmc (\<lambda>m. m\<lparr>speed_mode := HSDDR52_DDR50\<rparr>) s else s))))"

definition mmc_mmc_switch_bus_mode :: "'h mmc_ops \<Rightarrow> u64 \<Rightarrow> u32 \<Rightarrow> u32 \<Rightarrow> 'h dev \<Rightarrow> int \<times> 'h dev" where
  "mmc_mmc_switch_bus_mode ops ext_csd spd_mode width s =
     (if IS_SD (fst s) then (0, s)
      else ok_then (mmc_mmc_switch_speed_mode ops ext_csd (if spd_mode = HSDDR52_DDR50 then HSSDR52_SDR25 else spd_mode) s) (\<lambda>s.
        ok_then (mmc_mmc_switch_bus_width ops spd_mode width s) (\<lambda>s.
          (0, if spd_mode = HSDDR52_DDR50
              then upd_mmc (\<lambda>m. m\<lparr>speed_mode := HSDDR52_DDR50, card_caps := card_caps m OR 0x40\<rparr>) s else s))))"

section \<open>Highest frequency\<close>

fun hs_retry :: "'h mmc_ops \<Rightarrow> nat \<Rightarrow> 'h dev \<Rightarrow> int \<times> 'h dev" where
  "hs_retry ops retry s =
     (case mmc_switch ops 1 185 1 s of (err, s) \<Rightarrow>
        if err = 0 \<or> retry = 0 then (err, s) else hs_retry ops (retry - 1) s)"

declare hs_retry.simps [simp del]

definition drop_caps :: "u32 \<Rightarrow> mmc \<Rightarrow> mmc" where
  "drop_caps caps m = m\<lparr>mcfg := (mcfg m)\<lparr>host_caps := host_caps (mcfg m) AND NOT caps\<rparr>\<rparr>"

definition mmc_change_freq :: "'h mmc_ops \<Rightarrow> u64 \<Rightarrow> 'h dev \<Rightarrow> int \<times> 'h dev" where
  "mmc_change_freq ops ext_csd s =
     (let s = upd_mmc (\<lambda>m. m\<lparr>card_caps := 0\<rparr>) s in
      if version (fst s) < 0x10400 then (0, s)
      else ok_then (mmc_send_ext_csd ops ext_csd (upd_mmc (\<lambda>m. m\<lparr>card_caps := card_caps m OR 0xc\<rparr>) s)) (\<lambda>s.
        let cardtype = mem_at s ext_csd 196;
            s = upd_mmc (if cardtype AND 0xc0 = 0 then drop_caps 0x100 else id) s;
            s = upd_mmc (if cardtype AND 0x30 = 0 then drop_caps 0x080 else id) s;
            s = upd_mmc (if cardtype AND 0x0c = 0 then drop_caps 0x040 else id) s
        in ok_then (hs_retry ops 5 s) (\<lambda>s.
          ok_then (mmc_update_phase ops s) (\<lambda>s.
            ok_then (mmc_send_ext_csd ops ext_csd s) (\<lambda>s.
              if mem_at s ext_csd 185 = 0 then (0, s)
              else if cardtype AND 0x03 \<noteq> 0
              then (0, upd_mmc (\<lambda>m. m\<lparr>speed_mode := HSSDR52_SDR25, card_caps := card_caps m OR 0x3\<rparr>) s)
              else (0, upd_mmc (\<lambda>m. m\<lparr>speed_mode := 0, card_caps := card_caps m OR 0x1\<rparr>) s))))))"

text \<open>SD cards. The local buffers \<open>scr\<close> and \<open>switch_status\<close> hold words in the byte order of the card.\<close>

definition be32_at :: "'h dev \<Rightarrow> u64 \<Rightarrow> nat \<Rightarrow> u32" where
  "be32_at s buf i = push_bit 24 (ucast (mem_at s buf (4 * i))) OR push_bit 16 (ucast (mem_at s buf (4 * i + 1))) OR
     push_bit 8 (ucast (mem_at s buf (4 * i + 2))) OR ucast (mem_at s buf (4 * i + 3))"

definition sd_switch :: "'h mmc_ops \<Rightarrow> u32 \<Rightarrow> nat \<Rightarrow> u8 \<Rightarrow> u64 \<Rightarrow> 'h dev \<Rightarrow> int \<times> 'h dev" where
  "sd_switch ops mode grp val resp s =
     (let arg = push_bit 31 mode OR 0xffffff;
          arg = arg AND NOT (push_bit (grp * 4) 0xf);
          arg = arg OR push_bit (grp * 4) (ucast val)
      in case mmc_send_cmd ops (plain_cmd 6 MMC_RSP_R1 arg)
           (Some \<lparr>data_buf = resp, data_flags = MMC_DATA_READ, blocks = 1, blocksize = 64\<rparr>) s of (err, _, s) \<Rightarrow> (err, s))"

fun read_scr :: "'h mmc_ops \<Rightarrow> u64 \<Rightarrow> nat \<Rightarrow> 'h dev \<Rightarrow> int \<times> 'h dev" where
  "read_scr ops buf timeout s =
     (case mmc_send_cmd ops (plain_cmd 51 MMC_RSP_R1 0)
        (Some \<lparr>data_buf = buf, data_flags = MMC_DATA_READ, blocks = 1, blocksize = 8\<rparr>) s of (err, _, s) \<Rightarrow>
        if err \<noteq> 0 \<and> timeout \<noteq> 0 then read_scr ops buf (timeout - 1) s else (err, s))"

declare read_scr.simps [simp del]

definition scr_version :: "u32 \<Rightarrow> u32" where
  "scr_version w =
     (let v = drop_bit 24 w AND 0xf in
      if v = 1 then 0x2010a else if v = 2 then if drop_bit 15 w AND 1 \<noteq> 0 then 0x20300 else 0x20200 else 0x20100)"

fun check_hs :: "'h mmc_ops \<Rightarrow> u64 \<Rightarrow> nat \<Rightarrow> 'h dev \<Rightarrow> int \<times> 'h dev" where
  "check_hs ops switch_status 0 s = (0, s)"
| "check_hs ops switch_status (Suc timeout) s =
     ok_then (sd_switch ops 0 0 1 switch_status s) (\<lambda>s.
       if be32_at s switch_status 7 AND 0x00020000 = 0 then (0, s) else check_hs ops switch_status timeout s)"

definition sd_change_freq :: "'h mmc_ops \<Rightarrow> u64 \<Rightarrow> u64 \<Rightarrow> 'h dev \<Rightarrow> int \<times> 'h dev" where
  "sd_change_freq ops scr_buf switch_status s =
     (case mmc_send_cmd ops (plain_cmd 55 MMC_RSP_R1 (rca_arg (fst s))) None (upd_mmc (\<lambda>m. m\<lparr>card_caps := 0\<rparr>) s) of
        (err, _, s) \<Rightarrow>
        if err \<noteq> 0 then (err, s)
        else ok_then (read_scr ops scr_buf 3 s) (\<lambda>s.
          let w0 = be32_at s scr_buf 0; w1 = be32_at s scr_buf 1;
              s = upd_mmc (\<lambda>m. m\<lparr>scr := [w0, w1], version := scr_version w0,
                card_caps := (if w0 AND 0x00040000 \<noteq> 0 then card_caps m OR 0x4 else card_caps m)\<rparr>) s
          in if version (fst s) = 0x20100 then (0, s)
             else ok_then (check_hs ops switch_status 4 s) (\<lambda>s.
               if be32_at s switch_status 3 AND 0x00020000 = 0 then (0, s)
               else if host_caps (mcfg (fst s)) AND 0x2 = 0 \<or> host_caps (mcfg (fst s)) AND 0x1 = 0 then (0, s)
               else ok_then (sd_switch ops 1 0 1 switch_status s) (\<lambda>s.
                 ok_then (mmc_update_phase ops (mmc_set_ios ops s)) (\<lambda>s.
                   (0, upd_mmc (drop_caps 0x1c8)
                     (if be32_at s switch_status 4 AND 0x0f000000 = 0x01000000
                      then upd_mmc (\<lambda>m. m\<lparr>card_caps := card_caps m OR 0x1, speed_mode := HSSDR52_SDR25\<rparr>) s else s)))))))"

section \<open>Hardware partitions\<close>

definition mmc_set_capacity :: "nat \<Rightarrow> mmc \<Rightarrow> int \<times> mmc" where
  "mmc_set_capacity part m =
     (if part \<ge> 8 then (-1, m)
      else
        let cap = (if part = 0 then capacity_user m else if part \<le> 2 then capacity_boot m else if part = 3 then capacity_rpmb m
              else capacity_gp m ! (part - 4));
            blks = ucast (drop_bit 9 cap)
        in (0, m\<lparr>capacity := cap, block_dev_lba := blks, lba := blks\<rparr>))"

text \<open>
  The three functions that write a register of the extended CSD and read it back. They work on the device found
  in \<open>mmc_devices\<close>; a null device gives -1.
\<close>

definition confirmed_switch ::
  "'h mmc_ops \<Rightarrow> u64 \<Rightarrow> nat \<Rightarrow> u8 \<Rightarrow> (mmc \<Rightarrow> mmc) \<Rightarrow> 'h dev \<Rightarrow> int \<times> 'h dev" where
  "confirmed_switch ops ext_csd index val store s =
     (case mmc_switch ops 1 (of_nat index) val s of (ret, s) \<Rightarrow>
        if ret \<noteq> 0 then (-1, s)
        else case mmc_send_ext_csd ops ext_csd s of (ret, s) \<Rightarrow>
          if ret \<noteq> 0 then (-1, s)
          else if val \<noteq> mem_at s ext_csd index then (-1, s)
          else (0, upd_mmc store s))"

definition on_device ::
  "mmc option list \<Rightarrow> int \<Rightarrow> ('h dev \<Rightarrow> int \<times> 'h dev) \<Rightarrow> mem \<times> 'h \<Rightarrow> (int \<times> mmc option list \<times> mem \<times> 'h) option" where
  "on_device devs dev_num f w =
     (case find_mmc_device devs dev_num of None \<Rightarrow> None | Some None \<Rightarrow> Some (-1, devs, w)
      | Some (Some m) \<Rightarrow> (case f (m, w) of (ret, m, w) \<Rightarrow> Some (ret, devs[nat dev_num := Some m], w)))"

definition mmc_switch_boot_bus_cond ::
  "'h mmc_ops \<Rightarrow> u64 \<Rightarrow> mmc option list \<Rightarrow> int \<Rightarrow> u32 \<Rightarrow> u32 \<Rightarrow> u32 \<Rightarrow> mem \<times> 'h \<Rightarrow> (int \<times> mmc option list \<times> mem \<times> 'h) option" where
  "mmc_switch_boot_bus_cond ops ext_csd devs dev_num boot_mode rst_bus_cond width =
     on_device devs dev_num (\<lambda>s.
       let val = ucast ((ucast (boot_bus_cond (fst s)) AND NOT 0x1f) OR (push_bit 3 boot_mode AND 0x18) OR
             (push_bit 2 rst_bus_cond AND 0x4) OR (width AND 0x3))
       in confirmed_switch ops ext_csd 177 val (\<lambda>m. m\<lparr>boot_bus_cond := val\<rparr>) s)"

definition mmc_switch_boot_part ::
  "'h mmc_ops \<Rightarrow> u64 \<Rightarrow> mmc option list \<Rightarrow> int \<Rightarrow> u32 \<Rightarrow> u32 \<Rightarrow> mem \<times> 'h \<Rightarrow> (int \<times> mmc option list \<times> mem \<times> 'h) option" where
  "mmc_switch_boot_part ops ext_csd devs dev_num boot_ack boot_part =
     on_device devs dev_num (\<lambda>s.
       let val = ucast ((ucast (part_config (fst s)) AND NOT 0x78) OR (push_bit 3 boot_part AND 0x38) OR push_bit 6 boot_ack)
       in confirmed_switch ops ext_csd 179 val (\<lambda>m. m\<lparr>part_config := val\<rparr>) s)"

definition mmc_switch_part ::
  "'h mmc_ops \<Rightarrow> u64 \<Rightarrow> mmc option list \<Rightarrow> int \<Rightarrow> u32 \<Rightarrow> mem \<times> 'h \<Rightarrow> (int \<times> mmc option list \<times> mem \<times> 'h) option" where
  "mmc_switch_part ops ext_csd devs dev_num part =
     on_device devs dev_num (\<lambda>s.
       let val = ucast ((ucast (part_config (fst s)) AND NOT 0x7) OR (part AND 0x7))
       in confirmed_switch ops ext_csd 179 val (\<lambda>m. m\<lparr>part_config := val\<rparr>) s)"

text \<open>The error codes \<open>ENODEV\<close> and \<open>EMEDIUMTYPE\<close> of \<open>error.h\<close>.\<close>

definition mmc_select_hwpart ::
  "'h mmc_ops \<Rightarrow> u64 \<Rightarrow> mmc option list \<Rightarrow> int \<Rightarrow> u32 \<Rightarrow> mem \<times> 'h \<Rightarrow> (int \<times> mmc option list \<times> mem \<times> 'h) option" where
  "mmc_select_hwpart ops ext_csd devs dev_num hwpart w =
     (case find_mmc_device devs dev_num of None \<Rightarrow> None | Some None \<Rightarrow> Some (-19, devs, w)
      | Some (Some m) \<Rightarrow>
          if ucast (part_num m) = hwpart then Some (0, devs, w)
          else if part_config m = 0xff then Some (-124, devs, w)
          else case mmc_switch_part ops ext_csd devs dev_num hwpart w of None \<Rightarrow> None
            | Some (ret, devs, w) \<Rightarrow>
                if ret \<noteq> 0 then Some (ret, devs, w)
                else Some (0, devs[nat dev_num := map_option (\<lambda>m. m\<lparr>part_num := ucast hwpart\<rparr>) (devs ! nat dev_num)], w))"

section \<open>Switching and reading back\<close>

text \<open>
  What an eMMC card promises about its extended CSD. Reading delivers all 512 bytes; a switch command, whatever it returns,
  changes at most the byte it addresses, to the value it carries; status polls and the set-up of the host change none.
\<close>

locale ext_csd_card =
  fixes ops :: "'h mmc_ops" and ext :: "'h \<Rightarrow> nat \<Rightarrow> u8"
  assumes read_ext: "send_cmd ops m (plain_cmd 8 MMC_RSP_R1 0)
        (Some \<lparr>data_buf = buf, data_flags = MMC_DATA_READ, blocks = 1, blocksize = 512\<rparr>) (mem, h) = (err, resp, mem', h') \<Longrightarrow>
      ext h' = ext h \<and> same_outside buf 512 mem mem' \<and> (err = 0 \<longrightarrow> (\<forall>i<512. mem' (buf + of_nat i) = ext h i))"
    and switch_ext: "send_cmd ops m (plain_cmd 6 MMC_RSP_R1b (switch_arg index val)) None (mem, h) = (err, resp, mem', h') \<Longrightarrow>
      mem' = mem \<and> (\<forall>i. i \<noteq> unat index \<longrightarrow> ext h' i = ext h i)"
    and status_ext: "send_cmd ops m (plain_cmd 13 MMC_RSP_R1 arg) None (mem, h) = (err, resp, mem', h') \<Longrightarrow>
      mem' = mem \<and> ext h' = ext h"
    and ios_ext: "set_ios ops m (mem, h) = (clk, mem', h') \<Longrightarrow> mem' = mem \<and> ext h' = ext h"
    and phase_ext: "update_phase ops m (mem, h) = (err, mem', h') \<Longrightarrow> mem' = mem \<and> ext h' = ext h"
begin

lemma poll_ext: "status_poll ops (plain_cmd 13 MMC_RSP_R1 arg) n r (m, mem, h) = (ret, s') \<Longrightarrow>
    \<exists>h'. s' = (m, mem, h') \<and> ext h' = ext h"
proof (induction n arbitrary: r h rule: less_induct)
  case (less n)
  let ?cmd = "plain_cmd 13 MMC_RSP_R1 arg"
  obtain err resp mem1 h1 where c: "send_cmd ops m ?cmd None (mem, h) = (err, resp, mem1, h1)" by (metis prod_cases4)
  then have s1: "mmc_send_cmd ops ?cmd None (m, mem, h) = (err, resp, m, mem, h1)" "ext h1 = ext h"
    using status_ext [OF c] by (simp_all add: mmc_send_cmd_def)
  show ?case
  proof (cases "s' = (m, mem, h1)")
    case False
    then have n: "n - 1 < n" and p: "status_poll ops ?cmd (n - 1) (if err = 0 then r else r - 1) (m, mem, h1) = (ret, s')"
      using less.prems s1(1) by (auto simp: status_poll.simps [of ops ?cmd n] split: if_splits)
    show ?thesis using less.IH [OF n p] s1(2) by simp
  qed (use s1(2) in simp)
qed

lemma do_switch_ext:
  assumes "mmc_do_switch ops cmdset index val timeout (m, mem, h) = (ret, s')"
  shows "\<exists>clk h'. s' = (m\<lparr>clock := clk\<rparr>, mem, h') \<and> (\<forall>i. i \<noteq> unat index \<longrightarrow> ext h' i = ext h i)"
proof -
  obtain e1 r1 mem1 h1 where c: "send_cmd ops m (plain_cmd 6 MMC_RSP_R1b (switch_arg index val)) None (mem, h) = (e1, r1, mem1, h1)"
    by (metis prod_cases4)
  obtain clk mem2 h2 where i: "set_ios ops m (mem, h1) = (clk, mem2, h2)" by (metis prod_cases3)
  let ?m = "m\<lparr>clock := clk\<rparr>"
  obtain e3 mem3 h3 where p: "update_phase ops ?m (mem, h2) = (e3, mem3, h3)" by (metis prod_cases3)
  obtain e4 s4 where st: "mmc_send_status ops timeout (?m, mem, h3) = (e4, s4)" by (meson surj_pair)
  have h: "mem1 = mem" "mem2 = mem" "mem3 = mem" "ext h2 = ext h1" "ext h3 = ext h2"
    "\<forall>i. i \<noteq> unat index \<longrightarrow> ext h1 i = ext h i"
    using switch_ext [OF c] ios_ext [OF i] phase_ext [OF p] by simp_all
  obtain h4 where "s4 = (?m, mem, h4)" "ext h4 = ext h3"
    using st poll_ext [of _ "unat timeout" 5 ?m mem h3] unfolding mmc_send_status_def plain_cmd_def by blast
  moreover have "s' = (?m, mem, h3) \<or> s' = s4"
    using assms c i p st h by (auto simp: mmc_do_switch_def mmc_send_cmd_def mmc_set_ios_def mmc_update_phase_def
      ok_then_def split: if_splits)
  ultimately show ?thesis using h by auto
qed

lemma confirmed_switch_ext:
  assumes "confirmed_switch ops buf index val store (m, mem, h) = (ret, m', mem', h')" and "index < 256"
  shows "same_outside buf 512 mem mem' \<and> (\<forall>i. i \<noteq> index \<longrightarrow> ext h' i = ext h i) \<and>
    (\<exists>clk. if ret = 0 then m' = store (m\<lparr>clock := clk\<rparr>) \<and> ext h' index = val else ret = -1 \<and> m' = m\<lparr>clock := clk\<rparr>)"
proof -
  obtain e1 s1 where sw: "mmc_switch ops 1 (of_nat index) val (m, mem, h) = (e1, s1)" by (meson surj_pair)
  have idx: "unat (of_nat index :: u8) = index" using assms(2) by (simp add: unat_of_nat take_bit_nat_eq_self)
  obtain clk h1 where s1: "s1 = (m\<lparr>clock := clk\<rparr>, mem, h1)" "\<forall>i. i \<noteq> index \<longrightarrow> ext h1 i = ext h i"
    using do_switch_ext [OF sw [unfolded mmc_switch_def]] idx by auto
  obtain e2 r2 mem2 h2 where c: "send_cmd ops (m\<lparr>clock := clk\<rparr>) (plain_cmd 8 MMC_RSP_R1 0)
      (Some \<lparr>data_buf = buf, data_flags = MMC_DATA_READ, blocks = 1, blocksize = 512\<rparr>) (mem, h1) = (e2, r2, mem2, h2)"
    by (metis prod_cases4)
  have "ext h2 = ext h1" "same_outside buf 512 mem mem2" "e2 = 0 \<longrightarrow> mem2 (buf + of_nat index) = ext h1 index"
    using read_ext [OF c] assms(2) by auto
  then show ?thesis using assms(1) sw s1 c
    by (auto simp: confirmed_switch_def mmc_send_ext_csd_def mmc_send_cmd_def mem_at_def upd_mmc_def split: if_splits)
qed

end

lemma seven_mask: "(7 :: 'a :: len word) = mask 3"
  by (simp add: mask_eq_exp_minus_1)


text \<open>
  A card that refuses the switch command is not noticed. If the command fails, for whatever reason, but the
  host is set up and the card then reports that it is ready without a switch error, the switch is reported as done.
\<close>

theorem switch_refusal_unreported:
  assumes "send_cmd ops m (plain_cmd 6 MMC_RSP_R1b (switch_arg index val)) None w = (err, resp, w1)" and "err \<noteq> 0"
    and "set_ios ops m w1 = (clk, w')" "update_phase ops (m\<lparr>clock := clk\<rparr>) w' = (0, w2)"
    and "send_cmd ops (m\<lparr>clock := clk\<rparr>) (plain_cmd 13 MMC_RSP_R1 (rca_arg m)) None w2 = (0, r # rs, w3)"
    and "status_ready r" and "r AND 0x80000080 = 0"
  shows "mmc_switch ops cmdset index val (m, w) = (0, m\<lparr>clock := clk\<rparr>, w3)"
proof -
  have m: "r AND 0x80 = 0" "r AND 0x80000000 = 0"
  proof -
    have "r AND 0x80 = (r AND 0x80000080) AND 0x80" "r AND 0x80000000 = (r AND 0x80000080) AND 0x80000000" by (simp_all add: and.assoc)
    then show "r AND 0x80 = 0" "r AND 0x80000000 = 0" using assms(7) by simp_all
  qed
  show ?thesis
    using assms(1-6) m unfolding mmc_switch_def mmc_do_switch_def mmc_send_status_def
    by (simp add: mmc_send_cmd_def mmc_set_ios_def mmc_update_phase_def ok_then_def status_poll.simps status_result_def
      plain_cmd_def rca_arg_def)
qed

lemma status_fst: "fst (snd (status_poll ops cmd n r s)) = fst s"
proof (induction ops cmd n r s rule: status_poll.induct)
  case (1 ops cmd n r s)
  obtain err resp s1 where c: "mmc_send_cmd ops cmd None s = (err, resp, s1)" by (metis prod_cases3)
  then have "fst s1 = fst s" by (auto simp: mmc_send_cmd_def split_beta split: prod.splits)
  then show ?case using 1 [OF c [symmetric] refl] c by (simp add: status_poll.simps [of ops cmd n])
qed

text \<open>The clock that the host reports.\<close>

definition ios_clock :: "'h mmc_ops \<Rightarrow> 'h dev \<Rightarrow> u32" where
  "ios_clock ops s = fst (set_ios ops (fst s) (snd s))"

definition switch_clock :: "'h mmc_ops \<Rightarrow> u8 \<Rightarrow> u8 \<Rightarrow> 'h dev \<Rightarrow> u32" where
  "switch_clock ops index val s = ios_clock ops (snd (snd (mmc_send_cmd ops (plain_cmd 6 MMC_RSP_R1b (switch_arg index val)) None s)))"

lemma set_ios_fst: "fst (mmc_set_ios ops s) = (fst s)\<lparr>clock := ios_clock ops s\<rparr>"
  by (simp add: mmc_set_ios_def ios_clock_def split_beta)

lemma do_switch_fst: "fst (snd (mmc_do_switch ops cmdset index val t s)) = (fst s)\<lparr>clock := switch_clock ops index val s\<rparr>"
  by (simp add: switch_clock_def ios_clock_def mmc_do_switch_def mmc_send_cmd_def mmc_set_ios_def mmc_update_phase_def ok_then_def mmc_send_status_def
    status_fst split_beta)

lemma ext_csd_fst: "fst (snd (mmc_send_ext_csd ops buf s)) = fst s"
  by (simp add: mmc_send_ext_csd_def mmc_send_cmd_def split_beta)

lemma switch_timing_mode:
  assumes "switch_timing ops buf mode host_cap card_type timing cap s = (0, s')"
  shows "speed_mode (fst s') = mode \<and> mcfg (fst s') = mcfg (fst s) \<and> version (fst s') = version (fst s)"
proof (cases "speed_mode (fst s) = mode")
  case True
  then show ?thesis using assms by (simp add: switch_timing_def)
next
  case False
  obtain e1 s1 where c: "mmc_send_ext_csd ops buf s = (e1, s1)" by (meson surj_pair)
  obtain e2 s2 where d: "mmc_switch ops 1 185 timing s1 = (e2, s2)" by (meson surj_pair)
  have "fst s2 = (fst s)\<lparr>clock := switch_clock ops 185 timing s1\<rparr>"
    using ext_csd_fst [of ops buf s] do_switch_fst [of ops 1 185 timing 1000 s1] c d by (simp add: mmc_switch_def)
  then show ?thesis using assms False c d by (auto simp: switch_timing_def ok_then_def upd_mmc_def split: if_splits)
qed

lemma switch_speed_mode:
  "mmc_mmc_switch_speed_mode ops buf mode s = (0, s') \<Longrightarrow>
   speed_mode (fst s') = mode \<and> mode \<le> 4 \<and> mcfg (fst s') = mcfg (fst s) \<and> version (fst s') = version (fst s)"
  by (auto simp: mmc_mmc_switch_speed_mode_def mmc_mmc_switch_to_ds_def mmc_mmc_switch_to_hs_def mmc_mmc_switch_to_hs200_def
    mmc_mmc_switch_to_hs400_def split: if_splits dest!: switch_timing_mode)

definition width_supported :: "mmc \<Rightarrow> u32 \<Rightarrow> bool" where
  "width_supported m width \<longleftrightarrow> width = 1 \<or> width = 4 \<and> host_caps (mcfg m) AND 0x4 \<noteq> 0 \<or> width = 8 \<and> host_caps (mcfg m) AND 0x8 \<noteq> 0"

lemma check_buswidth_supported: "mmc_check_buswidth m ddr width = 0 \<Longrightarrow> width_supported m width"
  by (auto simp: mmc_check_buswidth_def width_supported_def split: if_splits)

lemma switch_bus_width:
  assumes "mmc_mmc_switch_bus_width ops mode width s = (0, s')"
  shows "mcfg (fst s') = mcfg (fst s) \<and> (if mode = HS400 then s' = s
    else speed_mode (fst s') = (if mode = HSDDR52_DDR50 then HSDDR52_DDR50 else speed_mode (fst s)) \<and>
      bus_width (fst s') = width \<and> width_supported (fst s) width)"
proof -
  obtain e1 s1 where d: "mmc_switch ops 1 183 (bus_width_val mode width) s = (e1, s1)" by (meson surj_pair)
  have s1: "fst s1 = (fst s)\<lparr>clock := switch_clock ops 183 (bus_width_val mode width) s\<rparr>"
    using do_switch_fst [of ops 1 183 "bus_width_val mode width" 1000 s] d by (simp add: mmc_switch_def)
  show ?thesis
  proof (cases "mode = HS400")
    case True
    then show ?thesis using assms by (simp add: mmc_mmc_switch_bus_width_def)
  next
    case False
    then show ?thesis using assms d s1
      by (auto simp: mmc_mmc_switch_bus_width_def ok_then_def mmc_set_bus_width_def set_ios_fst upd_mmc_def split_beta
        dest: check_buswidth_supported split: if_splits)
  qed
qed

text \<open>
  The bus mode the driver records. When the switch of the bus mode of an eMMC card returns 0, the recorded
  speed mode is the one asked for, and, except for HS400, which is entered on an 8-bit bus, so is the recorded bus width,
  which the host supports.
\<close>

theorem bus_mode_recorded:
  assumes "mmc_mmc_switch_bus_mode ops buf mode width s = (0, s')" and "\<not> IS_SD (fst s)"
  shows "speed_mode (fst s') = mode \<and> mode \<le> 4 \<and> (mode \<noteq> HS400 \<longrightarrow> bus_width (fst s') = width \<and> width_supported (fst s) width)"
proof -
  let ?sm = "if mode = HSDDR52_DDR50 then HSSDR52_SDR25 else mode"
  obtain e1 s1 where a: "mmc_mmc_switch_speed_mode ops buf ?sm s = (e1, s1)" by (meson surj_pair)
  obtain e2 s2 where b: "mmc_mmc_switch_bus_width ops mode width s1 = (e2, s2)" by (meson surj_pair)
  have z: "e1 = 0" "e2 = 0" and s': "s' = (if mode = HSDDR52_DDR50
      then upd_mmc (\<lambda>m. m\<lparr>speed_mode := HSDDR52_DDR50, card_caps := card_caps m OR 0x40\<rparr>) s2 else s2)"
    using assms a b by (auto simp: mmc_mmc_switch_bus_mode_def ok_then_def split: if_splits)
  have "speed_mode (fst s1) = ?sm" "?sm \<le> 4" "mcfg (fst s1) = mcfg (fst s)"
    using switch_speed_mode [of ops buf ?sm s s1] a z by auto
  then show ?thesis using switch_bus_width [of ops mode width s1 s2] b z s'
    by (auto simp: upd_mmc_def width_supported_def split: if_splits)
qed

section \<open>A card with an extended CSD\<close>

definition csd_ops :: "bool \<Rightarrow> (nat \<Rightarrow> u8) mmc_ops" where
  "csd_ops refuse = \<lparr>
     send_cmd = (\<lambda>m cmd data (mem, h). case data of
         Some d \<Rightarrow> (0, [0x900], store_bytes mem (data_buf d) (map h [0..<512]), h)
       | None \<Rightarrow> if cmdidx cmd = 6
           then if refuse then (-1, [0x900], mem, h)
             else (0, [0x900], mem, h(unat (drop_bit 16 (cmdarg cmd) AND 0xff) := ucast (drop_bit 8 (cmdarg cmd) AND 0xff)))
           else (0, [0x900], mem, h)),
     set_ios = (\<lambda>m w. (clock m, w)),
     update_phase = (\<lambda>m w. (0, w))\<rparr>"

lemma csd_ops_ios: "set_ios (csd_ops refuse) m w = (clock m, w)"
  by (simp add: csd_ops_def)

lemma switch_arg_fields:
  "drop_bit 16 (switch_arg index val) AND 0xff = ucast index" "ucast (drop_bit 8 (switch_arg index val) AND 0xff) = val"
proof -
  have m: "(0xff :: u32) = mask 8" by (simp add: mask_eq_exp_minus_1)
  have b: "bit index n \<Longrightarrow> n < 8" "bit val n \<Longrightarrow> n < 8" for n using bit_imp_le_length by force+
  have three: "(3 :: u32) = mask 2" by (simp add: mask_eq_exp_minus_1)
  show "drop_bit 16 (switch_arg index val) AND 0xff = ucast index"
    unfolding m by (rule bit_word_eqI) (auto simp: switch_arg_def three bit_simps dest: b)
  show "ucast (drop_bit 8 (switch_arg index val) AND 0xff) = val"
    unfolding m by (rule bit_word_eqI) (auto simp: switch_arg_def three bit_simps dest: b)
qed

lemma unat_u8_up: "unat (ucast (x :: u8) :: u32) = unat x"
  using unsigned_less [where 'a = nat, of x] by (simp add: unsigned_ucast_eq take_bit_nat_eq_self)

lemma csd_read: "load_bytes (store_bytes mem buf (map h [0..<512])) buf 512 = map h [0..<512]"
  using load_store_same [of "map h [0..<512]" mem buf] by simp

interpretation csd: ext_csd_card "csd_ops refuse" "\<lambda>h. h"
proof
  fix m buf mem h err resp mem' h'
  assume run: "send_cmd (csd_ops refuse) m (plain_cmd 8 MMC_RSP_R1 0)
    (Some \<lparr>data_buf = buf, data_flags = MMC_DATA_READ, blocks = 1, blocksize = 512\<rparr>) (mem, h) = (err, resp, mem', h')"
  have "mem' (buf + of_nat i) = h i" if "i < 512" for i
    using arg_cong [OF csd_read [of mem buf h], of "\<lambda>xs. xs ! i"] run that by (auto simp: csd_ops_def)
  then show "h' = h \<and> same_outside buf 512 mem mem' \<and> (err = 0 \<longrightarrow> (\<forall>i<512. mem' (buf + of_nat i) = h i))"
    using run by (auto simp: csd_ops_def same_outside_def store_outside)
qed (auto simp: csd_ops_def plain_cmd_def switch_arg_fields unat_u8_up split: if_splits)

lemma csd_switch: "mmc_switch (csd_ops False) 1 index val (m, mem, h) = (0, m, mem, h(unat index := val))"
  "mmc_switch (csd_ops True) 1 index val (m, mem, h) = (0, m, mem, h)"
  by (simp_all add: mmc_switch_def mmc_do_switch_def mmc_send_cmd_def mmc_set_ios_def mmc_update_phase_def ok_then_def
    mmc_send_status_def status_poll.simps csd_ops_def plain_cmd_def switch_arg_fields status_ready_def status_result_def unat_u8_up)

lemma csd_send: "mmc_send_ext_csd (csd_ops r) buf (m, mem, h) = (0, m, store_bytes mem buf (map h [0..<512]), h)"
  by (simp add: mmc_send_ext_csd_def mmc_send_cmd_def csd_ops_def)

lemma csd_at: "i < 512 \<Longrightarrow> mem_at (m, store_bytes mem buf (map h [0..<512]), w) buf i = h i"
  using arg_cong [OF csd_read [of mem buf h], of "\<lambda>xs. xs ! i"] by (simp add: mem_at_def)


theorem switch_refusal_unreported_witness:
  "mmc_switch (csd_ops True) 1 185 1 (demo_mmc, \<lambda>_. 0, \<lambda>_. 0) = (0, demo_mmc, \<lambda>_. 0, \<lambda>_. 0)"
  using switch_refusal_unreported [of "csd_ops True" demo_mmc 185 1 "(\<lambda>_. 0, \<lambda>_. 0)" "-1" "[0x900]" "(\<lambda>_. 0, \<lambda>_. 0)" "clock demo_mmc"
      "(\<lambda>_. 0, \<lambda>_. 0)" "(\<lambda>_. 0, \<lambda>_. 0)" "0x900" "[]" "(\<lambda>_. 0, \<lambda>_. 0)" 1]
  by (simp add: csd_ops_def plain_cmd_def status_ready_def)

theorem bus_mode_recorded_witness:
  "\<exists>s. mmc_mmc_switch_bus_mode (csd_ops False) 0x8000 HSSDR52_SDR25 1 (demo_mmc, \<lambda>_. 0, \<lambda>_. 0) = (0, s) \<and>
     speed_mode (fst s) = HSSDR52_SDR25 \<and> bus_width (fst s) = 1"
proof -
  have "\<exists>s. mmc_mmc_switch_bus_mode (csd_ops False) 0x8000 HSSDR52_SDR25 1 (demo_mmc, \<lambda>_. 0, \<lambda>_. 0) = (0, s)"
    by (simp add: mmc_mmc_switch_bus_mode_def mmc_mmc_switch_speed_mode_def mmc_mmc_switch_to_hs_def switch_timing_def
      mmc_mmc_switch_bus_width_def ok_then_def csd_switch mmc_check_buswidth_def
      mmc_set_bus_width_def mmc_set_ios_def upd_mmc_def demo_mmc_def csd_ops_ios)
  then show ?thesis using bus_mode_recorded [of "csd_ops False" "0x8000" HSSDR52_SDR25 1 "(demo_mmc, \<lambda>_. 0, \<lambda>_. 0)"]
    by (auto simp: demo_mmc_def)
qed

end
