(* ===== verification/MmcErase.thy ===== *)
theory MmcErase
  imports MmcSwitch "HOL-Library.Monad_Syntax" "HOL-Library.Sublist"
begin

text \<open>
  Erasing, \<open>src/Drivers/SunxiSdMmcDxe/mmc_write.c\<close>: the erase sequence of an eMMC card, its time limits, the alignment to erase
  groups, and the calls that erase, trim, discard or wipe a range. A range that cannot be erased because it is not
  aligned is reported to the caller in the array \<open>skip_space\<close>: a bit per entry in word 0, then start and length of each. A
  division by zero and a null device have no result (\<^const>\<open>None\<close>). The argument \<open>L\<close> holds the places and contents of
  local variables that the code does not initialise. The theorem shows that an erase tiles the range it is given.
\<close>

section \<open>Time limits\<close>

record erase_locals =
  csd_buf :: u64
  csd_junk :: mmc_ext_csd

definition tacc_exp :: "u32 list" where
  "tacc_exp = [1, 10, 100, 1000, 10000, 100000, 1000000, 10000000]"

definition tacc_mant :: "u32 list" where
  "tacc_mant = [0, 10, 12, 13, 15, 20, 25, 30, 35, 40, 45, 50, 55, 60, 70, 80]"

definition mmc_mmc_def_erase_timeout :: "mmc \<Rightarrow> u32 option" where
  "mmc_mmc_def_erase_timeout m =
     (let r2w_factor = drop_bit 26 (csd m ! 3) AND 0x7;
          tacc_clks = (drop_bit 8 (csd m ! 0) AND 0xff) * 100;
          e = drop_bit 16 (csd m ! 3) AND 0x7;
          mant = drop_bit 19 (csd m ! 3) AND 0xf;
          tacc_ns = (tacc_exp ! unat e * tacc_mant ! unat mant + 9) div 10;
          mult = push_bit (unat r2w_factor) 10;
          timeout_clks = tacc_clks * mult;
          timeout_us = (if tacc_ns < 1000000 then (tacc_ns * mult) div 1000 else (tacc_ns div 1000) * mult);
          timeout_clks = push_bit 1 timeout_clks
      in if clock m div 1000 = 0 then None
         else let timeout_us = timeout_us + (timeout_clks * 1000) div (clock m div 1000);
                  t = timeout_us div 1000
              in Some (if t = 0 then 1 else t))"

text \<open>
  When the revision of the card is below 3, \<open>erase_group_def\<close> and \<open>hc_erase_timeout\<close> are read although they were never set.
\<close>

definition mmc_mmc_update_timeout :: "'h mmc_ops \<Rightarrow> erase_locals \<Rightarrow> 'h dev \<Rightarrow> (int \<times> 'h dev) option" where
  "mmc_mmc_update_timeout ops L s =
     (case mmc_send_ext_csd ops (csd_buf L) s of (ret, s) \<Rightarrow>
        if ret \<noteq> 0 then Some (ret, s)
        else do {
          let d = mmc_decode_ext_csd (mem_at s (csd_buf L)) (csd_junk L);
          t \<leftarrow> (if erase_group_def d \<noteq> 0 \<and> hc_erase_timeout d \<noteq> 0 then Some (hc_erase_timeout d)
                else mmc_mmc_def_erase_timeout (fst s));
          Some (0, upd_mmc (\<lambda>m.
            if rev_csd d \<ge> 4
            then m\<lparr>erase_timeout := t, trim_discard_timeout := trim_timeout d, secure_erase_timeout := t * sec_erase_mult d,
                   secure_trim_timeout := t * sec_trim_mult d\<rparr>
            else m\<lparr>erase_timeout := t, trim_discard_timeout := 0, secure_erase_timeout := 0, secure_trim_timeout := 0\<rparr>) s)
        })"

abbreviation (input) MMC_ERASE_ARG :: u32 where "MMC_ERASE_ARG \<equiv> 0"
abbreviation (input) MMC_SECURE_ERASE_ARG :: u32 where "MMC_SECURE_ERASE_ARG \<equiv> 0x80000000"
abbreviation (input) MMC_TRIM_ARG :: u32 where "MMC_TRIM_ARG \<equiv> 1"
abbreviation (input) MMC_DISCARD_ARG :: u32 where "MMC_DISCARD_ARG \<equiv> 3"
abbreviation (input) MMC_SECURE_TRIM1_ARG :: u32 where "MMC_SECURE_TRIM1_ARG \<equiv> 0x80000001"
abbreviation (input) MMC_SECURE_TRIM2_ARG :: u32 where "MMC_SECURE_TRIM2_ARG \<equiv> 0x80008000"

definition mmc_sd_erase_timeout :: "u32 \<Rightarrow> u32 \<Rightarrow> u32" where
  "mmc_sd_erase_timeout erase_arg qty = 0xffffff"

definition mmc_mmc_erase_timeout :: "mmc \<Rightarrow> u32 \<Rightarrow> u32 \<Rightarrow> u32" where
  "mmc_mmc_erase_timeout m arg qty =
     (if arg = MMC_DISCARD_ARG \<or> arg = MMC_TRIM_ARG then trim_discard_timeout m * qty
      else if arg = MMC_ERASE_ARG then erase_timeout m * qty
      else if arg = MMC_SECURE_ERASE_ARG then secure_erase_timeout m * qty
      else if arg = MMC_SECURE_TRIM1_ARG \<or> arg = MMC_SECURE_TRIM2_ARG then secure_trim_timeout m * qty
      else 0)"

definition mmc_erase_timeout :: "mmc \<Rightarrow> u32 \<Rightarrow> u32 \<Rightarrow> u32" where
  "mmc_erase_timeout m erase_arg qty =
     (if IS_SD m then mmc_sd_erase_timeout erase_arg qty else mmc_mmc_erase_timeout m erase_arg qty)"

section \<open>The erase sequence\<close>

definition erase_addr :: "'h mmc_ops \<Rightarrow> u16 \<Rightarrow> u32 \<Rightarrow> 'h dev \<Rightarrow> int \<times> 'h dev" where
  "erase_addr ops idx address s =
     (case mmc_send_cmd ops (plain_cmd idx MMC_RSP_R1 (blk_arg (fst s) address (write_bl_len (fst s)))) None s of (err, _, s) \<Rightarrow>
        if err \<noteq> 0 then (err, s) else mmc_send_status ops 300 s)"

definition mmc_set_erase_start_addr :: "'h mmc_ops \<Rightarrow> u32 \<Rightarrow> 'h dev \<Rightarrow> int \<times> 'h dev" where
  "mmc_set_erase_start_addr ops = erase_addr ops 35"

definition mmc_set_erase_end_addr :: "'h mmc_ops \<Rightarrow> u32 \<Rightarrow> 'h dev \<Rightarrow> int \<times> 'h dev" where
  "mmc_set_erase_end_addr ops = erase_addr ops 36"

definition mmc_launch_erase :: "'h mmc_ops \<Rightarrow> u32 \<Rightarrow> 'h dev \<Rightarrow> int \<times> 'h dev" where
  "mmc_launch_erase ops erase_arg s = (case mmc_send_cmd ops (plain_cmd 38 MMC_RSP_R1b erase_arg) None s of (err, _, s) \<Rightarrow> (err, s))"

definition erase_wait :: "'h mmc_ops \<Rightarrow> u32 \<Rightarrow> u32 \<Rightarrow> u32 \<Rightarrow> 'h dev \<Rightarrow> (int \<times> 'h dev) option" where
  "erase_wait ops from to erase_arg s = do {
     qty \<leftarrow> (if IS_SD (fst s) then Some (to - from + 1)
            else if erase_grp_size (fst s) = 0 then None
            else Some ((to - from) div erase_grp_size (fst s) + 1));
     let timeout = mmc_erase_timeout (fst s) erase_arg qty;
     Some (if timeout = 0 then (-1, s) else mmc_send_status ops timeout s)
   }"

definition mmc_do_erase :: "'h mmc_ops \<Rightarrow> erase_locals \<Rightarrow> u32 \<Rightarrow> u32 \<Rightarrow> u32 \<Rightarrow> 'h dev \<Rightarrow> (int \<times> 'h dev) option" where
  "mmc_do_erase ops L from to erase_arg s = do {
     (_, s) \<leftarrow> mmc_mmc_update_timeout ops L s;
     let (err, s) = ok_then (mmc_set_erase_start_addr ops from s) (\<lambda>s.
           ok_then (mmc_set_erase_end_addr ops to s) (mmc_launch_erase ops erase_arg));
     if err \<noteq> 0 then Some (err, s) else erase_wait ops from to erase_arg s
   }"

section \<open>Alignment\<close>

definition mmc_erase_group_aligned :: "mmc \<Rightarrow> u32 \<Rightarrow> u32 \<Rightarrow> bool" where
  "mmc_erase_group_aligned m from nr \<longleftrightarrow>
     erase_grp_size m \<noteq> 0 \<and> from mod erase_grp_size m = 0 \<and> nr mod erase_grp_size m = 0"

definition mmc_align_erase_group :: "mmc \<Rightarrow> u32 \<Rightarrow> u32 \<Rightarrow> (u32 \<times> u32) option" where
  "mmc_align_erase_group m from nr =
     (let g = erase_grp_size m in
      if g = 0 then None
      else
        let r = from mod g; r = (if r \<noteq> 0 then g - r else 0) in
        if r \<noteq> 0 \<and> \<not> nr > r then Some (from + r, nr)
        else let start = from + r; cnt = nr - r in Some (start, cnt - cnt mod g))"

definition mmc_erase :: "'h mmc_ops \<Rightarrow> erase_locals \<Rightarrow> u32 \<Rightarrow> u32 \<Rightarrow> u32 \<Rightarrow> 'h dev \<Rightarrow> (int \<times> 'h dev) option" where
  "mmc_erase ops L from nr erase_arg s =
     (if nr = 0 then Some (0, s)
      else if IS_SD (fst s) then Some (-1, s)
      else if erase_arg \<notin> {MMC_ERASE_ARG, MMC_SECURE_ERASE_ARG, MMC_TRIM_ARG, MMC_DISCARD_ARG, MMC_SECURE_TRIM1_ARG}
      then Some (-1, s)
      else if erase_arg \<in> {MMC_ERASE_ARG, MMC_SECURE_ERASE_ARG} \<and> \<not> mmc_erase_group_aligned (fst s) from nr then Some (-1, s)
      else do {
        (ret, s) \<leftarrow> mmc_do_erase ops L from (from + nr - 1) erase_arg s;
        if ret \<noteq> 0 then Some (-1, s)
        else if erase_arg = MMC_SECURE_TRIM1_ARG then do {
          (ret, s) \<leftarrow> mmc_do_erase ops L from (from + nr - 1) MMC_SECURE_TRIM2_ARG s;
          Some (if ret \<noteq> 0 then -1 else 0, s)
        }
        else Some (0, s)
      })"

definition mmc_do_sanitize :: "'h mmc_ops \<Rightarrow> 'h dev \<Rightarrow> int \<times> 'h dev" where
  "mmc_do_sanitize ops = mmc_do_switch ops 1 165 1 240000"

section \<open>Ranges\<close>

definition mmc_add_skip_space :: "u32 list \<Rightarrow> nat \<Rightarrow> u32 \<Rightarrow> u32 \<Rightarrow> u32 list" where
  "mmc_add_skip_space skip_space index from nr =
     skip_space[0 := skip_space ! 0 OR push_bit index 1, index * 2 + 1 := from, index * 2 + 2 := nr]"

definition report_skips :: "u32 list \<Rightarrow> u32 \<Rightarrow> u32 \<Rightarrow> u32 \<Rightarrow> u32 \<Rightarrow> u32 list" where
  "report_skips sk from nr align_from align_nr =
     (let (skip, sk) = (if align_from - from \<noteq> 0 then (1, mmc_add_skip_space sk 0 from (align_from - from)) else (0, sk));
          last_skip_len = (if skip \<noteq> 0 then sk ! 2 else 0)
      in if nr - align_nr - last_skip_len \<noteq> 0
         then mmc_add_skip_space sk skip (align_from + align_nr) (nr - align_nr - last_skip_len) else sk)"

definition mmc_insecure_secure_erase ::
  "'h mmc_ops \<Rightarrow> erase_locals \<Rightarrow> u32 \<Rightarrow> u32 \<Rightarrow> u32 list \<Rightarrow> bool \<Rightarrow> 'h dev \<Rightarrow> (int \<times> u32 list \<times> 'h dev) option" where
  "mmc_insecure_secure_erase ops L from nr skip_space secure s = do {
     let sk = skip_space[0 := 0];
     (align_from, align_nr) \<leftarrow> (if mmc_erase_group_aligned (fst s) from nr then Some (from, nr)
       else mmc_align_erase_group (fst s) from nr);
     if align_nr = 0 then Some (-1, mmc_add_skip_space sk 0 from nr, s)
     else do {
       (ret, s) \<leftarrow> mmc_erase ops L align_from align_nr (if secure then MMC_SECURE_ERASE_ARG else MMC_ERASE_ARG) s;
       Some (if ret \<noteq> 0 then (ret, mmc_add_skip_space sk 0 from nr, s)
             else (ret, report_skips sk from nr align_from align_nr, s))
     }
   }"

abbreviation (input) EXT_CSD_SEC_ER_EN :: u8 where "EXT_CSD_SEC_ER_EN \<equiv> 0x01"
abbreviation (input) EXT_CSD_SEC_GB_CL_EN :: u8 where "EXT_CSD_SEC_GB_CL_EN \<equiv> 0x10"
abbreviation (input) EXT_CSD_SEC_SANITIZE :: u8 where "EXT_CSD_SEC_SANITIZE \<equiv> 0x40"

definition erase_or_skip ::
  "'h mmc_ops \<Rightarrow> erase_locals \<Rightarrow> u32 \<Rightarrow> u32 \<Rightarrow> u32 list \<Rightarrow> u32 \<Rightarrow> 'h dev \<Rightarrow> (int \<times> u32 list \<times> 'h dev) option" where
  "erase_or_skip ops L from nr sk arg s = do {
     (ret, s) \<leftarrow> mmc_erase ops L from nr arg s;
     Some (ret, if ret \<noteq> 0 then mmc_add_skip_space sk 0 from nr else sk, s)
   }"

definition mmc_do_secure_wipe ::
  "'h mmc_ops \<Rightarrow> erase_locals \<Rightarrow> u32 \<Rightarrow> u32 \<Rightarrow> u32 list \<Rightarrow> 'h dev \<Rightarrow> (int \<times> u32 list \<times> 'h dev) option" where
  "mmc_do_secure_wipe ops L from nr skip_space s =
     (let m = fst s; can = (\<lambda>feature. secure_feature m AND feature \<noteq> 0); sk = skip_space[0 := 0] in
      if nr = 0 then Some (0, skip_space, s)
      else if IS_SD m then Some (-2, skip_space, s)
      else if version m \<le> 0x10429 then
        if can EXT_CSD_SEC_ER_EN then
          if can EXT_CSD_SEC_GB_CL_EN then erase_or_skip ops L from nr sk MMC_SECURE_TRIM1_ARG s
          else mmc_insecure_secure_erase ops L from nr sk True s
        else if can EXT_CSD_SEC_GB_CL_EN then erase_or_skip ops L from nr sk MMC_TRIM_ARG s
        else Some (-2, mmc_add_skip_space sk 0 from nr, s)
      else if version m \<le> 0x10500 then
        if can EXT_CSD_SEC_SANITIZE then do {
          (ret, sk, s) \<leftarrow> (if can EXT_CSD_SEC_GB_CL_EN then erase_or_skip ops L from nr sk MMC_TRIM_ARG s
            else mmc_insecure_secure_erase ops L from nr sk False s);
          if ret \<noteq> 0 then Some (ret, sk, s)
          else case mmc_do_sanitize ops s of (ret, s) \<Rightarrow>
            Some (ret, if ret \<noteq> 0 then mmc_add_skip_space (sk[0 := 0]) 0 from nr else sk, s)
        }
        else Some (-2, mmc_add_skip_space sk 0 from nr, s)
      else Some (-3, sk, s))"

text \<open>The calls by device number, on the device found there.\<close>

definition with_device ::
  "mmc option list \<Rightarrow> int \<Rightarrow> ('h dev \<Rightarrow> ('r \<times> 'h dev) option) \<Rightarrow> mem \<times> 'h \<Rightarrow> ('r \<times> mmc option list \<times> mem \<times> 'h) option" where
  "with_device devs dev_num f w =
     (case find_mmc_device devs dev_num of Some (Some m) \<Rightarrow> do {
        (ret, m, w) \<leftarrow> f (m, w);
        Some (ret, devs[nat dev_num := Some m], w)
      } | _ \<Rightarrow> None)"

definition mmc_secure_wipe where
  "mmc_secure_wipe ops L devs dev_num start blkcnt skip_space =
     with_device devs dev_num (\<lambda>s.
       if drv_wipe_feature (mcfg (fst s)) AND 1 \<noteq> 0 then Some ((-1, skip_space), s)
       else do {
         (ret, sk, s) \<leftarrow> mmc_do_secure_wipe ops L start blkcnt skip_space s;
         Some ((if ret = -1 then ret else if ret = -2 \<or> ret = -3 then -1 else if sk ! 0 \<noteq> 0 then 1 else (0 :: int), sk), s)
       })"

text \<open>\<open>start + blkcnt\<close> is compared and clipped in 32 bits.\<close>

definition clip :: "mmc \<Rightarrow> u32 \<Rightarrow> u32 \<Rightarrow> u32" where
  "clip m start blkcnt = (if start + blkcnt > block_dev_lba m then block_dev_lba m - start else blkcnt)"

definition mmc_mmc_erase where
  "mmc_mmc_erase ops L devs dev_num start blkcnt skip_space =
     with_device devs dev_num (\<lambda>s.
       if IS_SD (fst s) then Some ((-1, skip_space), s)
       else if drv_erase_feature (mcfg (fst s)) AND 1 \<noteq> 0 then Some ((-1, skip_space), s)
       else if blkcnt = 0 then Some ((0, skip_space), s)
       else do {
         (ret, sk, s) \<leftarrow> mmc_insecure_secure_erase ops L start (clip (fst s) start blkcnt) skip_space False s;
         let ret = (if sk ! 0 \<noteq> 0 then 1 else ret);
         let s = (if drv_erase_feature (mcfg (fst s)) AND 2 \<noteq> 0 \<and> secure_feature (fst s) AND EXT_CSD_SEC_SANITIZE \<noteq> 0
                  then snd (mmc_do_sanitize ops s) else s);
         Some ((ret, sk), s)
       })"

definition mmc_mmc_sanitize where
  "mmc_mmc_sanitize ops devs dev_num =
     with_device devs dev_num (\<lambda>s.
       if IS_SD (fst s) \<or> secure_feature (fst s) AND EXT_CSD_SEC_SANITIZE = 0 then Some (-1 :: int, s)
       else case mmc_do_sanitize ops s of (ret, s) \<Rightarrow> Some (if ret \<noteq> 0 then -1 else 0, s))"

definition mmc_mmc_trim where
  "mmc_mmc_trim ops L devs dev_num start blkcnt =
     with_device devs dev_num (\<lambda>s.
       if IS_SD (fst s) then Some (-1, s) else if blkcnt = 0 then Some (0, s)
       else if secure_feature (fst s) AND EXT_CSD_SEC_GB_CL_EN = 0 then Some (-1, s)
       else mmc_erase ops L start (clip (fst s) start blkcnt) MMC_TRIM_ARG s)"

definition mmc_mmc_discard where
  "mmc_mmc_discard ops L devs dev_num start blkcnt =
     with_device devs dev_num (\<lambda>s.
       if IS_SD (fst s) then Some (-1, s) else if blkcnt = 0 then Some (0, s)
       else if version (fst s) < 0x10405 then Some (-1, s)
       else mmc_erase ops L start (clip (fst s) start blkcnt) MMC_DISCARD_ARG s)"

definition mmc_mmc_secure_erase where
  "mmc_mmc_secure_erase ops L devs dev_num start blkcnt skip_space =
     with_device devs dev_num (\<lambda>s.
       if IS_SD (fst s) then Some ((-1, skip_space), s) else if blkcnt = 0 then Some ((0, skip_space), s)
       else if secure_feature (fst s) AND EXT_CSD_SEC_ER_EN = 0 then Some ((-1, skip_space), s)
       else do {
         (ret, sk, s) \<leftarrow> mmc_insecure_secure_erase ops L start (clip (fst s) start blkcnt) skip_space True s;
         Some ((ret, sk), s)
       })"

definition mmc_mmc_secure_trim where
  "mmc_mmc_secure_trim ops L devs dev_num start blkcnt =
     with_device devs dev_num (\<lambda>s.
       if IS_SD (fst s) then Some (-1, s) else if blkcnt = 0 then Some (0, s)
       else if secure_feature (fst s) AND EXT_CSD_SEC_ER_EN = 0 \<or> secure_feature (fst s) AND EXT_CSD_SEC_GB_CL_EN = 0
       then Some (-1, s)
       else mmc_erase ops L start (clip (fst s) start blkcnt) MMC_SECURE_TRIM1_ARG s)"

section \<open>Which blocks are erased\<close>

text \<open>
  The host functions with a log of the commands \<open>MMC_CMD_ERASE_GROUP_START\<close> (35), \<open>MMC_CMD_ERASE_GROUP_END\<close> (36) and \<open>MMC_CMD_ERASE\<close>
  (38) that reach the card.
\<close>

type_synonym 'h logged_host = "'h \<times> (u16 \<times> u32) list"

definition erase_log :: "'h mmc_ops \<Rightarrow> 'h logged_host mmc_ops" where
  "erase_log ops = \<lparr>
     send_cmd = (\<lambda>m cmd data (mem, h, l). case send_cmd ops m cmd data (mem, h) of (ret, resp, mem, h) \<Rightarrow>
       (ret, resp, mem, h, if cmdidx cmd \<in> {35, 36, 38} then l @ [(cmdidx cmd, cmdarg cmd)] else l)),
     set_ios = (\<lambda>m (mem, h, l). case set_ios ops m (mem, h) of (c, mem, h) \<Rightarrow> (c, mem, h, l)),
     update_phase = (\<lambda>m (mem, h, l). case update_phase ops m (mem, h) of (ret, mem, h) \<Rightarrow> (ret, mem, h, l))\<rparr>"

abbreviation elog :: "'h logged_host dev \<Rightarrow> (u16 \<times> u32) list" where
  "elog s \<equiv> snd (snd (snd s))"

text \<open>The commands that erase the blocks \<open>from\<close> to \<open>to\<close>.\<close>

definition erase_cmds :: "mmc \<Rightarrow> u32 \<Rightarrow> u32 \<Rightarrow> u32 \<Rightarrow> (u16 \<times> u32) list" where
  "erase_cmds m from to arg = [(35, blk_arg m from (write_bl_len m)), (36, blk_arg m to (write_bl_len m)), (38, arg)]"

lemma send_log:
  assumes "mmc_send_cmd (erase_log ops) cmd data s = (ret, resp, s')"
  shows "fst s' = fst s \<and> elog s' = elog s @ (if cmdidx cmd \<in> {35, 36, 38} then [(cmdidx cmd, cmdarg cmd)] else [])"
  using assms by (cases s) (auto simp: mmc_send_cmd_def erase_log_def split: prod.splits)

lemma poll_log:
  "status_poll (erase_log ops) cmd n r s = (ret, s') \<Longrightarrow> cmdidx cmd = 13 \<Longrightarrow> fst s' = fst s \<and> elog s' = elog s"
proof (induction n arbitrary: r s)
  case 0
  then show ?case
    by (subst (asm) status_poll.simps) (auto split: prod.splits if_splits dest!: send_log)
next
  case (Suc n)
  obtain err resp t where send: "mmc_send_cmd (erase_log ops) cmd None s = (err, resp, t)" by (metis prod_cases3)
  from send_log [OF this] Suc.prems(2) have "fst t = fst s \<and> elog t = elog s" by simp
  with Suc.prems(1) Suc.IH [of _ t, OF _ Suc.prems(2)] send show ?case
    by (subst (asm) status_poll.simps) (auto split: if_splits)
qed

lemma status_log: "mmc_send_status (erase_log ops) t s = (ret, s') \<Longrightarrow> fst s' = fst s \<and> elog s' = elog s"
  unfolding mmc_send_status_def by (rule poll_log) auto

lemma addr_log:
  assumes "erase_addr (erase_log ops) idx a s = (err, s')" "idx \<in> {35, 36}"
  shows "fst s' = fst s \<and> elog s' = elog s @ [(idx, blk_arg (fst s) a (write_bl_len (fst s)))]"
  using assms unfolding erase_addr_def
  by (auto simp: plain_cmd_def split: prod.splits if_splits dest!: send_log status_log)

text \<open>The time limits are the only fields that an erase changes.\<close>

definition same_card :: "mmc \<Rightarrow> mmc \<Rightarrow> bool" where
  "same_card m m' \<longleftrightarrow> (\<exists>t u v w. m' = m\<lparr>erase_timeout := t, trim_discard_timeout := u, secure_erase_timeout := v, secure_trim_timeout := w\<rparr>)"

lemma update_timeout_log:
  assumes "clock (fst s) div 1000 \<noteq> 0"
  obtains ret s' where "mmc_mmc_update_timeout (erase_log ops) L s = Some (ret, s')" "same_card (fst s) (fst s')" "elog s' = elog s"
proof -
  obtain err s1 where csd: "mmc_send_ext_csd (erase_log ops) (csd_buf L) s = (err, s1)" by (meson surj_pair)
  then have s1: "fst s1 = fst s" "elog s1 = elog s"
    by (auto simp: mmc_send_ext_csd_def plain_cmd_def split: prod.splits dest!: send_log)
  have refl: "same_card (fst s) (fst s)"
    unfolding same_card_def by (rule exI [of _ "erase_timeout (fst s)"], rule exI [of _ "trim_discard_timeout (fst s)"],
      rule exI [of _ "secure_erase_timeout (fst s)"], rule exI [of _ "secure_trim_timeout (fst s)"]) simp
  have "mmc_mmc_def_erase_timeout (fst s) \<noteq> None"
    using assms by (simp add: mmc_mmc_def_erase_timeout_def Let_def)
  then obtain t where t: "mmc_mmc_def_erase_timeout (fst s) = Some t" by blast
  show thesis
  proof (cases "err = 0")
    case False
    with csd s1 refl show thesis by (intro that [of err s1]) (simp_all add: mmc_mmc_update_timeout_def)
  next
    case True
    define d where "d = mmc_decode_ext_csd (mem_at s1 (csd_buf L)) (csd_junk L)"
    obtain t' where t': "(if erase_group_def d \<noteq> 0 \<and> hc_erase_timeout d \<noteq> 0 then Some (hc_erase_timeout d)
        else mmc_mmc_def_erase_timeout (fst s1)) = Some t'" using t s1 by (cases "erase_group_def d \<noteq> 0 \<and> hc_erase_timeout d \<noteq> 0") auto
    show thesis
    proof (rule that)
      show "mmc_mmc_update_timeout (erase_log ops) L s = Some (0, upd_mmc (\<lambda>m. m\<lparr>erase_timeout := t',
          trim_discard_timeout := if rev_csd d \<ge> 4 then trim_timeout d else 0,
          secure_erase_timeout := if rev_csd d \<ge> 4 then t' * sec_erase_mult d else 0,
          secure_trim_timeout := if rev_csd d \<ge> 4 then t' * sec_trim_mult d else 0\<rparr>) s1)"
        using csd True t' by (simp add: mmc_mmc_update_timeout_def flip: d_def)
    qed (use s1 in \<open>auto simp: upd_mmc_def same_card_def\<close>)
  qed
qed

lemma same_card_fields:
  assumes "same_card m m'"
  shows "version m' = version m" "blk_arg m' = blk_arg m" "write_bl_len m' = write_bl_len m" "erase_grp_size m' = erase_grp_size m"
    "erase_cmds m' = erase_cmds m"
  using assms by (auto simp: same_card_def blk_arg_def erase_cmds_def fun_eq_iff)

lemma wait_log:
  assumes "erase_grp_size (fst s) \<noteq> 0"
  shows "\<exists>r s'. erase_wait (erase_log ops) from to arg s = Some (r, s') \<and> elog s' = elog s"
proof -
  obtain qty where qty: "(if IS_SD (fst s) then Some (to - from + 1) else if erase_grp_size (fst s) = 0 then None
      else Some ((to - from) div erase_grp_size (fst s) + 1)) = Some qty" using assms by (cases "IS_SD (fst s)") auto
  obtain r s' where "mmc_send_status (erase_log ops) (mmc_erase_timeout (fst s) arg qty) s = (r, s')" by (meson surj_pair)
  with status_log [OF this] show ?thesis
    by (cases "mmc_erase_timeout (fst s) arg qty = 0") (simp_all add: erase_wait_def qty Let_def)
qed

lemma do_erase_log:
  assumes "clock (fst s) div 1000 \<noteq> 0" "erase_grp_size (fst s) \<noteq> 0"
  obtains ret s' l where "mmc_do_erase (erase_log ops) L from to arg s = Some (ret, s')" "elog s' = elog s @ l"
    "prefix l (erase_cmds (fst s) from to arg)" "ret = 0 \<longrightarrow> l = erase_cmds (fst s) from to arg"
proof -
  obtain r0 s0 where s0: "mmc_mmc_update_timeout (erase_log ops) L s = Some (r0, s0)" "same_card (fst s) (fst s0)" "elog s0 = elog s"
    using update_timeout_log [OF assms(1)] .
  obtain r1 s1 where s1: "erase_addr (erase_log ops) 35 from s0 = (r1, s1)" by (meson surj_pair)
  obtain r2 s2 where s2: "erase_addr (erase_log ops) 36 to s1 = (r2, s2)" by (meson surj_pair)
  obtain r3 s3 where s3: "mmc_launch_erase (erase_log ops) arg s2 = (r3, s3)" by (meson surj_pair)
  note fields = same_card_fields [OF s0(2)]
  have l1: "fst s1 = fst s0" "elog s1 = elog s @ [(35, blk_arg (fst s) from (write_bl_len (fst s)))]"
    using addr_log [OF s1] s0(3) fields by simp_all
  have l2: "fst s2 = fst s0" "elog s2 = elog s1 @ [(36, blk_arg (fst s) to (write_bl_len (fst s)))]"
    using addr_log [OF s2] l1(1) fields by simp_all
  have l3: "fst s3 = fst s0" "elog s3 = elog s2 @ [(38, arg)]"
    using s3 l2(1) by (auto simp: mmc_launch_erase_def plain_cmd_def split: prod.splits dest!: send_log)
  have full: "elog s3 = elog s @ erase_cmds (fst s) from to arg"
    using l1(2) l2(2) l3(2) by (simp add: erase_cmds_def)
  note step = that [unfolded mmc_do_erase_def mmc_set_erase_start_addr_def mmc_set_erase_end_addr_def, simplified s0(1)]
  consider "r1 \<noteq> 0" | "r1 = 0" "r2 \<noteq> 0" | "r1 = 0" "r2 = 0" "r3 \<noteq> 0" | "r1 = 0" "r2 = 0" "r3 = 0" by blast
  then show thesis
  proof cases
    case 1
    with l1 s1 show thesis by (intro step [of r1 s1 "[(35, blk_arg (fst s) from (write_bl_len (fst s)))]"])
        (simp_all add: ok_then_def erase_cmds_def)
  next
    case 2
    with l1 l2 s1 s2 show thesis by (intro step [of r2 s2 "take 2 (erase_cmds (fst s) from to arg)"])
        (simp_all add: ok_then_def erase_cmds_def)
  next
    case 3
    with full s1 s2 s3 show thesis by (intro step [of r3 s3 "erase_cmds (fst s) from to arg"])
        (simp_all add: ok_then_def)
  next
    case 4
    have grp: "erase_grp_size (fst s3) \<noteq> 0" using assms(2) fields l3(1) by simp
    obtain r4 s4 where s4: "erase_wait (erase_log ops) from to arg s3 = Some (r4, s4)" "elog s4 = elog s3"
      using wait_log [OF grp, of ops "from" to arg] by blast
    with full s1 s2 s3 4 show thesis by (intro step [of r4 s4 "erase_cmds (fst s) from to arg"])
        (simp_all add: ok_then_def)
  qed
qed

lemma erase_range_log:
  assumes "clock (fst s) div 1000 \<noteq> 0" "erase_grp_size (fst s) \<noteq> 0" "nr \<noteq> 0" "arg \<in> {MMC_ERASE_ARG, MMC_SECURE_ERASE_ARG}"
  shows "\<exists>ret s' l. mmc_erase (erase_log ops) L from nr arg s = Some (ret, s') \<and> elog s' = elog s @ l
    \<and> (l \<noteq> [] \<or> ret = 0 \<longrightarrow> mmc_erase_group_aligned (fst s) from nr) \<and> prefix l (erase_cmds (fst s) from (from + nr - 1) arg)
    \<and> (ret = 0 \<longrightarrow> l = erase_cmds (fst s) from (from + nr - 1) arg)"
proof (cases "IS_SD (fst s) \<or> \<not> mmc_erase_group_aligned (fst s) from nr")
  case True
  with assms(3,4) show ?thesis by (intro exI [of _ "-1"] exI [of _ s] exI [of _ "[]"]) (auto simp: mmc_erase_def)
next
  case False
  obtain ret s' l where "mmc_do_erase (erase_log ops) L from (from + nr - 1) arg s = Some (ret, s')" "elog s' = elog s @ l"
    "prefix l (erase_cmds (fst s) from (from + nr - 1) arg)" "ret = 0 \<longrightarrow> l = erase_cmds (fst s) from (from + nr - 1) arg"
    by (rule do_erase_log [OF assms(1,2), of ops L "from" "from + nr - 1" arg])
  with False assms(3,4) show ?thesis
    by (intro exI [of _ "if ret \<noteq> 0 then -1 else 0"] exI [of _ s'] exI [of _ l]) (auto simp: mmc_erase_def)
qed

section \<open>What is left out\<close>

text \<open>The entries of the array and the blocks of a range.\<close>

definition skipped :: "u32 list \<Rightarrow> (u32 \<times> u32) list" where
  "skipped sk = map (\<lambda>i. (sk ! (i * 2 + 1), sk ! (i * 2 + 2))) (filter (bit (sk ! 0)) [0, 1])"

definition range_blocks :: "u32 \<times> u32 \<Rightarrow> nat set" where
  "range_blocks r = {unat (fst r)..<unat (fst r) + unat (snd r)}"

lemma skipped_one: "5 \<le> length sk \<Longrightarrow> skipped (mmc_add_skip_space (sk[0 := 0]) 0 f n) = [(f, n)]"
  by (auto simp: skipped_def mmc_add_skip_space_def Suc_le_length_iff numeral_eq_Suc)

lemma skipped_two:
  "5 \<le> length sk \<Longrightarrow> skipped (mmc_add_skip_space (mmc_add_skip_space (sk[0 := 0]) 0 f n) (Suc 0) f' n') = [(f, n), (f', n')]"
  by (auto simp: skipped_def mmc_add_skip_space_def Suc_le_length_iff eval_nat_numeral)

lemma skipped_none: "5 \<le> length sk \<Longrightarrow> skipped (sk[0 := 0]) = []"
  by (auto simp: skipped_def Suc_le_length_iff numeral_eq_Suc)

lemma skip_length: "5 \<le> length sk \<Longrightarrow> mmc_add_skip_space (sk[0 := 0]) 0 f n ! 2 = n"
  by (auto simp: mmc_add_skip_space_def Suc_le_length_iff numeral_eq_Suc)

text \<open>The skipped entries are the parts of the range before and after the aligned part.\<close>

lemma report_skips_parts:
  assumes "5 \<le> length sk" "unat from + x + unat an + y = unat nr + unat from" "unat a = unat from + x"
  shows "skipped (report_skips (sk[0 := 0]) from nr a an) =
    (if x = 0 then [] else [(from, of_nat x)]) @ (if y = 0 then [] else [(a + an, of_nat y)])"
proof -
  have words: "of_nat (unat w) = w" for w :: u32 by simp
  have x: "a - from = of_nat x"
    using arg_cong [OF assms(3), of "of_nat :: nat \<Rightarrow> u32"] by (simp only: words of_nat_add) simp
  have y: "nr = an + (of_nat x + of_nat y)"
    using arg_cong [OF assms(2), of "of_nat :: nat \<Rightarrow> u32"] by (simp only: words of_nat_add) (simp add: algebra_simps)
  have "x < 2 ^ 32" "y < 2 ^ 32"
    using assms(2,3) unat_below [of nr] unat_below [of a] by simp_all
  then have "of_nat x = (0 :: u32) \<longleftrightarrow> x = 0" "of_nat y = (0 :: u32) \<longleftrightarrow> y = 0"
    by (simp_all add: word_unat_eq_iff unat_of_nat take_bit_nat_eq_self)
  then show ?thesis
    using assms(1) by (auto simp: report_skips_def x y Let_def skipped_none skipped_one skipped_two skip_length)
qed

lemma parts_tile:
  assumes "5 \<le> length sk" "unat from + x + unat an + y = unat nr + unat from" "unat a = unat from + x"
    and "unat from + unat nr \<le> 2 ^ 32"
  shows "range_blocks (from, nr) = range_blocks (a, an) \<union> \<Union> (range_blocks ` set (skipped (report_skips (sk[0 := 0]) from nr a an)))"
    and "unat nr = unat an + sum_list (map (\<lambda>(f, k). unat k) (skipped (report_skips (sk[0 := 0]) from nr a an)))"
proof -
  have "x < 2 ^ 32" "y < 2 ^ 32"
    using assms(2,3) unat_below [of nr] unat_below [of a] by simp_all
  then have xy: "unat (of_nat x :: u32) = x" "unat (of_nat y :: u32) = y"
    by (simp_all add: unat_of_nat take_bit_nat_eq_self)
  have e: "unat (a + an) = unat from + x + unat an" if "y \<noteq> 0"
    using assms that by (simp add: unat_word_ariths)
  note skips = report_skips_parts [OF assms(1-3)]
  show "range_blocks (from, nr) = range_blocks (a, an) \<union> \<Union> (range_blocks ` set (skipped (report_skips (sk[0 := 0]) from nr a an)))"
    unfolding skips using assms(2,3) xy e by (auto simp: range_blocks_def)
  show "unat nr = unat an + sum_list (map (\<lambda>(f, k). unat k) (skipped (report_skips (sk[0 := 0]) from nr a an)))"
    unfolding skips using assms(2) xy by simp
qed

lemma mod_aligned_word: "(a :: u32) mod g = 0 \<longleftrightarrow> unat g dvd unat a"
  by (simp add: word_unat_eq_iff unat_mod dvd_eq_mod_eq_0)

text \<open>Alignment keeps whole groups of the range, or leaves a length that is not a whole number of groups.\<close>

lemma align_parts:
  assumes "erase_grp_size m \<noteq> 0" "unat from + unat nr + unat (erase_grp_size m) \<le> 2 ^ 32"
  shows "\<exists>a n. mmc_align_erase_group m from nr = Some (a, n) \<and> (n \<noteq> 0 \<longrightarrow> mmc_erase_group_aligned m a n \<longrightarrow>
    (\<exists>x y. unat a = unat from + x \<and> unat from + x + unat n + y = unat nr + unat from))"
proof -
  define g where "g = erase_grp_size m"
  define r where "r = (if from mod g \<noteq> 0 then g - from mod g else 0)"
  have g: "0 < unat g" using assms(1) by (simp add: g_def unat_gt_0)
  have "from mod g \<le> g" using g by (simp add: word_le_nat_alt unat_mod less_imp_le)
  then have r: "unat r < unat g"
    using g by (simp add: r_def unat_sub unat_mod word_unat_eq_iff)
  have a: "unat (from + r) = unat from + unat r"
    using assms(2) r unat_below [of nr] by (simp add: unat_word_ariths g_def)
  show ?thesis
  proof (cases "r \<noteq> 0 \<and> \<not> nr > r")
    case True
    then have "unat nr < unat g" using r by (simp add: word_less_nat_alt)
    then have "\<not> mmc_erase_group_aligned m (from + r) nr" if "nr \<noteq> 0"
      using that by (auto simp: mmc_erase_group_aligned_def mod_aligned_word unat_gt_0 dest!: dvd_imp_le simp flip: g_def)
    moreover have "mmc_align_erase_group m from nr = Some (from + r, nr)"
      using assms(1) True by (simp add: mmc_align_erase_group_def Let_def flip: g_def r_def)
    ultimately show ?thesis by auto
  next
    case False
    define c where "c = nr - r"
    have c: "unat c = unat nr - unat r" "unat r \<le> unat nr"
      using False by (auto simp: c_def unat_sub word_less_nat_alt word_le_nat_alt)
    have "c mod g \<le> c" by (simp add: word_le_nat_alt unat_mod)
    then have "unat (c - c mod g) \<le> unat c" by (simp add: unat_sub)
    moreover have "mmc_align_erase_group m from nr = Some (from + r, c - c mod g)"
      using assms(1) False by (auto simp: mmc_align_erase_group_def Let_def c_def simp flip: g_def r_def)
    ultimately show ?thesis
      using a c by (auto intro!: exI [of _ "unat r"] exI [of _ "unat c - unat (c - c mod g)"])
  qed
qed

lemma aligned_parts:
  assumes "erase_grp_size m \<noteq> 0" "unat from + unat nr + unat (erase_grp_size m) \<le> 2 ^ 32"
  shows "\<exists>a n. (if mmc_erase_group_aligned m from nr then Some (from, nr) else mmc_align_erase_group m from nr) = Some (a, n) \<and>
    (n \<noteq> 0 \<longrightarrow> mmc_erase_group_aligned m a n \<longrightarrow>
      (\<exists>x y. unat a = unat from + x \<and> unat from + x + unat n + y = unat nr + unat from))"
proof (cases "mmc_erase_group_aligned m from nr")
  case True
  then show ?thesis by (intro exI [of _ "from"] exI [of _ nr]) (auto intro: exI [of _ 0])
qed (use align_parts [OF assms] in auto)

lemma erased_part:
  assumes "5 \<le> length sk" "mmc_erase_group_aligned m a n" "unat from + unat nr \<le> 2 ^ 32"
    and "\<exists>x y. unat a = unat from + x \<and> unat from + x + unat n + y = unat nr + unat from"
  shows "unat (erase_grp_size m) dvd unat a \<and> unat (erase_grp_size m) dvd unat n \<and> range_blocks (a, n) \<subseteq> range_blocks (from, nr)"
    and "range_blocks (from, nr) = range_blocks (a, n) \<union> \<Union> (range_blocks ` set (skipped (report_skips (sk[0 := 0]) from nr a n))) \<and>
      unat nr = unat n + sum_list (map (\<lambda>(f, k). unat k) (skipped (report_skips (sk[0 := 0]) from nr a n)))"
proof -
  obtain x y where xy: "unat a = unat from + x" "unat from + x + unat n + y = unat nr + unat from" using assms(4) by blast
  note tile = parts_tile [OF assms(1) xy(2,1) assms(3)]
  show "unat (erase_grp_size m) dvd unat a \<and> unat (erase_grp_size m) dvd unat n \<and> range_blocks (a, n) \<subseteq> range_blocks (from, nr)"
    using assms(2) tile(1) by (auto simp: mmc_erase_group_aligned_def mod_aligned_word)
  show "range_blocks (from, nr) = range_blocks (a, n) \<union> \<Union> (range_blocks ` set (skipped (report_skips (sk[0 := 0]) from nr a n))) \<and>
      unat nr = unat n + sum_list (map (\<lambda>(f, k). unat k) (skipped (report_skips (sk[0 := 0]) from nr a n)))"
    using tile by simp
qed

text \<open>
  C15: Erasing a range tiles it. For every range that stays below the end of the 32-bit block numbers by an erase group, the
  call returns; the commands that reach the card are the start of one erase sequence over whole groups inside the range, or
  none; after a success the whole sequence was sent, and the erased groups together with the blocks reported in
  \<open>skip_space\<close> are exactly the blocks of the range, none of them twice; after a failure the whole range is reported.
\<close>

theorem erase_tiles_range:
  assumes "clock m div 1000 \<noteq> 0" "erase_grp_size m \<noteq> 0" "unat from + unat nr + unat (erase_grp_size m) \<le> 2 ^ 32"
    and "5 \<le> length skip_space"
  shows "\<exists>ret sk m' mem' h' l.
    mmc_insecure_secure_erase (erase_log ops) L from nr skip_space secure (m, mem, h, []) = Some (ret, sk, m', mem', h', l)
    \<and> (ret \<noteq> 0 \<longrightarrow> skipped sk = [(from, nr)])
    \<and> (l = [] \<and> ret \<noteq> 0 \<or> (\<exists>a n.
        unat (erase_grp_size m) dvd unat a \<and> unat (erase_grp_size m) dvd unat n
        \<and> range_blocks (a, n) \<subseteq> range_blocks (from, nr)
        \<and> prefix l (erase_cmds m a (a + n - 1) (if secure then MMC_SECURE_ERASE_ARG else MMC_ERASE_ARG))
        \<and> (ret = 0 \<longrightarrow> l = erase_cmds m a (a + n - 1) (if secure then MMC_SECURE_ERASE_ARG else MMC_ERASE_ARG)
             \<and> range_blocks (from, nr) = range_blocks (a, n) \<union> \<Union> (range_blocks ` set (skipped sk))
             \<and> unat nr = unat n + sum_list (map (\<lambda>(f, k). unat k) (skipped sk)))))"
proof -
  let ?s = "(m, mem, h, [])" and ?arg = "if secure then MMC_SECURE_ERASE_ARG else MMC_ERASE_ARG"
  obtain a n where aligned: "(if mmc_erase_group_aligned m from nr then Some (from, nr) else mmc_align_erase_group m from nr)
      = Some (a, n)" and parts: "n \<noteq> 0 \<longrightarrow> mmc_erase_group_aligned m a n \<longrightarrow>
      (\<exists>x y. unat a = unat from + x \<and> unat from + x + unat n + y = unat nr + unat from)"
    using aligned_parts [OF assms(2,3)] by blast
  show ?thesis
  proof (cases "n = 0")
    case True
    with aligned assms(4) show ?thesis by (auto simp: mmc_insecure_secure_erase_def Let_def skipped_one)
  next
    case False
    obtain ret s' l where erase: "mmc_erase (erase_log ops) L a n ?arg ?s = Some (ret, s')" "elog s' = l"
      "l \<noteq> [] \<or> ret = 0 \<longrightarrow> mmc_erase_group_aligned m a n" "prefix l (erase_cmds m a (a + n - 1) ?arg)"
      "ret = 0 \<longrightarrow> l = erase_cmds m a (a + n - 1) ?arg"
      using erase_range_log [of ?s n ?arg ops L a] assms(1,2) False
      by (simp only: fst_conv snd_conv append_Nil if_split_mem1 simp_thms insert_iff refl if_splits) meson
    obtain m' mem' h' where s': "s' = (m', mem', h', l)" using erase(2) by (cases s') auto
    define sk where "sk = (if ret \<noteq> 0 then mmc_add_skip_space (skip_space[0 := 0]) 0 from nr
      else report_skips (skip_space[0 := 0]) from nr a n)"
    have run: "mmc_insecure_secure_erase (erase_log ops) L from nr skip_space secure ?s = Some (ret, sk, m', mem', h', l)"
      unfolding mmc_insecure_secure_erase_def Let_def fst_conv aligned sk_def
      using False by (cases "ret = 0") (simp_all add: erase(1) s' split del: if_split)
    have skips: "ret \<noteq> 0 \<longrightarrow> skipped sk = [(from, nr)]" using assms(4) by (simp add: sk_def skipped_one)
    show ?thesis
    proof (cases "l \<noteq> [] \<or> ret = 0")
      case True
      have below: "unat from + unat nr \<le> 2 ^ 32" using assms(3) by simp
      from True erase(3) have grp: "mmc_erase_group_aligned m a n" by simp
      note part = erased_part [OF assms(4) grp below parts [rule_format, OF False grp]]
      have "ret = 0 \<Longrightarrow> sk = report_skips (skip_space[0 := 0]) from nr a n" by (simp add: sk_def)
      then have whole: "ret = 0 \<longrightarrow> l = erase_cmds m a (a + n - 1) ?arg
          \<and> range_blocks (from, nr) = range_blocks (a, n) \<union> \<Union> (range_blocks ` set (skipped sk))
          \<and> unat nr = unat n + sum_list (map (\<lambda>(f, k). unat k) (skipped sk))"
        using part(2) erase(5) by (intro impI conjI) simp_all
      show ?thesis
        by (rule exI [of _ ret], rule exI [of _ sk], rule exI [of _ m'], rule exI [of _ mem'], rule exI [of _ h'], rule exI [of _ l],
            intro conjI run skips disjI2, rule exI [of _ a], rule exI [of _ n])
          (intro conjI part(1) [THEN conjunct1] part(1) [THEN conjunct2, THEN conjunct1] part(1) [THEN conjunct2, THEN conjunct2]
            erase(4) whole)
    qed (use run skips in blast)
  qed
qed

section \<open>An example\<close>

definition demo_locals :: erase_locals where
  "demo_locals = \<lparr>csd_buf = 0x1000, csd_junk = \<lparr>rev_csd = 0, erase_group_def = 0, sec_feature_support = 0, generic_cmd6_time = 0,
     power_off_longtime = 0, sectors = 0, hc_erase_size = 0, hc_erase_timeout = 0, sec_trim_mult = 0, sec_erase_mult = 0,
     trim_timeout = 0, data_sector_size = 0, raw_erased_mem_count = 0, raw_ext_csd_structure = 0, raw_card_type = 0,
     raw_hc_erase_gap_size = 0, raw_erase_timeout_mult = 0, raw_hc_erase_grp_size = 0, raw_sec_trim_mult = 0,
     raw_sec_erase_mult = 0, raw_sec_feature_support = 0, raw_trim_mult = 0, raw_sectors = []\<rparr>\<rparr>"

abbreviation (input) csd_log :: "(nat \<Rightarrow> u8) logged_host mmc_ops" where
  "csd_log \<equiv> erase_log (csd_ops False)"

lemma log_send_csd:
  "mmc_send_cmd csd_log cmd (Some d) (m, mem, h, l) = (0, [0x900], m, store_bytes mem (data_buf d) (map h [0..<512]), h,
     if cmdidx cmd \<in> {35, 36, 38} then l @ [(cmdidx cmd, cmdarg cmd)] else l)"
  "cmdidx cmd \<noteq> 6 \<Longrightarrow> mmc_send_cmd csd_log cmd None (m, mem, h, l) = (0, [0x900], m, mem, h,
     if cmdidx cmd \<in> {35, 36, 38} then l @ [(cmdidx cmd, cmdarg cmd)] else l)"
  by (simp_all add: mmc_send_cmd_def erase_log_def csd_ops_def)

lemma log_status_csd: "0 < unat t \<Longrightarrow> unat t < 2 ^ 31 \<Longrightarrow> mmc_send_status csd_log t (m, mem, h, l) = (0, m, mem, h, l)"
  by (subst mmc_send_status_def, subst status_poll.simps)
    (simp add: log_send_csd status_ready_def status_result_def)

definition demo_timed :: mmc where
  "demo_timed = demo_mmc\<lparr>erase_timeout := 1, trim_discard_timeout := 0, secure_erase_timeout := 0, secure_trim_timeout := 0\<rparr>"

lemma demo_update:
  "\<exists>mem'. mmc_mmc_update_timeout csd_log demo_locals (demo_mmc, mem, \<lambda>_. 0, l) = Some (0, demo_timed, mem', \<lambda>_. 0, l)"
  by (simp add: mmc_mmc_update_timeout_def mmc_send_ext_csd_def plain_cmd_def log_send_csd mmc_decode_ext_csd_def csd_at
      demo_locals_def mmc_mmc_def_erase_timeout_def upd_mmc_def demo_mmc_def demo_timed_def tacc_mant_def tacc_exp_def Let_def)

lemma demo_card: "clock demo_mmc = 50000000" "erase_grp_size demo_mmc = 8" "version demo_mmc = 0x10405"
  "erase_grp_size demo_timed = 8" "version demo_timed = 0x10405" "blk_arg demo_timed a n = a" "blk_arg demo_mmc a n = a"
  "erase_timeout demo_timed = 1"
  by (simp_all add: demo_timed_def demo_mmc_def blk_arg_def)

lemma demo_do_erase:
  "\<exists>mem'. mmc_do_erase csd_log demo_locals 8 23 0 (demo_mmc, mem, \<lambda>_. 0, []) =
     Some (0, demo_timed, mem', \<lambda>_. 0, [(35, 8), (36, 23), (38, 0)])"
proof -
  obtain mem' where "mmc_mmc_update_timeout csd_log demo_locals (demo_mmc, mem, \<lambda>_. 0, []) = Some (0, demo_timed, mem', \<lambda>_. 0, [])"
    using demo_update by blast
  then show ?thesis
    by (simp add: mmc_do_erase_def mmc_set_erase_start_addr_def mmc_set_erase_end_addr_def erase_addr_def mmc_launch_erase_def
        plain_cmd_def log_send_csd log_status_csd ok_then_def erase_wait_def demo_card mmc_erase_timeout_def
        mmc_mmc_erase_timeout_def)
qed

lemma demo_erase:
  "\<exists>mem'. mmc_insecure_secure_erase csd_log demo_locals 5 20 [0, 0, 0, 0, 0] False (demo_mmc, mem, \<lambda>_. 0, []) =
     Some (0, [3, 5, 3, 24, 1], demo_timed, mem', \<lambda>_. 0, [(35, 8), (36, 23), (38, 0)])"
proof -
  obtain mem' where run: "mmc_do_erase csd_log demo_locals 8 23 0 (demo_mmc, mem, \<lambda>_. 0, []) =
     Some (0, demo_timed, mem', \<lambda>_. 0, [(35, 8), (36, 23), (38, 0)])" using demo_do_erase by blast
  have "mmc_align_erase_group demo_mmc 5 20 = Some (8, 16)" "\<not> mmc_erase_group_aligned demo_mmc 5 20" "mmc_erase_group_aligned demo_mmc 8 16"
    by (simp_all add: mmc_align_erase_group_def mmc_erase_group_aligned_def demo_card)
  with run show ?thesis
    by (simp add: mmc_insecure_secure_erase_def mmc_erase_def demo_card report_skips_def mmc_add_skip_space_def)
qed

theorem erase_tiles_range_witness:
  "\<exists>sk m' mem' h' l.
    mmc_insecure_secure_erase (erase_log (csd_ops False)) demo_locals 5 20 [0, 0, 0, 0, 0] False (demo_mmc, \<lambda>_. 0, \<lambda>_. 0, [])
      = Some (0, sk, m', mem', h', l)
    \<and> skipped sk = [(5, 3), (24, 1)] \<and> l = [(35, 8), (36, 23), (38, 0)]
    \<and> (\<exists>a n. l = erase_cmds demo_mmc a (a + n - 1) 0
         \<and> range_blocks (5, 20) = range_blocks (a, n) \<union> \<Union> (range_blocks ` set (skipped sk)))"
proof -
  obtain mem' where run: "mmc_insecure_secure_erase csd_log demo_locals 5 20 [0, 0, 0, 0, 0] False (demo_mmc, \<lambda>_. 0, \<lambda>_. 0, []) =
     Some (0, [3, 5, 3, 24, 1], demo_timed, mem', \<lambda>_. 0, [(35, 8), (36, 23), (38, 0)])" using demo_erase by blast
  have "skipped [3, 5, 3, 24, 1] = [(5, 3), (24, 1)]" by (simp add: skipped_def)
  with run show ?thesis
    using erase_tiles_range [of demo_mmc 5 20 "[0, 0, 0, 0, 0]" "csd_ops False" demo_locals False "\<lambda>_. 0" "\<lambda>_. 0"]
    by (auto simp: demo_card)
qed

end
