(* ===== verification/MmcStart.thy ===== *)
theory MmcStart
  imports MmcErase
begin

text \<open>
  Identification of a card, \<open>src/Drivers/SunxiSdMmcDxe/mmc.c\<close>: reset, operating conditions, the CID and CSD registers, the
  extended CSD of eMMC cards, speed and bus width, up to the description of the block device. The argument \<open>B\<close> holds the
  places of the local buffers. The response of a command has four words. A division by zero and an index outside the table
  \<open>fbase\<close> have no result (\<^const>\<open>None\<close>). The printed description of the card is left out.
\<close>

section \<open>Operating conditions\<close>

abbreviation (input) OCR_BUSY :: u32 where "OCR_BUSY \<equiv> 0x80000000"
abbreviation (input) OCR_HCS :: u32 where "OCR_HCS \<equiv> 0x40000000"
abbreviation (input) SD_VERSION_1_0 :: u32 where "SD_VERSION_1_0 \<equiv> 0x20100"
abbreviation (input) SD_VERSION_2 :: u32 where "SD_VERSION_2 \<equiv> 0x20200"
abbreviation (input) MMC_VERSION_UNKNOWN :: u32 where "MMC_VERSION_UNKNOWN \<equiv> 0x10000"
abbreviation (input) MMC_VERSION_4 :: u32 where "MMC_VERSION_4 \<equiv> 0x10400"
abbreviation (input) NO_CARD_ERR :: int where "NO_CARD_ERR \<equiv> -16"

definition mmc_go_idle :: "'h mmc_ops \<Rightarrow> 'h dev \<Rightarrow> int \<times> 'h dev" where
  "mmc_go_idle ops s = (case mmc_send_cmd ops (plain_cmd 0 MMC_RSP_NONE 0) None s of (err, _, s) \<Rightarrow> (err, s))"

text \<open>The loop of \<open>sd_send_op_cond\<close>; its value is the last response.\<close>

fun sd_op_cond_loop :: "'h mmc_ops \<Rightarrow> nat \<Rightarrow> 'h dev \<Rightarrow> (int \<times> u32) \<times> 'h dev" where
  "sd_op_cond_loop ops timeout s =
     (case mmc_send_cmd ops (plain_cmd 55 MMC_RSP_R1 0) None s of (err, _, s) \<Rightarrow>
        if err \<noteq> 0 then ((err, 0), s)
        else
          let arg = voltages (mcfg (fst s)) AND 0xff8000;
              arg = (if version (fst s) = SD_VERSION_2 then arg OR OCR_HCS else arg)
          in case mmc_send_cmd ops (plain_cmd 41 MMC_RSP_R3 arg) None s of (err, response, s) \<Rightarrow>
            if err \<noteq> 0 then ((err, 0), s)
            else if response ! 0 AND OCR_BUSY \<noteq> 0 then ((0, response ! 0), s)
            else if timeout = 0 then ((UNUSABLE_ERR, 0), s)
            else sd_op_cond_loop ops (timeout - 1) s)"

declare sd_op_cond_loop.simps [simp del]

definition set_ocr :: "u32 \<Rightarrow> u16 \<Rightarrow> mmc \<Rightarrow> mmc" where
  "set_ocr w address m = m\<lparr>ocr := w, high_capacity := (w AND OCR_HCS = OCR_HCS), rca := address\<rparr>"

definition sd_send_op_cond :: "'h mmc_ops \<Rightarrow> 'h dev \<Rightarrow> int \<times> 'h dev" where
  "sd_send_op_cond ops s =
     (case sd_op_cond_loop ops 1000 s of ((err, w), s) \<Rightarrow>
        if err \<noteq> 0 then (err, s)
        else (0, upd_mmc (\<lambda>m. set_ocr w 0 (if version m \<noteq> SD_VERSION_2 then m\<lparr>version := SD_VERSION_1_0\<rparr> else m)) s))"

definition mmc_send_op_cond_iter :: "'h mmc_ops \<Rightarrow> bool \<Rightarrow> 'h dev \<Rightarrow> int \<times> 'h dev" where
  "mmc_send_op_cond_iter ops use_arg s =
     (let m = fst s;
          arg = (if use_arg
            then (voltages (mcfg m) AND (op_cond_response m AND 0x007FFF80)) OR (op_cond_response m AND 0x60000000) OR
              (if host_caps (mcfg m) AND 0x20 \<noteq> 0 then OCR_HCS else 0)
            else 0)
      in case mmc_send_cmd ops (plain_cmd 1 MMC_RSP_R3 arg) None s of (err, response, s) \<Rightarrow>
        if err \<noteq> 0 then (err, s) else (0, upd_mmc (\<lambda>m. m\<lparr>op_cond_response := response ! 0\<rparr>) s))"

definition identified_mmc :: "mmc \<Rightarrow> mmc" where
  "identified_mmc m = set_ocr (op_cond_response m) 1 (m\<lparr>version := MMC_VERSION_UNKNOWN\<rparr>)"

definition mmc_send_op_cond :: "'h mmc_ops \<Rightarrow> 'h dev \<Rightarrow> int \<times> 'h dev" where
  "mmc_send_op_cond ops s =
     (let s = upd_mmc (\<lambda>m. m\<lparr>op_cond_pending := True\<rparr>) (snd (mmc_go_idle ops s));
          done = (\<lambda>s. (0, upd_mmc (\<lambda>m. identified_mmc (m\<lparr>op_cond_pending := False\<rparr>)) s));
          busy_set = (\<lambda>s. op_cond_response (fst s) AND OCR_BUSY \<noteq> 0)
      in ok_then (mmc_send_op_cond_iter ops False s) (\<lambda>s.
        if busy_set s then done s
        else ok_then (mmc_send_op_cond_iter ops True s) (\<lambda>s. if busy_set s then done s else (IN_PROGRESS, s))))"

fun complete_op_loop :: "'h mmc_ops \<Rightarrow> nat \<Rightarrow> 'h dev \<Rightarrow> int \<times> 'h dev" where
  "complete_op_loop ops timeout s =
     ok_then (mmc_send_op_cond_iter ops True s) (\<lambda>s.
       if timeout = 0 then (UNUSABLE_ERR, s)
       else if op_cond_response (fst s) AND OCR_BUSY \<noteq> 0 then (0, s)
       else complete_op_loop ops (timeout - 1) s)"

declare complete_op_loop.simps [simp del]

definition mmc_complete_op_cond :: "'h mmc_ops \<Rightarrow> 'h dev \<Rightarrow> int \<times> 'h dev" where
  "mmc_complete_op_cond ops s =
     (if \<not> op_cond_pending (fst s) then (0, s)
      else ok_then (complete_op_loop ops 1000 (upd_mmc (\<lambda>m. m\<lparr>op_cond_pending := False\<rparr>) s)) (\<lambda>s. (0, upd_mmc identified_mmc s)))"

definition mmc_send_if_cond :: "'h mmc_ops \<Rightarrow> 'h dev \<Rightarrow> int \<times> 'h dev" where
  "mmc_send_if_cond ops s =
     (case mmc_send_cmd ops (plain_cmd 8 MMC_RSP_R1
        (push_bit 8 (if voltages (mcfg (fst s)) AND 0xff8000 \<noteq> 0 then 1 else 0) OR 0xaa)) None s of (err, response, s) \<Rightarrow>
        if err \<noteq> 0 then (err, s)
        else if response ! 0 AND 0xff \<noteq> 0xaa then (UNUSABLE_ERR, s)
        else (0, upd_mmc (\<lambda>m. m\<lparr>version := SD_VERSION_2\<rparr>) s))"

section \<open>The registers of the card\<close>

record start_locals =
  ext_buf :: u64
  timeout_locals :: erase_locals
  freq_buf :: u64
  scr_buf :: u64
  status_buf :: u64

definition fbase :: "u32 list" where
  "fbase = [10000, 100000, 1000000, 10000000]"

definition multipliers :: "u32 list" where
  "multipliers = [0, 10, 12, 13, 15, 20, 25, 30, 35, 40, 45, 50, 55, 60, 70, 80]"

definition csd_version :: "u32 \<Rightarrow> u32" where
  "csd_version w =
     (let v = drop_bit 26 w AND 0xf in
      if v = 1 then 0x10104 else if v = 2 then 0x10202 else if v = 3 then 0x10300 else if v = 4 then MMC_VERSION_4 else 0x10102)"

text \<open>The size of the user area in bytes from the CSD.\<close>

definition csd_capacity :: "bool \<Rightarrow> u32 list \<Rightarrow> u32 \<Rightarrow> u64" where
  "csd_capacity hc c bl_len =
     (let csize = (if hc then push_bit 16 (c ! 1 AND 0x3f) OR drop_bit 16 (c ! 2 AND 0xffff0000)
            else push_bit 2 (c ! 1 AND 0x3ff) OR drop_bit 30 (c ! 2 AND 0xc0000000));
          cmult = (if hc then 8 else drop_bit 15 (c ! 2 AND 0x00038000))
      in push_bit (unat cmult + 2) (ucast csize + 1) * ucast bl_len)"

definition bl_len_of :: "u32 \<Rightarrow> u32" where
  "bl_len_of e = push_bit (unat (e AND 0xf)) 1"

definition decode_csd :: "mmc \<Rightarrow> mmc option" where
  "decode_csd m =
     (let c = csd m;
          m = (if version m = MMC_VERSION_UNKNOWN then m\<lparr>version := csd_version (c ! 0)\<rparr> else m);
          rd = bl_len_of (drop_bit 16 (c ! 1));
          wr = (if IS_SD m then rd else bl_len_of (drop_bit 22 (c ! 3)))
      in if unat (c ! 0 AND 0x7) < length fbase
         then Some (m\<lparr>tran_speed := fbase ! unat (c ! 0 AND 0x7) * multipliers ! unat (drop_bit 3 (c ! 0) AND 0xf),
           dsr_imp := drop_bit 12 (c ! 1) AND 1,
           capacity_user := csd_capacity (high_capacity m) c rd, capacity_boot := 0, capacity_rpmb := 0, capacity_gp := [0, 0, 0, 0],
           read_bl_len := (if rd > 512 then 512 else rd), write_bl_len := (if wr > 512 then 512 else wr)\<rparr>)
         else None)"

text \<open>The result of the status poll after the CSD is not used.\<close>

definition startup_registers :: "'h mmc_ops \<Rightarrow> 'h dev \<Rightarrow> int \<times> 'h dev" where
  "startup_registers ops s =
     (case mmc_send_cmd ops (plain_cmd 2 MMC_RSP_R2 0) None s of (err, r, s) \<Rightarrow>
        if err \<noteq> 0 then (err, s)
        else
          let s = upd_mmc (\<lambda>m. m\<lparr>cid := [r ! 0, r ! 1, r ! 2, r ! 3]\<rparr>) s
          in case mmc_send_cmd ops (plain_cmd 3 MMC_RSP_R1 (rca_arg (fst s))) None s of (err, r, s) \<Rightarrow>
            if err \<noteq> 0 then (err, s)
            else
              let s = upd_mmc (\<lambda>m. if IS_SD m then m\<lparr>rca := ucast (drop_bit 16 (r ! 0))\<rparr> else m) s
              in case mmc_send_cmd ops (plain_cmd 9 MMC_RSP_R2 (rca_arg (fst s))) None s of (err, r, s) \<Rightarrow>
                case mmc_send_status ops 1000 s of (_, s) \<Rightarrow>
                  if err \<noteq> 0 then (err, s) else (0, upd_mmc (\<lambda>m. m\<lparr>csd := [r ! 0, r ! 1, r ! 2, r ! 3]\<rparr>) s))"

text \<open>The driver stage register is set only when the card has it and a value was asked for; a failure is only printed.\<close>

definition startup_select :: "'h mmc_ops \<Rightarrow> 'h dev \<Rightarrow> int \<times> 'h dev" where
  "startup_select ops s =
     (let m = fst s;
          s = (if dsr_imp m \<noteq> 0 \<and> dsr m \<noteq> 0xffffffff
               then snd (snd (mmc_send_cmd ops (plain_cmd 4 MMC_RSP_NONE (push_bit 16 (dsr m AND 0xffff))) None s)) else s)
      in case mmc_send_cmd ops (plain_cmd 7 MMC_RSP_R1b (rca_arg (fst s))) None s of (err, _, s) \<Rightarrow> (err, s))"

section \<open>The extended CSD at start-up\<close>

definition ext_version :: "u8 \<Rightarrow> u32 \<Rightarrow> u32" where
  "ext_version r v =
     (if r = 0 then MMC_VERSION_4 else if r = 1 then 0x10401 else if r = 2 then 0x10402 else if r = 3 then 0x10403
      else if r = 5 then 0x10429 else if r = 6 then 0x10405 else if r = 7 then 0x10500 else if r = 8 then 0x10501
      else if r > 8 then 0x10fff else v)"

definition sec_count :: "(nat \<Rightarrow> u8) \<Rightarrow> u64" where
  "sec_count e = ucast (e 212) OR push_bit 8 (ucast (e 213)) OR push_bit 16 (ucast (e 214)) OR push_bit 24 (ucast (e 215))"

definition ext_capacity :: "int \<Rightarrow> (nat \<Rightarrow> u8) \<Rightarrow> mmc \<Rightarrow> mmc" where
  "ext_capacity err e m =
     (let capacity = sec_count e * 512 in
      if err = 0 \<and> e 192 \<ge> 2 \<and> drop_bit 20 capacity > 2 * 1024 then m\<lparr>capacity_user := capacity\<rparr> else m)"

definition hc_group :: "(nat \<Rightarrow> u8) \<Rightarrow> mmc \<Rightarrow> u32" where
  "hc_group e m = (ucast (e 224) * 512 * 1024) div write_bl_len m"

definition erase_group :: "(nat \<Rightarrow> u8) \<Rightarrow> mmc \<Rightarrow> u32" where
  "erase_group e m =
     (let erase_gsz = drop_bit 10 (csd m ! 2 AND 0x00007c00);
          erase_gmul = drop_bit 5 (csd m ! 2 AND 0x000003e0)
      in if e 175 \<noteq> 0 \<and> hc_group e m \<noteq> 0 \<and> 300 * (ucast (e 223) :: u32) \<noteq> 0 then hc_group e m
         else (erase_gsz + 1) * (erase_gmul + 1))"

definition gp_size :: "(nat \<Rightarrow> u8) \<Rightarrow> nat \<Rightarrow> u64" where
  "gp_size e i =
     (push_bit 16 (ucast (e (143 + i * 3 + 2))) + push_bit 8 (ucast (e (143 + i * 3 + 1))) + ucast (e (143 + i * 3)))
       * ucast (e 224) * ucast (e 221)"

definition ext_fields :: "(nat \<Rightarrow> u8) \<Rightarrow> mmc \<Rightarrow> mmc" where
  "ext_fields e m =
     (let m = m\<lparr>secure_feature := e 231, secure_removal_type := e 16\<rparr>;
          m = (if e 160 AND 1 \<noteq> 0 \<or> e 226 \<noteq> 0
               then let m = m\<lparr>part_config := e 179, capacity_boot := ucast (e 226) * 128 * 1024, capacity_rpmb := ucast (e 168) * 128 * 1024,
                          capacity_gp := map (gp_size e) [0, 1, 2, 3]\<rparr>
                    in if capacity_boot m \<noteq> 0 then m\<lparr>boot_support := 1, boot_bus_cond := e 177\<rparr> else m
               else m)
      in m\<lparr>pre_eol_info := e 267, dev_life_time_typea := e 268, dev_life_time_typeb := e 269,
           vendor_health_report := map e [270..<302]\<rparr>)"

text \<open>The result of the read is used for the capacity only; the buffer is read whatever it is.\<close>

definition startup_ext :: "'h mmc_ops \<Rightarrow> start_locals \<Rightarrow> 'h dev \<Rightarrow> (int \<times> 'h dev) option" where
  "startup_ext ops B s =
     (if IS_SD (fst s) \<or> version (fst s) < MMC_VERSION_4 then Some (0, s)
      else case mmc_send_ext_csd ops (ext_buf B) s of (err, s) \<Rightarrow>
        let e = mem_at s (ext_buf B);
            s = upd_mmc (\<lambda>m. ext_capacity err e m\<lparr>version := ext_version (e 192) (version m)\<rparr>) s
        in do {
          (_, s) \<leftarrow> mmc_mmc_update_timeout ops (timeout_locals B) s;
          let e = mem_at s (ext_buf B);
          let hc = hc_group e (fst s);
          let s = upd_mmc (\<lambda>m. m\<lparr>erase_grp_size := erase_group e m\<rparr>) s;
          let (err, s) = (if e 160 AND 1 \<noteq> 0 \<and> e 156 AND 0x1f \<noteq> 0
            then ok_then (mmc_switch ops 1 175 1 s) (\<lambda>s. (0, upd_mmc (\<lambda>m. m\<lparr>erase_grp_size := hc\<rparr>) s)) else (0, s));
          Some (if err \<noteq> 0 then (err, s) else (0, upd_mmc (ext_fields (mem_at s (ext_buf B))) s))
        })"

section \<open>Speed, width and block device\<close>

definition startup_width :: "'h mmc_ops \<Rightarrow> 'h dev \<Rightarrow> int \<times> 'h dev" where
  "startup_width ops s =
     (let m = fst s; caps = card_caps m in
      if IS_SD m then
        ok_then
          (if caps AND 0x4 \<noteq> 0
           then case mmc_send_cmd ops (plain_cmd 55 MMC_RSP_R1 (rca_arg m)) None s of (err, _, s) \<Rightarrow>
             if err \<noteq> 0 then (err, s)
             else case mmc_send_cmd ops (plain_cmd 6 MMC_RSP_R1 2) None s of (err, _, s) \<Rightarrow>
               if err \<noteq> 0 then (err, s) else (0, mmc_set_bus_width ops 4 s)
           else (0, s))
          (\<lambda>s. (0, upd_mmc (\<lambda>m. m\<lparr>tran_speed := (if card_caps m AND 1 \<noteq> 0 then 50000000 else 25000000)\<rparr>) s))
      else
        ok_then
          (if caps AND 0x8 \<noteq> 0
           then ok_then (mmc_switch ops 1 183 (if caps AND 0x40 \<noteq> 0 then 6 else 2) s) (\<lambda>s. (0, mmc_set_bus_width ops 8 s))
           else if caps AND 0x4 \<noteq> 0
           then ok_then (mmc_switch ops 1 183 (if caps AND 0x40 \<noteq> 0 then 5 else 1) s) (\<lambda>s. (0, mmc_set_bus_width ops 4 s))
           else (0, s))
          (\<lambda>s. (0, upd_mmc (\<lambda>m.
             if card_caps m AND 0x40 \<noteq> 0 then m\<lparr>io_mode := 0x40, tran_speed := 52000000\<rparr>
             else m\<lparr>tran_speed := (if card_caps m AND 1 \<noteq> 0 \<and> card_caps m AND 2 \<noteq> 0 then 52000000 else 26000000)\<rparr>) s)))"

definition startup_speed :: "'h mmc_ops \<Rightarrow> start_locals \<Rightarrow> 'h dev \<Rightarrow> int \<times> 'h dev" where
  "startup_speed ops B s =
     ok_then (case mmc_set_capacity (unat (part_num (fst s))) (fst s) of (err, m) \<Rightarrow> (err, m, snd s)) (\<lambda>s.
     ok_then (if IS_SD (fst s) then sd_change_freq ops (scr_buf B) (status_buf B) s else mmc_change_freq ops (freq_buf B) s) (\<lambda>s.
     ok_then (mmc_update_phase ops s) (\<lambda>s.
     ok_then (startup_width ops (upd_mmc (\<lambda>m. m\<lparr>card_caps := card_caps m AND host_caps (mcfg m)\<rparr>) s)) (\<lambda>s.
       (0, upd_mmc (\<lambda>m. m\<lparr>block_dev_blksz := ucast (read_bl_len m), block_dev_lba := ucast (drop_bit 9 (capacity m)),
              clock_after_init := clock m\<rparr>) (mmc_set_clock ops (tran_speed (fst s)) s))))))"

definition mmc_startup :: "'h mmc_ops \<Rightarrow> start_locals \<Rightarrow> 'h dev \<Rightarrow> (int \<times> 'h dev) option" where
  "mmc_startup ops B s =
     (case startup_registers ops s of (err, s) \<Rightarrow>
        if err \<noteq> 0 then Some (err, s)
        else do {
          m \<leftarrow> decode_csd (fst s);
          let (err, s) = startup_select ops (m, snd s);
          if err \<noteq> 0 then Some (err, s)
          else do {
            let s = upd_mmc (\<lambda>m. m\<lparr>erase_grp_size := 1, part_config := 0xff\<rparr>) (mmc_set_clock ops 25000000 s);
            (err, s) \<leftarrow> startup_ext ops B s;
            Some (if err \<noteq> 0 then (err, s) else startup_speed ops B s)
          }
        })"

section \<open>Initialisation\<close>

text \<open>
  The entries \<open>init\<close> and \<open>getcd\<close> of \<open>struct mmc_ops\<close>, which may be null. The work mode and the card type noted by the boot loader
  come from the head of the boot image. \<open>board_mmc_getcd\<close> is the default that returns -1.
\<close>

record 'h mmc_init_ops =
  op_init :: "('h dev \<Rightarrow> int \<times> 'h dev) option"
  op_getcd :: "('h dev \<Rightarrow> int \<times> 'h dev) option"

definition mmc_getcd :: "'h mmc_init_ops \<Rightarrow> 'h dev \<Rightarrow> int \<times> 'h dev" where
  "mmc_getcd iops s = (case op_getcd iops of Some getcd \<Rightarrow> getcd s | None \<Rightarrow> (1, s))"

text \<open>\<open>malloc\<close> is \<open>AllocateZeroPool\<close> (\<open>PrivateDef.h\<close>): the fields of the new struct are 0.\<close>

definition zero_mmc :: "mmc_config \<Rightarrow> mmc" where
  "zero_mmc c = \<lparr>mcfg = c, version = 0, high_capacity = False, bus_width = 0, clock = 0, card_caps = 0, ocr = 0, dsr = 0, dsr_imp = 0,
     has_init = False, scr = [0, 0], csd = [0, 0, 0, 0], cid = [0, 0, 0, 0], rca = 0, part_config = 0, part_num = 0, tran_speed = 0,
     read_bl_len = 0, write_bl_len = 0, erase_grp_size = 0, capacity = 0, capacity_user = 0, capacity_boot = 0, capacity_rpmb = 0,
     capacity_gp = [0, 0, 0, 0], block_dev_lba = 0, block_dev_blksz = 0, op_cond_pending = False, init_in_progress = False,
     op_cond_response = 0, speed_mode = 0, io_mode = 0, clock_after_init = 0, boot_support = 0, boot_bus_cond = 0, erase_timeout = 0,
     trim_discard_timeout = 0, secure_erase_timeout = 0, secure_trim_timeout = 0, secure_feature = 0, secure_removal_type = 0,
     pre_eol_info = 0, dev_life_time_typea = 0, dev_life_time_typeb = 0, vendor_health_report = replicate 32 0, part_support = 0,
     boot1_lba = 0, lba = 0, user_lba = 0\<rparr>"

definition mmc_create :: "mmc_config option \<Rightarrow> bool \<Rightarrow> bool \<Rightarrow> mmc option" where
  "mmc_create cfg has_send_cmd alloc_ok =
     (case cfg of None \<Rightarrow> None
      | Some c \<Rightarrow> if \<not> has_send_cmd \<or> f_min c = 0 \<or> f_max c = 0 \<or> b_max c = 0 then None
          else if \<not> alloc_ok then None
          else Some ((zero_mmc c)\<lparr>dsr_imp := 0, dsr := 0xffffffff\<rparr>))"

abbreviation (input) CARD_TYPE_SD :: u32 where "CARD_TYPE_SD \<equiv> 0x8000001"
abbreviation (input) CARD_TYPE_MMC :: u32 where "CARD_TYPE_MMC \<equiv> 0x8000000"

text \<open>The result of \<open>mmc_send_if_cond\<close> is overwritten in every place.\<close>

definition try_sd :: "'h mmc_ops \<Rightarrow> 'h dev \<Rightarrow> int \<times> 'h dev" where
  "try_sd ops s = sd_send_op_cond ops (snd (mmc_send_if_cond ops s))"

definition try_mmc :: "'h mmc_ops \<Rightarrow> 'h dev \<Rightarrow> int \<times> 'h dev" where
  "try_mmc ops s =
     (case mmc_send_op_cond ops s of (err, s) \<Rightarrow> (if err \<noteq> 0 \<and> err \<noteq> IN_PROGRESS then UNUSABLE_ERR else err, s))"

definition identify :: "'h mmc_ops \<Rightarrow> bool \<Rightarrow> u32 \<Rightarrow> 'h dev \<Rightarrow> int \<times> 'h dev" where
  "identify ops boot card_type s =
     (if boot \<and> card_type = CARD_TYPE_SD
      then case try_sd ops s of (err, s) \<Rightarrow> (if err \<noteq> 0 \<and> err \<noteq> IN_PROGRESS then UNUSABLE_ERR else err, s)
      else if boot \<and> card_type = CARD_TYPE_MMC then try_mmc ops s
      else case try_sd ops s of (err, s) \<Rightarrow> if err = -1 then try_mmc ops s else (err, s))"

definition mmc_start_init :: "'h mmc_ops \<Rightarrow> 'h mmc_init_ops \<Rightarrow> bool \<Rightarrow> u32 \<Rightarrow> 'h dev \<Rightarrow> int \<times> 'h dev" where
  "mmc_start_init ops iops boot card_type s =
     (case mmc_getcd iops s of (cd, s) \<Rightarrow>
        case op_init iops of None \<Rightarrow> (NO_CARD_ERR, upd_mmc (\<lambda>m. m\<lparr>has_init := False\<rparr>) s)
        | Some init \<Rightarrow>
          if cd = 0 then (NO_CARD_ERR, upd_mmc (\<lambda>m. m\<lparr>has_init := False\<rparr>) s)
          else if has_init (fst s) then (0, s)
          else
            ok_then (init s) (\<lambda>s.
            ok_then (mmc_go_idle ops (mmc_set_clock ops 1 (mmc_set_bus_width ops 1 s))) (\<lambda>s.
              case identify ops boot card_type (upd_mmc (\<lambda>m. m\<lparr>part_num := 0\<rparr>) s) of (err, s) \<Rightarrow>
                (err, if err = IN_PROGRESS then upd_mmc (\<lambda>m. m\<lparr>init_in_progress := True\<rparr>) s else s))))"

definition mmc_complete_init :: "'h mmc_ops \<Rightarrow> start_locals \<Rightarrow> 'h dev \<Rightarrow> (int \<times> 'h dev) option" where
  "mmc_complete_init ops B s = do {
     let (err, s) = (if op_cond_pending (fst s) then mmc_complete_op_cond ops s else (0, s));
     (err, s) \<leftarrow> (if err = 0 then mmc_startup ops B s else Some (err, s));
     Some (err, upd_mmc (\<lambda>m. m\<lparr>has_init := (err = 0), init_in_progress := False\<rparr>) s)
   }"

text \<open>The features that the board configuration switches off; only the first of them counts.\<close>

definition limit_features :: "mmc \<Rightarrow> mmc" where
  "limit_features m =
     (let f = drv_wipe_feature (mcfg m) in
      if f AND 2 \<noteq> 0 then m\<lparr>secure_feature := secure_feature m AND NOT EXT_CSD_SEC_SANITIZE\<rparr>
      else if f AND 4 \<noteq> 0 then m\<lparr>secure_feature := secure_feature m AND NOT EXT_CSD_SEC_ER_EN\<rparr>
      else if f AND 8 \<noteq> 0 then m\<lparr>secure_feature := secure_feature m AND NOT EXT_CSD_SEC_GB_CL_EN\<rparr>
      else m)"

text \<open>In boot mode the code also calls \<open>mmc_update_sdly_to_sysconfig\<close>, all of which but a message is compiled out (\<open>#if 0\<close>).\<close>

definition mmc_init_boot ::
  "'h mmc_ops \<Rightarrow> 'h mmc_init_ops \<Rightarrow> start_locals \<Rightarrow> bool \<Rightarrow> u32 \<Rightarrow> 'h dev \<Rightarrow> (int \<times> 'h dev) option" where
  "mmc_init_boot ops iops B boot card_type s = do {
     let (err, s) = (if \<not> init_in_progress (fst s) then mmc_start_init ops iops boot card_type s else (0, s));
     (err, s) \<leftarrow> (if err = 0 \<or> err = IN_PROGRESS then mmc_complete_init ops B s else Some (err, s));
     Some (err, upd_mmc limit_features s)
   }"

section \<open>What the steps leave alone\<close>

text \<open>The fields of the description of a card that only the CSD determines, and the limits of the configuration.\<close>

definition kept :: "mmc \<Rightarrow> mmc \<Rightarrow> bool" where
  "kept m m' \<longleftrightarrow> read_bl_len m' = read_bl_len m \<and> write_bl_len m' = write_bl_len m \<and> high_capacity m' = high_capacity m \<and>
     csd m' = csd m \<and> capacity m' = capacity m \<and> b_max (mcfg m') = b_max (mcfg m) \<and> f_min (mcfg m') = f_min (mcfg m) \<and>
     f_max (mcfg m') = f_max (mcfg m) \<and> part_num m' = part_num m \<and> (IS_SD m' \<longleftrightarrow> IS_SD m)"

lemma kept_refl [simp]: "kept m m"
  by (simp add: kept_def)

lemma kept_trans: "kept m m' \<Longrightarrow> kept m' m'' \<Longrightarrow> kept m m''"
  by (simp add: kept_def)

lemma send_fst [simp]: "fst (snd (snd (mmc_send_cmd ops cmd data s))) = fst s"
  by (simp add: mmc_send_cmd_def split_beta)

lemma send_fst_eq: "mmc_send_cmd ops cmd data s = (err, r, s') \<Longrightarrow> fst s' = fst s"
  by (metis send_fst snd_conv)

lemma step_fst [simp]: "fst (snd (mmc_send_status ops t s)) = fst s" "fst (snd (mmc_update_phase ops s)) = fst s"
    "fst (mmc_set_ios ops s) = (fst s)\<lparr>clock := ios_clock ops s\<rparr>"
    "fst (snd (mmc_switch ops c i v s)) = (fst s)\<lparr>clock := switch_clock ops i v s\<rparr>"
    "fst (snd (mmc_send_ext_csd ops b s)) = fst s" "fst (snd (sd_switch ops md g v b s)) = fst s"
  by (simp_all add: mmc_send_status_def status_fst mmc_update_phase_def set_ios_fst mmc_switch_def do_switch_fst ext_csd_fst
    sd_switch_def split_beta Let_def)

lemma upd_fst [simp]: "fst (upd_mmc f s) = f (fst s)"
  by (simp add: upd_mmc_def)

lemma ok_then_inv:
  assumes "P (fst (snd r))" "\<And>s. P (fst s) \<Longrightarrow> P (fst (snd (k s)))"
  shows "P (fst (snd (ok_then r k)))"
  using assms by (simp add: ok_then_def split_beta)

lemmas ok_then_kept = ok_then_inv [of "kept m" for m]

lemma read_scr_fst: "fst (snd (read_scr ops b n s)) = fst s"
proof (induction n arbitrary: s)
  case 0
  show ?case by (subst read_scr.simps) (simp add: split_beta)
next
  case (Suc n)
  show ?case by (subst read_scr.simps) (simp add: split_beta Suc)
qed

lemma check_hs_fst: "fst (snd (check_hs ops b n s)) = fst s"
  by (induction n arbitrary: s) (simp_all add: ok_then_def split_beta)

lemma scr_version_sd: "scr_version w AND 0x20000 \<noteq> 0"
  by (simp add: scr_version_def Let_def)

lemma kept_update [simp]:
  "kept m (m'\<lparr>card_caps := x\<rparr>) = kept m m'" "kept m (m'\<lparr>speed_mode := y\<rparr>) = kept m m'" "kept m (m'\<lparr>tran_speed := y\<rparr>) = kept m m'"
  "kept m (m'\<lparr>io_mode := y\<rparr>) = kept m m'" "kept m (m'\<lparr>bus_width := y\<rparr>) = kept m m'" "kept m (m'\<lparr>clock := y\<rparr>) = kept m m'"
  "kept m (m'\<lparr>scr := l\<rparr>) = kept m m'" "kept m (m'\<lparr>block_dev_blksz := z\<rparr>) = kept m m'" "kept m (m'\<lparr>block_dev_lba := y\<rparr>) = kept m m'"
  "kept m (m'\<lparr>clock_after_init := y\<rparr>) = kept m m'" "kept m (drop_caps c m') = kept m m'"
  by (simp_all add: kept_def drop_caps_def)

lemma hs_retry_kept [simp]: "kept m (fst (snd (hs_retry ops n s))) = kept m (fst s)"
proof (induction n arbitrary: s)
  case 0
  show ?case by (subst hs_retry.simps) (simp add: split_beta)
next
  case (Suc n)
  show ?case by (subst hs_retry.simps) (simp add: split_beta Suc)
qed

lemma mmc_freq_kept: "kept (fst s) (fst (snd (mmc_change_freq ops b s)))"
  unfolding mmc_change_freq_def Let_def
  by (auto intro!: ok_then_kept)

lemma sd_version_kept: "kept m m' \<Longrightarrow> IS_SD m \<Longrightarrow> v AND 0x20000 \<noteq> 0 \<Longrightarrow> kept m (m'\<lparr>version := v\<rparr>)"
  "kept m m' \<Longrightarrow> IS_SD m \<Longrightarrow> v AND 0x20000 \<noteq> 0 \<Longrightarrow> kept m (m'\<lparr>scr := l, version := v\<rparr>)"
  by (simp_all add: kept_def)

lemma sd_freq_kept: "IS_SD (fst s) \<Longrightarrow> kept (fst s) (fst (snd (sd_change_freq ops b c s)))"
  unfolding sd_change_freq_def Let_def
  by (auto simp: split_beta read_scr_fst check_hs_fst scr_version_sd intro!: ok_then_kept sd_version_kept)

lemma set_clock_kept: "kept m (fst s) \<Longrightarrow> kept m (fst (mmc_set_clock ops f s))"
  "kept m (fst s) \<Longrightarrow> kept m (fst (mmc_set_bus_width ops w s))"
  by (simp_all add: mmc_set_clock_def mmc_set_bus_width_def Let_def)

lemma width_kept: "kept (fst s) (fst (snd (startup_width ops s)))"
  unfolding startup_width_def Let_def
  by (auto simp: split_beta set_clock_kept intro!: ok_then_kept)

definition same_caps :: "mmc \<Rightarrow> mmc \<Rightarrow> bool" where
  "same_caps m m' \<longleftrightarrow> card_caps m' = card_caps m \<and> mcfg m' = mcfg m"

lemma same_caps_update [simp]:
  "same_caps m m" "same_caps m (m'\<lparr>clock := y\<rparr>) = same_caps m m'" "same_caps m (m'\<lparr>bus_width := y\<rparr>) = same_caps m m'"
  "same_caps m (m'\<lparr>tran_speed := y\<rparr>) = same_caps m m'" "same_caps m (m'\<lparr>io_mode := y\<rparr>) = same_caps m m'"
  by (simp_all add: same_caps_def)

lemmas ok_then_caps = ok_then_inv [of "same_caps m" for m]

lemma width_caps:
  "same_caps (fst s) (fst (snd (startup_width ops s)))"
  unfolding startup_width_def Let_def
  by (auto simp: split_beta mmc_set_bus_width_def intro!: ok_then_caps)

lemma ok_then_zero: "ok_then r k = (0, s') \<longleftrightarrow> fst r = 0 \<and> k (snd r) = (0, s')"
  by (auto simp: ok_then_def split_beta prod_eq_iff)

lemma set_clock_fields: "mcfg (fst (mmc_set_clock ops f s)) = mcfg (fst s)" "card_caps (fst (mmc_set_clock ops f s)) = card_caps (fst s)"
  "\<exists>q w. mcfg q = mcfg (fst s) \<and> fst (set_ios ops q w) = clock (fst (mmc_set_clock ops f s)) \<and>
     (f_min (mcfg (fst s)) \<le> f_max (mcfg (fst s)) \<longrightarrow> clock q \<in> {f_min (mcfg (fst s))..f_max (mcfg (fst s))})"
proof -
  define c where "c = mcfg (fst s)"
  define g where "g = (if f > f_max c then f_max c else f)"
  define k where "k = (if g < f_min c then f_min c else g)"
  have "mmc_set_clock ops f s = mmc_set_ios ops (upd_mmc (\<lambda>m. m\<lparr>clock := k\<rparr>) s)"
    by (simp add: mmc_set_clock_def k_def g_def c_def)
  moreover have "f_min c \<le> f_max c \<longrightarrow> k \<in> {f_min c..f_max c}"
    by (auto simp: k_def g_def)
  ultimately show "\<exists>q w. mcfg q = mcfg (fst s) \<and> fst (set_ios ops q w) = clock (fst (mmc_set_clock ops f s)) \<and>
     (f_min (mcfg (fst s)) \<le> f_max (mcfg (fst s)) \<longrightarrow> clock q \<in> {f_min (mcfg (fst s))..f_max (mcfg (fst s))})"
    by (intro exI [of _ "(fst s)\<lparr>clock := k\<rparr>"] exI [of _ "snd s"]) (simp add: c_def ios_clock_def upd_mmc_def)
qed (simp_all add: mmc_set_clock_def Let_def)

lemma set_capacity_kept:
  "mmc_set_capacity p m = (0, m') \<Longrightarrow> kept (m\<lparr>capacity := capacity m'\<rparr>) m' \<and>
     capacity m' = (if p = 0 then capacity_user m else if p \<le> 2 then capacity_boot m else if p = 3 then capacity_rpmb m
       else capacity_gp m ! (p - 4))"
  by (auto simp: mmc_set_capacity_def Let_def kept_def split: if_splits)

text \<open>The clock is what the host has reported when it was asked for a clock within the limits of the configuration.\<close>

definition clock_reported :: "'h mmc_ops \<Rightarrow> mmc \<Rightarrow> bool" where
  "clock_reported ops m \<longleftrightarrow> (\<exists>q w. mcfg q = mcfg m \<and> fst (set_ios ops q w) = clock m \<and>
     (f_min (mcfg m) \<le> f_max (mcfg m) \<longrightarrow> clock q \<in> {f_min (mcfg m)..f_max (mcfg m)}))"

lemma clock_reported_flags [simp]:
  "clock_reported ops (m\<lparr>has_init := b, init_in_progress := c\<rparr>) = clock_reported ops m"
  "clock_reported ops (m\<lparr>block_dev_blksz := x, block_dev_lba := y, clock_after_init := z\<rparr>) = clock_reported ops m"
  by (simp_all add: clock_reported_def)

lemma startup_speed_facts:
  assumes "startup_speed ops B s = (0, s')"
  shows "\<exists>mc. mmc_set_capacity (unat (part_num (fst s))) (fst s) = (0, mc) \<and> kept mc (fst s')"
    and "block_dev_blksz (fst s') = ucast (read_bl_len (fst s'))" "block_dev_lba (fst s') = ucast (drop_bit 9 (capacity (fst s')))"
    and "clock_after_init (fst s') = clock (fst s')" "card_caps (fst s') AND NOT (host_caps (mcfg (fst s'))) = 0"
    and "clock_reported ops (fst s')"
proof -
  obtain e mc where mc: "mmc_set_capacity (unat (part_num (fst s))) (fst s) = (e, mc)" by (meson surj_pair)
  define s1 where "s1 = (mc, snd s)"
  define r2 where "r2 = (if IS_SD mc then sd_change_freq ops (scr_buf B) (status_buf B) s1 else mmc_change_freq ops (freq_buf B) s1)"
  define s3 where "s3 = snd (mmc_update_phase ops (snd r2))"
  define s4 where "s4 = upd_mmc (\<lambda>m. m\<lparr>card_caps := card_caps m AND host_caps (mcfg m)\<rparr>) s3"
  define s5 where "s5 = snd (startup_width ops s4)"
  define s6 where "s6 = mmc_set_clock ops (tran_speed (fst s5)) s5"
  have e: "e = 0" and s': "s' = upd_mmc (\<lambda>m. m\<lparr>block_dev_blksz := ucast (read_bl_len m), block_dev_lba := ucast (drop_bit 9 (capacity m)),
      clock_after_init := clock m\<rparr>) s6"
    using assms by (auto simp: startup_speed_def ok_then_zero mc s6_def s5_def s4_def s3_def r2_def s1_def cong: if_cong)
  have "kept mc (fst (snd r2))"
    using sd_freq_kept [of s1 ops] mmc_freq_kept [of s1 ops] by (simp add: r2_def s1_def)
  then have k4: "kept mc (fst s4)" by (simp add: s4_def s3_def)
  have "kept mc (fst s5)" using kept_trans [OF k4 width_kept] by (simp add: s5_def)
  then have k6: "kept mc (fst s6)" by (simp add: s6_def set_clock_kept)
  then show "\<exists>mc. mmc_set_capacity (unat (part_num (fst s))) (fst s) = (0, mc) \<and> kept mc (fst s')"
    using mc e by (simp add: s')
  have caps: "card_caps (fst s6) = card_caps (fst s4)" "mcfg (fst s6) = mcfg (fst s4)"
    using width_caps [of s4 ops] by (simp_all add: s6_def s5_def set_clock_fields same_caps_def)
  show "card_caps (fst s') AND NOT (host_caps (mcfg (fst s'))) = 0"
    using caps by (simp add: s') (simp add: s4_def and.assoc)
  show "block_dev_blksz (fst s') = ucast (read_bl_len (fst s'))" "block_dev_lba (fst s') = ucast (drop_bit 9 (capacity (fst s')))"
    "clock_after_init (fst s') = clock (fst s')"
    by (simp_all add: s')
  have "clock_reported ops (fst s6)"
    using set_clock_fields(3) [of s5 ops "tran_speed (fst s5)"] by (simp only: clock_reported_def s6_def set_clock_fields(1))
  then show "clock_reported ops (fst s')" by (simp add: s')
qed

section \<open>The size in the CSD\<close>

text \<open>Field of \<open>n\<close> bits from bit \<open>lo\<close> of the 128-bit register, which is sent most significant word first.\<close>

definition csd_field :: "u32 list \<Rightarrow> nat \<Rightarrow> nat \<Rightarrow> u64" where
  "csd_field c lo n = horner_sum of_bool 2 (map (\<lambda>i. bit (c ! (3 - (lo + i) div 32)) ((lo + i) mod 32)) [0..<n])"

lemma bit_csd_field: "n \<le> 64 \<Longrightarrow> bit (csd_field c lo n) i \<longleftrightarrow> i < n \<and> bit (c ! (3 - (lo + i) div 32)) ((lo + i) mod 32)"
  by (auto simp: csd_field_def bit_horner_sum_bit_word_iff)

text \<open>The fields that the size is made of: \<open>C_SIZE\<close> of both versions of the register, \<open>C_SIZE_MULT\<close> and \<open>READ_BL_LEN\<close>.\<close>

lemma mask_bits: "(0x3f :: u32) = mask 6" "(0x3ff :: u32) = mask 10" "(0xf :: u32) = mask 4"
    "(0xffff0000 :: u32) = push_bit 16 (mask 16)" "(0xc0000000 :: u32) = push_bit 30 (mask 2)" "(0x38000 :: u32) = push_bit 15 (mask 3)"
  by (simp_all add: mask_eq_exp_minus_1 push_bit_eq_mult)

lemma field_div: "32 \<le> k \<Longrightarrow> k < 64 \<Longrightarrow> k div 32 = 1 \<and> k mod 32 = k - 32" "64 \<le> k \<Longrightarrow> k < 96 \<Longrightarrow> k div 32 = 2 \<and> k mod 32 = k - 64"
  for k :: nat
  by (simp_all add: le_div_geq le_mod_geq)

lemma size_fields:
  "ucast (push_bit 16 (c ! 1 AND 0x3f) OR drop_bit 16 (c ! 2 AND 0xffff0000) :: u32) = csd_field c 48 22"
  "ucast (push_bit 2 (c ! 1 AND 0x3ff) OR drop_bit 30 (c ! 2 AND 0xc0000000) :: u32) = csd_field c 62 12"
  "ucast (drop_bit 15 (c ! 2 AND 0x00038000) :: u32) = csd_field c 47 3"
  "ucast (drop_bit 16 (c ! 1) AND 0xf :: u32) = csd_field c 80 4"
proof -
  have a: "i < 22 \<Longrightarrow> bit (c ! (3 - (48 + i) div 32)) ((48 + i) mod 32) = (if i < 16 then bit (c ! 2) (16 + i) else bit (c ! 1) (i - 16))" for i
    using field_div(1) [of "48 + i"] field_div(2) [of "48 + i"] by auto
  have b: "i < 12 \<Longrightarrow> bit (c ! (3 - (62 + i) div 32)) ((62 + i) mod 32) = (if i < 2 then bit (c ! 2) (30 + i) else bit (c ! 1) (i - 2))" for i
    using field_div(1) [of "62 + i"] field_div(2) [of "62 + i"] by auto
  have e: "i < 3 \<Longrightarrow> bit (c ! (3 - (47 + i) div 32)) ((47 + i) mod 32) = bit (c ! 2) (15 + i)" for i
    using field_div(1) [of "47 + i"] by auto
  have d: "i < 4 \<Longrightarrow> bit (c ! (3 - (80 + i) div 32)) ((80 + i) mod 32) = bit (c ! 1) (16 + i)" for i
    using field_div(2) [of "80 + i"] by auto
  show "ucast (push_bit 16 (c ! 1 AND 0x3f) OR drop_bit 16 (c ! 2 AND 0xffff0000) :: u32) = csd_field c 48 22"
    by (rule bit_word_eqI) (auto simp: bit_csd_field a mask_bits bit_simps split: if_splits)
  show "ucast (push_bit 2 (c ! 1 AND 0x3ff) OR drop_bit 30 (c ! 2 AND 0xc0000000) :: u32) = csd_field c 62 12"
    by (rule bit_word_eqI) (auto simp: bit_csd_field b mask_bits bit_simps split: if_splits)
  show "ucast (drop_bit 15 (c ! 2 AND 0x00038000) :: u32) = csd_field c 47 3"
    by (rule bit_word_eqI) (auto simp: bit_csd_field e mask_bits bit_simps)
  show "ucast (drop_bit 16 (c ! 1) AND 0xf :: u32) = csd_field c 80 4"
    by (rule bit_word_eqI) (auto simp: bit_csd_field d mask_bits bit_simps)
qed

lemma csd_field_less: "n < 64 \<Longrightarrow> unat (csd_field c lo n) < 2 ^ n"
proof -
  assume "n < 64"
  then have "take_bit n (csd_field c lo n) = csd_field c lo n"
    by (intro bit_word_eqI) (auto simp: bit_simps bit_csd_field)
  then show ?thesis by (metis take_bit_nat_less_exp unsigned_take_bit_eq)
qed

text \<open>The number of blocks of 512 bytes by the standard: \<open>(C_SIZE + 1) * 2 ^ (C_SIZE_MULT + 2) * 2 ^ READ_BL_LEN\<close> bytes, where version 2 of the
  register has the fixed multiplier 8.\<close>

definition csd_blocks :: "bool \<Rightarrow> u32 list \<Rightarrow> nat" where
  "csd_blocks hc c =
     (if hc then (unat (csd_field c 48 22) + 1) * 2 ^ 10 else (unat (csd_field c 62 12) + 1) * 2 ^ (unat (csd_field c 47 3) + 2))
       * 2 ^ unat (csd_field c 80 4) div 512"

lemma unat_up: "unat (ucast (w :: u32) :: u64) = unat w"
  using unat_below [of w] by (simp add: unsigned_ucast_eq take_bit_nat_eq_self)

lemma unat_shift_small: "unat w * 2 ^ k < 2 ^ LENGTH('a) \<Longrightarrow> unat (push_bit k w) = unat w * 2 ^ k" for w :: "'a :: len word"
  by (simp only: unsigned_push_bit_eq) (simp add: push_bit_eq_mult take_bit_nat_eq_self)

lemma bl_len_exp:
  "unat (bl_len_of (drop_bit 16 (c ! 1))) = 2 ^ unat (csd_field c 80 4)" "unat (csd_field c 80 4) < 16"
proof -
  have e: "unat (csd_field c 80 4) = unat (drop_bit 16 (c ! 1) AND 0xf)"
    by (metis size_fields(4) unat_up)
  show l: "unat (csd_field c 80 4) < 16" using csd_field_less [of 4 c 80] by simp
  have "2 ^ unat (csd_field c 80 4) < (2 :: nat) ^ 32" using l by (intro power_strict_increasing) simp_all
  then show "unat (bl_len_of (drop_bit 16 (c ! 1))) = 2 ^ unat (csd_field c 80 4)"
    unfolding bl_len_of_def e by (subst unat_shift_small) simp_all
qed

lemma csd_capacity_blocks:
  "unat (csd_capacity hc c (bl_len_of (drop_bit 16 (c ! 1)))) div 512 = csd_blocks hc c"
  "unat (csd_capacity False c (bl_len_of (drop_bit 16 (c ! 1)))) \<le> 2 ^ (21 + unat (csd_field c 80 4))"
proof -
  let ?r = "unat (csd_field c 80 4)"
  have cap: "unat (push_bit k (sz + 1) * ucast (bl_len_of (drop_bit 16 (c ! 1)))) = (unat sz + 1) * 2 ^ k * 2 ^ ?r"
    if "unat sz < 2 ^ 22" "k \<le> 10" for sz :: u64 and k
  proof -
    have s: "unat (sz + 1) = unat sz + 1" using that(1) by (simp add: unat_word_ariths)
    have k: "(2 :: nat) ^ k \<le> 2 ^ 10" using that(2) by (intro power_increasing) simp_all
    have r: "(2 :: nat) ^ ?r \<le> 2 ^ 15" using bl_len_exp(2) [of c] by (intro power_increasing) simp_all
    have "(unat sz + 1) * 2 ^ k \<le> 2 ^ 22 * 2 ^ 10" using that(1) k by (intro mult_le_mono) simp_all
    moreover from this r have "(unat sz + 1) * 2 ^ k * 2 ^ ?r \<le> 2 ^ 22 * 2 ^ 10 * 2 ^ 15" by (rule mult_le_mono)
    ultimately have "unat (push_bit k (sz + 1)) = (unat sz + 1) * 2 ^ k" "(unat sz + 1) * 2 ^ k * 2 ^ ?r < 2 ^ 64"
      using s by (simp_all add: unat_shift_small)
    then show ?thesis
      by (simp only: unat_word_ariths(2) unat_up bl_len_exp) simp
  qed
  have f: "unat (csd_field c 48 22) < 2 ^ 22" "unat (csd_field c 62 12) < 2 ^ 22" "unat (csd_field c 62 12) < 2 ^ 12"
    "unat (csd_field c 47 3) + 2 \<le> 10" "unat (csd_field c 47 3) < 8"
    using csd_field_less [of 22 c 48] csd_field_less [of 12 c 62] csd_field_less [of 3 c 47] by simp_all
  have m: "unat (drop_bit 15 (c ! 2 AND 0x00038000)) = unat (csd_field c 47 3)"
    by (metis size_fields(3) unat_up)
  have u: "unat (8 :: u32) + 2 = 10" by simp
  have def: "csd_capacity hc c b = (if hc then push_bit 10 (csd_field c 48 22 + 1)
      else push_bit (unat (csd_field c 47 3) + 2) (csd_field c 62 12 + 1)) * ucast b" for hc b
    by (cases hc) (simp_all only: csd_capacity_def Let_def if_True if_False size_fields m u)
  show "unat (csd_capacity hc c (bl_len_of (drop_bit 16 (c ! 1)))) div 512 = csd_blocks hc c"
    unfolding def using cap [of "csd_field c 48 22" 10] cap [of "csd_field c 62 12" "unat (csd_field c 47 3) + 2"] f
    by (cases hc) (simp_all only: csd_blocks_def if_True if_False simp_thms order_refl)
  have "(unat (csd_field c 62 12) + 1) * 2 ^ (unat (csd_field c 47 3) + 2) \<le> 2 ^ 12 * 2 ^ 9"
    using f by (intro mult_le_mono power_increasing) simp_all
  then have "(unat (csd_field c 62 12) + 1) * 2 ^ (unat (csd_field c 47 3) + 2) * 2 ^ ?r \<le> 2 ^ 12 * 2 ^ 9 * 2 ^ ?r"
    by (rule mult_le_mono1)
  then show "unat (csd_capacity False c (bl_len_of (drop_bit 16 (c ! 1)))) \<le> 2 ^ (21 + ?r)"
    using cap [of "csd_field c 62 12" "unat (csd_field c 47 3) + 2"] f
    unfolding def by (simp only: if_False simp_thms power_add) simp
qed

section \<open>A started card\<close>

lemma kept_more [simp]:
  "kept m (m'\<lparr>erase_grp_size := x\<rparr>) = kept m m'" "kept m (m'\<lparr>erase_grp_size := x, part_config := p\<rparr>) = kept m m'"
  "kept m (ext_fields e m') = kept m m'" "kept m (ext_capacity n e m') = kept m m'"
  by (simp_all add: kept_def ext_fields_def ext_capacity_def Let_def)

lemma ext_version_mmc: "v AND 0x20000 = 0 \<Longrightarrow> ext_version r v AND 0x20000 = 0"
  by (simp add: ext_version_def)

lemma step_fst_eq: "mmc_send_ext_csd ops b s = (err, s') \<Longrightarrow> fst s' = fst s" 
  "mmc_switch ops c i v s = (err, s') \<Longrightarrow> fst s' = (fst s)\<lparr>clock := switch_clock ops i v s\<rparr>"
  by (metis step_fst(5) snd_conv) (metis step_fst(4) snd_conv)

lemma update_timeout_kept: "mmc_mmc_update_timeout ops L s = Some (err, s') \<Longrightarrow> kept (fst s) (fst s')"
  by (auto simp: mmc_mmc_update_timeout_def kept_def split_beta Let_def bind_eq_Some_conv dest!: step_fst_eq split: if_splits)

lemma startup_ext_facts:
  assumes "startup_ext ops B s = Some (err, s')"
  shows "kept (fst s) (fst s') \<and> (IS_SD (fst s) \<longrightarrow> s' = s)"
proof (cases "IS_SD (fst s) \<or> version (fst s) < MMC_VERSION_4")
  case True
  with assms show ?thesis by (auto simp: startup_ext_def)
next
  case False
  define s1 where "s1 = snd (mmc_send_ext_csd ops (ext_buf B) s)"
  define e where "e = mem_at s1 (ext_buf B)"
  define s2 where "s2 = upd_mmc (\<lambda>m. ext_capacity (fst (mmc_send_ext_csd ops (ext_buf B) s)) e m
    \<lparr>version := ext_version (e 192) (version m)\<rparr>) s1"
  have k2: "kept (fst s) (fst s2)"
    using False by (simp add: s2_def s1_def kept_def ext_capacity_def ext_version_mmc Let_def)
  obtain r s3 where s3: "mmc_mmc_update_timeout ops (timeout_locals B) s2 = Some (r, s3)"
    using assms False by (auto simp: startup_ext_def split_beta Let_def bind_eq_Some_conv s2_def s1_def e_def)
  have k3: "kept (fst s) (fst s3)" using kept_trans [OF k2 update_timeout_kept [OF s3]] .
  define s4 where "s4 = upd_mmc (\<lambda>m. m\<lparr>erase_grp_size := erase_group (mem_at s3 (ext_buf B)) m\<rparr>) s3"
  have k4: "kept (fst s) (fst s4)" using k3 by (simp add: s4_def)
  show ?thesis
    using assms False s3 k4
    by (auto simp: startup_ext_def split_beta Let_def s4_def [symmetric] ok_then_def simp flip: s1_def s2_def e_def dest!: step_fst_eq split: if_splits)
qed

lemma select_fst: "fst (snd (startup_select ops s)) = fst s"
  by (simp add: startup_select_def Let_def split_beta)

lemma decode_csd_facts:
  assumes "decode_csd m = Some m'"
  shows "csd m' = csd m" "high_capacity m' = high_capacity m"
    "read_bl_len m' = (let r = bl_len_of (drop_bit 16 (csd m ! 1)) in if r > 512 then 512 else r)"
    "write_bl_len m' = (let w = bl_len_of (drop_bit (if IS_SD m' then 16 else 22) (csd m ! (if IS_SD m' then 1 else 3)))
      in if w > 512 then 512 else w)"
    "capacity_user m' = csd_capacity (high_capacity m') (csd m') (bl_len_of (drop_bit 16 (csd m' ! 1)))"
    "capacity_boot m' = 0" "capacity_rpmb m' = 0" "capacity_gp m' = [0, 0, 0, 0]" "mcfg m' = mcfg m" "part_num m' = part_num m"
  using assms by (auto simp: decode_csd_def Let_def split: if_splits)

text \<open>What identification and the registers leave alone: the configuration and the partition.\<close>

definition same_cfg :: "mmc \<Rightarrow> mmc \<Rightarrow> bool" where
  "same_cfg m m' \<longleftrightarrow> mcfg m' = mcfg m \<and> part_num m' = part_num m"

lemma same_cfg_update [simp]:
  "same_cfg m m" "same_cfg m (m'\<lparr>clock := x\<rparr>) = same_cfg m m'" "same_cfg m (m'\<lparr>bus_width := x\<rparr>) = same_cfg m m'"
  "same_cfg m (m'\<lparr>version := x\<rparr>) = same_cfg m m'" "same_cfg m (m'\<lparr>op_cond_pending := b\<rparr>) = same_cfg m m'"
  "same_cfg m (m'\<lparr>op_cond_response := x\<rparr>) = same_cfg m m'" "same_cfg m (m'\<lparr>init_in_progress := b\<rparr>) = same_cfg m m'"
  "same_cfg m (m'\<lparr>has_init := b\<rparr>) = same_cfg m m'" "same_cfg m (m'\<lparr>cid := l\<rparr>) = same_cfg m m'" "same_cfg m (m'\<lparr>rca := a\<rparr>) = same_cfg m m'"
  "same_cfg m (m'\<lparr>csd := l\<rparr>) = same_cfg m m'" "same_cfg m (set_ocr w a m') = same_cfg m m'" "same_cfg m (identified_mmc m') = same_cfg m m'"
  by (simp_all add: same_cfg_def set_ocr_def identified_mmc_def)

lemmas ok_then_cfg = ok_then_inv [of "same_cfg m" for m]

lemma registers_cfg: "same_cfg (fst s) (fst (snd (startup_registers ops s)))"
  by (simp add: startup_registers_def split_beta Let_def)

lemma op_cond_loop_fst: "fst (snd (sd_op_cond_loop ops n s)) = fst s"
proof (induction n arbitrary: s)
  case 0
  show ?case by (subst sd_op_cond_loop.simps) (simp add: split_beta Let_def)
next
  case (Suc n)
  show ?case by (subst sd_op_cond_loop.simps) (simp add: split_beta Let_def Suc)
qed

lemma op_cond_iter_cfg: "same_cfg m (fst s) \<Longrightarrow> same_cfg m (fst (snd (mmc_send_op_cond_iter ops a s)))"
  by (simp add: mmc_send_op_cond_iter_def split_beta Let_def)

lemma send_op_cond_cfg: "same_cfg m (fst s) \<Longrightarrow> same_cfg m (fst (snd (mmc_send_op_cond ops s)))"
  unfolding mmc_send_op_cond_def Let_def
  by (auto simp: mmc_go_idle_def split_beta intro!: ok_then_cfg op_cond_iter_cfg)

lemma op_loop_cfg: "same_cfg m (fst s) \<Longrightarrow> same_cfg m (fst (snd (complete_op_loop ops n s)))"
proof (induction n arbitrary: s)
  case 0
  then show ?case by (subst complete_op_loop.simps) (auto intro!: ok_then_cfg op_cond_iter_cfg)
next
  case (Suc n)
  then show ?case by (subst complete_op_loop.simps) (auto intro!: ok_then_cfg op_cond_iter_cfg)
qed

lemma complete_op_cfg: "same_cfg m (fst s) \<Longrightarrow> same_cfg m (fst (snd (mmc_complete_op_cond ops s)))"
  unfolding mmc_complete_op_cond_def by (auto intro!: ok_then_cfg op_loop_cfg)

lemma identify_cfg: "same_cfg m (fst s) \<Longrightarrow> same_cfg m (fst (snd (identify ops boot ct s)))"
proof -
  assume s: "same_cfg m (fst s)"
  have sd: "same_cfg m (fst (snd (try_sd ops s)))"
    using s by (simp add: try_sd_def sd_send_op_cond_def mmc_send_if_cond_def split_beta op_cond_loop_fst)
  have mmc: "same_cfg m (fst (snd (try_mmc ops u)))" if "same_cfg m (fst u)" for u
    using send_op_cond_cfg [OF that] by (simp add: try_mmc_def split_beta)
  show ?thesis using sd mmc [OF s] mmc [OF sd] by (simp add: identify_def split_beta)
qed

lemma startup_facts:
  assumes "mmc_startup ops B s = Some (0, s')"
  shows "\<exists>m1 m2 s3. same_cfg (fst s) m1 \<and> decode_csd m1 = Some m2 \<and> kept m2 (fst s3) \<and> startup_speed ops B s3 = (0, s') \<and>
    (IS_SD m2 \<longrightarrow> capacity_user (fst s3) = capacity_user m2)"
proof -
  obtain e s1 where r: "startup_registers ops s = (e, s1)" by (meson surj_pair)
  with assms have s1: "startup_registers ops s = (0, s1)" by (simp add: mmc_startup_def split: if_splits)
  obtain m2 where m2: "decode_csd (fst s1) = Some m2"
    using assms s1 by (cases "decode_csd (fst s1)") (simp_all add: mmc_startup_def)
  define r2 where "r2 = startup_select ops (m2, snd s1)"
  define s2 where "s2 = upd_mmc (\<lambda>m. m\<lparr>erase_grp_size := 1, part_config := 0xff\<rparr>) (mmc_set_clock ops 25000000 (snd r2))"
  have e2: "fst r2 = 0" and run: "do { (err, s) \<leftarrow> startup_ext ops B s2; Some (if err \<noteq> 0 then (err, s) else startup_speed ops B s) }
      = Some (0, s')"
    using assms s1 m2 by (auto simp: mmc_startup_def split_beta r2_def s2_def split: if_splits)
  obtain e3 s3 where x: "startup_ext ops B s2 = Some (e3, s3)"
    using run by (cases "startup_ext ops B s2") auto
  with run have s3: "startup_ext ops B s2 = Some (0, s3)" "startup_speed ops B s3 = (0, s')"
    by (auto split: if_splits)
  have "kept m2 (fst s2)" using set_clock_kept(1) [of m2 "snd r2"]
    by (simp add: s2_def r2_def select_fst)
  moreover have "capacity_user (fst s2) = capacity_user m2"
    by (simp add: s2_def r2_def mmc_set_clock_def Let_def select_fst)
  moreover have "kept (fst s2) (fst s3)" "IS_SD (fst s2) \<longrightarrow> s3 = s2" using startup_ext_facts [OF s3(1)] by simp_all
  ultimately have "kept m2 (fst s3) \<and> (IS_SD m2 \<longrightarrow> capacity_user (fst s3) = capacity_user m2)"
    using kept_trans [of m2 "fst s2" "fst s3"] by (auto simp: kept_def)
  moreover have "same_cfg (fst s) (fst s1)"
    using registers_cfg [of s ops] s1 by simp
  ultimately show ?thesis using m2 s3(2) by blast
qed

lemma clip_512: "unat (if r > 512 then 512 else r) = min 512 (unat r)" for r :: u32
  by (simp add: word_less_nat_alt min_def)

lemma started_card:
  assumes "mmc_startup ops B s = Some (0, s')"
  defines "m \<equiv> fst s'"
  shows "unat (read_bl_len m) = min 512 (2 ^ unat (csd_field (csd m) 80 4))" "IS_SD m \<Longrightarrow> write_bl_len m = read_bl_len m"
    "\<not> IS_SD m \<Longrightarrow> unat (write_bl_len m) = min 512 (unat (bl_len_of (drop_bit 22 (csd m ! 3))))"
    "block_dev_blksz m = ucast (read_bl_len m)" "unat (block_dev_lba m) = unat (capacity m) div 512 mod 2 ^ 32"
    "IS_SD m \<Longrightarrow> part_num m = 0 \<Longrightarrow> capacity m = csd_capacity (high_capacity m) (csd m) (bl_len_of (drop_bit 16 (csd m ! 1)))"
    "card_caps m AND NOT (host_caps (mcfg m)) = 0" "clock_after_init m = clock m"
    "clock_reported ops m" "b_max (mcfg m) = b_max (mcfg (fst s))" "part_num m = part_num (fst s)"
proof -
  obtain m1 m2 s3 where m1: "same_cfg (fst s) m1" and d: "decode_csd m1 = Some m2" and k3: "kept m2 (fst s3)" and run: "startup_speed ops B s3 = (0, s')"
    and user: "IS_SD m2 \<longrightarrow> capacity_user (fst s3) = capacity_user m2" using startup_facts [OF assms(1)] by blast
  note f = startup_speed_facts [OF run, folded m_def] and dm = decode_csd_facts [OF d]
  obtain mc where mc: "mmc_set_capacity (unat (part_num (fst s3))) (fst s3) = (0, mc)" "kept mc m" using f(1) by blast
  note cap = set_capacity_kept [OF mc(1)]
  have k: "read_bl_len m = read_bl_len m2" "write_bl_len m = write_bl_len m2" "high_capacity m = high_capacity m2" "csd m = csd m2"
    "IS_SD m = IS_SD m2" "part_num m = part_num (fst s3)" "capacity m = capacity mc"
    using k3 mc(2) cap by (simp_all add: kept_def)
  show "unat (read_bl_len m) = min 512 (2 ^ unat (csd_field (csd m) 80 4))"
    using dm k by (simp only: Let_def clip_512 bl_len_exp)
  show "IS_SD m \<Longrightarrow> write_bl_len m = read_bl_len m"
    "\<not> IS_SD m \<Longrightarrow> unat (write_bl_len m) = min 512 (unat (bl_len_of (drop_bit 22 (csd m ! 3))))"
    using dm(1,3,4) k(1,2,4,5) by (simp_all add: Let_def clip_512)
  show "IS_SD m \<Longrightarrow> part_num m = 0 \<Longrightarrow> capacity m = csd_capacity (high_capacity m) (csd m) (bl_len_of (drop_bit 16 (csd m ! 1)))"
    using cap k user dm(5) by simp
  show "unat (block_dev_lba m) = unat (capacity m) div 512 mod 2 ^ 32"
    using f(3) by (simp add: unsigned_ucast_eq unat_div drop_bit_eq_div take_bit_eq_mod)
  show "block_dev_blksz m = ucast (read_bl_len m)" "card_caps m AND NOT (host_caps (mcfg m)) = 0" "clock_after_init m = clock m"
    "clock_reported ops m"
    using f(2,4,5,6) by simp_all
  show "b_max (mcfg m) = b_max (mcfg (fst s))" "part_num m = part_num (fst s)"
    using m1 dm(9,10) k3 mc(2) cap by (simp_all add: kept_def same_cfg_def)
qed

lemma complete_init_run:
  assumes "mmc_complete_init ops B s = Some (ret, s')"
  shows "\<exists>r t. s' = upd_mmc (\<lambda>m. m\<lparr>has_init := (ret = 0), init_in_progress := False\<rparr>) t \<and>
    same_cfg (fst s) (fst r) \<and> (ret = 0 \<longrightarrow> mmc_startup ops B r = Some (0, t))"
proof -
  obtain e r where er: "(if op_cond_pending (fst s) then mmc_complete_op_cond ops s else (0, s)) = (e, r)" by (meson surj_pair)
  obtain e2 t where t: "(if e = 0 then mmc_startup ops B r else Some (e, r)) = Some (e2, t)"
    using assms er by (cases "if e = 0 then mmc_startup ops B r else Some (e, r)") (auto simp: mmc_complete_init_def)
  have "e2 = ret" "s' = upd_mmc (\<lambda>m. m\<lparr>has_init := (ret = 0), init_in_progress := False\<rparr>) t"
    using assms er t by (auto simp: mmc_complete_init_def)
  moreover have "same_cfg (fst s) (fst r)"
    using er complete_op_cfg [of "fst s" s ops] by (auto split: if_splits)
  ultimately show ?thesis using t by (intro exI [of _ r] exI [of _ t]) (auto split: if_splits)
qed

lemma complete_init_frame:
  assumes "mmc_complete_init ops B s = Some (0, s')"
  shows "b_max (mcfg (fst s')) = b_max (mcfg (fst s))" "part_num (fst s') = part_num (fst s)"
proof -
  obtain r t where t: "s' = upd_mmc (\<lambda>m. m\<lparr>has_init := True, init_in_progress := False\<rparr>) t" and
    run: "same_cfg (fst s) (fst r)" "mmc_startup ops B r = Some (0, t)"
    using complete_init_run [OF assms] by auto
  note f = started_card(10,11) [OF run(2)]
  show "b_max (mcfg (fst s')) = b_max (mcfg (fst s))" "part_num (fst s') = part_num (fst s)"
    using f run(1) by (simp_all add: t same_cfg_def)
qed

lemma start_init_frame:
  assumes "part_num (fst s) = 0" "\<forall>init s. op_init iops = Some init \<longrightarrow> same_cfg (fst s) (fst (snd (init s)))"
    and "\<forall>getcd s. op_getcd iops = Some getcd \<longrightarrow> fst (snd (getcd s)) = fst s"
  shows "same_cfg (fst s) (fst (snd (mmc_start_init ops iops boot ct s)))"
proof -
  obtain cd s1 where cd: "mmc_getcd iops s = (cd, s1)" by (meson surj_pair)
  then have s1: "fst s1 = fst s"
    using assms(3) by (cases "op_getcd iops") (auto simp: mmc_getcd_def prod_eq_iff)
  have init: "same_cfg (fst s) (fst (snd (init s1)))" if "op_init iops = Some init" for init
    using assms(2) that s1 by metis
  have clk: "same_cfg (fst s) (fst (mmc_set_clock ops f u))" "same_cfg (fst s) (fst (mmc_set_bus_width ops w u))"
    if "same_cfg (fst s) (fst u)" for f w u
    using that by (simp_all add: mmc_set_clock_def mmc_set_bus_width_def Let_def)
  have part: "same_cfg (fst s) (m\<lparr>part_num := 0\<rparr>)" if "same_cfg (fst s) m" for m
    using that assms(1) by (simp add: same_cfg_def)
  show ?thesis
  proof (cases "op_init iops")
    case None
    then show ?thesis using s1 by (simp add: mmc_start_init_def cd)
  next
    case (Some i)
    have "same_cfg (fst s) (fst (snd (mmc_go_idle ops u)))" if "same_cfg (fst s) (fst u)" for u
      using that by (simp add: mmc_go_idle_def split_beta)
    then have "same_cfg (fst s) (fst (snd (ok_then (i s1) (\<lambda>s. ok_then (mmc_go_idle ops (mmc_set_clock ops 1 (mmc_set_bus_width ops 1 s)))
        (\<lambda>s. case identify ops boot ct (upd_mmc (\<lambda>m. m\<lparr>part_num := 0\<rparr>) s) of (err, s) \<Rightarrow>
          (err, if err = IN_PROGRESS then upd_mmc (\<lambda>m. m\<lparr>init_in_progress := True\<rparr>) s else s))))))"
      using init [OF Some] clk part by (intro ok_then_cfg) (auto simp: split_beta intro!: identify_cfg)
    then show ?thesis using s1 by (simp add: mmc_start_init_def cd Some)
  qed
qed

text \<open>
  C17: what is known after initialisation. \<open>has_init\<close> tells whether it succeeded. After a success the driver's description agrees with the
  registers of the card: the block length is \<open>2 ^ READ_BL_LEN\<close> but at most 512, the number of blocks of an SD card is the one that
  the fields of the CSD state (modulo \<open>2 ^ 32\<close>), the capabilities in use are among those of the host, and the
  clock is the one that the host has reported for a request within the limits of the configuration.
\<close>

theorem initialised_card_described:
  assumes "mmc_complete_init ops B s = Some (ret, s')"
  defines "m \<equiv> fst s'"
  shows "has_init m = (ret = 0) \<and> \<not> init_in_progress m \<and> (ret = 0 \<longrightarrow>
     unat (read_bl_len m) = min 512 (2 ^ unat (csd_field (csd m) 80 4)) \<and> block_dev_blksz m = ucast (read_bl_len m) \<and>
     unat (block_dev_lba m) = unat (capacity m) div 512 mod 2 ^ 32 \<and>
     (IS_SD m \<and> part_num m = 0 \<longrightarrow> unat (block_dev_lba m) = csd_blocks (high_capacity m) (csd m) mod 2 ^ 32) \<and>
     card_caps m AND NOT (host_caps (mcfg m)) = 0 \<and> clock_after_init m = clock m \<and> clock_reported ops m)"
proof -
  obtain r t where t: "s' = upd_mmc (\<lambda>m. m\<lparr>has_init := (ret = 0), init_in_progress := False\<rparr>) t"
    and run: "ret = 0 \<Longrightarrow> mmc_startup ops B r = Some (0, t)"
    using complete_init_run [OF assms(1)] by blast
  have m: "m = (fst t)\<lparr>has_init := (ret = 0), init_in_progress := False\<rparr>" by (simp add: m_def t)
  show ?thesis
    using started_card [OF run] csd_capacity_blocks(1) [of "high_capacity m" "csd m"] by (simp add: m)
qed

lemma card_transfers:
  assumes "mmc_complete_init ops B s = Some (0, s')"
  defines "m \<equiv> fst s'"
  assumes "unat (csd_field (csd m) 80 4) \<in> {9..11}" and "IS_SD m \<and> part_num m = 0 \<or> high_capacity m \<and> 512 \<le> bl_len_of (drop_bit 22 (csd m ! 3))"
    and "0 < b_max (mcfg m)" "b_max (mcfg m) \<le> 65535"
  shows "medium_ok m"
proof -
  obtain r t where t: "s' = upd_mmc (\<lambda>m. m\<lparr>has_init := True, init_in_progress := False\<rparr>) t" and run: "mmc_startup ops B r = Some (0, t)"
    using complete_init_run [OF assms(1)] by auto
  have m: "m = (fst t)\<lparr>has_init := True, init_in_progress := False\<rparr>" by (simp add: m_def t)
  note f = started_card [OF run]
  have pow: "(512 :: nat) \<le> 2 ^ unat (csd_field (csd m) 80 4)"
    using power_increasing [of 9 "unat (csd_field (csd m) 80 4)" "2 :: nat"] assms(3) by simp
  then have rd: "unat (read_bl_len m) = 512" using f(1) by (simp add: m)
  have wr: "unat (write_bl_len m) = 512"
  proof (cases "IS_SD m")
    case True
    then show ?thesis using f(2) rd by (simp add: m)
  next
    case False
    with assms(4) f(3) show ?thesis by (simp add: m word_le_nat_alt)
  qed
  have lba: "unat (block_dev_lba m) \<le> 2 ^ 23" if "\<not> high_capacity m"
  proof -
    have "unat (capacity m) \<le> 2 ^ (21 + unat (csd_field (csd m) 80 4))"
      using that assms(4) f(6) csd_capacity_blocks(2) [of "csd m"] by (simp add: m)
    also have "\<dots> \<le> 2 ^ 32" using assms(3) by (intro power_increasing) simp_all
    finally have "unat (capacity m) div 512 \<le> 2 ^ 23" by simp
    moreover have "unat (block_dev_lba m) \<le> unat (capacity m) div 512" using f(5) by (simp add: m)
    ultimately show ?thesis by simp
  qed
  have "read_bl_len m = 512" "write_bl_len m = 512"
    using rd wr by (simp_all add: word_unat_eq_iff)
  with lba assms(5,6) show ?thesis by (simp add: medium_ok_def)
qed

text \<open>
  C18: initialisation establishes what the block transfers rest on. For an SD card, or an eMMC card of high capacity, whose CSD has the block
  lengths 512, 1024 or 2048 that the standard allows, a success leaves blocks of 512 bytes, and the last block
  of a card that is addressed by bytes is below the limit of the 32-bit argument.
\<close>

theorem initialised_card_transfers:
  assumes "mmc_complete_init ops B s = Some (0, s')"
  defines "m \<equiv> fst s'"
  assumes "unat (csd_field (csd m) 80 4) \<in> {9..11}" and "IS_SD m \<and> part_num m = 0 \<or> high_capacity m \<and> 512 \<le> bl_len_of (drop_bit 22 (csd m ! 3))"
    and "0 < b_max (mcfg m)" "b_max (mcfg m) \<le> 65535"
  shows "medium_ok m"
  by (rule card_transfers [OF assms(1) assms(3-6) [unfolded m_def], folded m_def])

section \<open>A card that starts\<close>

text \<open>An SDHC card of 15 GB that answers every command.\<close>

definition sdhc_ops :: "unit mmc_ops" where
  "sdhc_ops = \<lparr>
     send_cmd = (\<lambda>m cmd data w. (0, if cmdidx cmd = 9 then [0x400e0032, 0x5b590000, 0x76b27f80, 0x0a404013] else [0x900, 0, 0, 0], w)),
     set_ios = (\<lambda>m w. (clock m, w)), update_phase = (\<lambda>m w. (0, w))\<rparr>"

definition demo_sd :: mmc where
  "demo_sd = demo_mmc\<lparr>version := 0x20200\<rparr>"

definition demo_bufs :: start_locals where
  "demo_bufs = \<lparr>ext_buf = 0x1000, timeout_locals = demo_locals, freq_buf = 0x2000, scr_buf = 0x3000, status_buf = 0x3100\<rparr>"

lemma demo_sd_facts: "version demo_sd = 0x20200" "high_capacity demo_sd" "part_num demo_sd = 0" "op_cond_pending demo_sd = False" "dsr demo_sd = 0xffffffff"
  "f_min (mcfg demo_sd) = 0" "f_max (mcfg demo_sd) = 0" "b_max (mcfg demo_sd) = 1" "host_caps (mcfg demo_sd) = 0"
  by (simp_all add: demo_sd_def demo_mmc_def)

lemma sdhc_send: "mmc_send_cmd sdhc_ops cmd data s =
    (0, if cmdidx cmd = 9 then [0x400e0032, 0x5b590000, 0x76b27f80, 0x0a404013] else [0x900, 0, 0, 0], s)"
  by (simp add: mmc_send_cmd_def sdhc_ops_def split_beta)

lemma sdhc_status: "mmc_send_status sdhc_ops 1000 s = (0, s)"
  by (subst mmc_send_status_def, subst status_poll.simps) (simp add: sdhc_send status_ready_def status_result_def)

lemma sdhc_scr: "read_scr sdhc_ops b n s = (0, s)"
  by (subst read_scr.simps) (simp add: sdhc_send plain_cmd_def)

lemma sdhc_host: "set_ios sdhc_ops m w = (clock m, w)" "update_phase sdhc_ops m w = (0, w)"
  by (simp_all add: sdhc_ops_def)

lemma sdhc_starts:
  "\<exists>m. mmc_complete_init sdhc_ops demo_bufs (demo_sd, \<lambda>_. 0, ()) = Some (0, m, \<lambda>_. 0, ()) \<and> IS_SD m \<and> part_num m = 0 \<and>
     high_capacity m \<and> csd m = [0x400e0032, 0x5b590000, 0x76b27f80, 0x0a404013] \<and> b_max (mcfg m) = 1"
  by (simp add: mmc_complete_init_def mmc_startup_def startup_registers_def sdhc_send sdhc_status demo_sd_facts upd_mmc_def plain_cmd_def
    decode_csd_def fbase_def Let_def startup_select_def mmc_set_clock_def mmc_set_ios_def startup_ext_def startup_speed_def ok_then_def
    mmc_set_capacity_def sd_change_freq_def sdhc_scr be32_at_def mem_at_def scr_version_def startup_width_def mmc_update_phase_def
    sdhc_host)

lemma sdhc_fields: "csd_field [0x400e0032, 0x5b590000, 0x76b27f80, 0x0a404013] 80 4 = 9"
  "csd_field [0x400e0032, 0x5b590000, 0x76b27f80, 0x0a404013] 48 22 = 0x76b2"
  by code_simp+

theorem initialised_card_described_witness:
  "\<exists>m. mmc_complete_init sdhc_ops demo_bufs (demo_sd, \<lambda>_. 0, ()) = Some (0, m, \<lambda>_. 0, ()) \<and> has_init m \<and>
     unat (read_bl_len m) = 512 \<and> unat (block_dev_lba m) = 31116288"
proof -
  obtain m where run: "mmc_complete_init sdhc_ops demo_bufs (demo_sd, \<lambda>_. 0, ()) = Some (0, m, \<lambda>_. 0, ())" and
    m: "IS_SD m" "part_num m = 0" "high_capacity m" "csd m = [0x400e0032, 0x5b590000, 0x76b27f80, 0x0a404013]"
    using sdhc_starts by blast
  from initialised_card_described [OF run] m run show ?thesis
    by (auto simp: csd_blocks_def sdhc_fields)
qed

theorem initialised_card_transfers_witness:
  "\<exists>m. mmc_complete_init sdhc_ops demo_bufs (demo_sd, \<lambda>_. 0, ()) = Some (0, m, \<lambda>_. 0, ()) \<and> medium_ok m"
proof -
  obtain m where run: "mmc_complete_init sdhc_ops demo_bufs (demo_sd, \<lambda>_. 0, ()) = Some (0, m, \<lambda>_. 0, ())" and
    m: "IS_SD m" "part_num m = 0" "csd m = [0x400e0032, 0x5b590000, 0x76b27f80, 0x0a404013]" "b_max (mcfg m) = 1"
    using sdhc_starts by blast
  have "medium_ok m"
    using initialised_card_transfers [OF run] m by (simp add: sdhc_fields)
  with run show ?thesis by blast
qed

end
