(* ===== verification/MmcHost.thy ===== *)
theory MmcHost
  imports Mmio Mmc "HOL-Library.Monad_Syntax"
begin

text \<open>
  The SD/MMC host controller: clock, delays and bus mode, the register backup and the retry
  policy for sample points, \<open>src/Drivers/SunxiSdMmcDxe/sunxi_host0_2_v4p1.c\<close> and
  \<open>sunxi_host_mmc.c\<close>. The timing tables are the arrays of \<open>sunxi_mmc.h\<close>: an entry belongs
  to a speed mode and a frequency point, \<open>0xFF\<close> marks an entry that is not set. Delays
  (\<open>mdelay\<close>, \<open>udelay\<close>) only let time pass and have no counterpart here.
\<close>

section \<open>Data\<close>

record sunxi_mmc_timing_mode1 =
  cur_spd_md :: u32
  cur_freq :: u32
  odly :: "u8 list"
  sdly :: "u8 list"
  def_odly :: "u8 list"
  def_sdly :: "u8 list"
  sample_point_cnt :: u32
  cur_odly :: u8
  cur_sdly :: u8

record sunxi_mmc_timing_mode3 = sunxi_mmc_timing_mode1 +
  sdly_unit_ps :: u32
  dly_calibrate_done :: u8

record sunxi_mmc_timing_mode4 = sunxi_mmc_timing_mode3 +
  dsdly :: "u8 list"
  def_dsdly :: "u8 list"
  dsdly_unit_ps :: u32
  cur_dsdly :: u8

text \<open>The pointers \<open>reg\<close> (registers), \<open>reg_bak\<close> (their backup) and \<open>pdes\<close> (DMA descriptors) are an address, a map from register offsets and an address.\<close>

record sunxi_mmc_host =
  mmc_no :: u32
  hclkbase :: u32
  hclkrst :: u32
  mclkbase :: u32
  database :: u32
  fatal_err :: u32
  host_clock :: u32
  mod_clk :: u32
  host_reg :: u32
  reg_bak :: "u32 \<Rightarrow> u32"
  pdes :: u64
  timing_mode :: u32
  tm1 :: sunxi_mmc_timing_mode1
  tm3 :: sunxi_mmc_timing_mode3
  tm4 :: sunxi_mmc_timing_mode4
  retry_cnt :: u32
  raw_int_bak :: u32

text \<open>Offsets of \<open>struct mmc_reg_v4p1\<close>.\<close>

abbreviation (input) r_gctrl :: u32 where "r_gctrl \<equiv> 0x00"
abbreviation (input) r_clkcr :: u32 where "r_clkcr \<equiv> 0x04"
abbreviation (input) r_timeout :: u32 where "r_timeout \<equiv> 0x08"
abbreviation (input) r_width :: u32 where "r_width \<equiv> 0x0c"
abbreviation (input) r_blksz :: u32 where "r_blksz \<equiv> 0x10"
abbreviation (input) r_bytecnt :: u32 where "r_bytecnt \<equiv> 0x14"
abbreviation (input) r_cmd :: u32 where "r_cmd \<equiv> 0x18"
abbreviation (input) r_arg :: u32 where "r_arg \<equiv> 0x1c"
abbreviation (input) r_resp0 :: u32 where "r_resp0 \<equiv> 0x20"
abbreviation (input) r_resp1 :: u32 where "r_resp1 \<equiv> 0x24"
abbreviation (input) r_resp2 :: u32 where "r_resp2 \<equiv> 0x28"
abbreviation (input) r_resp3 :: u32 where "r_resp3 \<equiv> 0x2c"
abbreviation (input) r_imask :: u32 where "r_imask \<equiv> 0x30"
abbreviation (input) r_rint :: u32 where "r_rint \<equiv> 0x38"
abbreviation (input) r_status :: u32 where "r_status \<equiv> 0x3c"
abbreviation (input) r_ftrglevel :: u32 where "r_ftrglevel \<equiv> 0x40"
abbreviation (input) r_bbcr :: u32 where "r_bbcr \<equiv> 0x4c"
abbreviation (input) r_dbgc :: u32 where "r_dbgc \<equiv> 0x50"
abbreviation (input) r_csdc :: u32 where "r_csdc \<equiv> 0x54"
abbreviation (input) r_ntsr :: u32 where "r_ntsr \<equiv> 0x5c"
abbreviation (input) r_hwrst :: u32 where "r_hwrst \<equiv> 0x78"
abbreviation (input) r_dmac :: u32 where "r_dmac \<equiv> 0x80"
abbreviation (input) r_dlba :: u32 where "r_dlba \<equiv> 0x84"
abbreviation (input) r_idst :: u32 where "r_idst \<equiv> 0x88"
abbreviation (input) r_idie :: u32 where "r_idie \<equiv> 0x8c"
abbreviation (input) r_thldc :: u32 where "r_thldc \<equiv> 0x100"
abbreviation (input) r_dsbd :: u32 where "r_dsbd \<equiv> 0x10c"
abbreviation (input) r_drv_dl :: u32 where "r_drv_dl \<equiv> 0x140"
abbreviation (input) r_samp_dl :: u32 where "r_samp_dl \<equiv> 0x144"
abbreviation (input) r_ds_dl :: u32 where "r_ds_dl \<equiv> 0x148"

abbreviation (input) TIMING_MODE_1 :: u32 where "TIMING_MODE_1 \<equiv> 1"
abbreviation (input) TIMING_MODE_3 :: u32 where "TIMING_MODE_3 \<equiv> 3"
abbreviation (input) TIMING_MODE_4 :: u32 where "TIMING_MODE_4 \<equiv> 4"

definition hrd :: "'h plat \<Rightarrow> sunxi_mmc_host \<Rightarrow> u32 \<Rightarrow> 'h \<Rightarrow> u32 \<times> 'h" where
  "hrd p H r = MmioRead32 p (host_reg H + r)"

definition hwr :: "'h plat \<Rightarrow> sunxi_mmc_host \<Rightarrow> u32 \<Rightarrow> u32 \<Rightarrow> 'h \<Rightarrow> 'h" where
  "hwr p H r = MmioWrite32 p (host_reg H + r)"

definition hrmw :: "'h plat \<Rightarrow> sunxi_mmc_host \<Rightarrow> u32 \<Rightarrow> (u32 \<Rightarrow> u32) \<Rightarrow> 'h \<Rightarrow> 'h" where
  "hrmw p H r = mmio_rmw p (host_reg H + r)"

section \<open>Clocks\<close>

text \<open>The products are computed modulo \<open>2 ^ 32\<close>.\<close>

definition sunxi_clock_get_pll6 :: "'h plat \<Rightarrow> 'h \<Rightarrow> u32 \<times> 'h" where
  "sunxi_clock_get_pll6 p h = (case MmioRead32 p 0x01c20028 h of (v, h) \<Rightarrow>
     (24 * ((drop_bit 8 v AND 0x1f) + 1) * ((drop_bit 4 v AND 0x03) + 1) div 2, h))"

text \<open>Waits until the controller has taken a clock command; the flag says whether it has. The counter \<open>timeout\<close> is decremented after each busy read.\<close>

fun clk_cmd_wait :: "'h plat \<Rightarrow> sunxi_mmc_host \<Rightarrow> nat \<Rightarrow> 'h \<Rightarrow> bool \<times> 'h" where
  "clk_cmd_wait p H 0 h = (False, h)"
| "clk_cmd_wait p H (Suc timeout) h = (case hrd p H r_cmd h of (v, h) \<Rightarrow>
     if v AND 0x80000000 \<noteq> 0 then clk_cmd_wait p H timeout h else (True, h))"

definition mmc_update_clk :: "'h plat \<Rightarrow> sunxi_mmc_host \<Rightarrow> 'h \<Rightarrow> int \<times> 'h" where
  "mmc_update_clk p H h =
     (let h = hrmw p H r_clkcr (\<lambda>v. v OR 0x80000000) h;
          h = hwr p H r_cmd (0x80000000 OR 0x200000 OR 0x2000) h
      in case clk_cmd_wait p H 1000 h of (ok, h) \<Rightarrow>
        if \<not> ok then (-1, h)
        else (0, hrmw p H r_rint id (hrmw p H r_clkcr (\<lambda>v. v AND NOT 0x80000000) h)))"

definition mmc_host_update_phase :: "'h plat \<Rightarrow> sunxi_mmc_host \<Rightarrow> 'h \<Rightarrow> int \<times> 'h" where
  "mmc_host_update_phase p H h = (if timing_mode H = TIMING_MODE_1 then mmc_update_clk p H h else (0, h))"

text \<open>
  The divider \<open>2 ^ n * m\<close> for a source and a wanted frequency. The quotient is rounded to the nearest
  integer; a divisor of 0 gives the quotient 0 (the \<open>UDIV\<close> instruction).
\<close>

definition mclk_div :: "u32 \<Rightarrow> u32 \<Rightarrow> u32" where
  "mclk_div sclk clk = (let d = (2 * sclk + clk) div (2 * clk) in if d = 0 then 1 else d)"

definition mclk_nm :: "u32 \<Rightarrow> u32 \<times> u32" where
  "mclk_nm d =
     (if d > 128 then (0, 1)
      else if d > 64 then (3, drop_bit 3 d)
      else if d > 32 then (2, drop_bit 2 d)
      else if d > 16 then (1, drop_bit 1 d)
      else (0, d))"

definition mmc_set_mclk :: "'h plat \<Rightarrow> sunxi_mmc_host \<Rightarrow> u32 \<Rightarrow> 'h \<Rightarrow> 'h" where
  "mmc_set_mclk p H clk h =
     (case (if clk \<le> 4000000 then (0, 24000000, h)
            else case sunxi_clock_get_pll6 p h of (pll6, h) \<Rightarrow> (1, pll6 * 2 * 1000000, h)) of (src, sclk, h) \<Rightarrow>
        case mclk_nm (mclk_div sclk clk) of (n, m) \<Rightarrow>
          MmioWrite32 p (mclkbase H) (push_bit 24 src OR push_bit 16 n OR (m - 1)) h)"

definition mmc_get_mclk :: "'h plat \<Rightarrow> sunxi_mmc_host \<Rightarrow> 'h \<Rightarrow> u32 \<times> 'h" where
  "mmc_get_mclk p H h =
     (case MmioRead32 p (mclkbase H) h of (rval, h) \<Rightarrow>
        let m = rval AND 0xf; n = drop_bit 16 rval AND 0x3; src = drop_bit 24 rval AND 0x3 in
        case (if src = 0 then (24000000, h)
              else if src = 1 then case sunxi_clock_get_pll6 p h of (pll6, h) \<Rightarrow> (pll6 * 2 * 1000000, h)
              else (0, h)) of (sclk, h) \<Rightarrow>
          (sclk div push_bit (unat n) 1 div (m + 1), h))"

section \<open>Delays\<close>

text \<open>The index of a speed mode and frequency point (\<open>MAX_CLK_FREQ_NUM\<close> is 8); a table entry that is set wins over the default.\<close>

definition dly_idx :: "u32 \<Rightarrow> u32 \<Rightarrow> nat" where
  "dly_idx spd_md freq = unat (spd_md * 8 + freq)"

definition pick_dly :: "u8 list \<Rightarrow> u8 list \<Rightarrow> nat \<Rightarrow> u8" where
  "pick_dly tab def i = (if tab ! i \<noteq> 0xFF then tab ! i else def ! i)"

definition set_drv_dl :: "u8 \<Rightarrow> u32 \<Rightarrow> u32" where
  "set_drv_dl odl v = (v AND NOT (push_bit 16 0x3)) OR (push_bit 16 (ucast odl AND 1) OR push_bit 17 (ucast odl AND 1))"

definition set_cfg_dly :: "u8 \<Rightarrow> u32 \<Rightarrow> u32" where
  "set_cfg_dly dl v = (v AND NOT 0x3F) OR ((ucast dl AND 0x3F) OR 0x80)"

definition mmc_config_delay :: "'h plat \<Rightarrow> sunxi_mmc_host \<times> 'h \<Rightarrow> sunxi_mmc_host \<times> 'h" where
  "mmc_config_delay p = (\<lambda>(H, h).
     if timing_mode H = TIMING_MODE_1 then
       let t = tm1 H; i = dly_idx (cur_spd_md t) (cur_freq t);
           odl = pick_dly (odly t) (def_odly t) i; sdl = pick_dly (sdly t) (def_sdly t) i;
           H = H\<lparr>tm1 := t\<lparr>cur_odly := odl, cur_sdly := sdl\<rparr>\<rparr>;
           h = hrmw p H r_drv_dl (set_drv_dl odl) h
       in (H, hrmw p H r_ntsr (\<lambda>v. (v AND NOT (push_bit 4 0x3)) OR push_bit 4 (ucast sdl AND 0x3)) h)
     else if timing_mode H = TIMING_MODE_3 then
       let t = tm3 H; i = dly_idx (cur_spd_md t) (cur_freq t);
           odl = pick_dly (odly t) (def_odly t) i; sdl = pick_dly (sdly t) (def_sdly t) i;
           H = H\<lparr>tm3 := t\<lparr>cur_odly := odl, cur_sdly := sdl\<rparr>\<rparr>;
           h = hrmw p H r_drv_dl (set_drv_dl odl) h
       in (H, hrmw p H r_samp_dl (set_cfg_dly sdl) h)
     else if timing_mode H = TIMING_MODE_4 then
       let t = tm4 H; freq = cur_freq t;
           sdl = pick_dly (sdly t) (def_sdly t) (dly_idx (if cur_spd_md t = HS400 then HS200_SDR104 else cur_spd_md t) freq);
           odl = pick_dly (odly t) (def_odly t) (dly_idx (cur_spd_md t) freq);
           t = t\<lparr>cur_odly := odl, cur_sdly := sdl\<rparr>;
           h = hrmw p H r_drv_dl (set_drv_dl odl) h;
           h = hrmw p H r_samp_dl (set_cfg_dly sdl) h
       in if cur_spd_md t = HS400 then
            let dsdl = pick_dly (dsdly t) (def_dsdly t) (unat freq);
                H = H\<lparr>tm4 := t\<lparr>cur_dsdly := dsdl\<rparr>\<rparr>
            in (H, hrmw p H r_ds_dl (set_cfg_dly dsdl) h)
          else (H\<lparr>tm4 := t\<rparr>, h)
     else (H, h))"

section \<open>Card clock and bus mode\<close>

text \<open>The state is the card (its \<open>clock\<close> is set to the clock really configured), the host and the hardware.\<close>

type_synonym 'h hst = "mmc \<times> sunxi_mmc_host \<times> 'h"

definition freq_point :: "u32 \<Rightarrow> u32" where
  "freq_point clk =
     (if clk \<le> 400000 then 0 else if clk \<le> 26000000 then 1 else if clk \<le> 52000000 then 2
      else if clk \<le> 100000000 then 3 else if clk \<le> 150000000 then 4 else if clk \<le> 200000000 then 5 else 1)"

text \<open>With the speed modes and frequency points of \<open>sunxi_mmc.h\<close> every access to the tables of 40 entries is inside.\<close>

lemma dly_idx_bound: "spd_md \<le> HS400 \<Longrightarrow> dly_idx spd_md (freq_point clk) < 40"
proof -
  assume "spd_md \<le> HS400"
  then have s: "unat spd_md \<le> 4" by (simp add: word_le_nat_alt)
  have f: "unat (freq_point clk) \<le> 5" by (simp add: freq_point_def)
  have "unat (spd_md * 8) = unat spd_md * 8" using s by (subst unat_mult_lem [THEN iffD1]) simp_all
  then have "unat (spd_md * 8 + freq_point clk) = unat spd_md * 8 + unat (freq_point clk)"
    using s f by (subst unat_add_lem [THEN iffD1]) simp_all
  then show ?thesis using s f by (simp add: dly_idx_def)
qed

text \<open>Double data rate needs four times the card clock where the mode says so, otherwise twice.\<close>

definition ddr_ratio :: "sunxi_mmc_host \<Rightarrow> mmc \<Rightarrow> bool" where
  "ddr_ratio H m \<longleftrightarrow>
     (if timing_mode H = TIMING_MODE_4 then speed_mode m = HSDDR52_DDR50 \<and> bus_width m = 8
      else speed_mode m = HSDDR52_DDR50)"

definition set_spd_freq :: "mmc \<Rightarrow> u32 \<Rightarrow> sunxi_mmc_host \<Rightarrow> sunxi_mmc_host" where
  "set_spd_freq m f H =
     (if timing_mode H = TIMING_MODE_1 then H\<lparr>tm1 := (tm1 H)\<lparr>cur_spd_md := speed_mode m, cur_freq := f\<rparr>\<rparr>
      else if timing_mode H = TIMING_MODE_3 then H\<lparr>tm3 := (tm3 H)\<lparr>cur_spd_md := speed_mode m, cur_freq := f\<rparr>\<rparr>
      else if timing_mode H = TIMING_MODE_4 then H\<lparr>tm4 := (tm4 H)\<lparr>cur_spd_md := speed_mode m, cur_freq := f\<rparr>\<rparr>
      else H)"

text \<open>\<open>mod_clk\<close> is not set in timing mode 3: the last value is used.\<close>

definition set_mod_clk :: "u32 \<Rightarrow> mmc \<Rightarrow> sunxi_mmc_host \<Rightarrow> sunxi_mmc_host" where
  "set_mod_clk clk m H =
     (if timing_mode H = TIMING_MODE_1 \<or> timing_mode H = TIMING_MODE_4
      then H\<lparr>mod_clk := (if ddr_ratio H m then clk * 4 else clk * 2)\<rparr> else H)"

definition mmc_config_clock_modex :: "'h plat \<Rightarrow> u32 \<Rightarrow> 'h hst \<Rightarrow> int \<times> 'h hst" where
  "mmc_config_clock_modex p clk = (\<lambda>(m, H, h).
     let mode = timing_mode H;
         known = (mode = TIMING_MODE_1 \<or> mode = TIMING_MODE_3 \<or> mode = TIMING_MODE_4);
         h = MmioWrite32 p (mclkbase H) 0 h;
         h = (if mode = TIMING_MODE_1 then hrmw p H r_ntsr (\<lambda>v. v OR 0x80000000) h else hwr p H r_ntsr 0 h);
         H = set_mod_clk clk m H;
         h = mmc_set_mclk p H (mod_clk H) h
     in case (if known then case mmc_get_mclk p H h of (v, h) \<Rightarrow> (m\<lparr>clock := v div (if ddr_ratio H m then 4 else 2)\<rparr>, h)
              else (m, h)) of (m, h) \<Rightarrow>
       let H = H\<lparr>host_clock := clock m\<rparr>;
           h = mmio_rmw p (mclkbase H) (\<lambda>v. v OR 0x80000000) h;
           h = hrmw p H r_clkcr (\<lambda>v. (v AND NOT 0xFF) OR (if known \<and> ddr_ratio H m then 1 else 0)) h
       in case mmc_update_clk p H h of (ret, h) \<Rightarrow>
         if ret \<noteq> 0 then (-1, m, H, h)
         else case mmc_config_delay p (set_spd_freq m (freq_point clk) H, h) of (H, h) \<Rightarrow> (0, m, H, h))"

definition mmc_config_clock :: "'h plat \<Rightarrow> u32 \<Rightarrow> 'h hst \<Rightarrow> int \<times> 'h hst" where
  "mmc_config_clock p clk = (\<lambda>(m, H, h).
     case mmc_update_clk p H (hrmw p H r_clkcr (\<lambda>v. v AND NOT 0x10000) h) of (ret, h) \<Rightarrow>
       if ret \<noteq> 0 then (-1, m, H, h)
       else if timing_mode H = TIMING_MODE_1 \<or> timing_mode H = TIMING_MODE_3 \<or> timing_mode H = TIMING_MODE_4 then
         case mmc_config_clock_modex p clk (m, H, h) of (_, m, H, h) \<Rightarrow>
           case mmc_update_clk p H (hrmw p H r_clkcr (\<lambda>v. v OR 0x10000) h) of (ret, h) \<Rightarrow>
             (if ret \<noteq> 0 then -1 else 0, m, H, h)
       else (-1, m, H, h))"

definition mmc_ddr_mode_onoff :: "'h plat \<Rightarrow> sunxi_mmc_host \<Rightarrow> bool \<Rightarrow> 'h \<Rightarrow> 'h" where
  "mmc_ddr_mode_onoff p H on =
     hrmw p H r_gctrl (\<lambda>v. let v = v AND NOT 0x400 in if on then v OR 0x400 else v)"

definition mmc_hs400_mode_onoff :: "'h plat \<Rightarrow> sunxi_mmc_host \<Rightarrow> bool \<Rightarrow> 'h \<Rightarrow> 'h" where
  "mmc_hs400_mode_onoff p H on h =
     (if mmc_no H \<noteq> 2 then h
      else hrmw p H r_dsbd (\<lambda>v. let v = v AND NOT 0x80000000 in if on then v OR 0x80000000 else v) h)"

definition mmc_set_ddr_mode :: "'h plat \<Rightarrow> sunxi_mmc_host \<Rightarrow> mmc \<Rightarrow> 'h \<Rightarrow> 'h" where
  "mmc_set_ddr_mode p H m h =
     (if speed_mode m = HSDDR52_DDR50 then mmc_hs400_mode_onoff p H False (mmc_ddr_mode_onoff p H True h)
      else if speed_mode m = HS400 then mmc_hs400_mode_onoff p H True (mmc_ddr_mode_onoff p H False h)
      else mmc_hs400_mode_onoff p H False (mmc_ddr_mode_onoff p H False h))"

definition mmc_host_set_ios :: "'h plat \<Rightarrow> 'h hst \<Rightarrow> 'h hst" where
  "mmc_host_set_ios p = (\<lambda>(m, H, h).
     case (if clock m \<noteq> 0 then mmc_config_clock p (clock m) (m, H, h) else (0, m, H, h)) of (ret, m, H, h) \<Rightarrow>
       if ret \<noteq> 0 then (m, H\<lparr>fatal_err := 1\<rparr>, h)
       else (m, H, mmc_set_ddr_mode p H m
               (hwr p H r_width (if bus_width m = 8 then 2 else if bus_width m = 4 then 1 else 0) h)))"

section \<open>Calibration and start of the controller\<close>

text \<open>Waits without a bound until the masked bits of a register are clear, or until one is set: a wait that never ends has the value \<^term>\<open>None\<close>.\<close>

partial_function (option) wait_clear :: "'h plat \<Rightarrow> sunxi_mmc_host \<Rightarrow> u32 \<Rightarrow> u32 \<Rightarrow> 'h \<Rightarrow> 'h option" where
  [code]: "wait_clear p H r bits h = (case hrd p H r h of (v, h) \<Rightarrow>
     if v AND bits \<noteq> 0 then wait_clear p H r bits h else Some h)"

partial_function (option) wait_set :: "'h plat \<Rightarrow> sunxi_mmc_host \<Rightarrow> u32 \<Rightarrow> u32 \<Rightarrow> 'h \<Rightarrow> 'h option" where
  [code]: "wait_set p H r bits h = (case hrd p H r h of (v, h) \<Rightarrow>
     if v AND bits = 0 then wait_set p H r bits h else Some h)"

definition calibrate :: "'h plat \<Rightarrow> sunxi_mmc_host \<Rightarrow> u32 \<Rightarrow> 'h \<Rightarrow> 'h option" where
  "calibrate p H r h = wait_set p H r 0x4000 (hwr p H r 0x8000 (hwr p H r 0 (hwr p H r 0xA0 h)))"

definition mmc_calibrate_delay_unit :: "'h plat \<Rightarrow> 'h hst \<Rightarrow> (int \<times> 'h hst) option" where
  "mmc_calibrate_delay_unit p = (\<lambda>(m, H, h).
     case mmc_update_clk p H (hrmw p H r_clkcr (\<lambda>v. v AND NOT 0x10000) h) of (ret, h) \<Rightarrow>
       if ret \<noteq> 0 then Some (-1, m, H, h)
       else if timing_mode H = TIMING_MODE_1 \<or> timing_mode H = TIMING_MODE_3 \<or> timing_mode H = TIMING_MODE_4 then
         case mmc_config_clock_modex p 100000000 (m, H, h) of (_, m, H, h) \<Rightarrow> do {
           h \<leftarrow> calibrate p H r_samp_dl h;
           h \<leftarrow> (if mmc_no H = 2 \<or> mmc_no H = 3 then calibrate p H r_ds_dl h else Some h);
           (case hrd p H r_samp_dl h of (rval, h) \<Rightarrow>
              let result = drop_bit 8 (rval AND 0x3F00);
                  H = (if result \<noteq> 0
                       then H\<lparr>tm3 := (tm3 H)\<lparr>sdly_unit_ps := 5000 div result, dly_calibrate_done := 1\<rparr>,
                              tm4 := (tm4 H)\<lparr>sdly_unit_ps := 5000 div result\<rparr>\<rparr>
                       else H)
              in if mmc_no H = 2 then
                   case hrd p H r_ds_dl h of (rval, h) \<Rightarrow>
                     let result = drop_bit 8 (rval AND 0x3F00);
                         H = (if result \<noteq> 0
                              then H\<lparr>tm4 := (tm4 H)\<lparr>dsdly_unit_ps := 5000 div result, dly_calibrate_done := 1\<rparr>\<rparr>
                              else H)
                     in Some (0, m, H, h)
                 else Some (0, m, H, h))
         }
       else Some (-1, m, H, h))"

text \<open>The result of the calibration is not used.\<close>

definition mmc_core_init :: "'h plat \<Rightarrow> 'h hst \<Rightarrow> (int \<times> 'h hst) option" where
  "mmc_core_init p = (\<lambda>(m, H, h). do {
     h \<leftarrow> wait_clear p H r_gctrl 0x7 (hwr p H r_gctrl 0x7 h);
     let h = hwr p H r_hwrst 1 (hwr p H r_hwrst 0 (hwr p H r_hwrst 1 h));
     let h = hwr p H r_timeout (push_bit 8 0xffffff OR 0xff) h;
     let h = hwr p H r_thldc (push_bit 16 512 OR 0x4 OR 0x1) h;
     let h = hwr p H r_csdc 3 h;
     let h = hwr p H r_dbgc 0xdeb h;
     (ret, s) \<leftarrow> mmc_calibrate_delay_unit p (m, H, h);
     Some (0, s)
   })"

section \<open>Register backup\<close>

definition saved_regs :: "u32 list" where
  "saved_regs = [r_gctrl, r_clkcr, r_timeout, r_width, r_imask, r_ftrglevel, r_dbgc, r_csdc, r_ntsr, r_hwrst, r_dmac,
     r_idie, r_thldc, r_dsbd, r_drv_dl, r_samp_dl, r_ds_dl]"

definition save_reg :: "'h plat \<Rightarrow> u32 \<Rightarrow> sunxi_mmc_host \<times> 'h \<Rightarrow> sunxi_mmc_host \<times> 'h" where
  "save_reg p r = (\<lambda>(H, h). case hrd p H r h of (v, h) \<Rightarrow> (H\<lparr>reg_bak := (reg_bak H)(r := v)\<rparr>, h))"

definition mmc_save_regs :: "'h plat \<Rightarrow> sunxi_mmc_host \<times> 'h \<Rightarrow> sunxi_mmc_host \<times> 'h" where
  "mmc_save_regs p = fold (save_reg p) saved_regs"

text \<open>The debug register is only written when its backup is not zero, and then with a fixed value.\<close>

definition restore_reg :: "'h plat \<Rightarrow> sunxi_mmc_host \<Rightarrow> u32 \<Rightarrow> 'h \<Rightarrow> 'h" where
  "restore_reg p H r h =
     (if r = r_dbgc then if reg_bak H r \<noteq> 0 then hwr p H r 0xdeb h else h
      else hwr p H r (reg_bak H r) h)"

definition mmc_restore_regs :: "'h plat \<Rightarrow> sunxi_mmc_host \<Rightarrow> 'h \<Rightarrow> 'h" where
  "mmc_restore_regs p H = fold (restore_reg p H) saved_regs"

definition mmc_clk_io_onoff :: "'h plat \<Rightarrow> bool \<Rightarrow> bool \<Rightarrow> sunxi_mmc_host \<times> 'h \<Rightarrow> sunxi_mmc_host \<times> 'h" where
  "mmc_clk_io_onoff p onoff reset_clk = (\<lambda>(H, h).
     let b = push_bit (unat (8 + mmc_no H)) 1;
         h = (if onoff
              then mmio_rmw p (mclkbase H) (\<lambda>v. v OR 0x80000000)
                     (mmio_rmw p (hclkbase H) (\<lambda>v. v OR b) (mmio_rmw p (hclkrst H) (\<lambda>v. v OR b) h))
              else mmio_rmw p (hclkrst H) (\<lambda>v. v AND NOT b)
                     (mmio_rmw p (hclkbase H) (\<lambda>v. v AND NOT b) (mmio_rmw p (mclkbase H) (\<lambda>v. v AND NOT 0x80000000) h)))
     in if reset_clk then (H\<lparr>mod_clk := 24000000\<rparr>, mmio_rmw p (mclkbase H) (\<lambda>v. v AND NOT 0x7fffffff) h) else (H, h))"

section \<open>Retries with the next sample point\<close>

text \<open>\<open>uint8_t\<close> arithmetic is done in \<open>int\<close> and cut to 8 bits by the assignment; the comparisons are unsigned 32-bit ones.\<close>

definition next_point :: "u8 \<Rightarrow> u32 \<Rightarrow> u8 \<Rightarrow> u8" where
  "next_point gap points s =
     (if ucast s + ucast gap < points then s + gap else ucast (ucast s + ucast gap - points :: u32))"

text \<open>
  The return code -1 means that there is nothing to try any more. \<open>err\<close> is the host's error word as an \<open>int\<close>,
  \<open>0x100\<close> is \<open>SDXC_RespTimeout\<close>.
\<close>

definition sunxi_decide_rty :: "u32 \<Rightarrow> bool \<Rightarrow> sunxi_mmc_host \<Rightarrow> int \<times> sunxi_mmc_host" where
  "sunxi_decide_rty err rst_cnt H =
     (let H = (if rst_cnt then H\<lparr>retry_cnt := 0\<rparr> else H) in
      if err \<noteq> 0 \<and> (err AND 0x100 = 0 \<or> err = 0xffffffff) then
        let H = H\<lparr>retry_cnt := retry_cnt H + 1\<rparr>; tmode = timing_mode H in
        if tmode = TIMING_MODE_1 then
          let t = tm1 H; i = dly_idx (cur_spd_md t) (cur_freq t) in
          if retry_cnt H * 1 < 3
          then (0, H\<lparr>tm1 := t\<lparr>sdly := (sdly t)[i := next_point 1 3 (sdly t ! i)]\<rparr>, raw_int_bak := 0\<rparr>)
          else (-1, H)
        else if tmode = TIMING_MODE_3 then
          let t = tm3 H; i = dly_idx (cur_spd_md t) (cur_freq t) in
          if retry_cnt H * 8 < 64
          then (0, H\<lparr>tm3 := t\<lparr>sdly := (sdly t)[i := next_point 8 64 (sdly t ! i)]\<rparr>, raw_int_bak := 0\<rparr>)
          else (-1, H)
        else if tmode = TIMING_MODE_4 then
          let t = tm4 H; i = dly_idx (cur_spd_md t) (cur_freq t); f = unat (cur_freq t) in
          if retry_cnt H * 8 < 64
          then (0, H\<lparr>tm4 := (if cur_spd_md t = HS400 then t\<lparr>dsdly := (dsdly t)[f := next_point 8 64 (dsdly t ! f)]\<rparr>
                              else t\<lparr>sdly := (sdly t)[i := next_point 8 64 (sdly t ! i)]\<rparr>), raw_int_bak := 0\<rparr>)
          else (-1, H)
        else (0, H\<lparr>raw_int_bak := 0\<rparr>)
      else (-1, H))"

definition sunxi_detail_errno :: "sunxi_mmc_host \<Rightarrow> u32 \<times> sunxi_mmc_host" where
  "sunxi_detail_errno H = (raw_int_bak H, H\<lparr>raw_int_bak := 0\<rparr>)"

section \<open>Timing tables\<close>

text \<open>
  The tables of a host after \<open>mmc_clear_timing_para\<close>: five speed modes of eight frequency points, all unset.
\<close>

definition mmc_clear_timing_para :: "sunxi_mmc_host \<Rightarrow> sunxi_mmc_host" where
  "mmc_clear_timing_para H =
     (let no = replicate 40 0xFF in
      H\<lparr>tm1 := (tm1 H)\<lparr>odly := no, sdly := no, def_odly := no, def_sdly := no\<rparr>,
        tm3 := (tm3 H)\<lparr>odly := no, sdly := no, def_odly := no, def_sdly := no\<rparr>,
        tm4 := (tm4 H)\<lparr>odly := no, sdly := no, def_odly := no, def_sdly := no, dsdly := replicate 8 0xFF, def_dsdly := replicate 8 0xFF\<rparr>\<rparr>)"

text \<open>Rows of the default table: speed mode, frequency point, output and sample delay.\<close>

definition set_defs :: "(nat \<times> nat \<times> u8 \<times> u8) list \<Rightarrow> 'a sunxi_mmc_timing_mode1_scheme \<Rightarrow> 'a sunxi_mmc_timing_mode1_scheme" where
  "set_defs = fold (\<lambda>(md, f, odl, sdl) t. t\<lparr>def_odly := (def_odly t)[md * 8 + f := odl], def_sdly := (def_sdly t)[md * 8 + f := sdl]\<rparr>)"

definition mmc_init_default_timing_para :: "u32 \<Rightarrow> sunxi_mmc_host \<Rightarrow> sunxi_mmc_host" where
  "mmc_init_default_timing_para sdc_no H =
     (if sdc_no = 0 then
        H\<lparr>tm1 := set_defs [(0, 0, 1, 1), (0, 1, 1, 1), (1, 1, 1, 0), (1, 2, 1, 0), (2, 1, 0, 1), (2, 2, 0, 1), (3, 1, 1, 0), (3, 2, 1, 0)]
                  ((tm1 H)\<lparr>cur_spd_md := 0, cur_freq := 0, sample_point_cnt := 3\<rparr>),
          tm3 := set_defs [(0, 0, 1, 0), (0, 1, 1, 0), (1, 1, 1, 0), (1, 2, 1, 0), (2, 1, 0, 0), (2, 2, 0, 0), (3, 1, 1, 0), (3, 2, 1, 0)]
                  ((tm3 H)\<lparr>cur_spd_md := 0, cur_freq := 0, sample_point_cnt := 64\<rparr>)\<rparr>
      else if sdc_no = 2 then
        let t = set_defs
             [(0, 0, 1, 0), (0, 1, 1, 0), (1, 0, 1, 0), (1, 1, 1, 0), (1, 2, 1, 0), (2, 0, 0, 0xe), (2, 1, 0, 0xe), (2, 2, 0, 0xe),
              (3, 1, 1, 0), (3, 2, 1, 0x11), (3, 3, 1, 0x12), (3, 4, 1, 0x13), (3, 5, 1, 0x6),
              (4, 1, 0, 0), (4, 2, 0, 0x11), (4, 3, 0, 0x12), (4, 4, 0, 0x13), (4, 5, 0, 0x6)]
             ((tm4 H)\<lparr>cur_spd_md := 0, cur_freq := 0, sample_point_cnt := 64\<rparr>)
        in H\<lparr>tm4 := t\<lparr>def_dsdly := (def_dsdly t)[1 := 0, 2 := 0x18, 3 := 0xd, 4 := 0x6, 5 := 0x3]\<rparr>\<rparr>
      else H)"

text \<open>
  Sample points found by an earlier tuning: ten words with a byte for each frequency point,
  \<open>p\<close> (\<open>tm4_smx_fx\<close>), taken only when \<open>work_mode\<close> is \<open>WORK_MODE_BOOT\<close>, 0.
\<close>

definition sample_row :: "u32 list \<Rightarrow> nat \<Rightarrow> u8 list" where
  "sample_row p md = map (\<lambda>f. ucast (drop_bit ((f mod 4) * 8) (p ! (md * 2 + f div 4)) AND 0xFF)) [0..<8]"

definition mmc_get_sdly_auto_sample :: "u32 list \<Rightarrow> u32 \<Rightarrow> u32 \<Rightarrow> sunxi_mmc_host \<Rightarrow> int \<times> sunxi_mmc_host" where
  "mmc_get_sdly_auto_sample p work_mode sdc_no H =
     (if sdc_no \<noteq> 2 then (-1, H)
      else if work_mode \<noteq> 0 then (0, H)
      else (0, H\<lparr>tm4 := fold (\<lambda>md t.
                  if md = 4 then t\<lparr>dsdly := sample_row p md\<rparr>
                  else t\<lparr>sdly := take (md * 8) (sdly t) @ sample_row p md @ drop (md * 8 + 8) (sdly t)\<rparr>) [0..<5] (tm4 H)\<rparr>))"

text \<open>Sample points from the board's configuration, \<open>odly_spd_freq\<close> and \<open>sdly_spd_freq\<close>: all 40 entries are copied.\<close>

definition mmc_get_dly_manual_sample :: "u8 list \<Rightarrow> u8 list \<Rightarrow> u32 \<Rightarrow> sunxi_mmc_host \<Rightarrow> int \<times> sunxi_mmc_host" where
  "mmc_get_dly_manual_sample odl sdl sdc_no H =
     (if sdc_no = 2 then
        if timing_mode H = TIMING_MODE_4
        then (0, H\<lparr>tm4 := (tm4 H)\<lparr>odly := take 40 odl, sdly := take 32 sdl @ drop 32 (sdly (tm4 H)),
                                   dsdly := take 8 (drop 32 sdl)\<rparr>\<rparr>)
        else (-1, H)
      else if sdc_no = 0 then
        if timing_mode H = TIMING_MODE_1
        then (0, H\<lparr>tm1 := (tm1 H)\<lparr>odly := take 40 odl, sdly := take 40 sdl\<rparr>\<rparr>)
        else (-1, H)
      else (-1, H))"

text \<open>\<open>sample_mode\<close> is \<open>AUTO_SAMPLE_MODE\<close>, \<open>MAUNAL_SAMPLE_MODE\<close> or something else.\<close>

abbreviation (input) AUTO_SAMPLE_MODE :: u32 where "AUTO_SAMPLE_MODE \<equiv> 2"
abbreviation (input) MAUNAL_SAMPLE_MODE :: u32 where "MAUNAL_SAMPLE_MODE \<equiv> 1"

definition mmc_update_timing_para ::
  "u32 \<Rightarrow> u32 list \<Rightarrow> u32 \<Rightarrow> u8 list \<Rightarrow> u8 list \<Rightarrow> u32 \<Rightarrow> sunxi_mmc_host \<Rightarrow> int \<times> sunxi_mmc_host" where
  "mmc_update_timing_para sample_mode p work_mode odl sdl sdc_no H =
     (if sample_mode = AUTO_SAMPLE_MODE then mmc_get_sdly_auto_sample p work_mode sdc_no H
      else if sample_mode = MAUNAL_SAMPLE_MODE then mmc_get_dly_manual_sample odl sdl sdc_no H
      else if sdc_no = 0
      then (0, H\<lparr>tm1 := (tm1 H)\<lparr>odly := (odly (tm1 H))[18 := def_odly (tm1 H) ! 18], sdly := (sdly (tm1 H))[18 := def_sdly (tm1 H) ! 18]\<rparr>\<rparr>)
      else (-1, H))"

definition mmc_resource_init :: "u32 \<Rightarrow> sunxi_mmc_host \<Rightarrow> sunxi_mmc_host" where
  "mmc_resource_init sdc_no H =
     (let H = (if sdc_no = 0 then H\<lparr>host_reg := 0x01c0f000, database := 0x01c0f200, mclkbase := 0x01c20088\<rparr>
               else if sdc_no = 1 then H\<lparr>host_reg := 0x01c10000, database := 0x01c10200, mclkbase := 0x01c2008c\<rparr>
               else if sdc_no = 2 then H\<lparr>host_reg := 0x01c11000, database := 0x01c11200, mclkbase := 0x01c20090\<rparr>
               else H)
      in H\<lparr>hclkbase := 0x01c20060, hclkrst := 0x01c202c0, mmc_no := sdc_no\<rparr>)"

section \<open>The configured clock\<close>

text \<open>\<open>pll2x\<close> is the doubled peripheral clock that a value of its control register stands for.\<close>

definition pll2x :: "u32 \<Rightarrow> u32" where
  "pll2x v = 24 * ((drop_bit 8 v AND 0x1f) + 1) * ((drop_bit 4 v AND 0x03) + 1) div 2 * 2 * 1000000"

lemma mclk_fields:
  fixes s n a :: u32
  assumes "unat s < 4" "unat n < 4" "unat a < 16"
  defines "w \<equiv> push_bit 24 s OR push_bit 16 n OR a"
  shows "w AND 0xf = a" "drop_bit 16 w AND 0x3 = n" "drop_bit 24 w AND 0x3 = s"
proof -
  have b: "bit s i \<Longrightarrow> i < 2" "bit n i \<Longrightarrow> i < 2" "bit a i \<Longrightarrow> i < 4" for i
    using bit_small_word [of s 2] bit_small_word [of n 2] bit_small_word [of a 4] assms(1-3) by auto
  have m: "(0xf :: u32) = mask 4" "(0x3 :: u32) = mask 2" by (simp_all add: mask_eq_exp_minus_1)
  show "w AND 0xf = a" "drop_bit 16 w AND 0x3 = n" "drop_bit 24 w AND 0x3 = s"
    unfolding m w_def by (rule bit_word_eqI; auto simp: bit_simps dest: b)+
qed

lemma mclk_nm_split:
  assumes "mclk_nm d = (n, m)" "0 < d" "d \<le> 128"
  shows "unat n < 4" "0 < unat m" "unat m \<le> 16" "2 ^ unat n * unat m \<le> unat d" "8 * unat d < 9 * (2 ^ unat n * unat m)"
proof -
  have d: "0 < unat d" "unat d \<le> 128" using assms(2,3) by (simp_all add: word_less_nat_alt word_le_nat_alt)
  have q: "unat (drop_bit k d) = unat d div 2 ^ k" for k by (simp add: unat_drop_bit_eq drop_bit_nat_def)
  show "unat n < 4" "0 < unat m" "unat m \<le> 16" "2 ^ unat n * unat m \<le> unat d" "8 * unat d < 9 * (2 ^ unat n * unat m)"
    using assms(1) d by (auto simp: mclk_nm_def word_less_nat_alt q split: if_splits)
qed

lemma mclk_div_nat:
  assumes "clk \<noteq> 0" "2 * unat clk < 2 ^ 32" "2 * unat S + unat clk < 2 ^ 32"
  shows "unat (mclk_div S clk) = max 1 ((2 * unat S + unat clk) div (2 * unat clk))"
proof -
  have s: "unat (2 * S + clk) = 2 * unat S + unat clk"
    using assms(3) by (simp add: unat_word_ariths unat_mult_lem unat_add_lem)
  have c: "unat (2 * clk) = 2 * unat clk" using assms(2) by (simp add: unat_word_ariths)
  let ?q = "(2 * S + clk) div (2 * clk)"
  have q: "unat ?q = (2 * unat S + unat clk) div (2 * unat clk)" by (simp add: unat_div s c)
  have "?q = 0 \<longleftrightarrow> unat ?q = 0" by (simp add: unat_eq_0)
  then show ?thesis by (auto simp: mclk_div_def Let_def q)
qed

context mmio_registers
begin

lemma pll6_value: "0x01c20028 \<in> cfg \<Longrightarrow> 2000000 * fst (sunxi_clock_get_pll6 p h) = pll2x (reg h 0x01c20028)"
  by (simp add: sunxi_clock_get_pll6_def pll2x_def split_beta fst_read)

lemma pll6_keeps: "b \<in> cfg \<Longrightarrow> reg (snd (sunxi_clock_get_pll6 p h)) b = reg h b"
  by (simp add: sunxi_clock_get_pll6_def split_beta snd_read)

lemma mclk_reg:
  assumes "mclkbase H \<in> cfg" "0x01c20028 \<in> cfg" "mclkbase H \<noteq> 0x01c20028"
    and "mclk_nm (mclk_div (if clk \<le> 4000000 then 24000000 else pll2x (reg h 0x01c20028)) clk) = (n, m)"
  shows "reg (mmc_set_mclk p H clk h) (mclkbase H) = push_bit 24 (if clk \<le> 4000000 then 0 else 1) OR push_bit 16 n OR (m - 1)"
    and "reg (mmc_set_mclk p H clk h) 0x01c20028 = reg h 0x01c20028"
  using assms by (auto simp: mmc_set_mclk_def split_beta reg_write pll6_value pll6_keeps)

lemma mclk_read_back:
  assumes "mclkbase H \<in> cfg" "0x01c20028 \<in> cfg"
    and "reg h (mclkbase H) = push_bit 24 s OR push_bit 16 n OR (m - 1)" "s = 0 \<or> s = 1" "unat n < 4" "0 < unat m" "unat m \<le> 16"
  shows "unat (fst (mmc_get_mclk p H h)) = unat (if s = 0 then 24000000 else pll2x (reg h 0x01c20028)) div (2 ^ unat n * unat m)"
proof -
  have s: "unat s < 4" using assms(4) by auto
  have m: "unat (m - 1) < 16" "m - 1 + 1 = m" using assms(6,7) by (auto simp: unat_sub_if_size word_le_nat_alt)
  note f = mclk_fields [OF s assms(5) m(1), folded assms(3)]
  have two: "unat ((2 :: u32) ^ k) = 2 ^ k" if "k < 4" for k
  proof -
    have "k \<in> {0, 1, 2, 3}" using that by auto
    then show ?thesis by auto
  qed
  show ?thesis using assms(1,2,4)
    by (auto simp: mmc_get_mclk_def split_beta fst_read snd_read f pll6_value m(2) unat_div two [OF assms(5)] div_mult2_eq)
qed

end
text \<open>
  The clock divider. After \<open>mmc_set_mclk\<close> the clock that \<open>mmc_get_mclk\<close> reads back is the source clock divided by some \<open>D\<close>:
  the nearest divider \<open>d\<close> for the wanted frequency, of which only the upper four significant bits can be kept, so that
  \<open>D\<close> is at most \<open>d\<close> and more than eight ninths of it.
\<close>

theorem mclk_read_back_divider:
  assumes "mmio_registers p reg cfg" "mclkbase H \<in> cfg" "0x01c20028 \<in> cfg" "mclkbase H \<noteq> 0x01c20028"
    and "S = unat (if clk \<le> 4000000 then 24000000 else pll2x (reg h 0x01c20028))"
    and "clk \<noteq> 0" "2 * unat clk < 2 ^ 32" "2 * S + unat clk < 2 ^ 32"
    and "d = max 1 ((2 * S + unat clk) div (2 * unat clk))" "d \<le> 128"
  shows "\<exists>D \<le> d. 8 * d < 9 * D \<and> unat (fst (mmc_get_mclk p H (mmc_set_mclk p H clk h))) = S div D"
proof -
  let ?S = "if clk \<le> 4000000 then 24000000 else pll2x (reg h 0x01c20028)" and ?s = "if clk \<le> 4000000 then 0 else 1 :: u32"
  obtain n m where nm: "mclk_nm (mclk_div ?S clk) = (n, m)" by (meson surj_pair)
  have d: "unat (mclk_div ?S clk) = d"
    using mclk_div_nat [of clk ?S] assms(5-9) by simp
  then have "0 < mclk_div ?S clk" "mclk_div ?S clk \<le> 128"
    using assms(9,10) by (simp_all add: word_less_nat_alt word_le_nat_alt)
  note k = mclk_nm_split [OF nm this, unfolded d]
  note w = mmio_registers.mclk_reg [OF assms(1-4) nm]
  have "?s = 0 \<or> ?s = 1" by simp
  from mmio_registers.mclk_read_back [OF assms(1-3) w(1) this k(1-3)]
  have "unat (fst (mmc_get_mclk p H (mmc_set_mclk p H clk h))) = S div (2 ^ unat n * unat m)"
    unfolding w(2) assms(5) by simp
  with k(4,5) show ?thesis by blast
qed

definition demo_clk_host :: "sunxi_mmc_host" where
  "demo_clk_host = \<lparr>mmc_no = 2, hclkbase = 0x01c20060, hclkrst = 0x01c202c0, mclkbase = 0x01c20090, database = 0x01c11200,
     fatal_err = 0, host_clock = 0, mod_clk = 0, host_reg = 0x01c11000, reg_bak = (\<lambda>_. 0), pdes = 0x40000000, timing_mode = 4,
     tm1 = \<lparr>cur_spd_md = 0, cur_freq = 0, odly = [], sdly = [], def_odly = [], def_sdly = [], sample_point_cnt = 0, cur_odly = 0, cur_sdly = 0\<rparr>,
     tm3 = \<lparr>cur_spd_md = 0, cur_freq = 0, odly = [], sdly = [], def_odly = [], def_sdly = [], sample_point_cnt = 0, cur_odly = 0,
       cur_sdly = 0, sdly_unit_ps = 0, dly_calibrate_done = 0\<rparr>,
     tm4 = \<lparr>cur_spd_md = 0, cur_freq = 0, odly = [], sdly = [], def_odly = [], def_sdly = [], sample_point_cnt = 0, cur_odly = 0,
       cur_sdly = 0, sdly_unit_ps = 0, dly_calibrate_done = 0, dsdly = [], def_dsdly = [], dsdly_unit_ps = 0, cur_dsdly = 0\<rparr>,
     retry_cnt = 0, raw_int_bak = 0\<rparr>"

text \<open>The peripheral clock of the board runs at 600 MHz: register value \<open>0x1810\<close>.\<close>

abbreviation (input) demo_pll :: "u32 \<Rightarrow> u32" where "demo_pll \<equiv> (\<lambda>_. 0)(0x01c20028 := 0x1810)"

lemma demo_pll2x: "pll2x 0x1810 = 1200000000"
  by (simp add: pll2x_def)

lemma mclk_read_back_divider_witness:
  "\<exists>D \<le> 23. 8 * 23 < 9 * D \<and>
     unat (fst (mmc_get_mclk ram_plat demo_clk_host (mmc_set_mclk ram_plat demo_clk_host 52000000 demo_pll))) = 1200000000 div D"
  by (rule mclk_read_back_divider [OF ram.mmio_registers_axioms, where clk = 52000000 and d = 23])
    (simp_all add: demo_clk_host_def demo_pll2x)

text \<open>An eMMC card that asks for at most 26 MHz (52 MHz at the divider) is clocked with 27.27 MHz.\<close>

lemma mclk_above_request:
  "fst (mmc_get_mclk ram_plat demo_clk_host (mmc_set_mclk ram_plat demo_clk_host 52000000 demo_pll)) div 2 = 27272727"
  by (simp add: mmc_set_mclk_def mmc_get_mclk_def demo_clk_host_def ram_plat_def sunxi_clock_get_pll6_def mclk_div_def mclk_nm_def)
section \<open>The retries visit every sample point once\<close>

text \<open>The sample point in use, the number of points and the distance of a retry, in the timing mode of the host.\<close>

definition sample_points :: "sunxi_mmc_host \<Rightarrow> nat" where
  "sample_points H = (if timing_mode H = TIMING_MODE_1 then 3 else 64)"

definition retry_gap :: "sunxi_mmc_host \<Rightarrow> nat" where
  "retry_gap H = (if timing_mode H = TIMING_MODE_1 then 1 else 8)"

definition point_entry :: "sunxi_mmc_host \<Rightarrow> u8 list \<times> nat" where
  "point_entry H =
     (if timing_mode H = TIMING_MODE_1 then (sdly (tm1 H), dly_idx (cur_spd_md (tm1 H)) (cur_freq (tm1 H)))
      else if timing_mode H = TIMING_MODE_3 then (sdly (tm3 H), dly_idx (cur_spd_md (tm3 H)) (cur_freq (tm3 H)))
      else if cur_spd_md (tm4 H) = HS400 then (dsdly (tm4 H), unat (cur_freq (tm4 H)))
      else (sdly (tm4 H), dly_idx (cur_spd_md (tm4 H)) (cur_freq (tm4 H))))"

definition cur_point :: "sunxi_mmc_host \<Rightarrow> u8" where
  "cur_point H = (case point_entry H of (tab, i) \<Rightarrow> tab ! i)"

definition point_ok :: "sunxi_mmc_host \<Rightarrow> bool" where
  "point_ok H \<longleftrightarrow> timing_mode H \<in> {TIMING_MODE_1, TIMING_MODE_3, TIMING_MODE_4} \<and>
     snd (point_entry H) < length (fst (point_entry H)) \<and> unat (cur_point H) < sample_points H"

definition retryable :: "u32 \<Rightarrow> bool" where
  "retryable err \<longleftrightarrow> err \<noteq> 0 \<and> (err AND 0x100 = 0 \<or> err = 0xffffffff)"

text \<open>A series of failures that ask for a retry: the answers, and the host at the end.\<close>

fun retry_run :: "u32 list \<Rightarrow> sunxi_mmc_host \<Rightarrow> int list \<times> sunxi_mmc_host" where
  "retry_run [] H = ([], H)"
| "retry_run (err # errs) H = (case sunxi_decide_rty err False H of (ret, H) \<Rightarrow> apfst (Cons ret) (retry_run errs H))"

lemma next_point_mod:
  assumes "unat s < points" "0 < unat gap" "unat gap < points" "points \<le> 64"
  shows "unat (next_point gap (of_nat points) s) = (unat s + unat gap) mod points"
proof -
  have u: "unat (ucast s + ucast gap :: u32) = unat s + unat gap" "unat (of_nat points :: u32) = points"
    using assms by (simp_all add: unat_word_ariths unsigned_ucast_eq unat_of_nat take_bit_nat_eq_self)
  have g: "unat (s + gap) = unat s + unat gap" using assms by (simp add: unat_word_ariths)
  show ?thesis
  proof (cases "unat s + unat gap < points")
    case True
    then show ?thesis using u g by (simp add: next_point_def word_less_nat_alt)
  next
    case False
    then have "unat (ucast s + ucast gap - of_nat points :: u32) = unat s + unat gap - points"
      using u by (simp add: unat_sub_if_size)
    moreover have "unat s + unat gap - points < 256" using assms by simp
    ultimately have "unat (ucast (ucast s + ucast gap - of_nat points :: u32) :: u8) = unat s + unat gap - points"
      by (simp add: unsigned_ucast_eq take_bit_nat_eq_self)
    then show ?thesis using False u assms by (simp add: next_point_def word_less_nat_alt mod_if)
  qed
qed

lemma next_point_1: "unat s < 3 \<Longrightarrow> unat (next_point 1 3 s) = Suc (unat s) mod 3"
  using next_point_mod [of s 3 1] by simp

lemma next_point_8: "unat s < 64 \<Longrightarrow> unat (next_point 8 64 s) = (unat s + 8) mod 64"
  using next_point_mod [of s 64 8] by simp

lemma retry_count:
  assumes "k < 8"
  shows "(of_nat k + 1 :: u32) < 3 \<longleftrightarrow> Suc k < 3" "(of_nat k + 1 :: u32) * 8 < 64 \<longleftrightarrow> Suc k * 8 < 64"
proof -
  have "k \<in> {0, 1, 2, 3, 4, 5, 6, 7}" using assms by auto
  then show "(of_nat k + 1 :: u32) < 3 \<longleftrightarrow> Suc k < 3" "(of_nat k + 1 :: u32) * 8 < 64 \<longleftrightarrow> Suc k * 8 < 64" by auto
qed

lemma retry_step:
  assumes "retryable err" "point_ok H" "retry_cnt H = of_nat k" "k < 8"
  shows "fst (sunxi_decide_rty err False H) = (if Suc k * retry_gap H < sample_points H then 0 else -1)"
proof -
  have m: "timing_mode H = 1 \<or> timing_mode H = 3 \<or> timing_mode H = 4" using assms(2) by (simp add: point_ok_def)
  then show ?thesis
    using assms(1,3) retry_count [OF assms(4)]
    by (auto simp: sunxi_decide_rty_def retryable_def retry_gap_def sample_points_def Let_def)
qed

lemma retry_step_state:
  assumes "retryable err" "point_ok H" "retry_cnt H = of_nat k" "k < 8" "Suc k * retry_gap H < sample_points H"
  defines "H' \<equiv> snd (sunxi_decide_rty err False H)"
  shows "point_ok H' \<and> timing_mode H' = timing_mode H \<and> retry_cnt H' = of_nat (Suc k) \<and>
    unat (cur_point H') = (unat (cur_point H) + retry_gap H) mod sample_points H"
proof -
  consider (one) "timing_mode H = 1" | (three) "timing_mode H = 3" | (four) "timing_mode H = 4" "cur_spd_md (tm4 H) = 4"
    | (four') "timing_mode H = 4" "cur_spd_md (tm4 H) \<noteq> 4"
    using assms(2) by (auto simp: point_ok_def)
  then show ?thesis
    by cases (use assms(1-3,5) retry_count [OF assms(4)] in
      \<open>simp_all add: H'_def sunxi_decide_rty_def retryable_def point_ok_def retry_gap_def sample_points_def cur_point_def
        point_entry_def next_point_1 next_point_8 Let_def\<close>)
qed
lemma retry_run_points:
  assumes "point_ok H" "retry_cnt H = of_nat k" "\<forall>err \<in> set errs. retryable err" "(k + length errs) * retry_gap H < sample_points H"
  shows "fst (retry_run errs H) = replicate (length errs) 0 \<and>
    (let H' = snd (retry_run errs H) in point_ok H' \<and> timing_mode H' = timing_mode H \<and> retry_cnt H' = of_nat (k + length errs) \<and>
      unat (cur_point H') = (unat (cur_point H) + length errs * retry_gap H) mod sample_points H)"
  using assms
proof (induction errs arbitrary: H k)
  case Nil
  then show ?case by (simp add: point_ok_def)
next
  case (Cons err errs)
  obtain ret H1 where c: "sunxi_decide_rty err False H = (ret, H1)" by (meson surj_pair)
  have "Suc k * retry_gap H \<le> (k + length (err # errs)) * retry_gap H" by (intro mult_le_mono) simp_all
  then have lt: "Suc k * retry_gap H < sample_points H" using Cons.prems(4) by linarith
  then have k: "k < 8" by (auto simp: retry_gap_def sample_points_def split: if_splits)
  have s: "ret = 0" using retry_step [of err H k] Cons.prems k lt c by simp
  have st: "point_ok H1" "timing_mode H1 = timing_mode H" "retry_cnt H1 = of_nat (Suc k)"
    "unat (cur_point H1) = (unat (cur_point H) + retry_gap H) mod sample_points H"
    using retry_step_state [of err H k] Cons.prems k lt c by simp_all
  then have g: "retry_gap H1 = retry_gap H" "sample_points H1 = sample_points H" by (simp_all add: retry_gap_def sample_points_def)
  have "Suc k + length errs = k + length (err # errs)" by simp
  with Cons.IH [OF st(1,3)] Cons.prems(3,4) show ?case
    unfolding g using c s st(2,4) by (simp add: Let_def mod_add_left_eq add.assoc)
qed

lemma cyclic_distinct:
  assumes "(s + i * g) mod (n * g) = (s + j * g) mod (n * g)" "i < n" "j < n" "0 < (g :: nat)"
  shows "i = j"
proof -
  have le: "i * g < n * g" "j * g < n * g" using assms(2-4) by simp_all
  have "int (s + i * g) mod int (n * g) = int (s + j * g) mod int (n * g)" using assms(1) by (simp only: zmod_int [symmetric])
  then have "int (n * g) dvd int (i * g) - int (j * g)" by (simp add: mod_eq_dvd_iff)
  then have "int (i * g) - int (j * g) = 0"
    using le dvd_imp_le_int [of "int (i * g) - int (j * g)" "int (n * g)"] by (smt (verit) of_nat_0_le_iff of_nat_less_iff)
  then have "i * g = j * g" by linarith
  then show ?thesis using assms(4) by simp
qed

lemma retry_reset:
  "point_ok (snd (sunxi_decide_rty 0 True H)) = point_ok H" "cur_point (snd (sunxi_decide_rty 0 True H)) = cur_point H"
  "retry_cnt (snd (sunxi_decide_rty 0 True H)) = of_nat 0" "timing_mode (snd (sunxi_decide_rty 0 True H)) = timing_mode H"
proof -
  have r: "snd (sunxi_decide_rty 0 True H) = H\<lparr>retry_cnt := 0\<rparr>" by (simp add: sunxi_decide_rty_def Let_def)
  have e: "point_entry (H\<lparr>retry_cnt := 0\<rparr>) = point_entry H" by (simp add: point_entry_def)
  show "point_ok (snd (sunxi_decide_rty 0 True H)) = point_ok H" "cur_point (snd (sunxi_decide_rty 0 True H)) = cur_point H"
    "retry_cnt (snd (sunxi_decide_rty 0 True H)) = of_nat 0" "timing_mode (snd (sunxi_decide_rty 0 True H)) = timing_mode H"
    unfolding r by (simp_all add: point_ok_def cur_point_def e sample_points_def)
qed
text \<open>
  C24: retries after transfer errors. After the counter is reset, every error other than a response time-out is answered with
  a retry that moves on to the next sample point, cyclically, as long as there are points left: the
  points used are all different, two retries in timing mode 1 and seven in the modes 3 and 4. The next error is not retried.
\<close>

theorem retries_visit_points_once:
  assumes "point_ok H" "\<forall>err \<in> set errs. retryable err" "retryable err"
    and "n = sample_points H div retry_gap H" "length errs = n - 1" "H0 = snd (sunxi_decide_rty 0 True H)"
  defines "point k \<equiv> cur_point (snd (retry_run (take k errs) H0))"
  shows "fst (retry_run errs H0) = replicate (n - 1) 0 \<and>
    (\<forall>k < n. unat (point k) = (unat (cur_point H) + k * retry_gap H) mod sample_points H) \<and>
    distinct (map point [0..<n]) \<and> fst (sunxi_decide_rty err False (snd (retry_run errs H0))) = -1"
proof -
  have H: "point_ok H0" "retry_cnt H0 = of_nat 0" "timing_mode H0 = timing_mode H" "cur_point H0 = cur_point H"
    unfolding assms(6) using assms(1) by (simp_all only: retry_reset)
  then have g: "retry_gap H0 = retry_gap H" "sample_points H0 = sample_points H" by (simp_all add: retry_gap_def sample_points_def)
  have n: "0 < n" "n \<le> 8" "sample_points H = n * retry_gap H" "0 < retry_gap H"
    by (auto simp: assms(4) sample_points_def retry_gap_def)
  have at: "unat (point k) = (unat (cur_point H) + k * retry_gap H) mod sample_points H" if "k < n" for k
  proof -
    have "set (take k errs) \<subseteq> set errs" by (rule set_take_subset)
    moreover have "length (take k errs) = k" using that assms(5) by simp
    ultimately show ?thesis
      using retry_run_points [OF H(1,2), of "take k errs"] assms(2) that g H(4) n by (auto simp: Let_def point_def)
  qed
  have run: "fst (retry_run errs H0) = replicate (n - 1) 0" "point_ok (snd (retry_run errs H0))"
    "timing_mode (snd (retry_run errs H0)) = timing_mode H" "retry_cnt (snd (retry_run errs H0)) = of_nat (n - 1)"
    using retry_run_points [OF H(1,2) assms(2)] assms(5) n g H(3) by (simp_all add: Let_def)
  have stop: "fst (sunxi_decide_rty err False (snd (retry_run errs H0))) = -1"
    using retry_step [OF assms(3) run(2,4)] n run(3) by (simp add: retry_gap_def sample_points_def)
  have "distinct (map point [0..<n])"
    unfolding distinct_map inj_on_def using at cyclic_distinct [OF _ _ _ n(4)] n(3) by (metis atLeastLessThan_iff distinct_upt set_upt)
  with at run(1) stop show ?thesis by blast
qed

text \<open>
  A sample point that was never set is \<open>0xFF\<close>, and the retries of timing mode 1 start from that value: they select
  \<open>0xFD\<close> and \<open>0xFB\<close>, of which the sample phase field keeps 1 and 3. The phases 0 and 2 are never tried, and 3 is not a phase of the mode.
\<close>

theorem unset_point_retries:
  assumes "timing_mode H = TIMING_MODE_1" "snd (point_entry H) < length (fst (point_entry H))" "cur_point H = 0xFF"
    and "retryable e1" "retryable e2"
  shows "case retry_run [e1, e2] (snd (sunxi_decide_rty 0 True H)) of (rets, H2) \<Rightarrow>
    rets = [0, 0] \<and> cur_point H2 = 0xFB \<and>
    (case sunxi_decide_rty e1 False (snd (sunxi_decide_rty 0 True H)) of (_, H1) \<Rightarrow>
       cur_point H1 = 0xFD \<and> cur_point H1 AND 0x3 = 1 \<and> cur_point H2 AND 0x3 = 3)"
  using assms
  by (simp add: sunxi_decide_rty_def retryable_def Let_def cur_point_def point_entry_def next_point_def)

definition demo_retry_host :: "u8 \<Rightarrow> sunxi_mmc_host" where
  "demo_retry_host s = demo_clk_host\<lparr>timing_mode := 1, tm1 := (tm1 demo_clk_host)\<lparr>sdly := replicate 40 s\<rparr>\<rparr>"

lemma demo_retry_entry: "point_entry (demo_retry_host s) = (replicate 40 s, 0)" "timing_mode (demo_retry_host s) = 1"
  by (simp_all add: demo_retry_host_def demo_clk_host_def point_entry_def dly_idx_def)

theorem retries_visit_points_once_witness:
  "fst (retry_run [2, 0x80] (snd (sunxi_decide_rty 0 True (demo_retry_host 1)))) = [0, 0]"
proof -
  have ok: "point_ok (demo_retry_host 1)" "sample_points (demo_retry_host 1) = 3" "retry_gap (demo_retry_host 1) = 1"
    by (simp_all add: point_ok_def demo_retry_entry cur_point_def sample_points_def retry_gap_def)
  have "\<forall>err \<in> set [2, 0x80]. retryable err" "retryable 2" "length [2, 0x80 :: u32] = 3 - 1"
    "3 = sample_points (demo_retry_host 1) div retry_gap (demo_retry_host 1)" using ok(2,3) by (simp_all add: retryable_def)
  from conjunct1 [OF retries_visit_points_once [OF ok(1) this(1,2,4,3) refl]] show ?thesis by (simp add: numeral_2_eq_2)
qed

lemma unset_point_retries_witness:
  "cur_point (snd (retry_run [2, 2] (snd (sunxi_decide_rty 0 True (demo_retry_host 0xFF))))) = 0xFB"
  using unset_point_retries [of "demo_retry_host 0xFF" 2 2]
  by (simp add: demo_retry_entry cur_point_def retryable_def split: prod.splits)

section \<open>Registers of the controller\<close>

text \<open>
  Where the registers of a controller lie: those the driver configures keep what is written (they are in \<open>cfg\<close>), the
  command register and the interrupt status do not, and the clock registers are outside the controller.
\<close>

definition sd_layout :: "u32 set \<Rightarrow> sunxi_mmc_host \<Rightarrow> bool" where
  "sd_layout cfg H \<longleftrightarrow>
     (\<forall>r \<in> set saved_regs. host_reg H + r \<in> cfg \<and> host_reg H + r \<noteq> mclkbase H \<and> host_reg H + r \<noteq> 0x01c20028) \<and>
     mclkbase H \<in> cfg \<and> 0x01c20028 \<in> cfg \<and> mclkbase H \<noteq> 0x01c20028 \<and> host_reg H + r_cmd \<notin> cfg \<and> host_reg H + r_rint \<notin> cfg"

lemma saved_regs_members [simp]:
  "r_gctrl \<in> set saved_regs" "r_clkcr \<in> set saved_regs" "r_width \<in> set saved_regs" "r_ntsr \<in> set saved_regs"
  "r_dsbd \<in> set saved_regs" "r_drv_dl \<in> set saved_regs" "r_samp_dl \<in> set saved_regs" "r_ds_dl \<in> set saved_regs"
  by (simp_all add: saved_regs_def)

context mmio_registers
begin

lemma hrd_value: "host_reg H + r \<in> cfg \<Longrightarrow> fst (hrd p H r h) = reg h (host_reg H + r)"
  by (simp add: hrd_def fst_read)

lemma hrd_keeps: "b \<in> cfg \<Longrightarrow> reg (snd (hrd p H r h)) b = reg h b"
  by (simp add: hrd_def snd_read)

lemma hwr_reg: "b \<in> cfg \<Longrightarrow> reg (hwr p H r v h) b = (if b = host_reg H + r then v else reg h b)"
  by (simp add: hwr_def reg_write)

lemma hrmw_reg: "b \<in> cfg \<Longrightarrow> reg (hrmw p H r f h) b = (if b = host_reg H + r then f (reg h b) else reg h b)"
  by (auto simp: hrmw_def reg_rmw)

lemmas host_regs = hrd_value hrd_keeps hwr_reg hrmw_reg

lemma clk_wait_keeps: "b \<in> cfg \<Longrightarrow> reg (snd (clk_cmd_wait p H t h)) b = reg h b"
proof (induction t arbitrary: h)
  case (Suc t)
  then show ?case by (simp add: split_beta hrd_keeps)
qed simp

lemma save_fold:
  assumes "\<And>r. r \<in> set rs \<Longrightarrow> host_reg H + r \<in> cfg"
  shows "case fold (save_reg p) rs (H, h) of (H', h') \<Rightarrow>
    host_reg H' = host_reg H \<and> (\<forall>r. reg_bak H' r = (if r \<in> set rs then reg h (host_reg H + r) else reg_bak H r))"
  using assms
proof (induction rs arbitrary: H h)
  case (Cons r rs)
  obtain H1 h1 where v: "save_reg p r (H, h) = (H1, h1)" by (meson surj_pair)
  then have k: "host_reg H1 = host_reg H" "\<And>b. b \<in> cfg \<Longrightarrow> reg h1 b = reg h b"
    "\<And>x. reg_bak H1 x = (if x = r then reg h (host_reg H + r) else reg_bak H x)"
    using Cons.prems hrd_value [of H r h] hrd_keeps [of _ H r h] by (auto simp: save_reg_def split_beta)
  show ?case using Cons.IH [of H1 h1] Cons.prems k v by (auto split: prod.splits)
qed simp

lemma restore_fold:
  assumes "\<And>r. r \<in> set rs \<Longrightarrow> host_reg H + r \<in> cfg" "host_reg H + r \<in> cfg"
  shows "reg (fold (restore_reg p H) rs h) (host_reg H + r) =
    (if r \<in> set rs \<and> r \<noteq> r_dbgc then reg_bak H r
     else if r \<in> set rs \<and> reg_bak H r \<noteq> 0 then 0xdeb else reg h (host_reg H + r))"
  using assms
proof (induction rs arbitrary: h)
  case (Cons a rs)
  then show ?case by (auto simp: hwr_reg restore_reg_def)
qed simp

end

text \<open>
  The register backup. Whatever happens to the controller between \<open>mmc_save_regs\<close> and \<open>mmc_restore_regs\<close> (the
  recovery from an error resets it), every saved register gets its old value back; the debug register, if it was in use,
  gets \<open>0xdeb\<close>, the value the driver uses everywhere.
\<close>

theorem saved_registers_restored:
  assumes "mmio_registers p reg cfg" "\<forall>r \<in> set saved_regs. host_reg H + r \<in> cfg" "mmc_save_regs p (H, h) = (H', h')"
    and "r \<in> set saved_regs" "r = r_dbgc \<longrightarrow> reg h (host_reg H + r) = 0xdeb"
  shows "reg (mmc_restore_regs p H' h2) (host_reg H + r) = reg h (host_reg H + r)"
proof -
  have s: "host_reg H' = host_reg H" "\<And>r. r \<in> set saved_regs \<Longrightarrow> reg_bak H' r = reg h (host_reg H + r)"
    using mmio_registers.save_fold [OF assms(1), of saved_regs H h] assms(2,3) by (simp_all add: mmc_save_regs_def)
  show ?thesis
    using mmio_registers.restore_fold [OF assms(1), of saved_regs H' r h2] s assms(2,4,5)
    unfolding mmc_restore_regs_def by (cases "r = r_dbgc") simp_all
qed

lemma saved_registers_restored_witness:
  "(mmc_restore_regs ram_plat (fst (mmc_save_regs ram_plat (demo_clk_host, \<lambda>a. a * 3))) (\<lambda>_. 7)) 0x01c1100c = 0x01c1100c * 3"
proof -
  obtain H' h' where s: "mmc_save_regs ram_plat (demo_clk_host, \<lambda>a. a * 3) = (H', h')" by (meson surj_pair)
  have "host_reg demo_clk_host = 0x01c11000" by (simp add: demo_clk_host_def)
  then show ?thesis
    using saved_registers_restored [OF ram.mmio_registers_axioms _ s, of r_width "\<lambda>_. 7"] s by simp
qed
section \<open>What the bus configuration leaves behind\<close>

text \<open>The fields that say where the host is and what it is are never changed by the configuration.\<close>

definition same_host :: "sunxi_mmc_host \<Rightarrow> sunxi_mmc_host \<Rightarrow> bool" where
  "same_host H H' \<longleftrightarrow> host_reg H' = host_reg H \<and> mclkbase H' = mclkbase H \<and> mmc_no H' = mmc_no H \<and>
     timing_mode H' = timing_mode H \<and> fatal_err H' = fatal_err H \<and> host_clock H' = host_clock H"

lemma delay_host: "same_host H (fst (mmc_config_delay p (H, h)))"
  by (simp add: mmc_config_delay_def same_host_def Let_def)

lemma spd_freq_host: "same_host H (set_spd_freq m f H)"
  by (simp add: set_spd_freq_def same_host_def)

lemma sd_layout_cong: "host_reg H' = host_reg H \<Longrightarrow> mclkbase H' = mclkbase H \<Longrightarrow> sd_layout cfg H' = sd_layout cfg H"
  by (simp add: sd_layout_def)

lemma sd_layoutD:
  assumes "sd_layout cfg H"
  shows "r \<in> set saved_regs \<Longrightarrow> host_reg H + r \<in> cfg" "r \<in> set saved_regs \<Longrightarrow> host_reg H + r \<noteq> mclkbase H"
    "b \<in> cfg \<Longrightarrow> b \<noteq> host_reg H + r_cmd" "b \<in> cfg \<Longrightarrow> b \<noteq> host_reg H + r_rint" "mclkbase H \<in> cfg"
    "r \<in> set saved_regs \<Longrightarrow> mclkbase H \<noteq> host_reg H + r"
  using assms by (auto simp: sd_layout_def)

text \<open>The registers that the clock and delay set-up writes.\<close>

definition mclk_regs :: "sunxi_mmc_host \<Rightarrow> u32 set" where
  "mclk_regs H = {mclkbase H, host_reg H + r_clkcr, host_reg H + r_ntsr, host_reg H + r_drv_dl, host_reg H + r_samp_dl, host_reg H + r_ds_dl}"

context mmio_registers
begin

lemma update_clk_reg:
  assumes "sd_layout cfg H" "b \<in> cfg"
  shows "reg (snd (mmc_update_clk p H h)) b =
    (if b = host_reg H + r_clkcr
     then if fst (mmc_update_clk p H h) = 0 then reg h b AND NOT 0x80000000 else reg h b OR 0x80000000
     else reg h b)"
proof -
  have m: "(v OR 0x80000000) AND NOT 0x80000000 = v AND NOT 0x80000000" for v :: u32
    by (auto simp: bit_eq_iff bit_simps)
  have n: "b \<noteq> host_reg H + r_cmd" "b \<noteq> host_reg H + r_rint" using sd_layoutD(3,4) [OF assms] by auto
  show ?thesis
  proof (cases "b = host_reg H + r_clkcr")
    case True
    have "host_reg H + r_clkcr \<in> cfg" using True assms(2) by simp
    then show ?thesis unfolding True using m [of "reg h (host_reg H + r_clkcr)"]
      by (simp add: mmc_update_clk_def Let_def split_beta host_regs clk_wait_keeps)
  next
    case False
    then show ?thesis using assms(2) n
      by (simp add: mmc_update_clk_def Let_def split_beta host_regs clk_wait_keeps)
  qed
qed

lemma delay_keeps:
  assumes "b \<in> cfg" "b \<notin> mclk_regs H"
  shows "reg (snd (mmc_config_delay p (H, h))) b = reg h b"
  using assms by (simp add: mmc_config_delay_def Let_def mclk_regs_def hrmw_reg)

lemma delay_clkcr:
  assumes "sd_layout cfg H"
  shows "reg (snd (mmc_config_delay p (H, h))) (host_reg H + r_clkcr) = reg h (host_reg H + r_clkcr)"
    and "reg (snd (mmc_config_delay p (H, h))) (mclkbase H) = reg h (mclkbase H)"
  using sd_layoutD [OF assms] by (simp_all add: mmc_config_delay_def Let_def hrmw_reg)

lemma set_mclk_keeps: "b \<in> cfg \<Longrightarrow> b \<noteq> mclkbase H \<Longrightarrow> reg (mmc_set_mclk p H clk h) b = reg h b"
  by (simp add: mmc_set_mclk_def split_beta reg_write pll6_keeps)

lemma get_mclk_keeps: "b \<in> cfg \<Longrightarrow> reg (snd (mmc_get_mclk p H h)) b = reg h b"
  by (auto simp: mmc_get_mclk_def split_beta Let_def snd_read pll6_keeps)

end

lemma same_host_trans: "same_host H H' \<Longrightarrow> same_host H' H'' \<Longrightarrow> same_host H H''"
  by (simp add: same_host_def)

text \<open>The host and the hardware before the last step of \<open>mmc_config_clock_modex\<close>, the clock update.\<close>

lemma mod_clk_host: "same_host H (set_mod_clk clk m H)"
  by (simp add: set_mod_clk_def same_host_def)

lemma ddr_ratio_cong: "timing_mode H' = timing_mode H \<Longrightarrow> speed_mode m' = speed_mode m \<Longrightarrow> bus_width m' = bus_width m \<Longrightarrow>
    ddr_ratio H' m' = ddr_ratio H m"
  by (simp add: ddr_ratio_def)

lemma hregs_cong:
  assumes "host_reg H' = host_reg H"
  shows "hrd p H' = hrd p H" "hwr p H' = hwr p H" "hrmw p H' = hrmw p H"
  using assms by (simp_all add: hrd_def hwr_def hrmw_def fun_eq_iff)

text \<open>The steps of \<open>mmc_config_clock_modex\<close>; the last one, the clock update, decides whether the delays are set.\<close>

lemma modex_steps:
  assumes "timing_mode H \<in> {TIMING_MODE_1, TIMING_MODE_3, TIMING_MODE_4}"
    and "mmc_get_mclk p (set_mod_clk clk m H) (mmc_set_mclk p (set_mod_clk clk m H) (mod_clk (set_mod_clk clk m H))
           (if timing_mode H = TIMING_MODE_1 then hrmw p H r_ntsr (\<lambda>v. v OR 0x80000000) (MmioWrite32 p (mclkbase H) 0 h)
            else hwr p H r_ntsr 0 (MmioWrite32 p (mclkbase H) 0 h))) = (v, h2)"
  defines "m' \<equiv> m\<lparr>clock := v div (if ddr_ratio H m then 4 else 2)\<rparr>"
  defines "H2 \<equiv> (set_mod_clk clk m H)\<lparr>host_clock := clock m'\<rparr>"
  defines "h3 \<equiv> hrmw p H r_clkcr (\<lambda>v. (v AND NOT 0xFF) OR (if ddr_ratio H m then 1 else 0))
                  (mmio_rmw p (mclkbase H) (\<lambda>v. v OR 0x80000000) h2)"
  shows "snd (mmc_config_clock_modex p clk (m, H, h)) =
    (m', if fst (mmc_update_clk p H2 h3) \<noteq> 0 then (H2, snd (mmc_update_clk p H2 h3))
         else mmc_config_delay p (set_spd_freq m' (freq_point clk) H2, snd (mmc_update_clk p H2 h3)))"
proof -
  let ?H1 = "set_mod_clk clk m H"
  have H1: "timing_mode ?H1 = timing_mode H" "host_reg ?H1 = host_reg H" "mclkbase ?H1 = mclkbase H"
    using mod_clk_host [of H clk m] by (simp_all add: same_host_def)
  have r: "ddr_ratio ?H1 m = ddr_ratio H m" "ddr_ratio H2 m' = ddr_ratio H m"
    by (rule ddr_ratio_cong; simp add: H1 m'_def H2_def)+
  have e: "hrmw p H2 = hrmw p H" "mclkbase H2 = mclkbase H" "hrmw p ?H1 = hrmw p H" "hwr p ?H1 = hwr p H"
    using hregs_cong [of H2 H p] hregs_cong [of ?H1 H p] H1 by (simp_all add: H2_def)
  have k: "timing_mode H = 1 \<or> timing_mode H = 3 \<or> timing_mode H = 4" using assms(1) by simp
  show ?thesis
    using k unfolding mmc_config_clock_modex_def Let_def prod.case
    by (simp only: assms(2) prod.case if_True r(1) m'_def [symmetric] H2_def [symmetric] r e h3_def [symmetric] simp_thms split_beta
        if_distrib [of snd] snd_conv fst_conv prod.collapse cong: if_cong) simp
qed

context mmio_registers
begin

text \<open>The clock set-up: where the clock is left, and what is not touched.\<close>

lemma modex_regs:
  assumes "sd_layout cfg H" "timing_mode H \<in> {TIMING_MODE_1, TIMING_MODE_3, TIMING_MODE_4}"
    and "mmc_config_clock_modex p clk (m, H, h) = (ret, m', H', h')"
  shows "m' = m\<lparr>clock := clock m'\<rparr> \<and> same_host (H\<lparr>host_clock := clock m'\<rparr>) H' \<and>
    reg h' (mclkbase H) AND 0x80000000 = 0x80000000 \<and> reg h' (host_reg H + r_clkcr) AND 0xFF = (if ddr_ratio H m then 1 else 0) \<and>
    (\<forall>b \<in> cfg - mclk_regs H. reg h' b = reg h b)"
proof -
  let ?H1 = "set_mod_clk clk m H"
  let ?h0 = "if timing_mode H = TIMING_MODE_1 then hrmw p H r_ntsr (\<lambda>v. v OR 0x80000000) (MmioWrite32 p (mclkbase H) 0 h)
            else hwr p H r_ntsr 0 (MmioWrite32 p (mclkbase H) 0 h)"
  let ?h1 = "mmc_set_mclk p ?H1 (mod_clk ?H1) ?h0"
  obtain v h2 where g: "mmc_get_mclk p ?H1 ?h1 = (v, h2)" by (meson surj_pair)
  define m1 where "m1 = m\<lparr>clock := v div (if ddr_ratio H m then 4 else 2)\<rparr>"
  define H2 where "H2 = ?H1\<lparr>host_clock := clock m1\<rparr>"
  define h3 where "h3 = hrmw p H r_clkcr (\<lambda>v. (v AND NOT 0xFF) OR (if ddr_ratio H m then 1 else 0))
                  (mmio_rmw p (mclkbase H) (\<lambda>v. v OR 0x80000000) h2)"
  define u where "u = mmc_update_clk p H2 h3"
  note run = modex_steps [OF assms(2) g, folded m1_def, folded H2_def h3_def, folded u_def, unfolded assms(3)]
  have H2: "same_host (H\<lparr>host_clock := clock m1\<rparr>) H2" using mod_clk_host [of H clk m] by (simp add: H2_def same_host_def)
  then have a: "host_reg H2 = host_reg H" "mclkbase H2 = mclkbase H" "mclk_regs H2 = mclk_regs H" "sd_layout cfg H2"
    using assms(1) sd_layout_cong [of H2 H cfg] by (simp_all add: same_host_def mclk_regs_def)
  let ?H3 = "set_spd_freq m1 (freq_point clk) H2"
  have H3: "host_reg ?H3 = host_reg H" "mclkbase ?H3 = mclkbase H" "mclk_regs ?H3 = mclk_regs H" "sd_layout cfg ?H3" "same_host H2 ?H3"
    using spd_freq_host [of H2 m1 "freq_point clk"] a sd_layout_cong [of ?H3 H2 cfg] by (simp_all add: same_host_def mclk_regs_def)
  note L = sd_layoutD [OF assms(1)]
  have k0: "reg ?h0 b = reg h b" if "b \<in> cfg - mclk_regs H" for b
    using that by (auto simp: mclk_regs_def hrmw_reg hwr_reg reg_write)
  have k3: "reg h3 b = reg h b" if b: "b \<in> cfg - mclk_regs H" for b
  proof -
    have "b \<noteq> mclkbase ?H1" using b mod_clk_host [of H clk m] by (auto simp: mclk_regs_def same_host_def)
    then have "reg h2 b = reg h b" using get_mclk_keeps [of b ?H1 ?h1] set_mclk_keeps [of b ?H1 "mod_clk ?H1" ?h0] k0 [OF b] b g by simp
    then show ?thesis using b by (simp add: h3_def hrmw_reg reg_rmw mclk_regs_def)
  qed
  have cl: "host_reg H + r_clkcr \<in> cfg" "host_reg H + r_clkcr \<noteq> mclkbase H" "mclkbase H \<noteq> host_reg H + r_clkcr"
    using L(1,2,6) by simp_all
  have x: "(if ddr_ratio H m then 1 else 0 :: u32) AND 0xFF = (if ddr_ratio H m then 1 else 0)" by simp
  have c3: "reg h3 (host_reg H + r_clkcr) AND 0xFF = (if ddr_ratio H m then 1 else 0)"
    using bitfield_read [OF x] by (simp only: h3_def hrmw_reg [OF cl(1)] if_True simp_thms)
  have c3': "reg h3 (mclkbase H) AND 0x80000000 = 0x80000000"
    using cl L(5) by (simp add: h3_def hrmw_reg reg_rmw and.commute)
  have u: "reg (snd u) b = (if b = host_reg H + r_clkcr then if fst u = 0 then reg h3 b AND NOT 0x80000000 else reg h3 b OR 0x80000000
      else reg h3 b)" if "b \<in> cfg" for b
    using update_clk_reg [OF a(4) that, of h3] a(1) by (simp add: u_def)
  have bits: "(v AND NOT 0x80000000) AND 0xFF = v AND 0xFF" "(v OR 0x80000000) AND 0xFF = v AND 0xFF" for v :: u32
    by (rule clear_frame or_frame; simp)+
  have u_all: "reg (snd u) (host_reg H + r_clkcr) AND 0xFF = (if ddr_ratio H m then 1 else 0)"
    "reg (snd u) (mclkbase H) AND 0x80000000 = 0x80000000" "b \<in> cfg - mclk_regs H \<Longrightarrow> reg (snd u) b = reg h b" for b
    using c3 c3' u [OF cl(1)] u [OF L(5)] cl(3) u [of b] k3 [of b] bits [of "reg h3 (host_reg H + r_clkcr)"]
    by (auto simp: mclk_regs_def)
  show ?thesis
  proof (cases "fst u = 0")
    case True
    let ?d = "mmc_config_delay p (?H3, snd u)"
    have "m' = m1 \<and> (H', h') = ?d" using run True by simp
    then have e: "m' = m1" "H' = fst ?d" "h' = snd ?d" by (auto simp: prod_eq_iff)
    have s: "same_host (H\<lparr>host_clock := clock m1\<rparr>) (fst ?d)"
      using same_host_trans [OF same_host_trans [OF H2 H3(5)] delay_host] .
    have r: "reg (snd ?d) (host_reg H + r_clkcr) = reg (snd u) (host_reg H + r_clkcr)" "reg (snd ?d) (mclkbase H) = reg (snd u) (mclkbase H)"
      using delay_clkcr [OF H3(4), of "snd u"] unfolding H3(1,2) by blast+
    have k: "\<forall>b \<in> cfg - mclk_regs H. reg (snd ?d) b = reg h b"
      using delay_keeps [of _ ?H3 "snd u"] u_all(3) unfolding H3(3) by simp
    have "m1 = m\<lparr>clock := clock m1\<rparr>" by (simp add: m1_def)
    with s r k u_all(1,2) show ?thesis unfolding e by simp
  next
    case False
    then show ?thesis using run u_all H2 by (simp add: m1_def)
  qed
qed

end

lemma set_clear_read:
  fixes v a b c :: "'a::len word"
  shows "a AND b = 0 \<Longrightarrow> b AND c = 0 \<Longrightarrow> ((v OR a) AND NOT b) AND (b OR a OR c) = a OR (v AND c)"
  by (auto simp: bit_eq_iff bit_simps)

context mmio_registers
begin

lemma ddr_mode_reg:
  assumes "b \<in> cfg" "host_reg H + r_gctrl \<in> cfg" "host_reg H + r_dsbd \<in> cfg"
  shows "reg (mmc_set_ddr_mode p H m h) b =
    (if b = host_reg H + r_gctrl then (let v = reg h b AND NOT 0x400 in if speed_mode m = HSDDR52_DDR50 then v OR 0x400 else v)
     else if b = host_reg H + r_dsbd \<and> mmc_no H = 2
     then (let v = reg h b AND NOT 0x80000000 in if speed_mode m = HS400 then v OR 0x80000000 else v) else reg h b)"
  using assms by (auto simp: mmc_set_ddr_mode_def mmc_ddr_mode_onoff_def mmc_hs400_mode_onoff_def hrmw_reg Let_def)

lemma config_clock_regs:
  assumes "sd_layout cfg H" "mmc_config_clock p clk (m, H, h) = (0, m', H', h')"
  shows "m' = m\<lparr>clock := host_clock H'\<rparr> \<and> same_host (H\<lparr>host_clock := host_clock H'\<rparr>) H' \<and>
    reg h' (mclkbase H) AND 0x80000000 = 0x80000000 \<and>
    reg h' (host_reg H + r_clkcr) AND 0x800100FF = 0x10000 OR (if ddr_ratio H m then 1 else 0) \<and>
    (\<forall>b \<in> cfg - mclk_regs H. reg h' b = reg h b)"
proof -
  let ?off = "hrmw p H r_clkcr (\<lambda>v. v AND NOT 0x10000) h"
  note L = sd_layoutD [OF assms(1)]
  define h1 where "h1 = snd (mmc_update_clk p H ?off)"
  have h1: "reg h1 b = reg h b" if "b \<in> cfg - mclk_regs H" for b
    using update_clk_reg [OF assms(1), of b ?off] that by (simp add: h1_def hrmw_reg mclk_regs_def)
  have mode: "timing_mode H \<in> {TIMING_MODE_1, TIMING_MODE_3, TIMING_MODE_4}" "fst (mmc_update_clk p H ?off) = 0"
    using assms(2) by (auto simp: mmc_config_clock_def split_beta split: if_splits)
  obtain ret m2 H2 h2 where x: "mmc_config_clock_modex p clk (m, H, h1) = (ret, m2, H2, h2)" by (metis prod_cases4)
  note M = modex_regs [OF assms(1) mode(1) x]
  let ?h3 = "hrmw p H2 r_clkcr (\<lambda>v. v OR 0x10000) h2"
  have e: "m' = m2" "H' = H2" "h' = snd (mmc_update_clk p H2 ?h3)" "fst (mmc_update_clk p H2 ?h3) = 0"
    using assms(2) mode x by (auto simp: mmc_config_clock_def split_beta h1_def split: if_splits)
  have H2: "host_reg H2 = host_reg H" "mclkbase H2 = mclkbase H" "sd_layout cfg H2" "host_clock H2 = clock m2"
    using M assms(1) sd_layout_cong [of H2 H cfg] by (simp_all add: same_host_def)
  have u: "reg h' b = (if b = host_reg H + r_clkcr then reg ?h3 b AND NOT 0x80000000 else reg ?h3 b)" if "b \<in> cfg" for b
    using update_clk_reg [OF H2(3) that, of ?h3] e(3,4) H2(1) by simp
  have bits: "((v OR 0x10000) AND NOT 0x80000000) AND 0x800100FF = 0x10000 OR (v AND 0xFF)" for v :: u32
    using set_clear_read [of "0x10000 :: u32" "0x80000000" "0xFF" v] by simp
  have "reg h' (host_reg H + r_clkcr) = (reg h2 (host_reg H + r_clkcr) OR 0x10000) AND NOT 0x80000000"
    using u [OF L(1) [of r_clkcr]] L(1) [of r_clkcr] H2(1) by (simp add: hrmw_reg)
  then have c: "reg h' (host_reg H + r_clkcr) AND 0x800100FF = 0x10000 OR (if ddr_ratio H m then 1 else 0)"
    using bits [of "reg h2 (host_reg H + r_clkcr)"] M by simp
  have o: "reg h' b = reg h2 b" if "b \<in> cfg" "b \<noteq> host_reg H + r_clkcr" for b
    using u [OF that(1)] that H2(1) by (simp add: hrmw_reg)
  have mc: "reg h' (mclkbase H) = reg h2 (mclkbase H)" using o [OF L(5) L(6)] by simp
  have k: "reg h' b = reg h b" if "b \<in> cfg - mclk_regs H" for b
    using o [of b] h1 [OF that] M that by (auto simp: mclk_regs_def)
  show ?thesis using M c mc k unfolding e(1,2) H2(4) by simp
qed

end

text \<open>
  C23: \<open>mmc_set_ios\<close>. When it is asked for a clock and does not report a fatal error, the card clock runs (the gates of the controller and of the
  clock unit are open, data line 0 is no longer masked, the divider is the one of the mode), the bus is as wide as the card's
  description says, double data rate is on exactly in the DDR mode and the data strobe of controller 2 exactly in the
  HS400 mode. The card's clock becomes the configured one, which the host remembers, nothing else of its description is changed, and of the
  registers that keep what is written only those of clock and delays (\<open>mclk_regs\<close>), width, control and data strobe are touched.
\<close>

theorem bus_configured:
  assumes "mmio_registers p reg cfg" "sd_layout cfg H" "clock m \<noteq> 0" "fatal_err H = 0"
    and "mmc_host_set_ios p (m, H, h) = (m', H', h')" "fatal_err H' = 0"
  defines "R \<equiv> \<lambda>r. reg h' (host_reg H + r)"
  shows "m' = m\<lparr>clock := host_clock H'\<rparr> \<and> reg h' (mclkbase H) AND 0x80000000 \<noteq> 0 \<and>
    R r_clkcr AND 0x800100FF = 0x10000 OR (if ddr_ratio H m then 1 else 0) \<and>
    R r_width = (if bus_width m = 8 then 2 else if bus_width m = 4 then 1 else 0) \<and>
    (R r_gctrl AND 0x400 \<noteq> 0 \<longleftrightarrow> speed_mode m = HSDDR52_DDR50) \<and>
    (mmc_no H = 2 \<longrightarrow> (R r_dsbd AND 0x80000000 \<noteq> 0 \<longleftrightarrow> speed_mode m = HS400)) \<and>
    (\<forall>b \<in> cfg - mclk_regs H - {host_reg H + r_width, host_reg H + r_gctrl, host_reg H + r_dsbd}. reg h' b = reg h b)"
proof -
  note L = sd_layoutD [OF assms(2)] and regs = mmio_registers.host_regs [OF assms(1)]
  obtain ret m1 H1 h1 where c: "mmc_config_clock p (clock m) (m, H, h) = (ret, m1, H1, h1)" by (metis prod_cases4)
  let ?h2 = "hwr p H1 r_width (if bus_width m = 8 then 2 else if bus_width m = 4 then 1 else 0) h1"
  have "ret = 0" using assms(3-6) c by (auto simp: mmc_host_set_ios_def split: if_splits)
  note C = mmio_registers.config_clock_regs [OF assms(1,2) c [unfolded this]]
  have e: "m' = m1" "H' = H1" "h' = mmc_set_ddr_mode p H1 m1 ?h2"
    using assms(3,5) c C \<open>ret = 0\<close> by (auto simp: mmc_host_set_ios_def)
  have H1: "host_reg H1 = host_reg H" "mmc_no H1 = mmc_no H" "speed_mode m1 = speed_mode m"
    using C arg_cong [of m1 _ speed_mode] by (auto simp: same_host_def)
  have on: "((v AND NOT M) OR M) AND M \<noteq> 0" "(v AND NOT M) AND M = 0" if "M \<noteq> 0" for v M :: u32
    using that by (auto simp: bit_eq_iff bit_simps)
  have rc: "host_reg H + r \<in> cfg" if "r \<in> {r_gctrl, r_dsbd, r_width, r_clkcr}" for r using that by (intro L(1)) (auto simp: saved_regs_def)
  have new: "reg h' b = (if b = host_reg H + r_gctrl then (let v = reg h1 b AND NOT 0x400 in if speed_mode m = HSDDR52_DDR50 then v OR 0x400 else v)
      else if b = host_reg H + r_dsbd \<and> mmc_no H = 2
      then (let v = reg h1 b AND NOT 0x80000000 in if speed_mode m = HS400 then v OR 0x80000000 else v)
      else if b = host_reg H + r_width then if bus_width m = 8 then 2 else if bus_width m = 4 then 1 else 0
      else reg h1 b)" if "b \<in> cfg" for b
  proof -
    have "reg ?h2 b = (if b = host_reg H + r_width then if bus_width m = 8 then 2 else if bus_width m = 4 then 1 else 0 else reg h1 b)"
      using regs(3) [OF that, of H1] by (simp only: H1)
    then show ?thesis
      using mmio_registers.ddr_mode_reg [OF assms(1) that, of H1 m1 ?h2, unfolded H1, OF rc rc] unfolding e(3) by (auto simp: Let_def)
  qed
  have r: "R r_gctrl = (let v = reg h1 (host_reg H + r_gctrl) AND NOT 0x400 in if speed_mode m = HSDDR52_DDR50 then v OR 0x400 else v)"
    "mmc_no H = 2 \<Longrightarrow> R r_dsbd = (let v = reg h1 (host_reg H + r_dsbd) AND NOT 0x80000000 in if speed_mode m = HS400 then v OR 0x80000000 else v)"
    "R r_width = (if bus_width m = 8 then 2 else if bus_width m = 4 then 1 else 0)"
    "R r_clkcr = reg h1 (host_reg H + r_clkcr)" "reg h' (mclkbase H) = reg h1 (mclkbase H)"
    using new [OF rc [of r_gctrl]] new [OF rc [of r_dsbd]] new [OF rc [of r_width]] new [OF rc [of r_clkcr]] new [OF L(5)]
      L(6) [of r_gctrl] L(6) [of r_dsbd] L(6) [of r_width] by (simp_all add: R_def)
  have k: "reg h' b = reg h b" if "b \<in> cfg - mclk_regs H - {host_reg H + r_width, host_reg H + r_gctrl, host_reg H + r_dsbd}" for b
    using new [of b] C that by simp
  have "R r_gctrl AND 0x400 \<noteq> 0 \<longleftrightarrow> speed_mode m = HSDDR52_DDR50" "mmc_no H = 2 \<longrightarrow> (R r_dsbd AND 0x80000000 \<noteq> 0 \<longleftrightarrow> speed_mode m = HS400)"
    using r(1,2) on [of "0x400" "reg h1 (host_reg H + r_gctrl)"] on [of "0x80000000" "reg h1 (host_reg H + r_dsbd)"]
    by (simp_all only: Let_def split: if_splits) simp_all
  with C r(3-5) k show ?thesis unfolding e(1,2) by simp
qed

text \<open>A controller that takes every clock command at once, and is plain memory otherwise.\<close>

definition quick_plat :: "(u32 \<Rightarrow> u32) plat" where
  "quick_plat = ram_plat\<lparr>MmioWrite32 := (\<lambda>a v h. h(a := if a = 0x01c11018 then v AND NOT 0x80000000 else v))\<rparr>"

interpretation quick: mmio_registers quick_plat id "- {0x01c11018, 0x01c11038}"
  by unfold_locales (auto simp: quick_plat_def ram_plat_def)

lemma quick_layout: "sd_layout (- {0x01c11018, 0x01c11038}) demo_clk_host"
  by (simp add: sd_layout_def saved_regs_def demo_clk_host_def)

lemma quick_update: "host_reg H = 0x01c11000 \<Longrightarrow> fst (mmc_update_clk quick_plat H h) = 0"
proof -
  assume H: "host_reg H = 0x01c11000"
  have "clk_cmd_wait quick_plat H (Suc t) (hwr quick_plat H r_cmd v g) = (True, hwr quick_plat H r_cmd v g)" for v g t
  proof -
    have "(v AND NOT 0x80000000) AND 0x80000000 = 0" by (auto simp: bit_eq_iff bit_simps)
    then show ?thesis using H by (simp add: quick_plat_def ram_plat_def hrd_def hwr_def)
  qed
  from this [of 999] show ?thesis by (simp add: mmc_update_clk_def Let_def)
qed

lemma quick_ios:
  assumes "mmc_host_set_ios quick_plat (m, demo_clk_host, h) = (m', H', h')"
  shows "fatal_err H' = 0"
proof -
  have d: "host_reg demo_clk_host = 0x01c11000" "timing_mode demo_clk_host = 4" "fatal_err demo_clk_host = 0"
    by (simp_all add: demo_clk_host_def)
  obtain ret m1 H1 h1 where c: "mmc_config_clock quick_plat (clock m) (m, demo_clk_host, h) = (ret, m1, H1, h1)" by (metis prod_cases4)
  have "ret = 0 \<and> fatal_err H1 = 0"
  proof -
    let ?h = "snd (mmc_update_clk quick_plat demo_clk_host (hrmw quick_plat demo_clk_host r_clkcr (\<lambda>v. v AND NOT 0x10000) h))"
    obtain ret2 m2 H2 h2 where x: "mmc_config_clock_modex quick_plat (clock m) (m, demo_clk_host, ?h) = (ret2, m2, H2, h2)"
      by (metis prod_cases4)
    have H2: "host_reg H2 = 0x01c11000" "fatal_err H2 = 0"
      using quick.modex_regs [OF quick_layout _ x] d by (simp_all add: same_host_def)
    show ?thesis using c x H2 quick_update d by (auto simp: mmc_config_clock_def split_beta)
  qed
  then show ?thesis using assms c d by (auto simp: mmc_host_set_ios_def split: if_splits)
qed

theorem bus_configured_witness:
  "(case mmc_host_set_ios quick_plat (demo_mmc\<lparr>clock := 50000000, bus_width := 8\<rparr>, demo_clk_host, \<lambda>_. 0) of (m', H', h') \<Rightarrow>
     h' 0x01c1100c) = 2"
proof -
  let ?m = "demo_mmc\<lparr>clock := 50000000, bus_width := 8\<rparr>"
  obtain m' H' h' where s: "mmc_host_set_ios quick_plat (?m, demo_clk_host, \<lambda>_. 0) = (m', H', h')" by (metis prod_cases3)
  have "host_reg demo_clk_host = 0x01c11000" "fatal_err demo_clk_host = 0" "clock ?m \<noteq> 0" by (simp_all add: demo_clk_host_def)
  then show ?thesis
    using bus_configured [OF quick.mmio_registers_axioms quick_layout _ _ s quick_ios [OF s]] s by simp
qed

end
