(* ===== verification/MmcXfer.thy ===== *)
theory MmcXfer
  imports MmcHost
begin

text \<open>
  Commands and data transfers of the SD/MMC host controller,
  \<open>src/Drivers/SunxiSdMmcDxe/sunxi_host0_2_v4p1.c\<close>: \<open>mmc_trans_data_by_cpu\<close>, \<open>mmc_trans_data_by_dma\<close>
  with its chain of descriptors in memory, and \<open>mmc_send_cmd\<close> with its polling loops and the recovery
  after an error. Cache maintenance has no effect on the memory of the model. The bounded loops count
  down the variable \<open>timeout\<close>; the waits for a reset have no bound and are \<^term>\<open>None\<close> when they never end.
\<close>

section \<open>Transfers by the processor\<close>

fun fifo_wait :: "'h plat \<Rightarrow> sunxi_mmc_host \<Rightarrow> u32 \<Rightarrow> nat \<Rightarrow> 'h \<Rightarrow> bool \<times> 'h" where
  "fifo_wait p H bits 0 h = (False, h)"
| "fifo_wait p H bits (Suc t) h = (case hrd p H r_status h of (v, h) \<Rightarrow>
     if v AND bits \<noteq> 0 then fifo_wait p H bits t h else (True, h))"

text \<open>The counter starts at 1000 and is decremented before each read of the status, which makes 999 reads.\<close>

fun cpu_read :: "'h plat \<Rightarrow> sunxi_mmc_host \<Rightarrow> u64 \<Rightarrow> nat \<Rightarrow> mem \<times> 'h \<Rightarrow> int \<times> mem \<times> 'h" where
  "cpu_read p H buf 0 w = (0, w)"
| "cpu_read p H buf (Suc n) (mem, h) = (case fifo_wait p H 0x4 999 h of (ok, h) \<Rightarrow>
     if \<not> ok then (-1, mem, h)
     else case MmioRead32 p (database H) h of (v, h) \<Rightarrow> cpu_read p H (buf + 4) n (store32 mem buf v, h))"

fun cpu_write :: "'h plat \<Rightarrow> sunxi_mmc_host \<Rightarrow> mem \<Rightarrow> u64 \<Rightarrow> nat \<Rightarrow> 'h \<Rightarrow> int \<times> 'h" where
  "cpu_write p H mem buf 0 h = (0, h)"
| "cpu_write p H mem buf (Suc n) h = (case fifo_wait p H 0x8 999 h of (ok, h) \<Rightarrow>
     if \<not> ok then (-1, h)
     else cpu_write p H mem (buf + 4) n (MmioWrite32 p (database H) (load32 mem buf) h))"

definition byte_cnt :: "mmc_data \<Rightarrow> u32" where
  "byte_cnt d = blocksize d * blocks d"

definition mmc_trans_data_by_cpu :: "'h plat \<Rightarrow> sunxi_mmc_host \<Rightarrow> mmc_data \<Rightarrow> mem \<times> 'h \<Rightarrow> int \<times> mem \<times> 'h" where
  "mmc_trans_data_by_cpu p H d = (\<lambda>(mem, h).
     let n = unat (drop_bit 2 (byte_cnt d)) in
     if data_flags d AND MMC_DATA_READ \<noteq> 0 then cpu_read p H (data_buf d) n (mem, h)
     else case cpu_write p H mem (data_buf d) n h of (ret, h) \<Rightarrow> (ret, mem, h))"

section \<open>Transfers by DMA\<close>

text \<open>
  A descriptor of \<open>struct mmc_des_v4p1\<close> is four words: the flags (bit 1 \<open>dic\<close>, 2 \<open>last_des\<close>,
  3 \<open>first_des\<close>, 4 \<open>des_chain\<close>, 5 \<open>end_of_ring\<close>, 31 \<open>own\<close>), the sizes of the two buffers (16 bits each)
  and two addresses, which keep 32 bits. Descriptor \<open>i\<close> of \<open>n\<close>, for a buffer at \<open>buff\<close> whose last part has
  \<open>remain\<close> bytes.
\<close>

definition des_flags :: "nat \<Rightarrow> nat \<Rightarrow> u32" where
  "des_flags n i = 0x80000010 OR (if i = n - 1 then 0x24 else 0x2) OR (if i = 0 then 0x8 else 0)"

definition des_size :: "nat \<Rightarrow> u32 \<Rightarrow> nat \<Rightarrow> u32" where
  "des_size n remain i = (if n > 1 \<and> i \<noteq> n - 1 then 0x1000 else remain) AND 0xffff"

definition write_des :: "u64 \<Rightarrow> u64 \<Rightarrow> nat \<Rightarrow> u32 \<Rightarrow> nat \<Rightarrow> mem \<Rightarrow> mem" where
  "write_des pd buff n remain i mem =
     (let a = pd + of_nat (16 * i);
          mem = store32 mem a (des_flags n i);
          mem = store32 mem (a + 4) (des_size n remain i);
          mem = store32 mem (a + 8) (ucast (buff + of_nat (4096 * i)))
      in store32 mem (a + 12) (if i = n - 1 then 0 else ucast (a + 16)))"

definition frag_num :: "u32 \<Rightarrow> nat" where
  "frag_num cnt = unat (drop_bit 12 cnt) + (if cnt AND 0xfff \<noteq> 0 then 1 else 0)"

definition frag_rest :: "u32 \<Rightarrow> u32" where
  "frag_rest cnt = (if cnt AND 0xfff \<noteq> 0 then cnt AND 0xfff else 0x1000)"

definition write_chain :: "u64 \<Rightarrow> u64 \<Rightarrow> u32 \<Rightarrow> mem \<Rightarrow> mem" where
  "write_chain pd buff cnt = fold (write_des pd buff (frag_num cnt) (frag_rest cnt)) [0..<frag_num cnt]"

definition mmc_trans_data_by_dma :: "'h plat \<Rightarrow> sunxi_mmc_host \<Rightarrow> mmc_data \<Rightarrow> mem \<times> 'h \<Rightarrow> (mem \<times> 'h) option" where
  "mmc_trans_data_by_dma p H d = (\<lambda>(mem, h). do {
     let mem = write_chain (pdes H) (data_buf d) (byte_cnt d) mem;
     let h = hwr p H r_dmac 0x1 (hrmw p H r_gctrl (\<lambda>v. v OR 0x20 OR 0x4) h);
     h \<leftarrow> wait_clear p H r_dmac 0x1 h;
     let h = hwr p H r_dmac (0x2 OR 0x80) h;
     let h = hrmw p H r_idie (\<lambda>v. (v AND NOT 3) OR (if data_flags d AND MMC_DATA_WRITE \<noteq> 0 then 1 else 2)) h;
     let h = hwr p H r_dlba (ucast (pdes H)) h;
     Some (mem, hwr p H r_ftrglevel
       (if mmc_no H = 2 then push_bit 28 3 OR push_bit 16 15 OR 240 else push_bit 28 2 OR push_bit 16 7 OR 248) h)
   })"

section \<open>Commands\<close>

text \<open>The command register: index, response type, data direction, automatic stop.\<close>

definition cmd_word :: "mmc_cmd \<Rightarrow> mmc_data option \<Rightarrow> u32" where
  "cmd_word cmd data =
     (let manual = cmd_flags cmd AND MMC_CMD_MANUAL \<noteq> 0;
          v = 0x80000000;
          v = (if cmdidx cmd = 0 then v OR 0x8000 else v);
          v = (if resp_type cmd AND 0x1 \<noteq> 0 then v OR 0x40 else v);
          v = (if resp_type cmd AND 0x2 \<noteq> 0 then v OR 0x80 else v);
          v = (if resp_type cmd AND 0x4 \<noteq> 0 then v OR 0x100 else v)
      in (case data of
            Some d \<Rightarrow>
              let v = v OR 0x200 OR 0x2000;
                  v = (if data_flags d AND MMC_DATA_WRITE \<noteq> 0 then v OR 0x400 else v)
              in if blocks d > 1 \<and> \<not> manual then v OR 0x1000 else v
          | None \<Rightarrow> if cmdidx cmd = 12 \<and> manual then (v OR 0x4000) AND NOT 0x2000 else v)
         OR ucast (cmdidx cmd))"

text \<open>Waits while the card is busy: at most \<open>t\<close> reads of the status that may end the wait.\<close>

fun busy_wait :: "'h plat \<Rightarrow> sunxi_mmc_host \<Rightarrow> nat \<Rightarrow> 'h \<Rightarrow> bool \<times> 'h" where
  "busy_wait p H 0 h = (False, snd (hrd p H r_status h))"
| "busy_wait p H (Suc t) h = (case hrd p H r_status h of (v, h) \<Rightarrow>
     if v AND 0x200 \<noteq> 0 then busy_wait p H t h else (True, h))"

text \<open>
  Polls the raw interrupt status until an error, the end of \<open>timeout\<close> or \<open>finished\<close>. The result is the error: the error bits
  (\<open>0xbfc2\<close>), or \<open>0xffffffff\<close> for a time-out. \<open>stop\<close> looks at the counter.
\<close>

fun rint_poll :: "'h plat \<Rightarrow> sunxi_mmc_host \<Rightarrow> (nat \<Rightarrow> bool) \<Rightarrow> (u32 \<Rightarrow> 'h \<Rightarrow> bool \<times> 'h) \<Rightarrow> nat \<Rightarrow> 'h \<Rightarrow> u32 \<times> 'h" where
  "rint_poll p H stop finished t h = (case hrd p H r_rint h of (v, h) \<Rightarrow>
     if v AND 0xbfc2 \<noteq> 0 then (v AND 0xbfc2, h)
     else if t = 0 \<or> stop (t - 1) then (0xffffffff, h)
     else case finished v h of (d, h) \<Rightarrow> if d then (0, h) else rint_poll p H stop finished (t - 1) h)"

declare rint_poll.simps [simp del]

definition data_timeout :: "bool \<Rightarrow> u32 \<Rightarrow> nat" where
  "data_timeout usedma cnt = (let t = 50 * cnt div 25 in if \<not> usedma \<or> sint t < 0xffffff then 0xffffff else unat t)"

text \<open>The end of a data transfer is bit 14 of the status with an automatic stop, otherwise bit 3; with DMA its status must agree.\<close>

definition data_over :: "'h plat \<Rightarrow> sunxi_mmc_host \<Rightarrow> bool \<Rightarrow> bool \<Rightarrow> u32 \<Rightarrow> 'h \<Rightarrow> bool \<times> 'h" where
  "data_over p H usedma auto_stop v h =
     (if v AND (if auto_stop then 0x4000 else 0x8) = 0 then (False, h)
      else if usedma then case hrd p H r_idst h of (w, h) \<Rightarrow> (w AND 0x3 \<noteq> 0, h)
      else (True, h))"

text \<open>DMA is used for more than 64 bytes.\<close>

definition uses_dma :: "mmc_data option \<Rightarrow> bool" where
  "uses_dma data = (case data of Some d \<Rightarrow> byte_cnt d > 64 | None \<Rightarrow> False)"

text \<open>
  The steps of \<open>mmc_send_cmd\<close> up to its label \<open>out\<close>, each skipped when an earlier one has failed. An error is a word, 0 if there is none
  (\<open>-1\<close> is \<open>0xffffffff\<close>).
\<close>

definition xfer_step :: "'h plat \<Rightarrow> sunxi_mmc_host \<Rightarrow> mmc_cmd \<Rightarrow> mmc_data option \<Rightarrow> mem \<times> 'h \<Rightarrow> (u32 \<times> mem \<times> 'h) option" where
  "xfer_step p H cmd data = (\<lambda>(mem, h). case data of
       None \<Rightarrow> Some (0, mem, hwr p H r_cmd (cmd_word cmd None) h)
     | Some d \<Rightarrow>
         if uses_dma data then do {
           (mem, h) \<leftarrow> mmc_trans_data_by_dma p H d (mem, hrmw p H r_gctrl (\<lambda>v. v AND NOT 0x80000000) h);
           Some (0, mem, hwr p H r_cmd (cmd_word cmd data) h)
         }
         else
           case mmc_trans_data_by_cpu p H d
                  (mem, hwr p H r_cmd (cmd_word cmd data) (hrmw p H r_gctrl (\<lambda>v. v OR 0x80000000) h)) of
             (ret, mem, h) \<Rightarrow>
               if ret = 0 then Some (0, mem, h)
               else case hrd p H r_rint h of (v, h) \<Rightarrow>
                 Some (if v AND 0xbfc2 \<noteq> 0 then v AND 0xbfc2 else 0xffffffff, mem, h))"

definition poll_step :: "'h plat \<Rightarrow> sunxi_mmc_host \<Rightarrow> bool \<Rightarrow> mmc_cmd \<Rightarrow> mmc_data option \<Rightarrow> 'h \<Rightarrow> u32 \<times> 'h" where
  "poll_step p H tuning cmd data h =
     (case rint_poll p H (\<lambda>_. False) (\<lambda>v h. (v AND 0x4 \<noteq> 0, h)) 1000 h of (err, h) \<Rightarrow>
        if err \<noteq> 0 then (err, h)
        else case data of None \<Rightarrow> (0, h)
          | Some d \<Rightarrow>
              rint_poll p H (\<lambda>t. t = 0xFF0000 \<and> tuning \<and> data_flags d AND MMC_DATA_READ \<noteq> 0)
                (data_over p H (byte_cnt d > 64) (blocks d > 1 \<and> cmd_flags cmd AND MMC_CMD_MANUAL = 0))
                (data_timeout (byte_cnt d > 64) (byte_cnt d)) h)"

definition long_busy :: "mmc_cmd \<Rightarrow> bool" where
  "long_busy cmd \<longleftrightarrow> cmdidx cmd = 38 \<or> (cmdidx cmd = 6 \<and> drop_bit 16 (cmdarg cmd) AND 0xFF = 165)"

definition busy_step :: "'h plat \<Rightarrow> sunxi_mmc_host \<Rightarrow> mmc_cmd \<Rightarrow> 'h \<Rightarrow> u32 \<times> 'h" where
  "busy_step p H cmd h =
     (if resp_type cmd AND 0x8 = 0 then (0, h)
      else case busy_wait p H (if long_busy cmd then 0x1fffffff else 500000) h of (ok, h) \<Rightarrow>
        (if ok then 0 else 0xffffffff, h))"

fun read_regs :: "'h plat \<Rightarrow> sunxi_mmc_host \<Rightarrow> u32 list \<Rightarrow> 'h \<Rightarrow> u32 list \<times> 'h" where
  "read_regs p H [] h = ([], h)"
| "read_regs p H (r # rs) h = (case hrd p H r h of (v, h) \<Rightarrow> case read_regs p H rs h of (vs, h) \<Rightarrow> (v # vs, h))"

definition resp_step :: "'h plat \<Rightarrow> sunxi_mmc_host \<Rightarrow> mmc_cmd \<Rightarrow> 'h \<Rightarrow> u32 list \<times> 'h" where
  "resp_step p H cmd =
     read_regs p H (if resp_type cmd AND 0x2 \<noteq> 0 then [r_resp3, r_resp2, r_resp1, r_resp0] else [r_resp0])"

text \<open>
  The parameter \<open>idma\<close> is what the DMA engine of the controller has done to memory and device when the wait for
  the transfer is over.
\<close>

definition cmd_body ::
  "'h plat \<Rightarrow> (mem \<times> 'h \<Rightarrow> mem \<times> 'h) \<Rightarrow> bool \<Rightarrow> mmc_cmd \<Rightarrow> mmc_data option \<Rightarrow> sunxi_mmc_host \<Rightarrow> mem \<times> 'h \<Rightarrow> (u32 \<times> u32 list \<times> mem \<times> 'h) option" where
  "cmd_body p idma tuning cmd data H = (\<lambda>(mem, h).
     let misaligned = (case data of Some d \<Rightarrow> data_buf d AND 0x3 \<noteq> 0 | None \<Rightarrow> False) in
     if misaligned then Some (0xffffffff, [], mem, h)
     else
       let h = (case data of Some d \<Rightarrow> hwr p H r_bytecnt (blocks d * blocksize d) (hwr p H r_blksz (blocksize d) h) | None \<Rightarrow> h);
           h = hwr p H r_arg (cmdarg cmd) h
       in do {
         (err, mem, h) \<leftarrow> xfer_step p H cmd data (mem, h);
         if err \<noteq> 0 then Some (err, [], mem, h)
         else case poll_step p H tuning cmd data h of (err, h) \<Rightarrow>
           case (if uses_dma data then idma (mem, h) else (mem, h)) of (mem, h) \<Rightarrow>
           if err \<noteq> 0 then Some (err, [], mem, h)
           else case busy_step p H cmd h of (err, h) \<Rightarrow>
             if err \<noteq> 0 then Some (err, [], mem, h)
             else case resp_step p H cmd h of (resp, h) \<Rightarrow> Some (0, resp, mem, h)
       })"

text \<open>After an error while tuning: read what the card still sends.\<close>

fun drain :: "'h plat \<Rightarrow> sunxi_mmc_host \<Rightarrow> nat \<Rightarrow> 'h \<Rightarrow> 'h" where
  "drain p H t h = (case hrd p H r_bbcr h of (v, h) \<Rightarrow>
     if v < 512 then
       let h = snd (MmioRead32 p (database H) h) in
       case t of 0 \<Rightarrow> h | Suc t \<Rightarrow> drain p H t h
     else h)"

definition mmc_soft_reset :: "'h plat \<Rightarrow> sunxi_mmc_host \<Rightarrow> 'h \<Rightarrow> 'h option" where
  "mmc_soft_reset p H h = wait_clear p H r_gctrl 0x7 (hwr p H r_gctrl 0x7 h)"

definition cmd_recover :: "'h plat \<Rightarrow> sunxi_mmc_host \<times> 'h \<Rightarrow> (sunxi_mmc_host \<times> 'h) option" where
  "cmd_recover p = (\<lambda>(H, h). do {
     h \<leftarrow> mmc_soft_reset p H h;
     let (H, h) = mmc_clk_io_onoff p True False (mmc_clk_io_onoff p False False (mmc_save_regs p (H, h)));
     h \<leftarrow> mmc_soft_reset p H (mmc_restore_regs p H h);
     Some (H, snd (mmc_update_clk p H h))
   })"

text \<open>From the label \<open>out\<close> to the end. \<open>cnt\<close> is the variable \<open>bytecnt\<close>, which is still 0 when the buffer was misaligned.\<close>

definition cmd_finish ::
  "'h plat \<Rightarrow> bool \<Rightarrow> mmc_data option \<Rightarrow> u32 \<Rightarrow> u32 \<Rightarrow> sunxi_mmc_host \<times> 'h \<Rightarrow> (int \<times> sunxi_mmc_host \<times> 'h) option" where
  "cmd_finish p tuning data cnt err = (\<lambda>(H, h). do {
     let (H, h) = (if err = 0 then (H, h)
                   else case hrd p H r_rint h of (v, h) \<Rightarrow> (H\<lparr>raw_int_bak := v AND 0xbfc2\<rparr>, h));
     let h = (if data \<noteq> None \<and> cnt > 64
              then hrmw p H r_gctrl (\<lambda>v. v AND NOT 0x20) (hwr p H r_dmac 0 (hwr p H r_idie 0 (hrmw p H r_idst id h)))
              else h);
     (H, h) \<leftarrow> (if err = 0 then Some (H, h)
       else
         let reading = (case data of Some d \<Rightarrow> data_flags d AND MMC_DATA_READ \<noteq> 0 | None \<Rightarrow> False);
             h = (if tuning \<and> reading \<and> cnt = 512
                  then drain p H 1000 (hwr p H r_dbgc 0xdeb (hrmw p H r_gctrl (\<lambda>v. v OR 0x80000000) h)) else h)
         in cmd_recover p (H, h));
     Some (if err = 0 then 0 else -1, H, hwr p H r_rint 0xffffffff h)
   })"

text \<open>
  A stop command that is not \<open>MMC_CMD_MANUAL\<close> is not sent (the controller has stopped the transfer by itself); the function only
  waits for the card, and then leaves the response alone.
\<close>

definition mmc_host_send_cmd ::
  "'h plat \<Rightarrow> (mem \<times> 'h \<Rightarrow> mem \<times> 'h) \<Rightarrow> bool \<Rightarrow> mmc_cmd \<Rightarrow> mmc_data option \<Rightarrow> sunxi_mmc_host \<times> mem \<times> 'h \<Rightarrow>
   (int \<times> u32 list \<times> sunxi_mmc_host \<times> mem \<times> 'h) option" where
  "mmc_host_send_cmd p idma tuning cmd data = (\<lambda>(H, mem, h).
     if fatal_err H \<noteq> 0 then Some (-1, [], H, mem, h)
     else if cmdidx cmd = 12 \<and> cmd_flags cmd AND MMC_CMD_MANUAL = 0 then
       case busy_wait p H 500000 h of (ok, h) \<Rightarrow>
         if ok then Some (0, [], H, mem, h)
         else do { (ret, H, h) \<leftarrow> cmd_finish p tuning data 0 0xffffffff (H, h); Some (ret, [], H, mem, h) }
     else do {
       (err, resp, mem, h) \<leftarrow> cmd_body p idma tuning cmd data H (mem, h);
       let cnt = (case data of Some d \<Rightarrow> if data_buf d AND 0x3 \<noteq> 0 then 0 else byte_cnt d | None \<Rightarrow> 0);
       (ret, H, h) \<leftarrow> cmd_finish p tuning data cnt err (H, h);
       Some (ret, resp, H, mem, h)
     })"

section \<open>The descriptor chain covers the buffer\<close>

text \<open>
  How the DMA engine reads the chain, as the comments of \<open>struct mmc_des_v4p1\<close> describe it: the buffer of a descriptor and its size, then
  the descriptor at the second address, up to the one that is flagged as the last. At most \<open>n\<close> descriptors are read.
\<close>

fun idma_parts :: "mem \<Rightarrow> u32 \<Rightarrow> nat \<Rightarrow> (u64 \<times> nat) list" where
  "idma_parts mem a 0 = []"
| "idma_parts mem a (Suc n) =
     (let part = (ucast (load32 mem (ucast a + 8)), unat (load32 mem (ucast a + 4) AND 0xffff)) in
      if load32 mem (ucast a) AND 0x4 \<noteq> 0 then [part]
      else part # idma_parts mem (load32 mem (ucast a + 12)) n)"

lemma word_apart:
  assumes "x + 4 \<le> y \<or> y + 4 \<le> x" "x + 4 < 2 ^ 64" "y + 4 < 2 ^ 64"
  shows "load32 (store32 m (pd + of_nat y) w) (pd + of_nat x) = load32 m (pd + of_nat x)"
proof -
  have up: "apart (pd + of_nat b) 4 (pd + of_nat a) 4" if "a + 4 \<le> b" "b + 4 < 2 ^ 64" for a b
    using apart_sub [OF apart_consecutive [of b 4 pd], of a 4] that by simp
  then have "apart (pd + of_nat y) 4 (pd + of_nat x) 4" using assms apart_sym by blast
  then show ?thesis by (simp add: store32_def load32_store_other)
qed

text \<open>The words of descriptor \<open>i\<close>, at the offsets 0, 4, 8 and 12.\<close>

definition des_word :: "u64 \<Rightarrow> u64 \<Rightarrow> nat \<Rightarrow> u32 \<Rightarrow> nat \<Rightarrow> nat \<Rightarrow> u32" where
  "des_word pd buff n remain i k =
     [des_flags n i, des_size n remain i, ucast (buff + of_nat (4096 * i)), if i = n - 1 then 0 else ucast (pd + of_nat (16 * i) + 16)] ! k"

lemma write_des_words:
  assumes "16 * i + 16 < 2 ^ 64"
  shows "k < 4 \<Longrightarrow> load32 (write_des pd buff n remain i mem) (pd + of_nat (16 * i + 4 * k)) = des_word pd buff n remain i k"
    and "x + 4 \<le> 16 * i \<Longrightarrow> load32 (write_des pd buff n remain i mem) (pd + of_nat x) = load32 mem (pd + of_nat x)"
    and "same_outside pd (16 * i) m mem \<Longrightarrow> same_outside pd (16 * i + 16) m (write_des pd buff n remain i mem)"
proof -
  have a: "pd + of_nat (16 * i) + 4 = pd + of_nat (16 * i + 4)" "pd + of_nat (16 * i) + 8 = pd + of_nat (16 * i + 8)"
    "pd + of_nat (16 * i) + 12 = pd + of_nat (16 * i + 12)" by simp_all
  have w: "write_des pd buff n remain i mem = store32 (store32 (store32 (store32 mem (pd + of_nat (16 * i)) (des_flags n i))
      (pd + of_nat (16 * i + 4)) (des_size n remain i)) (pd + of_nat (16 * i + 8)) (ucast (buff + of_nat (4096 * i))))
      (pd + of_nat (16 * i + 12)) (if i = n - 1 then 0 else ucast (pd + of_nat (16 * i) + 16))"
    by (simp only: write_des_def Let_def a)
  have st: "load32 (store32 m (pd + of_nat y) w) (pd + of_nat x) = (if x = y then w else load32 m (pd + of_nat x))"
    if "x = y \<or> x + 4 \<le> y \<or> y + 4 \<le> x" "x + 4 < 2 ^ 64" "y + 4 < 2 ^ 64" for x y m w
    using that word_apart [of x y m pd w] by (cases "x = y") auto
  show "load32 (write_des pd buff n remain i mem) (pd + of_nat (16 * i + 4 * k)) = des_word pd buff n remain i k" if "k < 4"
  proof -
    have "k \<in> {0, 1, 2, 3}" using that by auto
    then show ?thesis unfolding w using assms by (elim insertE emptyE; simp add: st des_word_def del: of_nat_add of_nat_mult)
  qed
  show "load32 (write_des pd buff n remain i mem) (pd + of_nat x) = load32 mem (pd + of_nat x)" if "x + 4 \<le> 16 * i"
    unfolding w using that assms by (simp add: st del: of_nat_add of_nat_mult)
  show "same_outside pd (16 * i + 16) m (write_des pd buff n remain i mem)" if "same_outside pd (16 * i) m mem"
  proof -
    have "same_outside pd (16 * i + 16) m mem" using that by (simp add: same_outside_def)
    then show ?thesis unfolding w store32_def
      by (intro same_outside_store [where off = "16 * i + 12"] same_outside_store [where off = "16 * i + 8"]
          same_outside_store [where off = "16 * i + 4"] same_outside_store [where off = "16 * i"]) simp_all
  qed
qed

lemma chain_words:
  assumes "16 * n < 2 ^ 64" "j \<le> n"
  shows "(\<forall>i < j. \<forall>k < 4. load32 (fold (write_des pd buff n remain) [0..<j] mem) (pd + of_nat (16 * i + 4 * k)) = des_word pd buff n remain i k)
    \<and> same_outside pd (16 * j) mem (fold (write_des pd buff n remain) [0..<j] mem)"
  using assms(2)
proof (induction j)
  case (Suc j)
  let ?m = "fold (write_des pd buff n remain) [0..<j] mem"
  have j: "16 * j + 16 < 2 ^ 64" using Suc.prems assms(1) by linarith
  have "load32 (write_des pd buff n remain j ?m) (pd + of_nat (16 * i + 4 * k)) = des_word pd buff n remain i k" if "i < Suc j" "k < 4" for i k
  proof (cases "i = j")
    case False
    then have "16 * i + 4 * k + 4 \<le> 16 * j" using that by simp
    then show ?thesis using write_des_words(2) [OF j, of "16 * i + 4 * k"] Suc that False by simp
  qed (use write_des_words(1) [OF j that(2)] in simp)
  moreover have "same_outside pd (16 * j + 16) mem (write_des pd buff n remain j ?m)" using write_des_words(3) [OF j] Suc by simp
  ultimately show ?case by (simp add: add.commute)
qed simp

lemma frag_facts:
  assumes "cnt \<noteq> (0 :: u32)"
  shows "0 < frag_num cnt" "unat (frag_rest cnt) \<le> 4096" "0 < unat (frag_rest cnt)"
    "4096 * (frag_num cnt - 1) + unat (frag_rest cnt) = unat cnt"
proof -
  have q: "unat (drop_bit 12 cnt) = unat cnt div 4096" by (simp add: unat_drop_bit_eq drop_bit_nat_def)
  have "cnt AND 0xfff = take_bit 12 cnt" by (simp add: take_bit_eq_mask mask_eq_exp_minus_1)
  then have m: "unat (cnt AND 0xfff) = unat cnt mod 4096" by (simp add: unsigned_take_bit_eq take_bit_nat_def)
  have z: "cnt AND 0xfff = 0 \<longleftrightarrow> unat cnt mod 4096 = 0" using m by (metis unat_eq_0)
  have c: "0 < unat cnt" using assms by (simp add: unat_gt_0)
  have d: "4096 * (unat cnt div 4096) + unat cnt mod 4096 = unat cnt" by simp
  have lt: "unat cnt mod 4096 < 4096" by simp
  have c1: "unat cnt mod 4096 = 0 \<Longrightarrow> 0 < unat cnt div 4096" using c d by linarith
  show "0 < frag_num cnt" "unat (frag_rest cnt) \<le> 4096" "0 < unat (frag_rest cnt)"
    "4096 * (frag_num cnt - 1) + unat (frag_rest cnt) = unat cnt"
    using q m z d lt c1 by (auto simp: frag_num_def frag_rest_def)
qed

lemma ucast_small:
  assumes "unat (x :: u64) < 2 ^ 32"
  shows "(ucast (ucast x :: u32) :: u64) = x"
proof -
  have "unat (take_bit 32 x) = unat x" using assms by (simp only: unsigned_take_bit_eq take_bit_nat_eq_self)
  then have "take_bit 32 x = x" by (simp only: word_unat_eq_iff)
  moreover have "(ucast (ucast x :: u32) :: u64) = take_bit 32 x" by (rule bit_word_eqI) (auto simp: bit_simps)
  ultimately show ?thesis by simp
qed

lemma unat_plus_nat:
  assumes "unat (a :: u64) + k < 2 ^ 64"
  shows "unat (a + of_nat k) = unat a + k"
proof -
  have "unat (of_nat k :: u64) = k" using assms by (simp add: unat_of_nat take_bit_nat_eq_self)
  then show ?thesis using assms iffD1 [OF unat_add_lem, of a "of_nat k"] by simp
qed

lemma chain_parts:
  fixes mem :: mem
  assumes "cnt \<noteq> 0" "unat pd + 16 * frag_num cnt \<le> 2 ^ 32" "unat buff + unat cnt \<le> 2 ^ 32" "i < frag_num cnt"
  defines "n \<equiv> frag_num cnt" and "m \<equiv> write_chain pd buff cnt mem"
  shows "idma_parts m (ucast (pd + of_nat (16 * i))) (n - i) =
    map (\<lambda>j. (buff + of_nat (4096 * j), if j = n - 1 then unat (frag_rest cnt) else 4096)) [i..<n]"
  using assms(4)
proof (induction "n - i" arbitrary: i)
  case 0
  then show ?case by (simp add: n_def)
next
  case (Suc k)
  note F = frag_facts [OF assms(1)]
  have i: "i < n" using Suc.prems by (simp add: n_def)
  have n16: "16 * n < 2 ^ 64" using assms(2) by (simp add: n_def)
  let ?a = "pd + of_nat (16 * i)"
  have a: "unat ?a = unat pd + 16 * i" "(ucast (ucast ?a :: u32) :: u64) = ?a"
  proof -
    have le: "unat pd + 16 * i < 2 ^ 32" using assms(2) i by (simp add: n_def)
    then show u: "unat ?a = unat pd + 16 * i" by (intro unat_plus_nat) simp
    show "(ucast (ucast ?a :: u32) :: u64) = ?a" by (rule ucast_small) (use u le in simp)
  qed
  have b: "(ucast (ucast (buff + of_nat (4096 * i)) :: u32) :: u64) = buff + of_nat (4096 * i)"
  proof (rule ucast_small)
    have "4096 * i < unat cnt" using F(3,4) i by (simp add: n_def)
    then have le: "unat buff + 4096 * i < 2 ^ 32" using assms(3) by linarith
    then have "unat (buff + of_nat (4096 * i)) = unat buff + 4096 * i" by (intro unat_plus_nat) simp
    with le show "unat (buff + of_nat (4096 * i)) < 2 ^ 32" by simp
  qed
  have w: "load32 m (?a + of_nat (4 * l)) = des_word pd buff n (frag_rest cnt) i l" if "l < 4" for l
    using conjunct1 [OF chain_words [OF n16 order_refl, of pd buff "frag_rest cnt" mem]] i that
    by (simp add: m_def write_chain_def n_def add.assoc)
  have w: "load32 m ?a = des_flags n i" "load32 m (?a + 4) = des_size n (frag_rest cnt) i"
    "load32 m (?a + 8) = ucast (buff + of_nat (4096 * i))" "load32 m (?a + 12) = (if i = n - 1 then 0 else ucast (?a + 16))"
    using w [of 0] w [of 1] w [of 2] w [of 3] by (simp_all add: des_word_def)
  have fl: "des_flags n i AND 0x4 \<noteq> 0 \<longleftrightarrow> i = n - 1" by (simp add: des_flags_def)
  have sz: "unat (des_size n (frag_rest cnt) i AND 0xffff) = (if i = n - 1 then unat (frag_rest cnt) else 4096)"
  proof -
    have r: "unat (frag_rest cnt AND 0xffff) = unat (frag_rest cnt)"
    proof -
      have "frag_rest cnt AND 0xffff = take_bit 16 (frag_rest cnt)" by (simp add: take_bit_eq_mask mask_eq_exp_minus_1)
      then show ?thesis using F(2) by (simp add: unsigned_take_bit_eq take_bit_nat_eq_self)
    qed
    show ?thesis using i r by (auto simp: des_size_def and.assoc)
  qed
  show ?case
  proof (cases "i = n - 1")
    case True
    then have "n - i = Suc 0" "[i..<n] = [i]" using i by (auto simp: upt_rec)
    then show ?thesis using True w fl sz a(2) b by (simp add: Let_def)
  next
    case False
    then have s: "k = n - Suc i" "Suc i < frag_num cnt" "n - i = Suc k" "[i..<n] = i # [Suc i..<n]"
      using Suc.hyps(2) i by (auto simp: n_def upt_rec)
    have nx: "?a + 16 = pd + of_nat (16 * Suc i)" by simp
    have "idma_parts m (ucast (?a + 16)) k =
        map (\<lambda>j. (buff + of_nat (4096 * j), if j = n - 1 then unat (frag_rest cnt) else 4096)) [Suc i..<n]"
      unfolding nx using Suc.hyps(1) [OF s(1,2)] s(1) by simp
    then show ?thesis using False w fl sz a(2) b s(3,4) by (simp add: Let_def)
  qed
qed

lemma full_parts: "concat (map (\<lambda>j. load_bytes m (buff + of_nat (4096 * j)) 4096) [0..<k]) = load_bytes m buff (4096 * k)"
proof (induction k)
  case (Suc k)
  have "4096 * Suc k = 4096 * k + 4096" by simp
  then show ?case using Suc by (simp only: upt_Suc load_bytes_plus) simp
qed (simp add: load_bytes_def)

text \<open>
  C22: a DMA transfer. The chain of descriptors that \<open>mmc_trans_data_by_dma\<close> leaves in memory, read the way the DMA engine reads it,
  names exactly the bytes of the buffer in their order, in parts of at most 4096 bytes; only the space for the descriptors is
  written, 16 bytes for each begun 4096 bytes of the buffer. Buffer and descriptors lie in the first 4 GB, which the engine can address.
\<close>

theorem dma_chain_covers_buffer:
  assumes "mmc_trans_data_by_dma p H d (mem, h) = Some (mem', h')" "byte_cnt d \<noteq> 0" "n = frag_num (byte_cnt d)"
    and "unat (pdes H) + 16 * n \<le> 2 ^ 32" "unat (data_buf d) + unat (byte_cnt d) \<le> 2 ^ 32"
  shows "concat (map (\<lambda>(a, k). load_bytes m a k) (idma_parts mem' (ucast (pdes H)) n)) = load_bytes m (data_buf d) (unat (byte_cnt d)) \<and>
    (\<forall>(a, k) \<in> set (idma_parts mem' (ucast (pdes H)) n). 0 < k \<and> k \<le> 4096) \<and>
    same_outside (pdes H) (16 * n) mem mem' \<and> n = (unat (byte_cnt d) + 4095) div 4096"
proof -
  note F = frag_facts [OF assms(2), folded assms(3)]
  have m: "mem' = write_chain (pdes H) (data_buf d) (byte_cnt d) mem"
    using assms(1) by (auto simp: mmc_trans_data_by_dma_def Let_def split: bind_splits)
  let ?r = "unat (frag_rest (byte_cnt d))"
  have parts: "idma_parts mem' (ucast (pdes H)) n =
      map (\<lambda>j. (data_buf d + of_nat (4096 * j), if j = n - 1 then ?r else 4096)) [0..<n]"
    using chain_parts [OF assms(2) assms(4) [unfolded assms(3)] assms(5), of 0 mem] F(1) by (simp add: m assms(3))
  have n: "[0..<n] = [0..<n - 1] @ [n - 1]" using F(1) by (cases n) simp_all
  have e: "map (\<lambda>j. (data_buf d + of_nat (4096 * j), if j = n - 1 then ?r else 4096)) [0..<n - 1] =
      map (\<lambda>j. (data_buf d + of_nat (4096 * j), 4096)) [0..<n - 1]" by simp
  have "concat (map (\<lambda>(a, k). load_bytes m a k) (idma_parts mem' (ucast (pdes H)) n)) =
      load_bytes m (data_buf d) (4096 * (n - 1)) @ load_bytes m (data_buf d + of_nat (4096 * (n - 1))) ?r"
    unfolding parts n map_append e using full_parts [of m "data_buf d" "n - 1"] by (simp add: comp_def)
  then have "concat (map (\<lambda>(a, k). load_bytes m a k) (idma_parts mem' (ucast (pdes H)) n)) = load_bytes m (data_buf d) (unat (byte_cnt d))"
    using F(4) load_bytes_plus [of m "data_buf d" "4096 * (n - 1)" ?r] by simp
  moreover have "\<forall>(a, k) \<in> set (idma_parts mem' (ucast (pdes H)) n). 0 < k \<and> k \<le> 4096" using F(2,3) by (auto simp: parts)
  moreover have "same_outside (pdes H) (16 * n) mem mem'"
    using chain_words [of n n "pdes H" "data_buf d" "frag_rest (byte_cnt d)" mem] assms(4) by (simp add: m write_chain_def assms(3))
  moreover have "n = (unat (byte_cnt d) + 4095) div 4096" using F by linarith
  ultimately show ?thesis by blast
qed

definition demo_data :: mmc_data where
  "demo_data = \<lparr>data_buf = 0x50000000, data_flags = 1, blocks = 20, blocksize = 512\<rparr>"

definition reset_plat :: "(u32 \<Rightarrow> u32) plat" where
  "reset_plat = quick_plat\<lparr>MmioWrite32 := (\<lambda>a v h. MmioWrite32 quick_plat a (if a = 0x01c11080 then v AND NOT 1 else v) h)\<rparr>"

theorem dma_chain_covers_buffer_witness:
  "\<exists>mem' h'. mmc_trans_data_by_dma reset_plat demo_clk_host demo_data (\<lambda>_. 0, \<lambda>_. 0) = Some (mem', h') \<and>
     concat (map (\<lambda>(a, k). load_bytes ucast a k) (idma_parts mem' 0x40000000 3)) = load_bytes ucast 0x50000000 10240"
proof -
  have d: "pdes demo_clk_host = 0x40000000" "host_reg demo_clk_host = 0x01c11000" "byte_cnt demo_data = 10240"
    "frag_num 10240 = 3" "data_buf demo_data = 0x50000000"
    by (simp_all add: demo_clk_host_def demo_data_def byte_cnt_def frag_num_def)
  have "wait_clear reset_plat demo_clk_host r_dmac 0x1 (hwr reset_plat demo_clk_host r_dmac 0x1 g) =
      Some (hwr reset_plat demo_clk_host r_dmac 0x1 g)" for g
    by (subst wait_clear.simps) (simp add: reset_plat_def quick_plat_def ram_plat_def hrd_def hwr_def d)
  then obtain mem' h' where r: "mmc_trans_data_by_dma reset_plat demo_clk_host demo_data (\<lambda>_. 0, \<lambda>_. 0) = Some (mem', h')"
    by (simp add: mmc_trans_data_by_dma_def Let_def)
  then show ?thesis using dma_chain_covers_buffer [OF r, of 3 ucast] by (simp add: d)
qed

section \<open>What a successful command has done on the bus\<close>

text \<open>
  The record of one register (\<^const>\<open>logged\<close>), either the command register or the interrupt status, during a command. \<open>quiet\<close>: the recorded register is
  none of the others that a command uses.
\<close>

definition quiet_regs :: "u32 set" where
  "quiet_regs = {r_gctrl, r_blksz, r_bytecnt, r_arg, r_resp0, r_resp1, r_resp2, r_resp3, r_status, r_ftrglevel, r_dmac, r_dlba, r_idst, r_idie}"

definition quiet :: "sunxi_mmc_host \<Rightarrow> u32 \<Rightarrow> bool" where
  "quiet H d \<longleftrightarrow> (\<forall>r \<in> quiet_regs. host_reg H + r \<noteq> d) \<and> database H \<noteq> d"

definition logged_idma :: "(mem \<times> 'h \<Rightarrow> mem \<times> 'h) \<Rightarrow> mem \<times> 'h \<times> mmio_event list \<Rightarrow> mem \<times> 'h \<times> mmio_event list" where
  "logged_idma idma = (\<lambda>(mem, h, l). case idma (mem, h) of (mem, h) \<Rightarrow> (mem, h, l))"

lemma host_log:
  "snd (snd (hrd (logged p d) H r s)) = (if host_reg H + r = d then snd s @ [Rd d (fst (hrd (logged p d) H r s))] else snd s)"
  "snd (hwr (logged p d) H r v s) = (if host_reg H + r = d then snd s @ [Wr d v] else snd s)"
  "host_reg H + r \<noteq> d \<Longrightarrow> snd (hrmw (logged p d) H r f s) = snd s"
  by (auto simp: hrd_def hwr_def hrmw_def log_simps)

lemma quiet_log:
  assumes "quiet H d" "r \<in> quiet_regs"
  shows "snd (snd (hrd (logged p d) H r s)) = snd s" "snd (hwr (logged p d) H r v s) = snd s" "snd (hrmw (logged p d) H r f s) = snd s"
  using assms by (auto simp: host_log quiet_def)

lemma quiet_members [simp]:
  "r_gctrl \<in> quiet_regs" "r_blksz \<in> quiet_regs" "r_bytecnt \<in> quiet_regs" "r_arg \<in> quiet_regs" "r_resp0 \<in> quiet_regs"
  "r_resp1 \<in> quiet_regs" "r_resp2 \<in> quiet_regs" "r_resp3 \<in> quiet_regs" "r_status \<in> quiet_regs" "r_ftrglevel \<in> quiet_regs"
  "r_dmac \<in> quiet_regs" "r_dlba \<in> quiet_regs" "r_idst \<in> quiet_regs" "r_idie \<in> quiet_regs"
  by (simp_all add: quiet_regs_def)

lemma quiet_waits:
  assumes "quiet H d"
  shows "snd (snd (fifo_wait (logged p d) H bits t s)) = snd s"
    and "snd (snd (busy_wait (logged p d) H t s)) = snd s"
proof (induction t arbitrary: s)
  case 0
  { case 1 show ?case by simp
  next
    case 2 show ?case by (simp add: quiet_log [OF assms]) }
next
  case (Suc t)
  { case 1 show ?case using Suc.IH(1) by (simp add: split_beta quiet_log [OF assms])
  next
    case 2 show ?case using Suc.IH(2) by (simp add: split_beta quiet_log [OF assms]) }
qed

lemma quiet_cpu_read: "quiet H d \<Longrightarrow> snd (snd (snd (cpu_read (logged p d) H buf n (mem, s)))) = snd s"
  by (induction n arbitrary: buf mem s) (simp_all add: split_beta quiet_waits log_simps quiet_def)

lemma quiet_cpu_write: "quiet H d \<Longrightarrow> snd (snd (cpu_write (logged p d) H mem buf n s)) = snd s"
  by (induction n arbitrary: buf s) (simp_all add: split_beta quiet_waits log_simps quiet_def)

text \<open>What reading a register does not change, waiting for it does not change either.\<close>

lemma wait_clear_keeps:
  assumes "wait_clear p H r bits h = Some h'" "\<And>h. I (snd (hrd p H r h)) = I h"
  shows "I h' = I h"
proof -
  have "p = p \<and> H = H \<and> r = r \<longrightarrow> I h' = I h"
  proof (rule wait_clear.raw_induct [where P = "\<lambda>P H' r' bits h h'. P = p \<and> H' = H \<and> r' = r \<longrightarrow> I h' = I h", OF _ assms(1)], intro impI)
    fix w P H' r' bits h h'
    assume ih: "\<And>P H' r' bits h h'. w P H' r' bits h = Some h' \<Longrightarrow> P = p \<and> H' = H \<and> r' = r \<longrightarrow> I h' = I h"
      and run: "(case hrd P H' r' h of (v, h) \<Rightarrow> if v AND bits \<noteq> 0 then w P H' r' bits h else Some h) = Some h'"
      and eq: "P = p \<and> H' = H \<and> r' = r"
    show "I h' = I h"
      using ih [of P H' r' bits "snd (hrd p H r h)" h'] run eq assms(2) by (auto simp: split_beta split: if_splits)
  qed
  then show ?thesis by simp
qed

lemma quiet_wait_clear:
  "wait_clear (logged p d) H r bits s = Some s' \<Longrightarrow> quiet H d \<Longrightarrow> r \<in> quiet_regs \<Longrightarrow> snd s' = snd s"
  by (erule wait_clear_keeps [where I = snd]) (rule quiet_log)

lemma quiet_dma:
  assumes "mmc_trans_data_by_dma (logged p d) H dat (mem, s) = Some (mem', s')" "quiet H d"
  shows "snd s' = snd s"
proof -
  let ?s = "hwr (logged p d) H r_dmac 1 (hrmw (logged p d) H r_gctrl (\<lambda>v. v OR 0x20 OR 0x4) s)"
  obtain s1 where w: "wait_clear (logged p d) H r_dmac 1 ?s = Some s1"
    using assms(1) by (auto simp: mmc_trans_data_by_dma_def Let_def split: bind_splits)
  have "snd s1 = snd s" using quiet_wait_clear [OF w assms(2)] by (simp add: quiet_log [OF assms(2)])
  then show ?thesis using assms w by (auto simp: mmc_trans_data_by_dma_def Let_def quiet_log)
qed

lemma quiet_resp:
  assumes "quiet H d"
  shows "snd (snd (resp_step (logged p d) H cmd s)) = snd s"
proof -
  have "set rs \<subseteq> quiet_regs \<Longrightarrow> snd (snd (read_regs (logged p d) H rs s)) = snd s" for rs s
    by (induction rs arbitrary: s) (simp_all add: split_beta quiet_log [OF assms])
  then show ?thesis by (simp add: resp_step_def)
qed

lemma quiet_data_over: "quiet H d \<Longrightarrow> snd (snd (data_over (logged p d) H dma auto v s)) = snd s"
  by (simp add: data_over_def split_beta quiet_log)

lemma rint_log:
  assumes "rint_poll (logged p d) H stop finished t s = (0, s')"
    and "\<And>v s. snd (snd (finished v s)) = snd s" "\<And>v s. fst (finished v s) \<Longrightarrow> P v"
  shows "\<exists>vs v. snd s' = snd s @ (if host_reg H + r_rint = d then map (Rd d) (vs @ [v]) else []) \<and>
    (\<forall>x \<in> set (vs @ [v]). x AND 0xbfc2 = 0) \<and> P v"
  using assms(1)
proof (induction t arbitrary: s)
  case 0
  then show ?case by (auto simp: rint_poll.simps split_beta split: if_splits)
next
  case (Suc t)
  let ?v = "fst (hrd (logged p d) H r_rint s)" and ?s = "snd (hrd (logged p d) H r_rint s)"
  have e: "?v AND 0xbfc2 = 0"
    using Suc.prems by (auto simp: rint_poll.simps [of _ _ _ _ "Suc t"] split_beta split: if_splits)
  have l: "snd (snd (finished ?v ?s)) = snd s @ (if host_reg H + r_rint = d then [Rd d ?v] else [])"
    by (simp add: assms(2) host_log)
  show ?case
  proof (cases "fst (finished ?v ?s)")
    case True
    then have "s' = snd (finished ?v ?s)"
      using Suc.prems e by (auto simp: rint_poll.simps [of _ _ _ _ "Suc t"] split_beta split: if_splits)
    then show ?thesis using e l assms(3) [OF True] by (intro exI [of _ "[]"] exI [of _ ?v]) auto
  next
    case False
    then have "rint_poll (logged p d) H stop finished t (snd (finished ?v ?s)) = (0, s')"
      using Suc.prems e by (auto simp: rint_poll.simps [of _ _ _ _ "Suc t"] split_beta split: if_splits)
    from Suc.IH [OF this] obtain vs v where "snd s' = snd (snd (finished ?v ?s)) @ (if host_reg H + r_rint = d then map (Rd d) (vs @ [v]) else [])"
      "\<forall>x \<in> set (vs @ [v]). x AND 0xbfc2 = 0" "P v" by blast
    then show ?thesis using e l by (intro exI [of _ "?v # vs"] exI [of _ v]) auto
  qed
qed

lemma xfer_log:
  assumes "xfer_step (logged p d) H cmd data (mem, s) = Some (0, mem', s')" "quiet H d"
  shows "snd s' = snd s @ (if host_reg H + r_cmd = d then [Wr d (cmd_word cmd data)] else [])"
proof (cases data)
  case None
  then show ?thesis using assms(1) by (auto simp: xfer_step_def host_log)
next
  case (Some dat)
  show ?thesis
  proof (cases "uses_dma data")
    case True
    then obtain m1 s1 where t: "mmc_trans_data_by_dma (logged p d) H dat
        (mem, hrmw (logged p d) H r_gctrl (\<lambda>v. v AND NOT 0x80000000) s) = Some (m1, s1)"
      "s' = hwr (logged p d) H r_cmd (cmd_word cmd data) s1"
      using assms(1) Some by (auto simp: xfer_step_def split: bind_splits)
    have "snd s1 = snd s" using quiet_dma [OF t(1) assms(2)] by (simp add: quiet_log [OF assms(2)])
    then show ?thesis using t(2) by (simp add: host_log)
  next
    case False
    let ?s = "hwr (logged p d) H r_cmd (cmd_word cmd data) (hrmw (logged p d) H r_gctrl (\<lambda>v. v OR 0x80000000) s)"
    have "s' = snd (snd (mmc_trans_data_by_cpu (logged p d) H dat (mem, ?s)))"
      using assms(1) Some False by (auto simp: xfer_step_def split_beta split: if_splits)
    moreover have "snd (snd (snd (mmc_trans_data_by_cpu (logged p d) H dat (mem, ?s)))) = snd ?s"
      by (simp add: mmc_trans_data_by_cpu_def Let_def split_beta quiet_cpu_read [OF assms(2)] quiet_cpu_write [OF assms(2)])
    ultimately show ?thesis by (simp add: host_log(1,2) quiet_log(3) [OF assms(2)])
  qed
qed

text \<open>The values of the interrupt status in a command without errors: the first ones up to the end of the command, the others up to the end of the data.\<close>

definition clean_status :: "mmc_cmd \<Rightarrow> mmc_data option \<Rightarrow> u32 list \<Rightarrow> bool" where
  "clean_status cmd data vs \<longleftrightarrow> (\<forall>v \<in> set vs. v AND 0xbfc2 = 0) \<and> (\<exists>v \<in> set vs. v AND 0x4 \<noteq> 0) \<and>
     (\<forall>d. data = Some d \<longrightarrow> last vs AND (if blocks d > 1 \<and> cmd_flags cmd AND MMC_CMD_MANUAL = 0 then 0x4000 else 0x8) \<noteq> 0)"

lemma cmd_poll_log:
  assumes "poll_step (logged p d) H tuning cmd data s = (0, s')" "quiet H d"
  shows "\<exists>vs. clean_status cmd data vs \<and> snd s' = snd s @ (if host_reg H + r_rint = d then map (Rd d) vs else [])"
proof -
  obtain s1 where one: "rint_poll (logged p d) H (\<lambda>_. False) (\<lambda>v h. (v AND 0x4 \<noteq> 0, h)) 1000 s = (0, s1)"
    using assms(1) by (auto simp: poll_step_def split_beta prod_eq_iff split: if_splits)
  obtain vs v where a: "snd s1 = snd s @ (if host_reg H + r_rint = d then map (Rd d) (vs @ [v]) else [])"
    "\<forall>x \<in> set (vs @ [v]). x AND 0xbfc2 = 0" "v AND 0x4 \<noteq> 0"
    using rint_log [OF one, of "\<lambda>v. v AND 0x4 \<noteq> 0"] by auto
  show ?thesis
  proof (cases data)
    case None
    then have "s' = s1" using assms(1) one by (simp add: poll_step_def)
    then show ?thesis using a None by (intro exI [of _ "vs @ [v]"]) (auto simp: clean_status_def)
  next
    case (Some dat)
    let ?auto = "blocks dat > 1 \<and> cmd_flags cmd AND MMC_CMD_MANUAL = 0"
    have two: "rint_poll (logged p d) H (\<lambda>t. t = 0xFF0000 \<and> tuning \<and> data_flags dat AND MMC_DATA_READ \<noteq> 0)
        (data_over (logged p d) H (byte_cnt dat > 64) ?auto) (data_timeout (byte_cnt dat > 64) (byte_cnt dat)) s1 = (0, s')"
      using assms(1) one Some by (simp add: poll_step_def)
    have fin: "v AND (if ?auto then 0x4000 else 0x8) \<noteq> 0" if "fst (data_over (logged p d) H (byte_cnt dat > 64) ?auto v s)" for v s
      using that by (auto simp: data_over_def split: if_splits)
    have "\<exists>vs v. snd s' = snd s1 @ (if host_reg H + r_rint = d then map (Rd d) (vs @ [v]) else []) \<and>
      (\<forall>x \<in> set (vs @ [v]). x AND 0xbfc2 = 0) \<and> v AND (if ?auto then 0x4000 else 0x8) \<noteq> 0"
      by (rule rint_log [OF two quiet_data_over [OF assms(2)]]) (rule fin)
    then obtain ws w where b: "snd s' = snd s1 @ (if host_reg H + r_rint = d then map (Rd d) (ws @ [w]) else [])"
      "\<forall>x \<in> set (ws @ [w]). x AND 0xbfc2 = 0" "w AND (if ?auto then 0x4000 else 0x8) \<noteq> 0" by blast
    then show ?thesis using a Some by (intro exI [of _ "vs @ v # ws @ [w]"]) (auto simp: clean_status_def)
  qed
qed

lemma body_log:
  assumes "cmd_body (logged p d) (logged_idma idma) tuning cmd data H (mem, s) = Some (0, resp, mem', s')" "quiet H d"
  shows "\<exists>vs. clean_status cmd data vs \<and>
    snd s' = snd s @ (if host_reg H + r_cmd = d then [Wr d (cmd_word cmd data)] else []) @ (if host_reg H + r_rint = d then map (Rd d) vs else [])"
proof -
  note Q = quiet_log [OF assms(2)]
  let ?s1 = "hwr (logged p d) H r_arg (cmdarg cmd) (case data of Some dat \<Rightarrow> hwr (logged p d) H r_bytecnt (blocks dat * blocksize dat)
      (hwr (logged p d) H r_blksz (blocksize dat) s) | None \<Rightarrow> s)"
  have l1: "snd ?s1 = snd s" by (simp add: Q split: option.splits)
  obtain m2 s2 where x: "xfer_step (logged p d) H cmd data (mem, ?s1) = Some (0, m2, s2)"
    using assms(1) by (auto simp: cmd_body_def Let_def split: if_splits bind_splits option.splits)
  let ?p = "poll_step (logged p d) H tuning cmd data s2"
  let ?i = "if uses_dma data then logged_idma idma (m2, snd ?p) else (m2, snd ?p)"
  let ?b = "busy_step (logged p d) H cmd (snd ?i)"
  have r: "fst ?p = 0" "fst ?b = 0" "(resp, s') = resp_step (logged p d) H cmd (snd ?b)"
    using assms(1) x by (auto simp: cmd_body_def Let_def split_beta prod_eq_iff split: if_splits)
  obtain vs where v: "clean_status cmd data vs" "snd (snd ?p) = snd s2 @ (if host_reg H + r_rint = d then map (Rd d) vs else [])"
    using cmd_poll_log [of p d H tuning cmd data s2 "snd ?p"] r(1) assms(2) by (metis prod.collapse)
  have i: "snd (snd ?i) = snd (snd ?p)" by (simp add: logged_idma_def split_beta)
  have b: "snd (snd ?b) = snd (snd ?i)" by (simp add: busy_step_def split_beta quiet_waits [OF assms(2)])
  have "snd s' = snd (snd ?b)" using r(3) quiet_resp [OF assms(2), of p cmd "snd ?b"] by (metis snd_conv)
  then show ?thesis using v xfer_log [OF x assms(2)] i b l1 by (intro exI [of _ vs]) simp
qed

lemma finish_log:
  assumes "cmd_finish (logged p d) tuning data cnt 0 (H, s) = Some (ret, H', s')" "quiet H d"
  shows "ret = 0 \<and> H' = H \<and> snd s' = snd s @ (if host_reg H + r_rint = d then [Wr d 0xffffffff] else [])"
proof -
  let ?p = "logged p d"
  let ?s = "if data \<noteq> None \<and> cnt > 64
    then hrmw ?p H r_gctrl (\<lambda>v. v AND NOT 0x20) (hwr ?p H r_dmac 0 (hwr ?p H r_idie 0 (hrmw ?p H r_idst id s))) else s"
  have "snd ?s = snd s" by (simp add: quiet_log [OF assms(2)])
  moreover have "ret = 0 \<and> H' = H \<and> s' = hwr ?p H r_rint 0xffffffff ?s" using assms(1) by (auto simp: cmd_finish_def Let_def)
  ultimately show ?thesis by (simp add: host_log(2))
qed

text \<open>
  C21: a command that succeeds has been sent exactly once and has been seen to finish. Recording the command register, or the
  interrupt status, of any controller (the data port lies elsewhere): for every command but the automatic stop, which the
  controller sends by itself, a result of 0 means that the command word of the request, and nothing else, was written to the
  command register; that no value of the interrupt status that was read shows an error; that one of them shows
  the end of the command and the last one, if there are data, the end of the transfer; and that the status was then cleared.
\<close>

theorem command_sent_and_confirmed:
  assumes "mmc_host_send_cmd (logged p d) (logged_idma idma) tuning cmd data (H, mem, h, []) = Some (0, resp, H', mem', h', l)"
    and "d = host_reg H + r_cmd \<or> d = host_reg H + r_rint" "database H \<noteq> d" "cmdidx cmd \<noteq> 12 \<or> cmd_flags cmd AND MMC_CMD_MANUAL \<noteq> 0"
  shows "H' = H \<and> (if d = host_reg H + r_cmd then l = [Wr d (cmd_word cmd data)]
    else \<exists>vs. clean_status cmd data vs \<and> l = map (Rd d) vs @ [Wr d 0xffffffff])"
proof -
  have q: "quiet H d" using assms(2,3) by (auto simp: quiet_def quiet_regs_def)
  obtain err rs m1 s1 cnt where b: "cmd_body (logged p d) (logged_idma idma) tuning cmd data H (mem, h, []) = Some (err, rs, m1, s1)"
    and f: "cmd_finish (logged p d) tuning data cnt err (H, s1) = Some (0, H', h', l)"
    using assms(1,4) by (auto simp: mmc_host_send_cmd_def Let_def split: if_splits bind_splits)
  have "err = 0" using f by (auto simp: cmd_finish_def Let_def split: if_splits bind_splits prod.splits)
  with b f obtain vs where "clean_status cmd data vs"
    "snd s1 = (if host_reg H + r_cmd = d then [Wr d (cmd_word cmd data)] else []) @ (if host_reg H + r_rint = d then map (Rd d) vs else [])"
    "H' = H \<and> l = snd s1 @ (if host_reg H + r_rint = d then [Wr d 0xffffffff] else [])"
    using body_log [of p d idma tuning cmd data H mem "(h, [])" rs m1 s1] finish_log [of p d tuning data cnt H s1 0 H' "(h', l)"] q by auto
  then show ?thesis using assms(2) by auto
qed

theorem command_sent_and_confirmed_witness:
  "\<exists>resp h' l. mmc_host_send_cmd (logged ram_plat 0x01c11038) (logged_idma id) False \<lparr>cmdidx = 13, resp_type = MMC_RSP_R1, cmdarg = 0x10000, cmd_flags = 0\<rparr>
       None (demo_clk_host, \<lambda>_. 0, (\<lambda>_. 0)(0x01c11038 := 4), []) = Some (0, resp, demo_clk_host, \<lambda>_. 0, h', l) \<and>
     (\<exists>vs. clean_status \<lparr>cmdidx = 13, resp_type = MMC_RSP_R1, cmdarg = 0x10000, cmd_flags = 0\<rparr> None vs \<and>
       l = map (Rd 0x01c11038) vs @ [Wr 0x01c11038 0xffffffff])"
proof -
  let ?c = "\<lparr>cmdidx = 13, resp_type = MMC_RSP_R1, cmdarg = 0x10000, cmd_flags = 0\<rparr> :: mmc_cmd"
  have d: "host_reg demo_clk_host = 0x01c11000" "database demo_clk_host = 0x01c11200" "fatal_err demo_clk_host = 0"
    by (simp_all add: demo_clk_host_def)
  have "\<exists>resp h' l. mmc_host_send_cmd (logged ram_plat 0x01c11038) (logged_idma id) False ?c
       None (demo_clk_host, \<lambda>_. 0, (\<lambda>_. 0)(0x01c11038 := 4), []) = Some (0, resp, demo_clk_host, \<lambda>_. 0, h', l)"
    by (simp add: mmc_host_send_cmd_def d cmd_body_def xfer_step_def poll_step_def rint_poll.simps busy_step_def resp_step_def
        cmd_finish_def Let_def uses_dma_def hrd_def hwr_def logged_def ram_plat_def)
  then obtain resp h' l where r: "mmc_host_send_cmd (logged ram_plat 0x01c11038) (logged_idma id) False ?c
       None (demo_clk_host, \<lambda>_. 0, (\<lambda>_. 0)(0x01c11038 := 4), []) = Some (0, resp, demo_clk_host, \<lambda>_. 0, h', l)" by blast
  then show ?thesis using command_sent_and_confirmed [OF r] d by simp
qed

section \<open>After an error\<close>

lemma save_host_reg: "host_reg (fst (fold (save_reg p) rs s)) = host_reg (fst s)"
  by (induction rs arbitrary: s) (simp_all add: save_reg_def split_beta)

lemma recover_steps:
  assumes "cmd_recover p (G, g) = Some (H', s)"
  shows "host_reg H' = host_reg G \<and> (\<exists>s1 s2. mmc_soft_reset p H' s1 = Some s2 \<and> s = snd (mmc_update_clk p H' s2))"
proof -
  have c: "host_reg (fst (mmc_clk_io_onoff p on rs t)) = host_reg (fst t)" for on rs and t :: "sunxi_mmc_host \<times> 'a"
    by (simp add: mmc_clk_io_onoff_def Let_def split_beta)
  show ?thesis
    using assms c [of True False "mmc_clk_io_onoff p False False (mmc_save_regs p (G, _))"]
    by (auto simp: cmd_recover_def Let_def split_beta c mmc_save_regs_def save_host_reg split: bind_splits)
qed

lemma finish_error:
  assumes "cmd_finish p tuning data cnt err (H, h) = Some (ret, H', h')" "err \<noteq> 0"
  shows "\<exists>s1 s2. host_reg H' = host_reg H \<and> mmc_soft_reset p H' s1 = Some s2 \<and>
    h' = hwr p H' r_rint 0xffffffff (snd (mmc_update_clk p H' s2))"
  using assms by (auto simp: cmd_finish_def Let_def split_beta dest!: recover_steps split: bind_splits) blast

lemma failed_command:
  assumes "mmc_host_send_cmd p idma tuning cmd data (H, mem, h) = Some (ret, resp, H', mem', h')" "ret \<noteq> 0" "fatal_err H = 0"
  shows "\<exists>h1 cnt err. err \<noteq> 0 \<and> cmd_finish p tuning data cnt err (H, h1) = Some (ret, H', h')"
proof -
  have "err \<noteq> 0" if "cmd_finish p tuning data cnt err (H, h1) = Some (ret, H', h')" for h1 cnt err
    using that assms(2) by (auto simp: cmd_finish_def)
  moreover have "\<exists>h1 cnt err. cmd_finish p tuning data cnt err (H, h1) = Some (ret, H', h')"
    using assms by (auto simp: mmc_host_send_cmd_def Let_def split_beta split: if_splits bind_splits) blast+
  ultimately show ?thesis by blast
qed

text \<open>
  The recovery from an error resets the bus mode. The controller is reset by writing 7 to its global control register, before its
  registers are saved and again after they are restored. On a controller whose reset bits clear themselves and whose other control bits keep
  what is written, every failed command leaves the register 0: in the DDR mode the double data rate, bit 10, is switched off
  although the card stays in that mode.
\<close>

theorem error_clears_bus_mode:
  assumes "mmc_host_send_cmd p idma tuning cmd data (H, mem, h) = Some (ret, resp, H', mem', h')" "ret \<noteq> 0" "fatal_err H = 0"
    and "\<And>a v h. ctl (MmioWrite32 p a v h) = (if a = host_reg H + r_gctrl then v AND NOT 0x7 else ctl h)"
    and "\<And>a h. ctl (snd (MmioRead32 p a h)) = ctl h"
  shows "ctl h' = (0 :: u32)"
proof -
  have rd: "ctl (snd (hrd p G r h)) = ctl h" for G r h by (simp add: hrd_def assms(5))
  have wr: "ctl (hwr p G r v h) = (if r = r_gctrl then v AND NOT 0x7 else ctl h)" if "host_reg G = host_reg H" for G r v h
    by (simp add: hwr_def assms(4) that)
  have rmw: "ctl (hrmw p G r f h) = ctl h" if "host_reg G = host_reg H" "r \<noteq> r_gctrl" for G r f h
    by (simp add: hrmw_def mmio_rmw_def split_beta assms(4,5) that)
  have reset: "ctl s' = 0" if "mmc_soft_reset p G s = Some s'" "host_reg G = host_reg H" for G s s'
    using wait_clear_keeps [where I = ctl, OF that(1) [unfolded mmc_soft_reset_def]] rd wr [OF that(2)] by simp
  have clk: "ctl (snd (mmc_update_clk p G s)) = ctl s" if "host_reg G = host_reg H" for G s
  proof -
    have "ctl (snd (clk_cmd_wait p G t s)) = ctl s" for t s by (induction t arbitrary: s) (simp_all add: split_beta rd)
    then show ?thesis using that by (simp add: mmc_update_clk_def Let_def split_beta rmw wr)
  qed
  obtain h1 cnt err where e: "err \<noteq> 0" and f: "cmd_finish p tuning data cnt err (H, h1) = Some (ret, H', h')"
    using failed_command [OF assms(1-3)] by blast
  from finish_error [OF f e] obtain s1 s2 where s: "host_reg H' = host_reg H" "mmc_soft_reset p H' s1 = Some s2"
    "h' = hwr p H' r_rint 0xffffffff (snd (mmc_update_clk p H' s2))"
    by (elim exE conjE) (rule that)
  show ?thesis using reset [OF s(2,1)] by (simp add: s(3) wr [OF s(1)] clk [OF s(1)])
qed

text \<open>A controller that answers every command with a response error.\<close>

definition deaf_plat :: "(u32 \<Rightarrow> u32) plat" where
  "deaf_plat = ram_plat\<lparr>MmioWrite32 := (\<lambda>a v h. h(a := if a = 0x01c11000 then v AND NOT 0x7 else v))\<rparr>"

lemma deaf_reset: "host_reg H = 0x01c11000 \<Longrightarrow> \<exists>h'. mmc_soft_reset deaf_plat H h = Some h'"
  unfolding mmc_soft_reset_def
  by (subst wait_clear.simps) (simp add: deaf_plat_def ram_plat_def hrd_def hwr_def)

lemma deaf_recover:
  assumes "host_reg H = 0x01c11000"
  shows "\<exists>H' h'. cmd_recover deaf_plat (H, h) = Some (H', h')"
proof -
  obtain h1 where r: "mmc_soft_reset deaf_plat H h = Some h1" using deaf_reset [OF assms] by blast
  obtain H2 h2 where s: "mmc_clk_io_onoff deaf_plat True False (mmc_clk_io_onoff deaf_plat False False (mmc_save_regs deaf_plat (H, h1))) = (H2, h2)"
    by (meson surj_pair)
  have "host_reg (fst (mmc_clk_io_onoff deaf_plat on rs t)) = host_reg (fst t)" for on rs t
    by (simp add: mmc_clk_io_onoff_def Let_def split_beta)
  from this [of True False "mmc_clk_io_onoff deaf_plat False False (mmc_save_regs deaf_plat (H, h1))"]
    this [of False False "mmc_save_regs deaf_plat (H, h1)"]
  have "host_reg H2 = 0x01c11000" using s assms by (simp add: mmc_save_regs_def save_host_reg)
  then obtain h3 where "mmc_soft_reset deaf_plat H2 (mmc_restore_regs deaf_plat H2 h2) = Some h3" using deaf_reset by blast
  then show ?thesis using r s by (simp add: cmd_recover_def)
qed

lemma error_clears_bus_mode_witness:
  "\<exists>ret resp H' mem' h'. mmc_host_send_cmd deaf_plat id False \<lparr>cmdidx = 13, resp_type = MMC_RSP_R1, cmdarg = 0x10000, cmd_flags = 0\<rparr>
       None (demo_clk_host, mem, (\<lambda>_. 0)(0x01c11000 := 0x400, 0x01c11038 := 2)) = Some (ret, resp, H', mem', h') \<and> h' 0x01c11000 = 0"
proof -
  let ?c = "\<lparr>cmdidx = 13, resp_type = MMC_RSP_R1, cmdarg = 0x10000, cmd_flags = 0\<rparr> :: mmc_cmd"
  let ?h = "(\<lambda>_. 0)(0x01c11000 := 0x400, 0x01c11038 := 2) :: u32 \<Rightarrow> u32"
  have d: "host_reg demo_clk_host = 0x01c11000" "fatal_err demo_clk_host = 0" by (simp_all add: demo_clk_host_def)
  have "\<exists>resp h1. cmd_body deaf_plat id False ?c None demo_clk_host (mem, ?h) = Some (2, resp, mem, h1)"
    by (simp add: cmd_body_def xfer_step_def poll_step_def rint_poll.simps Let_def uses_dma_def hrd_def hwr_def deaf_plat_def ram_plat_def d)
  then obtain resp h1 where b: "cmd_body deaf_plat id False ?c None demo_clk_host (mem, ?h) = Some (2, resp, mem, h1)" by blast
  let ?H = "demo_clk_host\<lparr>raw_int_bak := fst (hrd deaf_plat demo_clk_host r_rint h1) AND 0xbfc2\<rparr>"
  have "host_reg ?H = 0x01c11000" using d by simp
  then obtain H' h2 where c: "cmd_recover deaf_plat (?H, snd (hrd deaf_plat demo_clk_host r_rint h1)) = Some (H', h2)" using deaf_recover by blast
  obtain h' where f: "cmd_finish deaf_plat False None 0 2 (demo_clk_host, h1) = Some (-1, H', h')"
    using c by (simp add: cmd_finish_def Let_def split_beta)
  have r: "mmc_host_send_cmd deaf_plat id False ?c None (demo_clk_host, mem, ?h) = Some (-1, resp, H', mem, h')"
    using b f d by (simp add: mmc_host_send_cmd_def)
  have "h' 0x01c11000 = 0"
    using error_clears_bus_mode [OF r, of "\<lambda>h. h 0x01c11000"] d by (simp add: deaf_plat_def ram_plat_def)
  then show ?thesis using r by blast
qed

end
