(* ===== verification/MmcBoard.thy ===== *)
theory MmcBoard
  imports MmcStart MmcXfer Gpio
begin

text \<open>
  The set-up of a controller from the board's configuration script, \<open>src/Drivers/SunxiSdMmcDxe/sunxi_host_mmc.c\<close> from
  \<open>mmc_get_para_from_fex\<close> on: parameters, pins, tables, clocks, capabilities, and the registration with the block layer; and the
  start of a card through it, \<open>mmc_init\<close> of \<open>mmc.c\<close> and \<open>SDMMC_LogicalInit\<close> of \<open>mmc_op.c\<close>.
\<close>

section \<open>Configuration\<close>

text \<open>
  \<open>struct mmc_config\<close> with the fields of \<open>struct mmc_platform_caps\<close> that the block layer does not look at. The two tables are
  behind pointers in the code; \<open>tm4_smx_fx\<close> is the only member of \<open>sdly\<close>.
\<close>

record platform_config = mmc_config +
  host_no :: u32
  sample_mode :: u32
  io_is_1v8 :: u32
  boot0_para :: u8
  boot_odly_50M :: u8
  boot_sdly_50M :: u8
  boot_odly_50M_ddr :: u8
  boot_sdly_50M_ddr :: u8
  boot_hs_f_max :: u8
  odly_spd_freq :: "u8 list"
  sdly_spd_freq :: "u8 list"
  tm4_timing_window_th :: u8
  tm4_tune_r_cycle :: u8
  tm4_tune_hs200_max_freq :: u8
  tm4_tune_hs400_max_freq :: u8
  tune_limit_kernel_timing :: u8
  tm4_tune_ext_freq :: "u32 list"
  host_caps_mask :: u32
  tm4_smx_fx :: "u32 list"

section \<open>Parameters of the script\<close>

definition ascii :: "string \<Rightarrow> u8 list" where
  "ascii s = map of_char s"

text \<open>
  A parameter is a key and what is done with its value, or without one when \<open>script_parser_fetch\<close> reports an error.
  The variable \<open>rval\<close> is at an address of the stack and is shared by all calls: a key that delivers no word with the
  result 0 leaves the value of an earlier key in it.
\<close>

type_synonym para = "string \<times> (u32 option \<Rightarrow> platform_config \<Rightarrow> platform_config)"

definition get_para :: "str_lib \<Rightarrow> script_state \<Rightarrow> u64 \<Rightarrow> string \<Rightarrow> para \<Rightarrow> mem \<times> platform_config \<Rightarrow> mem \<times> platform_config" where
  "get_para L st rval sec = (\<lambda>(key, use) (m, c).
     case script_parser_fetch L st (Some (ascii sec)) (Some (ascii key)) rval 1 m of (ret, m) \<Rightarrow>
       (m, use (if ret < 0 then None else Some (load32 m rval)) c))"

definition get_paras :: "str_lib \<Rightarrow> script_state \<Rightarrow> u64 \<Rightarrow> string \<Rightarrow> para list \<Rightarrow> mem \<times> platform_config \<Rightarrow> mem \<times> platform_config" where
  "get_paras L st rval sec = fold (get_para L st rval sec)"

definition feature_paras :: "para list" where
  "feature_paras =
     [(''sdc_wipe'', \<lambda>v c. case v of None \<Rightarrow> c | Some w \<Rightarrow> c\<lparr>drv_wipe_feature := drv_wipe_feature c OR (w AND 0xF)\<rparr>),
      (''sdc_erase'', \<lambda>v c. case v of None \<Rightarrow> c | Some w \<Rightarrow> c\<lparr>drv_erase_feature := drv_erase_feature c OR (w AND 0x3)\<rparr>),
      (''sdc_boot'', \<lambda>v c. case v of None \<Rightarrow> c | Some w \<Rightarrow> c\<lparr>drv_burn_boot_pos := drv_burn_boot_pos c OR (w AND 0x3)\<rparr>)]"

definition byte_or :: "u8 \<Rightarrow> u32 option \<Rightarrow> u8" where
  "byte_or d v = (case v of None \<Rightarrow> d | Some w \<Rightarrow> ucast w)"

definition hs_f_max :: "u32 option \<Rightarrow> u8" where
  "hs_f_max v = (case v of None \<Rightarrow> 0 | Some w \<Rightarrow> if sint w \<ge> 50 then 50 else ucast w)"

text \<open>The limit of 50 is tested on a signed value: -1 becomes 255.\<close>

lemma hs_f_max_negative: "hs_f_max (Some (- 1)) = 255"
  by code_simp

definition boot_timing_paras :: "para list" where
  "boot_timing_paras =
     [(''sdc_odly_50M'', \<lambda>v c. c\<lparr>boot_odly_50M := byte_or 0xff v\<rparr>),
      (''sdc_sdly_50M'', \<lambda>v c. c\<lparr>boot_sdly_50M := byte_or 0xff v\<rparr>),
      (''sdc_odly_50M_ddr'', \<lambda>v c. c\<lparr>boot_odly_50M_ddr := byte_or 0xff v\<rparr>),
      (''sdc_sdly_50M_ddr'', \<lambda>v c. c\<lparr>boot_sdly_50M_ddr := byte_or 0xff v\<rparr>),
      (''sdc_freq'', \<lambda>v c. c\<lparr>boot_hs_f_max := hs_f_max v\<rparr>),
      (''sdc_b0p'', \<lambda>v c. c\<lparr>boot0_para := byte_or 0 v\<rparr>)]"

text \<open>Controller 0 knows manual sample points only; controller 2 also those that an earlier tuning has left in the boot head.\<close>

definition sample_mode_0 :: para where
  "sample_mode_0 = (''sdc_ex_dly_used'', \<lambda>v c. case v of None \<Rightarrow> c | Some w \<Rightarrow> c\<lparr>sample_mode := (if w = 1 then MAUNAL_SAMPLE_MODE else 0)\<rparr>)"

definition sample_mode_2 :: "u32 \<Rightarrow> u32 list \<Rightarrow> para" where
  "sample_mode_2 work_mode tuned = (''sdc_ex_dly_used'', \<lambda>v c.
     case v of None \<Rightarrow> c\<lparr>tm4_smx_fx := replicate 10 0xffffffff\<rparr>
     | Some w \<Rightarrow>
         if w = 2 then let c = c\<lparr>sample_mode := AUTO_SAMPLE_MODE\<rparr> in if work_mode \<noteq> 0 then c else c\<lparr>tm4_smx_fx := tuned\<rparr>
         else if w = 1 then c\<lparr>sample_mode := MAUNAL_SAMPLE_MODE\<rparr>
         else c\<lparr>sample_mode := 0\<rparr>)"

definition in_range :: "int \<Rightarrow> int \<Rightarrow> u8 \<Rightarrow> u32 \<Rightarrow> u8" where
  "in_range lo hi other w = (if sint w < lo \<or> sint w > hi then other else ucast w)"

definition digit :: "nat \<Rightarrow> string" where
  "digit n = [char_of (48 + n)]"

definition ext_freq_para :: "nat \<Rightarrow> para" where
  "ext_freq_para i = (''sdc_tm4_ext_freq_'' @ digit i, \<lambda>v c. c\<lparr>tm4_tune_ext_freq := (tm4_tune_ext_freq c)[i :=
     (case v of None \<Rightarrow> 0 | Some w \<Rightarrow> if w AND 0xff \<ge> 25 then w else 0)]\<rparr>)"

definition tuning_paras :: "para list" where
  "tuning_paras =
     [(''sdc_tm4_win_th'', \<lambda>v c. c\<lparr>tm4_timing_window_th := (case v of None \<Rightarrow> 12 | Some w \<Rightarrow> in_range 4 64 12 w)\<rparr>),
      (''sdc_tm4_r_cycle'', \<lambda>v c. c\<lparr>tm4_tune_r_cycle := (case v of None \<Rightarrow> 0 | Some w \<Rightarrow> in_range 1 40 15 w)\<rparr>),
      (''sdc_tm4_hs200_max_freq'', \<lambda>v c. c\<lparr>tm4_tune_hs200_max_freq := (case v of None \<Rightarrow> 0 | Some w \<Rightarrow> in_range 50 200 0 w)\<rparr>),
      (''sdc_tm4_hs400_max_freq'', \<lambda>v c. c\<lparr>tm4_tune_hs400_max_freq := (case v of None \<Rightarrow> 0 | Some w \<Rightarrow> in_range 50 200 0 w)\<rparr>)]
     @ map ext_freq_para [0, 1, 2, 3]"

definition io_para :: para where
  "io_para = (''sdc_io_1v8'', \<lambda>v c. case v of None \<Rightarrow> c | Some w \<Rightarrow> if w = 1 then c\<lparr>io_is_1v8 := 1\<rparr> else c)"

definition limit_paras :: "para list" where
  "limit_paras =
     [(''sdc_dis_host_caps'', \<lambda>v c. c\<lparr>host_caps_mask := (case v of None \<Rightarrow> 0 | Some w \<Rightarrow> w)\<rparr>),
      (''sdc_kernel_no_limit'', \<lambda>v c. c\<lparr>tune_limit_kernel_timing := (case v of None \<Rightarrow> 1 | Some w \<Rightarrow> if w = 1 then 0 else 1)\<rparr>)]"

text \<open>The manual sample points: an output and a sample delay for every speed mode and frequency point.\<close>

definition dly_paras :: "nat \<Rightarrow> nat \<Rightarrow> para list" where
  "dly_paras md f =
     [(''sdc_odly_'' @ digit md @ ''_'' @ digit f, \<lambda>v c. c\<lparr>odly_spd_freq := (odly_spd_freq c)[md * 8 + f :=
         (case v of None \<Rightarrow> 0 | Some w \<Rightarrow> ucast (w AND 0x1))]\<rparr>),
      (''sdc_sdly_'' @ digit md @ ''_'' @ digit f, \<lambda>v c. c\<lparr>sdly_spd_freq := (sdly_spd_freq c)[md * 8 + f :=
         (case v of None \<Rightarrow> 0xff | Some w \<Rightarrow> ucast (w AND 0xff))]\<rparr>)]"

definition manual_paras :: "str_lib \<Rightarrow> script_state \<Rightarrow> u64 \<Rightarrow> string \<Rightarrow> mem \<times> platform_config \<Rightarrow> mem \<times> platform_config" where
  "manual_paras L st rval sec s =
     (if sample_mode (snd s) = MAUNAL_SAMPLE_MODE
      then get_paras L st rval sec (concat (map (\<lambda>md. concat (map (dly_paras md) [0..<8])) [0..<5])) s else s)"

text \<open>The places of the local variables, and what the head of the boot image says.\<close>

record board_env =
  rval_at :: u64
  pins_at :: u64
  work_mode :: u32
  tuned_sdly :: "u32 list"

definition mmc_get_para_from_fex ::
  "str_lib \<Rightarrow> script_state \<Rightarrow> 'h plat \<Rightarrow> board_env \<Rightarrow> int \<Rightarrow> platform_config \<times> mem \<times> 'h \<Rightarrow> platform_config \<times> mem \<times> 'h" where
  "mmc_get_para_from_fex L st p E sdc_no = (\<lambda>(c, m, h).
     let fetch = get_paras L st (rval_at E) in
     if sdc_no = 0 then
       case gpio_request_simple L st p (pins_at E) (Some (ascii ''card0_boot_para'')) None (m, h) of (_, m, h) \<Rightarrow>
       case manual_paras L st (rval_at E) ''card0_boot_para''
              (fetch ''card0_boot_para'' (feature_paras @ boot_timing_paras @ [sample_mode_0]) (m, c)) of (m, c) \<Rightarrow> (c, m, h)
     else if sdc_no = 1 then
       case gpio_request_simple L st p (pins_at E) (Some (ascii ''sdc1'')) None (m, h) of (_, m, h) \<Rightarrow> (c, m, h)
     else if sdc_no = 2 then
       case gpio_request_simple L st p (pins_at E) (Some (ascii ''card2_boot_para'')) None (m, h) of (ret, m, h) \<Rightarrow>
       if ret \<noteq> 0 then (c, m, h)
       else case fetch ''card2_boot_para'' limit_paras (manual_paras L st (rval_at E) ''card2_boot_para''
              (fetch ''card2_boot_para'' (feature_paras @ [sample_mode_2 (work_mode E) (tuned_sdly E), io_para] @
                 boot_timing_paras @ tuning_paras) (m, c))) of (m, c) \<Rightarrow> (c, m, h)
     else (c, m, h))"

section \<open>Set-up\<close>

text \<open>What \<open>memset\<close> leaves: all fields 0.\<close>

definition zero_timing1 :: sunxi_mmc_timing_mode1 where
  "zero_timing1 = \<lparr>cur_spd_md = 0, cur_freq = 0, odly = replicate 40 0, sdly = replicate 40 0, def_odly = replicate 40 0,
     def_sdly = replicate 40 0, sample_point_cnt = 0, cur_odly = 0, cur_sdly = 0\<rparr>"

definition zero_timing3 :: sunxi_mmc_timing_mode3 where
  "zero_timing3 = sunxi_mmc_timing_mode1.extend zero_timing1 (sunxi_mmc_timing_mode3.fields 0 0)"

definition zero_timing4 :: sunxi_mmc_timing_mode4 where
  "zero_timing4 = sunxi_mmc_timing_mode3.extend zero_timing3
     (sunxi_mmc_timing_mode4.fields (replicate 8 0) (replicate 8 0) 0 0)"

definition zero_host :: sunxi_mmc_host where
  "zero_host = \<lparr>mmc_no = 0, hclkbase = 0, hclkrst = 0, mclkbase = 0, database = 0, fatal_err = 0, host_clock = 0, mod_clk = 0, host_reg = 0,
     reg_bak = (\<lambda>_. 0), pdes = 0, timing_mode = 0, tm1 = zero_timing1, tm3 = zero_timing3, tm4 = zero_timing4, retry_cnt = 0, raw_int_bak = 0\<rparr>"

definition zero_config :: platform_config where
  "zero_config = \<lparr>host_caps = 0, voltages = 0, f_min = 0, f_max = 0, b_max = 0, drv_burn_boot_pos = 0, drv_wipe_feature = 0,
     drv_erase_feature = 0, host_no = 0, sample_mode = 0, io_is_1v8 = 0, boot0_para = 0, boot_odly_50M = 0, boot_sdly_50M = 0,
     boot_odly_50M_ddr = 0, boot_sdly_50M_ddr = 0, boot_hs_f_max = 0, odly_spd_freq = [], sdly_spd_freq = [], tm4_timing_window_th = 0,
     tm4_tune_r_cycle = 0, tm4_tune_hs200_max_freq = 0, tm4_tune_hs400_max_freq = 0, tune_limit_kernel_timing = 0,
     tm4_tune_ext_freq = [0, 0, 0, 0], host_caps_mask = 0, tm4_smx_fx = replicate 10 0\<rparr>"

text \<open>The capabilities of the controllers. A mode that is switched off takes those that build on it along.\<close>

definition mask_caps :: "u32 \<Rightarrow> u32 \<Rightarrow> u32" where
  "mask_caps off caps =
     (let caps = (if off AND 0x100 \<noteq> 0 then caps AND NOT 0x100 else caps);
          caps = (if off AND 0x080 \<noteq> 0 then caps AND NOT 0x180 else caps);
          caps = (if off AND 0x040 \<noteq> 0 then caps AND NOT 0x1C0 else caps);
          caps = (if off AND 0x002 \<noteq> 0 then caps AND NOT 0x1C2 else caps);
          caps = (if off AND 0x008 \<noteq> 0 then caps AND NOT 0x108 else caps)
      in caps)"

definition board_caps :: "platform_config \<Rightarrow> u32" where
  "board_caps c =
     (let caps = 0x4 OR 0x1 OR 0x20 OR 0x2 OR 0x40;
          caps = (if host_no c = 2 then caps OR 0x8 else caps);
          caps = (if io_is_1v8 c \<noteq> 0
                  then let caps = caps OR 0x80 in if caps AND 0x8 \<noteq> 0 then caps OR 0x100 else caps
                  else caps)
      in if host_caps_mask c \<noteq> 0 then mask_caps (host_caps_mask c) caps else caps)"

text \<open>
  The tables \<open>ext_odly_spd_freq\<close> and \<open>ext_sdly_spd_freq\<close> of the controller, which are static and keep their contents, the
  address of the DMA descriptors (0 when there is no memory), and whether there is memory for \<open>struct mmc\<close>.
\<close>

record init_env = board_env +
  ext_odly :: "u8 list"
  ext_sdly :: "u8 list"
  pdes_mem :: u64
  mmc_mem :: bool

definition base_config :: "init_env \<Rightarrow> int \<Rightarrow> platform_config" where
  "base_config E sdc_no = zero_config
     \<lparr>odly_spd_freq := (if sdc_no = 1 then [] else ext_odly E), sdly_spd_freq := (if sdc_no = 1 then [] else ext_sdly E),
      host_no := word_of_int sdc_no, voltages := 0xff8000, b_max := 65535, f_min := 400000,
      f_max := (if sdc_no = 0 then 50000000 else 200000000)\<rparr>"

text \<open>
  \<open>sunxi_sun50iw1p1_mmc_init\<close>: the result, the table \<open>mmc_devices\<close>, the host, its configuration, memory and hardware. The code has three
  hosts; there is no result for another number.
\<close>

definition sunxi_mmc_init ::
  "str_lib \<Rightarrow> script_state \<Rightarrow> 'h plat \<Rightarrow> init_env \<Rightarrow> int \<Rightarrow> mmc option list \<Rightarrow> mem \<times> 'h \<Rightarrow>
   (int \<times> mmc option list \<times> sunxi_mmc_host \<times> platform_config \<times> mem \<times> 'h) option" where
  "sunxi_mmc_init L st p E sdc_no devs = (\<lambda>(m, h).
     if sdc_no \<notin> {0, 1, 2} then None
     else
       let no = word_of_int sdc_no;
           c = base_config E sdc_no;
           H = zero_host\<lparr>timing_mode := (if sdc_no = 2 then TIMING_MODE_4 else TIMING_MODE_1), pdes := pdes_mem E\<rparr>
       in if pdes_mem E = 0 then Some (-1, devs, H, c, m, h)
          else
            let H = mmc_init_default_timing_para no (mmc_clear_timing_para H)
            in case mmc_get_para_from_fex L st p (board_env.truncate E) sdc_no (c, m, h) of (c, m, h) \<Rightarrow>
            case mmc_update_timing_para (sample_mode c) (tm4_smx_fx c) (work_mode E) (odly_spd_freq c) (sdly_spd_freq c) no H of (_, H) \<Rightarrow>
            case mmc_clk_io_onoff p True True (mmc_resource_init no H, h) of (H, h) \<Rightarrow>
            let c = c\<lparr>host_caps := board_caps c\<rparr>
            in case mmc_create (Some (mmc_config.truncate c)) True (mmc_mem E) of
              None \<Rightarrow> Some (-1, devs, H, c, m, h)
            | Some d \<Rightarrow> Some (0, devs[nat sdc_no := Some d], H, c, m, h))"

definition sunxi_mmc_exit :: "'h plat \<Rightarrow> sunxi_mmc_host \<times> 'h \<Rightarrow> int \<times> sunxi_mmc_host \<times> 'h" where
  "sunxi_mmc_exit p s = (case mmc_clk_io_onoff p False True s of (_, h) \<Rightarrow> (0, zero_host, h))"

section \<open>The host behind the block layer\<close>

text \<open>
  The table \<open>sunxi_mmc_ops\<close> with the functions of the controller; its state is the host and the hardware. \<open>idma\<close> is what the
  DMA engine does, and \<open>stuck\<close> stands for the result of a command whose waits never end, which has none.
\<close>

definition sunxi_mmc_ops ::
  "'p plat \<Rightarrow> (mem \<times> 'p \<Rightarrow> mem \<times> 'p) \<Rightarrow> bool \<Rightarrow> int \<times> u32 list \<times> mem \<times> sunxi_mmc_host \<times> 'p \<Rightarrow> (sunxi_mmc_host \<times> 'p) mmc_ops" where
  "sunxi_mmc_ops p idma tuning stuck = \<lparr>
     send_cmd = (\<lambda>m cmd data (mem, H, h). case mmc_host_send_cmd p idma tuning cmd data (H, mem, h) of
         Some (ret, resp, H, mem, h) \<Rightarrow> (ret, resp, mem, H, h) | None \<Rightarrow> stuck),
     set_ios = (\<lambda>m (mem, H, h). case mmc_host_set_ios p (m, H, h) of (m, H, h) \<Rightarrow> (clock m, mem, H, h)),
     update_phase = (\<lambda>m (mem, H, h). case mmc_host_update_phase p H h of (ret, h) \<Rightarrow> (ret, mem, H, h))\<rparr>"

section \<open>Cards\<close>

text \<open>
  \<open>mmc_init\<close> of \<open>mmc.c\<close> and the entry points of \<open>mmc_op.c\<close>. The initialisation that tunes the bus, \<open>mmc_init_product\<close>, is not modelled:
  it is the argument \<open>product\<close>, used only outside the boot mode when the board asks for automatic sample points.
\<close>

definition mmc_init ::
  "'h mmc_ops \<Rightarrow> 'h mmc_init_ops \<Rightarrow> ('h dev \<Rightarrow> (int \<times> 'h dev) option) \<Rightarrow> start_locals \<Rightarrow> bool \<Rightarrow> u32 \<Rightarrow> u32 \<Rightarrow> 'h dev \<Rightarrow> (int \<times> 'h dev) option" where
  "mmc_init ops iops product B boot card_type mode s =
     (if has_init (fst s) then Some (0, s)
      else if mode = AUTO_SAMPLE_MODE \<and> \<not> boot then product s
      else mmc_init_boot ops iops B boot card_type s)"

text \<open>Everything an initialisation needs besides the state.\<close>

record 'p card_setup =
  su_lib :: str_lib
  su_script :: script_state
  su_plat :: "'p plat"
  su_env :: init_env
  su_ops :: "(sunxi_mmc_host \<times> 'p) mmc_ops"
  su_iops :: "(sunxi_mmc_host \<times> 'p) mmc_init_ops"
  su_product :: "(sunxi_mmc_host \<times> 'p) dev \<Rightarrow> (int \<times> (sunxi_mmc_host \<times> 'p) dev) option"
  su_bufs :: start_locals
  su_boot :: bool
  su_card_type :: u32

text \<open>\<open>SDMMC_LogicalInit\<close>. The result, the devices, the host, its configuration, memory and hardware; \<open>bootcard_offset\<close> is set to \<open>card_offset\<close> in every case.\<close>

definition SDMMC_LogicalInit ::
  "'p card_setup \<Rightarrow> u32 \<Rightarrow> mmc option list \<Rightarrow> mem \<times> 'p \<Rightarrow>
   (int \<times> mmc option list \<times> sunxi_mmc_host \<times> platform_config \<times> mem \<times> 'p) option" where
  "SDMMC_LogicalInit S card_no devs w =
     (case sunxi_mmc_init (su_lib S) (su_script S) (su_plat S) (su_env S) (sint card_no) devs w of None \<Rightarrow> None
      | Some (ret, devs, H, c, m, h) \<Rightarrow>
          if ret < 0 then Some (-1, devs, H, c, m, h)
          else case find_mmc_device devs (sint card_no) of
            Some (Some d) \<Rightarrow>
              (case mmc_init (su_ops S) (su_iops S) (su_product S) (su_bufs S) (su_boot S) (su_card_type S) (sample_mode c) (d, m, H, h) of None \<Rightarrow> None
               | Some (err, d, m, H, h) \<Rightarrow>
                   Some (if err \<noteq> 0 then -1 else 0, devs[nat (sint card_no) := Some d], H, c, m, h))
          | _ \<Rightarrow> None)"

section \<open>The tables are always indexed within their bounds\<close>

definition tm_wf :: "'a sunxi_mmc_timing_mode1_scheme \<Rightarrow> bool" where
  "tm_wf t \<longleftrightarrow> length (odly t) = 40 \<and> length (sdly t) = 40 \<and> length (def_odly t) = 40 \<and> length (def_sdly t) = 40 \<and>
     cur_spd_md t \<le> 4 \<and> cur_freq t \<le> 7"

definition host_wf :: "sunxi_mmc_host \<Rightarrow> bool" where
  "host_wf H \<longleftrightarrow> tm_wf (tm1 H) \<and> tm_wf (tm3 H) \<and> tm_wf (tm4 H) \<and> length (dsdly (tm4 H)) = 8 \<and> length (def_dsdly (tm4 H)) = 8"

lemma host_wfI:
  "host_wf H \<Longrightarrow> tm1 H' = tm1 H \<Longrightarrow> tm3 H' = tm3 H \<Longrightarrow> tm4 H' = tm4 H \<Longrightarrow> host_wf H'"
  by (simp add: host_wf_def)

text \<open>What the steps do to the tables.\<close>

lemma delay_wf: "host_wf H \<Longrightarrow> host_wf (fst (mmc_config_delay p (H, h)))"
  by (simp add: mmc_config_delay_def host_wf_def tm_wf_def Let_def)

lemma freq_point_le: "freq_point clk \<le> 7"
  by (simp add: freq_point_def)

lemma spd_freq_wf: "host_wf H \<Longrightarrow> speed_mode m \<le> 4 \<Longrightarrow> f \<le> 7 \<Longrightarrow> host_wf (set_spd_freq m f H)"
  by (simp add: set_spd_freq_def host_wf_def tm_wf_def)

lemma modex_wf:
  assumes "host_wf H" "speed_mode m \<le> 4"
  shows "host_wf (fst (snd (snd (mmc_config_clock_modex p clk (m, H, h)))))"
proof -
  let ?m = "\<lambda>v. m\<lparr>clock := v\<rparr>" and ?H = "\<lambda>v. (set_mod_clk clk m H)\<lparr>host_clock := v\<rparr>"
  have w: "host_wf (?H v)" for v using assms(1) by (rule host_wfI) (simp_all add: set_mod_clk_def)
  have d: "host_wf (fst (mmc_config_delay p (set_spd_freq (?m v) (freq_point clk) (?H u), g)))"
    "host_wf (fst (mmc_config_delay p (set_spd_freq m (freq_point clk) (?H u), g)))" for u v g
    using assms(2) w [of u] by (intro delay_wf spd_freq_wf freq_point_le; simp)+
  show ?thesis
    using w d by (simp add: mmc_config_clock_modex_def Let_def split_beta)
qed

lemma clock_wf:
  assumes "host_wf H" "speed_mode m \<le> 4"
  shows "host_wf (fst (snd (snd (mmc_config_clock p clk (m, H, h)))))"
  using assms(1) by (simp add: mmc_config_clock_def split_beta modex_wf [OF assms])

lemma set_ios_wf:
  assumes "host_wf H" "speed_mode m \<le> 4"
  shows "host_wf (fst (snd (mmc_host_set_ios p (m, H, h))))"
proof -
  obtain r m1 H1 h1 where c: "mmc_config_clock p (clock m) (m, H, h) = (r, m1, H1, h1)" by (metis prod_cases4)
  have "host_wf H1" using clock_wf [OF assms, of p "clock m" h] c by simp
  then have "host_wf H1" "host_wf (H1\<lparr>fatal_err := 1\<rparr>)" "host_wf (H\<lparr>fatal_err := 1\<rparr>)"
    using assms(1) by (auto intro: host_wfI)
  then show ?thesis using assms(1) c by (simp add: mmc_host_set_ios_def)
qed

lemma rty_wf: "host_wf H \<Longrightarrow> host_wf (snd (sunxi_decide_rty err rst H))"
  by (simp add: sunxi_decide_rty_def host_wf_def tm_wf_def Let_def)

lemma unit_wf:
  "host_wf H \<Longrightarrow> host_wf (H\<lparr>tm3 := (tm3 H)\<lparr>sdly_unit_ps := a, dly_calibrate_done := b\<rparr>, tm4 := (tm4 H)\<lparr>sdly_unit_ps := a\<rparr>\<rparr>)"
  "host_wf H \<Longrightarrow> host_wf (H\<lparr>tm4 := (tm4 H)\<lparr>dsdly_unit_ps := a, dly_calibrate_done := b\<rparr>\<rparr>)"
  by (simp_all add: host_wf_def tm_wf_def)

lemma calibrate_wf:
  assumes "host_wf H" "speed_mode m \<le> 4" "mmc_calibrate_delay_unit p (m, H, h) = Some (r, m', H', h')"
  shows "host_wf H'"
proof (cases "fst (mmc_update_clk p H (hrmw p H r_clkcr (\<lambda>v. v AND NOT 0x10000) h)) = 0 \<and>
    (timing_mode H = TIMING_MODE_1 \<or> timing_mode H = TIMING_MODE_3 \<or> timing_mode H = TIMING_MODE_4)")
  case True
  then obtain g where u: "mmc_update_clk p H (hrmw p H r_clkcr (\<lambda>v. v AND NOT 0x10000) h) = (0, g)"
    by (metis prod.collapse)
  obtain r1 m1 H1 h1 where c: "mmc_config_clock_modex p 100000000 (m, H, g) = (r1, m1, H1, h1)" by (metis prod_cases4)
  have H1: "host_wf H1" using modex_wf [OF assms(1,2), of p 100000000 g] by (simp add: c)
  note run = assms(3) [unfolded mmc_calibrate_delay_unit_def prod.case u c]
  have k: "timing_mode H = TIMING_MODE_1 \<or> timing_mode H = TIMING_MODE_3 \<or> timing_mode H = TIMING_MODE_4" using True by blast
  from run obtain h2 h3 where
    "(case hrd p H1 r_samp_dl h3 of (rval, h) \<Rightarrow>
              let result = drop_bit 8 (rval AND 0x3F00);
                  H = (if result \<noteq> 0
                       then H1\<lparr>tm3 := (tm3 H1)\<lparr>sdly_unit_ps := 5000 div result, dly_calibrate_done := 1\<rparr>,
                              tm4 := (tm4 H1)\<lparr>sdly_unit_ps := 5000 div result\<rparr>\<rparr>
                       else H1)
              in if mmc_no H = 2 then
                   case hrd p H r_ds_dl h of (rval, h) \<Rightarrow>
                     let result = drop_bit 8 (rval AND 0x3F00);
                         H = (if result \<noteq> 0
                              then H\<lparr>tm4 := (tm4 H)\<lparr>dsdly_unit_ps := 5000 div result, dly_calibrate_done := 1\<rparr>\<rparr>
                              else H)
                     in Some (0, m1, H, h)
                 else Some (0, m1, H, h)) = Some (r, m', H', h')"
    by (simp only: k if_True if_False simp_thms bind_eq_Some_conv) blast
  then show ?thesis
    using H1 unit_wf [OF H1] unit_wf(2) [OF unit_wf(1) [OF H1]] by (auto simp: Let_def split_beta split: if_splits)
next
  case False
  then show ?thesis using assms(1,3) by (auto simp: mmc_calibrate_delay_unit_def split_beta split: if_splits)
qed

lemma core_init_wf:
  "host_wf H \<Longrightarrow> speed_mode m \<le> 4 \<Longrightarrow> mmc_core_init p (m, H, h) = Some (r, m', H', h') \<Longrightarrow> host_wf H'"
  by (auto simp: mmc_core_init_def Let_def bind_eq_Some_conv intro: calibrate_wf)

lemma save_wf: "host_wf (fst s) \<Longrightarrow> host_wf (fst (fold (save_reg p) rs s))"
proof (induction rs arbitrary: s)
  case (Cons r rs)
  have "host_wf (fst (save_reg p r s))"
    using Cons.prems by (auto simp: save_reg_def split_beta intro: host_wfI)
  then show ?case using Cons.IH by simp
qed simp

lemma onoff_wf: "host_wf (fst s) \<Longrightarrow> host_wf (fst (mmc_clk_io_onoff p a b s))"
  by (auto simp: mmc_clk_io_onoff_def Let_def split_beta intro: host_wfI)

lemma recover_wf:
  assumes "host_wf H" "cmd_recover p (H, h) = Some (H', h')"
  shows "host_wf H'"
proof -
  have "host_wf (fst (mmc_clk_io_onoff p True False (mmc_clk_io_onoff p False False (mmc_save_regs p (H, g)))))" for g
    using assms(1) by (simp add: onoff_wf save_wf mmc_save_regs_def)
  then show ?thesis using assms(2)
    by (auto simp: cmd_recover_def split_beta Let_def bind_eq_Some_conv)
qed

lemma finish_wf:
  assumes "host_wf H" "cmd_finish p tuning data cnt err (H, h) = Some (r, H', h')"
  shows "host_wf H'"
proof (cases "err = 0")
  case True
  then show ?thesis using assms by (simp add: cmd_finish_def Let_def)
next
  case False
  have w: "host_wf (H\<lparr>raw_int_bak := v\<rparr>)" for v using assms(1) by (auto intro: host_wfI)
  obtain H2 h2 where "cmd_finish p tuning data cnt err (H, h) = do { (H, h) \<leftarrow> cmd_recover p (H2, h2);
      Some (if err = 0 then 0 else -1, H, hwr p H r_rint 0xffffffff h) }" "\<exists>v. H2 = H\<lparr>raw_int_bak := v\<rparr>"
    using False by (auto simp: cmd_finish_def split_beta Let_def)
  with assms(2) obtain g where "cmd_recover p (H2, h2) = Some (H', g)" "host_wf H2"
    using w by (auto simp: bind_eq_Some_conv dest!: sym [of "Some _"])
  then show ?thesis by (auto dest: recover_wf [rotated])
qed

lemma send_cmd_wf:
  "host_wf H \<Longrightarrow> mmc_host_send_cmd p idma tuning cmd data (H, mem, h) = Some (r, resp, H', mem', h') \<Longrightarrow> host_wf H'"
  by (auto simp: mmc_host_send_cmd_def split_beta Let_def bind_eq_Some_conv split: if_splits dest: finish_wf [rotated])

section \<open>The parameters are bounded\<close>

text \<open>What no parameter changes, and the ranges of the others. A byte of 0 stands for a value that has not been set.\<close>

definition same_base :: "platform_config \<Rightarrow> platform_config \<Rightarrow> bool" where
  "same_base c c' \<longleftrightarrow> host_no c' = host_no c \<and> host_caps c' = host_caps c \<and> voltages c' = voltages c \<and> f_min c' = f_min c \<and>
     f_max c' = f_max c \<and> b_max c' = b_max c \<and> length (odly_spd_freq c') = length (odly_spd_freq c) \<and>
     length (sdly_spd_freq c') = length (sdly_spd_freq c)"

definition params_ok :: "platform_config \<Rightarrow> bool" where
  "params_ok c \<longleftrightarrow> sample_mode c \<le> 2 \<and> io_is_1v8 c \<le> 1 \<and> (\<forall>d \<in> set (odly_spd_freq c). d \<le> 1) \<and>
     tm4_timing_window_th c \<in> {0} \<union> {4..64} \<and> tm4_tune_r_cycle c \<in> {0..40} \<and>
     tm4_tune_hs200_max_freq c \<in> {0} \<union> {50..200} \<and> tm4_tune_hs400_max_freq c \<in> {0} \<union> {50..200} \<and>
     tune_limit_kernel_timing c \<le> 1 \<and> length (tm4_tune_ext_freq c) = 4 \<and>
     (\<forall>f \<in> set (tm4_tune_ext_freq c). f = 0 \<or> 25 \<le> f AND 0xff)"

definition keeps_ok :: "para \<Rightarrow> bool" where
  "keeps_ok k \<longleftrightarrow> (\<forall>v c c0. same_base c0 c \<and> params_ok c \<longrightarrow> same_base c0 (snd k v c) \<and> params_ok (snd k v c))"

lemma get_paras_ok:
  assumes "\<forall>k \<in> set ps. keeps_ok k" "same_base c0 (snd s)" "params_ok (snd s)"
  shows "same_base c0 (snd (get_paras L st rval sec ps s)) \<and> params_ok (snd (get_paras L st rval sec ps s))"
  using assms
proof (induction ps arbitrary: s)
  case (Cons k ps)
  have "\<exists>v. snd (get_para L st rval sec k s) = snd k v (snd s)"
    by (auto simp: get_para_def split_beta)
  then have "same_base c0 (snd (get_para L st rval sec k s))" "params_ok (snd (get_para L st rval sec k s))"
    using Cons.prems by (auto simp: keeps_ok_def)
  then show ?case using Cons by (simp add: get_paras_def)
qed (simp add: get_paras_def)

lemma in_range_byte:
  assumes "0 \<le> lo" "hi < 256"
  shows "in_range lo hi other w = other \<or> uint (in_range lo hi other w) \<in> {lo..hi}"
proof (cases "sint w < lo \<or> sint w > hi")
  case False
  have "uint w = uint (word_of_int (sint w) :: u32)" by simp
  also have "\<dots> = sint w" using False assms by (simp only: uint_word_of_int) (simp add: take_bit_int_eq_self)
  finally have "uint (ucast w :: u8) = sint w"
    using False assms by (simp add: unsigned_ucast_eq take_bit_int_eq_self)
  then show ?thesis using False by (simp add: in_range_def)
qed (simp add: in_range_def)

lemma in_range_values:
  "in_range 4 64 12 w \<in> {4..64}" "in_range 1 40 15 w \<le> 40" "in_range 50 200 0 w \<in> {0} \<union> {50..200}"
  using in_range_byte [of 4 64 12 w] in_range_byte [of 1 40 15 w] in_range_byte [of 50 200 0 w]
  by (auto simp: word_le_def)

lemma set_list_update: "(\<forall>d \<in> set xs. P d) \<Longrightarrow> P y \<Longrightarrow> \<forall>d \<in> set (xs[i := y]). P d"
  using set_update_subset_insert [of xs i y] by auto

lemma bit_le_one: "ucast (w AND 1 :: u32) \<le> (1 :: u8)"
proof -
  have "w AND 1 = 0 \<or> w AND 1 = 1" by (auto simp: and_one_eq odd_iff_mod_2_eq_one)
  then show ?thesis by auto
qed

lemma feature_ok: "\<forall>k \<in> set feature_paras. keeps_ok k"
  by (simp add: feature_paras_def keeps_ok_def same_base_def params_ok_def split: option.splits)

lemma timing_ok: "\<forall>k \<in> set boot_timing_paras. keeps_ok k"
  by (simp add: boot_timing_paras_def keeps_ok_def same_base_def params_ok_def)

lemma mode_ok: "keeps_ok sample_mode_0" "keeps_ok (sample_mode_2 wm tuned)" "keeps_ok io_para"
  by (simp_all add: sample_mode_0_def sample_mode_2_def io_para_def keeps_ok_def same_base_def params_ok_def Let_def split: option.splits)

lemma params_update:
  "params_ok c \<Longrightarrow> d \<le> 1 \<Longrightarrow> params_ok (c\<lparr>odly_spd_freq := (odly_spd_freq c)[i := d]\<rparr>)"
  "params_ok c \<Longrightarrow> f = 0 \<or> 25 \<le> f AND 0xff \<Longrightarrow> params_ok (c\<lparr>tm4_tune_ext_freq := (tm4_tune_ext_freq c)[i := f]\<rparr>)"
  "params_ok (c\<lparr>sdly_spd_freq := x\<rparr>) = params_ok c"
  unfolding params_ok_def
  using set_list_update [of "odly_spd_freq c" "\<lambda>d. d \<le> 1" d i]
    set_list_update [of "tm4_tune_ext_freq c" "\<lambda>f. f = 0 \<or> 25 \<le> f AND 0xff" f i] by simp_all

lemma ext_freq_ok: "keeps_ok (ext_freq_para i)"
  by (auto simp: ext_freq_para_def keeps_ok_def same_base_def intro!: params_update split: option.splits)

lemma window_ok:
  "keeps_ok (k, \<lambda>v c. c\<lparr>tm4_timing_window_th := (case v of None \<Rightarrow> 12 | Some w \<Rightarrow> in_range 4 64 12 w)\<rparr>)"
  "keeps_ok (k, \<lambda>v c. c\<lparr>tm4_tune_r_cycle := (case v of None \<Rightarrow> 0 | Some w \<Rightarrow> in_range 1 40 15 w)\<rparr>)"
  "keeps_ok (k, \<lambda>v c. c\<lparr>tm4_tune_hs200_max_freq := (case v of None \<Rightarrow> 0 | Some w \<Rightarrow> in_range 50 200 0 w)\<rparr>)"
  "keeps_ok (k, \<lambda>v c. c\<lparr>tm4_tune_hs400_max_freq := (case v of None \<Rightarrow> 0 | Some w \<Rightarrow> in_range 50 200 0 w)\<rparr>)"
  using in_range_values by (simp_all add: keeps_ok_def same_base_def params_ok_def split: option.splits)

lemma tuning_ok: "\<forall>k \<in> set tuning_paras. keeps_ok k"
  unfolding tuning_paras_def set_append ball_Un using window_ok ext_freq_ok by (simp only: list.set ball_simps set_map simp_thms)

lemma limit_ok: "\<forall>k \<in> set limit_paras. keeps_ok k"
  by (simp add: limit_paras_def keeps_ok_def same_base_def params_ok_def split: option.splits)

lemma dly_ok: "\<forall>k \<in> set (dly_paras md f). keeps_ok k"
  using bit_le_one by (auto simp: dly_paras_def keeps_ok_def same_base_def params_update(3) intro!: params_update(1) split: option.splits)

lemma manual_ok:
  assumes "same_base c0 (snd s)" "params_ok (snd s)"
  shows "same_base c0 (snd (manual_paras L st rval sec s)) \<and> params_ok (snd (manual_paras L st rval sec s))"
proof -
  have "\<forall>k \<in> set (concat (map (\<lambda>md. concat (map (dly_paras md) [0..<8])) [0..<5])). keeps_ok k"
    using dly_ok by auto
  then show ?thesis using get_paras_ok [OF _ assms] assms by (simp add: manual_paras_def)
qed

lemma fex_ok:
  assumes "params_ok c" "mmc_get_para_from_fex L st p E sdc_no (c, m, h) = (c', m', h')"
  shows "same_base c c' \<and> params_ok c'"
proof -
  have r: "same_base c c" by (simp add: same_base_def)
  have s: "\<forall>k \<in> set (feature_paras @ boot_timing_paras @ [sample_mode_0]). keeps_ok k"
    "\<forall>k \<in> set (feature_paras @ [sample_mode_2 wm tuned, io_para] @ boot_timing_paras @ tuning_paras). keeps_ok k" for wm tuned
    using feature_ok timing_ok mode_ok tuning_ok by auto
  have a: "same_base c (snd (get_paras L st rval sec ps (m1, c)))" "params_ok (snd (get_paras L st rval sec ps (m1, c)))"
    if "\<forall>k \<in> set ps. keeps_ok k" for rval sec ps m1
    using get_paras_ok [OF that, of c "(m1, c)"] assms(1) r by auto
  note b = manual_ok [OF a [OF s(1)]] manual_ok [OF a [OF s(2)]]
  note d = b(1) get_paras_ok [OF limit_ok conjunct1 [OF b(2)] conjunct2 [OF b(2)]]
  show ?thesis using assms r d
    by (auto simp: mmc_get_para_from_fex_def Let_def split_beta split: if_splits)
qed

section \<open>A controller that has been set up\<close>

text \<open>The operations on a controller that is set up, in any order; the block layer only uses the speed modes 0 to 4.\<close>

inductive host_run :: "'h plat \<Rightarrow> sunxi_mmc_host \<Rightarrow> sunxi_mmc_host \<Rightarrow> bool" for p and H0 where
  start: "host_run p H0 H0"
| ios: "host_run p H0 H \<Longrightarrow> speed_mode m \<le> 4 \<Longrightarrow> mmc_host_set_ios p (m, H, h) = (m', H', h') \<Longrightarrow> host_run p H0 H'"
| core: "host_run p H0 H \<Longrightarrow> speed_mode m \<le> 4 \<Longrightarrow> mmc_core_init p (m, H, h) = Some (r, m', H', h') \<Longrightarrow> host_run p H0 H'"
| send: "host_run p H0 H \<Longrightarrow> mmc_host_send_cmd p idma tuning cmd data (H, mem, h) = Some (r, resp, H', mem', h') \<Longrightarrow> host_run p H0 H'"
| retry: "host_run p H0 H \<Longrightarrow> sunxi_decide_rty err rst H = (r, H') \<Longrightarrow> host_run p H0 H'"
| errno: "host_run p H0 H \<Longrightarrow> sunxi_detail_errno H = (e, H') \<Longrightarrow> host_run p H0 H'"

lemma host_run_wf: "host_run p H0 H \<Longrightarrow> host_wf H0 \<Longrightarrow> host_wf H"
proof (induction rule: host_run.induct)
  case (ios H m h m' H' h')
  then show ?case using set_ios_wf [of H m p h] by simp
next
  case (retry H err rst r H')
  then show ?case using rty_wf [of H err rst] by simp
next
  case (errno H e H')
  then show ?case by (auto simp: sunxi_detail_errno_def intro: host_wfI)
qed (auto intro: core_init_wf send_cmd_wf)

lemma default_wf: "host_wf (mmc_init_default_timing_para no (mmc_clear_timing_para (zero_host\<lparr>timing_mode := t, pdes := d\<rparr>)))"
  by (simp add: mmc_init_default_timing_para_def mmc_clear_timing_para_def zero_host_def zero_timing1_def zero_timing3_def zero_timing4_def
    host_wf_def tm_wf_def set_defs_def sunxi_mmc_timing_mode1.defs sunxi_mmc_timing_mode3.defs sunxi_mmc_timing_mode4.defs Let_def)

lemma row_wf: "host_wf H \<Longrightarrow> host_wf (H\<lparr>tm4 := fold (\<lambda>md t. if md = 4 then t\<lparr>dsdly := sample_row p md\<rparr>
    else t\<lparr>sdly := take (md * 8) (sdly t) @ sample_row p md @ drop (md * 8 + 8) (sdly t)\<rparr>) [0..<5] (tm4 H)\<rparr>)"
  by (simp add: upt_rec host_wf_def tm_wf_def sample_row_def)

lemma update_timing_wf:
  assumes "host_wf H" "mode = MAUNAL_SAMPLE_MODE \<Longrightarrow> length odl = 40 \<and> length sdl = 40"
  shows "host_wf (snd (mmc_update_timing_para mode q wm odl sdl no H))"
proof -
  have "host_wf (snd (mmc_get_sdly_auto_sample q wm no H))"
    using assms(1) row_wf [OF assms(1)] by (simp add: mmc_get_sdly_auto_sample_def)
  moreover have "host_wf (snd (mmc_get_dly_manual_sample odl sdl no H))" if "length odl = 40" "length sdl = 40"
    using assms(1) that by (simp add: mmc_get_dly_manual_sample_def host_wf_def tm_wf_def)
  ultimately show ?thesis
    using assms by (simp add: mmc_update_timing_para_def) (simp add: host_wf_def tm_wf_def)
qed

text \<open>The static tables as earlier set-ups leave them, and the steps of a set-up that has got memory for the descriptors.\<close>

definition env_ok :: "init_env \<Rightarrow> bool" where
  "env_ok E \<longleftrightarrow> pdes_mem E \<noteq> 0 \<and> length (ext_odly E) = 40 \<and> length (ext_sdly E) = 40 \<and> (\<forall>d \<in> set (ext_odly E). d \<le> 1)"

lemma base_ok: "env_ok E \<Longrightarrow> params_ok (base_config E sdc_no)"
  by (simp add: env_ok_def params_ok_def base_config_def zero_config_def)

definition init_host :: "init_env \<Rightarrow> int \<Rightarrow> platform_config \<Rightarrow> sunxi_mmc_host" where
  "init_host E sdc_no c = snd (mmc_update_timing_para (sample_mode c) (tm4_smx_fx c) (work_mode E) (odly_spd_freq c) (sdly_spd_freq c)
     (word_of_int sdc_no) (mmc_init_default_timing_para (word_of_int sdc_no) (mmc_clear_timing_para
        (zero_host\<lparr>timing_mode := (if sdc_no = 2 then TIMING_MODE_4 else TIMING_MODE_1), pdes := pdes_mem E\<rparr>))))"

lemma mmc_init_steps:
  assumes "sunxi_mmc_init L st p E sdc_no devs (m, h) = Some (r, devs', H, c, m', h')" "env_ok E"
  obtains c1 h1 where "sdc_no \<in> {0, 1, 2}" "same_base (base_config E sdc_no) c1" "params_ok c1"
    "sdc_no = 1 \<Longrightarrow> c1 = base_config E sdc_no"
    "mmc_clk_io_onoff p True True (mmc_resource_init (word_of_int sdc_no) (init_host E sdc_no c1), h1) = (H, h')"
    "c = c1\<lparr>host_caps := board_caps c1\<rparr>"
    "case mmc_create (Some (mmc_config.truncate c)) True (mmc_mem E) of
       None \<Rightarrow> r = -1 \<and> devs' = devs | Some d \<Rightarrow> r = 0 \<and> devs' = devs[nat sdc_no := Some d]"
proof -
  have n: "sdc_no \<in> {0, 1, 2}" using assms(1) by (simp add: sunxi_mmc_init_def split: if_splits)
  obtain c1 m1 h1 where f: "mmc_get_para_from_fex L st p (board_env.truncate E) sdc_no (base_config E sdc_no, m, h) = (c1, m1, h1)"
    by (metis prod_cases3)
  obtain H2 h2 where k: "mmc_clk_io_onoff p True True (mmc_resource_init (word_of_int sdc_no) (init_host E sdc_no c1), h1) = (H2, h2)"
    by (meson surj_pair)
  obtain x where u: "mmc_update_timing_para (sample_mode c1) (tm4_smx_fx c1) (work_mode E) (odly_spd_freq c1) (sdly_spd_freq c1)
     (word_of_int sdc_no) (mmc_init_default_timing_para (word_of_int sdc_no) (mmc_clear_timing_para
        (zero_host\<lparr>timing_mode := (if sdc_no = 2 then TIMING_MODE_4 else TIMING_MODE_1), pdes := pdes_mem E\<rparr>))) = (x, init_host E sdc_no c1)"
    unfolding init_host_def by (metis prod.collapse)
  have no: "(sdc_no \<notin> {0, 1, 2}) = False" "(pdes_mem E = 0) = False" using n assms(2) by (simp_all add: env_ok_def)
  have run: "(case mmc_create (Some (mmc_config.truncate (c1\<lparr>host_caps := board_caps c1\<rparr>))) True (mmc_mem E) of
      None \<Rightarrow> Some (-1, devs, H2, c1\<lparr>host_caps := board_caps c1\<rparr>, m1, h2)
    | Some d \<Rightarrow> Some (0, devs[nat sdc_no := Some d], H2, c1\<lparr>host_caps := board_caps c1\<rparr>, m1, h2)) = Some (r, devs', H, c, m', h')"
    using assms(1) unfolding sunxi_mmc_init_def Let_def prod.case no if_False f u k .
  have "sdc_no = 1 \<Longrightarrow> c1 = base_config E sdc_no"
    using f by (simp add: mmc_get_para_from_fex_def split: prod.splits)
  then show ?thesis
    using that [of c1 h1] n fex_ok [OF base_ok [OF assms(2)] f] k run by (auto split: option.splits)
qed

lemma init_host_wf:
  assumes "env_ok E" "sdc_no \<in> {0, 1, 2}" "same_base (base_config E sdc_no) c" "sdc_no = 1 \<Longrightarrow> c = base_config E sdc_no"
  shows "host_wf (init_host E sdc_no c)"
proof -
  have "length (odly_spd_freq c) = 40 \<and> length (sdly_spd_freq c) = 40" if "sample_mode c = MAUNAL_SAMPLE_MODE"
    using assms that by (auto simp: same_base_def base_config_def zero_config_def env_ok_def)
  then show ?thesis
    unfolding init_host_def by (intro update_timing_wf default_wf) auto
qed

text \<open>
  C20: the tables of delays are always indexed within their bounds. Whatever the board's configuration says, a controller that
  has been set up (with memory for its descriptors) has tables of 40 and 8 entries, and after any sequence of bus configurations, start-ups, commands
  with their recoveries and retries, the entries of the current speed mode and frequency point are entries of these tables. The
  bus is only configured in the speed modes 0 to 4, which are all that the block layer has.
\<close>

theorem delay_tables_in_bounds:
  assumes "sunxi_mmc_init L st p E sdc_no devs (m, h) = Some (r, devs', H0, c, m', h')" and "env_ok E" and "host_run p H0 H"
  shows "host_wf H \<and> dly_idx (cur_spd_md (tm1 H)) (cur_freq (tm1 H)) < length (sdly (tm1 H)) \<and>
    dly_idx (cur_spd_md (tm3 H)) (cur_freq (tm3 H)) < length (sdly (tm3 H)) \<and>
    dly_idx (cur_spd_md (tm4 H)) (cur_freq (tm4 H)) < length (sdly (tm4 H)) \<and> unat (cur_freq (tm4 H)) < length (dsdly (tm4 H))"
proof -
  obtain c1 h1 where i: "sdc_no \<in> {0, 1, 2}" "same_base (base_config E sdc_no) c1" "sdc_no = 1 \<Longrightarrow> c1 = base_config E sdc_no"
    "mmc_clk_io_onoff p True True (mmc_resource_init (word_of_int sdc_no) (init_host E sdc_no c1), h1) = (H0, h')"
    using mmc_init_steps [OF assms(1,2)] by metis
  have "host_wf (init_host E sdc_no c1)" using init_host_wf [OF assms(2) i(1,2)] i(3) by blast
  then have "host_wf (mmc_resource_init (word_of_int sdc_no) (init_host E sdc_no c1))"
    by (rule host_wfI) (simp_all add: mmc_resource_init_def Let_def)
  then have "host_wf H0" using onoff_wf [of "(mmc_resource_init (word_of_int sdc_no) (init_host E sdc_no c1), h1)"] i(4)
    by (metis fst_conv)
  with assms(3) have w: "host_wf H" by (rule host_run_wf)
  have idx: "dly_idx s f < 40" if "s \<le> 4" "f \<le> 7" for s f
  proof -
    have "unat s \<le> 4" "unat f \<le> 7" using that by (simp_all add: word_le_nat_alt)
    then have "unat (s * 8 + f) = unat s * 8 + unat f" by (simp add: unat_word_ariths)
    then show ?thesis using \<open>unat s \<le> 4\<close> \<open>unat f \<le> 7\<close> by (simp add: dly_idx_def)
  qed
  have "unat (cur_freq (tm4 H)) \<le> 7" using w by (simp add: host_wf_def tm_wf_def word_le_nat_alt)
  with w idx show ?thesis by (simp add: host_wf_def tm_wf_def)
qed

definition demo_env :: init_env where
  "demo_env = \<lparr>rval_at = 0x100, pins_at = 0x200, work_mode = 0, tuned_sdly = replicate 10 0, ext_odly = replicate 40 0,
     ext_sdly = replicate 40 0, pdes_mem = 0x40000000, mmc_mem = True\<rparr>"

lemma demo_env_ok: "env_ok demo_env" "mmc_mem demo_env"
  by (simp_all add: env_ok_def demo_env_def)

lemma mmc_init_returns:
  "sdc_no \<in> {0, 1, 2} \<Longrightarrow> \<exists>r devs' H c m' h'. sunxi_mmc_init L st p E sdc_no devs (m, h) = Some (r, devs', H, c, m', h')"
  by (auto simp: sunxi_mmc_init_def Let_def split: prod.splits option.splits)

theorem delay_tables_in_bounds_witness:
  "\<exists>r devs' H c m' h'. sunxi_mmc_init base_str_lib \<lparr>script_mod_buf = 0, script_main_key_count = 0\<rparr> ram_plat
      demo_env 2 [None, None, None] (\<lambda>_. 0, \<lambda>_. 0) = Some (r, devs', H, c, m', h') \<and>
     dly_idx (cur_spd_md (tm4 H)) (cur_freq (tm4 H)) < length (sdly (tm4 H))"
proof -
  obtain r devs' H c m' h' where i: "sunxi_mmc_init base_str_lib \<lparr>script_mod_buf = 0, script_main_key_count = 0\<rparr> ram_plat demo_env 2
      [None, None, None] (\<lambda>_. 0, \<lambda>_. 0) = Some (r, devs', H, c, m', h')"
    using mmc_init_returns [of 2 base_str_lib "\<lparr>script_mod_buf = 0, script_main_key_count = 0\<rparr>" ram_plat demo_env "[None, None, None]" "\<lambda>_. 0" "\<lambda>_. 0"]
    by auto
  from delay_tables_in_bounds [OF i demo_env_ok(1) host_run.start] i show ?thesis by blast
qed

section \<open>What a set-up leaves\<close>

text \<open>\<open>caps_closed\<close>: each mode comes with those it builds on.\<close>

definition caps_closed :: "u32 \<Rightarrow> bool" where
  "caps_closed v \<longleftrightarrow> (v AND 0x100 \<noteq> 0 \<longrightarrow> v AND 0x88 = 0x88) \<and> (v AND 0x80 \<noteq> 0 \<longrightarrow> v AND 0x42 = 0x42) \<and>
     (v AND 0x40 \<noteq> 0 \<longrightarrow> v AND 0x2 \<noteq> 0)"

lemma board_caps_values:
  "caps_closed (board_caps c)" "board_caps c AND 0x8 \<noteq> 0 \<Longrightarrow> host_no c = 2" "board_caps c AND 0x180 \<noteq> 0 \<Longrightarrow> io_is_1v8 c \<noteq> 0"
  "board_caps c AND 0x25 = 0x25"
  by (auto simp: board_caps_def mask_caps_def caps_closed_def Let_def split: if_splits)

lemma clk_on_regs:
  assumes "mmio_registers p reg cfg" "mclkbase H \<in> cfg" "hclkbase H \<in> cfg" "hclkrst H \<in> cfg"
    and "mclkbase H \<noteq> hclkbase H" "mclkbase H \<noteq> hclkrst H" "hclkbase H \<noteq> hclkrst H"
    and "mmc_clk_io_onoff p True True (H, h) = (H', h')"
  shows "H' = H\<lparr>mod_clk := 24000000\<rparr>" "reg h' (mclkbase H) = 0x80000000"
    "reg h' (hclkbase H) = reg h (hclkbase H) OR push_bit (unat (8 + mmc_no H)) 1"
    "reg h' (hclkrst H) = reg h (hclkrst H) OR push_bit (unat (8 + mmc_no H)) 1"
proof -
  have e: "NOT 0x7fffffff = (0x80000000 :: u32)" by simp
  have "(v OR w) AND w = w" for v w :: u32 by (rule bit_word_eqI) (auto simp: bit_simps)
  note v = this [of _ "0x80000000"]
  let ?b = "push_bit (unat (8 + mmc_no H)) 1 :: u32"
  note r = mmio_registers.reg_rmw [OF assms(1)]
  have s: "H' = H\<lparr>mod_clk := 24000000\<rparr>" "h' = mmio_rmw p (mclkbase H) (\<lambda>v. v AND 0x80000000) (mmio_rmw p (mclkbase H) (\<lambda>v. v OR 0x80000000)
                     (mmio_rmw p (hclkbase H) (\<lambda>v. v OR ?b) (mmio_rmw p (hclkrst H) (\<lambda>v. v OR ?b) h)))"
    using assms(8) unfolding mmc_clk_io_onoff_def Let_def prod.case if_True e by simp_all
  show "H' = H\<lparr>mod_clk := 24000000\<rparr>" by (rule s)
  show "reg h' (mclkbase H) = 0x80000000"
    using assms(2,5,6) unfolding s(2) by (simp only: r v if_True if_False simp_thms)
  show "reg h' (hclkbase H) = reg h (hclkbase H) OR ?b" "reg h' (hclkrst H) = reg h (hclkrst H) OR ?b"
    using assms(3-7) unfolding s(2) by (simp_all only: r if_True if_False simp_thms not_sym)
qed

text \<open>
  A controller that has been set up. Its device is registered and not yet initialised; the limits of its configuration are 400 kHz, 50 MHz for
  controller 0 and 200 MHz for the others, and 65535 blocks; a bus mode is only offered together with the modes it builds on, eight data lines
  only by controller 2, and the modes of 1.8 V only on a board with that voltage. The controller runs from the 24 MHz
  oscillator without a divider, out of reset, at the addresses of its number.
\<close>

theorem controller_registered:
  assumes "mmio_registers p reg cfg" "{0x01c20060, 0x01c202c0, 0x01c20088, 0x01c2008c, 0x01c20090} \<subseteq> cfg"
    and "sunxi_mmc_init L st p E sdc_no devs (m, h) = Some (0, devs', H, c, m', h')" and "env_ok E"
  shows "\<exists>d. devs' = devs[nat sdc_no := Some d] \<and> \<not> has_init d \<and> part_num d = 0 \<and> mcfg d = mmc_config.truncate c \<and>
    f_min c = 400000 \<and> f_max c = (if sdc_no = 0 then 50000000 else 200000000) \<and> b_max c = 65535 \<and>
    caps_closed (host_caps c) \<and> (host_caps c AND 0x8 \<noteq> 0 \<longrightarrow> sdc_no = 2) \<and> (host_caps c AND 0x180 \<noteq> 0 \<longrightarrow> io_is_1v8 c \<noteq> 0) \<and>
    reg h' (mclkbase H) = 0x80000000 \<and> bit (reg h' 0x01c20060) (8 + nat sdc_no) \<and> bit (reg h' 0x01c202c0) (8 + nat sdc_no) \<and>
    host_reg H = 0x01c0f000 + 0x1000 * word_of_int sdc_no \<and> database H = host_reg H + 0x200"
proof -
  obtain c1 h1 where n: "sdc_no \<in> {0, 1, 2}" and base: "same_base (base_config E sdc_no) c1" and
    on: "mmc_clk_io_onoff p True True (mmc_resource_init (word_of_int sdc_no) (init_host E sdc_no c1), h1) = (H, h')" and
    c: "c = c1\<lparr>host_caps := board_caps c1\<rparr>" and
    dev: "case mmc_create (Some (mmc_config.truncate c)) True (mmc_mem E) of
       None \<Rightarrow> (0 :: int) = -1 \<and> devs' = devs | Some d \<Rightarrow> (0 :: int) = 0 \<and> devs' = devs[nat sdc_no := Some d]"
    using mmc_init_steps [OF assms(3,4)] by metis
  let ?H = "mmc_resource_init (word_of_int sdc_no) (init_host E sdc_no c1)"
  have no: "host_no c1 = word_of_int sdc_no" "f_min c1 = 400000" "f_max c1 = (if sdc_no = 0 then 50000000 else 200000000)" "b_max c1 = 65535"
    using base by (simp_all add: same_base_def base_config_def zero_config_def)
  have H: "hclkbase ?H = 0x01c20060" "hclkrst ?H = 0x01c202c0" "unat (8 + mmc_no ?H) = 8 + nat sdc_no"
    "mclkbase ?H \<in> {0x01c20088, 0x01c2008c, 0x01c20090}" "host_reg ?H = 0x01c0f000 + 0x1000 * word_of_int sdc_no"
    "database ?H = host_reg ?H + 0x200"
    using n by (auto simp: mmc_resource_init_def Let_def)
  have "mclkbase ?H \<noteq> hclkbase ?H" "mclkbase ?H \<noteq> hclkrst ?H" "hclkbase ?H \<noteq> hclkrst ?H" "mclkbase ?H \<in> cfg" "hclkbase ?H \<in> cfg" "hclkrst ?H \<in> cfg"
    using H(1,2,4) assms(2) by auto
  note k = clk_on_regs [OF assms(1) this(4-6,1-3) on]
  have b: "bit (v OR push_bit (8 + nat sdc_no) 1) (8 + nat sdc_no)" for v :: u32
    using n by (auto simp: bit_simps)
  have regs: "reg h' (mclkbase H) = 0x80000000" "bit (reg h' 0x01c20060) (8 + nat sdc_no)" "bit (reg h' 0x01c202c0) (8 + nat sdc_no)"
    "host_reg H = 0x01c0f000 + 0x1000 * word_of_int sdc_no" "database H = host_reg H + 0x200"
    using k b H by simp_all
  obtain d where d: "mmc_create (Some (mmc_config.truncate c)) True (mmc_mem E) = Some d" "devs' = devs[nat sdc_no := Some d]"
    using dev by (auto split: option.splits)
  then have "\<not> has_init d" "part_num d = 0" "mcfg d = mmc_config.truncate c"
    by (auto simp: mmc_create_def zero_mmc_def split: if_splits)
  moreover have "word_of_int sdc_no = (2 :: u32) \<longleftrightarrow> sdc_no = 2" using n by auto
  ultimately show ?thesis
    using d(2) regs no board_caps_values [of c1] by (intro exI [of _ d]) (simp add: c)
qed

lemma mmc_init_succeeds:
  assumes "sunxi_mmc_init L st p E sdc_no devs (m, h) = Some (r, devs', H, c, m', h')" "env_ok E" "mmc_mem E"
  shows "r = 0"
proof -
  obtain c1 where "same_base (base_config E sdc_no) c1" "c = c1\<lparr>host_caps := board_caps c1\<rparr>"
    "case mmc_create (Some (mmc_config.truncate c)) True (mmc_mem E) of
       None \<Rightarrow> r = -1 \<and> devs' = devs | Some d \<Rightarrow> r = 0 \<and> devs' = devs[nat sdc_no := Some d]"
    using mmc_init_steps [OF assms(1,2)] by metis
  then show ?thesis
    using assms(3) by (simp add: mmc_create_def mmc_config.defs same_base_def base_config_def zero_config_def split: if_splits)
qed

theorem controller_registered_witness:
  "\<exists>devs' H c m' h'. sunxi_mmc_init base_str_lib \<lparr>script_mod_buf = 0, script_main_key_count = 0\<rparr> ram_plat
      demo_env 0 [None, None, None] (\<lambda>_. 0, \<lambda>_. 0) = Some (0, devs', H, c, m', h') \<and>
     (\<exists>d. devs' = [Some d, None, None] \<and> f_max (mcfg d) = 50000000) \<and> bit (h' 0x01c20060) 8"
proof -
  obtain r devs' H c m' h' where "sunxi_mmc_init base_str_lib \<lparr>script_mod_buf = 0, script_main_key_count = 0\<rparr> ram_plat demo_env 0
      [None, None, None] (\<lambda>_. 0, \<lambda>_. 0) = Some (r, devs', H, c, m', h')"
    using mmc_init_returns [of 0 base_str_lib "\<lparr>script_mod_buf = 0, script_main_key_count = 0\<rparr>" ram_plat demo_env "[None, None, None]" "\<lambda>_. 0" "\<lambda>_. 0"]
    by auto
  moreover from mmc_init_succeeds [OF this demo_env_ok] have "r = 0" .
  ultimately have i: "sunxi_mmc_init base_str_lib \<lparr>script_mod_buf = 0, script_main_key_count = 0\<rparr> ram_plat demo_env 0
      [None, None, None] (\<lambda>_. 0, \<lambda>_. 0) = Some (0, devs', H, c, m', h')" by simp
  from controller_registered [OF ram.mmio_registers_axioms subset_UNIV i demo_env_ok(1)] i show ?thesis
    by (auto simp: mmc_config.defs)
qed

section \<open>From the board to the block protocol\<close>

lemma limit_medium: "medium_ok (limit_features d) = medium_ok d" "part_num (limit_features d) = part_num d" "has_init (limit_features d) = has_init d"
  "csd (limit_features d) = csd d" "version (limit_features d) = version d" "high_capacity (limit_features d) = high_capacity d"
  "mcfg (limit_features d) = mcfg d"
  by (simp_all add: limit_features_def Let_def medium_ok_def)

text \<open>The start of the controller changes nothing of the card's description but the clock.\<close>

lemma core_init_same_cfg:
  assumes "mmc_core_init p (d, H, h) = Some (r, d', H', h')"
  shows "same_cfg d d'"
proof -
  have x: "same_cfg m m1" if "mmc_config_clock_modex p clk (m, H1, h1) = (r1, m1, H2, h2)" for clk m H1 h1 r1 m1 H2 h2
    using that by (auto simp: mmc_config_clock_modex_def Let_def split_beta split: if_splits)
  have "same_cfg m m1" if "mmc_calibrate_delay_unit p (m, H1, h1) = Some (r1, m1, H2, h2)" for m H1 h1 r1 m1 H2 h2
  proof -
    obtain r2 m2 H3 h3 where c: "mmc_config_clock_modex p 100000000
        (m, H1, snd (mmc_update_clk p H1 (hrmw p H1 r_clkcr (\<lambda>v. v AND NOT 0x10000) h1))) = (r2, m2, H3, h3)" by (metis prod_cases4)
    have "m1 = m \<or> m1 = m2"
      using that unfolding mmc_calibrate_delay_unit_def split_beta fst_conv snd_conv c
      by (auto simp: Let_def split_beta bind_eq_Some_conv split: if_splits)
    then show ?thesis using x [OF c] by auto
  qed
  then show ?thesis using assms by (auto simp: mmc_core_init_def Let_def bind_eq_Some_conv)
qed

lemma boot_init_steps:
  assumes "mmc_init_boot ops iops B boot ct s = Some (0, s')" "\<not> init_in_progress (fst s)" "part_num (fst s) = 0"
    and "\<forall>init s. op_init iops = Some init \<longrightarrow> same_cfg (fst s) (fst (snd (init s)))"
    and "\<forall>getcd s. op_getcd iops = Some getcd \<longrightarrow> fst (snd (getcd s)) = fst s"
  shows "\<exists>s1 s2. mmc_complete_init ops B s1 = Some (0, s2) \<and> same_cfg (fst s) (fst s1) \<and> s' = upd_mmc limit_features s2"
proof -
  obtain err s1 where st: "mmc_start_init ops iops boot ct s = (err, s1)" by (meson surj_pair)
  have "same_cfg (fst s) (fst s1)" using start_init_frame [OF assms(3-5), of ops boot ct] st by simp
  moreover have "\<exists>s2. mmc_complete_init ops B s1 = Some (0, s2) \<and> s' = upd_mmc limit_features s2"
    using assms(1,2) st by (auto simp: mmc_init_boot_def bind_eq_Some_conv split: if_splits)
  ultimately show ?thesis by blast
qed

text \<open>
  C19: from the board to the block protocol. When \<open>SDMMC_LogicalInit\<close> returns 0 in boot mode, the controller has a device that is initialised and selects the
  user partition. For an SD card, or an eMMC card of high capacity, with the block lengths of the standard, it meets the conditions under which block transfers are
  exact; so the block protocol can be served. There is memory for the
  descriptors, and what the set-up relies on is that the card detection and the start of the controller leave the configuration and the partition
  number of the card's description alone (\<open>core_init_same_cfg\<close> shows it for the controller).
\<close>

theorem logical_init_ready:
  assumes "SDMMC_LogicalInit S card_no devs (m, h) = Some (0, devs', H, c, m', h')" "env_ok (su_env S)" "su_boot S"
    and "\<forall>init s. op_init (su_iops S) = Some init \<longrightarrow> same_cfg (fst s) (fst (snd (init s)))"
    and "\<forall>getcd s. op_getcd (su_iops S) = Some getcd \<longrightarrow> fst (snd (getcd s)) = fst s"
  shows "\<exists>d. find_mmc_device devs' (sint card_no) = Some (Some d) \<and> has_init d \<and> part_num d = USER_PART \<and> b_max (mcfg d) = 65535 \<and>
    (unat (csd_field (csd d) 80 4) \<in> {9..11} \<and> (IS_SD d \<or> high_capacity d \<and> 512 \<le> bl_len_of (drop_bit 22 (csd d ! 3))) \<longrightarrow> medium_ok d)"
proof -
  obtain r devs1 H1 c1 m1 h1 where i: "sunxi_mmc_init (su_lib S) (su_script S) (su_plat S) (su_env S) (sint card_no) devs (m, h) =
      Some (r, devs1, H1, c1, m1, h1)"
    using assms(1) by (auto simp: SDMMC_LogicalInit_def split: option.splits)
  note run = assms(1) [unfolded SDMMC_LogicalInit_def i option.case prod.case]
  obtain c2 where n: "sint card_no \<in> {0, 1, 2}" and base: "same_base (base_config (su_env S) (sint card_no)) c2" and c1: "c1 = c2\<lparr>host_caps := board_caps c2\<rparr>"
    and dev: "case mmc_create (Some (mmc_config.truncate c1)) True (mmc_mem (su_env S)) of
       None \<Rightarrow> r = -1 \<and> devs1 = devs | Some d \<Rightarrow> r = 0 \<and> devs1 = devs[nat (sint card_no) := Some d]"
    using mmc_init_steps [OF i assms(2)] by metis
  have r: "\<not> r < 0" using run by (auto split: if_splits)
  then obtain d0 where d0: "mmc_create (Some (mmc_config.truncate c1)) True (mmc_mem (su_env S)) = Some d0"
    "devs1 = devs[nat (sint card_no) := Some d0]"
    using dev by (auto split: option.splits)
  have f0: "\<not> has_init d0" "\<not> init_in_progress d0" "part_num d0 = 0" "b_max (mcfg d0) = 65535"
    using d0(1) base c1 by (auto simp: mmc_create_def zero_mmc_def mmc_config.defs same_base_def base_config_def zero_config_def split: if_splits)
  have len: "nat (sint card_no) < length devs" and find: "find_mmc_device devs1 (sint card_no) = Some (Some d0)"
    using run r n d0(2) by (auto simp: find_mmc_device_def split: if_splits option.splits)
  obtain d s2 where b: "mmc_init_boot (su_ops S) (su_iops S) (su_bufs S) True (su_card_type S) (d0, m1, H1, h1) = Some (0, d, s2)"
    and devs': "devs' = devs1[nat (sint card_no) := Some d]"
    using run r find f0(1) assms(3) by (auto simp: mmc_init_def split: if_splits option.splits prod.splits)
  obtain s1 t where k: "mmc_complete_init (su_ops S) (su_bufs S) s1 = Some (0, t)" "same_cfg d0 (fst s1)" "(d, s2) = upd_mmc limit_features t"
    using boot_init_steps [OF b _ _ assms(4,5)] f0 by auto
  have d: "d = limit_features (fst t)" using k(3) by (simp add: upd_mmc_def split_beta)
  have f: "part_num (fst t) = 0" "b_max (mcfg (fst t)) = 65535"
    using complete_init_frame [OF k(1)] k(2) f0 by (simp_all add: same_cfg_def)
  obtain u where "t = upd_mmc (\<lambda>m. m\<lparr>has_init := True, init_in_progress := False\<rparr>) u" using complete_init_run [OF k(1)] by auto
  then have "has_init (fst t)" by (simp add: upd_mmc_def split_beta)
  moreover have "find_mmc_device devs' (sint card_no) = Some (Some d)"
    using n len d0(2) devs' by (auto simp: find_mmc_device_def)
  ultimately show ?thesis
    using card_transfers [OF k(1)] f by (intro exI [of _ d]) (auto simp: d limit_medium)
qed

section \<open>A card that starts from nothing\<close>

text \<open>An SDHC card of 15 GB of the first version that is ready at once; every transfer delivers zeros.\<close>

definition ready_ops :: "'h mmc_ops" where
  "ready_ops = \<lparr>
     send_cmd = (\<lambda>m cmd data (mem, h). (0,
       if cmdidx cmd = 9 then [0x400e0032, 0x5b590000, 0x76b27f80, 0x0a404013]
       else if cmdidx cmd = 41 then [0xc0ff8000] else if cmdidx cmd = 8 then [0x1aa] else [0x900, 0, 0, 0], \<lambda>_. 0, h)),
     set_ios = (\<lambda>m w. (clock m, w)), update_phase = (\<lambda>m w. (0, w))\<rparr>"

definition ready_setup :: "(u32 \<Rightarrow> u32) card_setup" where
  "ready_setup = \<lparr>su_lib = base_str_lib, su_script = \<lparr>script_mod_buf = 0, script_main_key_count = 0\<rparr>, su_plat = ram_plat, su_env = demo_env,
     su_ops = ready_ops, su_iops = \<lparr>op_init = Some (\<lambda>s. (0, s)), op_getcd = None\<rparr>, su_product = (\<lambda>s. None), su_bufs = demo_bufs,
     su_boot = True, su_card_type = CARD_TYPE_SD\<rparr>"

lemma ready_send: "mmc_send_cmd ready_ops cmd data s = (0,
    if cmdidx cmd = 9 then [0x400e0032, 0x5b590000, 0x76b27f80, 0x0a404013]
    else if cmdidx cmd = 41 then [0xc0ff8000] else if cmdidx cmd = 8 then [0x1aa] else [0x900, 0, 0, 0], fst s, \<lambda>_. 0, snd (snd s))"
  by (simp add: mmc_send_cmd_def ready_ops_def split_beta)

lemma ready_status: "mmc_send_status ready_ops 1000 s = (0, fst s, \<lambda>_. 0, snd (snd s))"
  by (subst mmc_send_status_def, subst status_poll.simps) (simp add: ready_send status_ready_def status_result_def)

lemma ready_scr: "read_scr ready_ops b n s = (0, fst s, \<lambda>_. 0, snd (snd s))"
  by (subst read_scr.simps) (simp add: ready_send plain_cmd_def)

lemma ready_host: "set_ios ready_ops m w = (clock m, w)" "update_phase ready_ops m w = (0, w)"
  by (simp_all add: ready_ops_def)

lemma ready_op_cond: "sd_op_cond_loop ready_ops n s = ((0, 0xc0ff8000), fst s, \<lambda>_. 0, snd (snd s))"
  by (subst sd_op_cond_loop.simps) (simp add: ready_send plain_cmd_def)

lemma ready_identified: "\<not> has_init d \<Longrightarrow> \<not> op_cond_pending d \<Longrightarrow> part_num d = 0 \<Longrightarrow> voltages (mcfg d) = 0xff8000 \<Longrightarrow>
    \<exists>d1. mmc_start_init ready_ops \<lparr>op_init = Some (\<lambda>s. (0, s)), op_getcd = None\<rparr> True CARD_TYPE_SD (d, m, w) = (0, d1, \<lambda>_. 0, w) \<and>
      version d1 = 0x20200 \<and> high_capacity d1 \<and> same_cfg d d1 \<and> dsr d1 = dsr d \<and> \<not> op_cond_pending d1"
  by (simp add: mmc_start_init_def mmc_getcd_def ok_then_def mmc_set_bus_width_def mmc_set_clock_def mmc_set_ios_def ready_host mmc_go_idle_def
    ready_send plain_cmd_def identify_def try_sd_def mmc_send_if_cond_def sd_send_op_cond_def ready_op_cond upd_mmc_def set_ocr_def Let_def same_cfg_def)

lemma ready_started:
  assumes "version d = 0x20200" "high_capacity d" "part_num d = 0" "op_cond_pending d = False" "dsr d = 0xffffffff"
    and "f_min (mcfg d) = 400000" "f_max (mcfg d) = 200000000" "host_caps (mcfg d) = 0x67"
  shows "\<exists>d'. mmc_complete_init ready_ops demo_bufs (d, \<lambda>_. 0, w) = Some (0, d', \<lambda>_. 0, w) \<and> IS_SD d' \<and> csd d' = [0x400e0032, 0x5b590000, 0x76b27f80, 0x0a404013]"
  using assms
  by (simp add: mmc_complete_init_def mmc_startup_def startup_registers_def ready_send ready_status upd_mmc_def plain_cmd_def
    decode_csd_def fbase_def Let_def startup_select_def mmc_set_clock_def mmc_set_ios_def startup_ext_def startup_speed_def ok_then_def
    mmc_set_capacity_def sd_change_freq_def ready_scr be32_at_def mem_at_def scr_version_def startup_width_def mmc_update_phase_def
    ready_host)

lemma ready_boot:
  assumes "\<not> has_init d" "\<not> init_in_progress d" "\<not> op_cond_pending d" "part_num d = 0" "dsr d = 0xffffffff"
    and "voltages (mcfg d) = 0xff8000" "f_min (mcfg d) = 400000" "f_max (mcfg d) = 200000000" "host_caps (mcfg d) = 0x67"
  shows "\<exists>d'. mmc_init_boot ready_ops \<lparr>op_init = Some (\<lambda>s. (0, s)), op_getcd = None\<rparr> demo_bufs True CARD_TYPE_SD (d, m, w) = Some (0, d', \<lambda>_. 0, w) \<and>
    IS_SD d' \<and> csd d' = [0x400e0032, 0x5b590000, 0x76b27f80, 0x0a404013]"
proof -
  obtain d1 where 1: "mmc_start_init ready_ops \<lparr>op_init = Some (\<lambda>s. (0, s)), op_getcd = None\<rparr> True CARD_TYPE_SD (d, m, w) = (0, d1, \<lambda>_. 0, w)"
    "version d1 = 0x20200" "high_capacity d1" "same_cfg d d1" "dsr d1 = dsr d" "\<not> op_cond_pending d1"
    using ready_identified [OF assms(1,3,4,6), of m w] by (elim exE conjE) (rule that)
  have "mcfg d1 = mcfg d" "part_num d1 = part_num d" using 1(4) by (simp_all add: same_cfg_def)
  then have "\<exists>d'. mmc_complete_init ready_ops demo_bufs (d1, \<lambda>_. 0, w) = Some (0, d', \<lambda>_. 0, w) \<and> IS_SD d' \<and>
      csd d' = [0x400e0032, 0x5b590000, 0x76b27f80, 0x0a404013]"
    using 1(5,6) assms(4,5,7-9) by (intro ready_started [OF 1(2,3)]) simp_all
  then obtain d2 where 2: "mmc_complete_init ready_ops demo_bufs (d1, \<lambda>_. 0, w) = Some (0, d2, \<lambda>_. 0, w)" "IS_SD d2"
    "csd d2 = [0x400e0032, 0x5b590000, 0x76b27f80, 0x0a404013]"
    by (elim exE conjE) (rule that)
  have "mmc_init_boot ready_ops \<lparr>op_init = Some (\<lambda>s. (0, s)), op_getcd = None\<rparr> demo_bufs True CARD_TYPE_SD (d, m, w) =
      Some (0, limit_features d2, \<lambda>_. 0, w)"
    using assms(2) by (simp add: mmc_init_boot_def 1(1) 2(1) upd_mmc_def)
  with 2(2,3) show ?thesis by (intro exI [of _ "limit_features d2"]) (simp only: limit_medium simp_thms)
qed

theorem logical_init_ready_witness:
  "\<exists>devs' H c m' h' d. SDMMC_LogicalInit ready_setup 1 [None, None, None] (\<lambda>_. 0, \<lambda>_. 0) = Some (0, devs', H, c, m', h') \<and>
     find_mmc_device devs' 1 = Some (Some d) \<and> has_init d \<and> medium_ok d"
proof -
  let ?S = ready_setup
  have S: "su_env ?S = demo_env" "su_plat ?S = ram_plat" "su_iops ?S = \<lparr>op_init = Some (\<lambda>s. (0, s)), op_getcd = None\<rparr>" "su_boot ?S = True"
    "su_ops ?S = ready_ops" "su_bufs ?S = demo_bufs" "su_card_type ?S = CARD_TYPE_SD"
    by (simp_all add: ready_setup_def)
  note env = demo_env_ok
  obtain r devs1 H c m1 h1 where i: "sunxi_mmc_init (su_lib ?S) (su_script ?S) ram_plat demo_env 1 [None, None, None] (\<lambda>_. 0, \<lambda>_. 0) =
      Some (r, devs1, H, c, m1, h1)"
    using mmc_init_returns [of 1] by (metis insertCI)
  have r: "r = 0" by (rule mmc_init_succeeds [OF i env])
  obtain c1 where c1: "c1 = base_config demo_env 1" "c = c1\<lparr>host_caps := board_caps c1\<rparr>"
    and dev: "case mmc_create (Some (mmc_config.truncate c)) True (mmc_mem demo_env) of
       None \<Rightarrow> r = -1 \<and> devs1 = [None, None, None] | Some d \<Rightarrow> r = 0 \<and> devs1 = [None, None, None][nat 1 := Some d]"
    by (rule mmc_init_steps [OF i env(1)]) (rule that, simp_all only:)
  obtain d0 where d0: "mmc_create (Some (mmc_config.truncate c)) True (mmc_mem demo_env) = Some d0" "devs1 = [None, Some d0, None]"
    using dev r by (cases "mmc_create (Some (mmc_config.truncate c)) True (mmc_mem demo_env)") simp_all
  have cfg: "voltages c = 0xff8000" "f_min c = 400000" "f_max c = 200000000" "host_caps c = 0x67" "sample_mode c = 0"
    by (simp_all add: c1 base_config_def zero_config_def board_caps_def Let_def)
  have f: "\<not> has_init d0" "\<not> init_in_progress d0" "\<not> op_cond_pending d0" "part_num d0 = 0" "dsr d0 = 0xffffffff"
    "voltages (mcfg d0) = 0xff8000" "f_min (mcfg d0) = 400000" "f_max (mcfg d0) = 200000000" "host_caps (mcfg d0) = 0x67"
    using d0(1) cfg by (auto simp: mmc_create_def zero_mmc_def mmc_config.defs split: if_splits)
  obtain d where d: "mmc_init_boot ready_ops \<lparr>op_init = Some (\<lambda>s. (0, s)), op_getcd = None\<rparr> demo_bufs True CARD_TYPE_SD (d0, m1, H, h1) =
      Some (0, d, \<lambda>_. 0, H, h1)" "IS_SD d" "csd d = [0x400e0032, 0x5b590000, 0x76b27f80, 0x0a404013]"
    using ready_boot [OF f, of m1 "(H, h1)"] by (elim exE conjE) (rule that)
  have find: "find_mmc_device [None, Some d0, None] 1 = Some (Some d0)" "find_mmc_device [None, Some d, None] 1 = Some (Some d)"
    by (simp_all add: find_mmc_device_def)
  have sint1: "sint (1 :: u32) = 1" by simp
  have init: "mmc_init ready_ops \<lparr>op_init = Some (\<lambda>s. (0, s)), op_getcd = None\<rparr> (su_product ?S) demo_bufs True CARD_TYPE_SD (sample_mode c) (d0, m1, H, h1) =
      Some (0, d, \<lambda>_. 0, H, h1)"
    using f(1) cfg(5) d(1) by (simp add: mmc_init_def)
  have run: "SDMMC_LogicalInit ?S 1 [None, None, None] (\<lambda>_. 0, \<lambda>_. 0) = Some (0, [None, Some d, None], H, c, \<lambda>_. 0, h1)"
    unfolding SDMMC_LogicalInit_def S sint1 i r option.case prod.case d0(2) find init by simp
  have laws: "env_ok (su_env ?S)" "\<forall>init s. op_init (su_iops ?S) = Some init \<longrightarrow> same_cfg (fst s) (fst (snd (init s)))"
    "\<forall>getcd s. op_getcd (su_iops ?S) = Some getcd \<longrightarrow> fst (snd (getcd s)) = fst s"
    using env(1) by (simp_all add: S(1,3))
  have "unat (csd_field (csd d) 80 4) \<in> {9..11}" unfolding d(3) sdhc_fields by simp
  with logical_init_ready [OF run laws(1) S(4) [THEN eqTrueE] laws(2,3)] d(2) have "has_init d \<and> medium_ok d" unfolding sint1 find by auto
  with run find(2) show ?thesis by blast
qed

end
