(* ===== verification/LongDiv.thy ===== *)
theory LongDiv
  imports Bytes
begin

text \<open>
  The 64-bit division of the card driver, \<open>div64_32\<close> and \<open>lldiv\<close> of \<open>src/Drivers/SunxiSdMmcDxe/mmc.c\<close>: a shift and subtract
  division by a 32-bit divisor, on words of the widths of the code. A division by zero has no result (\<^const>\<open>None\<close>). The
  theorem shows that the loops end and compute quotient and remainder.
\<close>

section \<open>The code\<close>

text \<open>The scaling loop \<open>while ((int64_t)b > 0 && b < rem)\<close>: it stops when the doubled divisor passes the sign bit.\<close>

function div_scale :: "u64 \<Rightarrow> u64 \<Rightarrow> u64 \<Rightarrow> u64 \<times> u64" where
  "div_scale rem b d = (if 0 <s b \<and> b < rem then div_scale rem (b + b) (d + d) else (b, d))"
  by pat_completeness auto

lemma positive_word64: "0 <s (b :: u64) \<longleftrightarrow> 0 < unat b \<and> unat b < 2 ^ 63"
proof (cases "unat b < 2 ^ 63")
  case True
  then have "(int (unat b) + 2 ^ 63) mod 2 ^ 64 = int (unat b) + 2 ^ 63"
    by (intro mod_pos_pos_trivial) (simp_all del: of_nat_unat)
  moreover have "0 < uint b \<longleftrightarrow> 0 < unat b"
    using of_nat_0_less_iff [of "unat b", where 'a = int] by simp
  ultimately show ?thesis
    using True by (simp add: word_sless_alt sint_uint signed_take_bit_eq_take_bit_shift take_bit_eq_mod)
next
  case False
  have below: "int (unat b) < 2 ^ 64" using unat_below [of b] by (simp del: of_nat_unat)
  from False below have "(int (unat b) + 2 ^ 63 - 2 ^ 64) mod 2 ^ 64 = int (unat b) + 2 ^ 63 - 2 ^ 64"
    by (intro mod_pos_pos_trivial) (simp_all del: of_nat_unat)
  then have "(int (unat b) + 2 ^ 63) mod 2 ^ 64 = int (unat b) + 2 ^ 63 - 2 ^ 64"
    by (metis minus_mod_self2)
  with False below show ?thesis
    by (simp add: word_sless_alt sint_uint signed_take_bit_eq_take_bit_shift take_bit_eq_mod)
qed

lemma double_word64: "unat (b :: u64) < 2 ^ 63 \<Longrightarrow> unat (2 * b) = 2 * unat b"
  by (simp add: unat_word_ariths)

termination div_scale
  by (relation "measure (\<lambda>(rem, b, d). 2 ^ 64 - unat b)")
    (auto simp: positive_word64 double_word64 intro: diff_less_mono2)

declare div_scale.simps [simp del]

function div_reduce :: "u64 \<Rightarrow> u64 \<Rightarrow> u64 \<Rightarrow> u64 \<Rightarrow> u64 \<times> u64" where
  "div_reduce rem b d res =
     (let (rem, res) = (if rem \<ge> b then (rem - b, res + d) else (rem, res));
          b = drop_bit 1 b;
          d = drop_bit 1 d
      in if d \<noteq> 0 then div_reduce rem b d res else (res, rem))"
  by pat_completeness auto

lemma half_word64: "unat (drop_bit (Suc 0) (d :: u64)) = unat d div 2"
  by (simp add: drop_bit_eq_div unat_div)

termination div_reduce
  by (relation "measure (\<lambda>(rem, b, d, res). unat d)") (auto simp: half_word64 simp flip: unat_gt_0 split: if_splits)

declare div_reduce.simps [simp del]

text \<open>The new value of \<open>*n\<close> and the result.\<close>

definition div64_32 :: "u64 \<Rightarrow> u32 \<Rightarrow> (u64 \<times> u32) option" where
  "div64_32 n base =
     (let high = ucast (drop_bit 32 n) :: u32 in
      if base = 0 then None
      else
        let (rem, res) = (if high \<ge> base
              then (n - push_bit 32 (ucast ((high div base) * base)), push_bit 32 (ucast (high div base))) else (n, 0));
            (b, d) = div_scale rem (ucast base) 1;
            (res, rem) = div_reduce rem b d res
        in Some (res, ucast rem))"

definition lldiv :: "u64 \<Rightarrow> u32 \<Rightarrow> u64 option" where
  "lldiv dividend divisor =
     (if drop_bit 32 dividend = 0
      then if divisor = 0 then None else Some (ucast (ucast dividend div divisor :: u32))
      else map_option fst (div64_32 dividend divisor))"

section \<open>Correctness\<close>

lemma div_scale_bound:
  assumes "unat b = base * 2 ^ k" "unat d = 2 ^ k" "0 < base"
  shows "\<exists>j. unat (fst (div_scale rem b d)) = base * 2 ^ j \<and> unat (snd (div_scale rem b d)) = 2 ^ j
    \<and> unat rem < 2 * unat (fst (div_scale rem b d))"
  using assms
proof (induction rem b d arbitrary: k rule: div_scale.induct)
  case (1 rem b d)
  show ?case
  proof (cases "0 <s b \<and> b < rem")
    case True
    then have "unat b < 2 ^ 63" by (simp add: positive_word64)
    moreover from this "1.prems" have "unat d < 2 ^ 63"
      by (metis le_less_trans mult.commute mult_le_mono2 nat_mult_1_right Suc_leI One_nat_def)
    ultimately show ?thesis
      using "1.IH" [OF True, of "Suc k"] "1.prems" True by (simp add: double_word64 div_scale.simps [of rem b d])
  next
    case False
    have "0 < unat b" using "1.prems" by simp
    with False have "unat b \<ge> 2 ^ 63 \<or> unat rem \<le> unat b"
      by (auto simp: positive_word64 word_less_nat_alt)
    with \<open>0 < unat b\<close> have "unat rem < 2 * unat b"
      using unat_below [of rem] by auto
    with "1.prems" False show ?thesis by (auto simp: div_scale.simps [of rem b d])
  qed
qed

lemma div_reduce_correct:
  assumes "unat b = base * 2 ^ k" "unat d = 2 ^ k" "0 < base" "unat rem < 2 * unat b"
    "unat res * base + unat rem = N" "N < 2 ^ 64"
  shows "unat (fst (div_reduce rem b d res)) = N div base \<and> unat (snd (div_reduce rem b d res)) = N mod base"
  using assms
proof (induction rem b d res arbitrary: k rule: div_reduce.induct)
  case (1 rem b d res)
  define rem' res' where "rem' = (if rem \<ge> b then rem - b else rem)" and "res' = (if rem \<ge> b then res + d else res)"
  have step: "(if rem \<ge> b then (rem - b, res + d) else (rem, res)) = (rem', res')"
    by (simp add: rem'_def res'_def)
  have rem': "unat rem' < base * 2 ^ k"
    using "1.prems" by (auto simp: rem'_def word_le_nat_alt unat_sub)
  have sum': "unat res' * base + unat rem' = N"
  proof (cases "rem \<ge> b")
    case True
    then have "unat b \<le> unat rem" by (simp add: word_le_nat_alt)
    then have eq: "(unat res + unat d) * base + (unat rem - unat b) = N"
      using "1.prems" by (simp add: algebra_simps)
    moreover from this have "unat res + unat d \<le> N"
      by (metis "1.prems"(3) Suc_leI One_nat_def le_add1 mult.commute mult_le_mono1 mult_1 order_trans)
    then have "unat (res + d) = unat res + unat d"
      using "1.prems"(6) by (simp add: unat_word_ariths)
    ultimately show ?thesis using True by (simp add: rem'_def res'_def unat_sub)
  qed (use "1.prems" in \<open>simp add: rem'_def res'_def\<close>)
  show ?case
  proof (cases k)
    case 0
    then have "drop_bit 1 d = 0"
      using "1.prems"(2) by (simp add: half_word64 flip: unat_eq_zero)
    then have "div_reduce rem b d res = (res', rem')"
      by (simp add: div_reduce.simps [of rem b d res] step)
    moreover have "N div base = unat res'" "N mod base = unat rem'"
      using sum' rem' 0 "1.prems"(3) by auto
    ultimately show ?thesis by simp
  next
    case (Suc j)
    have d: "unat (drop_bit 1 d) = 2 ^ j" and b: "unat (drop_bit 1 b) = base * 2 ^ j"
      using "1.prems"(1,2) Suc by (simp_all add: half_word64)
    then have "drop_bit 1 d \<noteq> 0" by (metis power_not_zero unat_0 zero_neq_numeral)
    moreover have "unat rem' < 2 * unat (drop_bit 1 b)" using rem' b Suc by simp
    ultimately show ?thesis
      using "1.IH" [OF step [symmetric] refl refl refl, of j] d b sum' "1.prems"(3,6)
      by (simp add: div_reduce.simps [of rem b d res] step)
  qed
qed


text \<open>The first reduction leaves a value below \<open>base * 2\<^sup>3\<^sup>2\<close> and keeps \<open>res * base + rem\<close>.\<close>

lemma high_word_reduced:
  fixes n :: u64 and base :: u32
  defines "h \<equiv> ucast (drop_bit 32 n) :: u32"
  assumes "base \<noteq> 0"
  shows "unat (push_bit 32 (ucast (h div base)) :: u64) * unat base
    + unat (n - push_bit 32 (ucast (h div base * base))) = unat n"
proof -
  have h: "unat h = unat n div 2 ^ 32"
    using unat_below [of n]
    by (simp add: h_def unsigned_ucast_eq drop_bit_eq_div unat_div take_bit_nat_eq_self less_mult_imp_div_less)
  define q where "q = unat h div unat base"
  have q: "unat (h div base) = q" by (simp add: q_def unat_div)
  have qb: "q * unat base \<le> unat h" by (simp add: q_def div_times_less_eq_dividend)
  have hb: "unat h < 2 ^ 32" using unat_below [of h] by simp
  have "q \<le> unat h" by (simp add: q_def)
  have mul: "unat (h div base * base) = q * unat base"
    using qb hb by (simp only: unat_word_ariths(2) q) simp
  have shift: "unat (push_bit 32 (ucast w :: u64)) = unat w * 2 ^ 32" for w :: u32
    using unat_below [of w] by (simp add: push_bit_eq_mult unat_word_ariths unsigned_ucast_eq take_bit_nat_eq_self)
  have "q * unat base * 2 ^ 32 \<le> unat n"
    using qb h by (metis div_times_less_eq_dividend le_trans mult_le_mono1)
  then have "unat (n - push_bit 32 (ucast (h div base * base))) = unat n - q * unat base * 2 ^ 32"
    by (simp add: shift mul unat_sub word_le_nat_alt)
  with \<open>q * unat base * 2 ^ 32 \<le> unat n\<close> show ?thesis
    by (simp add: shift q)
qed

lemma div64_32_correct:
  assumes "base \<noteq> 0"
  shows "div64_32 n base = Some (n div ucast base, ucast (n mod ucast base))"
proof -
  define h where "h = (ucast (drop_bit 32 n) :: u32)"
  obtain rem and res :: u64 where first: "(if h \<ge> base then (n - push_bit 32 (ucast ((h div base) * base)), push_bit 32 (ucast (h div base)))
      else (n, 0)) = (rem, res)" by (metis surj_pair)
  have base: "unat (ucast base :: u64) = unat base" "0 < unat base"
    using assms by (simp_all add: unsigned_ucast_eq take_bit_nat_eq_self unat_gt_0 less_trans [OF unat_below])
  have keep: "unat res * unat base + unat rem = unat n"
    using first high_word_reduced [OF assms, of n] by (auto simp: h_def split: if_splits)
  obtain b d where scale: "div_scale rem (ucast base) 1 = (b, d)" by (metis surj_pair)
  from div_scale_bound [of "ucast base" "unat base" 0 1 rem] scale base
  obtain j where j: "unat b = unat base * 2 ^ j" "unat d = 2 ^ j" "unat rem < 2 * unat b" by auto
  obtain q r where reduce: "div_reduce rem b d res = (q, r)" by (metis surj_pair)
  have "unat q = unat n div unat base \<and> unat r = unat n mod unat base"
    using div_reduce_correct [OF j(1,2) base(2) j(3) keep] unat_below [of n] reduce by simp
  then have "q = n div ucast base" "r = n mod ucast base"
    using base(1) by (simp_all add: word_unat_eq_iff unat_div unat_mod)
  then show ?thesis
    using assms first scale reduce by (simp add: div64_32_def Let_def flip: h_def)
qed

text \<open>
  C40: The 64-bit division computes the quotient: \<open>div64_32\<close> stores the quotient and returns the remainder, and \<open>lldiv\<close>
  returns the quotient, for every dividend and every divisor but zero; the scaling and reducing loops end without
  overflowing.
\<close>

theorem long_division_correct:
  assumes "base \<noteq> 0"
  shows "div64_32 n base = Some (n div ucast base, ucast (n mod ucast base)) \<and> lldiv n base = Some (n div ucast base)"
proof -
  have "ucast (ucast n div base :: u32) = n div ucast base" if "drop_bit 32 n = 0"
  proof -
    have "unat n div 2 ^ 32 = 0" using that by (metis drop_bit_eq_div unat_0 unat_div unat_drop_bit_eq)
    then have "unat n < 2 ^ 32" by (simp add: div_eq_0_iff)
    moreover have "unat n div unat base < 2 ^ 64"
      by (rule le_less_trans [OF div_le_dividend]) (use unat_below [of n] in simp)
    ultimately show ?thesis
      using unat_below [of base]
      by (simp add: word_unat_eq_iff unat_div unsigned_ucast_eq take_bit_nat_eq_self)
  qed
  then show ?thesis
    using div64_32_correct [OF assms, of n] assms by (simp add: lldiv_def)
qed

theorem long_division_correct_witness:
  "div64_32 0x123456789ABCDEF0 1000 = Some (0x123456789ABCDEF0 div 1000, ucast (0x123456789ABCDEF0 mod (1000 :: u64)))
   \<and> lldiv 0x123456789ABCDEF0 1000 = Some 1311768467463790"
  using long_division_correct [of 1000 "0x123456789ABCDEF0"] by simp

end
