(* ===== verification/Spec2Isabelle.thy ===== *)
theory Spec2Isabelle
  imports Queue Axp81xRails Axp81x Rsb Checksum Partition Rtc ScriptTable CpuClock PowerSetup GpioPins
    Dma Bounce Twi MmcBoard LongDiv
begin

text \<open>
  Verification of the PinePhone UEFI platform package (\<open>src/\<close>): the firmware parts that talk to
  the power chip, verify and read partition tables, and the small libraries they rest on. All
  integers have the width of the AArch64 build: \<open>UINTN\<close> and \<open>EFI_STATUS\<close> are 64 bits wide,
  \<open>int\<close> and \<open>UINT32\<close> 32, \<open>UINT8\<close> 8.

  \<^bold>\<open>The program.\<close> A client asks the AXP power protocol to set or probe a supply by name. The
  AXP81X driver finds the rail, converts millivolts to a register value and edits registers with
  read-modify-write sequences through a table of two bus functions. One flavour of that table goes
  through the SMBus protocol (the DXE driver), the other calls the bus library directly. Both end in
  the reduced-serial-bus driver, which uses either the controller's registers (polling until it
  is idle) or, when the secure firmware owns the bus, secure monitor calls. At boot the
  platform library reads the board's binary script (sections of named words, strings and pins)
  and from it sets the core voltage and clock, the supplies and the charger limits through this
  stack, and the pins through the pin library. SD cards and eMMC are block devices: the block protocol cuts
  transfers into chunks and sends commands through a table of host functions, those of the SD/MMC controller's driver. Beside it stand the partition library (vendor MBR and
  GPT, guarded by CRC-32), the image checksum library, an item queue and a virtual clock.

  \<^bold>\<open>The theories.\<close>
  \<^item> \<open>Prelude\<close>: machine types, C conversions, strings, little-endian bytes, lemmas on words and lists.
  \<^item> \<open>Queue\<close> (\<open>SunxiQueueLib.c\<close>): the \<open>QUEUE\<close> record with one buffer of bytes and slot offsets; \<open>InitQueue\<close>,
    \<open>Enqueue\<close>, \<open>Dequeue\<close>, \<open>IsQueueEmpty\<close>, \<open>IsQueueFull\<close>. Allocation is the argument \<open>pool\<close>. The locale
    \<open>bounded_fifo\<close> is the contract of a bounded FIFO; \<open>ring\<close> interprets it on the code's operations.
    The lemmas show that the ring refines a list, that the invariant holds in every reachable
    queue, and that what is put in comes out in order.
  \<^item> \<open>PmBus\<close> (\<open>AxpPower.h\<close>): the table \<open>AXP_PM_BUS_OPS\<close> as a record of two functions on a bus state, the
    locale \<open>register_bus\<close> (a write that succeeds changes exactly its register, one that fails leaves
    the old or the new value there, a read that succeeds delivers the register and changes none), its instance \<open>mem\<close> on
    plain registers, and the reference behaviour of a rail (\<open>rail_set\<close>, \<open>rail_probe\<close>).
  \<^item> \<open>Axp81xRegs\<close> (\<open>Axp81XReg.h\<close>), \<open>Axp81xSupply\<close> (\<open>Axp81XSupply.c\<close>): every set, probe and dispatch
    function of the twenty rails, each written from its own C body. The conversion of decimal
    digits, \<open>AsciiStrDecimalToUintn\<close>, is the argument \<open>s2u\<close> with the law \<open>decimal_law\<close>.
  \<^item> \<open>Axp81xRails\<close>: the table \<open>rail_spec_of\<close> (registers, ranges, enable bits of each rail) and the
    refinements of all set and probe functions to it, over any \<open>register_bus\<close>. From there: effect on
    the named rail, frame on all the others, voltage quantisation, set/probe round trip, and the
    places where probe and set disagree.
  \<^item> \<open>Axp81x\<close> (\<open>Axp81X.c\<close>): detection, system mode, power-off, interrupts, battery, charger and VBUS
    limits; round trips, and the exact effect of the interrupt enable and disable calls.
  \<^item> \<open>Smc\<close> (\<open>SunxiSmcLib.c\<close>): the wrappers over the monitor trap, and register access through it.
  \<^item> \<open>Rsb\<close> (\<open>Rsb.c\<close>, \<open>SmBusDxe.c\<close>, \<open>SmBusLib.c\<close>, \<open>Axp81XDxe.c\<close>, \<open>Axp81XLib.c\<close>): bus driver, SMBus layer and
    both bus tables. The platform is the record \<open>plat\<close>: reads and writes of memory-mapped
    registers and the trap, on an arbitrary hardware state. The locale \<open>pmu_firmware\<close> states what the
    secure firmware promises about its read and write calls; it gives \<open>register_bus\<close>
    (sublocale), so the rail lemmas hold over the real stack, and \<open>arisc\<close> interprets it.
  \<^item> \<open>Checksum\<close> (\<open>SunxiCheckLib.c\<close>, \<open>Crc32.c\<close>): the table-driven CRC-32 equals the bit-serial one and detects
    every error within four consecutive bytes; the stamped image checksum verifies after it is generated.
  \<^item> \<open>Partition\<close> (\<open>SunxiPartitionLib.c\<close>): the static buffers as the state \<open>part_state\<close>; verification and
    lookups of the MBR, GPT creation, conversion of the backup header, GPT loading and lookups.
    Block reads are an argument of the loading function.
  \<^item> \<open>Bytes\<close>: byte buffers and a flat memory of bytes, with the frame lemmas for stores to regions that
    lie apart.
  \<^item> \<open>Script\<close> (first half of \<open>SysConfigLib.c\<close>): every operation of the script parser, on the flat memory.
    The string functions of EDK2 are the record \<open>str_lib\<close> with the law \<open>str_lib_law\<close>; \<open>base_str_lib\<close> meets it.
  \<^item> \<open>ScriptTable\<close>: the table of typed values a script stands for. Fetching is a lookup in it, patching
    an update of it, and every sequence of patches keeps names, types and places.
  \<^item> \<open>Mmio\<close>: read-modify-write of device registers and the locale \<open>mmio_registers\<close> (registers that keep what
    is written), with the instance \<open>ram\<close>.
  \<^item> \<open>CpuClock\<close> (\<open>Sun50iW1P1Clock.c\<close>): the factor table and the switch of the core clock; the frequency read
    back is the one asked for, and the PLL is only touched while the core runs from the oscillator.
  \<^item> \<open>PowerSetup\<close> (\<open>Sun50iW1P1.c\<close>): core voltage and frequency, supplies, charge current, USB limits and
    power-off voltage from the script. The locale \<open>power_domain\<close> joins the firmware's power
    chip with the clock registers, \<open>board\<close> interprets it; the endless supply loop is a \<open>function\<close> with a
    termination proof.
  \<^item> \<open>Gpio\<close> (second half of \<open>SysConfigLib.c\<close>): requests, release, status and single-pin calls of the pin
    library, with its 64-bit accesses to 32-bit registers. \<open>GpioPins\<close>: each pin's fields as an abstract
    state; a request that collects changes group by group refines programming pin after pin.
  \<^item> \<open>Dma\<close> (\<open>SunxiDma.c\<close>): channels, descriptors and channel interrupts. The interrupt controller is the record \<open>gic\<close>,
    descriptor buffers come from the argument \<open>alloc\<close>. The locale \<open>dma_hardware\<close> adds the interrupt line to
    \<open>mmio_registers\<close>, \<open>flag\<close> interprets it; the bookkeeping of the shared line is an invariant of all reachable states.
  \<^item> \<open>Bounce\<close> (\<open>BounceBuf.c\<close>): aligned pages and bounce buffer sessions over the flat memory. The page allocator of
    UEFI is the record \<open>boot_services\<close> with the contract \<open>page_pool\<close>, which \<open>top_pool\<close> meets.
  \<^item> \<open>Twi\<close> (\<open>SunxiTwiLib.c\<close>): the I2C transfers and the set-up of the controllers. A platform that records the
    accesses to the data register (\<open>logged\<close>) shows what goes over the wire, whatever controller and bus do.
  \<^item> \<open>Mmc\<close> (\<open>mmc.c\<close>, \<open>mmc_write.c\<close>, \<open>mmc_op.c\<close>, \<open>SdMmcDxe.c\<close>): commands, status polling and block transfers of the SD/MMC
    driver up to the block protocol. The host functions are the record \<open>mmc_ops\<close>; \<open>set_ios\<close> also gives the clock that the host
    really set, which the driver finds in its card description. The locale \<open>block_card\<close> states what a
    card promises about commands of at most \<open>b_max\<close> blocks (nothing for larger ones), \<open>sectors\<close> interprets it. The transfer loops are \<open>partial_function (option)\<close> and are
    proved to return. \<open>MmcSwitch\<close> (\<open>mmc.c\<close>): extended CSD, speed modes, bus width and hardware partitions over the locale \<open>ext_csd_card\<close>,
    with the instance \<open>csd\<close>. \<open>MmcErase\<close> (\<open>mmc_write.c\<close>): every erase, trim, discard and wipe operation; a log of the erase
    commands shows that an erase stays within its range and reports the rest. \<open>MmcStart\<close> (\<open>mmc.c\<close>): identification and
    start-up of a card; the fields of the CSD as slices of the 128-bit register are the reference for the decoded
    size. \<open>LongDiv\<close>: the 64-bit division.
  \<^item> \<open>MmcHost\<close> (\<open>sunxi_host0_2_v4p1.c\<close>, \<open>sunxi_host_mmc.c\<close>): the SD/MMC controller: clock divider, delays, bus mode, calibration,
    register backup, retry policy and timing tables. The host structure is the record \<open>sunxi_mmc_host\<close>; its pointer to the card becomes
    a state of card, host and hardware. Over \<open>mmio_registers\<close> the lemmas show how the bus is left, what a saved register gets back and which
    sample points the retries visit. \<open>MmcXfer\<close> (same file): descriptors, transfers and the command with its waits and its recovery; the DMA
    engine is the argument \<open>idma\<close>. The recording platform \<open>logged\<close> shows what a successful command has done. \<open>MmcBoard\<close>
    (\<open>sunxi_host_mmc.c\<close>, \<open>mmc.c\<close>, \<open>mmc_op.c\<close>): the parameters of a board from its script, set-up and registration of a controller, and
    \<open>SDMMC_LogicalInit\<close> from there to a card that serves block transfers. The start that tunes the bus (\<open>mmc_init_product\<close>) is its argument
    \<open>product\<close>; \<open>sunxi_mmc_ops\<close> puts the controller's functions into the table of the block layer, where \<open>stuck\<close> stands for the result of a command that
    never ends.
  \<^item> \<open>Rtc\<close> (\<open>VirtualRealTimeClockLib.c\<close>): the time of day from the ARM counter, which is an argument.
  This theory joins the driver with the bus: the two theorems below state what a supply call does
  to the chip's registers from the protocol down to the firmware.

  \<^bold>\<open>Errors, loops and bounds.\<close> Status codes are values. An access the C code leaves undefined
  (null pointer, outside a buffer) is \<open>None\<close>. The three polling loops of the bus driver (and the transfer loops of \<open>Mmc\<close>) are
  \<open>partial_function (option)\<close>, as are the waits for a reset of the SD/MMC controller: \<open>None\<close> is a loop that never ends. That they do return, and with what,
  is proved from the first poll at which the hardware shows its event (\<open>first_event\<close>), with no bound on
  the number of polls. All other loops have a fixed bound in the source and are structural
  recursion or recursion with a proved measure.

  \<^bold>\<open>Not modelled.\<close> Debug prints, protocol installation and entry points (UEFI glue), \<open>InitializeTwiBus\<close> of the
  bus driver, the partition name getters and the functions that print
  the tables, \<open>DestroyQueue\<close> (it only frees), the NEON checksum variant, which the build does not select.
  The drivers for chips other than the AXP81X, tuning and flash protocols of the SD/MMC
  driver and its card detection timer, the USB drivers and the co-processor messages are outside the development; the display engine is
  vendored code.
\<close>

section \<open>The power driver over the secure firmware\<close>

text \<open>
  C1: the whole stack, from \<open>Axp81XSetSupplyStatusByName\<close> of the DXE driver through the SMBus
  protocol and the bus driver down to the secure firmware. A call that returns 0 leaves the
  named rail on or off as asked (a negative \<open>OnOff\<close> keeps it) and at the voltage of the
  selected step (a voltage of 0 or less keeps it); whatever the call returns, no other rail
  changes its state or its voltage.
\<close>

theorem supply_set_end_to_end:
  fixes junk :: u8
  assumes fw: "pmu_firmware p pmu cfg" and cfg: "rail_regs \<subseteq> cfg" and dec: "decimal_law s2u"
    and run: "Axp81XSetSupplyStatusByName s2u (Axp81XDxe_PmBusOps p junk) (rail_name r) Voltage OnOff d = (st, d')"
  defines "s \<equiv> rail_spec_of r" and "v \<equiv> to_int32 Voltage" and "onoff \<equiv> to_int32 OnOff"
    and "R \<equiv> pmu (snd d)" and "R' \<equiv> pmu (snd d')"
  shows "(st = 0 \<longrightarrow>
       rail_on s R' = (if onoff < 0 then rail_on s R else onoff \<noteq> 0) \<and>
       rail_mv s R' = (if 0 < v then v_of_sel (rs_range s) (v_sel (rs_range s) v) else rail_mv s R)) \<and>
     (\<forall>t. t \<noteq> r \<longrightarrow> rail_on (rail_spec_of t) R' = rail_on (rail_spec_of t) R \<and>
       rail_mv (rail_spec_of t) R' = rail_mv (rail_spec_of t) R)"
  using set_by_name_effect [OF pmu_firmware.dxe_register_bus [OF fw] cfg dec run]
  unfolding s_def v_def onoff_def R_def R'_def .

theorem supply_set_end_to_end_witness:
  "let d = (rsb_started, \<lambda>_. 0);
       run = Axp81XSetSupplyStatusByName decimal_prefix (Axp81XDxe_PmBusOps arisc_plat 0xaa) (rail_name DCDC2) 1100 1 d
   in fst run = 0 \<and> rail_on (rail_spec_of DCDC2) (snd (snd run)) \<and> \<not> rail_on (rail_spec_of DCDC3) (snd (snd run))"
proof -
  let ?run = "Axp81XSetSupplyStatusByName decimal_prefix (Axp81XDxe_PmBusOps arisc_plat 0xaa) (rail_name DCDC2) 1100 1
    (rsb_started, \<lambda>_. 0)"
  have st: "fst ?run = 0" by code_simp
  then have run: "?run = (0, snd ?run)" by (metis prod.collapse)
  have on: "to_int32 1 = 1" by code_simp
  have off: "\<not> rail_on (rail_spec_of DCDC3) (\<lambda>_. 0)" by code_simp
  show ?thesis
    using supply_set_end_to_end [OF arisc.pmu_firmware_axioms rail_regs_arisc decimal_prefix_law run] st on off
    by (simp add: Let_def del: rail_name.simps)
qed

text \<open>
  C3: over the same stack, setting a rail and probing it by name: for the seventeen rails that the
  probe serves correctly, a successful set that switches the rail on at a positive voltage is
  followed by a probe that returns the programmed voltage in millivolts; after switching the
  rail off the probe returns 0. The probe changes no register.
\<close>

theorem supply_probe_end_to_end:
  fixes junk :: u8
  assumes fw: "pmu_firmware p pmu cfg" and cfg: "rail_regs \<subseteq> cfg" and dec: "decimal_law s2u"
    and set: "Axp81XSetSupplyStatusByName s2u (Axp81XDxe_PmBusOps p junk) (rail_name r) Voltage OnOff d = (0, d1)"
    and vals: "0 < to_int32 Voltage" "0 \<le> to_int32 OnOff" and r: "probed r"
    and probe: "Axp81XProbeSupplyStatusByName s2u (Axp81XDxe_PmBusOps p junk) (rail_name r) d1 = (ret, vol, d2)"
  defines "rg \<equiv> rs_range (rail_spec_of r)"
  shows "ret = efi_of_int (if to_int32 OnOff = 0 then 0 else v_of_sel rg (v_sel rg (to_int32 Voltage))) \<and>
    (\<forall>a\<in>cfg. pmu (snd d2) a = pmu (snd d1) a)"
proof -
  have "\<forall>a e. fst (bus_read (Axp81XDxe_PmBusOps p junk) a e) = 0"
    by (simp add: dxe_ops lib_reads_succeed)
  from set_probe_round_trip [OF pmu_firmware.dxe_register_bus [OF fw] cfg dec set vals r this probe]
  show ?thesis unfolding rg_def .
qed

theorem supply_probe_end_to_end_witness:
  "let d = (rsb_started, \<lambda>_. 0); ops = Axp81XDxe_PmBusOps arisc_plat 0xaa;
       run = Axp81XSetSupplyStatusByName decimal_prefix ops (rail_name ALDO2) 1850 1 d
   in fst run = 0 \<and>
      fst (Axp81XProbeSupplyStatusByName decimal_prefix ops (rail_name ALDO2) (snd run)) = efi_of_int 1800"
proof -
  let ?ops = "Axp81XDxe_PmBusOps arisc_plat 0xaa"
  let ?run = "Axp81XSetSupplyStatusByName decimal_prefix ?ops (rail_name ALDO2) 1850 1 (rsb_started, \<lambda>_. 0)"
  let ?p = "Axp81XProbeSupplyStatusByName decimal_prefix ?ops (rail_name ALDO2) (snd ?run)"
  have st: "fst ?run = 0" by code_simp
  then have run: "?run = (0, snd ?run)" by (metis prod.collapse)
  have p: "?p = (fst ?p, fst (snd ?p), snd (snd ?p))" by simp
  have v: "to_int32 1850 = 1850" "to_int32 1 = 1" by code_simp+
  have r: "probed ALDO2" by (simp add: probed_def)
  show ?thesis
    using supply_probe_end_to_end [OF arisc.pmu_firmware_axioms rail_regs_arisc decimal_prefix_law run _ _ r p] st v
    by (simp add: Let_def rail_spec_of.simps v_sel_uniform v_of_sel_uniform c_clamp_def del: rail_name.simps)
qed

end
